(* ===== verification/Prelude.thy ===== *)
theory Prelude
  imports Complex_Main "HOL-Library.AList"
begin

text \<open>
  Shared vocabulary of the development: results that may be an error, association-list
  tables that stand for database tables, and the few string operations of Python that the
  code uses. The lemma collections \<open>res_simps\<close> (error plumbing), \<open>table_simps\<close> (table
  look-up laws) and \<open>text_simps\<close> (string laws) are extended by the other theories.
\<close>

named_theorems res_simps "rewriting of results that may be an error"
named_theorems table_simps "laws of association-list tables"
named_theorems text_simps "laws of the string operations"

section \<open>Results\<close>

text \<open>
  A function of the code that may raise returns a value of a sum type: \<open>Inl\<close> carries the
  exception, \<open>Inr\<close> the returned value. \<open>bindE\<close> sequences two such computations and
  \<open>ensure\<close> is the idiom \<open>if not condition: raise error\<close>.
\<close>

definition bindE :: "'e + 'a \<Rightarrow> ('a \<Rightarrow> 'e + 'b) \<Rightarrow> 'e + 'b" where
  "bindE m f = (case m of Inl e \<Rightarrow> Inl e | Inr x \<Rightarrow> f x)"

definition ensure :: "bool \<Rightarrow> 'e \<Rightarrow> 'e + unit" where
  "ensure b e = (if b then Inr () else Inl e)"

definition from_option :: "'e \<Rightarrow> 'a option \<Rightarrow> 'e + 'a" where
  "from_option e m = (case m of None \<Rightarrow> Inl e | Some x \<Rightarrow> Inr x)"

lemma bindE_Inl [simp, code_unfold]: "bindE (Inl e) f = Inl e"
  by (simp add: bindE_def)

lemma bindE_Inr [simp, code_unfold]: "bindE (Inr x) f = f x"
  by (simp add: bindE_def)

lemma bindE_eq_Inr [res_simps]: "bindE m f = Inr y \<longleftrightarrow> (\<exists>x. m = Inr x \<and> f x = Inr y)"
  by (cases m) (simp_all add: bindE_def)

lemma bindE_eq_Inl [res_simps]:
  "bindE m f = Inl e \<longleftrightarrow> m = Inl e \<or> (\<exists>x. m = Inr x \<and> f x = Inl e)"
  by (cases m) (simp_all add: bindE_def)

lemma bindE_pairE:
  assumes "bindE m (\<lambda>(a, b). f a b) = Inr y"
  obtains a b where "m = Inr (a, b)" and "f a b = Inr y"
  using assms by (cases m) auto

lemma bindE_InrE:
  assumes "bindE m f = Inr y"
  obtains x where "m = Inr x" and "f x = Inr y"
  using assms by (cases m) auto

lemma bindE_assoc: "bindE (bindE m f) g = bindE m (\<lambda>x. bindE (f x) g)"
  by (cases m) simp_all

lemma ensure_eq_Inr [res_simps]: "ensure b e = Inr u \<longleftrightarrow> b"
  by (simp add: ensure_def)

lemma ensure_eq_Inl [res_simps]: "ensure b e = Inl e' \<longleftrightarrow> \<not> b \<and> e' = e"
  by (auto simp: ensure_def)

lemma ensure_True [simp]: "ensure True e = Inr ()"
  by (simp add: ensure_def)

lemma ensure_False [simp]: "ensure False e = Inl e"
  by (simp add: ensure_def)

lemma from_option_eq_Inr [res_simps]: "from_option e m = Inr x \<longleftrightarrow> m = Some x"
  by (cases m) (simp_all add: from_option_def)

lemma from_option_eq_Inl [res_simps]: "from_option e m = Inl e' \<longleftrightarrow> m = None \<and> e' = e"
  by (cases m) (auto simp: from_option_def)

lemma from_option_simps [simp]:
  "from_option e None = Inl e" "from_option e (Some x) = Inr x"
  by (simp_all add: from_option_def)

section \<open>Tables\<close>

text \<open>
  A database table is a list of rows paired with their primary keys, in the order the rows
  were inserted. \<open>get_row\<close> is \<open>objects.get(pk=\<dots>)\<close> (or \<open>None\<close> where Django raises
  \<open>DoesNotExist\<close>), \<open>filter_rows\<close> is \<open>objects.filter(\<dots>)\<close>, \<open>first_row\<close> is
  \<open>filter(\<dots>).first()\<close> over rows in primary-key order, \<open>add_row\<close> is the INSERT of a
  new row under a fresh key and \<open>put_row\<close> the UPDATE of the row with a key.
\<close>

type_synonym 'r table = "(nat \<times> 'r) list"

definition get_row :: "'r table \<Rightarrow> nat \<Rightarrow> 'r option" where
  "get_row t k = map_of t k"

definition filter_rows :: "(nat \<Rightarrow> 'r \<Rightarrow> bool) \<Rightarrow> 'r table \<Rightarrow> 'r table" where
  "filter_rows P t = filter (\<lambda>(k, r). P k r) t"

definition exists_row :: "(nat \<Rightarrow> 'r \<Rightarrow> bool) \<Rightarrow> 'r table \<Rightarrow> bool" where
  "exists_row P t = list_ex (\<lambda>(k, r). P k r) t"

definition first_row :: "(nat \<Rightarrow> 'r \<Rightarrow> bool) \<Rightarrow> 'r table \<Rightarrow> (nat \<times> 'r) option" where
  "first_row P t = find (\<lambda>(k, r). P k r) t"

definition fresh_pk :: "'r table \<Rightarrow> nat" where
  "fresh_pk t = Suc (foldr (\<lambda>(k, r) m. max k m) t 0)"

definition add_row :: "'r \<Rightarrow> 'r table \<Rightarrow> 'r table" where
  "add_row r t = t @ [(fresh_pk t, r)]"

definition put_row :: "nat \<Rightarrow> 'r \<Rightarrow> 'r table \<Rightarrow> 'r table" where
  "put_row k r t = map (\<lambda>(k', r'). if k' = k then (k', r) else (k', r')) t"

text \<open>\<open>Sum\<close> over the rows of a queryset, and its \<open>count()\<close>.\<close>

definition sum_rows :: "(nat \<Rightarrow> 'r \<Rightarrow> bool) \<Rightarrow> ('r \<Rightarrow> 'v::comm_monoid_add) \<Rightarrow> 'r table \<Rightarrow> 'v" where
  "sum_rows P f t = sum_list (map (\<lambda>(k, r). f r) (filter_rows P t))"

definition count_rows :: "(nat \<Rightarrow> 'r \<Rightarrow> bool) \<Rightarrow> 'r table \<Rightarrow> nat" where
  "count_rows P t = length (filter_rows P t)"

definition wf_table :: "'r table \<Rightarrow> bool" where
  "wf_table t \<longleftrightarrow> distinct (map fst t)"

lemma fresh_pk_greater: "(k, r) \<in> set t \<Longrightarrow> k < fresh_pk t"
proof (induction t)
  case (Cons a t)
  then show ?case by (cases a) (auto simp: fresh_pk_def less_Suc_eq_le max_def)
qed simp

lemma fresh_pk_notin [simp]: "fresh_pk t \<notin> fst ` set t"
  using fresh_pk_greater by (metis (no_types, lifting) image_iff less_irrefl prod.collapse)

lemma get_row_fresh [simp]: "get_row t (fresh_pk t) = None"
  by (simp add: get_row_def map_of_eq_None_iff)

lemma get_add_row [table_simps]:
  "get_row (add_row r t) k = (if k = fresh_pk t then Some r else get_row t k)"
proof (cases "k = fresh_pk t")
  case True
  moreover have "map_of t (fresh_pk t) = None"
    by (simp add: map_of_eq_None_iff)
  ultimately show ?thesis
    by (simp add: get_row_def add_row_def map_add_def)
next
  case False
  then show ?thesis
    by (simp add: get_row_def add_row_def map_add_def split: option.split)
qed

lemma get_put_row [table_simps]:
  "get_row (put_row k r t) k' =
     (if k' = k \<and> get_row t k \<noteq> None then Some r else get_row t k')"
  by (induction t) (auto simp: get_row_def put_row_def)

lemma keys_put_row [simp]: "map fst (put_row k r t) = map fst t"
  by (induction t) (auto simp: put_row_def)

lemma length_put_row [simp]: "length (put_row k r t) = length t"
  by (simp add: put_row_def)

lemma fresh_pk_put_row [simp]: "fresh_pk (put_row k r t) = fresh_pk t"
  by (induction t) (auto simp: fresh_pk_def put_row_def)

lemma wf_add_row [simp, intro]: "wf_table t \<Longrightarrow> wf_table (add_row r t)"
  by (simp add: wf_table_def add_row_def)

lemma wf_put_row [simp]: "wf_table (put_row k r t) = wf_table t"
  by (simp add: wf_table_def)

lemma wf_table_Nil [simp]: "wf_table []"
  by (simp add: wf_table_def)

lemma set_add_row [table_simps]: "set (add_row r t) = insert (fresh_pk t, r) (set t)"
  by (simp add: add_row_def)

lemma get_row_in_set: "get_row t k = Some r \<Longrightarrow> (k, r) \<in> set t"
  by (simp add: get_row_def map_of_SomeD)

lemma in_set_get_row: "wf_table t \<Longrightarrow> (k, r) \<in> set t \<Longrightarrow> get_row t k = Some r"
  by (simp add: get_row_def wf_table_def)

lemma in_set_iff_get_row: "wf_table t \<Longrightarrow> (k, r) \<in> set t \<longleftrightarrow> get_row t k = Some r"
  using get_row_in_set in_set_get_row by metis

lemma set_put_row:
  "set (put_row k r t) =
     {(k', r'). (k', r') \<in> set t \<and> k' \<noteq> k} \<union> (if k \<in> fst ` set t then {(k, r)} else {})"
proof (induction t)
  case (Cons a t)
  obtain k1 r1 where a: "a = (k1, r1)" by (cases a)
  have "set (put_row k r (a # t)) = insert (k1, if k1 = k then r else r1) (set (put_row k r t))"
    by (simp add: put_row_def a)
  also have "\<dots> = {(k', r'). (k', r') \<in> set (a # t) \<and> k' \<noteq> k} \<union>
      (if k \<in> fst ` set (a # t) then {(k, r)} else {})"
    unfolding Cons.IH by (cases "k1 = k") (auto simp: a)
  finally show ?case .
qed (simp add: put_row_def)

lemma get_row_key: "get_row t k = Some r \<Longrightarrow> k \<in> fst ` set t"
  by (metis fst_conv get_row_in_set imageI)

lemma exists_row_iff: "exists_row P t \<longleftrightarrow> (\<exists>k r. (k, r) \<in> set t \<and> P k r)"
  by (auto simp: exists_row_def list_ex_iff)

lemma filter_rows_iff: "(k, r) \<in> set (filter_rows P t) \<longleftrightarrow> (k, r) \<in> set t \<and> P k r"
  by (auto simp: filter_rows_def)

lemma filter_rows_empty_iff: "filter_rows P t = [] \<longleftrightarrow> \<not> exists_row P t"
  by (auto simp: filter_rows_def exists_row_def filter_empty_conv list_ex_iff)

text \<open>What a search found.\<close>

lemma find_SomeD: "find P xs = Some x \<Longrightarrow> x \<in> set xs \<and> P x"
  by (auto simp: find_Some_iff)

lemma first_row_None: "first_row P t = None \<longleftrightarrow> \<not> exists_row P t"
  by (auto simp: first_row_def find_None_iff exists_row_iff)

lemma first_row_Some: "first_row P t = Some (k, r) \<Longrightarrow> (k, r) \<in> set t \<and> P k r"
  by (auto simp: first_row_def find_Some_iff) (metis nth_mem split_conv)

lemma first_row_get: "wf_table t \<Longrightarrow> first_row P t = Some (k, r) \<Longrightarrow> get_row t k = Some r"
  using first_row_Some in_set_get_row by fastforce

subsection \<open>Unique constraints\<close>

text \<open>
  A unique constraint: \<open>f\<close> gives the constrained key of a row, or \<open>None\<close> when the row is exempt
  (a NULL column, or the condition of a partial index is false).
\<close>

definition unique_on :: "('r \<Rightarrow> 'k option) \<Rightarrow> 'r table \<Rightarrow> bool" where
  "unique_on f t \<longleftrightarrow> (\<forall>k j a b x. get_row t k = Some a \<longrightarrow> get_row t j = Some b \<longrightarrow> f a = Some x \<longrightarrow> f b = Some x \<longrightarrow> k = j)"

lemma unique_onD:
  "unique_on f t \<Longrightarrow> get_row t k = Some a \<Longrightarrow> get_row t j = Some b \<Longrightarrow> f a = Some x \<Longrightarrow> f b = Some x \<Longrightarrow> k = j"
  by (simp add: unique_on_def)

lemma unique_on_Nil [simp]: "unique_on f []"
  by (simp add: unique_on_def get_row_def)

lemma unique_on_add:
  assumes "unique_on f t" and "\<And>j b x. get_row t j = Some b \<Longrightarrow> f r = Some x \<Longrightarrow> f b \<noteq> Some x"
  shows "unique_on f (add_row r t)"
  unfolding unique_on_def get_add_row
proof (intro allI impI)
  fix k j a b x
  assume *: "(if k = fresh_pk t then Some r else get_row t k) = Some a"
    "(if j = fresh_pk t then Some r else get_row t j) = Some b" "f a = Some x" "f b = Some x"
  show "k = j"
  proof (cases "k = fresh_pk t \<or> j = fresh_pk t")
    case True
    with * assms(2) show ?thesis by (auto split: if_splits)
  next
    case False
    with * unique_onD [OF assms(1)] show ?thesis by auto
  qed
qed

lemma unique_on_put:
  assumes "unique_on f t" and "\<And>j b x. get_row t j = Some b \<Longrightarrow> j \<noteq> k \<Longrightarrow> f r = Some x \<Longrightarrow> f b \<noteq> Some x"
  shows "unique_on f (put_row k r t)"
  unfolding unique_on_def get_put_row
proof (intro allI impI)
  fix i j a b x
  assume *: "(if i = k \<and> get_row t k \<noteq> None then Some r else get_row t i) = Some a"
    "(if j = k \<and> get_row t k \<noteq> None then Some r else get_row t j) = Some b" "f a = Some x" "f b = Some x"
  show "i = j"
  proof (cases "i = k \<or> j = k")
    case True
    with * assms(2) show ?thesis by (auto split: if_splits)
  next
    case False
    with * unique_onD [OF assms(1)] show ?thesis by auto
  qed
qed

lemma unique_on_put_same:
  assumes "unique_on f t" and "get_row t k = Some r0" and "f r = f r0 \<or> f r = None"
  shows "unique_on f (put_row k r t)"
proof (rule unique_on_put [OF assms(1)])
  fix j b x assume "get_row t j = Some b" and "j \<noteq> k" and "f r = Some x"
  with assms(3) have "f r0 = Some x" by auto
  with unique_onD [OF assms(1,2) \<open>get_row t j = Some b\<close>] \<open>j \<noteq> k\<close> show "f b \<noteq> Some x" by blast
qed

lemma no_clash_unique:
  "\<not> exists_row P t \<Longrightarrow> get_row t j = Some b \<Longrightarrow> \<not> P j b"
  using get_row_in_set by (fastforce simp: exists_row_iff)

subsection \<open>Sums and counts over a table\<close>

lemma sum_rows_Nil [simp]: "sum_rows P f [] = 0"
  by (simp add: sum_rows_def filter_rows_def)

lemma sum_rows_Cons [simp]:
  "sum_rows P f ((k, r) # t) = (if P k r then f r else 0) + sum_rows P f t"
  by (simp add: sum_rows_def filter_rows_def)

lemma sum_rows_append [simp]: "sum_rows P f (s @ t) = sum_rows P f s + sum_rows P f t"
  by (simp add: sum_rows_def filter_rows_def)

lemma sum_rows_add_row [table_simps]:
  "sum_rows P f (add_row r t) = sum_rows P f t + (if P (fresh_pk t) r then f r else 0)"
  by (simp add: add_row_def)

lemma put_row_absent: "k \<notin> fst ` set t \<Longrightarrow> put_row k r t = t"
  by (induction t) (auto simp: put_row_def)

lemma put_row_Nil [simp]: "put_row k r [] = []"
  by (simp add: put_row_def)

lemma put_row_Cons [simp]:
  "put_row k r ((k', r') # t) = (if k' = k then (k', r) else (k', r')) # put_row k r t"
  by (simp add: put_row_def)

lemma sum_rows_put_row:
  fixes f :: "'r \<Rightarrow> 'v::ab_group_add"
  assumes "wf_table t" and "get_row t k = Some r0"
  shows "sum_rows P f (put_row k r t) =
    sum_rows P f t - (if P k r0 then f r0 else 0) + (if P k r then f r else 0)"
  using assms
proof (induction t)
  case (Cons a t)
  obtain k1 r1 where a: "a = (k1, r1)" by (cases a)
  show ?case
  proof (cases "k1 = k")
    case True
    with Cons.prems a have "r1 = r0" and "k \<notin> fst ` set t"
      by (auto simp: get_row_def wf_table_def)
    then show ?thesis using True a by (simp add: put_row_absent)
  next
    case False
    with Cons a have "sum_rows P f (put_row k r t) =
        sum_rows P f t - (if P k r0 then f r0 else 0) + (if P k r then f r else 0)"
      by (simp add: get_row_def wf_table_def)
    with False a show ?thesis by (simp add: algebra_simps)
  qed
qed (simp add: get_row_def)

lemma sum_rows_put_row_split:
  assumes "wf_table t" and "get_row t k = Some r0"
  shows "sum_rows P f (put_row k r t) =
    sum_rows (\<lambda>j x. P j x \<and> j \<noteq> k) f t + (if P k r then f r else (0 :: 'v::comm_monoid_add))"
  using assms
proof (induction t)
  case (Cons a t)
  obtain k1 r1 where a: "a = (k1, r1)" by (cases a)
  show ?case
  proof (cases "k1 = k")
    case True
    with Cons.prems a have "k \<notin> fst ` set t" by (auto simp: wf_table_def)
    then have "sum_rows (\<lambda>j x. P j x \<and> j \<noteq> k) f t = sum_rows P f t" and "put_row k r t = t"
      by (auto simp: put_row_absent sum_rows_def filter_rows_def intro!: arg_cong [where f = sum_list] map_cong filter_cong)
        force+
    then show ?thesis using True a by (simp add: add.commute)
  next
    case False
    with Cons a have "sum_rows P f (put_row k r t) =
        sum_rows (\<lambda>j x. P j x \<and> j \<noteq> k) f t + (if P k r then f r else 0)"
      by (simp add: get_row_def wf_table_def)
    with False a show ?thesis by (simp add: add.assoc)
  qed
qed (simp add: get_row_def)

lemma sum_rows_cong:
  "(\<And>k r. (k, r) \<in> set t \<Longrightarrow> P k r = Q k r) \<Longrightarrow>
   (\<And>k r. (k, r) \<in> set t \<Longrightarrow> P k r \<Longrightarrow> f r = g r) \<Longrightarrow> sum_rows P f t = sum_rows Q g t"
  unfolding sum_rows_def filter_rows_def
  by (intro arg_cong [where f = sum_list] map_cong filter_cong) auto

lemma sum_rows_nonneg:
  fixes f :: "'r \<Rightarrow> 'v::ordered_comm_monoid_add"
  assumes "\<And>k r. (k, r) \<in> set t \<Longrightarrow> P k r \<Longrightarrow> 0 \<le> f r"
  shows "0 \<le> sum_rows P f t"
  unfolding sum_rows_def filter_rows_def using assms by (intro sum_list_nonneg) auto

lemma sum_rows_absent: "\<not> exists_row P t \<Longrightarrow> sum_rows P f t = 0"
  by (induction t) (auto simp: exists_row_def)

lemma sum_rows_single:
  assumes "wf_table t" and "get_row t k = Some r"
  shows "sum_rows (\<lambda>j x. j = k \<and> P x) f t = (if P r then f r else (0 :: 'v::comm_monoid_add))"
  using assms
proof (induction t)
  case (Cons a t)
  obtain k1 r1 where a: "a = (k1, r1)" by (cases a)
  show ?case
  proof (cases "k1 = k")
    case True
    with Cons.prems a have "r1 = r" and "k \<notin> fst ` set t" by (auto simp: get_row_def wf_table_def)
    then have "\<not> exists_row (\<lambda>j x. j = k \<and> P x) t" by (force simp: exists_row_iff)
    then have "sum_rows (\<lambda>j x. j = k \<and> P x) f t = 0" by (rule sum_rows_absent)
    with True \<open>r1 = r\<close> a show ?thesis by simp
  next
    case False
    with Cons a show ?thesis by (simp add: get_row_def wf_table_def)
  qed
qed (simp add: get_row_def)

lemma sum_rows_member_le:
  fixes f :: "'r \<Rightarrow> 'v::ordered_comm_monoid_add"
  assumes "\<And>k r. (k, r) \<in> set t \<Longrightarrow> P k r \<Longrightarrow> 0 \<le> f r" and "(k, r) \<in> set t" and "P k r"
  shows "f r \<le> sum_rows P f t"
  using assms
proof (induction t)
  case (Cons a t)
  obtain k1 r1 where a: "a = (k1, r1)" by (cases a)
  have rest: "0 \<le> sum_rows P f t"
    using Cons.prems(1) by (intro sum_rows_nonneg) auto
  show ?case
  proof (cases "a = (k, r)")
    case True
    with Cons.prems a rest show ?thesis by (simp add: add_increasing2)
  next
    case False
    with Cons have "f r \<le> sum_rows P f t" by auto
    moreover have "0 \<le> (if P k1 r1 then f r1 else 0)"
      using Cons.prems(1) a by auto
    ultimately show ?thesis using a by (simp add: add_increasing)
  qed
qed simp

lemma count_rows_eq_sum: "count_rows P t = sum_rows P (\<lambda>_. 1) t"
  by (induction t) (auto simp: count_rows_def filter_rows_def)

lemma count_rows_0: "count_rows P t = 0 \<longleftrightarrow> \<not> exists_row P t"
  by (simp add: count_rows_def filter_rows_empty_iff)

section \<open>Strings\<close>

text \<open>
  A Python \<open>str\<close> is modelled by a list of characters, one per code point; code points
  from 256 upwards do not occur in the model. \<open>str_nat\<close> is \<open>str(n)\<close> for a natural
  number, \<open>pad0 w s\<close> left-pads with zeros as the format \<open>0wd\<close> does, \<open>strip\<close> removes
  white space at both ends, \<open>upper\<close> maps the ASCII letters to upper case and
  \<open>before_slash\<close> is \<open>s.split("/")[0]\<close>.
\<close>

definition digit_char :: "nat \<Rightarrow> char" where
  "digit_char d = char_of (48 + d)"

fun str_nat :: "nat \<Rightarrow> string" where
  "str_nat n = (if n < 10 then [digit_char n] else str_nat (n div 10) @ [digit_char (n mod 10)])"

declare str_nat.simps [simp del]

definition str_int :: "int \<Rightarrow> string" where
  "str_int i = (if i < 0 then CHR ''-'' # str_nat (nat (- i)) else str_nat (nat i))"

definition pad0 :: "nat \<Rightarrow> string \<Rightarrow> string" where
  "pad0 w s = replicate (w - length s) (CHR ''0'') @ s"

definition is_space :: "char \<Rightarrow> bool" where
  "is_space c = (of_char c \<in> {9, 10, 11, 12, 13, 28, 29, 30, 31, 32, 133, 160 :: nat})"

definition strip :: "string \<Rightarrow> string" where
  "strip s = rev (dropWhile is_space (rev (dropWhile is_space s)))"

definition upper_char :: "char \<Rightarrow> char" where
  "upper_char c = (let n = of_char c :: nat in if 97 \<le> n \<and> n \<le> 122 then char_of (n - 32) else c)"

definition upper :: "string \<Rightarrow> string" where
  "upper s = map upper_char s"

definition before_slash :: "string \<Rightarrow> string" where
  "before_slash s = takeWhile (\<lambda>c. c \<noteq> CHR ''/'') s"

text \<open>\<open>bool(s.strip())\<close>: the test every mandatory reason has to pass.\<close>

definition nonblank :: "string \<Rightarrow> bool" where
  "nonblank s = (strip s \<noteq> [])"

lemma nonblank_iff: "nonblank s \<longleftrightarrow> (\<exists>c \<in> set s. \<not> is_space c)"
proof (cases "dropWhile is_space s = []")
  case True
  moreover from True have "strip s = []"
    by (simp only: strip_def) simp
  ultimately have "strip s = []" and "\<forall>c \<in> set s. is_space c"
    by (simp_all add: dropWhile_eq_Nil_conv)
  then show ?thesis by (simp add: nonblank_def)
next
  case False
  let ?d = "dropWhile is_space s"
  have c: "hd ?d \<in> set ?d" and ns: "\<not> is_space (hd ?d)"
    using False by (simp_all add: hd_dropWhile)
  then have "hd ?d \<in> set s" by (blast dest: set_dropWhileD)
  moreover have "strip s \<noteq> []"
    using c ns by (auto simp: strip_def dropWhile_eq_Nil_conv)
  ultimately show ?thesis using ns by (auto simp: nonblank_def)
qed

lemma nonblank_Nil [simp]: "\<not> nonblank []"
  by (simp add: nonblank_iff)

lemma of_digit_char: "d < 10 \<Longrightarrow> of_char (digit_char d) = 48 + d"
  by (simp add: digit_char_def)

lemma digit_char_inj: "d < 10 \<Longrightarrow> d' < 10 \<Longrightarrow> digit_char d = digit_char d' \<Longrightarrow> d = d'"
  by (metis add_left_cancel of_digit_char)

lemma str_nat_nonempty [simp]: "str_nat n \<noteq> []"
  by (subst str_nat.simps) simp

lemma str_nat_small: "n < 10 \<Longrightarrow> str_nat n = [digit_char n]"
  by (simp add: str_nat.simps [of n])

lemma str_nat_large: "\<not> n < 10 \<Longrightarrow> str_nat n = str_nat (n div 10) @ [digit_char (n mod 10)]"
  by (simp add: str_nat.simps [of n])

lemma str_nat_inj [text_simps]: "str_nat m = str_nat n \<longleftrightarrow> m = n"
proof
  show "str_nat m = str_nat n \<Longrightarrow> m = n"
  proof (induction m arbitrary: n rule: str_nat.induct)
    case (1 m)
    show ?case
    proof (cases "m < 10 \<or> n < 10")
      case True
      with "1.prems" have "m < 10" and "n < 10"
        by (metis append_is_Nil_conv butlast_snoc butlast.simps(2) str_nat_large str_nat_nonempty
            str_nat_small)+
      with "1.prems" show ?thesis
        by (auto simp: str_nat_small intro: digit_char_inj)
    next
      case False
      with "1.prems" have "str_nat (m div 10) = str_nat (n div 10)"
        and "digit_char (m mod 10) = digit_char (n mod 10)"
        by (simp_all add: str_nat_large)
      with False "1.IH" have "m div 10 = n div 10" and "m mod 10 = n mod 10"
        by (auto intro: digit_char_inj)
      then show ?thesis by (metis div_mult_mod_eq)
    qed
  qed
qed simp

end
