(* ===== verification/Py_Decimal.thy ===== *)
theory Py_Decimal
  imports Prelude
begin

text \<open>
  Python's \<open>decimal.Decimal\<close> in the default context (28 significant digits, rounding half
  to even). A finite Decimal is modelled by its numerical value, a rational number; the
  scale that distinguishes \<open>1.0\<close> from \<open>1.00\<close> is not modelled. \<open>dec_ctx\<close> is the
  rounding that the context applies to the exact result of an operation; \<open>dec_mul\<close> and
  \<open>dec_div\<close> apply it. Sums and differences in the code are of amounts with two
  decimals and fewer than 26 digits, for which the context rounding is the identity
  (\<open>dec_ctx_exact\<close>), so they are written \<open>+\<close> and \<open>-\<close>. \<open>quantize_half_up\<close> and
  \<open>quantize_half_even\<close> are \<open>quantize(Decimal("0.01"))\<close> with the two rounding modes the
  code uses. The lemmas bound the rounding errors, show that quantising is monotone,
  idempotent and exact on amounts with two decimals, and that dividing in the context and
  then quantising gives the correctly rounded quotient (\<open>quantize_div_exact\<close>).
\<close>

section \<open>Rounding to an integer\<close>

definition round_half_up :: "rat \<Rightarrow> int" where
  "round_half_up q = (if 0 \<le> q then \<lfloor>q + 1 / 2\<rfloor> else - \<lfloor>- q + 1 / 2\<rfloor>)"

definition round_half_even :: "rat \<Rightarrow> int" where
  "round_half_even q =
     (let f = \<lfloor>q\<rfloor>; d = q - of_int f in
      if d < 1 / 2 then f else if 1 / 2 < d then f + 1 else if even f then f else f + 1)"

lemma round_half_up_error: "\<bar>of_int (round_half_up q) - q\<bar> \<le> 1 / 2"
proof -
  have *: "\<bar>of_int \<lfloor>x + 1 / 2\<rfloor> - x\<bar> \<le> 1 / 2" for x :: rat
    using of_int_floor_le [of "x + 1 / 2"] real_of_int_floor_add_one_gt
      floor_correct [of "x + 1 / 2"] by linarith
  show ?thesis
    using * [of q] * [of "- q"] by (auto simp: round_half_up_def abs_if split: if_splits)
qed

lemma round_half_even_error: "\<bar>of_int (round_half_even q) - q\<bar> \<le> 1 / 2"
  using floor_correct [of q] of_int_floor_le [of q]
  by (auto simp: round_half_even_def Let_def abs_if simp del: of_int_floor_le)

lemma round_half_up_of_int [simp]: "round_half_up (of_int n) = n"
proof -
  have *: "\<lfloor>(of_int m :: rat) + 1 / 2\<rfloor> = m" for m by linarith
  show ?thesis
    using * [of n] * [of "- n"] by (simp add: round_half_up_def)
qed

lemma round_half_even_of_int [simp]: "round_half_even (of_int n) = n"
  by (simp add: round_half_even_def)

lemma round_half_up_0 [simp]: "round_half_up 0 = 0" and round_half_even_0 [simp]: "round_half_even 0 = 0"
  using round_half_up_of_int [of 0] round_half_even_of_int [of 0] by simp_all

lemma round_half_up_mono: "p \<le> q \<Longrightarrow> round_half_up p \<le> round_half_up q"
proof -
  assume le: "p \<le> q"
  have up: "\<lfloor>x + 1 / 2\<rfloor> \<le> \<lfloor>y + 1 / 2\<rfloor>" if "x \<le> y" for x y :: rat
    using that by (intro floor_mono) simp
  have nonneg: "0 \<le> \<lfloor>x + 1 / 2\<rfloor>" if "0 \<le> x" for x :: rat
    using that by (simp add: le_floor_iff)
  show ?thesis
  proof (cases "p < 0 \<and> 0 \<le> q")
    case True
    then have "0 \<le> \<lfloor>q + 1 / 2\<rfloor>" and "0 \<le> \<lfloor>- p + 1 / 2\<rfloor>"
      by (intro nonneg; simp)+
    moreover have "round_half_up p = - \<lfloor>- p + 1 / 2\<rfloor>" and "round_half_up q = \<lfloor>q + 1 / 2\<rfloor>"
      using True by (simp_all add: round_half_up_def)
    ultimately show ?thesis by linarith
  next
    case False
    then show ?thesis
      using le up [of p q] up [of "- q" "- p"] by (auto simp: round_half_up_def)
  qed
qed

lemma round_half_even_mono: "p \<le> q \<Longrightarrow> round_half_even p \<le> round_half_even q"
proof -
  assume le: "p \<le> q"
  then have fl: "\<lfloor>p\<rfloor> \<le> \<lfloor>q\<rfloor>" by (rule floor_mono)
  have bounds: "\<lfloor>x\<rfloor> \<le> round_half_even x \<and> round_half_even x \<le> \<lfloor>x\<rfloor> + 1" for x :: rat
    by (simp add: round_half_even_def Let_def)
  show ?thesis
  proof (cases "\<lfloor>p\<rfloor> = \<lfloor>q\<rfloor>")
    case True
    then show ?thesis using le by (simp add: round_half_even_def Let_def)
  next
    case False
    with fl have "\<lfloor>p\<rfloor> + 1 \<le> \<lfloor>q\<rfloor>" by simp
    then show ?thesis using bounds [of p] bounds [of q] by linarith
  qed
qed

lemma round_half_up_minus: "round_half_up (- q) = - round_half_up q"
proof (cases "q = 0")
  case False
  then show ?thesis by (auto simp: round_half_up_def)
qed simp

section \<open>Quantising to two places\<close>

definition quantize_half_up :: "rat \<Rightarrow> rat" where
  "quantize_half_up q = of_int (round_half_up (q * 100)) / 100"

definition quantize_half_even :: "rat \<Rightarrow> rat" where
  "quantize_half_even q = of_int (round_half_even (q * 100)) / 100"

text \<open>A value with at most two decimals, as every column of two decimal places holds.\<close>

definition two_places :: "rat \<Rightarrow> bool" where
  "two_places q \<longleftrightarrow> q * 100 \<in> \<int>"

lemma two_places_code [code]: "two_places q \<longleftrightarrow> of_int \<lfloor>q * 100\<rfloor> = q * 100"
  by (auto simp: two_places_def elim: Ints_cases)

lemma two_placesI: "q * 100 = of_int n \<Longrightarrow> two_places q"
  by (simp add: two_places_def)

lemma two_placesE: "two_places q \<Longrightarrow> (\<And>n. q = of_int n / 100 \<Longrightarrow> thesis) \<Longrightarrow> thesis"
  by (auto simp: two_places_def eq_divide_eq elim!: Ints_cases)

lemma two_places_simps [simp, intro]:
  "two_places 0"
  "two_places (of_int n)"
  "two_places p \<Longrightarrow> two_places q \<Longrightarrow> two_places (p + q)"
  "two_places p \<Longrightarrow> two_places q \<Longrightarrow> two_places (p - q)"
  "two_places p \<Longrightarrow> two_places (- p)"
  "two_places (quantize_half_up r)"
  "two_places (quantize_half_even r)"
  by (auto simp: two_places_def algebra_simps quantize_half_up_def quantize_half_even_def
      intro: Ints_add Ints_diff Ints_mult)

lemma two_places_numeral [simp]: "two_places 1" "two_places (numeral n)"
  by (simp_all add: two_places_def)

lemma quantize_half_up_error: "\<bar>quantize_half_up q - q\<bar> \<le> 1 / 200"
  using round_half_up_error [of "q * 100"] by (simp add: quantize_half_up_def abs_if field_simps split: if_splits)

lemma quantize_half_even_error: "\<bar>quantize_half_even q - q\<bar> \<le> 1 / 200"
  using round_half_even_error [of "q * 100"] by (simp add: quantize_half_even_def abs_if field_simps split: if_splits)

lemma quantize_half_up_mono: "p \<le> q \<Longrightarrow> quantize_half_up p \<le> quantize_half_up q"
  by (simp add: quantize_half_up_def divide_right_mono round_half_up_mono)

lemma quantize_half_even_mono: "p \<le> q \<Longrightarrow> quantize_half_even p \<le> quantize_half_even q"
  by (simp add: quantize_half_even_def divide_right_mono round_half_even_mono)

lemma quantize_two_places [simp]:
  assumes "two_places q"
  shows "quantize_half_up q = q" and "quantize_half_even q = q"
proof -
  from assms obtain n where "q * 100 = of_int n"
    by (auto simp: two_places_def elim: Ints_cases)
  then have "q = of_int n / 100" and "q * 100 = of_int n" by simp_all
  then show "quantize_half_up q = q" and "quantize_half_even q = q"
    by (simp_all add: quantize_half_up_def quantize_half_even_def)
qed

lemma quantize_0 [simp]: "quantize_half_up 0 = 0" "quantize_half_even 0 = 0"
  by (simp_all add: quantize_half_up_def quantize_half_even_def)

text \<open>Quantising stays between bounds that have two decimals themselves.\<close>

lemma quantize_half_up_between:
  assumes "two_places a" and "two_places b" and "a \<le> q" and "q \<le> b"
  shows "a \<le> quantize_half_up q \<and> quantize_half_up q \<le> b"
  using quantize_half_up_mono [OF \<open>a \<le> q\<close>] quantize_half_up_mono [OF \<open>q \<le> b\<close>] assms by simp

lemma quantize_half_even_between:
  assumes "two_places a" and "two_places b" and "a \<le> q" and "q \<le> b"
  shows "a \<le> quantize_half_even q \<and> quantize_half_even q \<le> b"
  using quantize_half_even_mono [OF \<open>a \<le> q\<close>] quantize_half_even_mono [OF \<open>q \<le> b\<close>] assms by simp

section \<open>The context: 28 significant digits\<close>

text \<open>
  \<open>adjusted q\<close> is the exponent of the leading digit of \<open>q\<close> (\<open>Decimal.adjusted()\<close>):
  the lengths of numerator and denominator give it up to one, and a comparison decides.
\<close>

fun ndigits :: "nat \<Rightarrow> nat" where
  "ndigits n = (if n < 10 then 1 else Suc (ndigits (n div 10)))"

declare ndigits.simps [simp del]

definition adjusted :: "rat \<Rightarrow> int" where
  "adjusted q =
     (let (a, b) = quotient_of \<bar>q\<bar>; e = int (ndigits (nat a)) - int (ndigits (nat b)) in
      if 10 powi e \<le> \<bar>q\<bar> then e else e - 1)"

definition dec_ctx :: "rat \<Rightarrow> rat" where
  "dec_ctx q =
     (if q = 0 then 0
      else let u = 10 powi (adjusted q - 27) in of_int (round_half_even (q / u)) * u)"

definition dec_mul :: "rat \<Rightarrow> rat \<Rightarrow> rat" where
  "dec_mul a b = dec_ctx (a * b)"

definition dec_div :: "rat \<Rightarrow> rat \<Rightarrow> rat" where
  "dec_div a b = dec_ctx (a / b)"

lemma ndigits_bounds: "0 < n \<Longrightarrow> 10 ^ (ndigits n - 1) \<le> n \<and> n < 10 ^ ndigits n"
proof (induction n rule: ndigits.induct)
  case (1 n)
  show ?case
  proof (cases "n < 10")
    case True
    with "1.prems" show ?thesis by (simp add: ndigits.simps [of n])
  next
    case False
    let ?d = "ndigits (n div 10)"
    from False "1.IH" have lo: "10 ^ (?d - 1) \<le> n div 10" and hi: "n div 10 < 10 ^ ?d"
      by simp_all
    have "0 < ?d" by (simp add: ndigits.simps [of "n div 10"])
    then have "(10::nat) ^ ?d = 10 * 10 ^ (?d - 1)" by (cases ?d) simp_all
    with lo have "10 ^ ?d \<le> n" by linarith
    moreover from hi have "n < 10 * 10 ^ ?d" by linarith
    ultimately show ?thesis using False by (simp add: ndigits.simps [of n])
  qed
qed

lemma ndigits_pos: "0 < ndigits n"
  by (simp add: ndigits.simps [of n])

lemma adjusted_bounds:
  assumes "q \<noteq> 0"
  shows "10 powi adjusted q \<le> \<bar>q\<bar>" and "\<bar>q\<bar> < 10 powi (adjusted q + 1)"
proof -
  obtain a b where ab: "quotient_of \<bar>q\<bar> = (a, b)" by (cases "quotient_of \<bar>q\<bar>")
  have q: "\<bar>q\<bar> = of_int a / of_int b" and b: "0 < b"
    using ab by (simp_all add: quotient_of_div quotient_of_denom_pos)
  with assms have a: "0 < a"
    by (metis abs_ge_zero abs_eq_0 divide_eq_0_iff linorder_neqE_linordered_idom
        of_int_0 of_int_0_less_iff of_int_less_0_iff divide_neg_pos not_le)
  define m where "m = ndigits (nat a)"
  define n where "n = ndigits (nat b)"
  have "10 ^ (m - 1) \<le> nat a" "nat a < 10 ^ m" "10 ^ (n - 1) \<le> nat b" "nat b < 10 ^ n"
    using ndigits_bounds [of "nat a"] ndigits_bounds [of "nat b"] a b by (simp_all add: m_def n_def)
  then have "int (10 ^ (m - 1)) \<le> a" "a < int (10 ^ m)" "int (10 ^ (n - 1)) \<le> b" "b < int (10 ^ n)"
    using a b by linarith+
  then have A: "(10::rat) ^ (m - 1) \<le> of_int a" "of_int a < (10::rat) ^ m"
    and B: "(10::rat) ^ (n - 1) \<le> of_int b" "of_int b < (10::rat) ^ n"
    by (metis of_int_le_iff of_int_less_iff of_int_of_nat_eq of_nat_numeral of_nat_power)+
  have mn: "0 < m" "0 < n" by (simp_all add: m_def n_def ndigits_pos)
  have "\<bar>q\<bar> < 10 ^ m / 10 ^ (n - 1)"
    unfolding q using A B a b by (intro frac_less) auto
  also have "\<dots> = 10 powi (int m - int n + 1)"
    using mn by (simp add: power_int_diff power_int_add of_nat_diff flip: power_int_of_nat)
  finally have hi: "\<bar>q\<bar> < 10 powi (int m - int n + 1)" .
  have "10 powi (int m - int n - 1) = (10::rat) ^ (m - 1) / 10 ^ n"
    using mn by (simp add: power_int_diff of_nat_diff flip: power_int_of_nat)
  also have "\<dots> \<le> \<bar>q\<bar>"
    unfolding q using A B a b by (intro frac_le) auto
  finally have lo: "10 powi (int m - int n - 1) \<le> \<bar>q\<bar>" .
  show "10 powi adjusted q \<le> \<bar>q\<bar>" and "\<bar>q\<bar> < 10 powi (adjusted q + 1)"
    using lo hi by (auto simp: adjusted_def ab Let_def m_def n_def split: if_splits)
qed

lemma dec_ctx_0 [simp]: "dec_ctx 0 = 0"
  by (simp add: dec_ctx_def)

text \<open>The error of one operation is at most half a unit of the 28th digit.\<close>

lemma dec_ctx_error: "\<bar>dec_ctx q - q\<bar> \<le> 10 powi (adjusted q - 27) / 2"
proof (cases "q = 0")
  case False
  define u :: rat where "u = 10 powi (adjusted q - 27)"
  have u: "0 < u" by (simp add: u_def)
  have "dec_ctx q - q = (of_int (round_half_even (q / u)) - q / u) * u"
    using False u by (simp add: dec_ctx_def u_def [symmetric] algebra_simps)
  then have "\<bar>dec_ctx q - q\<bar> = \<bar>of_int (round_half_even (q / u)) - q / u\<bar> * u"
    using u by (simp add: abs_mult)
  also have "\<dots> \<le> 1 / 2 * u"
    using u round_half_even_error [of "q / u"] by (intro mult_right_mono) simp_all
  finally show ?thesis by (simp add: u_def)
qed simp

lemma adjusted_less:
  assumes "q \<noteq> 0" and "\<bar>q\<bar> < 10 powi e"
  shows "adjusted q < e"
proof (rule ccontr)
  assume "\<not> adjusted q < e"
  then have "(10::rat) powi e \<le> 10 powi adjusted q"
    by (intro power_int_increasing) auto
  with adjusted_bounds(1) [OF \<open>q \<noteq> 0\<close>] assms(2) show False by linarith
qed

lemma dec_ctx_error_bound:
  assumes "\<bar>q\<bar> < 10 ^ n"
  shows "\<bar>dec_ctx q - q\<bar> \<le> 10 ^ n / 10 ^ 28 / 2"
proof (cases "q = 0")
  case False
  have "adjusted q < int n"
    using False assms by (intro adjusted_less) simp_all
  then have "(10::rat) powi (adjusted q - 27) \<le> 10 powi (int n - 28)"
    by (intro power_int_increasing) auto
  also have "\<dots> = 10 ^ n / 10 ^ 28"
    by (simp add: power_int_diff)
  finally have "(10::rat) powi (adjusted q - 27) / 2 \<le> 10 ^ n / 10 ^ 28 / 2"
    by (rule divide_right_mono) simp
  with dec_ctx_error [of q] show ?thesis by (rule order_trans)
qed simp

text \<open>Values with \<open>k\<close> decimals and at most 28 digits pass through unchanged.\<close>

lemma dec_ctx_exact:
  assumes int: "q * 10 ^ k \<in> \<int>" and bound: "\<bar>q * 10 ^ k\<bar> < 10 ^ 28"
  shows "dec_ctx q = q"
proof (cases "q = 0")
  case False
  from bound have "\<bar>q\<bar> < 10 ^ 28 / 10 ^ k" by (simp add: abs_mult field_simps)
  also have "\<dots> = 10 powi (28 - int k)" by (simp add: power_int_diff)
  finally have "adjusted q < 28 - int k" using False by (rule adjusted_less [rotated])
  then have "27 - adjusted q = int (k + nat (27 - adjusted q - int k))" by simp
  then obtain m where m: "27 - adjusted q = int (k + m)" by blast
  define u :: rat where "u = 10 powi (adjusted q - 27)"
  have "adjusted q - 27 = - int (k + m)" using m by simp
  then have "u = inverse (10 ^ (k + m))"
    unfolding u_def by (simp only: power_int_minus power_int_of_nat)
  then have u: "q / u = q * 10 ^ k * 10 ^ m" "u \<noteq> 0"
    by (simp_all add: power_add divide_inverse)
  with int have "q / u \<in> \<int>" by (auto intro: Ints_mult Ints_power)
  then obtain i where i: "q / u = of_int i" by (auto elim: Ints_cases)
  then have "dec_ctx q = of_int i * u"
    using False by (simp add: dec_ctx_def flip: u_def)
  also have "\<dots> = q" using u(2) by (simp flip: i)
  finally show ?thesis .
qed simp

text \<open>
  Quantising after the context rounding is harmless as long as the exact value is either a
  rounding boundary itself or further from every boundary than the context error.
\<close>

lemma round_half_up_stable:
  fixes x x' :: rat
  assumes "0 \<le> x" and "0 \<le> x'" and gap: "\<And>m. x + 1 / 2 \<noteq> of_int m \<Longrightarrow> \<bar>x' - x\<bar> < \<bar>x + 1 / 2 - of_int m\<bar>"
    and eq: "x + 1 / 2 \<in> \<int> \<Longrightarrow> x' = x"
  shows "round_half_up x' = round_half_up x"
proof (cases "x + 1 / 2 \<in> \<int>")
  case True
  with eq show ?thesis by simp
next
  case False
  define m where "m = \<lfloor>x + 1 / 2\<rfloor>"
  have ne: "x + 1 / 2 \<noteq> of_int k" for k using False by auto
  have lo: "of_int m < x + 1 / 2" and hi: "x + 1 / 2 < of_int (m + 1)"
    using ne [of m] ne [of "m + 1"] floor_correct [of "x + 1 / 2"] unfolding m_def by linarith+
  have "\<bar>x' - x\<bar> < x + 1 / 2 - of_int m" and "\<bar>x' - x\<bar> < of_int (m + 1) - (x + 1 / 2)"
    using gap [OF ne [of m]] gap [OF ne [of "m + 1"]] lo hi by linarith+
  then have "of_int m \<le> x' + 1 / 2" and "x' + 1 / 2 < of_int m + 1"
    by (simp_all add: abs_if split: if_splits)
  then have "\<lfloor>x' + 1 / 2\<rfloor> = m" by (simp add: floor_eq_iff)
  then show ?thesis using assms(1,2) by (simp add: round_half_up_def m_def)
qed

lemma dec_ctx_nonneg: "0 \<le> q \<Longrightarrow> 0 \<le> dec_ctx q"
proof (cases "q = 0")
  case False
  assume "0 \<le> q"
  then have "0 \<le> round_half_even (q / 10 powi (adjusted q - 27))"
    using round_half_even_mono [of 0] by simp
  with False show ?thesis by (simp add: dec_ctx_def Let_def)
qed simp

lemma quantize_div_exact:
  fixes a b :: int
  assumes "0 \<le> a" and "0 < b" and small: "(of_int a :: rat) / of_int b < 10 ^ e"
    and scale: "of_int b * 10 ^ e < (10 ^ 26 :: rat)"
  shows "quantize_half_up (dec_div (of_int a) (of_int b)) = quantize_half_up (of_int a / of_int b)"
proof -
  define q :: rat where "q = of_int a / of_int b"
  have q: "0 \<le> q" "q < 10 ^ e" using assms by (simp_all add: q_def)
  have err: "\<bar>dec_ctx q - q\<bar> \<le> 10 ^ e / 10 ^ 28 / 2"
    using q by (intro dec_ctx_error_bound) simp
  have "round_half_up (dec_ctx q * 100) = round_half_up (q * 100)"
  proof (rule round_half_up_stable)
    show "0 \<le> q * 100" and "0 \<le> dec_ctx q * 100" using q dec_ctx_nonneg by simp_all
  next
    fix m :: int
    assume ne: "q * 100 + 1 / 2 \<noteq> of_int m"
    define N where "N = 200 * a + b - 2 * m * b"
    have eq: "(q * 100 + 1 / 2 - of_int m) * (2 * of_int b) = of_int N"
      using \<open>0 < b\<close> by (simp add: q_def N_def field_simps)
    have "(q * 100 + 1 / 2 - of_int m) * (2 * of_int b) \<noteq> 0" using ne \<open>0 < b\<close> by simp
    then have "N \<noteq> 0" unfolding eq of_int_eq_0_iff .
    then have "1 \<le> \<bar>N\<bar>" by simp
    then have "(1::rat) \<le> \<bar>of_int N\<bar>"
      by (metis of_int_1_le_iff of_int_abs)
    also have "\<dots> = \<bar>q * 100 + 1 / 2 - of_int m\<bar> * (2 * of_int b)"
      using \<open>0 < b\<close> by (simp only: eq [symmetric] abs_mult)
    finally have "1 \<le> \<bar>q * 100 + 1 / 2 - of_int m\<bar> * (2 * of_int b)" .
    moreover have "\<bar>dec_ctx q * 100 - q * 100\<bar> * (2 * of_int b) < 1"
    proof -
      have "\<bar>dec_ctx q * 100 - q * 100\<bar> = \<bar>dec_ctx q - q\<bar> * 100"
        by (simp only: left_diff_distrib [symmetric] abs_mult abs_numeral)
      also have "\<dots> \<le> 10 ^ e / 10 ^ 28 / 2 * 100"
        using err by (rule mult_right_mono) simp
      finally have "\<bar>dec_ctx q * 100 - q * 100\<bar> * (2 * of_int b) \<le>
          10 ^ e / 10 ^ 28 / 2 * 100 * (2 * of_int b)"
        using \<open>0 < b\<close> by (intro mult_right_mono) simp_all
      also have "\<dots> = of_int b * 10 ^ e / 10 ^ 26" by simp
      also have "\<dots> < 1" using scale by simp
      finally show ?thesis .
    qed
    ultimately have "\<bar>dec_ctx q * 100 - q * 100\<bar> * (2 * of_int b) <
        \<bar>q * 100 + 1 / 2 - of_int m\<bar> * (2 * of_int b)" by linarith
    then show "\<bar>dec_ctx q * 100 - q * 100\<bar> < \<bar>q * 100 + 1 / 2 - of_int m\<bar>"
      by (rule mult_right_less_imp_less) (use \<open>0 < b\<close> in simp)
  next
    assume "q * 100 + 1 / 2 \<in> \<int>"
    then obtain m where "q * 100 + 1 / 2 = of_int m" by (auto elim: Ints_cases)
    then have "q * 10 ^ 3 = of_int (10 * m - 5)" by simp
    moreover have "\<bar>q * 10 ^ 3\<bar> < 10 ^ 28"
    proof -
      have "1 * (10::rat) ^ e \<le> of_int b * 10 ^ e"
        using \<open>0 < b\<close> by (intro mult_right_mono) simp_all
      with scale have "(10::rat) ^ e < 10 ^ 26" by linarith
      then have "e \<le> 25" using power_less_imp_less_exp [of "10::rat" e 26] by simp
      then have "(10::rat) ^ e \<le> 10 ^ 25" by (rule power_increasing) simp
      with q show ?thesis by (simp add: abs_mult)
    qed
    ultimately have "dec_ctx q = q" by (intro dec_ctx_exact [of q 3]) (simp_all only: Ints_of_int)
    then show "dec_ctx q * 100 = q * 100" by simp
  qed
  then show ?thesis by (simp add: quantize_half_up_def dec_div_def q_def)
qed

end
