(* ===== verification/Platform.thy ===== *)
theory Platform
  imports Py_Decimal
begin

text \<open>
  What every module of the back end shares: the exceptions (\<open>core/exceptions.py\<close>), the
  request context (\<open>core/context.py\<close>) and the identifier sequences of
  \<open>core/models.py\<close>. The database is an extensible record. \<open>core_db\<close> holds the tables of
  \<open>core\<close> and \<open>audit\<close>; every module above extends it with its own tables, in the order
  of the module layering, so that an operation of a lower module is polymorphic in the
  tables above it and cannot touch them.
\<close>

section \<open>Dynamic values\<close>

text \<open>
  The values of audited fields: \<open>None\<close>, text, numbers, booleans, decimals, dates and instants
  (by their text) and foreign keys. A \<open>Decimal\<close> is its value; the texts are those of a
  \<open>Decimal\<close> with two places, as it comes out of a column, out of the field of a serializer
  (which quantizes) and out of \<open>quantize(Decimal("0.01"))\<close>.
\<close>

datatype pyval =
    VNone | VStr string | VInt int | VBool bool | VDec rat | VText string

definition str_decimal :: "rat \<Rightarrow> string" where
  "str_decimal q =
     (let n = round_half_even (q * 100); m = nat \<bar>n\<bar> in
      (if n < 0 then ''-'' else []) @ str_nat (m div 100) @ CHR ''.'' # pad0 2 (str_nat (m mod 100)))"

text \<open>\<open>_stringify\<close>: \<open>None\<close> stays SQL NULL, booleans become lower-case words.\<close>

fun stringify :: "pyval \<Rightarrow> string option" where
  "stringify VNone = None"
| "stringify (VBool b) = Some (if b then ''true'' else ''false'')"
| "stringify (VStr s) = Some s"
| "stringify (VInt i) = Some (str_int i)"
| "stringify (VDec q) = Some (str_decimal q)"
| "stringify (VText s) = Some s"

definition opt_nat :: "nat option \<Rightarrow> pyval" where
  "opt_nat m = (case m of None \<Rightarrow> VNone | Some n \<Rightarrow> VInt (int n))"

definition opt_dec :: "rat option \<Rightarrow> pyval" where
  "opt_dec m = (case m of None \<Rightarrow> VNone | Some q \<Rightarrow> VDec q)"

section \<open>Exceptions\<close>

text \<open>
  A \<open>DomainError\<close> and its subclasses are identified by the code they send and the HTTP
  status; \<open>ConfigurationError\<close> is a subclass that callers also catch by name. The other
  constructors are Django's and Python's exceptions that the modelled code raises or
  catches. Messages are not modelled.
\<close>

datatype exn =
    DomainError (err_code: string) (err_status: nat)
  | ConfigurationError
  | SyncConflictDetected (conflict_field: string) (conflict_server: pyval) (conflict_client: pyval)
      (conflict_updated_at: "int option") (conflict_target: "(string \<times> nat) option")
  | ValidationError
  | DoesNotExist
  | IntegrityError
  | ValueError
  | AttributeError
  | AuditWriteFailed
  | UnexpectedError

definition BlockedByHold :: exn where
  "BlockedByHold = DomainError ''blocked_by_hold'' 409"

definition ConflictError :: exn where
  "ConflictError = DomainError ''conflict'' 409"

text \<open>
  \<open>api_exception_handler\<close>: the code and the HTTP status of the error envelope. An
  exception outside Django's and DRF's own becomes an unhandled server error (\<open>None\<close>).
\<close>

fun api_exception_handler :: "exn \<Rightarrow> (string \<times> nat) option" where
  "api_exception_handler (DomainError c s) = Some (c, s)"
| "api_exception_handler ConfigurationError = Some (''configuration_error'', 409)"
| "api_exception_handler ValidationError = Some (''validation_error'', 400)"
| "api_exception_handler _ = None"

section \<open>Request context\<close>

text \<open>
  \<open>user\<close> is an authenticated user with a primary key; \<open>AnonymousUser\<close> and \<open>None\<close> are
  both \<open>None\<close> of type \<open>user option\<close>. \<open>has_perm\<close> answers the permission check.
\<close>

record user =
  user_pk :: nat
  user_full_name :: string
  user_username :: string
  user_str :: string
  user_role_code :: string
  has_perm :: "string \<Rightarrow> bool"

text \<open>
  The context of one request: the clock (\<open>timezone.now()\<close> and \<open>localdate()\<close> as numbers
  and, for the audit trail, as the text of \<open>isoformat()\<close>), the acting user, the client
  address and the settings. \<open>client_ip\<close> is what \<open>get_client_ip\<close> returns. \<open>content_type_id\<close>
  is Django's table of content types, \<open>repr_of\<close> the label \<open>str(instance)\<close> of a row, and
  \<open>audit_up\<close> says whether an INSERT into the audit table succeeds. \<open>parse_date\<close> is Django's
  parser of ISO dates, and \<open>ip_column\<close> what is read back from a \<open>GenericIPAddressField\<close> in
  which a text was stored: Django and the database write addresses in a normal form.
\<close>

record ctx =
  now :: int
  now_iso :: string
  today :: int
  req_actor :: "user option"
  client_ip :: "string option"
  user_agent_header :: string
  request_id :: "string option"
  content_type_id :: "string \<Rightarrow> nat"
  repr_of :: "string \<Rightarrow> nat \<Rightarrow> string"
  audit_up :: bool
  default_currency_setting :: string
  parse_date :: "string \<Rightarrow> int option"
  ip_column :: "string \<Rightarrow> string"

text \<open>
  The left-most entry of the header \<open>X-Forwarded-For\<close>, when there is one, else the address of
  the peer.
\<close>

definition get_client_ip :: "string option \<Rightarrow> string option \<Rightarrow> string option" where
  "get_client_ip forwarded remote =
     (case forwarded of
        None \<Rightarrow> remote
      | Some h \<Rightarrow> if h = [] then remote else Some (strip (takeWhile (\<lambda>ch. ch \<noteq> CHR '','') h)))"

definition SYSTEM_ACTOR_NAME :: string where
  "SYSTEM_ACTOR_NAME = ''system''"

definition get_user_agent :: "ctx \<Rightarrow> string" where
  "get_user_agent c = take 400 (user_agent_header c)"

text \<open>\<open>actor if getattr(actor, "pk", None) else None\<close>, the foreign key of the acting user.\<close>

definition actor_fk :: "user option \<Rightarrow> nat option" where
  "actor_fk a = map_option user_pk a"

section \<open>The audit log's rows and the base of the database\<close>

record audit_entry =
  ae_id :: nat
  ae_content_type_id :: "nat option"
  ae_object_id :: string
  ae_object_repr :: string
  ae_action :: string
  ae_field_name :: string
  ae_old_value :: "string option"
  ae_new_value :: "string option"
  ae_description :: string
  ae_reason :: string
  ae_actor_id :: "nat option"
  ae_actor_name :: string
  ae_actor_role :: string
  ae_ip_address :: "string option"
  ae_user_agent :: string
  ae_request_id :: string
  ae_created_at :: "string option"
  ae_prev_hash :: string
  ae_row_hash :: string

record core_db =
  id_sequences :: "(string \<times> nat) list"
  audit_log :: "audit_entry list"

section \<open>Identifier sequences\<close>

text \<open>
  \<open>IdSequence.allocate\<close>: the row for the scope is created with the value 0 when it is
  missing (a lost create race is the \<open>IntegrityError\<close> that is passed over), then
  incremented under a row lock. \<open>peek\<close> reads it.
\<close>

definition allocate :: "string \<Rightarrow> 'a core_db_scheme \<Rightarrow> nat \<times> 'a core_db_scheme" where
  "allocate scope s =
     (let created = (if map_of (id_sequences s) scope = None
                     then AList.update scope 0 (id_sequences s) else id_sequences s);
          v = Suc (the (map_of created scope))
      in (v, s\<lparr>id_sequences := AList.update scope v created\<rparr>))"

definition peek :: "string \<Rightarrow> 'a core_db_scheme \<Rightarrow> nat" where
  "peek scope s = (case map_of (id_sequences s) scope of None \<Rightarrow> 0 | Some v \<Rightarrow> v)"

lemma allocate_value [simp]: "fst (allocate scope s) = Suc (peek scope s)"
  by (auto simp: allocate_def peek_def Let_def update_conv split: option.splits)

lemma peek_allocate:
  "peek scope' (snd (allocate scope s)) = (if scope' = scope then Suc (peek scope s) else peek scope' s)"
  by (auto simp: allocate_def peek_def Let_def update_conv split: option.splits)

lemma audit_log_allocate [simp]: "audit_log (snd (allocate scope s)) = audit_log s"
  by (simp add: allocate_def Let_def)

lemma more_allocate [simp]: "core_db.more (snd (allocate scope s)) = core_db.more s"
  by (simp add: allocate_def Let_def)

lemma allocate_eq:
  "allocate scope s = (Suc (peek scope s), s\<lparr>id_sequences := id_sequences (snd (allocate scope s))\<rparr>)"
  by (auto simp: allocate_def peek_def Let_def update_conv split: option.splits)

text \<open>
  The contract of an identifier allocator: reading a counter after an allocation, and that
  an allocation returns the successor of what was read. A client that allocates several
  times from one allocator, for any scopes, gets strictly increasing values per scope, so
  no number is issued twice.
\<close>

locale id_allocator =
  fixes alloc :: "'k \<Rightarrow> 's \<Rightarrow> nat \<times> 's"
    and current :: "'k \<Rightarrow> 's \<Rightarrow> nat"
  assumes alloc_value: "fst (alloc k s) = Suc (current k s)"
    and current_alloc: "current k' (snd (alloc k s)) = (if k' = k then Suc (current k s) else current k' s)"
begin

fun alloc_many :: "'k list \<Rightarrow> 's \<Rightarrow> ('k \<times> nat) list \<times> 's" where
  "alloc_many [] s = ([], s)"
| "alloc_many (k # ks) s =
     (let (v, s') = alloc k s; (vs, s'') = alloc_many ks s' in ((k, v) # vs, s''))"

lemma current_mono: "current k s \<le> current k (snd (alloc k' s))"
  by (simp add: current_alloc)

lemma alloc_many_greater: "(k, v) \<in> set (fst (alloc_many ks s)) \<Longrightarrow> current k s < v"
proof (induction ks arbitrary: s)
  case (Cons k0 ks)
  obtain v0 s0 where a: "alloc k0 s = (v0, s0)" by (cases "alloc k0 s")
  have v0: "v0 = Suc (current k0 s)" using alloc_value [of k0 s] a by simp
  have "current k s \<le> current k s0" using current_mono [of k s k0] a by simp
  with Cons a v0 show ?case by (fastforce simp: split_beta)
qed simp

lemma alloc_many_distinct: "distinct (fst (alloc_many ks s))"
proof (induction ks arbitrary: s)
  case (Cons k0 ks)
  obtain v0 s0 where a: "alloc k0 s = (v0, s0)" by (cases "alloc k0 s")
  have "v0 = current k0 s0" using alloc_value [of k0 s] current_alloc [of k0 k0 s] a by simp
  then have "(k0, v0) \<notin> set (fst (alloc_many ks s0))" using alloc_many_greater by fastforce
  with Cons.IH [of s0] a show ?case by (simp add: split_beta)
qed simp

lemma alloc_fresh: "fst (alloc k s) \<noteq> fst (alloc k (snd (alloc k s)))"
  by (simp add: alloc_value current_alloc)

end

interpretation seqs: id_allocator allocate peek
  by unfold_locales (auto simp: peek_allocate)

end
