(* ===== verification/Json_Text.thy ===== *)
theory Json_Text
  imports Prelude
begin

text \<open>
  \<open>json.dumps(d, sort_keys=True, separators=(",", ":"))\<close> of Python's standard library for
  the flat objects the audit trail hashes: values are \<open>None\<close>, strings and natural
  numbers. Strings are escaped as \<open>ensure_ascii\<close> does. The main result is that the text
  determines the values (\<open>json_obj_inj\<close>): two entries with the same canonical text have
  the same fields.
\<close>

datatype jval = JNull | JStr string | JNat nat

definition hex_digit :: "nat \<Rightarrow> char" where
  "hex_digit d = (if d < 10 then char_of (48 + d) else char_of (87 + d))"

definition esc_char :: "char \<Rightarrow> string" where
  "esc_char c =
     (if c = CHR 0x22 then [CHR 0x5C, CHR 0x22]
      else if c = CHR 0x5C then [CHR 0x5C, CHR 0x5C]
      else if c = CHR 0x0A then [CHR 0x5C, CHR ''n'']
      else if c = CHR 0x0D then [CHR 0x5C, CHR ''r'']
      else if c = CHR 0x09 then [CHR 0x5C, CHR ''t'']
      else if c = CHR 0x08 then [CHR 0x5C, CHR ''b'']
      else if c = CHR 0x0C then [CHR 0x5C, CHR ''f'']
      else let n = of_char c :: nat in
        if 32 \<le> n \<and> n \<le> 126 then [c]
        else [CHR 0x5C, CHR ''u'', CHR ''0'', CHR ''0'', hex_digit (n div 16), hex_digit (n mod 16)])"

definition json_string :: "string \<Rightarrow> string" where
  "json_string s = CHR 0x22 # concat (map esc_char s) @ [CHR 0x22]"

fun json_val :: "jval \<Rightarrow> string" where
  "json_val JNull = ''null''"
| "json_val (JStr s) = json_string s"
| "json_val (JNat n) = str_nat n"

fun json_members :: "(string \<times> jval) list \<Rightarrow> string" where
  "json_members [] = []"
| "json_members [(k, v)] = json_string k @ CHR '':'' # json_val v"
| "json_members ((k, v) # kvs) = json_string k @ CHR '':'' # json_val v @ CHR '','' # json_members kvs"

definition json_obj :: "(string \<times> jval) list \<Rightarrow> string" where
  "json_obj kvs = CHR ''{'' # json_members kvs @ [CHR ''}'']"

section \<open>The escaped text determines the string\<close>

lemma of_char_hex_digit: "d < 16 \<Longrightarrow> of_char (hex_digit d) = (if d < 10 then 48 + d else 87 + d)"
  by (simp add: hex_digit_def)

lemma hex_digit_inj: "d < 16 \<Longrightarrow> e < 16 \<Longrightarrow> hex_digit d = hex_digit e \<Longrightarrow> d = e"
  by (drule arg_cong [where f = "of_char :: char \<Rightarrow> nat"]) (simp add: of_char_hex_digit split: if_splits)

lemma of_char_less: "(of_char c :: nat) < 256"
  by (metis of_char_mod_256 mod_less_divisor zero_less_numeral)

lemma hex_pair_inj:
  assumes "m < 256" and "n < 256" and "hex_digit (m div 16) = hex_digit (n div 16)"
    and "hex_digit (m mod 16) = hex_digit (n mod 16)"
  shows "m = n"
proof -
  have "m div 16 = n div 16" and "m mod 16 = n mod 16"
    using assms by (auto intro!: hex_digit_inj)
  then show ?thesis by (metis div_mult_mod_eq)
qed

definition esc_tail :: "nat \<Rightarrow> string" where
  "esc_tail n = [CHR ''u'', CHR ''0'', CHR ''0'', hex_digit (n div 16), hex_digit (n mod 16)]"

text \<open>Every escaped character is one printable character or a backslash and a tail.\<close>

lemma esc_char_cases:
  "(esc_char c = [c] \<and> c \<noteq> CHR 0x22 \<and> c \<noteq> CHR 0x5C) \<or>
   (\<exists>k. esc_char c = [CHR 0x5C, k] \<and>
      (k, c) \<in> {(CHR 0x22, CHR 0x22), (CHR 0x5C, CHR 0x5C), (CHR ''n'', CHR 0x0A), (CHR ''r'', CHR 0x0D),
                (CHR ''t'', CHR 0x09), (CHR ''b'', CHR 0x08), (CHR ''f'', CHR 0x0C)}) \<or>
   esc_char c = CHR 0x5C # esc_tail (of_char c)"
  by (simp add: esc_char_def Let_def esc_tail_def)

lemma esc_char_prefix:
  assumes "esc_char c @ x = esc_char d @ y"
  shows "c = d \<and> x = y"
  using assms esc_char_cases [of c] esc_char_cases [of d]
  by (elim disjE conjE exE)
     (auto simp: esc_tail_def dest!: hex_pair_inj [OF of_char_less of_char_less])

lemma esc_char_nonempty: "esc_char c \<noteq> []" and esc_char_no_quote: "hd (esc_char c @ x) \<noteq> CHR 0x22"
  using esc_char_cases [of c] by auto

lemma esc_prefix:
  "concat (map esc_char s) @ CHR 0x22 # x = concat (map esc_char t) @ CHR 0x22 # y \<Longrightarrow> s = t \<and> x = y"
proof (induction s arbitrary: t)
  case Nil
  then show ?case
  proof (cases t)
    case (Cons d t')
    with Nil have "hd (esc_char d @ concat (map esc_char t') @ CHR 0x22 # y) = CHR 0x22"
      by (metis append_assoc append_Nil concat.simps(2) list.map(1) list.sel(1) list.simps(9) concat.simps(1))
    then show ?thesis using esc_char_no_quote by blast
  qed simp
next
  case (Cons c s)
  show ?case
  proof (cases t)
    case Nil
    with Cons.prems have "hd (esc_char c @ concat (map esc_char s) @ CHR 0x22 # x) = CHR 0x22"
      by (metis append_assoc append_Nil concat.simps(2) list.map(1) list.sel(1) list.simps(9) concat.simps(1))
    then show ?thesis using esc_char_no_quote by blast
  next
    case (Cons d t')
    with Cons.prems have "esc_char c @ (concat (map esc_char s) @ CHR 0x22 # x) =
        esc_char d @ (concat (map esc_char t') @ CHR 0x22 # y)" by simp
    from esc_char_prefix [OF this] have "c = d"
      and "concat (map esc_char s) @ CHR 0x22 # x = concat (map esc_char t') @ CHR 0x22 # y"
      by simp_all
    with Cons.IH [of t'] Cons show ?thesis by simp
  qed
qed

lemma json_string_prefix: "json_string s @ x = json_string t @ y \<Longrightarrow> s = t \<and> x = y"
  by (auto simp: json_string_def dest: esc_prefix)

section \<open>The text of an object determines its values\<close>

definition is_digit :: "char \<Rightarrow> bool" where
  "is_digit c = (48 \<le> (of_char c :: nat) \<and> (of_char c :: nat) \<le> 57)"

lemma str_nat_digits: "c \<in> set (str_nat n) \<Longrightarrow> is_digit c"
proof (induction n rule: str_nat.induct)
  case (1 n)
  show ?case
  proof (cases "n < 10")
    case True
    with "1.prems" show ?thesis by (auto simp: str_nat_small is_digit_def of_digit_char)
  next
    case False
    with 1 show ?thesis by (auto simp: str_nat_large is_digit_def of_digit_char)
  qed
qed

lemma delimited_eq:
  assumes "u @ a # x = v @ b # y" and "\<And>c. c \<in> set u \<Longrightarrow> P c" and "\<And>c. c \<in> set v \<Longrightarrow> P c"
    and "\<not> P a" and "\<not> P b"
  shows "u = v \<and> a # x = b # y"
proof -
  have t: "takeWhile P (w @ c # z) = w" if "\<forall>d \<in> set w. P d" and "\<not> P c" for w c z
    using that by (induction w) auto
  have "u = takeWhile P (u @ a # x)" using assms(2,4) by (simp add: t)
  also have "\<dots> = v" unfolding assms(1) using assms(3,5) by (simp add: t)
  finally show ?thesis using assms(1) by simp
qed

lemma str_nat_hd: "\<exists>c r. str_nat n = c # r \<and> is_digit c"
  by (cases "str_nat n") (use str_nat_digits [of _ n] in auto)

definition delim :: "char \<Rightarrow> bool" where
  "delim c \<longleftrightarrow> c = CHR '','' \<or> c = CHR ''}''"

lemma delim_not_digit: "delim c \<Longrightarrow> \<not> is_digit c"
  by (auto simp: delim_def is_digit_def)

lemma not_digit_literals: "\<not> is_digit CHR 0x22" "\<not> is_digit CHR ''n''"
  by (simp_all add: is_digit_def)

lemma json_val_hd:
  "hd (json_val JNull @ z) = CHR ''n''"
  "hd (json_val (JStr s) @ z) = CHR 0x22"
  "is_digit (hd (json_val (JNat n) @ z))"
  using str_nat_hd [of n] by (auto simp: json_string_def)

lemma json_nat_hd: "hd (json_val (JNat n) @ z) \<noteq> CHR ''n''" "hd (json_val (JNat n) @ z) \<noteq> CHR 0x22"
  by (metis json_val_hd(3) not_digit_literals)+

fun same_kind :: "jval \<Rightarrow> jval \<Rightarrow> bool" where
  "same_kind JNull JNull = True"
| "same_kind (JStr s) (JStr t) = True"
| "same_kind (JNat m) (JNat n) = True"
| "same_kind _ _ = False"

lemma json_hd_kind: "hd (json_val v @ z) = hd (json_val w @ z') \<Longrightarrow> same_kind v w"
  by (cases v; cases w)
     (simp_all del: json_val.simps add: json_val_hd(1,2) json_nat_hd json_nat_hd [symmetric])

lemma json_val_prefix:
  assumes eq: "json_val v @ a # x = json_val w @ b # y" and "delim a" and "delim b"
  shows "v = w \<and> a # x = b # y"
proof -
  from eq have hd: "hd (json_val v @ a # x) = hd (json_val w @ b # y)" by simp
  then have "same_kind v w" by (rule json_hd_kind)
  then consider "v = JNull" "w = JNull" | s t where "v = JStr s" "w = JStr t"
    | m n where "v = JNat m" "w = JNat n"
    by (cases v; cases w) simp_all
  then show ?thesis
  proof cases
    case 1
    with eq show ?thesis by simp
  next
    case 2
    with eq show ?thesis using json_string_prefix [of s "a # x" t "b # y"] by simp
  next
    case 3
    have "str_nat m = str_nat n \<and> a # x = b # y"
      using eq assms(2,3) 3 by (intro delimited_eq [where P = is_digit])
        (auto simp: delim_not_digit intro: str_nat_digits)
    then show ?thesis by (simp add: 3 str_nat_inj)
  qed
qed

lemma json_members_Cons:
  "kvs \<noteq> [] \<Longrightarrow> json_members ((k, v) # kvs) =
     json_string k @ CHR '':'' # json_val v @ CHR '','' # json_members kvs"
  by (cases kvs) auto

lemma json_members_inj:
  assumes "map fst kvs = map fst kvs'"
    and "json_members kvs @ CHR ''}'' # x = json_members kvs' @ CHR ''}'' # y"
  shows "kvs = kvs'"
proof -
  have "length kvs = length kvs'" using assms(1) by (metis length_map)
  then show ?thesis using assms
  proof (induction kvs kvs' rule: list_induct2)
    case (Cons kv kvs kv' kvs')
    obtain k v where kv: "kv = (k, v)" by (cases kv)
    obtain k' v' where kv': "kv' = (k', v')" by (cases kv')
    have k: "k = k'" and keys: "map fst kvs = map fst kvs'" using Cons.prems(1) kv kv' by simp_all
    show ?case
    proof (cases kvs)
      case Nil
      with Cons.hyps have "kvs' = []" by simp
      with Cons.prems(2) kv kv' k Nil have "json_val v @ CHR ''}'' # x = json_val v' @ CHR ''}'' # y"
        by simp
      with json_val_prefix [OF this] kv kv' k Nil \<open>kvs' = []\<close> show ?thesis by (simp add: delim_def)
    next
      case (Cons p ps)
      then have ne: "kvs \<noteq> []" "kvs' \<noteq> []" using Cons.hyps by auto
      with Cons.prems(2) kv kv' k have "json_val v @ CHR '','' # (json_members kvs @ CHR ''}'' # x) =
          json_val v' @ CHR '','' # (json_members kvs' @ CHR ''}'' # y)"
        by (simp add: json_members_Cons)
      from json_val_prefix [OF this] have "v = v'"
        and "json_members kvs @ CHR ''}'' # x = json_members kvs' @ CHR ''}'' # y"
        by (simp_all add: delim_def)
      with Cons.IH keys kv kv' k show ?thesis by simp
    qed
  qed simp
qed

lemma json_obj_inj: "map fst kvs = map fst kvs' \<Longrightarrow> json_obj kvs = json_obj kvs' \<Longrightarrow> kvs = kvs'"
  using json_members_inj [of kvs kvs' "[]" "[]"] by (simp add: json_obj_def)

end
