(* ===== verification/Sha256.thy ===== *)
theory Sha256
  imports Prelude "HOL-Library.Word"
begin

text \<open>
  \<open>hashlib.sha256(\<dots>).hexdigest()\<close> of Python's standard library, after FIPS 180-4: a string
  of bytes is padded to blocks of 64, each block extends to a schedule of 64 words of
  32 bits, and 64 rounds update eight working words. The audit chain and the document
  vault of the code use it as a black box; the only facts the development needs are that
  it is a function and that a digest has 64 characters.
\<close>

unbundle bit_operations_syntax

type_synonym w32 = "32 word"

text \<open>
  The constants of the standard: \<open>sha_K\<close> is the first 32 bits of the fractional parts of the
  cube roots of the first 64 primes, \<open>sha_H0\<close> those of the square roots of the first eight.
  \<open>int_root b k n r\<close> improves \<open>r\<close> bit by bit to the integer part of the \<open>k\<close>-th root of \<open>n\<close>.
\<close>

fun int_root :: "nat \<Rightarrow> nat \<Rightarrow> nat \<Rightarrow> nat \<Rightarrow> nat" where
  "int_root 0 k n r = r"
| "int_root (Suc b) k n r = int_root b k n (if (r + 2 ^ b) ^ k \<le> n then r + 2 ^ b else r)"

definition root_bits :: "nat \<Rightarrow> nat \<Rightarrow> w32" where
  "root_bits k p = of_nat (int_root 40 k (p * 2 ^ (32 * k)) 0)"

definition small_primes :: "nat list" where
  "small_primes = filter (\<lambda>n. list_all (\<lambda>d. n mod d \<noteq> 0) [2..<n]) [2..<312]"

definition sha_K :: "w32 list" where
  "sha_K = map (root_bits 3) small_primes"

definition sha_H0 :: "w32 list" where
  "sha_H0 = map (root_bits 2) [2, 3, 5, 7, 11, 13, 17, 19]"

definition rotr32 :: "nat \<Rightarrow> w32 \<Rightarrow> w32" where
  "rotr32 n x = drop_bit n x OR push_bit (32 - n) x"

definition pad_bytes :: "int list \<Rightarrow> int list" where
  "pad_bytes bs =
     (let n = length bs; z = (119 - n mod 64) mod 64; bits = 8 * int n in
      bs @ [128] @ replicate z 0 @ map (\<lambda>i. bits div 256 ^ (7 - i) mod 256) [0..<8])"

fun words_of :: "int list \<Rightarrow> w32 list" where
  "words_of (a # b # c # d # r) = of_int (a * 2 ^ 24 + b * 2 ^ 16 + c * 2 ^ 8 + d) # words_of r"
| "words_of _ = []"

fun extend_schedule :: "nat \<Rightarrow> w32 list \<Rightarrow> w32 list" where
  "extend_schedule 0 w = w"
| "extend_schedule (Suc k) w =
     (let i = length w; x = w ! (i - 15); y = w ! (i - 2);
          s0 = rotr32 7 x XOR rotr32 18 x XOR drop_bit 3 x;
          s1 = rotr32 17 y XOR rotr32 19 y XOR drop_bit 10 y
      in extend_schedule k (w @ [w ! (i - 16) + s0 + w ! (i - 7) + s1]))"

definition sha_round :: "w32 list \<Rightarrow> w32 \<times> w32 \<Rightarrow> w32 list" where
  "sha_round hs kw =
     (let a = hs ! 0; b = hs ! 1; c = hs ! 2; d = hs ! 3; e = hs ! 4; f = hs ! 5; g = hs ! 6;
          h = hs ! 7;
          s1 = rotr32 6 e XOR rotr32 11 e XOR rotr32 25 e;
          ch = (e AND f) XOR (NOT e AND g);
          t1 = h + s1 + ch + fst kw + snd kw;
          s0 = rotr32 2 a XOR rotr32 13 a XOR rotr32 22 a;
          maj = (a AND b) XOR (a AND c) XOR (b AND c)
      in [t1 + (s0 + maj), a, b, c, d + t1, e, f, g])"

definition sha_rounds :: "(w32 \<times> w32) list \<Rightarrow> w32 list \<Rightarrow> w32 list" where
  "sha_rounds kws hs = foldl sha_round hs kws"

definition sha_block :: "w32 list \<Rightarrow> w32 list \<Rightarrow> w32 list" where
  "sha_block hs blk = map2 (+) hs (sha_rounds (zip sha_K (extend_schedule 48 blk)) hs)"

fun sha_blocks :: "nat \<Rightarrow> w32 list \<Rightarrow> w32 list \<Rightarrow> w32 list" where
  "sha_blocks 0 ws hs = hs"
| "sha_blocks (Suc n) ws hs = sha_blocks n (drop 16 ws) (sha_block hs (take 16 ws))"

definition hex_char :: "int \<Rightarrow> char" where
  "hex_char d = (if d < 10 then char_of (48 + d) else char_of (87 + d))"

definition hex_word :: "w32 \<Rightarrow> string" where
  "hex_word x = map (\<lambda>i. hex_char (uint x div 16 ^ (7 - i) mod 16)) [0..<8]"

definition sha256 :: "string \<Rightarrow> string" where
  "sha256 s =
     (let ws = words_of (pad_bytes (map of_char s))
      in concat (map hex_word (sha_blocks (length ws div 16) ws sha_H0)))"

lemma length_hex_word [simp]: "length (hex_word x) = 8"
  by (simp add: hex_word_def)

lemma length_sha_rounds: "length hs = 8 \<Longrightarrow> length (sha_rounds kws hs) = 8"
  by (induction kws arbitrary: hs) (simp_all add: sha_rounds_def sha_round_def Let_def)

lemma length_sha_block: "length hs = 8 \<Longrightarrow> length (sha_block hs blk) = 8"
  by (simp add: sha_block_def length_sha_rounds)

lemma length_sha_blocks: "length hs = 8 \<Longrightarrow> length (sha_blocks n ws hs) = 8"
  by (induction n ws hs rule: sha_blocks.induct) (simp_all add: length_sha_block)

lemma length_concat_const: "(\<And>x. length (f x) = n) \<Longrightarrow> length (concat (map f xs)) = n * length xs"
  by (induction xs) simp_all

lemma length_sha256 [simp]: "length (sha256 s) = 64"
proof -
  have "length sha_H0 = 8" by (simp add: sha_H0_def)
  then show ?thesis
    by (simp add: sha256_def Let_def length_concat_const [of hex_word 8] length_sha_blocks)
qed

end
