(* ===== verification/Audit_Trail.thy ===== *)
theory Audit_Trail
  imports Platform Json_Text Sha256
begin

text \<open>
  The audit trail: \<open>audit/services.py\<close> (writing entries and verifying the hash chain) and
  \<open>audit/models.py\<close> (the append-only table and the \<open>AuditedModel\<close> mixin whose \<open>save\<close>
  records field-level changes). Entries are kept in the order of their ids. The lemmas
  show that writes keep the chain verifiable as long as the client's address is stored as it
  was hashed, that no operation of the table model other than an INSERT changes it, and that
  a chain that verifies determines the hashed content of its entries up to a collision of
  the hash.
\<close>

section \<open>The hash of an entry\<close>

definition GENESIS_HASH :: string where
  "GENESIS_HASH = replicate 64 (CHR ''0'')"

definition jopt :: "string option \<Rightarrow> jval" where
  "jopt m = (case m of None \<Rightarrow> JNull | Some s \<Rightarrow> JStr s)"

definition jnat :: "nat option \<Rightarrow> jval" where
  "jnat m = (case m of None \<Rightarrow> JNull | Some n \<Rightarrow> JNat n)"

text \<open>The fields under the hash, in the sorted order of their keys.\<close>

definition payload_fields :: "audit_entry \<Rightarrow> (string \<times> jval) list" where
  "payload_fields e =
    [(''action'', JStr (ae_action e)),
     (''actor_id'', jnat (ae_actor_id e)),
     (''actor_name'', JStr (ae_actor_name e)),
     (''actor_role'', JStr (ae_actor_role e)),
     (''content_type_id'', jnat (ae_content_type_id e)),
     (''created_at'', jopt (ae_created_at e)),
     (''description'', JStr (ae_description e)),
     (''field_name'', JStr (ae_field_name e)),
     (''ip_address'', jopt (ae_ip_address e)),
     (''new_value'', jopt (ae_new_value e)),
     (''object_id'', JStr (ae_object_id e)),
     (''object_repr'', JStr (ae_object_repr e)),
     (''old_value'', jopt (ae_old_value e)),
     (''reason'', JStr (ae_reason e)),
     (''request_id'', JStr (ae_request_id e))]"

definition canonical_payload :: "audit_entry \<Rightarrow> string" where
  "canonical_payload e = json_obj (payload_fields e)"

definition compute_row_hash :: "string \<Rightarrow> string \<Rightarrow> string" where
  "compute_row_hash prev_hash payload = sha256 (prev_hash @ payload)"

section \<open>Writing an entry\<close>

definition actor_details :: "ctx \<Rightarrow> user option \<Rightarrow> nat option \<times> string \<times> string" where
  "actor_details c a =
     (case (if a = None then req_actor c else a) of
        None \<Rightarrow> (None, SYSTEM_ACTOR_NAME, [])
      | Some u \<Rightarrow>
          let full = strip (user_full_name u); uname = strip (user_username u);
              name = (if full \<noteq> [] then full else if uname \<noteq> [] then uname else user_str u)
          in (Some (user_pk u), take 150 name, take 100 (user_role_code u)))"

text \<open>
  The object an entry is about: its model label and primary key, or nothing. The request to
  write an entry is the set of keyword arguments of \<open>_write\<close>.
\<close>

record audit_req =
  rq_instance :: "(string \<times> nat option) option"
  rq_action :: string
  rq_field_name :: string
  rq_old_value :: pyval
  rq_new_value :: pyval
  rq_description :: string
  rq_reason :: string
  rq_actor :: "user option"

definition unhashed_entry :: "ctx \<Rightarrow> audit_req \<Rightarrow> audit_entry" where
  "unhashed_entry c r =
     (let (aid, aname, arole) = actor_details c (rq_actor r) in
      \<lparr>ae_id = 0,
       ae_content_type_id = map_option (\<lambda>(label, pk). content_type_id c label) (rq_instance r),
       ae_object_id = (case rq_instance r of Some (label, Some pk) \<Rightarrow> str_nat pk | _ \<Rightarrow> []),
       ae_object_repr = (case rq_instance r of
           None \<Rightarrow> [] | Some (label, pk) \<Rightarrow> take 255 (repr_of c label (case pk of None \<Rightarrow> 0 | Some k \<Rightarrow> k))),
       ae_action = rq_action r,
       ae_field_name = rq_field_name r,
       ae_old_value = stringify (rq_old_value r),
       ae_new_value = stringify (rq_new_value r),
       ae_description = take 255 (rq_description r),
       ae_reason = rq_reason r,
       ae_actor_id = aid,
       ae_actor_name = aname,
       ae_actor_role = arole,
       ae_ip_address = client_ip c,
       ae_user_agent = get_user_agent c,
       ae_request_id = (case request_id c of None \<Rightarrow> [] | Some i \<Rightarrow> i),
       ae_created_at = Some (now_iso c),
       ae_prev_hash = GENESIS_HASH,
       ae_row_hash = []\<rparr>)"

text \<open>
  The newest row's hash (\<open>order_by("-id").first()\<close>, or the genesis hash), and the entry as
  it is stored behind it. The unique index on \<open>row_hash\<close> makes the INSERT fail when the
  digest is already in the table.
\<close>

definition tail_hash :: "audit_entry list \<Rightarrow> string" where
  "tail_hash trail = (if trail = [] \<or> ae_row_hash (last trail) = [] then GENESIS_HASH else ae_row_hash (last trail))"

definition next_audit_id :: "audit_entry list \<Rightarrow> nat" where
  "next_audit_id trail = (if trail = [] then 1 else Suc (ae_id (last trail)))"

definition seal_entry :: "audit_entry list \<Rightarrow> audit_entry \<Rightarrow> audit_entry" where
  "seal_entry trail e =
     e\<lparr>ae_id := next_audit_id trail, ae_prev_hash := tail_hash trail,
       ae_row_hash := compute_row_hash (tail_hash trail) (canonical_payload e)\<rparr>"

text \<open>
  The digest is computed from the instance in memory; the column of the address then stores
  nothing for an empty text and the normal form of any other.
\<close>

definition stored_ip :: "ctx \<Rightarrow> string option" where
  "stored_ip c =
     (case client_ip c of None \<Rightarrow> None | Some t \<Rightarrow> if t = [] then None else Some (ip_column c t))"

definition stored_entry :: "ctx \<Rightarrow> audit_entry \<Rightarrow> audit_entry" where
  "stored_entry c e = e\<lparr>ae_ip_address := stored_ip c\<rparr>"

definition write_audit :: "ctx \<Rightarrow> audit_req \<Rightarrow> 'a core_db_scheme \<Rightarrow> exn + 'a core_db_scheme" where
  "write_audit c r s =
     (let trail = audit_log s; e = stored_entry c (seal_entry trail (unhashed_entry c r)) in
      if \<not> audit_up c \<or> ae_row_hash e \<in> ae_row_hash ` set trail then Inl AuditWriteFailed
      else Inr (s\<lparr>audit_log := trail @ [e]\<rparr>))"

definition safe_write :: "bool \<Rightarrow> ctx \<Rightarrow> audit_req \<Rightarrow> 'a core_db_scheme \<Rightarrow> exn + 'a core_db_scheme" where
  "safe_write sensitive c r s =
     (if sensitive then write_audit c r s
      else (case write_audit c r s of Inl e \<Rightarrow> Inr s | Inr s' \<Rightarrow> Inr s'))"

definition record_change ::
  "ctx \<Rightarrow> bool \<Rightarrow> string \<times> nat option \<Rightarrow> string \<Rightarrow> pyval \<Rightarrow> pyval \<Rightarrow> string \<Rightarrow> string \<Rightarrow> user option
    \<Rightarrow> 'a core_db_scheme \<Rightarrow> exn + 'a core_db_scheme" where
  "record_change c sensitive inst field_name old_value new_value action reason act s =
     safe_write sensitive c
       \<lparr>rq_instance = Some inst, rq_action = action, rq_field_name = field_name,
        rq_old_value = old_value, rq_new_value = new_value, rq_description = [],
        rq_reason = reason, rq_actor = act\<rparr> s"

definition record_action ::
  "ctx \<Rightarrow> bool \<Rightarrow> (string \<times> nat option) option \<Rightarrow> string \<Rightarrow> string \<Rightarrow> string \<Rightarrow> user option
    \<Rightarrow> 'a core_db_scheme \<Rightarrow> exn + 'a core_db_scheme" where
  "record_action c sensitive inst action description reason act s =
     safe_write (inst \<noteq> None \<and> sensitive) c
       \<lparr>rq_instance = inst, rq_action = action, rq_field_name = [],
        rq_old_value = VNone, rq_new_value = VNone, rq_description = description,
        rq_reason = reason, rq_actor = act\<rparr> s"

definition record_sensitive_view ::
  "ctx \<Rightarrow> bool \<Rightarrow> string \<times> nat option \<Rightarrow> string \<Rightarrow> string \<Rightarrow> user option
    \<Rightarrow> 'a core_db_scheme \<Rightarrow> exn + 'a core_db_scheme" where
  "record_sensitive_view c sensitive inst verbose description act s =
     record_action c sensitive (Some inst) ''view_sensitive''
       (if description = [] then ''Viewed '' @ verbose else description) [] act s"

section \<open>Audited models\<close>

text \<open>
  What \<open>AuditedModel.save\<close> needs to know of a model class: its label and verbose name, and
  whether it is \<open>audit_sensitive\<close>. \<open>audit_save c m pk snapshot current reason\<close> is the part
  of \<open>save\<close> that follows the row's own write: for a new row (no snapshot) one entry, for an
  existing one an entry per audited field whose value changed.
\<close>

record model_meta =
  mm_label :: string
  mm_verbose :: string
  mm_sensitive :: bool

fun audit_changes ::
  "ctx \<Rightarrow> model_meta \<Rightarrow> nat \<Rightarrow> (string \<times> pyval) list \<Rightarrow> (string \<times> pyval) list \<Rightarrow> string
    \<Rightarrow> 'a core_db_scheme \<Rightarrow> exn + 'a core_db_scheme" where
  "audit_changes c m pk previous [] reason s = Inr s"
| "audit_changes c m pk previous ((name, new) # rest) reason s =
     (let old = (case map_of previous name of None \<Rightarrow> VNone | Some v \<Rightarrow> v) in
      bindE (if old \<noteq> new
             then record_change c (mm_sensitive m) (mm_label m, Some pk) name old new ''update'' reason None s
             else Inr s)
        (\<lambda>s'. audit_changes c m pk previous rest reason s'))"

definition audit_save ::
  "ctx \<Rightarrow> model_meta \<Rightarrow> nat \<Rightarrow> (string \<times> pyval) list option \<Rightarrow> (string \<times> pyval) list \<Rightarrow> string
    \<Rightarrow> 'a core_db_scheme \<Rightarrow> exn + 'a core_db_scheme" where
  "audit_save c m pk snapshot current reason s =
     (case snapshot of
        None \<Rightarrow> record_action c (mm_sensitive m) (Some (mm_label m, Some pk)) ''create''
                 (''Created '' @ mm_verbose m) reason None s
      | Some previous \<Rightarrow> audit_changes c m pk previous current reason s)"

definition audit_delete ::
  "ctx \<Rightarrow> model_meta \<Rightarrow> nat \<Rightarrow> string \<Rightarrow> 'a core_db_scheme \<Rightarrow> exn + 'a core_db_scheme" where
  "audit_delete c m pk reason s =
     record_action c (mm_sensitive m) (Some (mm_label m, Some pk)) ''delete''
       (''Deleted '' @ mm_verbose m) reason None s"

section \<open>The table model is append-only\<close>

text \<open>
  The operations the ORM offers on the table: \<open>save\<close> of a new or of an existing row, and
  \<open>delete\<close> and \<open>update\<close> of a row or a queryset.
\<close>

datatype audit_table_op =
    SaveNew audit_entry | SaveExisting audit_entry | DeleteRow nat
  | QuerySetDelete "nat list" | QuerySetUpdate "nat list" audit_entry

fun audit_table_step :: "audit_entry list \<Rightarrow> audit_table_op \<Rightarrow> exn + audit_entry list" where
  "audit_table_step trail (SaveNew e) =
     (if ae_row_hash e \<in> ae_row_hash ` set trail then Inl IntegrityError
      else Inr (trail @ [e\<lparr>ae_id := next_audit_id trail\<rparr>]))"
| "audit_table_step trail (SaveExisting e) = Inl IntegrityError"
| "audit_table_step trail (DeleteRow i) = Inl IntegrityError"
| "audit_table_step trail (QuerySetDelete is) = Inl IntegrityError"
| "audit_table_step trail (QuerySetUpdate is e) = Inl IntegrityError"

section \<open>Verifying the chain\<close>

record chain_report =
  cr_ok :: bool
  cr_checked :: nat
  cr_first_broken_id :: "nat option"

fun verify_entries :: "string \<Rightarrow> nat \<Rightarrow> audit_entry list \<Rightarrow> chain_report" where
  "verify_entries expected_prev checked [] =
     \<lparr>cr_ok = True, cr_checked = checked, cr_first_broken_id = None\<rparr>"
| "verify_entries expected_prev checked (e # es) =
     (if ae_prev_hash e \<noteq> expected_prev
      then \<lparr>cr_ok = False, cr_checked = checked, cr_first_broken_id = Some (ae_id e)\<rparr>
      else if compute_row_hash (ae_prev_hash e) (canonical_payload e) \<noteq> ae_row_hash e
      then \<lparr>cr_ok = False, cr_checked = checked, cr_first_broken_id = Some (ae_id e)\<rparr>
      else verify_entries (ae_row_hash e) (Suc checked) es)"

definition verify_chain :: "nat \<Rightarrow> nat option \<Rightarrow> audit_entry list \<Rightarrow> chain_report" where
  "verify_chain start_id limit trail =
     (let qs = filter (\<lambda>e. start_id < ae_id e) trail;
          es = (case limit of None \<Rightarrow> qs | Some n \<Rightarrow> if n = 0 then qs else take n qs);
          before = filter (\<lambda>e. ae_id e \<le> start_id) trail;
          expected_prev = (if start_id = 0 \<or> before = [] then GENESIS_HASH else ae_row_hash (last before))
      in verify_entries expected_prev 0 es)"

section \<open>Every write keeps the chain\<close>

fun chained :: "string \<Rightarrow> audit_entry list \<Rightarrow> bool" where
  "chained p [] = True"
| "chained p (e # es) =
     (ae_prev_hash e = p \<and> ae_row_hash e = compute_row_hash p (canonical_payload e) \<and>
      chained (ae_row_hash e) es)"

definition end_hash :: "string \<Rightarrow> audit_entry list \<Rightarrow> string" where
  "end_hash p es = (if es = [] then p else ae_row_hash (last es))"

text \<open>The invariant of the table: linked hashes and positive, increasing ids.\<close>

definition trail_ok :: "audit_entry list \<Rightarrow> bool" where
  "trail_ok es \<longleftrightarrow> chained GENESIS_HASH es \<and> sorted_wrt (<) (map ae_id es) \<and> (\<forall>e \<in> set es. 0 < ae_id e)"

text \<open>
  A trail that was extended is intact when it was intact before and the digests of the new
  entries are those of what is stored; their links and ids always fit.
\<close>

definition hash_kept :: "audit_entry \<Rightarrow> bool" where
  "hash_kept e \<longleftrightarrow> ae_row_hash e = compute_row_hash (ae_prev_hash e) (canonical_payload e)"

definition audit_ext :: "audit_entry list \<Rightarrow> audit_entry list \<Rightarrow> bool" where
  "audit_ext t t' \<longleftrightarrow> (\<exists>es. t' = t @ es \<and> (trail_ok t \<longrightarrow> (\<forall>e \<in> set es. hash_kept e) \<longrightarrow> trail_ok t'))"

lemma end_hash_Nil [simp]: "end_hash p [] = p"
  by (simp add: end_hash_def)

lemma end_hash_snoc [simp]: "end_hash p (es @ [e]) = ae_row_hash e"
  by (simp add: end_hash_def)

lemma chained_append: "chained p (es @ fs) \<longleftrightarrow> chained p es \<and> chained (end_hash p es) fs"
  by (induction es arbitrary: p) (auto simp: end_hash_def)

lemma verify_entries_ok: "cr_ok (verify_entries p n es) \<longleftrightarrow> chained p es"
  by (induction es arbitrary: p n) auto

lemma verify_chain_all:
  assumes "\<forall>e \<in> set es. 0 < ae_id e"
  shows "verify_chain 0 None es = verify_entries GENESIS_HASH 0 es"
proof -
  have "filter (\<lambda>e. 0 < ae_id e) es = es" using assms by (simp add: filter_id_conv)
  then show ?thesis by (simp add: verify_chain_def)
qed

lemma verify_chain_trail_ok: "trail_ok es \<Longrightarrow> cr_ok (verify_chain 0 None es)"
  by (simp add: trail_ok_def verify_chain_all verify_entries_ok)

lemma length_compute_row_hash [simp]: "length (compute_row_hash p x) = 64"
  by (simp add: compute_row_hash_def)

lemma length_GENESIS [simp]: "length GENESIS_HASH = 64"
  by (simp add: GENESIS_HASH_def)

lemma length_end_hash: "chained p es \<Longrightarrow> length p = 64 \<Longrightarrow> length (end_hash p es) = 64"
  by (induction es arbitrary: p) (auto simp: end_hash_def)

lemma tail_hash_end_hash: "chained GENESIS_HASH es \<Longrightarrow> tail_hash es = end_hash GENESIS_HASH es"
  using length_end_hash [of GENESIS_HASH es] by (auto simp: tail_hash_def end_hash_def)

lemma canonical_payload_seal [simp]: "canonical_payload (seal_entry trail e) = canonical_payload e"
  by (simp add: canonical_payload_def payload_fields_def seal_entry_def)

lemma seal_entry_sel [simp]:
  "ae_id (seal_entry trail e) = next_audit_id trail"
  "ae_prev_hash (seal_entry trail e) = tail_hash trail"
  "ae_row_hash (seal_entry trail e) = compute_row_hash (tail_hash trail) (canonical_payload e)"
  "payload_fields (seal_entry trail e) = payload_fields e"
  by (simp_all add: seal_entry_def payload_fields_def)

lemma stored_entry_sel [simp]:
  "ae_id (stored_entry c e) = ae_id e" "ae_prev_hash (stored_entry c e) = ae_prev_hash e"
  "ae_row_hash (stored_entry c e) = ae_row_hash e" "ae_field_name (stored_entry c e) = ae_field_name e"
  "ae_old_value (stored_entry c e) = ae_old_value e" "ae_new_value (stored_entry c e) = ae_new_value e"
  "ae_action (stored_entry c e) = ae_action e" "ae_reason (stored_entry c e) = ae_reason e"
  "ae_object_id (stored_entry c e) = ae_object_id e" "ae_actor_id (stored_entry c e) = ae_actor_id e"
  "ae_ip_address (stored_entry c e) = stored_ip c"
  by (simp_all add: stored_entry_def)

lemma stored_entry_same: "ae_ip_address e = stored_ip c \<Longrightarrow> stored_entry c e = e"
  by (simp add: stored_entry_def)

lemma trail_ok_seal:
  assumes "trail_ok es"
  shows "trail_ok (es @ [seal_entry es e])"
proof -
  have ids: "ae_id f < next_audit_id es" if "f \<in> set es" for f
  proof -
    from that obtain fs g where es: "es = fs @ [g]" by (cases es rule: rev_cases) auto
    with assms that show ?thesis
      by (auto simp: trail_ok_def next_audit_id_def sorted_wrt_append less_Suc_eq)
  qed
  have "0 < next_audit_id es" by (simp add: next_audit_id_def)
  with assms ids show ?thesis
    by (auto simp: trail_ok_def chained_append tail_hash_end_hash sorted_wrt_append)
qed

lemma audit_ext_refl [simp, intro]: "audit_ext t t"
  by (simp add: audit_ext_def)

lemma audit_ext_trans [trans]: "audit_ext t u \<Longrightarrow> audit_ext u v \<Longrightarrow> audit_ext t v"
  unfolding audit_ext_def by (elim exE conjE, rule_tac x = "es @ esa" in exI) simp

text \<open>Which ids and links an entry gets does not depend on its content.\<close>

lemma trail_ok_kept:
  assumes "trail_ok es" and "ae_id e = next_audit_id es" and "ae_prev_hash e = tail_hash es" and "hash_kept e"
  shows "trail_ok (es @ [e])"
proof -
  from trail_ok_seal [OF assms(1), of e] have "trail_ok (es @ [seal_entry es e])" .
  moreover have "seal_entry es e = e" using assms(2-4) by (simp add: seal_entry_def hash_kept_def)
  ultimately show ?thesis by simp
qed

lemma audit_ext_seal [intro]: "audit_ext t (t @ [stored_entry c (seal_entry t e)])"
  by (auto simp: audit_ext_def intro: trail_ok_kept)

lemma write_audit_Inr:
  "write_audit c r s = Inr s' \<longleftrightarrow>
     audit_up c \<and>
     ae_row_hash (seal_entry (audit_log s) (unhashed_entry c r)) \<notin> ae_row_hash ` set (audit_log s) \<and>
     s' = s\<lparr>audit_log := audit_log s @ [stored_entry c (seal_entry (audit_log s) (unhashed_entry c r))]\<rparr>"
  by (auto simp: write_audit_def Let_def)

text \<open>
  Writers of the trail change the database in one way only: they extend the log. The
  elimination rules below hand that to the proofs about the handlers of all modules.
\<close>

definition logs_only :: "('a core_db_scheme \<Rightarrow> exn + 'a core_db_scheme) \<Rightarrow> bool" where
  "logs_only f \<longleftrightarrow>
     (\<forall>s s'. f s = Inr s' \<longrightarrow> (\<exists>t. s' = s\<lparr>audit_log := t\<rparr> \<and> audit_ext (audit_log s) t))"

lemma logs_onlyD: "logs_only f \<Longrightarrow> f s = Inr s' \<Longrightarrow> \<exists>t. s' = s\<lparr>audit_log := t\<rparr> \<and> audit_ext (audit_log s) t"
  by (simp add: logs_only_def)

lemma logs_only_Inr [intro]: "logs_only Inr"
  unfolding logs_only_def by (metis (no_types, lifting) audit_ext_refl core_db.surjective core_db.update_convs(2) sum.inject(2))

lemma logs_only_bindE [intro]:
  assumes "logs_only f" and "logs_only g"
  shows "logs_only (\<lambda>s. bindE (f s) g)"
  unfolding logs_only_def
proof (intro allI impI)
  fix s s' assume "bindE (f s) g = Inr s'"
  then obtain s1 where "f s = Inr s1" and g: "g s1 = Inr s'" by (auto simp: bindE_eq_Inr)
  then obtain t where s1: "s1 = s\<lparr>audit_log := t\<rparr>" and t: "audit_ext (audit_log s) t"
    using logs_onlyD [OF assms(1)] by blast
  from logs_onlyD [OF assms(2) g] obtain t' where "s' = s1\<lparr>audit_log := t'\<rparr>" and "audit_ext (audit_log s1) t'"
    by blast
  with s1 t show "\<exists>t. s' = s\<lparr>audit_log := t\<rparr> \<and> audit_ext (audit_log s) t"
    by (intro exI [of _ t']) (auto intro: audit_ext_trans)
qed

lemma logs_only_write: "logs_only (write_audit c r)"
  by (auto simp: logs_only_def write_audit_Inr)

lemma logs_only_safe: "logs_only (safe_write b c r)"
proof (cases b)
  case True
  then show ?thesis using logs_only_write by (simp add: safe_write_def [abs_def])
next
  case False
  have "\<exists>t. s' = s\<lparr>audit_log := t\<rparr> \<and> audit_ext (audit_log s) t" if "safe_write b c r s = Inr s'" for s s'
  proof (cases "write_audit c r s")
    case (Inl e)
    with that False show ?thesis by (intro exI [of _ "audit_log s"]) (simp add: safe_write_def)
  next
    case (Inr s1)
    with that False show ?thesis using logs_onlyD [OF logs_only_write Inr] by (simp add: safe_write_def)
  qed
  then show ?thesis unfolding logs_only_def by blast
qed

lemma logs_only_record_change:
  "logs_only (record_change c b inst field_name old new action reason act)"
  unfolding record_change_def by (rule logs_only_safe)

lemma logs_only_record_action: "logs_only (record_action c b inst action description reason act)"
  unfolding record_action_def by (rule logs_only_safe)

lemma logs_only_if: "logs_only f \<Longrightarrow> logs_only g \<Longrightarrow> logs_only (\<lambda>s. if b then f s else g s)"
  by (cases b) simp_all

lemma logs_only_changes: "logs_only (audit_changes c m pk previous current reason)"
proof (induction current)
  case Nil
  show ?case using logs_only_Inr by (simp add: audit_changes.simps(1) [abs_def])
next
  case (Cons a current)
  obtain name new where a: "a = (name, new)" by (cases a)
  define old where "old = (case map_of previous name of None \<Rightarrow> VNone | Some v \<Rightarrow> v)"
  from logs_only_bindE [OF logs_only_if [OF logs_only_record_change logs_only_Inr] Cons.IH,
      of "old \<noteq> new" c "mm_sensitive m" "(mm_label m, Some pk)" name old new "''update''" reason None]
  show ?case unfolding a audit_changes.simps(2) [abs_def] old_def Let_def .
qed

lemma logs_only_save: "logs_only (audit_save c m pk snapshot current reason)"
  using logs_only_safe logs_only_changes
  by (cases snapshot) (simp_all add: audit_save_def [abs_def] record_action_def)

lemma audit_saveE:
  assumes "audit_save c m pk snapshot current reason s = Inr s'"
  obtains t where "s' = s\<lparr>audit_log := t\<rparr>" and "audit_ext (audit_log s) t"
  using logs_onlyD [OF logs_only_save assms] by blast

lemma record_actionE:
  assumes "record_action c sensitive inst action description reason act s = Inr s'"
  obtains t where "s' = s\<lparr>audit_log := t\<rparr>" and "audit_ext (audit_log s) t"
  using logs_onlyD [OF logs_only_safe assms [unfolded record_action_def]] by blast


section \<open>Properties\<close>

text \<open>A sequence of audited events, each in the context of its own request.\<close>

fun audit_run :: "(ctx \<times> bool \<times> audit_req) list \<Rightarrow> 'a core_db_scheme \<Rightarrow> exn + 'a core_db_scheme" where
  "audit_run [] s = Inr s"
| "audit_run ((c, sensitive, r) # rest) s = bindE (safe_write sensitive c r s) (audit_run rest)"

lemma logs_only_run: "logs_only (audit_run rs)"
proof (induction rs)
  case Nil
  show ?case using logs_only_Inr by (simp add: audit_run.simps(1) [abs_def])
next
  case (Cons a rs)
  obtain c b r where a: "a = (c, b, r)" by (cases a)
  from logs_only_bindE [OF logs_only_safe Cons.IH, of b c r] show ?case
    unfolding a audit_run.simps(2) [abs_def] .
qed

lemma verify_entries_checked:
  "chained p es \<Longrightarrow> verify_entries p n es = \<lparr>cr_ok = True, cr_checked = n + length es, cr_first_broken_id = None\<rparr>"
  by (induction es arbitrary: p n) auto

lemma verify_chain_trail: "trail_ok es \<Longrightarrow> verify_chain 0 None es = verify_entries GENESIS_HASH 0 es"
  by (simp add: trail_ok_def verify_chain_all)

text \<open>
  The digest of an entry covers the address as \<open>get_client_ip\<close> returned it; \<open>address_kept\<close>
  says that this is the text the column gives back.
\<close>

definition address_kept :: "ctx \<Rightarrow> bool" where
  "address_kept c \<longleftrightarrow> stored_ip c = client_ip c"

lemma stored_kept: "address_kept c \<Longrightarrow> stored_entry c (seal_entry t (unhashed_entry c r)) = seal_entry t (unhashed_entry c r)"
  by (rule stored_entry_same) (simp add: address_kept_def seal_entry_def unhashed_entry_def split_beta)

lemma safe_write_kept:
  assumes "address_kept c" and "trail_ok (audit_log s)" and "safe_write b c r s = Inr s'"
  shows "trail_ok (audit_log s')"
proof (cases "write_audit c r s")
  case (Inl e)
  with assms show ?thesis by (auto simp: safe_write_def split: if_splits)
next
  case (Inr s1)
  with assms have "write_audit c r s = Inr s'" by (auto simp: safe_write_def split: if_splits)
  with assms(1,2) show ?thesis by (auto simp: write_audit_Inr stored_kept trail_ok_seal)
qed

lemma audit_run_kept:
  "\<forall>(c, b, r) \<in> set rs. address_kept c \<Longrightarrow> trail_ok (audit_log s) \<Longrightarrow> audit_run rs s = Inr s' \<Longrightarrow> trail_ok (audit_log s')"
  by (induction rs s rule: audit_run.induct) (auto simp: bindE_eq_Inr dest: safe_write_kept)

text \<open>
  C1. The hash chain written by the audit service verifies. Start from a trail that is
  intact and let any sequence of audited events be recorded, in requests whose client
  address the database keeps as it came: the trail is only extended, never rewritten, and
  \<open>verify_chain\<close> then checks every entry of it and reports no break.
\<close>

theorem audited_writes_verify:
  assumes "trail_ok (audit_log s)" and "audit_run rs s = Inr s'" and "\<forall>(c, b, r) \<in> set rs. address_kept c"
  shows "(\<exists>es. audit_log s' = audit_log s @ es) \<and>
    verify_chain 0 None (audit_log s') =
      \<lparr>cr_ok = True, cr_checked = length (audit_log s'), cr_first_broken_id = None\<rparr>"
proof -
  from logs_onlyD [OF logs_only_run assms(2)] have ext: "audit_ext (audit_log s) (audit_log s')" by auto
  from audit_run_kept [OF assms(3,1,2)] have "trail_ok (audit_log s')" .
  with ext show ?thesis
    by (auto simp: audit_ext_def verify_chain_trail trail_ok_def verify_entries_checked)
qed

text \<open>
  The table is append-only. Whatever sequence of saves, deletions and updates is
  attempted through the model or its queryset, the trail keeps all its entries in place;
  only the successful insertions extend it.
\<close>

fun table_run :: "audit_entry list \<Rightarrow> audit_table_op list \<Rightarrow> audit_entry list" where
  "table_run trail [] = trail"
| "table_run trail (x # xs) =
     table_run (case audit_table_step trail x of Inl e \<Rightarrow> trail | Inr trail' \<Rightarrow> trail') xs"

theorem audit_table_append_only: "take (length trail) (table_run trail xs) = trail"
proof (induction xs arbitrary: trail)
  case (Cons x xs)
  show ?case
  proof (cases x)
    case (SaveNew e)
    let ?t = "trail @ [e\<lparr>ae_id := next_audit_id trail\<rparr>]"
    have "take (length trail) (take (length ?t) (table_run ?t xs)) = trail" using Cons.IH [of ?t] by simp
    then have "take (length trail) (table_run ?t xs) = trail" by (simp only: take_take) simp
    with SaveNew Cons.IH [of trail] show ?thesis by simp
  qed (use Cons.IH in simp_all)
qed simp

text \<open>
  The changes a \<open>save\<close> of an audited model records, as (field, old text, new text).
\<close>

definition recorded :: "audit_entry list \<Rightarrow> (string \<times> string option \<times> string option) list" where
  "recorded es = map (\<lambda>e. (ae_field_name e, ae_old_value e, ae_new_value e)) es"

definition changed_fields ::
  "(string \<times> pyval) list \<Rightarrow> (string \<times> pyval) list \<Rightarrow> (string \<times> string option \<times> string option) list" where
  "changed_fields previous current =
     map (\<lambda>(f, v). (f, stringify (case map_of previous f of None \<Rightarrow> VNone | Some u \<Rightarrow> u), stringify v))
       (filter (\<lambda>(f, v). (case map_of previous f of None \<Rightarrow> VNone | Some u \<Rightarrow> u) \<noteq> v) current)"

lemma audit_changes_exact:
  assumes "mm_sensitive m" and "audit_changes c m pk previous current reason s = Inr s'"
  shows "\<exists>es. audit_log s' = audit_log s @ es \<and> recorded es = changed_fields previous current \<and>
    (\<forall>e \<in> set es. ae_action e = ''update'' \<and> ae_reason e = reason \<and> ae_object_id e = str_nat pk \<and>
       ae_actor_id e = actor_fk (req_actor c))"
  using assms(2)
proof (induction current arbitrary: s)
  case Nil
  then show ?case by (simp add: recorded_def changed_fields_def)
next
  case (Cons a current)
  obtain f v where a: "a = (f, v)" by (cases a)
  let ?old = "case map_of previous f of None \<Rightarrow> VNone | Some u \<Rightarrow> u"
  from Cons.prems a obtain s1 where
    1: "(if ?old \<noteq> v then record_change c (mm_sensitive m) (mm_label m, Some pk) f ?old v ''update'' reason None s
         else Inr s) = Inr s1"
    and 2: "audit_changes c m pk previous current reason s1 = Inr s'"
    by (auto simp: bindE_eq_Inr Let_def)
  from Cons.IH [OF 2] obtain es where es: "audit_log s' = audit_log s1 @ es"
    "recorded es = changed_fields previous current"
    "\<forall>e \<in> set es. ae_action e = ''update'' \<and> ae_reason e = reason \<and> ae_object_id e = str_nat pk \<and>
       ae_actor_id e = actor_fk (req_actor c)" by blast
  show ?case
  proof (cases "?old = v")
    case True
    with 1 es a show ?thesis by (intro exI [of _ es]) (simp add: changed_fields_def)
  next
    case False
    define r where "r = \<lparr>rq_instance = Some (mm_label m, Some pk), rq_action = ''update'', rq_field_name = f,
      rq_old_value = ?old, rq_new_value = v, rq_description = [], rq_reason = reason, rq_actor = None\<rparr>"
    from 1 False assms(1) have "write_audit c r s = Inr s1"
      by (simp add: record_change_def safe_write_def r_def)
    then have s1: "audit_log s1 = audit_log s @ [stored_entry c (seal_entry (audit_log s) (unhashed_entry c r))]"
      by (auto simp: write_audit_Inr)
    have "recorded [stored_entry c (seal_entry (audit_log s) (unhashed_entry c r))] = [(f, stringify ?old, stringify v)]"
      by (simp add: recorded_def seal_entry_def unhashed_entry_def r_def split_beta)
    moreover have "ae_action (seal_entry (audit_log s) (unhashed_entry c r)) = ''update'' \<and>
        ae_reason (seal_entry (audit_log s) (unhashed_entry c r)) = reason \<and>
        ae_object_id (seal_entry (audit_log s) (unhashed_entry c r)) = str_nat pk \<and>
        ae_actor_id (seal_entry (audit_log s) (unhashed_entry c r)) = actor_fk (req_actor c)"
      by (simp add: seal_entry_def unhashed_entry_def r_def split_beta actor_details_def actor_fk_def Let_def
          split: option.split)
    ultimately show ?thesis using es s1 False a
      by (intro exI [of _ "stored_entry c (seal_entry (audit_log s) (unhashed_entry c r)) # es"])
        (simp add: recorded_def changed_fields_def)
  qed
qed

lemma audit_changes_down_sensitive:
  assumes "mm_sensitive m" and "\<not> audit_up c" and "changed_fields previous current \<noteq> []"
  shows "audit_changes c m pk previous current reason s = Inl AuditWriteFailed"
  using assms(3)
proof (induction current)
  case (Cons a current)
  then show ?case using assms(1,2)
    by (cases a) (auto simp: changed_fields_def record_change_def safe_write_def write_audit_def Let_def bindE_eq_Inl)
qed (simp add: changed_fields_def)

lemma write_audit_first:
  "audit_up c \<Longrightarrow> audit_log s = [] \<Longrightarrow>
     write_audit c r s = Inr (s\<lparr>audit_log := [stored_entry c (seal_entry [] (unhashed_entry c r))]\<rparr>)"
  by (simp add: write_audit_def Let_def)

text \<open>
  Saving a sensitive record is audited completely. When the save of an existing row of an
  \<open>audit_sensitive\<close> model succeeds, the trail has grown by exactly one entry per audited
  field whose value changed, in the order of the fields, each with the old and the new
  value, the given reason, the acting user and the row's key; when the audit table cannot
  be written the save fails as soon as one audited field changed.
\<close>

theorem sensitive_save_audited:
  assumes "mm_sensitive m"
  shows "(\<forall>s'. audit_save c m pk (Some previous) current reason s = Inr s' \<longrightarrow>
      (\<exists>es. audit_log s' = audit_log s @ es \<and> recorded es = changed_fields previous current \<and>
        (\<forall>e \<in> set es. ae_reason e = reason \<and> ae_object_id e = str_nat pk \<and>
           ae_actor_id e = actor_fk (req_actor c)))) \<and>
    (\<not> audit_up c \<and> changed_fields previous current \<noteq> [] \<longrightarrow>
      audit_save c m pk (Some previous) current reason s = Inl AuditWriteFailed)"
  using audit_changes_exact [OF assms, of c pk previous current reason s]
    audit_changes_down_sensitive [OF assms, of c previous current pk reason s]
  by (auto simp: audit_save_def)

section \<open>Tampering with the stored rows\<close>

text \<open>
  Someone with access to the database edits the stored rows. A collision is a pair of
  different texts with one digest; \<open>hashed_text\<close> is the text whose digest an entry of a
  chain carries.
\<close>

definition collision :: "string \<Rightarrow> string \<Rightarrow> bool" where
  "collision x y \<longleftrightarrow> x \<noteq> y \<and> sha256 x = sha256 y"

definition hashed_text :: "audit_entry \<Rightarrow> string" where
  "hashed_text e = ae_prev_hash e @ canonical_payload e"

lemma map_fst_payload_fields: "map fst (payload_fields e) = map fst (payload_fields f)"
  by (simp add: payload_fields_def)

lemma canonical_payload_inj: "canonical_payload e = canonical_payload f \<Longrightarrow> payload_fields e = payload_fields f"
  unfolding canonical_payload_def by (rule json_obj_inj [OF map_fst_payload_fields])

lemma chained_row_hash: "chained p es \<Longrightarrow> e \<in> set es \<Longrightarrow> ae_row_hash e = sha256 (hashed_text e)"
  by (induction es arbitrary: p) (auto simp: compute_row_hash_def hashed_text_def)

lemma chained_nth:
  "chained p es \<Longrightarrow> i < length es \<Longrightarrow> ae_prev_hash (es ! i) = end_hash p (take i es)"
proof -
  assume "chained p es" "i < length es"
  then have "chained p (take i es @ es ! i # drop (Suc i) es)" by (simp add: id_take_nth_drop [symmetric])
  then show ?thesis by (simp add: chained_append)
qed

lemma length_prev_hash:
  assumes "chained GENESIS_HASH es" and "e \<in> set es"
  shows "length (ae_prev_hash e) = 64"
proof -
  from assms(2) obtain i where i: "i < length es" "e = es ! i" by (auto simp: in_set_conv_nth)
  have "chained GENESIS_HASH (take i es)"
    using assms(1) by (metis append_take_drop_id chained_append)
  then have "length (end_hash GENESIS_HASH (take i es)) = 64" by (rule length_end_hash) simp
  with chained_nth [OF assms(1) i(1)] i(2) show ?thesis by simp
qed

text \<open>
  The last hash of a chain commits to all of its entries: two chains of the same length
  that verify and end in the same hash agree in every hashed field of every entry, unless
  two of the texts that were hashed are a collision of SHA-256.
\<close>

theorem last_hash_commits:
  assumes "cr_ok (verify_entries GENESIS_HASH 0 es)" and "cr_ok (verify_entries GENESIS_HASH 0 fs)"
    and "length es = length fs" and "end_hash GENESIS_HASH es = end_hash GENESIS_HASH fs"
  shows "map payload_fields es = map payload_fields fs \<or>
    (\<exists>i < length es. collision (hashed_text (es ! i)) (hashed_text (fs ! i)))"
proof -
  from assms(1,2) have "chained GENESIS_HASH es" "chained GENESIS_HASH fs"
    by (simp_all add: verify_entries_ok)
  with assms(3,4) show ?thesis
  proof (induction es arbitrary: fs rule: rev_induct)
    case (snoc e es)
    from snoc.prems(1) obtain f fs' where fs: "fs = fs' @ [f]" by (cases fs rule: rev_cases) auto
    with snoc.prems have ce: "chained GENESIS_HASH es" "chained GENESIS_HASH fs'" and len: "length es = length fs'"
      and prev: "ae_prev_hash e = end_hash GENESIS_HASH es" "ae_prev_hash f = end_hash GENESIS_HASH fs'"
      and row: "sha256 (hashed_text e) = sha256 (hashed_text f)"
      by (auto simp: chained_append compute_row_hash_def hashed_text_def)
    show ?case
    proof (cases "hashed_text e = hashed_text f")
      case False
      with row have "collision (hashed_text e) (hashed_text f)" by (simp add: collision_def)
      then show ?thesis using len by (intro disjI2 exI [of _ "length es"]) (simp add: fs nth_append)
    next
      case True
      have "length (ae_prev_hash e) = length (ae_prev_hash f)"
        using length_prev_hash [OF snoc.prems(3), of e] length_prev_hash [OF snoc.prems(4), of f] by (simp add: fs)
      with True have eq: "ae_prev_hash e = ae_prev_hash f" "canonical_payload e = canonical_payload f"
        by (simp_all add: hashed_text_def)
      from snoc.IH [OF len] eq(1) prev ce
      have "map payload_fields es = map payload_fields fs' \<or>
          (\<exists>i < length es. collision (hashed_text (es ! i)) (hashed_text (fs' ! i)))" by simp
      then show ?thesis
      proof
        assume "map payload_fields es = map payload_fields fs'"
        then show ?thesis using canonical_payload_inj [OF eq(2)] by (simp add: fs)
      next
        assume "\<exists>i < length es. collision (hashed_text (es ! i)) (hashed_text (fs' ! i))"
        then obtain i where "i < length es" "collision (hashed_text (es ! i)) (hashed_text (fs' ! i))" by blast
        then show ?thesis using len by (intro disjI2 exI [of _ i]) (simp add: fs nth_append)
      qed
    qed
  qed simp
qed

text \<open>Where the walk over an edited chain stops.\<close>

lemma verify_entries_append:
  "chained p es \<Longrightarrow> verify_entries p n (es @ fs) = verify_entries (end_hash p es) (n + length es) fs"
proof (induction es arbitrary: p n)
  case (Cons e es)
  then have "verify_entries p n ((e # es) @ fs) = verify_entries (ae_row_hash e) (Suc n) (es @ fs)" by simp
  also have "\<dots> = verify_entries (end_hash (ae_row_hash e) es) (Suc n + length es) fs"
    using Cons.prems Cons.IH [of "ae_row_hash e" "Suc n"] by auto
  finally show ?case by (simp add: end_hash_def)
qed simp

text \<open>
  C6. An edited entry is found. Take a chain that verifies and replace the content of the
  entry at position \<open>i\<close>, not the last one, by anything that differs in a hashed field,
  keeping its id; even with its own hash recomputed, verification reports a break at that
  entry or at the next one, unless the edit is a collision of SHA-256.
\<close>

theorem edit_detected:
  assumes "cr_ok (verify_entries GENESIS_HASH 0 es)" and "Suc i < length es"
    and "payload_fields e \<noteq> payload_fields (es ! i)" and "ae_id e = ae_id (es ! i)"
  shows "cr_first_broken_id (verify_entries GENESIS_HASH 0 (es[i := e]))
      \<in> {Some (ae_id (es ! i)), Some (ae_id (es ! Suc i))} \<or>
    collision (hashed_text (es ! i)) (hashed_text e)"
proof -
  let ?p = "end_hash GENESIS_HASH (take i es)" and ?d = "es ! i" and ?f = "es ! Suc i"
  from assms(1) have ch: "chained GENESIS_HASH es" by (simp add: verify_entries_ok)
  have split: "es = take i es @ ?d # ?f # drop (Suc (Suc i)) es"
    using assms(2) by (metis Cons_nth_drop_Suc Suc_lessD append_take_drop_id)
  have pre: "chained GENESIS_HASH (take i es)" using ch split by (metis chained_append)
  have d: "ae_prev_hash ?d = ?p" using chained_nth [OF ch] assms(2) by simp
  have f: "ae_prev_hash ?f = ae_row_hash ?d"
    using chained_nth [OF ch assms(2)] assms(2) by (simp add: take_Suc_conv_app_nth)
  have "es[i := e] = take i es @ e # ?f # drop (Suc (Suc i)) es"
    using assms(2) by (simp add: upd_conv_take_nth_drop Cons_nth_drop_Suc)
  then have walk: "verify_entries GENESIS_HASH 0 (es[i := e]) =
      verify_entries ?p i (e # ?f # drop (Suc (Suc i)) es)"
    using verify_entries_append [OF pre] assms(2) by simp
  show ?thesis
  proof (cases "ae_prev_hash e = ?p \<and> ae_row_hash e = sha256 (hashed_text e) \<and> ae_row_hash e = ae_row_hash ?d")
    case False
    then show ?thesis using f assms(4)
      by (auto simp: walk compute_row_hash_def hashed_text_def)
  next
    case True
    have "ae_row_hash ?d = sha256 (hashed_text ?d)" using chained_row_hash [OF ch] assms(2) by simp
    with True have "sha256 (hashed_text ?d) = sha256 (hashed_text e)" by metis
    moreover have "hashed_text ?d \<noteq> hashed_text e"
      using assms(3) canonical_payload_inj [of e ?d] True d by (auto simp: hashed_text_def)
    ultimately show ?thesis by (simp add: collision_def)
  qed
qed

text \<open>
  Which removals are found. Remove the entries from position \<open>i\<close> up to (excluding)
  \<open>j\<close> of a chain that verifies. If entries remain behind the removed block, the rest still
  verifies only when the hash of the last removed entry equals the hash in front of the
  block, which the unique index on \<open>row_hash\<close> excludes for stored rows. Nothing remains
  behind a block at the end: truncating the trail always leaves a chain that verifies.
\<close>

theorem removal_detected:
  assumes "cr_ok (verify_entries GENESIS_HASH 0 es)" and "i < j" and "j < length es"
  shows "(cr_ok (verify_entries GENESIS_HASH 0 (take i es @ drop j es)) \<longleftrightarrow>
      ae_row_hash (es ! (j - 1)) = end_hash GENESIS_HASH (take i es)) \<and>
    cr_ok (verify_entries GENESIS_HASH 0 (take i es))"
proof -
  from assms(1) have ch: "chained GENESIS_HASH es" by (simp add: verify_entries_ok)
  have pre: "chained GENESIS_HASH (take i es)" using ch by (metis append_take_drop_id chained_append)
  have suf: "chained (end_hash GENESIS_HASH (take j es)) (drop j es)"
    using ch by (metis append_take_drop_id chained_append)
  have last: "end_hash GENESIS_HASH (take j es) = ae_row_hash (es ! (j - 1))"
    using assms(2,3) by (cases es) (simp_all add: end_hash_def last_conv_nth)
  obtain x xs where x: "drop j es = x # xs" using assms(3) by (cases "drop j es") auto
  show ?thesis using pre suf last by (auto simp: verify_entries_ok chained_append x)
qed

text \<open>
  Deleting a user sets the \<open>actor\<close> of the entries to NULL (\<open>on_delete=SET_NULL\<close>), which
  the database does without going through the append-only queryset.
\<close>

definition on_delete_actor :: "nat \<Rightarrow> audit_entry list \<Rightarrow> audit_entry list" where
  "on_delete_actor uid trail =
     map (\<lambda>e. if ae_actor_id e = Some uid then e\<lparr>ae_actor_id := None\<rparr> else e) trail"

lemma hashed_text_clear_actor:
  "ae_actor_id e = Some uid \<Longrightarrow> hashed_text (e\<lparr>ae_actor_id := None\<rparr>) \<noteq> hashed_text e"
  using canonical_payload_inj [of "e\<lparr>ae_actor_id := None\<rparr>" e]
  by (auto simp: hashed_text_def payload_fields_def jnat_def)

text \<open>
  Deleting a user whose name is on the trail breaks it. The actor's key is one of the
  hashed fields, so once the foreign key is cleared \<open>verify_chain\<close> reports a break for a
  trail nobody tampered with (unless clearing the key is a collision of SHA-256).
\<close>

theorem deleting_actor_breaks_chain:
  assumes "cr_ok (verify_entries GENESIS_HASH 0 es)" and "e \<in> set es" and "ae_actor_id e = Some uid"
  shows "\<not> cr_ok (verify_entries GENESIS_HASH 0 (on_delete_actor uid es)) \<or>
    collision (hashed_text e) (hashed_text (e\<lparr>ae_actor_id := None\<rparr>))"
proof (rule disjCI)
  assume no: "\<not> collision (hashed_text e) (hashed_text (e\<lparr>ae_actor_id := None\<rparr>))"
  show "\<not> cr_ok (verify_entries GENESIS_HASH 0 (on_delete_actor uid es))"
  proof
    assume "cr_ok (verify_entries GENESIS_HASH 0 (on_delete_actor uid es))"
    moreover have "e\<lparr>ae_actor_id := None\<rparr> \<in> set (on_delete_actor uid es)"
      using assms(2,3) by (force simp: on_delete_actor_def)
    ultimately have "ae_row_hash e = sha256 (hashed_text (e\<lparr>ae_actor_id := None\<rparr>))"
      using chained_row_hash by (fastforce simp: verify_entries_ok)
    moreover have "ae_row_hash e = sha256 (hashed_text e)"
      using assms(1,2) chained_row_hash by (simp add: verify_entries_ok)
    ultimately show False using no hashed_text_clear_actor [OF assms(3)] by (auto simp: collision_def)
  qed
qed

lemma jopt_inj: "jopt a = jopt b \<longleftrightarrow> a = b"
  by (simp add: jopt_def split: option.split)

lemma payload_address: "ae_ip_address e \<noteq> ae_ip_address f \<Longrightarrow> payload_fields e \<noteq> payload_fields f"
  by (simp add: payload_fields_def jopt_inj)

text \<open>
  So does a client that chooses its address. The address is hashed as it stands in the header
  and stored in normal form, so one request with a header like \<open>, x\<close> (an empty address) or
  with an IPv6 address in capitals leaves an entry that \<open>verify_chain\<close> reports as broken.
\<close>

theorem client_address_breaks_chain:
  assumes "trail_ok (audit_log s)" and "\<not> address_kept c" and "write_audit c r s = Inr s'"
  shows "\<not> cr_ok (verify_chain 0 None (audit_log s')) \<or>
    collision (tail_hash (audit_log s) @ canonical_payload (unhashed_entry c r)) (hashed_text (last (audit_log s')))"
proof -
  let ?t = "audit_log s" and ?e = "unhashed_entry c r"
  define x where "x = stored_entry c (seal_entry ?t ?e)"
  from assms(3) have s': "audit_log s' = ?t @ [x]" by (auto simp: write_audit_Inr x_def)
  have "ae_ip_address ?e = client_ip c" by (simp add: unhashed_entry_def split_beta)
  with assms(2) have "ae_ip_address x \<noteq> ae_ip_address ?e" by (simp add: x_def address_kept_def)
  then have "payload_fields x \<noteq> payload_fields ?e" by (rule payload_address)
  then have "canonical_payload x \<noteq> canonical_payload ?e" using canonical_payload_inj by blast
  then have differ: "tail_hash ?t @ canonical_payload ?e \<noteq> hashed_text x" by (simp add: hashed_text_def x_def)
  have row: "ae_row_hash x = sha256 (tail_hash ?t @ canonical_payload ?e)" by (simp add: x_def compute_row_hash_def)
  have ids: "\<forall>e \<in> set (?t @ [x]). 0 < ae_id e"
    using assms(1) by (auto simp: trail_ok_def x_def next_audit_id_def)
  show ?thesis
  proof (cases "ae_row_hash x = sha256 (hashed_text x)")
    case True
    with row differ show ?thesis by (simp add: s' collision_def)
  next
    case False
    then have "\<not> chained GENESIS_HASH (?t @ [x])" by (auto simp: chained_append compute_row_hash_def hashed_text_def)
    then show ?thesis by (simp add: s' verify_chain_all [OF ids] verify_entries_ok)
  qed
qed

lemma empty_address_not_kept:
  "client_ip c = get_client_ip (Some '', x'') peer \<Longrightarrow> \<not> address_kept c"
  by (simp add: get_client_ip_def address_kept_def stored_ip_def strip_def)

section \<open>Concrete inputs\<close>

text \<open>
  A request of a signed-in registrar, and a trail of three entries written by it. The
  digests are not evaluated: the chain laws alone show that the sample verifies.
\<close>

definition sample_user :: user where
  "sample_user =
     \<lparr>user_pk = 7, user_full_name = ''Akol Deng'', user_username = ''adeng'', user_str = ''adeng'',
      user_role_code = ''registrar'', has_perm = (\<lambda>p. True)\<rparr>"

definition sample_ctx :: ctx where
  "sample_ctx =
     \<lparr>now = 1000, now_iso = ''2025-01-01T08:00:00+00:00'', today = 10, req_actor = Some sample_user,
      client_ip = Some ''10.0.0.5'', user_agent_header = ''browser'', request_id = Some ''r1'',
      content_type_id = (\<lambda>l. length l), repr_of = (\<lambda>l k. l @ str_nat k), audit_up = True,
      default_currency_setting = ''SSP'', parse_date = (\<lambda>t. None), ip_column = (\<lambda>t. t)\<rparr>"

definition sample_req :: audit_req where
  "sample_req =
     \<lparr>rq_instance = Some (''registry.student'', Some 3), rq_action = ''update'', rq_field_name = ''status'',
      rq_old_value = VStr ''active'', rq_new_value = VStr ''suspended'', rq_description = [],
      rq_reason = ''hearing'', rq_actor = None\<rparr>"

definition sample_log :: "nat \<Rightarrow> audit_entry list" where
  "sample_log n = ((\<lambda>t. t @ [seal_entry t (unhashed_entry sample_ctx sample_req)]) ^^ n) []"

lemma trail_ok_Nil [simp]: "trail_ok []"
  by (simp add: trail_ok_def)

lemma trail_ok_sample: "trail_ok (sample_log n)"
  by (induction n) (simp_all add: sample_log_def trail_ok_seal)

lemma length_sample: "length (sample_log n) = n"
  by (induction n) (simp_all add: sample_log_def)

lemma verify_sample: "cr_ok (verify_entries GENESIS_HASH 0 (sample_log n))"
  using trail_ok_sample by (simp add: verify_entries_ok trail_ok_def)

lemma sample_fields:
  assumes "e \<in> set (sample_log n)"
  shows "ae_actor_id e = Some 7" and "ae_new_value e = Some ''suspended''"
proof -
  have "ae_actor_id (unhashed_entry sample_ctx sample_req) = Some 7 \<and>
      ae_new_value (unhashed_entry sample_ctx sample_req) = Some ''suspended''"
    by (simp add: unhashed_entry_def sample_ctx_def sample_req_def sample_user_def actor_details_def Let_def
        split_beta)
  with assms have "ae_actor_id e = Some 7 \<and> ae_new_value e = Some ''suspended''"
    by (induction n) (auto simp: sample_log_def seal_entry_def)
  then show "ae_actor_id e = Some 7" and "ae_new_value e = Some ''suspended''" by simp_all
qed

lemma safe_write_False: "\<exists>s'. safe_write False c r s = Inr s'"
  by (cases "write_audit c r s") (simp_all add: safe_write_def)

lemma audited_writes_verify_witness:
  "\<exists>s'. audit_run [(sample_ctx, True, sample_req), (sample_ctx, False, sample_req)]
      \<lparr>id_sequences = [], audit_log = []\<rparr> = Inr s' \<and> audit_log s' \<noteq> [] \<and>
    verify_chain 0 None (audit_log s') =
      \<lparr>cr_ok = True, cr_checked = length (audit_log s'), cr_first_broken_id = None\<rparr>"
proof -
  let ?s = "\<lparr>id_sequences = [], audit_log = []\<rparr>"
  obtain s1 where s1: "write_audit sample_ctx sample_req ?s = Inr s1" "audit_log s1 \<noteq> []"
    by (auto simp: write_audit_def sample_ctx_def)
  obtain s2 where s2: "safe_write False sample_ctx sample_req s1 = Inr s2" using safe_write_False by blast
  have run: "audit_run [(sample_ctx, True, sample_req), (sample_ctx, False, sample_req)] ?s = Inr s2"
    using s1 s2 by (simp add: safe_write_def [of True])
  have "audit_log s2 \<noteq> []"
    using logs_onlyD [OF logs_only_safe s2] s1(2) by (auto simp: audit_ext_def)
  moreover have "address_kept sample_ctx" by (simp add: address_kept_def stored_ip_def sample_ctx_def)
  ultimately show ?thesis using run audited_writes_verify [OF _ run] by simp
qed

lemma sensitive_save_audited_witness:
  "\<not> audit_up (sample_ctx\<lparr>audit_up := False\<rparr>) \<and>
   audit_save (sample_ctx\<lparr>audit_up := False\<rparr>)
      \<lparr>mm_label = ''examinations.mark'', mm_verbose = ''mark'', mm_sensitive = True\<rparr> 4
      (Some [(''score'', VDec 50), (''note'', VStr [])]) [(''score'', VDec 60), (''note'', VStr [])] ''remark''
      \<lparr>id_sequences = [], audit_log = []\<rparr> = Inl AuditWriteFailed"
  using sensitive_save_audited [of "\<lparr>mm_label = ''examinations.mark'', mm_verbose = ''mark'', mm_sensitive = True\<rparr>"
      "sample_ctx\<lparr>audit_up := False\<rparr>" 4 "[(''score'', VDec 50), (''note'', VStr [])]"
      "[(''score'', VDec 60), (''note'', VStr [])]" "''remark''" "\<lparr>id_sequences = [], audit_log = []\<rparr>"]
  by (simp add: changed_fields_def)

lemma last_hash_commits_witness:
  "map payload_fields (sample_log 3) = map payload_fields (sample_log 3) \<or>
    (\<exists>i < length (sample_log 3). collision (hashed_text (sample_log 3 ! i)) (hashed_text (sample_log 3 ! i)))"
  using last_hash_commits [OF verify_sample verify_sample, of 3 3] by simp

lemma edit_detected_witness:
  "cr_first_broken_id (verify_entries GENESIS_HASH 0
      ((sample_log 3)[1 := (sample_log 3 ! 1)\<lparr>ae_new_value := Some ''active''\<rparr>]))
      \<in> {Some (ae_id (sample_log 3 ! 1)), Some (ae_id (sample_log 3 ! Suc 1))} \<or>
    collision (hashed_text (sample_log 3 ! 1)) (hashed_text ((sample_log 3 ! 1)\<lparr>ae_new_value := Some ''active''\<rparr>))"
proof -
  have "sample_log 3 ! 1 \<in> set (sample_log 3)" by (rule nth_mem) (simp add: length_sample)
  then have "ae_new_value (sample_log 3 ! 1) = Some ''suspended''" by (rule sample_fields)
  then have "payload_fields ((sample_log 3 ! 1)\<lparr>ae_new_value := Some ''active''\<rparr>) \<noteq> payload_fields (sample_log 3 ! 1)"
    by (simp add: payload_fields_def jopt_def)
  then show ?thesis
    using edit_detected [OF verify_sample, of 1 3 "(sample_log 3 ! 1)\<lparr>ae_new_value := Some ''active''\<rparr>"]
    by (simp add: length_sample)
qed

lemma removal_detected_witness:
  "(cr_ok (verify_entries GENESIS_HASH 0 (take 0 (sample_log 3) @ drop 1 (sample_log 3))) \<longleftrightarrow>
      ae_row_hash (sample_log 3 ! (1 - 1)) = end_hash GENESIS_HASH (take 0 (sample_log 3))) \<and>
    cr_ok (verify_entries GENESIS_HASH 0 (take 0 (sample_log 3)))"
  using removal_detected [OF verify_sample, of 0 1 3] by (simp add: length_sample)

lemma deleting_actor_breaks_chain_witness:
  "\<exists>e \<in> set (sample_log 2). \<not> cr_ok (verify_entries GENESIS_HASH 0 (on_delete_actor 7 (sample_log 2))) \<or>
    collision (hashed_text e) (hashed_text (e\<lparr>ae_actor_id := None\<rparr>))"
proof -
  have e: "sample_log 2 ! 0 \<in> set (sample_log 2)" by (rule nth_mem) (simp add: length_sample)
  with deleting_actor_breaks_chain [OF verify_sample e sample_fields(1) [OF e]] show ?thesis by blast
qed

end
