(* ===== verification/Sync_Engine.thy ===== *)
theory Sync_Engine
  imports Audit_Trail
begin

text \<open>
  The offline sync engine: \<open>core/sync/engine.py\<close> (one operation, a batch),
  \<open>core/sync/handlers.py\<close> (the handler registry), the validation of a batch in
  \<open>core/sync/serializers.py\<close>, the views of \<open>core/sync/views.py\<close> and the ledger tables of
  \<open>core/models.py\<close>. A handler is a value with its \<open>apply\<close>; the handlers of the modules
  are defined in their own theories and collected in the root theory. The locale
  \<open>sync_registry\<close> states what the engine relies on, that a handler leaves the ledger
  alone, and proves in it that replaying operations is safe.
\<close>

section \<open>The ledger\<close>

datatype sync_status = SyncPending | SyncApplied | SyncDuplicate | SyncConflicted | SyncRejected

datatype conflict_policy = LastWriteWins | FlagForReview

datatype conflict_resolution = ConflictOpen | ResolvedServer | ResolvedClient | Dismissed

record sync_input =
  in_client_op_id :: string
  in_entity :: string
  in_action :: string
  in_payload :: "(string \<times> pyval) list"
  in_client_timestamp :: "int option"
  in_device_id :: string

text \<open>
  What a handler returns: the fields of its result, the values it overwrote and the
  \<open>_target\<close> row, which the engine takes out of the result. Of a failed operation the record
  keeps the status; its \<open>error_detail\<close>, the text of the exception, is not a column here.
\<close>

record sync_result =
  sr_fields :: "(string \<times> pyval) list"
  sr_overwrote :: "(string \<times> pyval \<times> pyval) list"
  sr_target :: "(model_meta \<times> nat) option"

record sync_operation =
  so_client_op_id :: string
  so_entity :: string
  so_action :: string
  so_payload :: "(string \<times> pyval) list"
  so_client_timestamp :: "int option"
  so_status :: sync_status
  so_result :: "sync_result option"
  so_submitted_by :: "nat option"
  so_device_id :: string
  so_target :: "(string \<times> nat) option"

record sync_conflict =
  sc_operation :: nat
  sc_entity :: string
  sc_target :: "(string \<times> nat) option"
  sc_field_name :: string
  sc_server_value :: string
  sc_client_value :: string
  sc_server_updated_at :: "int option"
  sc_client_timestamp :: "int option"
  sc_status :: conflict_resolution
  sc_resolved_by :: "nat option"
  sc_resolved_at :: "int option"
  sc_resolution_reason :: string

record sync_db = core_db +
  sync_operations :: "sync_operation table"
  sync_conflicts :: "sync_conflict table"

section \<open>Handlers\<close>

record 's sync_handler =
  sh_entity :: string
  sh_actions :: "string list"
  sh_policy :: conflict_policy
  sh_required_permission :: string
  sh_apply :: "sync_input \<Rightarrow> user \<Rightarrow> 's \<Rightarrow> exn + sync_result \<times> 's"

definition register_handler :: "'s sync_handler \<Rightarrow> 's sync_handler list \<Rightarrow> 's sync_handler list" where
  "register_handler h hs = filter (\<lambda>g. sh_entity g \<noteq> sh_entity h) hs @ [h]"

definition get_handler :: "string \<Rightarrow> 's sync_handler list \<Rightarrow> 's sync_handler option" where
  "get_handler entity hs = find (\<lambda>h. sh_entity h = entity) hs"

section \<open>One operation\<close>

record operation_outcome =
  oc_entity :: string
  oc_status :: sync_status
  oc_result :: "sync_result option"
  oc_error :: "string option"
  oc_conflict_id :: "nat option"

definition sync_rejected :: "sync_input \<Rightarrow> string \<Rightarrow> operation_outcome" where
  "sync_rejected op code =
     \<lparr>oc_entity = in_entity op, oc_status = SyncRejected, oc_result = None, oc_error = Some code,
      oc_conflict_id = None\<rparr>"

definition pending_record :: "sync_input \<Rightarrow> user \<Rightarrow> sync_operation" where
  "pending_record op actor =
     \<lparr>so_client_op_id = in_client_op_id op, so_entity = in_entity op, so_action = in_action op,
      so_payload = in_payload op, so_client_timestamp = in_client_timestamp op, so_status = SyncPending,
      so_result = None, so_submitted_by = Some (user_pk actor), so_device_id = in_device_id op,
      so_target = None\<rparr>"

definition find_operation :: "string \<Rightarrow> 'a sync_db_scheme \<Rightarrow> (nat \<times> sync_operation) option" where
  "find_operation op_id s = first_row (\<lambda>_ r. so_client_op_id r = op_id) (sync_operations s)"

definition set_op_status :: "nat \<Rightarrow> sync_status \<Rightarrow> 'a sync_db_scheme \<Rightarrow> 'a sync_db_scheme" where
  "set_op_status k st s =
     (case get_row (sync_operations s) k of
        None \<Rightarrow> s
      | Some r \<Rightarrow> s\<lparr>sync_operations := put_row k (r\<lparr>so_status := st\<rparr>) (sync_operations s)\<rparr>)"

definition mark_rejected :: "nat \<Rightarrow> 'a sync_db_scheme \<Rightarrow> 'a sync_db_scheme" where
  "mark_rejected k s = set_op_status k SyncRejected s"

text \<open>\<open>"" if value is None else str(value)\<close>\<close>

fun conflict_text :: "pyval \<Rightarrow> string" where
  "conflict_text VNone = []"
| "conflict_text (VBool b) = (if b then ''True'' else ''False'')"
| "conflict_text v = (case stringify v of None \<Rightarrow> [] | Some t \<Rightarrow> t)"

definition record_conflict ::
  "nat \<Rightarrow> sync_operation \<Rightarrow> exn \<Rightarrow> 'a sync_db_scheme \<Rightarrow> nat \<times> 'a sync_db_scheme" where
  "record_conflict k rec e s =
     (let s1 = set_op_status k SyncConflicted s;
          row = \<lparr>sc_operation = k, sc_entity = so_entity rec, sc_target = conflict_target e,
                 sc_field_name = conflict_field e, sc_server_value = conflict_text (conflict_server e),
                 sc_client_value = conflict_text (conflict_client e),
                 sc_server_updated_at = conflict_updated_at e,
                 sc_client_timestamp = so_client_timestamp rec, sc_status = ConflictOpen,
                 sc_resolved_by = None, sc_resolved_at = None, sc_resolution_reason = []\<rparr>
      in (fresh_pk (sync_conflicts s1), s1\<lparr>sync_conflicts := add_row row (sync_conflicts s1)\<rparr>))"

definition sync_operation_meta :: model_meta where
  "sync_operation_meta =
     \<lparr>mm_label = ''core.syncoperation'', mm_verbose = ''sync operation'', mm_sensitive = False\<rparr>"

definition overwrite_reason :: "sync_operation \<Rightarrow> string" where
  "overwrite_reason rec =
     ''Offline sync (device='' @ (if so_device_id rec = [] then ''unknown'' else so_device_id rec) @
     '', op='' @ so_client_op_id rec @ '') replaced an earlier value.''"

text \<open>
  \<open>_audit_overwrites\<close> runs after the transaction of the handler has been committed; each
  entry is a transaction of its own. The error, if there is one, leaves the entries already
  written.
\<close>

fun audit_overwrites ::
  "ctx \<Rightarrow> bool \<Rightarrow> string \<times> nat option \<Rightarrow> string \<Rightarrow> (string \<times> pyval \<times> pyval) list
    \<Rightarrow> 'a core_db_scheme \<Rightarrow> exn option \<times> 'a core_db_scheme" where
  "audit_overwrites c sensitive inst reason [] s = (None, s)"
| "audit_overwrites c sensitive inst reason ((field, old, new) # rest) s =
     (case record_change c sensitive inst field old new ''sync_overwrite'' reason None s of
        Inl e \<Rightarrow> (Some e, s)
      | Inr s' \<Rightarrow> audit_overwrites c sensitive inst reason rest s')"

text \<open>The outcome of each class of exceptions, and what it writes to the ledger.\<close>

definition failed_operation ::
  "sync_input \<Rightarrow> nat \<Rightarrow> sync_operation \<Rightarrow> exn \<Rightarrow> 'a sync_db_scheme \<Rightarrow> operation_outcome \<times> 'a sync_db_scheme" where
  "failed_operation op k rec e s =
     (case e of
        SyncConflictDetected f sv cv upd tgt \<Rightarrow>
          (let (cid, s') = record_conflict k rec e s in
           (\<lparr>oc_entity = in_entity op, oc_status = SyncConflicted, oc_result = None,
             oc_error = Some ''sync_conflict'', oc_conflict_id = Some cid\<rparr>, s'))
      | ValidationError \<Rightarrow> (sync_rejected op ''validation_error'', mark_rejected k s)
      | DomainError code status \<Rightarrow> (sync_rejected op code, mark_rejected k s)
      | ConfigurationError \<Rightarrow> (sync_rejected op ''configuration_error'', mark_rejected k s)
      | _ \<Rightarrow> (sync_rejected op ''sync_error'', mark_rejected k s))"

text \<open>
  \<open>apply_operation\<close>. The claim of the operation id fails on the unique index when the id
  is already in the ledger. The handler and the update of the ledger row share one
  transaction; a failure continues from the state after the claim.
\<close>

definition apply_claimed ::
  "ctx \<Rightarrow> 'a sync_db_scheme sync_handler \<Rightarrow> sync_input \<Rightarrow> user \<Rightarrow> nat \<Rightarrow> sync_operation
    \<Rightarrow> 'a sync_db_scheme \<Rightarrow> operation_outcome \<times> 'a sync_db_scheme" where
  "apply_claimed c h op actor k rec s =
     (case sh_apply h op actor s of
        Inl e \<Rightarrow> failed_operation op k rec e s
      | Inr (res, s2) \<Rightarrow>
          (let stored = res\<lparr>sr_target := None\<rparr>;
               rec' = rec\<lparr>so_status := SyncApplied, so_result := Some stored,
                          so_target := map_option (\<lambda>(m, pk). (mm_label m, pk)) (sr_target res)\<rparr>;
               s3 = s2\<lparr>sync_operations := put_row k rec' (sync_operations s2)\<rparr>;
               inst = (case sr_target res of
                         None \<Rightarrow> (mm_label sync_operation_meta, Some k)
                       | Some (m, pk) \<Rightarrow> (mm_label m, Some pk));
               sensitive = (case sr_target res of None \<Rightarrow> False | Some (m, pk) \<Rightarrow> mm_sensitive m);
               (err, s4) = (if sh_policy h = LastWriteWins
                            then audit_overwrites c sensitive inst (overwrite_reason rec') (sr_overwrote res) s3
                            else (None, s3))
           in case err of
                Some e \<Rightarrow> failed_operation op k rec' e s4
              | None \<Rightarrow> (\<lparr>oc_entity = in_entity op, oc_status = SyncApplied, oc_result = Some stored,
                          oc_error = None, oc_conflict_id = None\<rparr>, s4)))"

definition apply_operation ::
  "ctx \<Rightarrow> 'a sync_db_scheme sync_handler list \<Rightarrow> sync_input \<Rightarrow> user option
    \<Rightarrow> 'a sync_db_scheme \<Rightarrow> operation_outcome \<times> 'a sync_db_scheme" where
  "apply_operation c hs op actor s =
     (case get_handler (in_entity op) hs of
        None \<Rightarrow> (sync_rejected op ''unknown_entity'', s)
      | Some h \<Rightarrow>
          if in_action op \<notin> set (sh_actions h) then (sync_rejected op ''unsupported_action'', s)
          else (case actor of
              None \<Rightarrow> (sync_rejected op ''permission_denied'', s)
            | Some u \<Rightarrow>
                if \<not> has_perm u (sh_required_permission h) then (sync_rejected op ''permission_denied'', s)
                else (case find_operation (in_client_op_id op) s of
                    Some (k, existing) \<Rightarrow>
                      (\<lparr>oc_entity = so_entity existing, oc_status = SyncDuplicate,
                        oc_result = so_result existing, oc_error = None, oc_conflict_id = None\<rparr>, s)
                  | None \<Rightarrow>
                      let rec = pending_record op u; k = fresh_pk (sync_operations s) in
                      apply_claimed c h op u k rec
                        (s\<lparr>sync_operations := add_row rec (sync_operations s)\<rparr>))))"

section \<open>Batches and views\<close>

fun apply_batch ::
  "ctx \<Rightarrow> 'a sync_db_scheme sync_handler list \<Rightarrow> sync_input list \<Rightarrow> user option
    \<Rightarrow> 'a sync_db_scheme \<Rightarrow> operation_outcome list \<times> 'a sync_db_scheme" where
  "apply_batch c hs [] actor s = ([], s)"
| "apply_batch c hs (op # ops) actor s =
     (let (oc, s') = apply_operation c hs op actor s; (ocs, s'') = apply_batch c hs ops actor s'
      in (oc # ocs, s''))"

definition MAX_BATCH_SIZE :: nat where "MAX_BATCH_SIZE = 200"

definition validate_operations :: "sync_input list \<Rightarrow> exn + unit" where
  "validate_operations ops =
     (if ops = [] \<or> MAX_BATCH_SIZE < length ops \<or> \<not> distinct (map in_client_op_id ops)
      then Inl ValidationError else Inr ())"

definition count_status :: "sync_status \<Rightarrow> operation_outcome list \<Rightarrow> nat" where
  "count_status st ocs = length (filter (\<lambda>oc. oc_status oc = st) ocs)"

definition sync_batch_post ::
  "ctx \<Rightarrow> 'a sync_db_scheme sync_handler list \<Rightarrow> sync_input list
    \<Rightarrow> 'a sync_db_scheme \<Rightarrow> exn + (operation_outcome list \<times> (sync_status \<Rightarrow> nat)) \<times> 'a sync_db_scheme" where
  "sync_batch_post c hs ops s =
     bindE (validate_operations ops)
       (\<lambda>_. let (ocs, s') = apply_batch c hs ops (req_actor c) s in Inr ((ocs, \<lambda>st. count_status st ocs), s'))"

fun sync_http_status :: "sync_status \<Rightarrow> nat" where
  "sync_http_status SyncApplied = 201"
| "sync_http_status SyncDuplicate = 200"
| "sync_http_status SyncConflicted = 409"
| "sync_http_status SyncRejected = 400"
| "sync_http_status SyncPending = 200"

definition sync_operation_post ::
  "ctx \<Rightarrow> 'a sync_db_scheme sync_handler list \<Rightarrow> sync_input
    \<Rightarrow> 'a sync_db_scheme \<Rightarrow> (nat \<times> operation_outcome) \<times> 'a sync_db_scheme" where
  "sync_operation_post c hs op s =
     (let (oc, s') = apply_operation c hs op (req_actor c) s in ((sync_http_status (oc_status oc), oc), s'))"

text \<open>
  Resolving a conflict: the serializer trims the reason and asks for 5 to 2000 characters and
  for one of the three resolutions; the request has passed the permission check of the view.
\<close>

definition conflict_resolve_post ::
  "ctx \<Rightarrow> nat \<Rightarrow> conflict_resolution \<Rightarrow> string \<Rightarrow> 'a sync_db_scheme \<Rightarrow> exn + 'a sync_db_scheme" where
  "conflict_resolve_post c pk resolution reason0 s =
     (let reason = strip reason0 in
      if resolution = ConflictOpen \<or> length reason < 5 \<or> 2000 < length reason then Inl ValidationError
      else case get_row (sync_conflicts s) pk of
          None \<Rightarrow> Inl (DomainError ''not_found'' 404)
        | Some r \<Rightarrow>
            if sc_status r \<noteq> ConflictOpen then Inl (DomainError ''already_resolved'' 409)
            else record_action c False (Some (''core.syncconflict'', Some pk)) ''approve''
              (''Sync conflict on '' @ sc_entity r @ ''.'' @ sc_field_name r @ '' resolved as '' @
                (case resolution of ResolvedServer \<Rightarrow> ''resolved_server''
                   | ResolvedClient \<Rightarrow> ''resolved_client'' | _ \<Rightarrow> ''dismissed'') @ ''.'')
              reason None
              (s\<lparr>sync_conflicts := put_row pk
                   (r\<lparr>sc_status := resolution, sc_resolution_reason := reason,
                      sc_resolved_by := actor_fk (req_actor c), sc_resolved_at := Some (now c)\<rparr>)
                   (sync_conflicts s)\<rparr>))"

section \<open>What one operation does to the ledger\<close>

lemma add_row_snoc: "add_row r t = t @ [(fresh_pk t, r)]"
  by (simp add: add_row_def)

lemma put_row_snoc [simp]: "k \<notin> fst ` set t \<Longrightarrow> put_row k r (t @ [(k, x)]) = t @ [(k, r)]"
  by (induction t) auto

lemma get_row_snoc [simp]: "k \<notin> fst ` set t \<Longrightarrow> get_row (t @ [(k, x)]) k = Some x"
  by (simp add: get_row_def map_add_def split: option.split) (metis get_row_def get_row_key)

lemma audit_overwrites_log:
  "audit_overwrites c b inst reason ows s = (err, s') \<Longrightarrow> \<exists>tr. s' = s\<lparr>audit_log := tr\<rparr> \<and> audit_ext (audit_log s) tr"
proof (induction c b inst reason ows s arbitrary: err rule: audit_overwrites.induct)
  case (1 c b inst reason s)
  then show ?case by (intro exI [of _ "audit_log s"]) simp
next
  case (2 c b inst reason field old new rest s)
  show ?case
  proof (cases "record_change c b inst field old new ''sync_overwrite'' reason None s")
    case (Inl e)
    with 2 show ?thesis by (intro exI [of _ "audit_log s"]) simp
  next
    case (Inr s1)
    with 2 obtain tr where "s' = s1\<lparr>audit_log := tr\<rparr>" "audit_ext (audit_log s1) tr" by auto
    moreover from logs_onlyD [OF logs_only_record_change Inr] obtain tr1 where
      "s1 = s\<lparr>audit_log := tr1\<rparr>" "audit_ext (audit_log s) tr1" by blast
    ultimately show ?thesis by (intro exI [of _ tr]) (auto intro: audit_ext_trans)
  qed
qed

lemma failed_operation_effect:
  assumes "failed_operation op k rec e s = (oc, s')" and "sync_operations s = t @ [(k, r)]" and "k \<notin> fst ` set t"
  shows "\<exists>cs. s' = s\<lparr>sync_operations := t @ [(k, r\<lparr>so_status := oc_status oc\<rparr>)], sync_conflicts := cs\<rparr> \<and>
    oc_status oc \<in> {SyncConflicted, SyncRejected} \<and> oc_result oc = None"
  using assms
  by (cases e)
    (auto simp: failed_operation_def record_conflict_def set_op_status_def mark_rejected_def sync_rejected_def Let_def
      intro: exI [of _ "sync_conflicts s"])

text \<open>The ledger row of an operation that was claimed, as its outcome leaves it.\<close>

definition settled_row :: "operation_outcome \<Rightarrow> sync_operation \<Rightarrow> sync_operation \<Rightarrow> bool" where
  "settled_row oc rec rec' \<longleftrightarrow> so_client_op_id rec' = so_client_op_id rec \<and> so_status rec' = oc_status oc \<and>
     oc_status oc \<in> {SyncApplied, SyncConflicted, SyncRejected} \<and>
     (oc_status oc = SyncApplied \<longrightarrow> so_result rec' = oc_result oc)"

locale sync_registry =
  fixes handlers :: "ctx \<Rightarrow> 'a sync_db_scheme sync_handler list"
  assumes keeps_ledger: "h \<in> set (handlers c) \<Longrightarrow> sh_apply h op u s = Inr (r, s') \<Longrightarrow>
    sync_operations s' = sync_operations s \<and> sync_conflicts s' = sync_conflicts s"
  and same_interface: "get_handler e (handlers c) = Some h \<Longrightarrow>
    \<exists>h'. get_handler e (handlers c') = Some h' \<and> sh_actions h' = sh_actions h \<and>
      sh_required_permission h' = sh_required_permission h"
begin

definition op_ids :: "'a sync_db_scheme \<Rightarrow> string list" where
  "op_ids s = map (\<lambda>(k, r). so_client_op_id r) (sync_operations s)"

definition admissible :: "ctx \<Rightarrow> sync_input \<Rightarrow> user option \<Rightarrow> bool" where
  "admissible c op actor \<longleftrightarrow> (\<exists>h u. get_handler (in_entity op) (handlers c) = Some h \<and> actor = Some u \<and>
     in_action op \<in> set (sh_actions h) \<and> has_perm u (sh_required_permission h))"

lemma admissible_ctx: "admissible c op actor \<Longrightarrow> admissible c' op actor"
  using same_interface by (fastforce simp: admissible_def)

lemma find_operation_None: "find_operation i s = None \<longleftrightarrow> i \<notin> set (op_ids s)"
  by (force simp: find_operation_def first_row_None exists_row_iff op_ids_def)

lemma get_handler_set: "get_handler e hs = Some h \<Longrightarrow> h \<in> set hs"
  by (auto simp: get_handler_def find_Some_iff)

lemma apply_claimed_ledger:
  assumes "h \<in> set (handlers c)" and "apply_claimed c h op u k rec s = (oc, s')"
    and "sync_operations s = t @ [(k, rec)]" and "k \<notin> fst ` set t"
  shows "\<exists>rec'. sync_operations s' = t @ [(k, rec')] \<and> settled_row oc rec rec'"
proof (cases "sh_apply h op u s")
  case (Inl e)
  with assms have "failed_operation op k rec e s = (oc, s')" by (simp add: apply_claimed_def)
  from failed_operation_effect [OF this assms(3,4)] show ?thesis by (auto simp: settled_row_def)
next
  case (Inr x)
  obtain res s2 where x: "x = (res, s2)" by (cases x)
  define rec' where "rec' = rec\<lparr>so_status := SyncApplied, so_result := Some (res\<lparr>sr_target := None\<rparr>),
    so_target := map_option (\<lambda>(m, pk). (mm_label m, pk)) (sr_target res)\<rparr>"
  define s3 where "s3 = s2\<lparr>sync_operations := put_row k rec' (sync_operations s2)\<rparr>"
  have led: "sync_operations s3 = t @ [(k, rec')]"
    using keeps_ledger [OF assms(1) Inr [unfolded x]] assms(3,4) by (simp add: s3_def)
  obtain err s4 where ow: "(if sh_policy h = LastWriteWins
      then audit_overwrites c (case sr_target res of None \<Rightarrow> False | Some (m, pk) \<Rightarrow> mm_sensitive m)
        (case sr_target res of None \<Rightarrow> (mm_label sync_operation_meta, Some k) | Some (m, pk) \<Rightarrow> (mm_label m, Some pk))
        (overwrite_reason rec') (sr_overwrote res) s3
      else (None, s3)) = (err, s4)" by (rule prod.exhaust)
  have led4: "sync_operations s4 = t @ [(k, rec')]"
  proof (cases "sh_policy h = LastWriteWins")
    case True
    with ow have "audit_overwrites c (case sr_target res of None \<Rightarrow> False | Some (m, pk) \<Rightarrow> mm_sensitive m)
        (case sr_target res of None \<Rightarrow> (mm_label sync_operation_meta, Some k) | Some (m, pk) \<Rightarrow> (mm_label m, Some pk))
        (overwrite_reason rec') (sr_overwrote res) s3 = (err, s4)" by simp
    from audit_overwrites_log [OF this] led show ?thesis by auto
  qed (use ow led in simp)
  have step: "apply_claimed c h op u k rec s =
      (case err of Some e \<Rightarrow> failed_operation op k rec' e s4
       | None \<Rightarrow> (\<lparr>oc_entity = in_entity op, oc_status = SyncApplied, oc_result = Some (res\<lparr>sr_target := None\<rparr>),
                   oc_error = None, oc_conflict_id = None\<rparr>, s4))"
    using ow by (cases "sh_policy h = LastWriteWins"; cases err)
      (simp_all add: apply_claimed_def Inr x Let_def rec'_def [symmetric] s3_def [symmetric])
  show ?thesis
  proof (cases err)
    case None
    with assms(2) step led4 show ?thesis by (auto simp: settled_row_def rec'_def)
  next
    case (Some e)
    with assms(2) step have "failed_operation op k rec' e s4 = (oc, s')" by simp
    from failed_operation_effect [OF this led4 assms(4)] show ?thesis
      by (auto simp: settled_row_def rec'_def)
  qed
qed

lemma apply_operation_cases:
  assumes "apply_operation c (handlers c) op actor s = (oc, s')"
  obtains "\<not> admissible c op actor" and "s' = s" and "oc_status oc = SyncRejected"
  | k r where "admissible c op actor" and "find_operation (in_client_op_id op) s = Some (k, r)" and "s' = s"
      and "oc_status oc = SyncDuplicate" and "oc_result oc = so_result r"
  | k rec rec' where "admissible c op actor" and "in_client_op_id op \<notin> set (op_ids s)"
      and "so_client_op_id rec = in_client_op_id op"
      and "sync_operations s' = sync_operations s @ [(fresh_pk (sync_operations s), rec')]" and "settled_row oc rec rec'"
proof (cases "admissible c op actor")
  case False
  have "s' = s \<and> oc_status oc = SyncRejected"
  proof (cases "get_handler (in_entity op) (handlers c)")
    case (Some h)
    with False assms show ?thesis
      by (cases actor; cases "in_action op \<in> set (sh_actions h)")
        (auto simp: apply_operation_def admissible_def sync_rejected_def)
  qed (use assms in \<open>auto simp: apply_operation_def sync_rejected_def\<close>)
  with that(1) False show thesis by blast
next
  case True
  then obtain h u where hu: "get_handler (in_entity op) (handlers c) = Some h" "actor = Some u"
    "in_action op \<in> set (sh_actions h)" "has_perm u (sh_required_permission h)" by (auto simp: admissible_def)
  show thesis
  proof (cases "find_operation (in_client_op_id op) s")
    case None
    let ?rec = "pending_record op u" and ?k = "fresh_pk (sync_operations s)"
    from None hu assms have "apply_claimed c h op u ?k ?rec
        (s\<lparr>sync_operations := add_row ?rec (sync_operations s)\<rparr>) = (oc, s')"
      by (simp add: apply_operation_def Let_def)
    from apply_claimed_ledger [OF get_handler_set [OF hu(1)] this, of "sync_operations s"] obtain rec' where
      "sync_operations s' = sync_operations s @ [(?k, rec')]" "settled_row oc ?rec rec'"
      by (auto simp: add_row_snoc)
    with that(3) [OF True _ _ this] None show thesis by (simp add: find_operation_None pending_record_def)
  next
    case (Some x)
    obtain k r where x: "x = (k, r)" by (cases x)
    have "s' = s" and "oc_status oc = SyncDuplicate" and "oc_result oc = so_result r"
      using assms hu Some x by (auto simp: apply_operation_def)
    with that(2) True Some x show thesis by blast
  qed
qed

lemma op_ids_apply:
  assumes "apply_operation c (handlers c) op actor s = (oc, s')"
  shows "op_ids s' = op_ids s \<or>
    op_ids s' = op_ids s @ [in_client_op_id op] \<and> in_client_op_id op \<notin> set (op_ids s)"
  using assms by (cases rule: apply_operation_cases) (auto simp: op_ids_def settled_row_def)

lemma admissible_in_ids:
  assumes "apply_operation c (handlers c) op actor s = (oc, s')" and "admissible c op actor"
  shows "in_client_op_id op \<in> set (op_ids s')"
  using assms(1)
proof (cases rule: apply_operation_cases)
  case (2 k r)
  then show ?thesis using find_operation_None by (metis option.distinct(1))
qed (use assms(2) in \<open>auto simp: op_ids_def settled_row_def\<close>)

text \<open>An operation is settled when applying it does nothing any more.\<close>

definition settled :: "user option \<Rightarrow> 'a sync_db_scheme \<Rightarrow> sync_input \<Rightarrow> bool" where
  "settled actor s op \<longleftrightarrow> (\<forall>c. admissible c op actor \<longrightarrow> in_client_op_id op \<in> set (op_ids s))"

lemma settled_noop: "settled actor s op \<Longrightarrow> snd (apply_operation c (handlers c) op actor s) = s"
proof -
  assume settled: "settled actor s op"
  obtain oc s' where eq: "apply_operation c (handlers c) op actor s = (oc, s')" by (rule prod.exhaust)
  from eq have "s' = s" using settled by (cases rule: apply_operation_cases) (auto simp: settled_def)
  with eq show ?thesis by simp
qed

lemma settled_after: "apply_operation c (handlers c) op actor s = (oc, s') \<Longrightarrow> settled actor s' op"
  using admissible_in_ids admissible_ctx by (fastforce simp: settled_def)

lemma settled_mono:
  "apply_operation c (handlers c) op' actor' s = (oc, s') \<Longrightarrow> settled actor s op \<Longrightarrow> settled actor s' op"
  using op_ids_apply by (fastforce simp: settled_def)

lemma settled_batch_mono: "settled actor s op \<Longrightarrow> settled actor (snd (apply_batch c (handlers c) ops actor' s)) op"
proof (induction ops arbitrary: s)
  case (Cons op' ops)
  obtain oc s1 where "apply_operation c (handlers c) op' actor' s = (oc, s1)" by (rule prod.exhaust)
  with Cons settled_mono show ?case by (fastforce simp: split_beta)
qed simp

lemma settled_batch: "op \<in> set ops \<Longrightarrow> settled actor (snd (apply_batch c (handlers c) ops actor s)) op"
proof (induction ops arbitrary: s)
  case (Cons op' ops)
  obtain oc s1 where s1: "apply_operation c (handlers c) op' actor s = (oc, s1)" by (rule prod.exhaust)
  show ?case
  proof (cases "op = op'")
    case True
    with settled_after [OF s1] s1 show ?thesis using settled_batch_mono by (simp add: split_beta)
  next
    case False
    with Cons s1 show ?thesis by (simp add: split_beta)
  qed
qed simp

lemma batch_noop: "\<forall>op \<in> set ops. settled actor s op \<Longrightarrow> snd (apply_batch c (handlers c) ops actor s) = s"
proof (induction ops)
  case (Cons op ops)
  then have "snd (apply_operation c (handlers c) op actor s) = s" using settled_noop by simp
  with Cons show ?case by (simp add: split_beta)
qed simp

lemma apply_batch_append:
  "snd (apply_batch c (handlers c) (xs @ ys) actor s) =
    snd (apply_batch c (handlers c) ys actor (snd (apply_batch c (handlers c) xs actor s)))"
  by (induction xs arbitrary: s) (simp_all add: split_beta)

lemma batch_resume:
  "snd (apply_batch c (handlers c) (xs @ ys) actor (snd (apply_batch c' (handlers c') xs actor s))) =
    snd (apply_batch c (handlers c) ys actor (snd (apply_batch c' (handlers c') xs actor s)))"
  using batch_noop [of xs actor "snd (apply_batch c' (handlers c') xs actor s)" c] settled_batch
  by (simp add: apply_batch_append)

lemma batch_replay: "snd (apply_batch c (handlers c) xs actor (snd (apply_batch c' (handlers c') xs actor s))) =
    snd (apply_batch c' (handlers c') xs actor s)"
  using batch_resume [where ys = "[]"] by simp

lemma settled_outcome:
  assumes "settled actor s op"
  shows "oc_status (fst (apply_operation c (handlers c) op actor s)) \<in> {SyncDuplicate, SyncRejected}"
proof -
  obtain oc s' where eq: "apply_operation c (handlers c) op actor s = (oc, s')" by (rule prod.exhaust)
  from eq show ?thesis using assms by (cases rule: apply_operation_cases) (auto simp: settled_def eq)
qed

lemma batch_settled_outcomes:
  "\<forall>op \<in> set ops. settled actor s op \<Longrightarrow>
     oc_status ` set (fst (apply_batch c (handlers c) ops actor s)) \<subseteq> {SyncDuplicate, SyncRejected}"
proof (induction ops)
  case (Cons op ops)
  then have "snd (apply_operation c (handlers c) op actor s) = s" using settled_noop by simp
  with Cons settled_outcome [of actor s op c] show ?case by (simp add: split_beta)
qed simp

lemma replay_outcomes:
  "oc_status ` set (fst (apply_batch c (handlers c) xs actor (snd (apply_batch c' (handlers c') xs actor s)))) \<subseteq>
     {SyncDuplicate, SyncRejected}"
  using batch_settled_outcomes settled_batch by blast

lemma batch_ids_distinct:
  "distinct (op_ids s) \<Longrightarrow> distinct (op_ids (snd (apply_batch c (handlers c) ops actor s)))"
proof (induction ops arbitrary: s)
  case (Cons op ops)
  obtain oc s1 where s1: "apply_operation c (handlers c) op actor s = (oc, s1)" by (rule prod.exhaust)
  with op_ids_apply [OF s1] Cons show ?case by (auto simp: split_beta)
qed simp

end

section \<open>Properties of one operation\<close>

definition claimed :: "sync_input \<Rightarrow> user \<Rightarrow> 'a sync_db_scheme \<Rightarrow> 'a sync_db_scheme" where
  "claimed op u s = s\<lparr>sync_operations := add_row (pending_record op u) (sync_operations s)\<rparr>"

definition conflict_row :: "ctx \<Rightarrow> nat \<Rightarrow> sync_input \<Rightarrow> exn \<Rightarrow> sync_conflict" where
  "conflict_row c k op e =
     \<lparr>sc_operation = k, sc_entity = in_entity op, sc_target = conflict_target e,
      sc_field_name = conflict_field e, sc_server_value = conflict_text (conflict_server e),
      sc_client_value = conflict_text (conflict_client e), sc_server_updated_at = conflict_updated_at e,
      sc_client_timestamp = in_client_timestamp op, sc_status = ConflictOpen, sc_resolved_by = None,
      sc_resolved_at = None, sc_resolution_reason = []\<rparr>"

text \<open>
  C3. A failing operation leaves nothing behind but its ledger entry. When the handler of an
  admissible new operation raises, the state differs from the one before only in the
  ledger: one row for the operation, marked rejected, or marked conflicted together with
  exactly one open conflict that keeps both values for the reviewer. No table of any
  module, nor the audit trail, has changed.
\<close>

theorem failed_operation_contained:
  assumes "get_handler (in_entity op) hs = Some h" and "in_action op \<in> set (sh_actions h)"
    and "has_perm u (sh_required_permission h)" and "find_operation (in_client_op_id op) s = None"
    and "sh_apply h op u (claimed op u s) = Inl e"
  shows "snd (apply_operation c hs op (Some u) s) =
    (case e of
       SyncConflictDetected f sv cv upd tgt \<Rightarrow>
         s\<lparr>sync_operations := add_row (pending_record op u\<lparr>so_status := SyncConflicted\<rparr>) (sync_operations s),
           sync_conflicts := add_row (conflict_row c (fresh_pk (sync_operations s)) op e) (sync_conflicts s)\<rparr>
     | _ \<Rightarrow> s\<lparr>sync_operations := add_row (pending_record op u\<lparr>so_status := SyncRejected\<rparr>) (sync_operations s)\<rparr>)"
proof -
  let ?k = "fresh_pk (sync_operations s)"
  have step: "apply_operation c hs op (Some u) s =
      failed_operation op ?k (pending_record op u) e (claimed op u s)"
    using assms by (simp add: apply_operation_def apply_claimed_def claimed_def Let_def)
  have "get_row (sync_operations (claimed op u s)) ?k = Some (pending_record op u)"
    by (simp add: claimed_def add_row_snoc)
  then show ?thesis unfolding step
    by (cases e) (simp_all add: failed_operation_def record_conflict_def mark_rejected_def set_op_status_def
        claimed_def add_row_snoc conflict_row_def pending_record_def Let_def)
qed

text \<open>
  Resolving a conflict never writes the record in dispute. Whatever the resolution,
  \<open>ResolvedClient\<close> included, only the conflict row and the audit trail change; the row must
  have been open, keeps both values and gets the resolution, the reason and who decided
  it, so no conflict is ever resolved twice.
\<close>

theorem conflict_resolution_effect:
  assumes "conflict_resolve_post c pk resolution reason s = Inr s'"
  shows "\<exists>r r' tr. get_row (sync_conflicts s) pk = Some r \<and> sc_status r = ConflictOpen \<and>
    s' = s\<lparr>sync_conflicts := put_row pk r' (sync_conflicts s), audit_log := tr\<rparr> \<and>
    audit_ext (audit_log s) tr \<and> 5 \<le> length (sc_resolution_reason r') \<and>
    r' = r\<lparr>sc_status := resolution, sc_resolution_reason := strip reason,
           sc_resolved_by := actor_fk (req_actor c), sc_resolved_at := Some (now c)\<rparr> \<and>
    (\<forall>c' res' reason'. \<exists>e. conflict_resolve_post c' pk res' reason' s' = Inl e)"
proof -
  from assms obtain r where r: "get_row (sync_conflicts s) pk = Some r" "sc_status r = ConflictOpen"
    and res: "resolution \<noteq> ConflictOpen" "5 \<le> length (strip reason)"
    by (auto simp: conflict_resolve_post_def Let_def split: option.splits if_splits)
  define r' where "r' = r\<lparr>sc_status := resolution, sc_resolution_reason := strip reason,
      sc_resolved_by := actor_fk (req_actor c), sc_resolved_at := Some (now c)\<rparr>"
  from assms r res obtain descr where "record_action c False (Some (''core.syncconflict'', Some pk)) ''approve'' descr
      (strip reason) None (s\<lparr>sync_conflicts := put_row pk r' (sync_conflicts s)\<rparr>) = Inr s'"
    unfolding r'_def by (auto simp: conflict_resolve_post_def Let_def split: if_splits)
  then obtain tr where s': "s' = s\<lparr>sync_conflicts := put_row pk r' (sync_conflicts s), audit_log := tr\<rparr>"
    and tr: "audit_ext (audit_log s) tr"
    by (elim record_actionE) auto
  have "get_row (sync_conflicts s') pk = Some r'" using s' r by (simp add: get_put_row)
  moreover have "sc_status r' \<noteq> ConflictOpen" using res by (simp add: r'_def)
  ultimately have "\<exists>e. conflict_resolve_post c' pk res' reason' s' = Inl e" for c' res' reason'
    by (auto simp: conflict_resolve_post_def Let_def)
  with r res s' tr show ?thesis by (intro exI [of _ r] exI [of _ r'] exI [of _ tr]) (simp add: r'_def)
qed

text \<open>
  An operation can be applied and reported as rejected. The overwritten values are
  recorded after the transaction of the handler has ended; when that write fails for a
  sensitive target, the changes of the handler stay but the client is told, and the
  ledger says, that the operation was rejected. None of the handlers of the repository
  reports overwritten values, so the case does not arise with them.
\<close>

lemma applied_but_reported_rejected:
  assumes "get_handler (in_entity op) hs = Some h" and "in_action op \<in> set (sh_actions h)"
    and "has_perm u (sh_required_permission h)" and "find_operation (in_client_op_id op) s = None"
    and "sh_apply h op u (claimed op u s) = Inr (res, s2)" and "sh_policy h = LastWriteWins"
    and "sync_operations s2 = sync_operations (claimed op u s)"
    and "sr_target res = Some (m, pk)" and "mm_sensitive m" and "sr_overwrote res \<noteq> []" and "\<not> audit_up c"
  shows "\<exists>oc rec'. apply_operation c hs op (Some u) s =
    (oc, s2\<lparr>sync_operations := add_row rec' (sync_operations s)\<rparr>) \<and>
    oc_status oc = SyncRejected \<and> so_status rec' = SyncRejected"
proof -
  let ?k = "fresh_pk (sync_operations s)"
  obtain f old new rest where ow: "sr_overwrote res = (f, old, new) # rest"
    using assms(10) by (metis neq_Nil_conv prod_cases3)
  have fail: "audit_overwrites c True inst reason (sr_overwrote res) x = (Some AuditWriteFailed, x)"
    for inst reason and x :: "'a sync_db_scheme"
    using assms(11) by (simp add: ow record_change_def safe_write_def write_audit_def)
  show ?thesis
    using assms by (simp add: apply_operation_def apply_claimed_def claimed_def [symmetric] Let_def fail
        failed_operation_def mark_rejected_def set_op_status_def sync_rejected_def)
      (simp add: claimed_def add_row_snoc, rule exI, rule conjI, rule refl, simp)
qed

section \<open>Concrete inputs\<close>

definition sample_handler :: "sync_db sync_handler" where
  "sample_handler =
     \<lparr>sh_entity = ''demo'', sh_actions = [''create''], sh_policy = FlagForReview,
      sh_required_permission = ''demo.add'',
      sh_apply = (\<lambda>op u s. if in_payload op = [] then Inl ValidationError
        else Inl (SyncConflictDetected ''score'' (VDec 50) (VDec 60) None (Some (''demo'', 3))))\<rparr>"

definition sample_op :: sync_input where
  "sample_op =
     \<lparr>in_client_op_id = ''op-1'', in_entity = ''demo'', in_action = ''create'',
      in_payload = [(''score'', VDec 60)], in_client_timestamp = Some 5, in_device_id = []\<rparr>"

definition sample_sync_db :: sync_db where
  "sample_sync_db = \<lparr>id_sequences = [], audit_log = [], sync_operations = [], sync_conflicts = []\<rparr>"

lemma failed_operation_contained_witness:
  "snd (apply_operation sample_ctx [sample_handler] sample_op (Some sample_user) sample_sync_db) =
     sample_sync_db\<lparr>sync_operations := [(1, pending_record sample_op sample_user\<lparr>so_status := SyncConflicted\<rparr>)],
       sync_conflicts := [(1, conflict_row sample_ctx 1 sample_op
         (SyncConflictDetected ''score'' (VDec 50) (VDec 60) None (Some (''demo'', 3))))]\<rparr>"
proof -
  have "get_handler (in_entity sample_op) [sample_handler] = Some sample_handler"
    and "in_action sample_op \<in> set (sh_actions sample_handler)"
    and "has_perm sample_user (sh_required_permission sample_handler)"
    and "find_operation (in_client_op_id sample_op) sample_sync_db = None"
    and "sh_apply sample_handler sample_op sample_user (claimed sample_op sample_user sample_sync_db) =
      Inl (SyncConflictDetected ''score'' (VDec 50) (VDec 60) None (Some (''demo'', 3)))"
    by (simp_all add: get_handler_def sample_handler_def sample_op_def sample_user_def find_operation_def
        first_row_def sample_sync_db_def)
  from failed_operation_contained [OF this, of sample_ctx] show ?thesis
    by (simp add: add_row_def fresh_pk_def sample_sync_db_def)
qed

lemma conflict_resolution_effect_witness:
  "\<exists>s' r'. conflict_resolve_post sample_ctx 1 ResolvedClient '' remarked paper ''
      (sample_sync_db\<lparr>sync_conflicts := [(1, conflict_row sample_ctx 1 sample_op
         (SyncConflictDetected ''score'' (VDec 50) (VDec 60) None (Some (''demo'', 3))))]\<rparr>) = Inr s' \<and>
    get_row (sync_conflicts s') 1 = Some r' \<and> 5 \<le> length (sc_resolution_reason r')"
proof -
  let ?s = "sample_sync_db\<lparr>sync_conflicts := [(1, conflict_row sample_ctx 1 sample_op
         (SyncConflictDetected ''score'' (VDec 50) (VDec 60) None (Some (''demo'', 3))))]\<rparr>"
  have len: "length (strip '' remarked paper '') = 14" by code_simp
  obtain s' where s': "conflict_resolve_post sample_ctx 1 ResolvedClient '' remarked paper '' ?s = Inr s'"
    using safe_write_False
    by (fastforce simp: conflict_resolve_post_def len get_row_def conflict_row_def record_action_def Let_def)
  from conflict_resolution_effect [OF s'] obtain r' tr where
    "s' = ?s\<lparr>sync_conflicts := put_row 1 r' (sync_conflicts ?s), audit_log := tr\<rparr>"
    "5 \<le> length (sc_resolution_reason r')" by blast
  with s' show ?thesis by (intro exI [of _ s'] exI [of _ r']) (simp add: get_row_def)
qed

end
