(* ===== verification/Money.thy ===== *)
theory Money
  imports Platform
begin

text \<open>
  Amounts of money with their currency (\<open>core/fields.py\<close>): the value class \<open>Money\<close>, whose
  arithmetic refuses to mix currencies, the rule \<open>validate_money\<close> that every stored amount
  satisfies, and the conversion \<open>base_amount\<close> of \<open>MoneyMixin\<close>. The lemmas show that sums
  of one currency are exact for the amounts the columns can hold and that an amount which
  passes the validation can be converted, with a bound for the rounding.
\<close>

definition MONEY_MAX_DIGITS :: nat where "MONEY_MAX_DIGITS = 16"
definition FX_MAX_DIGITS :: nat where "FX_MAX_DIGITS = 18"
definition FX_DECIMAL_PLACES :: nat where "FX_DECIMAL_PLACES = 6"

definition Currency_values :: "string list" where
  "Currency_values = [''SSP'', ''USD'', ''KES'', ''UGX'', ''EUR'', ''GBP'']"

section \<open>The value class\<close>

record money =
  money_amount :: rat
  money_currency :: string

definition Money :: "rat \<Rightarrow> string \<Rightarrow> money" where
  "Money a cur = \<lparr>money_amount = a, money_currency = upper cur\<rparr>"

definition assert_same_currency :: "money \<Rightarrow> money \<Rightarrow> exn + unit" where
  "assert_same_currency m n = ensure (money_currency m = money_currency n) ValueError"

definition money_add :: "money \<Rightarrow> money \<Rightarrow> exn + money" where
  "money_add m n =
     bindE (assert_same_currency m n)
       (\<lambda>_. Inr (Money (dec_ctx (money_amount m + money_amount n)) (money_currency m)))"

definition money_sub :: "money \<Rightarrow> money \<Rightarrow> exn + money" where
  "money_sub m n =
     bindE (assert_same_currency m n)
       (\<lambda>_. Inr (Money (dec_ctx (money_amount m - money_amount n)) (money_currency m)))"

definition money_mul :: "money \<Rightarrow> rat \<Rightarrow> money" where
  "money_mul m factor = Money (dec_mul (money_amount m) factor) (money_currency m)"

definition money_lt :: "money \<Rightarrow> money \<Rightarrow> exn + bool" where
  "money_lt m n = bindE (assert_same_currency m n) (\<lambda>_. Inr (money_amount m < money_amount n))"

text \<open>\<open>quantize\<close> raises \<open>InvalidOperation\<close> when the result needs more than 28 digits.\<close>

definition quantize_checked :: "rat \<Rightarrow> exn + rat" where
  "quantize_checked q =
     (if \<bar>round_half_up (q * 100)\<bar> < 10 ^ 28 then Inr (quantize_half_up q) else Inl UnexpectedError)"

definition money_quantized :: "money \<Rightarrow> exn + money" where
  "money_quantized m =
     bindE (quantize_checked (money_amount m)) (\<lambda>q. Inr (Money q (money_currency m)))"

definition money_is_zero :: "money \<Rightarrow> bool" where
  "money_is_zero m = (money_amount m = 0)"

text \<open>\<open>str(money)\<close>: the currency and the amount with thousands separators.\<close>

fun group_thousands :: "string \<Rightarrow> string" where
  "group_thousands ds =
     (if length ds \<le> 3 then ds
      else group_thousands (take (length ds - 3) ds) @ CHR '','' # drop (length ds - 3) ds)"

declare group_thousands.simps [simp del]

definition money_str :: "money \<Rightarrow> exn + string" where
  "money_str m =
     bindE (quantize_checked (money_amount m))
       (\<lambda>q. let n = nat \<bar>round_half_up (q * 100)\<bar> in
         Inr (money_currency m @ '' '' @ (if q < 0 then ''-'' else []) @
              group_thousands (str_nat (n div 100)) @ CHR ''.'' # pad0 2 (str_nat (n mod 100))))"

section \<open>Stored amounts\<close>

definition validate_money :: "ctx \<Rightarrow> string \<Rightarrow> rat option \<Rightarrow> int option \<Rightarrow> string option \<Rightarrow> exn + unit" where
  "validate_money c currency fx_rate fx_rate_date base_currency =
     (let base = (case base_currency of
                    Some b \<Rightarrow> if b = [] then default_currency_setting c else b
                  | None \<Rightarrow> default_currency_setting c) in
      if currency \<noteq> base \<and> fx_rate = None then Inl ValidationError
      else case fx_rate of
          None \<Rightarrow> Inr ()
        | Some r \<Rightarrow> if r \<le> 0 then Inl ValidationError
                    else if fx_rate_date = None then Inl ValidationError else Inr ())"

text \<open>\<open>MoneyMixin\<close>: the columns of one stored amount.\<close>

record money_mixin =
  mx_amount :: rat
  mx_currency :: string
  mx_fx_rate :: "rat option"
  mx_fx_rate_date :: "int option"

definition mixin_money :: "money_mixin \<Rightarrow> money" where
  "mixin_money x = Money (mx_amount x) (mx_currency x)"

definition base_amount :: "ctx \<Rightarrow> money_mixin \<Rightarrow> exn + rat option" where
  "base_amount c x =
     (if mx_currency x = default_currency_setting c then Inr (Some (mx_amount x))
      else case mx_fx_rate x of
          None \<Rightarrow> Inr None
        | Some r \<Rightarrow> bindE (quantize_checked (dec_mul (mx_amount x) r)) (\<lambda>q. Inr (Some q)))"

definition mixin_clean :: "ctx \<Rightarrow> money_mixin \<Rightarrow> exn + unit" where
  "mixin_clean c x = validate_money c (mx_currency x) (mx_fx_rate x) (mx_fx_rate_date x) None"

text \<open>
  The field checks of \<open>full_clean\<close>: digits and places of the decimal columns
  (\<open>MoneyAmountField\<close>, the rate) and the choices of the currency.
\<close>

definition money_amount_field :: "rat \<Rightarrow> bool" where
  "money_amount_field a \<longleftrightarrow> two_places a \<and> \<bar>a\<bar> < 10 ^ (MONEY_MAX_DIGITS - 2)"

definition fx_rate_field :: "rat \<Rightarrow> bool" where
  "fx_rate_field r \<longleftrightarrow> of_int \<lfloor>r * 10 ^ FX_DECIMAL_PLACES\<rfloor> = r * 10 ^ FX_DECIMAL_PLACES \<and>
     \<bar>r\<bar> < 10 ^ (FX_MAX_DIGITS - FX_DECIMAL_PLACES)"

definition currency_field :: "string \<Rightarrow> bool" where
  "currency_field cur = (cur \<in> set Currency_values)"

definition mixin_fields_ok :: "money_mixin \<Rightarrow> bool" where
  "mixin_fields_ok x \<longleftrightarrow> money_amount_field (mx_amount x) \<and> currency_field (mx_currency x) \<and>
     (case mx_fx_rate x of None \<Rightarrow> True | Some r \<Rightarrow> fx_rate_field r)"

section \<open>Properties\<close>

lemma dec_ctx_two_places: "two_places q \<Longrightarrow> \<bar>q\<bar> < 10 ^ 26 \<Longrightarrow> dec_ctx q = q"
  by (rule dec_ctx_exact [of q 2]) (simp_all add: two_places_def abs_mult)

lemma upper_char_idem [simp]: "upper_char (upper_char ch) = upper_char ch"
proof -
  have "of_char (upper_char ch) = (let n = of_char ch :: nat in if 97 \<le> n \<and> n \<le> 122 then n - 32 else n)"
    by (auto simp: upper_char_def Let_def)
  then show ?thesis by (auto simp: upper_char_def [of "upper_char ch"] Let_def split: if_splits)
qed

lemma upper_idem [simp]: "upper (upper s) = upper s"
  by (simp add: upper_def)

lemma Money_sel [simp]:
  "money_amount (Money a cur) = a" "money_currency (Money a cur) = upper cur"
  by (simp_all add: Money_def)

text \<open>
  Money of two currencies is never combined: addition, subtraction and comparison
  raise, whatever the amounts. Within one currency, for amounts with two decimals below
  $10^{25}$, the sum and the difference are the exact ones, so that adding an amount and
  taking it away again gives the original money back.
\<close>

theorem money_arithmetic:
  "(upper cur \<noteq> upper cur' \<longrightarrow>
      money_add (Money a cur) (Money b cur') = Inl ValueError \<and>
      money_sub (Money a cur) (Money b cur') = Inl ValueError \<and>
      money_lt (Money a cur) (Money b cur') = Inl ValueError) \<and>
   (two_places a \<and> two_places b \<and> \<bar>a\<bar> < 10 ^ 25 \<and> \<bar>b\<bar> < 10 ^ 25 \<longrightarrow>
      money_add (Money a cur) (Money b cur) = Inr (Money (a + b) cur) \<and>
      bindE (money_add (Money a cur) (Money b cur)) (\<lambda>m. money_sub m (Money b cur)) = Inr (Money a cur))"
proof (intro conjI impI; (elim conjE)?)
  assume ab: "two_places a" "two_places b" "\<bar>a\<bar> < 10 ^ 25" "\<bar>b\<bar> < 10 ^ 25"
  then have ctx: "dec_ctx (a + b) = a + b" "dec_ctx a = a"
    by (auto intro!: dec_ctx_two_places)
  then show "money_add (Money a cur) (Money b cur) = Inr (Money (a + b) cur)"
    and "bindE (money_add (Money a cur) (Money b cur)) (\<lambda>m. money_sub m (Money b cur)) = Inr (Money a cur)"
    by (simp_all add: money_add_def money_sub_def assert_same_currency_def Money_def)
qed (simp_all add: money_add_def money_sub_def money_lt_def assert_same_currency_def)

lemma round_half_up_less: "\<bar>q\<bar> \<le> of_int n \<Longrightarrow> \<bar>round_half_up q\<bar> \<le> n"
  using round_half_up_mono [of q "of_int n"] round_half_up_mono [of "- of_int n" q]
  by (simp add: round_half_up_minus abs_le_iff)

lemma two_places_less:
  assumes "two_places q" and "\<bar>q\<bar> < of_nat n"
  shows "\<bar>q\<bar> \<le> of_nat n - 1 / 100"
proof -
  from assms(1) obtain m where q: "q = of_int m / 100" by (rule two_placesE)
  with assms(2) have "\<bar>of_int m\<bar> < (of_int (int n * 100) :: rat)" by (simp add: field_simps)
  then have "\<bar>m\<bar> < int n * 100" by (simp only: of_int_abs [symmetric] of_int_less_iff)
  then have "\<bar>m\<bar> \<le> int n * 100 - 1" by simp
  then have "\<bar>of_int m\<bar> \<le> (of_int (int n * 100 - 1) :: rat)" by (simp only: of_int_abs [symmetric] of_int_le_iff)
  then show ?thesis by (simp add: q field_simps)
qed

text \<open>
  A stored amount can be reconciled: if the columns fit and \<open>clean\<close> accepts the row then
  its value in the base currency is defined, it has two decimals, and it differs from the
  exact product of amount and rate by at most one cent.
\<close>

theorem base_amount_defined:
  assumes "mixin_fields_ok x" and "mixin_clean c x = Inr ()"
  shows "\<exists>q. base_amount c x = Inr (Some q) \<and> two_places q \<and>
    (mx_currency x = default_currency_setting c \<longrightarrow> q = mx_amount x) \<and>
    (mx_currency x \<noteq> default_currency_setting c \<longrightarrow>
      (\<exists>r. mx_fx_rate x = Some r \<and> 0 < r \<and> \<bar>q - mx_amount x * r\<bar> \<le> 1 / 100))"
proof (cases "mx_currency x = default_currency_setting c")
  case True
  then show ?thesis using assms(1)
    by (simp add: base_amount_def mixin_fields_ok_def money_amount_field_def)
next
  case False
  with assms(2) obtain r where r: "mx_fx_rate x = Some r" "0 < r"
    by (auto simp: mixin_clean_def validate_money_def split: option.splits if_splits)
  let ?p = "mx_amount x * r"
  have "\<bar>mx_amount x\<bar> < 10 ^ 14" and "\<bar>r\<bar> < 10 ^ 12"
    using assms(1) r by (simp_all add: mixin_fields_ok_def money_amount_field_def fx_rate_field_def
        MONEY_MAX_DIGITS_def FX_MAX_DIGITS_def FX_DECIMAL_PLACES_def)
  then have "\<bar>mx_amount x\<bar> \<le> 10 ^ 14 - 1 / 100" and "\<bar>r\<bar> \<le> 10 ^ 12"
    using assms(1) two_places_less [of "mx_amount x" "10 ^ 14"]
    by (auto simp: mixin_fields_ok_def money_amount_field_def)
  then have "\<bar>?p\<bar> \<le> (10 ^ 14 - 1 / 100) * 10 ^ 12" unfolding abs_mult by (intro mult_mono) auto
  then have p: "\<bar>?p\<bar> \<le> 10 ^ 26 - 10 ^ 10" by simp
  then have err: "\<bar>dec_ctx ?p - ?p\<bar> \<le> 1 / 200" using dec_ctx_error_bound [of ?p 26] by simp
  with p have "\<bar>dec_ctx ?p * 100\<bar> \<le> of_int (10 ^ 28 - 1)" by (simp add: abs_if split: if_splits)
  then have "\<bar>round_half_up (dec_ctx ?p * 100)\<bar> < 10 ^ 28" using round_half_up_less by fastforce
  then have "base_amount c x = Inr (Some (quantize_half_up (dec_ctx ?p)))"
    using False r by (simp add: base_amount_def quantize_checked_def dec_mul_def)
  moreover have "\<bar>quantize_half_up (dec_ctx ?p) - ?p\<bar> \<le> 1 / 100"
    using quantize_half_up_error [of "dec_ctx ?p"] err by linarith
  ultimately show ?thesis using False r by auto
qed

text \<open>A dollar figure in an institution that keeps its books in pounds.\<close>

definition sample_usd :: money_mixin where
  "sample_usd = \<lparr>mx_amount = 1250, mx_currency = ''USD'', mx_fx_rate = Some (1302 + 1 / 4), mx_fx_rate_date = Some 9\<rparr>"

lemma base_amount_defined_witness:
  "\<exists>c. default_currency_setting c = ''SSP'' \<and> mixin_fields_ok sample_usd \<and> mixin_clean c sample_usd = Inr () \<and>
    (\<exists>q r. base_amount c sample_usd = Inr (Some q) \<and> mx_fx_rate sample_usd = Some r \<and>
       \<bar>q - mx_amount sample_usd * r\<bar> \<le> 1 / 100)"
proof -
  define c :: ctx where "c =
     \<lparr>now = 0, now_iso = [], today = 10, req_actor = None, client_ip = None, user_agent_header = [],
      request_id = None, content_type_id = (\<lambda>l. 0), repr_of = (\<lambda>l k. []), audit_up = True,
      default_currency_setting = ''SSP'', parse_date = (\<lambda>t. None), ip_column = (\<lambda>t. t)\<rparr>"
  have ok: "mixin_fields_ok sample_usd"
    by (simp add: mixin_fields_ok_def sample_usd_def money_amount_field_def fx_rate_field_def currency_field_def
        Currency_values_def MONEY_MAX_DIGITS_def FX_MAX_DIGITS_def FX_DECIMAL_PLACES_def)
  have clean: "mixin_clean c sample_usd = Inr ()"
    by (simp add: mixin_clean_def sample_usd_def validate_money_def c_def)
  have "mx_currency sample_usd \<noteq> default_currency_setting c" by (simp add: sample_usd_def c_def)
  with ok clean base_amount_defined [OF ok clean] show ?thesis
    by (intro exI [of _ c]) (auto simp: c_def)
qed

lemma money_arithmetic_witness:
  "money_add (Money 10 ''SSP'') (Money 5 ''usd'') = Inl ValueError \<and>
   money_add (Money 10 ''SSP'') (Money 5 ''SSP'') = Inr (Money 15 ''SSP'')"
proof -
  have "upper ''SSP'' \<noteq> upper ''usd''" by code_simp
  with money_arithmetic [of "''SSP''" "''usd''" 10 5] money_arithmetic [of "''SSP''" "''usd''" 10 5]
  show ?thesis by simp
qed

end
