(* ===== verification/Academics.thy ===== *)
theory Academics
  imports Sync_Engine Money
begin

text \<open>
  Institutional configuration: the models of \<open>academics/models.py\<close> with their \<open>clean\<close>
  methods, the calendar queries of \<open>academics/services/calendar.py\<close> and the settings of
  \<open>academics/services/config.py\<close>. Grade bands and grade computation are in \<open>Grading\<close>.
  Dates are day numbers and instants are seconds since the epoch in UTC, so the UTC date of
  an instant is its quotient by 86400.
\<close>

section \<open>Models\<close>

record institution =
  inst_name :: string
  inst_short_name :: string
  inst_default_currency :: string
  inst_secondary_currency :: string
  inst_student_id_template :: string
  inst_staff_id_template :: string
  inst_attendance_threshold_percent :: rat

record academic_year =
  ay_name :: string
  ay_start_date :: int
  ay_end_date :: int
  ay_is_current :: bool

record semester =
  sem_academic_year :: nat
  sem_sequence :: nat
  sem_name :: string
  sem_teaching_start :: int
  sem_teaching_end :: int
  sem_exam_start :: "int option"
  sem_exam_end :: "int option"
  sem_registration_opens :: "int option"
  sem_registration_closes :: "int option"
  sem_add_drop_closes :: "int option"
  sem_is_current :: bool

record grading_scale =
  gs_name :: string
  gs_max_grade_point :: rat
  gs_pass_grade_point :: rat
  gs_is_default :: bool
  gs_is_locked :: bool

record grade_band =
  gb_scale :: nat
  gb_letter :: string
  gb_min_percent :: rat
  gb_max_percent :: rat
  gb_grade_point :: rat
  gb_is_pass :: bool
  gb_description :: string

record academics_db = sync_db +
  institutions :: "institution table"
  academic_years :: "academic_year table"
  semesters :: "semester table"
  grading_scales :: "grading_scale table"
  grade_bands :: "grade_band table"

section \<open>Validation of the models\<close>

fun contains_text :: "string \<Rightarrow> string \<Rightarrow> bool" where
  "contains_text pat [] = (pat = [])"
| "contains_text pat (ch # s) = (take (length pat) (ch # s) = pat \<or> contains_text pat s)"

definition institution_clean :: "institution \<Rightarrow> exn + unit" where
  "institution_clean i =
     ensure (contains_text ''{seq'' (inst_student_id_template i) \<and>
             contains_text ''{year}'' (inst_student_id_template i)) ValidationError"

definition academic_year_clean :: "academic_year \<Rightarrow> exn + unit" where
  "academic_year_clean y = ensure (ay_start_date y < ay_end_date y) ValidationError"

text \<open>Both bounds set and the first not below (\<open>strict\<close>) or above the second.\<close>

definition bad_window :: "bool \<Rightarrow> int option \<Rightarrow> int option \<Rightarrow> bool" where
  "bad_window strict a b =
     (case (a, b) of (Some x, Some y) \<Rightarrow> (if strict then y \<le> x else y < x) | _ \<Rightarrow> False)"

definition semester_clean :: "academic_year table \<Rightarrow> semester \<Rightarrow> exn + unit" where
  "semester_clean years s =
     (let window_errors =
            sem_teaching_end s < sem_teaching_start s \<or>
            bad_window False (sem_exam_start s) (sem_exam_end s) \<or>
            bad_window True (sem_registration_opens s) (sem_registration_closes s) \<or>
            bad_window False (sem_registration_closes s) (sem_add_drop_closes s)
      in case get_row years (sem_academic_year s) of
           None \<Rightarrow> Inl DoesNotExist
         | Some y \<Rightarrow>
             ensure (\<not> window_errors \<and>
                ay_start_date y \<le> sem_teaching_start s \<and> sem_teaching_start s \<le> ay_end_date y)
               ValidationError)"

definition grading_scale_clean :: "grading_scale \<Rightarrow> exn + unit" where
  "grading_scale_clean g = ensure (gs_pass_grade_point g \<le> gs_max_grade_point g) ValidationError"

definition grade_band_clean :: "grading_scale table \<Rightarrow> grade_band \<Rightarrow> exn + unit" where
  "grade_band_clean scales b =
     bindE (ensure (gb_min_percent b \<le> gb_max_percent b) ValidationError)
       (\<lambda>_. case get_row scales (gb_scale b) of
              None \<Rightarrow> Inl DoesNotExist
            | Some g \<Rightarrow> ensure (\<not> gs_is_locked g) ValidationError)"

text \<open>
  The unique constraints the database enforces on a year or a semester that is marked
  current, and on the default grading scale.
\<close>

definition one_current_year :: "academic_year table \<Rightarrow> bool" where
  "one_current_year t = (count_rows (\<lambda>_ y. ay_is_current y) t \<le> 1)"

definition one_current_semester :: "semester table \<Rightarrow> bool" where
  "one_current_semester t = (count_rows (\<lambda>_ s. sem_is_current s) t \<le> 1)"

definition create_semester :: "semester \<Rightarrow> 'a academics_db_scheme \<Rightarrow> exn + nat \<times> 'a academics_db_scheme" where
  "create_semester r s =
     (let t = add_row r (semesters s) in
      if get_row (academic_years s) (sem_academic_year r) = None \<or>
         exists_row (\<lambda>_ x. sem_academic_year x = sem_academic_year r \<and> sem_sequence x = sem_sequence r) (semesters s) \<or>
         \<not> one_current_semester t
      then Inl IntegrityError
      else Inr (fresh_pk (semesters s), s\<lparr>semesters := t\<rparr>))"

section \<open>Configuration with its fallbacks\<close>

definition DEFAULT_STUDENT_ID_TEMPLATE :: string where
  "DEFAULT_STUDENT_ID_TEMPLATE = ''{faculty}/{programme}/{year}/{seq:04d}''"

definition DEFAULT_STAFF_ID_TEMPLATE :: string where
  "DEFAULT_STAFF_ID_TEMPLATE = ''STF/{year}/{seq:04d}''"

definition get_institution :: "'a academics_db_scheme \<Rightarrow> institution option" where
  "get_institution s = map_option snd (first_row (\<lambda>_ _. True) (institutions s))"

definition student_id_template :: "'a academics_db_scheme \<Rightarrow> string" where
  "student_id_template s =
     (case get_institution s of
        None \<Rightarrow> DEFAULT_STUDENT_ID_TEMPLATE
      | Some i \<Rightarrow> if inst_student_id_template i = [] then DEFAULT_STUDENT_ID_TEMPLATE
                  else inst_student_id_template i)"

definition staff_id_template :: "'a academics_db_scheme \<Rightarrow> string" where
  "staff_id_template s =
     (case get_institution s of
        None \<Rightarrow> DEFAULT_STAFF_ID_TEMPLATE
      | Some i \<Rightarrow> if inst_staff_id_template i = [] then DEFAULT_STAFF_ID_TEMPLATE
                  else inst_staff_id_template i)"

definition attendance_threshold :: "'a academics_db_scheme \<Rightarrow> rat" where
  "attendance_threshold s =
     (case get_institution s of None \<Rightarrow> 75 | Some i \<Rightarrow> inst_attendance_threshold_percent i)"

definition base_currency :: "ctx \<Rightarrow> 'a academics_db_scheme \<Rightarrow> string" where
  "base_currency c s =
     (case get_institution s of None \<Rightarrow> default_currency_setting c | Some i \<Rightarrow> inst_default_currency i)"

section \<open>The calendar\<close>

definition WindowClosed :: exn where
  "WindowClosed = DomainError ''window_closed'' 409"

definition current_year :: "'a academics_db_scheme \<Rightarrow> (nat \<times> academic_year) option" where
  "current_year s = first_row (\<lambda>_ y. ay_is_current y) (academic_years s)"

definition academic_year_name :: "nat \<Rightarrow> 'a academics_db_scheme \<Rightarrow> exn + string" where
  "academic_year_name k s = from_option DoesNotExist (map_option ay_name (get_row (academic_years s) k))"

definition academic_year_id_for_name :: "string \<Rightarrow> 'a academics_db_scheme \<Rightarrow> nat option" where
  "academic_year_id_for_name name s =
     map_option fst (first_row (\<lambda>_ y. ay_name y = name) (academic_years s))"

definition current_semester :: "'a academics_db_scheme \<Rightarrow> (nat \<times> semester) option" where
  "current_semester s = first_row (\<lambda>_ r. sem_is_current r) (semesters s)"

definition get_semester :: "nat \<Rightarrow> 'a academics_db_scheme \<Rightarrow> exn + semester" where
  "get_semester k s = from_option DoesNotExist (get_row (semesters s) k)"

definition require_current_semester :: "'a academics_db_scheme \<Rightarrow> exn + nat \<times> semester" where
  "require_current_semester s = from_option ConfigurationError (current_semester s)"

text \<open>
  A semester argument that is \<open>None\<close> falls back to the current semester. Here the queries
  take the row the caller passes, and \<open>or_current\<close> is the fallback.
\<close>

definition or_current :: "semester option \<Rightarrow> 'a academics_db_scheme \<Rightarrow> semester option" where
  "or_current sem s = (case sem of Some r \<Rightarrow> Some r | None \<Rightarrow> map_option snd (current_semester s))"

definition is_registration_open :: "semester option \<Rightarrow> int \<Rightarrow> 'a academics_db_scheme \<Rightarrow> bool" where
  "is_registration_open sem at_time s =
     (case or_current sem s of
        None \<Rightarrow> False
      | Some r \<Rightarrow>
          (case (sem_registration_opens r, sem_registration_closes r) of
             (Some opens, Some closes) \<Rightarrow> opens \<le> at_time \<and> at_time \<le> closes
           | _ \<Rightarrow> False))"

definition is_add_drop_open :: "semester option \<Rightarrow> int \<Rightarrow> 'a academics_db_scheme \<Rightarrow> bool" where
  "is_add_drop_open sem at_time s =
     (case or_current sem s of
        None \<Rightarrow> False
      | Some r \<Rightarrow>
          (case sem_add_drop_closes r of
             None \<Rightarrow> False
           | Some closes \<Rightarrow>
               (case sem_registration_opens r of
                  Some opens \<Rightarrow> if at_time < opens then False else at_time \<le> closes
                | None \<Rightarrow> at_time \<le> closes)))"

definition utc_date :: "int \<Rightarrow> int" where
  "utc_date at_time = at_time div 86400"

definition is_exam_period :: "semester option \<Rightarrow> int \<Rightarrow> 'a academics_db_scheme \<Rightarrow> bool" where
  "is_exam_period sem at_time s =
     (case or_current sem s of
        None \<Rightarrow> False
      | Some r \<Rightarrow>
          (case (sem_exam_start r, sem_exam_end r) of
             (Some first, Some final) \<Rightarrow> first \<le> utc_date at_time \<and> utc_date at_time \<le> final
           | _ \<Rightarrow> False))"

definition require_registration_open ::
  "ctx \<Rightarrow> semester option \<Rightarrow> 'a academics_db_scheme \<Rightarrow> exn + semester" where
  "require_registration_open c sem s =
     bindE (case sem of Some r \<Rightarrow> Inr r | None \<Rightarrow> bindE (require_current_semester s) (\<lambda>(k, r). Inr r))
       (\<lambda>r. if is_registration_open (Some r) (now c) s then Inr r else Inl WindowClosed)"

section \<open>Properties\<close>

text \<open>
  The windows of a semester are consistent. For a semester whose \<open>clean\<close> passed,
  whenever registration is open so is add/drop if its end has been set, registration is
  never open at two instants without being open in between, and a semester with an unset
  registration window is closed at every instant.
\<close>

theorem calendar_windows:
  assumes "semester_clean (academic_years s) r = Inr ()"
  shows "(is_registration_open (Some r) t s \<longrightarrow> sem_add_drop_closes r \<noteq> None \<longrightarrow> is_add_drop_open (Some r) t s) \<and>
    (is_registration_open (Some r) t s \<longrightarrow> is_registration_open (Some r) t' s \<longrightarrow> t \<le> u \<longrightarrow> u \<le> t' \<longrightarrow>
      is_registration_open (Some r) u s) \<and>
    (sem_registration_opens r = None \<or> sem_registration_closes r = None \<longrightarrow>
      \<not> is_registration_open (Some r) t s)"
  using assms
  by (auto simp: is_registration_open_def is_add_drop_open_def or_current_def semester_clean_def Let_def
      bad_window_def ensure_def split: option.splits if_splits)

text \<open>
  Registration needs a configured, open window: \<open>require_registration_open\<close> returns a
  semester exactly if one was given or is current and its window contains the present
  instant; without a current semester it is a configuration error, otherwise the window is
  reported as closed.
\<close>

theorem require_registration_open_iff:
  "require_registration_open c sem s =
     (case or_current sem s of
        None \<Rightarrow> Inl ConfigurationError
      | Some r \<Rightarrow> if (\<exists>a b. sem_registration_opens r = Some a \<and> sem_registration_closes r = Some b \<and>
                        a \<le> now c \<and> now c \<le> b) then Inr r else Inl WindowClosed)"
  by (cases "current_semester s")
    (auto simp: require_registration_open_def or_current_def require_current_semester_def is_registration_open_def
      split: option.splits)

lemma current_semester_unique:
  assumes "one_current_semester (semesters s)" and "(k, r) \<in> set (semesters s)" and "sem_is_current r"
  shows "current_semester s = Some (k, r)"
proof -
  let ?f = "filter (\<lambda>(k, r). sem_is_current r) (semesters s)"
  have len: "length ?f \<le> 1" using assms(1) by (simp add: one_current_semester_def count_rows_def filter_rows_def)
  have mem: "(k, r) \<in> set ?f" using assms by simp
  then have ne: "current_semester s \<noteq> None"
    using assms(2,3) by (auto simp: current_semester_def first_row_None exists_row_iff)
  then obtain k' r' where cur: "current_semester s = Some (k', r')" by auto
  then have "(k', r') \<in> set ?f" unfolding current_semester_def by (auto dest: first_row_Some)
  with len mem cur show ?thesis by (cases ?f) auto
qed

section \<open>Concrete inputs\<close>

definition sample_year :: academic_year where
  "sample_year = \<lparr>ay_name = ''2026/2027'', ay_start_date = 100, ay_end_date = 400, ay_is_current = True\<rparr>"

definition sample_semester :: semester where
  "sample_semester =
     \<lparr>sem_academic_year = 1, sem_sequence = 1, sem_name = ''Semester 1'', sem_teaching_start = 110,
      sem_teaching_end = 200, sem_exam_start = Some 201, sem_exam_end = Some 215,
      sem_registration_opens = Some 900, sem_registration_closes = Some 1100,
      sem_add_drop_closes = Some 1500, sem_is_current = True\<rparr>"

definition sample_academics_db :: academics_db where
  "sample_academics_db =
     \<lparr>id_sequences = [], audit_log = [], sync_operations = [], sync_conflicts = [],
      institutions = [], academic_years = [(1, sample_year)], semesters = [(1, sample_semester)],
      grading_scales = [], grade_bands = []\<rparr>"

lemma calendar_windows_witness:
  "is_registration_open (Some sample_semester) 1000 sample_academics_db \<and>
   is_add_drop_open (Some sample_semester) 1000 sample_academics_db"
proof -
  have "semester_clean (academic_years sample_academics_db) sample_semester = Inr ()"
    by (simp add: semester_clean_def bad_window_def sample_academics_db_def sample_semester_def sample_year_def
        get_row_def)
  moreover have "is_registration_open (Some sample_semester) 1000 sample_academics_db"
    by (simp add: is_registration_open_def or_current_def sample_semester_def)
  moreover have "sem_add_drop_closes sample_semester \<noteq> None" by (simp add: sample_semester_def)
  ultimately show ?thesis using calendar_windows by blast
qed

end
