(* ===== verification/Grading.thy ===== *)
theory Grading
  imports Academics
begin

text \<open>
  Grades and averages: \<open>GradingScale.validate_bands\<close> and \<open>GradeBand\<close> of
  \<open>academics/models.py\<close> and the computations of \<open>academics/services/grading.py\<close>. The
  lemmas show that a validated scale grades every mark of two decimals by exactly one band,
  that the average is the correctly rounded exact weighted mean, and that the degree
  classification decides its thresholds exactly although it divides in decimal arithmetic.
\<close>

section \<open>Bands\<close>

definition GRADE_BAND_STEP :: rat where "GRADE_BAND_STEP = 1 / 100"

definition band_contains :: "grade_band \<Rightarrow> rat \<Rightarrow> bool" where
  "band_contains b percent \<longleftrightarrow> gb_min_percent b \<le> percent \<and> percent \<le> gb_max_percent b"

fun check_each_band :: "rat \<Rightarrow> grade_band list \<Rightarrow> exn + unit" where
  "check_each_band max_grade_point [] = Inr ()"
| "check_each_band max_grade_point (b # bs) =
     (if gb_max_percent b < gb_min_percent b then Inl ValidationError
      else if max_grade_point < gb_grade_point b then Inl ValidationError
      else check_each_band max_grade_point bs)"

fun check_band_pairs :: "grade_band list \<Rightarrow> exn + unit" where
  "check_band_pairs (band1 # band2 # bs) =
     (if gb_min_percent band2 \<le> gb_max_percent band1 then Inl ValidationError
      else if GRADE_BAND_STEP < gb_min_percent band2 - gb_max_percent band1 then Inl ValidationError
      else check_band_pairs (band2 # bs))"
| "check_band_pairs _ = Inr ()"

definition validate_bands :: "grading_scale \<Rightarrow> grade_band list \<Rightarrow> exn + unit" where
  "validate_bands scale bands =
     (if bands = [] then Inl ValidationError
      else let ordered = sort_key gb_min_percent bands in
        bindE (check_each_band (gs_max_grade_point scale) ordered) (\<lambda>_.
          if gb_min_percent (hd ordered) \<noteq> 0 then Inl ValidationError
          else if gb_max_percent (last ordered) \<noteq> 100 then Inl ValidationError
          else check_band_pairs ordered))"

text \<open>\<open>scale.bands.all()\<close> is ordered by \<open>-min_percent\<close>.\<close>

definition scale_bands :: "nat \<Rightarrow> 'a academics_db_scheme \<Rightarrow> grade_band list" where
  "scale_bands k s =
     sort_key (\<lambda>b. - gb_min_percent b) (map snd (filter_rows (\<lambda>_ b. gb_scale b = k) (grade_bands s)))"

definition get_default_scale :: "'a academics_db_scheme \<Rightarrow> (nat \<times> grading_scale) option" where
  "get_default_scale s =
     (case first_row (\<lambda>_ g. gs_is_default g) (grading_scales s) of
        Some x \<Rightarrow> Some x
      | None \<Rightarrow> first_row (\<lambda>_ _. True) (grading_scales s))"

section \<open>Grades\<close>

text \<open>
  \<open>GradingConfigurationError\<close> is an exception class of its own, not a domain error.
\<close>

definition GradingConfigurationError :: exn where
  "GradingConfigurationError = UnexpectedError"

record grade_result =
  gr_letter :: string
  gr_grade_point :: rat
  gr_is_pass :: bool
  gr_description :: string

definition band_result :: "grade_band \<Rightarrow> grade_result" where
  "band_result b =
     \<lparr>gr_letter = gb_letter b, gr_grade_point = gb_grade_point b, gr_is_pass = gb_is_pass b,
      gr_description = gb_description b\<rparr>"

definition grade_for_bands :: "rat \<Rightarrow> grade_band list \<Rightarrow> exn + grade_result" where
  "grade_for_bands percent bands =
     (if percent < 0 \<or> 100 < percent then Inl GradingConfigurationError
      else from_option GradingConfigurationError
             (map_option band_result (find (\<lambda>b. band_contains b percent) bands)))"

definition grade_for :: "rat \<Rightarrow> nat option \<Rightarrow> 'a academics_db_scheme \<Rightarrow> exn + grade_result" where
  "grade_for percent scale s =
     (if percent < 0 \<or> 100 < percent then Inl GradingConfigurationError
      else case (case scale of Some k \<Rightarrow> Some k | None \<Rightarrow> map_option fst (get_default_scale s)) of
          None \<Rightarrow> Inl GradingConfigurationError
        | Some k \<Rightarrow> grade_for_bands percent (scale_bands k s))"

section \<open>Averages\<close>

datatype gpa_entry =
    CourseGrade (credit_hours: int) (grade_point: rat) (counts_toward_gpa: bool)
  | CreditPair int rat

fun entry_values :: "gpa_entry \<Rightarrow> (int \<times> rat) option" where
  "entry_values (CourseGrade ch gp counts) = (if counts then Some (ch, gp) else None)"
| "entry_values (CreditPair ch gp) = Some (ch, gp)"

fun gpa_sums :: "gpa_entry list \<Rightarrow> rat \<Rightarrow> rat \<Rightarrow> rat \<times> rat" where
  "gpa_sums [] total_points total_credits = (total_points, total_credits)"
| "gpa_sums (e # es) total_points total_credits =
     (case entry_values e of
        None \<Rightarrow> gpa_sums es total_points total_credits
      | Some (credits, points) \<Rightarrow>
          if credits \<le> 0 then gpa_sums es total_points total_credits
          else gpa_sums es (dec_ctx (total_points + dec_mul (of_int credits) points))
                 (dec_ctx (total_credits + of_int credits)))"

definition gpa :: "gpa_entry list \<Rightarrow> exn + rat option" where
  "gpa es =
     (let (total_points, total_credits) = gpa_sums es 0 0 in
      if total_credits = 0 then Inr None
      else bindE (quantize_checked (dec_div total_points total_credits)) (\<lambda>q. Inr (Some q)))"

definition cgpa :: "gpa_entry list \<Rightarrow> exn + rat option" where
  "cgpa es = gpa es"

definition weighted_semester_cgpa :: "(int \<times> rat) list \<Rightarrow> exn + rat option" where
  "weighted_semester_cgpa sems = gpa (map (\<lambda>(ch, g). CreditPair ch g) sems)"

definition classification :: "rat option \<Rightarrow> grading_scale option \<Rightarrow> string" where
  "classification v scale =
     (case v of
        None \<Rightarrow> []
      | Some value \<Rightarrow>
          let maximum = (case scale of None \<Rightarrow> 4 | Some g \<Rightarrow> gs_max_grade_point g) in
          if maximum \<le> 0 then []
          else let ratio = dec_div value maximum in
            if 875 / 1000 \<le> ratio then ''First Class''
            else if 750 / 1000 \<le> ratio then ''Second Class (Upper Division)''
            else if 625 / 1000 \<le> ratio then ''Second Class (Lower Division)''
            else if 500 / 1000 \<le> ratio then ''Pass''
            else ''Fail'')"

section \<open>A validated scale covers every mark once\<close>

text \<open>The columns: percentages of two decimals within 0 to 100, one band per letter.\<close>

definition band_columns :: "grade_band \<Rightarrow> bool" where
  "band_columns b \<longleftrightarrow> two_places (gb_min_percent b) \<and> two_places (gb_max_percent b) \<and>
     two_places (gb_grade_point b)"

lemma check_each_band_ok:
  "check_each_band m bs = Inr () \<longleftrightarrow> (\<forall>b \<in> set bs. gb_min_percent b \<le> gb_max_percent b \<and> gb_grade_point b \<le> m)"
  by (induction bs) auto

lemma check_band_pairs_later:
  assumes "check_band_pairs (b # bs) = Inr ()" and "\<forall>x \<in> set (b # bs). gb_min_percent x \<le> gb_max_percent x"
    and "c \<in> set bs"
  shows "gb_max_percent b < gb_min_percent c"
  using assms
proof (induction bs arbitrary: b)
  case (Cons u bs)
  then have u: "gb_max_percent b < gb_min_percent u" and rest: "check_band_pairs (u # bs) = Inr ()"
    by (auto split: if_splits)
  show ?case
  proof (cases "c = u")
    case False
    with Cons.prems have "gb_max_percent u < gb_min_percent c" by (intro Cons.IH [OF rest]) auto
    with u Cons.prems(2) show ?thesis by fastforce
  qed (use u in simp)
qed simp

lemma two_places_step:
  assumes "two_places a" and "two_places b" and "a < b"
  shows "a + 1 / 100 \<le> b"
proof -
  from assms(1,2) obtain m n where mn: "a = of_int m / 100" "b = of_int n / 100" by (elim two_placesE)
  with assms(3) have "m + 1 \<le> n" by simp
  then have "(of_int (m + 1) :: rat) \<le> of_int n" by (simp only: of_int_le_iff)
  with mn show ?thesis by (simp add: field_simps)
qed

lemma bands_cover:
  assumes "check_band_pairs (b # bs) = Inr ()" and "\<forall>x \<in> set (b # bs). band_columns x"
    and "two_places v" and "gb_min_percent b \<le> v" and "v \<le> gb_max_percent (last (b # bs))"
  shows "\<exists>c \<in> set (b # bs). band_contains c v"
  using assms
proof (induction bs arbitrary: b)
  case (Cons u bs)
  show ?case
  proof (cases "v \<le> gb_max_percent b")
    case False
    with Cons.prems have "gb_max_percent b + 1 / 100 \<le> v"
      by (intro two_places_step) (auto simp: band_columns_def)
    moreover have "gb_min_percent u \<le> gb_max_percent b + 1 / 100" and "check_band_pairs (u # bs) = Inr ()"
      using Cons.prems(1) by (auto simp: GRADE_BAND_STEP_def split: if_splits)
    ultimately have "\<exists>c \<in> set (u # bs). band_contains c v"
      using Cons.prems by (intro Cons.IH) auto
    then show ?thesis by auto
  qed (use Cons.prems in \<open>auto simp: band_contains_def\<close>)
qed (auto simp: band_contains_def)

lemma bands_disjoint:
  assumes "check_band_pairs bs = Inr ()" and "\<forall>x \<in> set bs. gb_min_percent x \<le> gb_max_percent x"
    and "b \<in> set bs" and "c \<in> set bs" and "band_contains b v" and "band_contains c v"
  shows "b = c"
  using assms
proof (induction bs)
  case (Cons a bs)
  have rest: "check_band_pairs bs = Inr ()" using Cons.prems(1) by (cases bs) (auto split: if_splits)
  have later: "gb_max_percent a < gb_min_percent x" if "x \<in> set bs" for x
    using check_band_pairs_later [OF Cons.prems(1,2) that] .
  show ?case
  proof (cases "b = a \<or> c = a")
    case True
    with Cons.prems later show ?thesis by (fastforce simp: band_contains_def)
  next
    case False
    with Cons.prems show ?thesis by (intro Cons.IH [OF rest]) auto
  qed
qed simp

lemma validate_bands_unique:
  assumes "validate_bands g bands = Inr ()" and "\<forall>b \<in> set bands. band_columns b"
    and "two_places v" and "0 \<le> v" and "v \<le> 100"
  shows "\<exists>!b. b \<in> set bands \<and> band_contains b v"
proof -
  let ?o = "sort_key gb_min_percent bands"
  have ne: "bands \<noteq> []" using assms(1) by (auto simp: validate_bands_def)
  then have "?o \<noteq> []" by (metis set_empty set_sort)
  then obtain b bs where o: "?o = b # bs" by (cases ?o) auto
  from assms(1) ne have each: "\<forall>b \<in> set ?o. gb_min_percent b \<le> gb_max_percent b"
    and lo: "gb_min_percent b = 0" and hi: "gb_max_percent (last ?o) = 100" and pairs: "check_band_pairs ?o = Inr ()"
    unfolding o by (auto simp: validate_bands_def Let_def o bindE_eq_Inr check_each_band_ok split: if_splits)
  have "\<exists>c \<in> set ?o. band_contains c v"
    using bands_cover [of b bs v] pairs assms lo hi unfolding o by (metis o set_sort)
  then show ?thesis using bands_disjoint [OF pairs each] by auto
qed

lemma find_unique:
  assumes "\<exists>!b. b \<in> set bs \<and> P b" and "b \<in> set bs" and "P b"
  shows "find P bs = Some b"
proof (cases "find P bs")
  case None
  with assms(2,3) show ?thesis by (auto simp: find_None_iff)
next
  case (Some c)
  from find_SomeD [OF this] assms have "c = b" by blast
  with Some show ?thesis by simp
qed

text \<open>
  A validated scale grades every mark by exactly one band. If \<open>validate_bands\<close> accepts
  the bands of a scale then every mark from 0 to 100 with at most two decimals lies in
  exactly one band and gets the letter, grade point and pass flag of that band, in
  whatever order the bands are stored; marks outside 0 to 100 are refused.
\<close>

theorem validated_scale_grades:
  assumes "validate_bands g bands = Inr ()" and "\<forall>b \<in> set bands. band_columns b" and "two_places v"
  shows "(0 \<le> v \<and> v \<le> 100 \<longrightarrow>
      (\<exists>!b. b \<in> set bands \<and> band_contains b v) \<and>
      (\<forall>b \<in> set bands. band_contains b v \<longrightarrow> grade_for_bands v bands = Inr (band_result b))) \<and>
    (v < 0 \<or> 100 < v \<longrightarrow> grade_for_bands v bands = Inl GradingConfigurationError)"
proof (intro conjI impI ballI)
  assume v: "0 \<le> v \<and> v \<le> 100"
  show uniq: "\<exists>!b. b \<in> set bands \<and> band_contains b v"
    using validate_bands_unique assms v by simp
  fix b assume "b \<in> set bands" and "band_contains b v"
  with find_unique [OF uniq] v show "grade_for_bands v bands = Inr (band_result b)"
    by (simp add: grade_for_bands_def)
qed (auto simp: grade_for_bands_def)

text \<open>
  The validation allows a step of one hundredth between two bands, and the range check of
  \<open>grade_for\<close> is not limited to two decimals: a mark inside a step has no grade.
\<close>

lemma step_has_no_grade:
  assumes "\<forall>b \<in> set bands. \<not> band_contains b v"
  shows "grade_for_bands v bands = Inl GradingConfigurationError"
proof -
  have "find (\<lambda>b. band_contains b v) bands = None" using assms by (auto simp: find_None_iff)
  then show ?thesis by (simp add: grade_for_bands_def)
qed

section \<open>The average is the rounded exact mean\<close>

text \<open>The entries that count, and their exact sums.\<close>

definition counted :: "gpa_entry list \<Rightarrow> (int \<times> rat) list" where
  "counted es = filter (\<lambda>(c, p). 0 < c) (List.map_filter entry_values es)"

definition credit_sum :: "gpa_entry list \<Rightarrow> int" where
  "credit_sum es = sum_list (map fst (counted es))"

definition point_sum :: "gpa_entry list \<Rightarrow> rat" where
  "point_sum es = sum_list (map (\<lambda>(c, p). of_int c * p) (counted es))"

text \<open>Credits and grade points as their columns hold them, and fewer than a million of them.\<close>

definition gpa_columns :: "gpa_entry list \<Rightarrow> bool" where
  "gpa_columns es \<longleftrightarrow> length es \<le> 10 ^ 6 \<and>
     (\<forall>(c, p) \<in> set (counted es). c \<le> 32767 \<and> two_places p \<and> 0 \<le> p \<and> p < 100)"

lemma counted_Cons:
  "counted (e # es) =
     (case entry_values e of None \<Rightarrow> counted es | Some (c, p) \<Rightarrow> if c \<le> 0 then counted es else (c, p) # counted es)"
  by (auto simp: counted_def List.map_filter_def split: option.splits)

lemma counted_Nil [simp]: "counted [] = []"
  by (simp add: counted_def List.map_filter_def)

lemma length_counted: "length (counted es) \<le> length es"
  by (induction es) (auto simp: counted_Cons split: option.split)

definition gpa_acc_ok :: "gpa_entry list \<Rightarrow> rat \<Rightarrow> rat \<Rightarrow> nat \<Rightarrow> bool" where
  "gpa_acc_ok es tp tc n \<longleftrightarrow> two_places tp \<and> 0 \<le> tp \<and> tp \<le> of_nat n * 3276700 \<and>
     tc \<in> \<int> \<and> 0 \<le> tc \<and> tc \<le> of_nat n * 32767 \<and> n + length es \<le> 10 ^ 6 \<and>
     (\<forall>(c, p) \<in> set (counted es). c \<le> 32767 \<and> two_places p \<and> 0 \<le> p \<and> p < 100)"

lemma two_places_mult_int: "two_places p \<Longrightarrow> two_places (of_int c * p)"
  by (metis Ints_mult Ints_of_int mult.assoc two_places_def)

lemma gpa_sums_exact:
  "gpa_acc_ok es tp tc n \<Longrightarrow> gpa_sums es tp tc = (tp + point_sum es, tc + of_int (credit_sum es))"
proof (induction es arbitrary: tp tc n)
  case (Cons e es)
  show ?case
  proof (cases "entry_values e")
    case None
    with Cons.prems have "gpa_acc_ok es tp tc n" by (simp add: gpa_acc_ok_def counted_Cons)
    from Cons.IH [OF this] None show ?thesis by (simp add: point_sum_def credit_sum_def counted_Cons)
  next
    case (Some x)
    obtain c p where x: "x = (c, p)" by (cases x)
    show ?thesis
    proof (cases "c \<le> 0")
      case True
      with Cons.prems Some x have "gpa_acc_ok es tp tc n" by (simp add: gpa_acc_ok_def counted_Cons)
      from Cons.IH [OF this] Some x True show ?thesis by (simp add: point_sum_def credit_sum_def counted_Cons)
    next
      case False
      with Cons.prems Some x have c: "c \<le> 32767" and p: "two_places p" "0 \<le> p" "p < 100"
        and acc: "two_places tp" "0 \<le> tp" "tp \<le> of_nat n * 3276700" "tc \<in> \<int>" "0 \<le> tc" "tc \<le> of_nat n * 32767"
        and n: "n + Suc (length es) \<le> 10 ^ 6"
        by (simp_all add: gpa_acc_ok_def counted_Cons)
      have cr: "(of_int c :: rat) \<le> 32767" "0 \<le> (of_int c :: rat)" using c False by simp_all
      have cp1: "of_int c * p \<le> 32767 * 100" by (rule mult_mono) (use cr p in simp_all)
      have cp2: "0 \<le> of_int c * p" using cr p by (intro mult_nonneg_nonneg)
      define q where "q = of_int c * p"
      have q: "two_places q" "q \<le> 3276700" "0 \<le> q" using cp1 cp2 two_places_mult_int [OF p(1)] by (simp_all add: q_def)
      have "n \<le> 1000000" using n by simp
      then have "(of_nat n :: rat) \<le> of_nat 1000000" by (simp only: of_nat_le_iff)
      then have nr: "(of_nat n :: rat) \<le> 1000000" by simp
      have "\<bar>q\<bar> < 10 ^ 26" and "\<bar>tp + q\<bar> < 10 ^ 26" and "\<bar>tc + of_int c\<bar> < 10 ^ 28"
        using q acc nr cr by (simp_all add: abs_if)
      then have "dec_mul (of_int c) p = q" and "dec_ctx (tp + q) = tp + q" and "dec_ctx (tc + of_int c) = tc + of_int c"
        using q acc dec_ctx_two_places [of q] dec_ctx_two_places [of "tp + q"] dec_ctx_exact [of "tc + of_int c" 0]
        by (simp_all add: dec_mul_def q_def [symmetric])
      then have step: "gpa_sums (e # es) tp tc = gpa_sums es (tp + q) (tc + of_int c)"
        using Some x False by simp
      have "gpa_acc_ok es (tp + q) (tc + of_int c) (Suc n)"
        using acc q cr n Cons.prems Some x False unfolding gpa_acc_ok_def
        by (simp add: counted_Cons distrib_right)
      from Cons.IH [OF this] step show ?thesis using Some x False
        by (simp add: point_sum_def credit_sum_def counted_Cons q_def)
    qed
  qed
qed (simp add: point_sum_def credit_sum_def)

lemma counted_pos: "(c, p) \<in> set (counted es) \<Longrightarrow> 0 < c"
  by (simp add: counted_def)

lemma credit_sum_0: "credit_sum es = 0 \<longleftrightarrow> counted es = []"
proof -
  have "counted es \<noteq> [] \<Longrightarrow> 0 < credit_sum es"
  proof -
    assume "counted es \<noteq> []"
    then obtain x xs where cs: "counted es = x # xs" by (cases "counted es") auto
    have pos: "\<forall>y \<in> set (x # xs). 0 < fst y" using counted_pos [of _ _ es] cs by (metis prod.collapse)
    then have "0 \<le> sum_list (map fst xs)" by (intro sum_list_nonneg) auto
    with pos show "0 < credit_sum es" by (simp add: credit_sum_def cs)
  qed
  moreover have "counted es = [] \<Longrightarrow> credit_sum es = 0" by (simp add: credit_sum_def)
  ultimately show ?thesis by force
qed

lemma credit_sum_nonneg: "0 \<le> credit_sum es"
  unfolding credit_sum_def using counted_pos [of _ _ es] by (intro sum_list_nonneg) fastforce

lemma sum_bounds:
  fixes xs :: "(int \<times> rat) list"
  assumes "\<forall>(c, p) \<in> set xs. 0 < c \<and> lo \<le> p \<and> p \<le> hi"
  shows "lo * of_int (sum_list (map fst xs)) \<le> sum_list (map (\<lambda>(c, p). of_int c * p) xs) \<and>
    sum_list (map (\<lambda>(c, p). of_int c * p) xs) \<le> hi * of_int (sum_list (map fst xs))"
  using assms
proof (induction xs)
  case (Cons x xs)
  obtain c p where x: "x = (c, p)" by (cases x)
  with Cons.prems have "of_int c * lo \<le> of_int c * p" and "of_int c * p \<le> of_int c * hi"
    by (auto intro!: mult_left_mono)
  moreover have "lo * of_int (sum_list (map fst xs)) \<le> sum_list (map (\<lambda>(c, p). of_int c * p) xs) \<and>
      sum_list (map (\<lambda>(c, p). of_int c * p) xs) \<le> hi * of_int (sum_list (map fst xs))"
    using Cons by simp
  ultimately have "lo * of_int c + lo * of_int (sum_list (map fst xs)) \<le>
        of_int c * p + sum_list (map (\<lambda>(c, p). of_int c * p) xs)"
    and "of_int c * p + sum_list (map (\<lambda>(c, p). of_int c * p) xs) \<le>
        hi * of_int c + hi * of_int (sum_list (map fst xs))"
    by (simp_all add: mult.commute add_mono)
  then show ?case by (simp add: x distrib_left)
qed simp

lemma credit_sum_le:
  assumes "gpa_columns es"
  shows "credit_sum es \<le> 32767 * 10 ^ 6"
proof -
  have "sum_list (map fst xs) \<le> 32767 * int (length xs)" if "\<forall>(c, p) \<in> set xs. c \<le> 32767" for xs :: "(int \<times> rat) list"
    using that by (induction xs) auto
  from this [of "counted es"] assms have "credit_sum es \<le> 32767 * int (length (counted es))"
    by (auto simp: gpa_columns_def credit_sum_def)
  also have "\<dots> \<le> 32767 * 10 ^ 6"
    using length_counted [of es] assms by (simp add: gpa_columns_def)
  finally show ?thesis .
qed

lemma two_places_point_sum: "gpa_columns es \<Longrightarrow> two_places (point_sum es)"
proof -
  have "\<forall>(c, p) \<in> set xs. two_places p \<Longrightarrow> two_places (sum_list (map (\<lambda>(c, p). of_int c * p) xs))"
    for xs :: "(int \<times> rat) list"
    by (induction xs) (auto intro: two_places_mult_int)
  then show "gpa_columns es \<Longrightarrow> ?thesis" by (fastforce simp: gpa_columns_def point_sum_def)
qed

lemma gpa_exact:
  assumes "gpa_columns es"
  shows "gpa es = Inr (if counted es = [] then None
    else Some (quantize_half_up (point_sum es / of_int (credit_sum es))))"
proof -
  have "gpa_acc_ok es 0 0 0" using assms by (simp add: gpa_acc_ok_def gpa_columns_def)
  from gpa_sums_exact [OF this] have sums: "gpa_sums es 0 0 = (point_sum es, of_int (credit_sum es))" by simp
  show ?thesis
  proof (cases "counted es = []")
    case True
    then show ?thesis by (simp add: gpa_def sums credit_sum_0)
  next
    case False
    let ?C = "credit_sum es"
    have C: "0 < ?C" using False credit_sum_0 credit_sum_nonneg [of es] by fastforce
    obtain A where A: "point_sum es = of_int A / 100"
      using two_places_point_sum [OF assms] by (rule two_placesE)
    have bnd: "0 \<le> point_sum es \<and> point_sum es \<le> (99 + 99 / 100) * of_int ?C"
    proof -
      have "\<forall>(c, p) \<in> set (counted es). 0 < c \<and> 0 \<le> p \<and> p \<le> 99 + 99 / 100"
        using assms counted_pos [of _ _ es] two_places_less [of _ 100] by (fastforce simp: gpa_columns_def)
      from sum_bounds [OF this] show ?thesis by (simp add: point_sum_def credit_sum_def)
    qed
    have eq: "point_sum es / of_int ?C = of_int A / of_int (100 * ?C)" by (simp add: A)
    have q: "0 \<le> point_sum es / of_int ?C" "point_sum es / of_int ?C < 100"
      using bnd C by (auto simp: divide_less_eq intro: le_less_trans)
    have "quantize_half_up (dec_div (of_int A) (of_int (100 * ?C))) = quantize_half_up (of_int A / of_int (100 * ?C))"
    proof (rule quantize_div_exact [where e = 2])
      show "0 \<le> A" using bnd A by (simp add: zero_le_divide_iff)
      show "(of_int A :: rat) / of_int (100 * ?C) < 10 ^ 2" using q eq by simp
      have "(of_int ?C :: rat) \<le> of_int (32767 * 10 ^ 6)" using credit_sum_le [OF assms] by (simp only: of_int_le_iff)
      then show "of_int (100 * ?C) * 10 ^ 2 < (10 ^ 26 :: rat)" by simp
    qed (use C in simp)
    then have quant: "quantize_half_up (dec_div (point_sum es) (of_int ?C)) =
        quantize_half_up (point_sum es / of_int ?C)"
      by (simp add: dec_div_def eq)
    have "dec_div (point_sum es) (of_int ?C) \<le> 100 + 1"
      using dec_ctx_error_bound [of "point_sum es / of_int ?C" 2] q
      by (simp add: dec_div_def abs_if split: if_splits)
    moreover have "0 \<le> dec_div (point_sum es) (of_int ?C)"
      unfolding dec_div_def using q by (intro dec_ctx_nonneg)
    ultimately have "\<bar>dec_div (point_sum es) (of_int ?C) * 100\<bar> \<le> of_int 10100" by simp
    then have "\<bar>round_half_up (dec_div (point_sum es) (of_int ?C) * 100)\<bar> < 10 ^ 28"
      using round_half_up_less by fastforce
    then show ?thesis using False C quant
      by (simp add: gpa_def sums quantize_checked_def)
  qed
qed

text \<open>
  C7. A grade point average is computed exactly. For entries as the columns hold them, the
  decimal arithmetic of \<open>gpa\<close> (28 digits, then half-up to two places) returns the correctly
  rounded credit-weighted mean of the entries that count, never an error; it returns nothing
  exactly if no entry counts, and the average lies between the smallest and the largest
  grade point.
\<close>

theorem gpa_correct:
  assumes "gpa_columns es" and "\<forall>(c, p) \<in> set (counted es). lo \<le> p \<and> p \<le> hi"
    and "two_places lo" and "two_places hi"
  shows "gpa es = Inr (if counted es = [] then None
      else Some (quantize_half_up (point_sum es / of_int (credit_sum es)))) \<and>
    (counted es \<noteq> [] \<longrightarrow> (\<exists>g. gpa es = Inr (Some g) \<and> lo \<le> g \<and> g \<le> hi))"
proof -
  have "lo \<le> point_sum es / of_int (credit_sum es) \<and> point_sum es / of_int (credit_sum es) \<le> hi"
    if "counted es \<noteq> []"
  proof -
    have C: "0 < credit_sum es" using that credit_sum_0 credit_sum_nonneg [of es] by fastforce
    have "\<forall>(c, p) \<in> set (counted es). 0 < c \<and> lo \<le> p \<and> p \<le> hi"
      using assms(2) counted_pos [of _ _ es] by fastforce
    from sum_bounds [OF this] C show ?thesis by (simp add: point_sum_def credit_sum_def field_simps)
  qed
  with gpa_exact [OF assms(1)] assms(3,4) quantize_half_up_between [OF assms(3,4)] show ?thesis by auto
qed

section \<open>Averages of semester averages\<close>

lemma counted_append: "counted (es @ fs) = counted es @ counted fs"
  by (induction es) (auto simp: counted_Cons split: option.split)

lemma sums_append [simp]:
  "credit_sum (es @ fs) = credit_sum es + credit_sum fs" "point_sum (es @ fs) = point_sum es + point_sum fs"
  by (simp_all add: credit_sum_def point_sum_def counted_append)

lemma sums_Nil [simp]: "credit_sum [] = 0" "point_sum [] = 0"
  by (simp_all add: credit_sum_def point_sum_def)

text \<open>The rounded average of a list of entries that counts something.\<close>

definition rounded_gpa :: "gpa_entry list \<Rightarrow> rat" where
  "rounded_gpa es = quantize_half_up (point_sum es / of_int (credit_sum es))"

definition semester_summary :: "gpa_entry list \<Rightarrow> int \<times> rat" where
  "semester_summary es = (credit_sum es, rounded_gpa es)"

lemma credit_sum_pos: "counted es \<noteq> [] \<Longrightarrow> 0 < credit_sum es"
  using credit_sum_0 [of es] credit_sum_nonneg [of es] by simp

lemma credit_sum_concat_pos:
  "sems \<noteq> [] \<Longrightarrow> \<forall>es \<in> set sems. counted es \<noteq> [] \<Longrightarrow> 0 < credit_sum (concat sems)"
  by (cases sems) (use credit_sum_pos credit_sum_nonneg in \<open>fastforce intro: add_pos_nonneg\<close>)+

lemma summaries_credit:
  "\<forall>es \<in> set sems. counted es \<noteq> [] \<Longrightarrow>
   counted (map (\<lambda>(ch, g). CreditPair ch g) (map semester_summary sems)) = map semester_summary sems"
  by (induction sems) (auto simp: counted_Cons semester_summary_def not_le credit_sum_pos)

lemma summaries_sums:
  assumes "\<forall>es \<in> set sems. counted es \<noteq> []"
  shows "credit_sum (map (\<lambda>(ch, g). CreditPair ch g) (map semester_summary sems)) = credit_sum (concat sems) \<and>
    \<bar>point_sum (map (\<lambda>(ch, g). CreditPair ch g) (map semester_summary sems)) - point_sum (concat sems)\<bar>
      \<le> of_int (credit_sum (concat sems)) / 200"
proof -
  have "sum_list (map fst (map semester_summary sems)) = credit_sum (concat sems) \<and>
    \<bar>sum_list (map (\<lambda>(c, p). of_int c * p) (map semester_summary sems)) - point_sum (concat sems)\<bar>
      \<le> of_int (credit_sum (concat sems)) / 200"
    using assms
  proof (induction sems)
    case (Cons es sems)
    let ?C = "of_int (credit_sum es) :: rat" and ?m = "point_sum es / of_int (credit_sum es)"
    have C: "0 < ?C" using Cons.prems credit_sum_pos by simp
    have "\<bar>?C * rounded_gpa es - point_sum es\<bar> = ?C * \<bar>rounded_gpa es - ?m\<bar>"
    proof -
      have "?C * rounded_gpa es - point_sum es = ?C * (rounded_gpa es - ?m)"
        using C by (simp add: right_diff_distrib)
      then show ?thesis using C by (simp only: abs_mult abs_of_pos)
    qed
    also have "\<dots> \<le> ?C * (1 / 200)"
      using C quantize_half_up_error [of ?m] unfolding rounded_gpa_def by (intro mult_left_mono) auto
    finally have "\<bar>?C * rounded_gpa es - point_sum es\<bar> \<le> ?C / 200" by simp
    moreover define x where "x = ?C * rounded_gpa es"
    moreover define y where "y = sum_list (map (\<lambda>(c, p). of_int c * p) (map semester_summary sems))"
    moreover have "sum_list (map fst (map semester_summary sems)) = credit_sum (concat sems)"
      and "\<bar>y - point_sum (concat sems)\<bar> \<le> of_int (credit_sum (concat sems)) / 200"
      using Cons unfolding y_def by auto
    ultimately have "\<bar>x + y - (point_sum es + point_sum (concat sems))\<bar> \<le>
        ?C / 200 + of_int (credit_sum (concat sems)) / 200"
      and "credit_sum es + sum_list (map fst (map semester_summary sems)) = credit_sum es + credit_sum (concat sems)"
      by linarith+
    then show ?case unfolding x_def y_def by (simp add: semester_summary_def [of es] add_divide_distrib)
  qed simp
  then show ?thesis unfolding credit_sum_def [of "map _ _"] point_sum_def [of "map _ _"] summaries_credit [OF assms] .
qed

lemma two_places_close:
  assumes "two_places a" and "two_places b" and "\<bar>a - b\<bar> < 2 / 100"
  shows "\<bar>a - b\<bar> \<le> 1 / 100"
  using two_places_less [of "(a - b) * 1" 1] two_places_step [OF assms(1,2)] two_places_step [OF assms(2,1)]
proof -
  obtain m n where mn: "a = of_int m / 100" "b = of_int n / 100" using assms(1,2) by (elim two_placesE)
  have "\<bar>a - b\<bar> = of_int \<bar>m - n\<bar> / 100" by (simp add: mn abs_if field_simps)
  moreover from this assms(3) have "\<bar>m - n\<bar> < 2" by simp
  then have "\<bar>m - n\<bar> \<le> 1" by simp
  then have "(of_int \<bar>m - n\<bar> :: rat) \<le> 1" by simp
  ultimately show ?thesis by simp
qed

text \<open>
  Averaging semester averages is not equivalent to averaging the courses, but close. If
  every semester counts something then the cumulative average computed from the rounded
  averages and credit totals of the semesters differs from the one computed over all the
  courses by at most one hundredth.
\<close>

theorem weighted_semester_cgpa_close:
  assumes "sems \<noteq> []" and "\<forall>es \<in> set sems. counted es \<noteq> []" and "gpa_columns (concat sems)"
    and "gpa_columns (map (\<lambda>(ch, g). CreditPair ch g) (map semester_summary sems))"
  shows "\<exists>w g. weighted_semester_cgpa (map semester_summary sems) = Inr (Some w) \<and>
    cgpa (concat sems) = Inr (Some g) \<and> \<bar>w - g\<bar> \<le> 1 / 100"
proof -
  let ?S = "map (\<lambda>(ch, g). CreditPair ch g) (map semester_summary sems)"
  let ?C = "of_int (credit_sum (concat sems)) :: rat"
  have C: "0 < ?C" using credit_sum_concat_pos [OF assms(1,2)] by simp
  have same: "credit_sum ?S = credit_sum (concat sems)"
    and near: "\<bar>point_sum ?S - point_sum (concat sems)\<bar> \<le> ?C / 200"
    using summaries_sums [OF assms(2)] by simp_all
  have nz: "counted ?S \<noteq> []" "counted (concat sems) \<noteq> []"
    using C same by (metis credit_sum_0 of_int_0 less_irrefl)+
  have w: "weighted_semester_cgpa (map semester_summary sems) = Inr (Some (rounded_gpa ?S))"
    and g: "cgpa (concat sems) = Inr (Some (rounded_gpa (concat sems)))"
    using nz gpa_exact [OF assms(4)] gpa_exact [OF assms(3)]
    by (simp_all add: weighted_semester_cgpa_def cgpa_def rounded_gpa_def)
  have "\<bar>point_sum ?S / ?C - point_sum (concat sems) / ?C\<bar> = \<bar>point_sum ?S - point_sum (concat sems)\<bar> / ?C"
    using C by (simp add: diff_divide_distrib [symmetric])
  also have "\<dots> \<le> 1 / 200" using near C by (simp add: divide_le_eq)
  finally have "\<bar>point_sum ?S / ?C - point_sum (concat sems) / ?C\<bar> \<le> 1 / 200" .
  then have "\<bar>rounded_gpa ?S - rounded_gpa (concat sems)\<bar> < 2 / 100"
    using quantize_half_up_error [of "point_sum ?S / ?C"] quantize_half_up_error [of "point_sum (concat sems) / ?C"]
    unfolding rounded_gpa_def same by linarith
  then have "\<bar>rounded_gpa ?S - rounded_gpa (concat sems)\<bar> \<le> 1 / 100"
    by (intro two_places_close) (simp_all add: rounded_gpa_def)
  with w g show ?thesis by simp
qed

section \<open>Classification\<close>

lemma ratio_threshold:
  assumes "two_places v" and "two_places m" and "0 \<le> v" and "v < 100" and "0 < m" and "m < 100" and "k \<le> 8"
  shows "of_nat k / 8 \<le> dec_div v m \<longleftrightarrow> of_nat k * m \<le> 8 * v"
proof -
  let ?r = "v / m" and ?t = "of_nat k / 8 :: rat"
  have m: "1 / 100 \<le> m" using two_places_step [of 0 m] assms(2,5) by simp
  have "?r \<le> v / (1 / 100)" using assms m by (intro divide_left_mono) simp_all
  then have "\<bar>?r\<bar> < 10 ^ 4" using assms by simp
  then have err: "\<bar>dec_div v m - ?r\<bar> \<le> 1 / 1000000"
    using dec_ctx_error_bound [of ?r 4] by (simp add: dec_div_def)
  obtain a b where ab: "v = of_int a / 100" "m = of_int b / 100" using assms(1,2) by (elim two_placesE)
  have b: "0 < b" "b \<le> 10000" using assms(5,6) by (simp_all add: ab)
  define N where "N = 8 * a - int k * b"
  have diff: "(?r - ?t) * (of_int b * 8) = of_int N"
    using b by (simp add: ab N_def field_simps)
  have iff: "of_nat k * m \<le> 8 * v \<longleftrightarrow> 0 \<le> N"
  proof -
    have "of_nat k * m \<le> 8 * v \<longleftrightarrow> (of_int (int k * b) :: rat) \<le> of_int (8 * a)" by (simp add: ab mult.commute)
    then show ?thesis by (simp only: of_int_le_iff N_def) simp
  qed
  have gap: "1 / 80000 \<le> \<bar>?r - ?t\<bar>" if "N \<noteq> 0"
  proof -
    have "(1 :: rat) \<le> of_int \<bar>N\<bar>" using that by simp
    also have "of_int \<bar>N\<bar> = \<bar>?r - ?t\<bar> * (of_int b * 8)"
      using b by (simp add: diff [symmetric] abs_mult)
    also have "\<dots> \<le> \<bar>?r - ?t\<bar> * 80000"
    proof -
      have "(of_int b :: rat) \<le> of_int 10000" using b by (simp only: of_int_le_iff)
      then show ?thesis by (intro mult_left_mono) simp_all
    qed
    finally show ?thesis by simp
  qed
  have pos: "0 < of_int b * (8 :: rat)" using b by simp
  consider "N = 0" | "0 < N" | "N < 0" by linarith
  then show ?thesis
  proof cases
    case 1
    with diff pos have "?r = ?t" by simp
    moreover have "dec_ctx ?t = ?t"
    proof (rule dec_ctx_exact [of _ 3])
      have "?t * 10 ^ 3 = of_nat (125 * k)" by simp
      then show "?t * 10 ^ 3 \<in> \<int>" by (simp only: Ints_of_nat)
      show "\<bar>?t * 10 ^ 3\<bar> < 10 ^ 28" using assms(7) by simp
    qed
    ultimately have "dec_div v m = ?t" unfolding dec_div_def by metis
    then show ?thesis using iff 1 by simp
  next
    case 2
    then have "0 < ?r - ?t" using diff pos by (metis of_int_0_less_iff zero_less_mult_pos2)
    with gap 2 have "1 / 80000 \<le> ?r - ?t" by linarith
    with err have "?t \<le> dec_div v m" by linarith
    with 2 iff show ?thesis by simp
  next
    case 3
    then have "?r - ?t < 0" using diff pos by (metis mult_less_0_iff not_less_iff_gr_or_eq of_int_less_0_iff)
    with gap 3 have "1 / 80000 \<le> ?t - ?r" by linarith
    with err have "dec_div v m < ?t" by linarith
    with 3 iff show ?thesis by simp
  qed
qed

text \<open>
  Degree classes are decided exactly. For an average and a scale maximum as the columns
  hold them, dividing in 28-digit decimal arithmetic and comparing with 0.875, 0.75, 0.625
  and 0.5 gives the class that the exact fractions 7/8, 6/8, 5/8 and 4/8 of the maximum
  define, so no average on a threshold falls below it by rounding.
\<close>

theorem classification_exact:
  assumes "two_places v" and "0 \<le> v" and "v < 100" and "two_places (gs_max_grade_point g)"
    and "0 < gs_max_grade_point g" and "gs_max_grade_point g < 100"
  shows "classification (Some v) (Some g) =
    (let m = gs_max_grade_point g in
     if 7 * m \<le> 8 * v then ''First Class''
     else if 6 * m \<le> 8 * v then ''Second Class (Upper Division)''
     else if 5 * m \<le> 8 * v then ''Second Class (Lower Division)''
     else if 4 * m \<le> 8 * v then ''Pass'' else ''Fail'')"
  using assms ratio_threshold [OF assms(1,4,2,3,5,6), of 7] ratio_threshold [OF assms(1,4,2,3,5,6), of 6]
    ratio_threshold [OF assms(1,4,2,3,5,6), of 5] ratio_threshold [OF assms(1,4,2,3,5,6), of 4]
  by (simp add: classification_def Let_def)

section \<open>Concrete inputs\<close>

definition sample_scale :: grading_scale where
  "sample_scale =
     \<lparr>gs_name = ''Default'', gs_max_grade_point = 4, gs_pass_grade_point = 2, gs_is_default = True,
      gs_is_locked = False\<rparr>"

definition sample_band :: "string \<Rightarrow> rat \<Rightarrow> rat \<Rightarrow> rat \<Rightarrow> grade_band" where
  "sample_band letter lo hi gp =
     \<lparr>gb_scale = 1, gb_letter = letter, gb_min_percent = lo, gb_max_percent = hi, gb_grade_point = gp,
      gb_is_pass = (2 \<le> gp), gb_description = []\<rparr>"

definition sample_bands :: "grade_band list" where
  "sample_bands =
     [sample_band ''A'' 70 100 4, sample_band ''B'' 60 (69 + 99 / 100) 3,
      sample_band ''C'' 50 (59 + 99 / 100) 2, sample_band ''F'' 0 (49 + 99 / 100) 0]"

lemma sample_validates: "validate_bands sample_scale sample_bands = Inr ()"
  by (simp add: validate_bands_def sample_bands_def sample_band_def sample_scale_def GRADE_BAND_STEP_def)

lemma two_places_frac: "two_places (59 + 99 / 100)" "two_places (69 + 99 / 100)" "two_places (49 + 99 / 100)"
  by (rule two_placesI [of _ 5999] two_placesI [of _ 6999] two_placesI [of _ 4999], simp)+

lemma sample_columns: "\<forall>b \<in> set sample_bands. band_columns b"
  using two_places_frac by (auto simp: sample_bands_def sample_band_def band_columns_def)

lemma validated_scale_grades_witness:
  "(\<exists>!b. b \<in> set sample_bands \<and> band_contains b (59 + 99 / 100)) \<and>
    grade_for_bands (59 + 99 / 100) sample_bands =
      Inr \<lparr>gr_letter = ''C'', gr_grade_point = 2, gr_is_pass = True, gr_description = []\<rparr> \<and>
    grade_for_bands 101 sample_bands = Inl GradingConfigurationError"
proof -
  have "sample_band ''C'' 50 (59 + 99 / 100) 2 \<in> set sample_bands"
    and "band_contains (sample_band ''C'' 50 (59 + 99 / 100) 2) (59 + 99 / 100)"
    by (simp_all add: sample_bands_def band_contains_def sample_band_def)
  with validated_scale_grades [OF sample_validates sample_columns two_places_frac(1)]
    validated_scale_grades [OF sample_validates sample_columns, of 101]
  show ?thesis by (auto simp: band_result_def sample_band_def)
qed

text \<open>A mark of 59.995 falls between two bands of the validated scale.\<close>

lemma sample_step_has_no_grade:
  "validate_bands sample_scale sample_bands = Inr () \<and>
   grade_for_bands (59 + 995 / 1000) sample_bands = Inl GradingConfigurationError"
  using sample_validates
    step_has_no_grade [of sample_bands "59 + 995 / 1000"]
  by (simp add: sample_bands_def sample_band_def band_contains_def)

definition sample_courses :: "gpa_entry list" where
  "sample_courses = [CourseGrade 3 4 True, CourseGrade 4 2 True, CourseGrade 2 3 False, CourseGrade 0 4 True]"

lemma sample_counted: "counted sample_courses = [(3, 4), (4, 2)]"
  by (simp add: counted_Cons sample_courses_def)

lemma gpa_correct_witness: "gpa sample_courses = Inr (Some (2 + 86 / 100))"
proof -
  have "\<forall>(c, p) \<in> set (counted sample_courses). 2 \<le> p \<and> p \<le> 4" and "gpa_columns sample_courses"
    by (simp_all add: gpa_columns_def sample_counted) (simp add: sample_courses_def)
  with gpa_correct [of sample_courses 2 4] sample_counted
  have "gpa sample_courses = Inr (Some (quantize_half_up (20 / 7)))"
    by (simp add: point_sum_def credit_sum_def)
  moreover have "quantize_half_up (20 / 7) = 2 + 86 / 100" by code_simp
  ultimately show ?thesis by simp
qed

definition sample_semesters :: "gpa_entry list list" where
  "sample_semesters = [[CourseGrade 3 4 True, CourseGrade 3 4 True], [CourseGrade 3 4 True, CourseGrade 4 2 True]]"

lemma sample_summaries: "map semester_summary sample_semesters = [(6, 4), (7, 2 + 86 / 100)]"
proof -
  have "quantize_half_up (20 / 7) = 2 + 86 / 100" by code_simp
  then show ?thesis
    by (simp add: semester_summary_def rounded_gpa_def credit_sum_def point_sum_def sample_semesters_def counted_Cons)
qed

lemma weighted_semester_cgpa_close_witness:
  "\<exists>w g. weighted_semester_cgpa (map semester_summary sample_semesters) = Inr (Some w) \<and>
     cgpa (concat sample_semesters) = Inr (Some g) \<and> \<bar>w - g\<bar> \<le> 1 / 100"
proof (rule weighted_semester_cgpa_close)
  show "gpa_columns (map (\<lambda>(ch, g). CreditPair ch g) (map semester_summary sample_semesters))"
    unfolding sample_summaries
    using two_placesI [of "2 + 86 / 100" 286] by (simp add: gpa_columns_def counted_Cons)
qed (simp_all add: sample_semesters_def counted_Cons gpa_columns_def)

text \<open>The two averages really differ: 3.39 from the summaries, 3.38 from the courses.\<close>

lemma weighted_semester_differs:
  "weighted_semester_cgpa (map semester_summary sample_semesters) \<noteq> cgpa (concat sample_semesters)"
proof -
  let ?S = "[CreditPair 6 4, CreditPair 7 (2 + 86 / 100)]"
  have "gpa_columns (concat sample_semesters)" and cols: "gpa_columns ?S"
    using two_placesI [of "2 + 86 / 100" 286] by (simp_all add: sample_semesters_def counted_Cons gpa_columns_def)
  then have "cgpa (concat sample_semesters) = Inr (Some (quantize_half_up (44 / 13)))"
    by (simp add: cgpa_def gpa_exact point_sum_def credit_sum_def counted_Cons sample_semesters_def)
  moreover have "map (\<lambda>(ch, g). CreditPair ch g) (map semester_summary sample_semesters) = ?S"
    unfolding sample_summaries by simp
  then have "weighted_semester_cgpa (map semester_summary sample_semesters) =
      Inr (Some (quantize_half_up ((24 + 7 * (2 + 86 / 100)) / 13)))"
    using gpa_exact [OF cols] by (simp add: weighted_semester_cgpa_def point_sum_def credit_sum_def counted_Cons)
  moreover have "quantize_half_up (44 / 13) \<noteq> quantize_half_up ((24 + 7 * (2 + 86 / 100)) / 13)" by code_simp
  ultimately show ?thesis by simp
qed

lemma classification_exact_witness: "classification (Some (35 / 10)) (Some sample_scale) = ''First Class''"
  using classification_exact [of "35 / 10" sample_scale] two_placesI [of "35 / 10" 350]
  by (simp add: sample_scale_def)

end
