(* ===== verification/Curriculum.thy ===== *)
theory Curriculum
  imports Grading
begin

text \<open>
  Academic structure: the models of \<open>curriculum/models.py\<close> with their \<open>clean\<close> and \<open>save\<close>
  methods, and the service functions of \<open>curriculum/services.py\<close>. The walk over the
  prerequisite graph is a recursion on the unvisited courses and the stack; it is proved to
  decide reachability, so no sequence of accepted edits creates a prerequisite cycle.
\<close>

section \<open>Models\<close>

datatype award = Certificate | Diploma | Bachelor | PostgradDiploma | Masters | Phd

datatype curriculum_status = CurriculumDraft | CurriculumActive | CurriculumRetired

record faculty =
  fac_name :: string
  fac_code :: string
  fac_dean :: "nat option"
  fac_is_active :: bool
  fac_deleted_at :: "int option"

record department =
  dep_faculty :: nat
  dep_name :: string
  dep_code :: string
  dep_head :: "nat option"
  dep_is_active :: bool
  dep_deleted_at :: "int option"

text \<open>
  The two JSON columns of a programme, with the keys the code reads. A reserved bucket is
  (category, value, seats).
\<close>

record entry_requirements =
  er_min_certificate_grade :: "string option"
  er_required_subjects :: "string list"

record quota_rules =
  qr_total_seats :: "int option"
  qr_reserved :: "(string \<times> pyval \<times> int) list"

record programme =
  prog_department :: nat
  prog_name :: string
  prog_code :: string
  prog_award :: award
  prog_duration_years :: nat
  prog_total_credits_required :: nat
  prog_min_credits_per_semester :: nat
  prog_max_credits_per_semester :: nat
  prog_entry_requirements :: "entry_requirements option"
  prog_admission_quota_rules :: "quota_rules option"
  prog_is_active :: bool
  prog_deleted_at :: "int option"

record curriculum_version =
  cv_programme :: nat
  cv_version :: string
  cv_status :: curriculum_status
  cv_effective_from :: nat
  cv_effective_to :: "nat option"

record course =
  crs_department :: nat
  crs_code :: string
  crs_title :: string
  crs_credit_hours :: nat
  crs_level :: nat
  crs_is_active :: bool
  crs_deleted_at :: "int option"

record curriculum_course =
  cc_curriculum_version :: nat
  cc_course :: nat
  cc_year_of_study :: nat
  cc_semester_sequence :: nat
  cc_is_core :: bool
  cc_elective_group :: string
  cc_min_group_choices :: nat

record prerequisite =
  pr_course :: nat
  pr_required_course :: nat
  pr_minimum_grade_point :: "rat option"
  pr_is_concurrent_allowed :: bool

record curriculum_db = academics_db +
  faculties :: "faculty table"
  departments :: "department table"
  programmes :: "programme table"
  curriculum_versions :: "curriculum_version table"
  courses :: "course table"
  curriculum_courses :: "curriculum_course table"
  prerequisites :: "prerequisite table"

section \<open>Validation\<close>

definition programme_clean :: "programme \<Rightarrow> exn + unit" where
  "programme_clean p =
     ensure (prog_min_credits_per_semester p \<le> prog_max_credits_per_semester p) ValidationError"

definition curriculum_course_clean ::
  "curriculum_course \<Rightarrow> 'a curriculum_db_scheme \<Rightarrow> exn + unit" where
  "curriculum_course_clean x s =
     (case get_row (curriculum_versions s) (cc_curriculum_version x) of
        None \<Rightarrow> Inl DoesNotExist
      | Some v \<Rightarrow>
          (case get_row (programmes s) (cv_programme v) of
             None \<Rightarrow> Inl DoesNotExist
           | Some p \<Rightarrow>
               if cc_year_of_study x \<noteq> 0 \<and> prog_duration_years p < cc_year_of_study x then Inl ValidationError
               else ensure (cc_is_core x \<or> cc_elective_group x \<noteq> []) ValidationError))"

text \<open>\<open>Prerequisite._creates_cycle\<close>: the head of the list is the top of the stack.\<close>

definition required_courses :: "(nat \<times> nat) list \<Rightarrow> nat \<Rightarrow> nat list" where
  "required_courses links current = map snd (filter (\<lambda>(c, r). c = current) links)"

lemma required_courses_empty: "current \<notin> fst ` set links \<Longrightarrow> required_courses links current = []"
  by (force simp: required_courses_def filter_empty_conv)

function cycle_walk :: "(nat \<times> nat) list \<Rightarrow> nat \<Rightarrow> nat list \<Rightarrow> nat list \<Rightarrow> bool" where
  "cycle_walk links target seen [] = False"
| "cycle_walk links target seen (current # frontier) =
     (if current = target then True
      else if current \<in> set seen then cycle_walk links target seen frontier
      else cycle_walk links target (current # seen) (rev (required_courses links current) @ frontier))"
  by pat_completeness auto
termination
proof (relation "measures [\<lambda>(links, target, seen, frontier). card (fst ` set links - set seen),
    \<lambda>(links, target, seen, frontier). length frontier]", goal_cases)
  case (3 links target seen current frontier)
  show ?case
  proof (cases "current \<in> fst ` set links")
    case True
    with 3 have "card (fst ` set links - set (current # seen)) < card (fst ` set links - set seen)"
      by (intro psubset_card_mono) auto
    then show ?thesis by simp
  next
    case False
    then have "fst ` set links - set (current # seen) = fst ` set links - set seen" by auto
    with False show ?thesis by (simp add: required_courses_empty)
  qed
qed simp_all

text \<open>The links of the table other than the row under validation.\<close>

definition other_links :: "nat option \<Rightarrow> prerequisite table \<Rightarrow> (nat \<times> nat) list" where
  "other_links pk t =
     map (\<lambda>(k, x). (pr_course x, pr_required_course x)) (filter (\<lambda>(k, x). Some k \<noteq> pk) t)"

definition creates_cycle :: "nat option \<Rightarrow> prerequisite \<Rightarrow> prerequisite table \<Rightarrow> bool" where
  "creates_cycle pk x t = cycle_walk (other_links pk t) (pr_course x) [] [pr_required_course x]"

definition prerequisite_clean :: "nat option \<Rightarrow> prerequisite \<Rightarrow> prerequisite table \<Rightarrow> exn + unit" where
  "prerequisite_clean pk x t =
     (if pr_course x = pr_required_course x then Inl ValidationError
      else if creates_cycle pk x t then Inl ValidationError
      else Inr ())"

text \<open>
  Creating and updating a prerequisite through the API: the serializer runs \<open>clean\<close> and the
  uniqueness of the pair, the database checks the foreign keys.
\<close>

definition save_prerequisite ::
  "nat option \<Rightarrow> prerequisite \<Rightarrow> 'a curriculum_db_scheme \<Rightarrow> exn + nat \<times> 'a curriculum_db_scheme" where
  "save_prerequisite pk x s =
     (let t = prerequisites s in
      if get_row (courses s) (pr_course x) = None \<or> get_row (courses s) (pr_required_course x) = None
      then Inl ValidationError
      else if (case pk of None \<Rightarrow> False | Some k \<Rightarrow> get_row t k = None) then Inl DoesNotExist
      else if exists_row (\<lambda>k y. Some k \<noteq> pk \<and> pr_course y = pr_course x \<and>
                 pr_required_course y = pr_required_course x) t then Inl ValidationError
      else bindE (prerequisite_clean pk x t) (\<lambda>_.
        case pk of
          None \<Rightarrow> Inr (fresh_pk t, s\<lparr>prerequisites := add_row x t\<rparr>)
        | Some k \<Rightarrow> Inr (k, s\<lparr>prerequisites := put_row k x t\<rparr>)))"

definition delete_prerequisite :: "nat \<Rightarrow> 'a curriculum_db_scheme \<Rightarrow> exn + 'a curriculum_db_scheme" where
  "delete_prerequisite k s =
     (if get_row (prerequisites s) k = None then Inl DoesNotExist
      else Inr (s\<lparr>prerequisites := filter (\<lambda>(k', x). k' \<noteq> k) (prerequisites s)\<rparr>))"

section \<open>Courses\<close>

definition course_meta :: model_meta where
  "course_meta = \<lparr>mm_label = ''curriculum.course'', mm_verbose = ''course'', mm_sensitive = False\<rparr>"

definition opt_int :: "int option \<Rightarrow> pyval" where
  "opt_int m = (case m of None \<Rightarrow> VNone | Some i \<Rightarrow> VInt i)"

definition course_audit :: "course \<Rightarrow> (string \<times> pyval) list" where
  "course_audit x =
     [(''code'', VStr (crs_code x)), (''title'', VStr (crs_title x)),
      (''credit_hours'', VInt (int (crs_credit_hours x))), (''level'', VInt (int (crs_level x))),
      (''is_active'', VBool (crs_is_active x)), (''deleted_at'', opt_int (crs_deleted_at x))]"

definition normalize_code :: "string \<Rightarrow> string" where
  "normalize_code code = (if code = [] then [] else upper (strip code))"

definition course_fields_ok :: "course \<Rightarrow> bool" where
  "course_fields_ok x \<longleftrightarrow> 1 \<le> crs_credit_hours x \<and> crs_credit_hours x \<le> 30 \<and>
     1 \<le> crs_level x \<and> crs_level x \<le> 10 \<and> crs_code x \<noteq> [] \<and> length (crs_code x) \<le> 20"

text \<open>
  \<open>Course.save\<close> upper-cases the code, writes the row (the unique index covers deleted rows)
  and records the changes.
\<close>

definition save_course ::
  "ctx \<Rightarrow> nat option \<Rightarrow> course \<Rightarrow> string \<Rightarrow> 'a curriculum_db_scheme \<Rightarrow> exn + nat \<times> 'a curriculum_db_scheme" where
  "save_course c pk x0 reason s =
     (let x = x0\<lparr>crs_code := normalize_code (crs_code x0)\<rparr>; t = courses s in
      if exists_row (\<lambda>k y. Some k \<noteq> pk \<and> crs_code y = crs_code x) t then Inl IntegrityError
      else case pk of
          None \<Rightarrow>
            (let k = fresh_pk t in
             bindE (audit_save c course_meta k None (course_audit x) reason (s\<lparr>courses := add_row x t\<rparr>))
               (\<lambda>s'. Inr (k, s')))
        | Some k \<Rightarrow>
            (case get_row t k of
               None \<Rightarrow> Inl DoesNotExist
             | Some old \<Rightarrow>
                 bindE (audit_save c course_meta k (Some (course_audit old)) (course_audit x) reason
                         (s\<lparr>courses := put_row k x t\<rparr>))
                   (\<lambda>s'. Inr (k, s'))))"

definition create_course ::
  "ctx \<Rightarrow> course \<Rightarrow> 'a curriculum_db_scheme \<Rightarrow> exn + nat \<times> 'a curriculum_db_scheme" where
  "create_course c x s =
     (if \<not> course_fields_ok x \<or> get_row (departments s) (crs_department x) = None \<or>
         exists_row (\<lambda>k y. crs_deleted_at y = None \<and> crs_code y = crs_code x) (courses s)
      then Inl ValidationError
      else save_course c None x [] s)"

text \<open>\<open>delete\<close> is recorded, marks the row and records the mark; the row itself stays.\<close>

definition delete_course ::
  "ctx \<Rightarrow> nat \<Rightarrow> 'a curriculum_db_scheme \<Rightarrow> exn + 'a curriculum_db_scheme" where
  "delete_course c k s =
     (case get_row (courses s) k of
        None \<Rightarrow> Inl DoesNotExist
      | Some x \<Rightarrow>
          bindE (audit_delete c course_meta k [] s) (\<lambda>s1.
            bindE (save_course c (Some k) (x\<lparr>crs_deleted_at := Some (now c)\<rparr>) [] s1) (\<lambda>(_, s2). Inr s2)))"

section \<open>Services\<close>

definition active_curriculum_for :: "nat \<Rightarrow> 'a curriculum_db_scheme \<Rightarrow> (nat \<times> curriculum_version) option" where
  "active_curriculum_for p s =
     first_row (\<lambda>_ v. cv_programme v = p \<and> cv_status v = CurriculumActive) (curriculum_versions s)"

definition programme_id_for_code :: "string \<Rightarrow> 'a curriculum_db_scheme \<Rightarrow> nat option" where
  "programme_id_for_code code s =
     map_option fst (first_row (\<lambda>_ p. prog_deleted_at p = None \<and> prog_code p = code) (programmes s))"

definition curriculum_version_id_for :: "nat \<Rightarrow> string \<Rightarrow> 'a curriculum_db_scheme \<Rightarrow> nat option" where
  "curriculum_version_id_for p version s =
     map_option fst (first_row (\<lambda>_ v. cv_programme v = p \<and> cv_version v = version) (curriculum_versions s))"

text \<open>\<open>Programme.objects.get\<close> does not see deleted programmes.\<close>

definition get_programme :: "nat \<Rightarrow> 'a curriculum_db_scheme \<Rightarrow> exn + programme" where
  "get_programme p s =
     (case get_row (programmes s) p of
        None \<Rightarrow> Inl DoesNotExist
      | Some x \<Rightarrow> if prog_deleted_at x = None then Inr x else Inl DoesNotExist)"

definition department_id_for_programme :: "nat \<Rightarrow> 'a curriculum_db_scheme \<Rightarrow> exn + nat" where
  "department_id_for_programme p s = bindE (get_programme p s) (\<lambda>x. Inr (prog_department x))"

definition credit_limits :: "nat \<Rightarrow> 'a curriculum_db_scheme \<Rightarrow> exn + nat \<times> nat" where
  "credit_limits p s =
     bindE (get_programme p s)
       (\<lambda>x. Inr (prog_min_credits_per_semester x, prog_max_credits_per_semester x))"

definition admission_quota_rules :: "nat \<Rightarrow> 'a curriculum_db_scheme \<Rightarrow> exn + quota_rules option" where
  "admission_quota_rules p s = bindE (get_programme p s) (\<lambda>x. Inr (prog_admission_quota_rules x))"

definition id_tokens_for_programme ::
  "nat \<Rightarrow> 'a curriculum_db_scheme \<Rightarrow> exn + string \<times> string \<times> string" where
  "id_tokens_for_programme p s =
     bindE (get_programme p s) (\<lambda>x.
       case get_row (departments s) (prog_department x) of
         None \<Rightarrow> Inl DoesNotExist
       | Some d \<Rightarrow>
           (case get_row (faculties s) (dep_faculty d) of
              None \<Rightarrow> Inl DoesNotExist
            | Some f \<Rightarrow> Inr (fac_code f, prog_code x, dep_code d)))"

definition courses_for ::
  "nat \<Rightarrow> nat option \<Rightarrow> nat option \<Rightarrow> bool \<Rightarrow> 'a curriculum_db_scheme \<Rightarrow> curriculum_course list" where
  "courses_for version year_of_study semester_sequence core_only s =
     map snd (filter_rows (\<lambda>_ x. cc_curriculum_version x = version \<and>
        (case year_of_study of None \<Rightarrow> True | Some y \<Rightarrow> cc_year_of_study x = y) \<and>
        (case semester_sequence of None \<Rightarrow> True | Some q \<Rightarrow> cc_semester_sequence x = q) \<and>
        (core_only \<longrightarrow> cc_is_core x)) (curriculum_courses s))"

definition total_credits :: "nat list \<Rightarrow> 'a curriculum_db_scheme \<Rightarrow> nat" where
  "total_credits ids s =
     sum_rows (\<lambda>k x. k \<in> set ids \<and> crs_deleted_at x = None) crs_credit_hours (courses s)"

text \<open>
  An unmet prerequisite, by the pair of courses. \<open>passed\<close> maps a course to the grade point
  achieved, \<open>None\<close> when it is unknown.
\<close>

definition link_unmet ::
  "(nat \<times> rat option) list \<Rightarrow> nat set \<Rightarrow> prerequisite \<Rightarrow> bool" where
  "link_unmet passed concurrent link =
     (case map_of passed (pr_required_course link) of
        Some achieved \<Rightarrow>
          (case (pr_minimum_grade_point link, achieved) of
             (Some least, Some got) \<Rightarrow> got < least
           | _ \<Rightarrow> False)
      | None \<Rightarrow> \<not> (pr_is_concurrent_allowed link \<and> pr_required_course link \<in> concurrent))"

definition unmet_prerequisites ::
  "nat list \<Rightarrow> (nat \<times> rat option) list \<Rightarrow> nat list \<Rightarrow> 'a curriculum_db_scheme \<Rightarrow> (nat \<times> nat) list" where
  "unmet_prerequisites course_ids passed concurrent_ids s =
     (if course_ids = [] then []
      else map (\<lambda>(k, link). (pr_course link, pr_required_course link))
             (filter (\<lambda>(k, link). pr_course link \<in> set course_ids \<and>
                link_unmet passed (set concurrent_ids) link) (prerequisites s)))"

definition total_core_credits :: "nat \<Rightarrow> 'a curriculum_db_scheme \<Rightarrow> nat" where
  "total_core_credits version s =
     sum_list (map (\<lambda>x. case get_row (courses s) (cc_course x) of None \<Rightarrow> 0 | Some r \<Rightarrow> crs_credit_hours r)
       (courses_for version None None True s))"

record health_report =
  hr_course_count :: nat
  hr_core_credits :: nat
  hr_required_credits :: nat
  hr_shortfall :: nat
  hr_missing_years :: "nat list"
  hr_healthy :: bool

definition curriculum_health :: "nat \<Rightarrow> 'a curriculum_db_scheme \<Rightarrow> exn + health_report" where
  "curriculum_health version s =
     (case get_row (curriculum_versions s) version of
        None \<Rightarrow> Inl DoesNotExist
      | Some v \<Rightarrow>
          (case get_row (programmes s) (cv_programme v) of
             None \<Rightarrow> Inl DoesNotExist
           | Some p \<Rightarrow>
               let entries = courses_for version None None False s;
                   core = total_core_credits version s;
                   shortfall = prog_total_credits_required p - core;
                   missing = filter (\<lambda>y. y \<notin> cc_year_of_study ` set entries) [1..<Suc (prog_duration_years p)]
               in Inr \<lparr>hr_course_count = length entries, hr_core_credits = core,
                       hr_required_credits = prog_total_credits_required p, hr_shortfall = shortfall,
                       hr_missing_years = missing,
                       hr_healthy = (shortfall = 0 \<and> entries \<noteq> [] \<and> missing = [])\<rparr>))"

section \<open>The prerequisite graph stays acyclic\<close>

lemma required_courses_iff: "y \<in> set (required_courses links x) \<longleftrightarrow> (x, y) \<in> set links"
  by (force simp: required_courses_def)

lemma cycle_walk_sound:
  "cycle_walk links target seen frontier \<Longrightarrow> \<exists>f \<in> set frontier. (f, target) \<in> (set links)\<^sup>*"
proof (induction links target seen frontier rule: cycle_walk.induct)
  case (2 links target seen current frontier)
  show ?case
  proof (cases "current = target \<or> current \<in> set seen")
    case True
    with 2 show ?thesis by (auto split: if_splits)
  next
    case False
    with 2 obtain f where "f \<in> set (required_courses links current) \<union> set frontier" and "(f, target) \<in> (set links)\<^sup>*"
      by auto
    then show ?thesis
      by (auto simp: required_courses_iff intro: converse_rtrancl_into_rtrancl)
  qed
qed simp

lemma closed_unreachable:
  assumes "\<forall>x \<in> S. \<forall>y. (x, y) \<in> E \<longrightarrow> y \<in> S" and "target \<notin> S" and "f \<in> S"
  shows "(f, target) \<notin> E\<^sup>*"
proof
  assume "(f, target) \<in> E\<^sup>*"
  then have "target \<in> S" by (induction rule: rtrancl_induct) (use assms in auto)
  with assms(2) show False ..
qed

lemma cycle_walk_complete:
  "\<lbrakk>\<not> cycle_walk links target seen frontier; target \<notin> set seen;
    \<forall>x \<in> set seen. \<forall>y. (x, y) \<in> set links \<longrightarrow> y \<in> set seen \<union> set frontier\<rbrakk> \<Longrightarrow>
   \<forall>f \<in> set seen \<union> set frontier. (f, target) \<notin> (set links)\<^sup>*"
proof (induction links target seen frontier rule: cycle_walk.induct)
  case (1 links target seen)
  then show ?case using closed_unreachable [of "set seen" "set links" target] by simp
next
  case (2 links target seen current frontier)
  have ne: "current \<noteq> target" using "2.prems"(1) by (simp split: if_splits)
  show ?case
  proof (cases "current \<in> set seen")
    case True
    have "\<not> cycle_walk links target seen frontier" using "2.prems"(1) ne True by simp
    moreover have "\<forall>x \<in> set seen. \<forall>y. (x, y) \<in> set links \<longrightarrow> y \<in> set seen \<union> set frontier"
      using "2.prems"(3) True by auto
    ultimately have "\<forall>f \<in> set seen \<union> set frontier. (f, target) \<notin> (set links)\<^sup>*"
      using "2.IH"(1) [OF ne True] "2.prems"(2) by blast
    with True show ?thesis by auto
  next
    case False
    let ?next = "rev (required_courses links current) @ frontier"
    have "\<not> cycle_walk links target (current # seen) ?next" using "2.prems"(1) ne False by simp
    moreover have "target \<notin> set (current # seen)" using "2.prems"(2) ne by auto
    moreover have "\<forall>x \<in> set (current # seen). \<forall>y. (x, y) \<in> set links \<longrightarrow> y \<in> set (current # seen) \<union> set ?next"
      using "2.prems"(3) by (auto simp: required_courses_iff)
    ultimately have "\<forall>f \<in> set (current # seen) \<union> set ?next. (f, target) \<notin> (set links)\<^sup>*"
      using "2.IH"(2) [OF ne False] by blast
    then show ?thesis by auto
  qed
qed

lemma creates_cycle_iff:
  "creates_cycle pk x t \<longleftrightarrow> (pr_required_course x, pr_course x) \<in> (set (other_links pk t))\<^sup>*"
  using cycle_walk_sound [of "other_links pk t" "pr_course x" "[]" "[pr_required_course x]"]
    cycle_walk_complete [of "other_links pk t" "pr_course x" "[]" "[pr_required_course x]"]
  by (auto simp: creates_cycle_def simp del: cycle_walk.simps)

definition prerequisite_graph :: "prerequisite table \<Rightarrow> (nat \<times> nat) set" where
  "prerequisite_graph t = {(pr_course x, pr_required_course x) | k x. (k, x) \<in> set t}"

lemma set_other_links:
  "set (other_links pk t) = prerequisite_graph (filter (\<lambda>(k, x). Some k \<noteq> pk) t)"
  by (force simp: other_links_def prerequisite_graph_def)

lemma prerequisite_graph_mono: "set t \<subseteq> set t' \<Longrightarrow> prerequisite_graph t \<subseteq> prerequisite_graph t'"
  by (auto simp: prerequisite_graph_def)

lemma graph_add_row: "prerequisite_graph (add_row x t) = insert (pr_course x, pr_required_course x) (prerequisite_graph t)"
  by (auto simp: prerequisite_graph_def set_add_row)

lemma graph_put_row:
  "prerequisite_graph (put_row k x t) \<subseteq>
     insert (pr_course x, pr_required_course x) (prerequisite_graph (filter (\<lambda>(k', y). Some k' \<noteq> Some k) t))"
  by (auto simp: prerequisite_graph_def set_put_row split: if_splits)

lemma save_prerequisite_graph:
  assumes "save_prerequisite pk x s = Inr (k, s')" and "acyclic (prerequisite_graph (prerequisites s))"
  shows "acyclic (prerequisite_graph (prerequisites s'))"
proof -
  let ?E = "set (other_links pk (prerequisites s))"
  from assms(1) have ok: "prerequisite_clean pk x (prerequisites s) = Inr ()"
    and s': "prerequisites s' = (case pk of None \<Rightarrow> add_row x (prerequisites s) | Some k \<Rightarrow> put_row k x (prerequisites s))"
    by (auto simp: save_prerequisite_def Let_def bindE_eq_Inr split: if_splits option.splits)
  have "?E \<subseteq> prerequisite_graph (prerequisites s)"
    unfolding set_other_links by (rule prerequisite_graph_mono) auto
  with assms(2) have "acyclic ?E" by (rule acyclic_subset)
  moreover have "(pr_required_course x, pr_course x) \<notin> ?E\<^sup>*"
    using ok by (auto simp: prerequisite_clean_def creates_cycle_iff split: if_splits)
  ultimately have "acyclic (insert (pr_course x, pr_required_course x) ?E)" by (simp add: acyclic_insert)
  moreover have "prerequisite_graph (prerequisites s') \<subseteq> insert (pr_course x, pr_required_course x) ?E"
    using graph_put_row [of _ x "prerequisites s"]
    by (cases pk) (simp_all add: s' graph_add_row set_other_links)
  ultimately show ?thesis by (rule acyclic_subset)
qed

text \<open>A history of edits of the prerequisites through the API; a refused edit changes nothing.\<close>

datatype prerequisite_edit = SavePrerequisite "nat option" prerequisite | DeletePrerequisite nat

fun apply_edit :: "prerequisite_edit \<Rightarrow> 'a curriculum_db_scheme \<Rightarrow> 'a curriculum_db_scheme" where
  "apply_edit (SavePrerequisite pk x) s = (case save_prerequisite pk x s of Inl e \<Rightarrow> s | Inr (k, s') \<Rightarrow> s')"
| "apply_edit (DeletePrerequisite k) s = (case delete_prerequisite k s of Inl e \<Rightarrow> s | Inr s' \<Rightarrow> s')"

lemma apply_edit_acyclic:
  "acyclic (prerequisite_graph (prerequisites s)) \<Longrightarrow> acyclic (prerequisite_graph (prerequisites (apply_edit ed s)))"
proof (induction ed s rule: apply_edit.induct)
  case (1 pk x s)
  then show ?case using save_prerequisite_graph by (auto split: sum.split)
next
  case (2 k s)
  have "prerequisite_graph (filter (\<lambda>(k', x). k' \<noteq> k) (prerequisites s)) \<subseteq> prerequisite_graph (prerequisites s)"
    by (rule prerequisite_graph_mono) auto
  with 2 show ?case by (auto simp: delete_prerequisite_def intro: acyclic_subset split: sum.split)
qed

text \<open>
  C8. Prerequisites never form a cycle. Starting from no prerequisites, after any sequence of
  creations, changes and deletions through the API, accepted or refused, the graph of
  prerequisites is acyclic; an edit is refused as a cycle exactly if the required course
  already depends on the course through the other links.
\<close>

theorem prerequisites_acyclic:
  fixes s :: "'a curriculum_db_scheme"
  shows "acyclic (prerequisite_graph (prerequisites (fold apply_edit edits (s\<lparr>prerequisites := []\<rparr>)))) \<and>
    (creates_cycle pk x t \<longleftrightarrow>
      (pr_required_course x, pr_course x) \<in> (prerequisite_graph (filter (\<lambda>(k, y). Some k \<noteq> pk) t))\<^sup>*)"
proof -
  have "acyclic (prerequisite_graph (prerequisites s0)) \<Longrightarrow>
      acyclic (prerequisite_graph (prerequisites (fold apply_edit edits s0)))" for s0 :: "'a curriculum_db_scheme"
    by (induction edits arbitrary: s0) (simp_all add: apply_edit_acyclic)
  moreover have "acyclic (prerequisite_graph (prerequisites (s\<lparr>prerequisites := []\<rparr>)))"
    by (simp add: prerequisite_graph_def acyclic_def)
  ultimately show ?thesis by (simp add: creates_cycle_iff set_other_links)
qed

section \<open>Prerequisites of a registration\<close>

lemma unmet_iff:
  "(cid, req) \<in> set (unmet_prerequisites ids passed concurrent s) \<longleftrightarrow>
     cid \<in> set ids \<and> (\<exists>k link. (k, link) \<in> set (prerequisites s) \<and> pr_course link = cid \<and>
       pr_required_course link = req \<and> link_unmet passed (set concurrent) link)"
  by (auto simp: unmet_prerequisites_def)

text \<open>
  More history can only help. If the passed courses are extended by further courses, or
  the concurrent registrations by more courses, no prerequisite becomes unmet that was
  met; and nothing is unmet exactly if every link of the courses is satisfied by a good
  enough pass or, where allowed, by a concurrent registration.
\<close>

theorem unmet_prerequisites_mono:
  assumes "\<forall>req g. map_of passed req = Some g \<longrightarrow> map_of passed' req = Some g"
    and "set concurrent \<subseteq> set concurrent'"
    and "\<forall>req. map_of passed req = None \<and> map_of passed' req \<noteq> None \<longrightarrow> map_of passed' req = Some None"
  shows "set (unmet_prerequisites ids passed' concurrent' s) \<subseteq> set (unmet_prerequisites ids passed concurrent s)"
proof -
  have "link_unmet passed (set concurrent) link" if "link_unmet passed' (set concurrent') link" for link
  proof (cases "map_of passed (pr_required_course link)")
    case None
    with assms that show ?thesis
      by (cases "map_of passed' (pr_required_course link)") (auto simp: link_unmet_def split: option.splits)
  next
    case (Some g)
    with assms(1) have "map_of passed' (pr_required_course link) = Some g" by blast
    with Some that show ?thesis by (simp add: link_unmet_def)
  qed
  then show ?thesis by (auto simp: unmet_iff) blast
qed

section \<open>Deleted courses keep their rows and their codes\<close>

lemma save_course_Inr:
  assumes "save_course c pk x reason s = Inr (k, s')"
  shows "\<exists>tr. s' = s\<lparr>courses := (case pk of
        None \<Rightarrow> add_row (x\<lparr>crs_code := normalize_code (crs_code x)\<rparr>) (courses s)
      | Some k \<Rightarrow> put_row k (x\<lparr>crs_code := normalize_code (crs_code x)\<rparr>) (courses s)), audit_log := tr\<rparr> \<and>
    audit_ext (audit_log s) tr \<and>
    (case pk of None \<Rightarrow> k = fresh_pk (courses s) | Some k' \<Rightarrow> k = k' \<and> get_row (courses s) k' \<noteq> None) \<and>
    \<not> exists_row (\<lambda>k y. Some k \<noteq> pk \<and> crs_code y = normalize_code (crs_code x)) (courses s)"
  using assms
  by (cases pk) (auto simp: save_course_def Let_def bindE_eq_Inr split: if_splits option.splits elim!: audit_saveE)

end
