(* ===== verification/Id_Generation.thy ===== *)
theory Id_Generation
  imports Curriculum
begin

text \<open>
  Human-facing identifiers: \<open>registry/id_generation.py\<close> (student IDs and staff numbers from
  the institution's templates) and \<open>admissions/id_generation.py\<close> (application references).
  A template is a Python format string; the model covers literal text, \<open>{{\<close> and \<open>}}\<close>, and
  fields \<open>{name}\<close> and \<open>{name:spec}\<close> with an integer width specification. The lemmas show
  that the default template never issues one ID twice, and that the validation of the
  templates accepts one that does.
\<close>

section \<open>Format strings\<close>

datatype segment = Lit char | Field string string

function parse_template :: "string \<Rightarrow> exn + segment list" where
  "parse_template [] = Inr []"
| "parse_template (ch # s) =
     (if ch = CHR ''{'' then
        (if s \<noteq> [] \<and> hd s = CHR ''{''
         then bindE (parse_template (tl s)) (\<lambda>r. Inr (Lit ch # r))
         else let body = takeWhile (\<lambda>d. d \<noteq> CHR ''}'') s; rest = dropWhile (\<lambda>d. d \<noteq> CHR ''}'') s in
           if rest = [] then Inl ValidationError
           else if CHR ''{'' \<in> set body then Inl UnexpectedError
           else let name = takeWhile (\<lambda>d. d \<noteq> CHR '':'') body in
             bindE (parse_template (tl rest)) (\<lambda>r. Inr (Field name (drop (Suc (length name)) body) # r)))
      else if ch = CHR ''}'' then
        (if s \<noteq> [] \<and> hd s = CHR ''}''
         then bindE (parse_template (tl s)) (\<lambda>r. Inr (Lit ch # r))
         else Inl ValidationError)
      else bindE (parse_template s) (\<lambda>r. Inr (Lit ch # r)))"
  by pat_completeness auto
termination
proof (relation "measure length", goal_cases)
  case (3 ch s body rest name)
  have "length (dropWhile (\<lambda>d. d \<noteq> CHR ''}'') s) \<le> length s" by (rule length_dropWhile_le)
  with 3 show ?case by (cases "dropWhile (\<lambda>d. d \<noteq> CHR ''}'') s") auto
qed auto

datatype token = TStr string | TNat nat

definition is_digit :: "char \<Rightarrow> bool" where
  "is_digit ch = (48 \<le> (of_char ch :: nat) \<and> (of_char ch :: nat) \<le> 57)"

definition digits_value :: "string \<Rightarrow> nat" where
  "digits_value ds = foldl (\<lambda>n ch. 10 * n + (of_char ch - 48)) 0 ds"

text \<open>A specification of an integer: an optional \<open>0\<close>, a width, an optional \<open>d\<close>.\<close>

definition int_spec :: "string \<Rightarrow> string option" where
  "int_spec spec =
     (let ds = (if spec \<noteq> [] \<and> last spec = CHR ''d'' then butlast spec else spec) in
      if list_all is_digit ds then Some ds else None)"

fun format_token :: "token \<Rightarrow> string \<Rightarrow> exn + string" where
  "format_token (TStr s) spec =
     (if spec = [] \<or> spec = ''s'' then Inr s
      else if spec \<noteq> [] \<and> last spec = CHR ''d'' then Inl ValidationError
      else Inl UnexpectedError)"
| "format_token (TNat n) spec =
     (case int_spec spec of
        None \<Rightarrow> Inl UnexpectedError
      | Some ds \<Rightarrow>
          let w = digits_value ds; t = str_nat n in
          if ds \<noteq> [] \<and> hd ds = CHR ''0'' then Inr (pad0 w t)
          else Inr (replicate (w - length t) (CHR '' '') @ t))"

fun render_segments :: "segment list \<Rightarrow> (string \<times> token) list \<Rightarrow> exn + string" where
  "render_segments [] tokens = Inr []"
| "render_segments (Lit ch # segs) tokens = bindE (render_segments segs tokens) (\<lambda>r. Inr (ch # r))"
| "render_segments (Field name spec # segs) tokens =
     (case map_of tokens name of
        None \<Rightarrow> Inl ValidationError
      | Some tok \<Rightarrow>
          bindE (format_token tok spec) (\<lambda>t. bindE (render_segments segs tokens) (\<lambda>r. Inr (t @ r))))"

definition render :: "string \<Rightarrow> (string \<times> token) list \<Rightarrow> exn + string" where
  "render template tokens = bindE (parse_template template) (\<lambda>segs. render_segments segs tokens)"

section \<open>Student IDs, staff numbers, application references\<close>

definition sequence_scope :: "string \<Rightarrow> string \<Rightarrow> string \<Rightarrow> string" where
  "sequence_scope faculty_code programme_code entry_year =
     ''student_id:'' @ faculty_code @ '':'' @ programme_code @ '':'' @ entry_year"

definition leading_year :: "string \<Rightarrow> string" where
  "leading_year name = strip (before_slash name)"

definition student_tokens :: "string \<times> string \<times> string \<Rightarrow> string \<Rightarrow> nat \<Rightarrow> (string \<times> token) list" where
  "student_tokens t year seq =
     [(''faculty'', TStr (fst t)), (''programme'', TStr (fst (snd t))), (''department'', TStr (snd (snd t))),
      (''year'', TStr year), (''seq'', TNat seq)]"

definition generate_student_id ::
  "nat \<Rightarrow> string \<Rightarrow> 'a curriculum_db_scheme \<Rightarrow> exn + string \<times> 'a curriculum_db_scheme" where
  "generate_student_id programme_id entry_year_name s =
     bindE (id_tokens_for_programme programme_id s) (\<lambda>t.
       let year = leading_year entry_year_name;
           (seq, s') = allocate (sequence_scope (fst t) (fst (snd t)) year) s
       in bindE (render (student_id_template s) (student_tokens t year seq)) (\<lambda>r. Inr (r, s')))"

definition generate_staff_number ::
  "string \<Rightarrow> 'a academics_db_scheme \<Rightarrow> exn + string \<times> 'a academics_db_scheme" where
  "generate_staff_number year0 s =
     (let year = leading_year year0; (seq, s') = allocate (''staff_number:'' @ year) s in
      bindE (render (staff_id_template s) [(''year'', TStr year), (''seq'', TNat seq)]) (\<lambda>r. Inr (r, s')))"

definition generate_reference_number :: "string \<Rightarrow> 'a core_db_scheme \<Rightarrow> string \<times> 'a core_db_scheme" where
  "generate_reference_number year_name s =
     (let year = leading_year year_name; (seq, s') = allocate (''application_ref:'' @ year) s in
      (''APP/'' @ year @ ''/'' @ pad0 5 (str_nat seq), s'))"

section \<open>Padded numbers are injective\<close>

lemma str_nat_hd_nonzero: "0 < n \<Longrightarrow> hd (str_nat n) \<noteq> CHR ''0''"
proof (induction n rule: str_nat.induct)
  case (1 n)
  show ?case
  proof (cases "n < 10")
    case True
    with "1.prems" of_digit_char [of n] show ?thesis
      by (auto simp: str_nat_small)
  next
    case False
    with 1 show ?thesis by (simp add: str_nat_large hd_append)
  qed
qed

lemma pad0_inj [text_simps]:
  assumes "0 < m" and "0 < n"
  shows "pad0 w (str_nat m) = pad0 w (str_nat n) \<longleftrightarrow> m = n"
proof
  have *: "dropWhile (\<lambda>ch. ch = CHR ''0'') (pad0 w (str_nat k)) = str_nat k" if "0 < k" for k
  proof -
    have "dropWhile (\<lambda>ch. ch = CHR ''0'') (replicate j (CHR ''0'') @ t) = dropWhile (\<lambda>ch. ch = CHR ''0'') t"
      for j and t :: string by (induction j) simp_all
    moreover have "dropWhile (\<lambda>ch. ch = CHR ''0'') (str_nat k) = str_nat k"
      using str_nat_hd_nonzero [OF that] by (cases "str_nat k") simp_all
    ultimately show ?thesis by (simp add: pad0_def)
  qed
  assume "pad0 w (str_nat m) = pad0 w (str_nat n)"
  then have "str_nat m = str_nat n" using * [OF assms(1)] * [OF assms(2)] by metis
  then show "m = n" by (simp add: str_nat_inj)
qed simp

lemma str_nat_all_digits: "set (str_nat n) \<subseteq> {ch. is_digit ch}"
proof (induction n rule: str_nat.induct)
  case (1 n)
  have d: "is_digit (digit_char k)" if "k < 10" for k using that by (simp add: is_digit_def of_digit_char)
  show ?case
  proof (cases "n < 10")
    case False
    with 1 d [of "n mod 10"] show ?thesis by (simp add: str_nat_large)
  qed (simp add: str_nat_small d)
qed

lemma no_slash_number: "CHR ''/'' \<notin> set (pad0 w (str_nat n))"
  using str_nat_all_digits [of n] by (auto simp: pad0_def is_digit_def)

lemma before_slash_no_slash [simp]: "CHR ''/'' \<notin> set (before_slash s)"
  by (auto simp: before_slash_def dest: set_takeWhileD)

lemma set_strip: "set (strip s) \<subseteq> set s"
  by (auto simp: strip_def dest!: set_dropWhileD)

lemma no_slash_year: "CHR ''/'' \<notin> set (leading_year y)"
  using set_strip before_slash_no_slash by (fastforce simp: leading_year_def)

lemma split_last_slash:
  assumes "a @ CHR ''/'' # b = a' @ CHR ''/'' # b'" and "CHR ''/'' \<notin> set b" and "CHR ''/'' \<notin> set b'"
  shows "a = a' \<and> b = b'"
proof -
  have "takeWhile (\<lambda>ch. ch \<noteq> CHR ''/'') (rev (x @ CHR ''/'' # y)) = rev y" if "CHR ''/'' \<notin> set y" for x y
    using that by (simp add: takeWhile_append) 
  then have "rev b = rev b'" using assms by metis
  then show ?thesis using assms(1) by auto
qed

lemma split_first_slash:
  assumes "b @ CHR ''/'' # a = b' @ CHR ''/'' # a'" and "CHR ''/'' \<notin> set b" and "CHR ''/'' \<notin> set b'"
  shows "a = a' \<and> b = b'"
  using split_last_slash [of "rev a" "rev b" "rev a'" "rev b'"] assms
  by (metis append.assoc append_Cons append_Nil rev.simps(2) rev_append rev_is_rev_conv set_rev)

section \<open>The default template issues every ID once\<close>

lemma render_default:
  "render DEFAULT_STUDENT_ID_TEMPLATE (student_tokens t year seq) =
     Inr (fst t @ ''/'' @ fst (snd t) @ ''/'' @ year @ ''/'' @ pad0 4 (str_nat seq))"
proof -
  have "parse_template DEFAULT_STUDENT_ID_TEMPLATE =
     Inr [Field ''faculty'' [], Lit CHR ''/'', Field ''programme'' [], Lit CHR ''/'', Field ''year'' [],
          Lit CHR ''/'', Field ''seq'' ''04d'']"
    by code_simp
  moreover have "int_spec ''04d'' = Some ''04''" and "digits_value ''04'' = 4" by code_simp+
  ultimately show ?thesis
    by (simp add: render_def student_tokens_def)
qed

text \<open>
  A history of generated IDs, each for a programme and the name of an intake year; a call
  that fails is rolled back.
\<close>

fun generate_many ::
  "(nat \<times> string) list \<Rightarrow> 'a curriculum_db_scheme \<Rightarrow> string list \<times> 'a curriculum_db_scheme" where
  "generate_many [] s = ([], s)"
| "generate_many ((p, y) # rest) s =
     (case generate_student_id p y s of
        Inl e \<Rightarrow> generate_many rest s
      | Inr (i, s') \<Rightarrow> (let (is, s'') = generate_many rest s' in (i # is, s'')))"

definition plain_codes :: "'a curriculum_db_scheme \<Rightarrow> bool" where
  "plain_codes s \<longleftrightarrow> (\<forall>(k, f) \<in> set (faculties s). CHR ''/'' \<notin> set (fac_code f)) \<and>
     (\<forall>(k, p) \<in> set (programmes s). CHR ''/'' \<notin> set (prog_code p))"

definition default_id :: "string \<Rightarrow> string \<Rightarrow> string \<Rightarrow> nat \<Rightarrow> string" where
  "default_id f p y n = f @ ''/'' @ p @ ''/'' @ y @ ''/'' @ pad0 4 (str_nat n)"

lemma default_id_inj:
  assumes "default_id f p y m = default_id f' p' y' n" and "0 < m" and "0 < n"
    and "CHR ''/'' \<notin> set f" "CHR ''/'' \<notin> set p" "CHR ''/'' \<notin> set y"
    and "CHR ''/'' \<notin> set f'" "CHR ''/'' \<notin> set p'" "CHR ''/'' \<notin> set y'"
  shows "f = f' \<and> p = p' \<and> y = y' \<and> m = n"
proof -
  have "f @ CHR ''/'' # (p @ CHR ''/'' # (y @ CHR ''/'' # pad0 4 (str_nat m))) =
        f' @ CHR ''/'' # (p' @ CHR ''/'' # (y' @ CHR ''/'' # pad0 4 (str_nat n)))"
    using assms(1) by (simp add: default_id_def)
  from split_first_slash [OF this assms(4,7)] have f: "f = f'"
    and r: "p @ CHR ''/'' # (y @ CHR ''/'' # pad0 4 (str_nat m)) = p' @ CHR ''/'' # (y' @ CHR ''/'' # pad0 4 (str_nat n))"
    by simp_all
  from split_first_slash [OF r assms(5,8)] have p: "p = p'"
    and q: "y @ CHR ''/'' # pad0 4 (str_nat m) = y' @ CHR ''/'' # pad0 4 (str_nat n)" by simp_all
  from split_first_slash [OF q assms(6,9)] f p assms(2,3) show ?thesis by (simp add: pad0_inj)
qed

lemma id_tokens_Inr:
  assumes "id_tokens_for_programme p s = Inr t"
  shows "\<exists>x d f. get_row (programmes s) p = Some x \<and> get_row (departments s) (prog_department x) = Some d \<and>
    get_row (faculties s) (dep_faculty d) = Some f \<and> t = (fac_code f, prog_code x, dep_code d)"
proof -
  from assms obtain x where x: "get_programme p s = Inr x"
    and r: "(case get_row (departments s) (prog_department x) of None \<Rightarrow> Inl DoesNotExist
       | Some d \<Rightarrow> (case get_row (faculties s) (dep_faculty d) of None \<Rightarrow> Inl DoesNotExist
            | Some f \<Rightarrow> Inr (fac_code f, prog_code x, dep_code d))) = Inr t"
    by (auto simp: id_tokens_for_programme_def bindE_eq_Inr)
  from x have "get_row (programmes s) p = Some x"
    by (auto simp: get_programme_def split: option.splits if_splits)
  with r show ?thesis by (auto split: option.splits)
qed

lemma generate_student_id_Inr:
  assumes "generate_student_id p y s = Inr (i, s')" and "student_id_template s = DEFAULT_STUDENT_ID_TEMPLATE"
    and "plain_codes s"
  obtains f c where "i = default_id f c (leading_year y) (Suc (peek (sequence_scope f c (leading_year y)) s))"
    and "s' = snd (allocate (sequence_scope f c (leading_year y)) s)"
    and "CHR ''/'' \<notin> set f" and "CHR ''/'' \<notin> set c"
proof -
  from assms(1) obtain t where t: "id_tokens_for_programme p s = Inr t"
    and i: "i = default_id (fst t) (fst (snd t)) (leading_year y)
      (fst (allocate (sequence_scope (fst t) (fst (snd t)) (leading_year y)) s))"
    and s': "s' = snd (allocate (sequence_scope (fst t) (fst (snd t)) (leading_year y)) s)"
    by (auto simp: generate_student_id_def bindE_eq_Inr Let_def split_beta assms(2) render_default default_id_def)
  from id_tokens_Inr [OF t] assms(3) have "CHR ''/'' \<notin> set (fst t)" and "CHR ''/'' \<notin> set (fst (snd t))"
    by (fastforce simp: plain_codes_def dest!: get_row_in_set)+
  with that i s' show thesis by simp
qed

lemma allocate_curriculum [simp]:
  "faculties (snd (allocate k s)) = faculties s" "programmes (snd (allocate k s)) = programmes s"
  "departments (snd (allocate k s)) = departments s"
  by (subst allocate_eq, simp)+

lemma institutions_allocate [simp]: "institutions (snd (allocate k s)) = institutions s"
  by (subst allocate_eq, simp)

lemma template_allocate [simp]: "student_id_template (snd (allocate k s)) = student_id_template s"
  and plain_codes_allocate [simp]: "plain_codes (snd (allocate k s')) = plain_codes s'"
  by (simp_all add: student_id_template_def get_institution_def plain_codes_def)

lemma generate_many_later:
  assumes "student_id_template s = DEFAULT_STUDENT_ID_TEMPLATE" and "plain_codes s"
    and "i \<in> set (fst (generate_many reqs s))"
  shows "\<exists>f c y n. i = default_id f c y n \<and> peek (sequence_scope f c y) s < n \<and>
    CHR ''/'' \<notin> set f \<and> CHR ''/'' \<notin> set c \<and> CHR ''/'' \<notin> set y"
  using assms
proof (induction reqs arbitrary: s)
  case (Cons r reqs)
  obtain p y where r: "r = (p, y)" by (cases r)
  show ?case
  proof (cases "generate_student_id p y s")
    case (Inr x)
    obtain j s1 where x: "x = (j, s1)" by (cases x)
    obtain f c where j: "j = default_id f c (leading_year y) (Suc (peek (sequence_scope f c (leading_year y)) s))"
      and s1: "s1 = snd (allocate (sequence_scope f c (leading_year y)) s)"
      and plain: "CHR ''/'' \<notin> set f" "CHR ''/'' \<notin> set c"
      by (rule generate_student_id_Inr [OF Inr [unfolded x] Cons.prems(1,2)])
    show ?thesis
    proof (cases "i = j")
      case True
      with j plain no_slash_year show ?thesis by blast
    next
      case False
      with Cons.prems Inr x r s1 obtain f' c' y' n where "i = default_id f' c' y' n"
        "peek (sequence_scope f' c' y') s1 < n" "CHR ''/'' \<notin> set f'" "CHR ''/'' \<notin> set c'" "CHR ''/'' \<notin> set y'"
        using Cons.IH [of s1] by (auto simp: split_beta)
      moreover from this have "peek (sequence_scope f' c' y') s < n"
        using seqs.current_mono [of "sequence_scope f' c' y'" s] s1 by (auto intro: le_less_trans)
      ultimately show ?thesis by blast
    qed
  qed (use Cons r in auto)
qed simp

text \<open>
  Student IDs are never issued twice. With the default template and codes without a slash,
  all IDs generated by any sequence of calls, for any programmes and intake years, are
  different from each other.
\<close>

theorem student_ids_distinct:
  assumes "student_id_template s = DEFAULT_STUDENT_ID_TEMPLATE" and "plain_codes s"
  shows "distinct (fst (generate_many reqs s))"
  using assms
proof (induction reqs arbitrary: s)
  case (Cons r reqs)
  obtain p y where r: "r = (p, y)" by (cases r)
  show ?case
  proof (cases "generate_student_id p y s")
    case (Inr x)
    obtain j s1 where x: "x = (j, s1)" by (cases x)
    obtain f c where j: "j = default_id f c (leading_year y) (Suc (peek (sequence_scope f c (leading_year y)) s))"
      and s1: "s1 = snd (allocate (sequence_scope f c (leading_year y)) s)"
      and plain: "CHR ''/'' \<notin> set f" "CHR ''/'' \<notin> set c"
      by (rule generate_student_id_Inr [OF Inr [unfolded x] Cons.prems])
    have ok: "student_id_template s1 = DEFAULT_STUDENT_ID_TEMPLATE" "plain_codes s1"
      using Cons.prems s1 by simp_all
    have "j \<notin> set (fst (generate_many reqs s1))"
    proof
      assume "j \<in> set (fst (generate_many reqs s1))"
      from generate_many_later [OF ok this] obtain f' c' y' n where j': "j = default_id f' c' y' n"
        and n: "peek (sequence_scope f' c' y') s1 < n"
        and plain': "CHR ''/'' \<notin> set f'" "CHR ''/'' \<notin> set c'" "CHR ''/'' \<notin> set y'" by blast
      have "f = f' \<and> c = c' \<and> leading_year y = y' \<and> Suc (peek (sequence_scope f c (leading_year y)) s) = n"
        using default_id_inj [OF trans [OF j [symmetric] j']] n plain plain' no_slash_year by force
      with n s1 show False by (auto simp: peek_allocate)
    qed
    with Cons.IH [OF ok] Inr x r show ?thesis by (simp add: split_beta)
  qed (use Cons r in auto)
qed simp

section \<open>A template that validates and repeats IDs\<close>

text \<open>
  The counter is kept per faculty, programme and year, but \<open>Institution.clean\<close> only asks for
  the year and the counter in the template: two programmes then get the same IDs.
\<close>

definition sample_codes_db :: "string \<Rightarrow> curriculum_db" where
  "sample_codes_db template =
     (let p = \<lparr>prog_department = 1, prog_name = [], prog_code = ''CIV'', prog_award = Bachelor,
               prog_duration_years = 4, prog_total_credits_required = 120, prog_min_credits_per_semester = 12,
               prog_max_credits_per_semester = 24, prog_entry_requirements = None,
               prog_admission_quota_rules = None, prog_is_active = True, prog_deleted_at = None\<rparr> in
      \<lparr>id_sequences = [], audit_log = [], sync_operations = [], sync_conflicts = [],
       institutions = [(1, \<lparr>inst_name = ''U'', inst_short_name = [], inst_default_currency = ''SSP'',
         inst_secondary_currency = ''USD'', inst_student_id_template = template,
         inst_staff_id_template = [], inst_attendance_threshold_percent = 75\<rparr>)],
       academic_years = [], semesters = [], grading_scales = [], grade_bands = [],
       faculties = [(1, \<lparr>fac_name = [], fac_code = ''ENG'', fac_dean = None, fac_is_active = True, fac_deleted_at = None\<rparr>)],
       departments = [(1, \<lparr>dep_faculty = 1, dep_name = [], dep_code = ''D'', dep_head = None, dep_is_active = True,
         dep_deleted_at = None\<rparr>)],
       programmes = [(1, p), (2, p\<lparr>prog_code := ''MEC''\<rparr>)],
       curriculum_versions = [], courses = [], curriculum_courses = [], prerequisites = []\<rparr>)"

lemma short_template_repeats:
  "institution_clean (snd (hd (institutions (sample_codes_db ''{year}/{seq:04d}'')))) = Inr () \<and>
   fst (generate_many [(1, ''2026/2027''), (2, ''2026/2027'')] (sample_codes_db ''{year}/{seq:04d}'')) =
     [''2026/0001'', ''2026/0001'']"
  by code_simp

lemma student_ids_distinct_witness:
  "fst (generate_many [(1, ''2026/2027''), (2, ''2026/2027''), (1, ''2026/2027'')] (sample_codes_db [])) =
     [''ENG/CIV/2026/0001'', ''ENG/MEC/2026/0001'', ''ENG/CIV/2026/0002''] \<and>
   distinct (fst (generate_many [(1, ''2026/2027''), (2, ''2026/2027''), (1, ''2026/2027'')] (sample_codes_db [])))"
proof
  show "fst (generate_many [(1, ''2026/2027''), (2, ''2026/2027''), (1, ''2026/2027'')] (sample_codes_db [])) =
     [''ENG/CIV/2026/0001'', ''ENG/MEC/2026/0001'', ''ENG/CIV/2026/0002'']" by code_simp
  have "student_id_template (sample_codes_db []) = DEFAULT_STUDENT_ID_TEMPLATE"
    by (simp add: student_id_template_def get_institution_def sample_codes_db_def first_row_def)
  moreover have "plain_codes (sample_codes_db [])" by (simp add: plain_codes_def sample_codes_db_def)
  ultimately show "distinct (fst (generate_many [(1, ''2026/2027''), (2, ''2026/2027''), (1, ''2026/2027'')]
      (sample_codes_db [])))" by (rule student_ids_distinct)
qed

end
