(* ===== verification/Holds.thy ===== *)
theory Holds
  imports Platform
begin

text \<open>
  The provider registry (\<open>core/services/registry.py\<close>), the aggregation of holds
  (\<open>core/services/holds.py\<close>) and the stub provider of \<open>core/providers/holds.py\<close>. A
  provider is a pair of its class name and its value. The locale \<open>hold_provider\<close> is the
  contract between the aggregation and a module that can block a student; it is
  interpreted here on the stub and in \<open>Finance\<close> on the fee balance.
\<close>

section \<open>The provider registry\<close>

type_synonym 'p bucket = "(string \<times> 'p) list"
type_synonym 'p provider_registry = "(string \<times> 'p bucket) list"

definition registry_get_all :: "string \<Rightarrow> 'p provider_registry \<Rightarrow> 'p bucket" where
  "registry_get_all interface reg = (case map_of reg interface of None \<Rightarrow> [] | Some b \<Rightarrow> b)"

definition registry_add :: "string \<Rightarrow> string \<times> 'p \<Rightarrow> 'p provider_registry \<Rightarrow> 'p provider_registry" where
  "registry_add interface provider reg =
     AList.update interface
       (filter (\<lambda>p. fst p \<noteq> fst provider) (registry_get_all interface reg) @ [provider]) reg"

definition registry_get :: "string \<Rightarrow> 'p provider_registry \<Rightarrow> (string \<times> 'p) option" where
  "registry_get interface reg =
     (case registry_get_all interface reg of [] \<Rightarrow> None | p # ps \<Rightarrow> Some (last (p # ps)))"

definition registry_unregister :: "string \<Rightarrow> string \<Rightarrow> 'p provider_registry \<Rightarrow> 'p provider_registry" where
  "registry_unregister interface provider_class reg =
     (case map_of reg interface of
        None \<Rightarrow> reg
      | Some b \<Rightarrow> AList.update interface (filter (\<lambda>p. fst p \<noteq> provider_class) b) reg)"

definition registry_clear :: "string option \<Rightarrow> 'p provider_registry \<Rightarrow> 'p provider_registry" where
  "registry_clear interface reg =
     (case interface of None \<Rightarrow> [] | Some i \<Rightarrow> AList.delete i reg)"

section \<open>Collecting holds\<close>

record hold =
  hold_code :: string
  hold_source :: string
  hold_blocking :: bool

record hold_source_provider =
  provider_source :: string
  holds_for :: "nat \<Rightarrow> exn + hold list"

definition hold_check_failed :: "string \<Rightarrow> hold" where
  "hold_check_failed source = \<lparr>hold_code = ''hold_check_failed'', hold_source = source, hold_blocking = True\<rparr>"

fun collect_holds :: "hold_source_provider bucket \<Rightarrow> nat \<Rightarrow> hold list" where
  "collect_holds [] student_id = []"
| "collect_holds ((cls, provider) # rest) student_id =
     (case holds_for provider student_id of
        Inr hs \<Rightarrow> hs
      | Inl e \<Rightarrow> [hold_check_failed (provider_source provider)]) @ collect_holds rest student_id"

definition blocking_holds :: "hold_source_provider bucket \<Rightarrow> nat \<Rightarrow> hold list" where
  "blocking_holds providers student_id = filter hold_blocking (collect_holds providers student_id)"

definition is_clear :: "hold_source_provider bucket \<Rightarrow> nat \<Rightarrow> bool" where
  "is_clear providers student_id = (blocking_holds providers student_id = [])"

section \<open>The stub provider\<close>

definition demo_holds_for :: "(nat \<times> rat) list \<Rightarrow> nat \<Rightarrow> exn + hold list" where
  "demo_holds_for balances student_id =
     (case map_of balances student_id of
        None \<Rightarrow> Inr []
      | Some b \<Rightarrow> if b \<le> 0 then Inr []
                 else Inr [\<lparr>hold_code = ''unpaid_fees'', hold_source = ''finance (stub)'', hold_blocking = True\<rparr>])"

definition DemoFeeBalanceHoldProvider :: "(nat \<times> rat) list \<Rightarrow> string \<times> hold_source_provider" where
  "DemoFeeBalanceHoldProvider balances =
     (''DemoFeeBalanceHoldProvider'',
      \<lparr>provider_source = ''finance (stub)'', holds_for = demo_holds_for balances\<rparr>)"

definition set_demo_balance :: "nat \<Rightarrow> rat \<Rightarrow> (nat \<times> rat) list \<Rightarrow> (nat \<times> rat) list" where
  "set_demo_balance student_id amount balances = AList.update student_id amount balances"

section \<open>Laws of the registry\<close>

lemma get_all_add [simp]:
  "registry_get_all i (registry_add j p reg) =
     (if i = j then filter (\<lambda>q. fst q \<noteq> fst p) (registry_get_all j reg) @ [p] else registry_get_all i reg)"
  by (simp add: registry_get_all_def registry_add_def update_conv)

lemma get_all_clear [simp]: "registry_get_all i (registry_clear None reg) = []"
  by (simp add: registry_get_all_def registry_clear_def)

text \<open>
  Registration is idempotent and keeps one instance per class: running the start-up hook
  again with a new instance of a provider leaves the other providers and their order as
  they were and replaces the earlier instance, the interface then resolves to the new
  instance, and its class is registered exactly once.
\<close>

theorem register_once:
  "registry_get_all i (registry_add i p (registry_add i (fst p, v) reg)) =
      registry_get_all i (registry_add i p reg) \<and>
    filter (\<lambda>q. fst q \<noteq> fst p) (registry_get_all i (registry_add i p reg)) =
      filter (\<lambda>q. fst q \<noteq> fst p) (registry_get_all i reg) \<and>
    registry_get i (registry_add i p reg) = Some p \<and>
    filter (\<lambda>q. fst q = fst p) (registry_get_all i (registry_add i p reg)) = [p]"
  by (auto simp: registry_get_def filter_empty_conv split: list.split)
    (metis last_snoc last.simps append_is_Nil_conv list.distinct(1))

section \<open>Holds fail closed\<close>

lemma set_collect_holds:
  "h \<in> set (collect_holds providers sid) \<longleftrightarrow>
     (\<exists>(cls, p) \<in> set providers. (\<exists>hs. holds_for p sid = Inr hs \<and> h \<in> set hs) \<or>
        (\<exists>e. holds_for p sid = Inl e \<and> h = hold_check_failed (provider_source p)))"
  by (induction providers sid rule: collect_holds.induct) (auto split: sum.splits)

lemma is_clear_Nil [simp]: "is_clear [] sid"
  by (simp add: is_clear_def blocking_holds_def)

lemma is_clear_Cons [simp]:
  "is_clear ((cls, p) # rest) sid \<longleftrightarrow>
     (\<exists>hs. holds_for p sid = Inr hs \<and> filter hold_blocking hs = []) \<and> is_clear rest sid"
  by (auto simp: is_clear_def blocking_holds_def hold_check_failed_def split: sum.splits)

lemma is_clear_append [simp]: "is_clear (ps @ qs) sid \<longleftrightarrow> is_clear ps sid \<and> is_clear qs sid"
  by (induction ps) auto

lemma is_clear_member:
  "is_clear ps sid \<Longrightarrow> (cls, p) \<in> set ps \<Longrightarrow> \<exists>hs. holds_for p sid = Inr hs \<and> filter hold_blocking hs = []"
  by (induction ps) auto

text \<open>
  Clearance fails closed. One provider clears a student exactly if it answered and its
  answer has no blocking hold, so a provider that raises blocks; a list of providers clears
  exactly if all of them do, so no provider can lift a hold of another one.
\<close>

theorem holds_fail_closed:
  "(is_clear [(cls, p)] sid \<longleftrightarrow> (\<exists>hs. holds_for p sid = Inr hs \<and> filter hold_blocking hs = [])) \<and>
    (holds_for p sid = Inl e \<longrightarrow>
      blocking_holds (ps @ (cls, p) # qs) sid =
        blocking_holds ps sid @ hold_check_failed (provider_source p) # blocking_holds qs sid) \<and>
    (is_clear (ps @ qs) sid \<longleftrightarrow> is_clear ps sid \<and> is_clear qs sid)"
proof -
  have "blocking_holds (ps @ rs) sid = blocking_holds ps sid @ blocking_holds rs sid" for rs
    by (induction ps) (auto simp: blocking_holds_def)
  then show ?thesis by (simp add: blocking_holds_def hold_check_failed_def)
qed

lemma holds_fail_closed_witness:
  "blocking_holds [DemoFeeBalanceHoldProvider [], (''Library'', \<lparr>provider_source = ''library'',
      holds_for = (\<lambda>sid. Inl UnexpectedError)\<rparr>)] 4 = [hold_check_failed ''library'']"
  using holds_fail_closed [of "''Library''" "\<lparr>provider_source = ''library'', holds_for = (\<lambda>sid. Inl UnexpectedError)\<rparr>"
      4 UnexpectedError "[DemoFeeBalanceHoldProvider []]" "[]"]
  by (simp add: blocking_holds_def DemoFeeBalanceHoldProvider_def demo_holds_for_def)

text \<open>
  The contract of a provider: \<open>owes\<close> says that the module has a claim against the student,
  and then the provider's answer blocks, either by a blocking hold or by failing.
\<close>

locale hold_provider =
  fixes provider :: hold_source_provider
    and owes :: "nat \<Rightarrow> bool"
  assumes owes_blocks: "owes sid \<Longrightarrow> holds_for provider sid = Inr hs \<Longrightarrow> \<exists>h \<in> set hs. hold_blocking h"
begin

lemma registered_blocks:
  assumes "(cls, provider) \<in> set providers" and "owes sid"
  shows "\<not> is_clear providers sid"
proof
  assume "is_clear providers sid"
  with assms(1) obtain hs where "holds_for provider sid = Inr hs" "filter hold_blocking hs = []"
    using is_clear_member by blast
  with owes_blocks [OF assms(2)] show False by (auto simp: filter_empty_conv)
qed

lemma blocking_holds_nonempty:
  "(cls, provider) \<in> set providers \<Longrightarrow> owes sid \<Longrightarrow> blocking_holds providers sid \<noteq> []"
  using registered_blocks by (simp add: is_clear_def)

end

definition demo_owes :: "(nat \<times> rat) list \<Rightarrow> nat \<Rightarrow> bool" where
  "demo_owes balances sid = (case map_of balances sid of None \<Rightarrow> False | Some b \<Rightarrow> 0 < b)"

interpretation demo: hold_provider "snd (DemoFeeBalanceHoldProvider balances)" "demo_owes balances" for balances
  by unfold_locales
    (auto simp: DemoFeeBalanceHoldProvider_def demo_owes_def demo_holds_for_def split: option.splits if_splits)

lemma demo_balance_blocks:
  "0 < amount \<Longrightarrow> DemoFeeBalanceHoldProvider (set_demo_balance sid amount balances) \<in> set providers \<Longrightarrow>
   \<not> is_clear providers sid"
  using demo.registered_blocks [of "fst (DemoFeeBalanceHoldProvider (set_demo_balance sid amount balances))"
      "set_demo_balance sid amount balances" providers sid]
  by (simp add: demo_owes_def set_demo_balance_def update_conv)

end
