(* ===== verification/State_Machines.thy ===== *)
theory State_Machines
  imports Main
begin

text \<open>
  The contract that the records with a status share. A module offers operations on a state
  that holds many records; \<open>status s k\<close> is the status of record \<open>k\<close> in \<open>s\<close>. The locale
  assumes that one operation either keeps the status of a record or moves it along an
  allowed transition, and derives what holds after any number of operations. The extension
  \<open>forward_status_machine\<close> adds a rank that every transition increases: such a record never
  returns to a status it has left.
\<close>

locale status_machine =
  fixes status :: "'s \<Rightarrow> nat \<Rightarrow> 'st option"
    and allowed :: "'st \<Rightarrow> 'st list"
    and step :: "'s \<Rightarrow> 's \<Rightarrow> bool"
  assumes status_step: "step s s' \<Longrightarrow> status s k = Some x \<Longrightarrow> \<exists>y. status s' k = Some y \<and> (y = x \<or> y \<in> set (allowed x))"
begin

lemma status_steps:
  "step\<^sup>*\<^sup>* s s' \<Longrightarrow> status s k = Some x \<Longrightarrow> \<exists>y. status s' k = Some y \<and> (\<lambda>a b. b \<in> set (allowed a))\<^sup>*\<^sup>* x y"
proof (induction rule: rtranclp_induct)
  case (step s1 s2)
  then obtain y where y: "status s1 k = Some y" "(\<lambda>a b. b \<in> set (allowed a))\<^sup>*\<^sup>* x y" by blast
  from status_step [OF step.hyps(2) y(1)] y(2) show ?case by (metis (mono_tags) rtranclp.rtrancl_into_rtrancl)
qed blast

lemma terminal_stays:
  assumes "step\<^sup>*\<^sup>* s s'" and "status s k = Some x" and "allowed x = []"
  shows "status s' k = Some x"
  using assms(1)
proof (induction rule: rtranclp_induct)
  case (step s1 s2)
  from status_step [OF step.hyps(2) step.IH] assms(3) show ?case by auto
qed (rule assms(2))

end

locale forward_status_machine = status_machine status allowed step
  for status :: "'s \<Rightarrow> nat \<Rightarrow> 'st option"
    and allowed :: "'st \<Rightarrow> 'st list"
    and step :: "'s \<Rightarrow> 's \<Rightarrow> bool" +
  fixes rank :: "'st \<Rightarrow> nat"
  assumes rank_step: "y \<in> set (allowed x) \<Longrightarrow> rank x < rank y"
begin

lemma rank_steps:
  assumes "step\<^sup>*\<^sup>* s s'" and "status s k = Some x" and "status s' k = Some y"
  shows "y = x \<or> rank x < rank y"
proof -
  from status_steps [OF assms(1,2)] assms(3) have "(\<lambda>a b. b \<in> set (allowed a))\<^sup>*\<^sup>* x y" by simp
  then show ?thesis
  proof (induction rule: rtranclp_induct)
    case (step y z)
    with rank_step [of z y] show ?case by auto
  qed simp
qed

lemma never_returns:
  assumes "step\<^sup>*\<^sup>* s s'" and "step\<^sup>*\<^sup>* s' s''" and "status s k = Some x" and "status s' k = Some y" and "y \<noteq> x"
  shows "status s'' k \<noteq> Some x"
proof
  assume "status s'' k = Some x"
  from rank_steps [OF assms(2,4) this] rank_steps [OF assms(1,3,4)] assms(5) show False by auto
qed

end

end
