(* ===== verification/Registry.thy ===== *)
theory Registry
  imports Id_Generation Holds State_Machines "HOL-Library.List_Lexorder" "HOL-Library.Char_ord"
    "HOL-Library.Product_Lexorder"
begin

text \<open>
  The student registry: the models of \<open>registry/models.py\<close>, the services of
  \<open>registry/services.py\<close> (creation, status changes, the bulk import, look-ups, the
  registration hold check, the document vault, the counts), the edit of a record through the
  view (\<open>registry/views.py\<close>) and the sync handler of \<open>registry/sync.py\<close>. The lemmas show that
  student IDs stay unique, that the status history of every student is a gap-free chain that
  ends in the current status, and that a graduated or expelled record never changes status
  again.
\<close>

section \<open>Models\<close>

datatype student_status = St_Active | St_Suspended | St_Deferred | St_Withdrawn | St_Graduated | St_Expelled

fun status_text :: "student_status \<Rightarrow> string" where
  "status_text St_Active = ''active''"
| "status_text St_Suspended = ''suspended''"
| "status_text St_Deferred = ''deferred''"
| "status_text St_Withdrawn = ''withdrawn''"
| "status_text St_Graduated = ''graduated''"
| "status_text St_Expelled = ''expelled''"

definition Gender_values :: "string list" where
  "Gender_values = [''female'', ''male'', ''other'', ''undisclosed'']"

definition SouthSudanState_values :: "string list" where
  "SouthSudanState_values =
     [''central_equatoria'', ''eastern_equatoria'', ''western_equatoria'', ''jonglei'', ''unity'', ''upper_nile'',
      ''warrap'', ''northern_bahr_el_ghazal'', ''western_bahr_el_ghazal'', ''lakes'', ''abyei'', ''greater_pibor'',
      ''ruweng'', ''outside'']"

definition SponsorshipType_values :: "string list" where
  "SponsorshipType_values = [''self'', ''government'', ''scholarship'', ''bursary'', ''employer'', ''ngo'']"

record student =
  st_student_id :: string
  st_user :: "nat option"
  st_programme :: nat
  st_curriculum_version :: "nat option"
  st_entry_academic_year :: nat
  st_current_level :: nat
  st_status :: student_status
  st_sponsorship_type :: string
  st_sponsor :: "nat option"
  st_first_name :: string
  st_middle_name :: string
  st_last_name :: string
  st_date_of_birth :: "int option"
  st_gender :: string
  st_national_id_number :: string
  st_passport_number :: string
  st_nationality :: string
  st_state_of_origin :: string
  st_county :: string
  st_has_disability :: bool
  st_disability_details :: string
  st_phone :: string
  st_alternate_phone :: string
  st_email :: string
  st_physical_address :: string
  st_previous_institution :: string
  st_previous_qualification :: string
  st_transfer_credits :: nat
  st_admitted_on :: "int option"
  st_graduated_on :: "int option"
  st_is_active :: bool
  st_deleted_at :: "int option"

text \<open>A row with the defaults of the columns.\<close>

definition blank_student :: student where
  "blank_student =
     \<lparr>st_student_id = [], st_user = None, st_programme = 0, st_curriculum_version = None,
      st_entry_academic_year = 0, st_current_level = 1, st_status = St_Active, st_sponsorship_type = ''self'',
      st_sponsor = None, st_first_name = [], st_middle_name = [], st_last_name = [], st_date_of_birth = None,
      st_gender = [], st_national_id_number = [], st_passport_number = [], st_nationality = ''South Sudanese'',
      st_state_of_origin = [], st_county = [], st_has_disability = False, st_disability_details = [],
      st_phone = [], st_alternate_phone = [], st_email = [], st_physical_address = [],
      st_previous_institution = [], st_previous_qualification = [], st_transfer_credits = 0,
      st_admitted_on = None, st_graduated_on = None, st_is_active = True, st_deleted_at = None\<rparr>"

record status_history =
  hist_student :: nat
  hist_from :: "student_status option"
  hist_to :: student_status
  hist_reason :: string
  hist_effective_date :: int
  hist_changed_by :: "nat option"
  hist_reference :: string

record student_document =
  doc_student :: nat
  doc_type :: string
  doc_title :: string
  doc_file :: string
  doc_file_size :: nat
  doc_content_hash :: string
  doc_uploaded_by :: "nat option"
  doc_verified_by :: "nat option"
  doc_verified_at :: "int option"
  doc_notes :: string

record staff_profile =
  sp_user :: nat
  sp_staff_number :: string
  sp_department :: "nat option"
  sp_staff_category :: string
  sp_rank :: string
  sp_date_of_hire :: "int option"
  sp_contract_end_date :: "int option"
  sp_is_active :: bool
  sp_deleted_at :: "int option"

record registry_db = curriculum_db +
  sponsors :: "string table"
  students :: "student table"
  status_histories :: "status_history table"
  student_documents :: "student_document table"
  staff_profiles :: "staff_profile table"

definition join_names :: "string list \<Rightarrow> string" where
  "join_names parts =
     strip (foldr (\<lambda>p acc. if acc = [] then p else p @ '' '' @ acc) (filter (\<lambda>p. p \<noteq> []) parts) [])"

definition student_full_name :: "student \<Rightarrow> string" where
  "student_full_name st = join_names [st_first_name st, st_middle_name st, st_last_name st]"

section \<open>Validation of a student\<close>

definition student_clean :: "student \<Rightarrow> 'a registry_db_scheme \<Rightarrow> exn + unit" where
  "student_clean st s =
     ensure
       (\<not> (st_has_disability st \<and> \<not> nonblank (st_disability_details st)) \<and>
        \<not> (st_sponsorship_type st \<noteq> ''self'' \<and> st_sponsor st = None) \<and>
        (case st_curriculum_version st of
           None \<Rightarrow> True
         | Some v \<Rightarrow> (case get_row (curriculum_versions s) v of
                        None \<Rightarrow> False | Some x \<Rightarrow> cv_programme x = st_programme st)) \<and>
        \<not> (st_status st = St_Graduated \<and> st_graduated_on st = None))
       ValidationError"

text \<open>
  \<open>full_clean\<close>: the columns, the foreign keys, \<open>clean\<close> and uniqueness. The uniqueness check
  uses the default manager, which hides deleted rows. \<open>check_id\<close> is off when the import
  excludes \<open>student_id\<close>. The format of e-mail addresses is not modelled.
\<close>

definition student_fields_ok :: "bool \<Rightarrow> student \<Rightarrow> 'a registry_db_scheme \<Rightarrow> bool" where
  "student_fields_ok check_id st s \<longleftrightarrow>
     (check_id \<longrightarrow> st_student_id st \<noteq> [] \<and> length (st_student_id st) \<le> 50) \<and>
     st_first_name st \<noteq> [] \<and> length (st_first_name st) \<le> 100 \<and> length (st_middle_name st) \<le> 100 \<and>
     st_last_name st \<noteq> [] \<and> length (st_last_name st) \<le> 100 \<and>
     st_gender st \<in> set Gender_values \<and>
     (st_state_of_origin st = [] \<or> st_state_of_origin st \<in> set SouthSudanState_values) \<and>
     st_sponsorship_type st \<in> set SponsorshipType_values \<and>
     st_nationality st \<noteq> [] \<and> length (st_nationality st) \<le> 100 \<and>
     length (st_national_id_number st) \<le> 50 \<and> length (st_phone st) \<le> 32 \<and>
     length (st_passport_number st) \<le> 50 \<and> length (st_alternate_phone st) \<le> 32 \<and>
     length (st_county st) \<le> 100 \<and> length (st_previous_institution st) \<le> 200 \<and>
     length (st_previous_qualification st) \<le> 200 \<and>
     1 \<le> st_current_level st \<and> st_current_level st \<le> 10 \<and>
     get_row (programmes s) (st_programme st) \<noteq> None \<and>
     get_row (academic_years s) (st_entry_academic_year st) \<noteq> None \<and>
     (case st_curriculum_version st of None \<Rightarrow> True | Some v \<Rightarrow> get_row (curriculum_versions s) v \<noteq> None) \<and>
     (case st_sponsor st of None \<Rightarrow> True | Some k \<Rightarrow> get_row (sponsors s) k \<noteq> None)"

definition student_full_clean ::
  "bool \<Rightarrow> nat option \<Rightarrow> student \<Rightarrow> 'a registry_db_scheme \<Rightarrow> exn + unit" where
  "student_full_clean check_id pk st s =
     (if \<not> student_fields_ok check_id st s then Inl ValidationError
      else bindE (student_clean st s) (\<lambda>_.
        ensure (\<not> exists_row (\<lambda>k y. Some k \<noteq> pk \<and> st_deleted_at y = None \<and>
                   ((check_id \<and> st_student_id y = st_student_id st) \<or>
                    (st_user st \<noteq> None \<and> st_user y = st_user st))) (students s))
          ValidationError))"

definition student_meta :: model_meta where
  "student_meta = \<lparr>mm_label = ''registry.student'', mm_verbose = ''student'', mm_sensitive = False\<rparr>"

definition student_audit :: "student \<Rightarrow> (string \<times> pyval) list" where
  "student_audit st =
     [(''student_id'', VStr (st_student_id st)), (''status'', VStr (status_text (st_status st))),
      (''programme'', VInt (int (st_programme st))), (''curriculum_version'', opt_nat (st_curriculum_version st)),
      (''current_level'', VInt (int (st_current_level st))),
      (''sponsorship_type'', VStr (st_sponsorship_type st)), (''sponsor'', opt_nat (st_sponsor st)),
      (''user'', opt_nat (st_user st)), (''deleted_at'', opt_int (st_deleted_at st))]"

text \<open>The database's own unique indexes, which cover deleted rows, and the audit.\<close>

definition student_unique :: "nat option \<Rightarrow> student \<Rightarrow> 'a registry_db_scheme \<Rightarrow> bool" where
  "student_unique pk st s \<longleftrightarrow>
     \<not> exists_row (\<lambda>k y. Some k \<noteq> pk \<and> (st_student_id y = st_student_id st \<or>
          (st_user st \<noteq> None \<and> st_user y = st_user st))) (students s)"

definition insert_student ::
  "ctx \<Rightarrow> student \<Rightarrow> string \<Rightarrow> 'a registry_db_scheme \<Rightarrow> exn + nat \<times> 'a registry_db_scheme" where
  "insert_student c st reason s =
     (if \<not> student_unique None st s then Inl IntegrityError
      else let k = fresh_pk (students s) in
        bindE (audit_save c student_meta k None (student_audit st) reason (s\<lparr>students := add_row st (students s)\<rparr>))
          (\<lambda>s'. Inr (k, s')))"

definition update_student ::
  "ctx \<Rightarrow> nat \<Rightarrow> student \<Rightarrow> student \<Rightarrow> string \<Rightarrow> 'a registry_db_scheme \<Rightarrow> exn + 'a registry_db_scheme" where
  "update_student c k old st reason s =
     (if \<not> student_unique (Some k) st s then Inl IntegrityError
      else audit_save c student_meta k (Some (student_audit old)) (student_audit st) reason
             (s\<lparr>students := put_row k st (students s)\<rparr>))"

section \<open>Creation and status changes\<close>

definition InvalidStatusTransition :: exn where
  "InvalidStatusTransition = DomainError ''invalid_status_transition'' 400"

definition TERMINAL_STATUSES :: "student_status list" where
  "TERMINAL_STATUSES = [St_Graduated, St_Expelled]"

fun student_transitions :: "student_status \<Rightarrow> student_status list" where
  "student_transitions St_Active = [St_Suspended, St_Deferred, St_Withdrawn, St_Graduated, St_Expelled]"
| "student_transitions St_Suspended = [St_Active, St_Withdrawn, St_Expelled]"
| "student_transitions St_Deferred = [St_Active, St_Withdrawn]"
| "student_transitions St_Withdrawn = [St_Active]"
| "student_transitions St_Graduated = []"
| "student_transitions St_Expelled = []"

definition add_history :: "status_history \<Rightarrow> 'a registry_db_scheme \<Rightarrow> 'a registry_db_scheme" where
  "add_history h s = s\<lparr>status_histories := add_row h (status_histories s)\<rparr>"

text \<open>
  \<open>create_student\<close>: \<open>extra\<close> is a row that carries the keyword arguments; the arguments that
  are named explicitly overwrite its columns. \<open>enroll_row\<close> is the part after the student ID
  has been settled.
\<close>

definition enroll_row ::
  "ctx \<Rightarrow> student \<Rightarrow> user option \<Rightarrow> string \<Rightarrow> 'a registry_db_scheme \<Rightarrow> exn + nat \<times> 'a registry_db_scheme" where
  "enroll_row c st actor reason s =
     bindE (student_full_clean True None st s) (\<lambda>_.
       bindE (insert_student c st (if reason = [] then ''Student record created'' else reason) s)
         (\<lambda>(k, s2). Inr (k, add_history
             \<lparr>hist_student = k, hist_from = None, hist_to = st_status st,
              hist_reason = (if reason = [] then ''Initial enrollment'' else reason),
              hist_effective_date = (case st_admitted_on st of None \<Rightarrow> today c | Some d \<Rightarrow> d),
              hist_changed_by = actor_fk actor, hist_reference = []\<rparr> s2)))"

definition create_student ::
  "ctx \<Rightarrow> nat \<Rightarrow> nat \<Rightarrow> string \<Rightarrow> string \<Rightarrow> string \<Rightarrow> user option \<Rightarrow> string option \<Rightarrow> string \<Rightarrow> student
    \<Rightarrow> 'a registry_db_scheme \<Rightarrow> exn + nat \<times> 'a registry_db_scheme" where
  "create_student c programme_id entry_year_id first_name last_name gender actor student_id reason extra s =
     bindE (if student_id = None \<or> student_id = Some []
            then bindE (academic_year_name entry_year_id s) (\<lambda>name. generate_student_id programme_id name s)
            else Inr (the student_id, s))
       (\<lambda>(sid, s1). enroll_row c
          (extra\<lparr>st_student_id := sid, st_programme := programme_id,
                 st_entry_academic_year := entry_year_id, st_first_name := strip first_name,
                 st_last_name := strip last_name, st_gender := gender,
                 st_admitted_on := Some (case st_admitted_on extra of None \<Rightarrow> today c | Some d \<Rightarrow> d)\<rparr>)
          actor reason s1)"

definition with_status :: "student_status \<Rightarrow> int \<Rightarrow> student \<Rightarrow> student" where
  "with_status new_status effective st =
     st\<lparr>st_status := new_status,
        st_graduated_on := (if new_status = St_Graduated \<and> st_graduated_on st = None
                            then Some effective else st_graduated_on st)\<rparr>"

definition write_status ::
  "ctx \<Rightarrow> nat \<Rightarrow> student \<Rightarrow> student_status \<Rightarrow> string \<Rightarrow> user option \<Rightarrow> int \<Rightarrow> string
    \<Rightarrow> 'a registry_db_scheme \<Rightarrow> exn + 'a registry_db_scheme" where
  "write_status c k st new_status reason actor effective reference s =
     (let st' = with_status new_status effective st in
      bindE (student_full_clean True (Some k) st' s) (\<lambda>_.
        bindE (update_student c k st st' reason s) (\<lambda>s1.
          Inr (add_history
            \<lparr>hist_student = k, hist_from = Some (st_status st), hist_to = new_status,
             hist_reason = reason, hist_effective_date = effective,
             hist_changed_by = actor_fk actor, hist_reference = reference\<rparr> s1))))"

definition change_status ::
  "ctx \<Rightarrow> nat \<Rightarrow> student_status \<Rightarrow> string \<Rightarrow> user option \<Rightarrow> int option \<Rightarrow> string
    \<Rightarrow> 'a registry_db_scheme \<Rightarrow> exn + 'a registry_db_scheme" where
  "change_status c k new_status reason actor effective_date reference s =
     (case get_row (students s) k of
        None \<Rightarrow> Inl DoesNotExist
      | Some st \<Rightarrow>
          if \<not> nonblank reason then Inl InvalidStatusTransition
          else if new_status = st_status st then Inr s
          else if st_status st \<in> set TERMINAL_STATUSES then Inl InvalidStatusTransition
          else if new_status \<notin> set (student_transitions (st_status st)) then Inl InvalidStatusTransition
          else write_status c k st new_status reason actor
                 (case effective_date of None \<Rightarrow> today c | Some d \<Rightarrow> d) reference s)"

text \<open>
  \<open>StudentViewSet.perform_update\<close> saves what the serializer has validated, without
  \<open>full_clean\<close> and so without \<open>clean\<close>. \<open>data\<close> is the row that results; a column the request
  leaves out has its stored value in it. The serializer keeps the student ID, the status and
  the date of graduation, and does not know the columns of the deletion.
\<close>

definition patched_student :: "student \<Rightarrow> student \<Rightarrow> student" where
  "patched_student old data =
     data\<lparr>st_student_id := st_student_id old, st_status := st_status old, st_graduated_on := st_graduated_on old,
          st_is_active := st_is_active old, st_deleted_at := st_deleted_at old\<rparr>"

definition patch_student ::
  "ctx \<Rightarrow> nat \<Rightarrow> student \<Rightarrow> string \<Rightarrow> 'a registry_db_scheme \<Rightarrow> exn + 'a registry_db_scheme" where
  "patch_student c k data audit_reason s =
     (case get_row (students s) k of
        None \<Rightarrow> Inl DoesNotExist
      | Some old \<Rightarrow>
          let st = patched_student old data in
          if st_deleted_at old \<noteq> None then Inl DoesNotExist
          else if \<not> student_fields_ok False st s \<or>
                  exists_row (\<lambda>j y. j \<noteq> k \<and> st_deleted_at y = None \<and> st_user st \<noteq> None \<and> st_user y = st_user st)
                    (students s)
          then Inl ValidationError
          else update_student c k old st audit_reason s)"

section \<open>Look-ups for other modules\<close>

text \<open>\<open>Student.objects\<close> hides deleted students.\<close>

definition get_student :: "nat \<Rightarrow> 'a registry_db_scheme \<Rightarrow> exn + student" where
  "get_student k s =
     (case get_row (students s) k of
        None \<Rightarrow> Inl DoesNotExist
      | Some st \<Rightarrow> if st_deleted_at st = None then Inr st else Inl DoesNotExist)"

definition get_programme_id :: "nat \<Rightarrow> 'a registry_db_scheme \<Rightarrow> exn + nat" where
  "get_programme_id k s = bindE (get_student k s) (\<lambda>st. Inr (st_programme st))"

definition residency_for_student :: "nat \<Rightarrow> 'a registry_db_scheme \<Rightarrow> exn + string" where
  "residency_for_student k s =
     bindE (get_student k s)
       (\<lambda>st. Inr (if st_nationality st = ''South Sudanese'' then ''local'' else ''international''))"

definition sponsor_id_for_student :: "nat \<Rightarrow> 'a registry_db_scheme \<Rightarrow> exn + nat option" where
  "sponsor_id_for_student k s = bindE (get_student k s) (\<lambda>st. Inr (st_sponsor st))"

definition current_level_for_student :: "nat \<Rightarrow> 'a registry_db_scheme \<Rightarrow> exn + nat" where
  "current_level_for_student k s = bindE (get_student k s) (\<lambda>st. Inr (st_current_level st))"

definition gender_for_student :: "nat \<Rightarrow> 'a registry_db_scheme \<Rightarrow> exn + string" where
  "gender_for_student k s = bindE (get_student k s) (\<lambda>st. Inr (st_gender st))"

definition hostel_priority_profile ::
  "nat list \<Rightarrow> 'a registry_db_scheme \<Rightarrow> (nat \<times> bool \<times> string \<times> nat) list" where
  "hostel_priority_profile ids s =
     map (\<lambda>(k, st). (k, st_has_disability st, st_state_of_origin st, st_entry_academic_year st))
       (filter_rows (\<lambda>k st. k \<in> set ids \<and> st_deleted_at st = None) (students s))"

definition is_graduated :: "nat \<Rightarrow> 'a registry_db_scheme \<Rightarrow> exn + bool" where
  "is_graduated k s = bindE (get_student k s) (\<lambda>st. Inr (st_status st = St_Graduated))"

text \<open>
  The order of the model, \<open>["last_name", "first_name"]\<close>, which every query keeps that names no
  other: texts compare by code points, and equal names stay in the order of their keys.
\<close>

definition by_name :: "student table \<Rightarrow> student table" where
  "by_name t = sort_key (\<lambda>(k, st). (st_last_name st, st_first_name st)) t"

definition active_student_contacts ::
  "nat option \<Rightarrow> 'a registry_db_scheme \<Rightarrow> (nat \<times> string \<times> string) list" where
  "active_student_contacts programme s =
     map (\<lambda>(k, st). (k, st_phone st, st_email st))
       (by_name (filter_rows (\<lambda>k st. st_deleted_at st = None \<and> st_status st = St_Active \<and>
          (case programme of None \<Rightarrow> True | Some p \<Rightarrow> st_programme st = p)) (students s)))"

definition assert_can_register :: "hold_source_provider bucket \<Rightarrow> nat \<Rightarrow> exn + unit" where
  "assert_can_register providers student_id =
     (if blocking_holds providers student_id \<noteq> [] then Inl BlockedByHold else Inr ())"

section \<open>Documents\<close>

text \<open>A file is its content; \<open>limit\<close> is the upload limit in bytes.\<close>

definition attach_document ::
  "nat \<Rightarrow> string \<Rightarrow> string \<Rightarrow> string \<Rightarrow> user option \<Rightarrow> nat \<Rightarrow> 'a registry_db_scheme
    \<Rightarrow> exn + nat \<times> 'a registry_db_scheme" where
  "attach_document student document_type title content uploaded_by limit s =
     (if limit < length content then Inl ValidationError
      else let d = \<lparr>doc_student = student, doc_type = document_type, doc_title = title, doc_file = content,
                    doc_file_size = length content, doc_content_hash = sha256 content,
                    doc_uploaded_by = actor_fk uploaded_by, doc_verified_by = None, doc_verified_at = None,
                    doc_notes = []\<rparr>
           in Inr (fresh_pk (student_documents s), s\<lparr>student_documents := add_row d (student_documents s)\<rparr>))"

definition verify_document ::
  "ctx \<Rightarrow> nat \<Rightarrow> user \<Rightarrow> string \<Rightarrow> 'a registry_db_scheme \<Rightarrow> exn + 'a registry_db_scheme" where
  "verify_document c k verified_by notes s =
     (case get_row (student_documents s) k of
        None \<Rightarrow> Inl DoesNotExist
      | Some d \<Rightarrow> Inr (s\<lparr>student_documents := put_row k
          (d\<lparr>doc_verified_by := Some (user_pk verified_by), doc_verified_at := Some (now c),
             doc_notes := (if notes = [] then doc_notes d else notes)\<rparr>) (student_documents s)\<rparr>))"

section \<open>Counts and staff\<close>

definition active_students :: "nat option \<Rightarrow> 'a registry_db_scheme \<Rightarrow> student table" where
  "active_students year s =
     filter_rows (\<lambda>_ st. st_deleted_at st = None \<and> st_status st = St_Active \<and>
       (case year of None \<Rightarrow> True | Some y \<Rightarrow> st_entry_academic_year st = y)) (students s)"

record enrollment_report =
  enr_total :: nat
  enr_by_gender :: "string \<Rightarrow> nat"
  enr_with_disability :: nat
  enr_without_disability :: nat
  enr_by_state :: "string \<Rightarrow> nat"
  enr_by_programme :: "nat \<Rightarrow> nat"

definition enrollment_counts :: "nat option \<Rightarrow> 'a registry_db_scheme \<Rightarrow> enrollment_report" where
  "enrollment_counts year s =
     (let qs = active_students year s in
      \<lparr>enr_total = length qs,
       enr_by_gender = (\<lambda>g. count_rows (\<lambda>_ st. st_gender st = g) qs),
       enr_with_disability = count_rows (\<lambda>_ st. st_has_disability st) qs,
       enr_without_disability = count_rows (\<lambda>_ st. \<not> st_has_disability st) qs,
       enr_by_state = (\<lambda>g. count_rows (\<lambda>_ st. st_state_of_origin st = g) qs),
       enr_by_programme = (\<lambda>p. count_rows (\<lambda>_ st. st_programme st = p) qs)\<rparr>)"

definition staff_student_ratio :: "'a registry_db_scheme \<Rightarrow> nat \<times> nat \<times> rat option" where
  "staff_student_ratio s =
     (let n = length (active_students None s);
          m = count_rows (\<lambda>_ p. sp_deleted_at p = None \<and> sp_is_active p) (staff_profiles s)
      in (n, m, if m = 0 then None else Some (of_nat n / of_nat m)))"

definition staff_profile_clean :: "staff_profile \<Rightarrow> exn + unit" where
  "staff_profile_clean p =
     (case (sp_date_of_hire p, sp_contract_end_date p) of
        (Some a, Some b) \<Rightarrow> if b \<le> a then Inl ValidationError
          else ensure (sp_staff_category p = ''academic'' \<or> sp_rank p \<in> {''not_applicable'', []}) ValidationError
      | _ \<Rightarrow> ensure (sp_staff_category p = ''academic'' \<or> sp_rank p \<in> {''not_applicable'', []}) ValidationError)"

section \<open>What creation and status changes do\<close>

lemma insert_student_Inr:
  assumes "insert_student c st reason s = Inr (k, s')"
  obtains tr where "s' = s\<lparr>students := add_row st (students s), audit_log := tr\<rparr>" and "k = fresh_pk (students s)"
    and "audit_ext (audit_log s) tr" and "student_unique None st s"
  using assms by (auto simp: insert_student_def Let_def bindE_eq_Inr split: if_splits elim!: audit_saveE)

lemma update_student_Inr:
  assumes "update_student c k old st reason s = Inr s'"
  obtains tr where "s' = s\<lparr>students := put_row k st (students s), audit_log := tr\<rparr>"
    and "audit_ext (audit_log s) tr" and "student_unique (Some k) st s"
  using assms by (auto simp: update_student_def split: if_splits elim!: audit_saveE)

lemma generate_student_id_state:
  "generate_student_id p y s = Inr (i, s') \<Longrightarrow> s' = s\<lparr>id_sequences := id_sequences s'\<rparr>"
  by (auto simp: generate_student_id_def bindE_eq_Inr Let_def split_beta) (subst allocate_eq, simp)

lemma enroll_row_Inr:
  assumes "enroll_row c st actor reason s = Inr (k, s')"
  obtains h tr where
    "s' = s\<lparr>students := add_row st (students s), audit_log := tr,
            status_histories := add_row h (status_histories s)\<rparr>"
    and "k = fresh_pk (students s)" and "audit_ext (audit_log s) tr"
    and "student_unique None st s" and "student_full_clean True None st s = Inr ()"
    and "hist_student h = k" and "hist_from h = None" and "hist_to h = st_status st" and "hist_reason h \<noteq> []"
proof -
  from assms obtain s2 h where clean: "student_full_clean True None st s = Inr ()"
    and ins: "insert_student c st (if reason = [] then ''Student record created'' else reason) s = Inr (k, s2)"
    and s': "s' = add_history h s2"
    and h: "hist_student h = k" "hist_from h = None" "hist_to h = st_status st" "hist_reason h \<noteq> []"
    unfolding enroll_row_def by (auto simp: bindE_eq_Inr simp del: if_split_eq1)
  from ins show thesis by (rule insert_student_Inr) (rule that, auto simp: s' add_history_def clean h)
qed

lemma create_student_Inr:
  assumes "create_student c p y fn lname g actor sid reason extra s = Inr (k, s')"
  obtains st h seqs tr where
    "s' = s\<lparr>id_sequences := seqs, students := add_row st (students s), audit_log := tr,
            status_histories := add_row h (status_histories s)\<rparr>"
    and "k = fresh_pk (students s)" and "audit_ext (audit_log s) tr"
    and "student_unique None st s" and "student_full_clean True None st (s\<lparr>id_sequences := seqs\<rparr>) = Inr ()"
    and "hist_student h = k" and "hist_from h = None" and "hist_to h = st_status st" and "hist_reason h \<noteq> []"
    and "st_programme st = p" and "st_status st = st_status extra" and "st_deleted_at st = st_deleted_at extra"
    and "st_user st = st_user extra" and "st_entry_academic_year st = y" and "st_gender st = g"
    and "st_first_name st = strip fn" and "st_last_name st = strip lname"
    and "st_national_id_number st = st_national_id_number extra"
proof -
  obtain i s1 where ids: "(if sid = None \<or> sid = Some []
            then bindE (academic_year_name y s) (\<lambda>name. generate_student_id p name s)
            else Inr (the sid, s)) = Inr (i, s1)"
    and r: "enroll_row c (extra\<lparr>st_student_id := i, st_programme := p,
                         st_entry_academic_year := y, st_first_name := strip fn,
                         st_last_name := strip lname, st_gender := g,
                         st_admitted_on := Some (case st_admitted_on extra of None \<Rightarrow> today c | Some d \<Rightarrow> d)\<rparr>)
      actor reason s1 = Inr (k, s')" (is "enroll_row c ?st _ _ _ = _")
    by (rule bindE_pairE [OF assms [unfolded create_student_def]])
  have "s1 = s\<lparr>id_sequences := id_sequences s1\<rparr>"
    using ids generate_student_id_state [of p _ s i s1] by (auto simp: bindE_eq_Inr split: if_splits)
  then obtain seqs where s1: "s1 = s\<lparr>id_sequences := seqs\<rparr>" by blast
  from r show thesis
    by (rule enroll_row_Inr) (rule that [where st = ?st and seqs = seqs], auto simp: s1 student_unique_def)
qed

lemma with_status_sel [simp]:
  "st_status (with_status new eff st) = new" "st_student_id (with_status new eff st) = st_student_id st"
  "st_programme (with_status new eff st) = st_programme st" "st_user (with_status new eff st) = st_user st"
  "st_deleted_at (with_status new eff st) = st_deleted_at st"
  by (simp_all add: with_status_def)

lemma write_status_Inr:
  assumes "write_status c k st new reason actor eff ref s = Inr s'"
  obtains h tr where
    "s' = s\<lparr>students := put_row k (with_status new eff st) (students s), audit_log := tr,
            status_histories := add_row h (status_histories s)\<rparr>"
    and "audit_ext (audit_log s) tr" and "student_full_clean True (Some k) (with_status new eff st) s = Inr ()"
    and "hist_student h = k" and "hist_from h = Some (st_status st)" and "hist_to h = new" and "hist_reason h = reason"
proof -
  from assms obtain s1 h where clean: "student_full_clean True (Some k) (with_status new eff st) s = Inr ()"
    and u: "update_student c k st (with_status new eff st) reason s = Inr s1" and s': "s' = add_history h s1"
    and h: "hist_student h = k" "hist_from h = Some (st_status st)" "hist_to h = new" "hist_reason h = reason"
    unfolding write_status_def Let_def by (elim bindE_InrE) auto
  from u show thesis
    by (rule update_student_Inr) (rule that, auto simp: s' add_history_def clean h)
qed

lemma change_status_Inr:
  assumes "change_status c k new reason actor eff ref s = Inr s'"
  obtains st where "get_row (students s) k = Some st" and "nonblank reason" and "new = st_status st" and "s' = s"
  | st where "get_row (students s) k = Some st" and "nonblank reason"
    and "st_status st \<notin> set TERMINAL_STATUSES" and "new \<in> set (student_transitions (st_status st))"
    and "write_status c k st new reason actor (case eff of None \<Rightarrow> today c | Some d \<Rightarrow> d) ref s = Inr s'"
proof -
  from assms obtain st where st: "get_row (students s) k = Some st" and ne: "nonblank reason"
    by (cases "get_row (students s) k"; cases "nonblank reason") (simp_all add: change_status_def)
  show thesis
    using assms st ne that(1) [OF st ne] that(2) [OF st ne]
    by (cases "new = st_status st"; cases "st_status st \<in> set TERMINAL_STATUSES";
        cases "new \<in> set (student_transitions (st_status st))") (simp_all add: change_status_def)
qed

section \<open>Invariants\<close>

definition student_ids_unique :: "'a registry_db_scheme \<Rightarrow> bool" where
  "student_ids_unique s \<longleftrightarrow> wf_table (students s) \<and>
     (\<forall>k k' a b. get_row (students s) k = Some a \<longrightarrow> get_row (students s) k' = Some b \<longrightarrow>
        st_student_id a = st_student_id b \<longrightarrow> k = k')"

definition history_of :: "nat \<Rightarrow> 'a registry_db_scheme \<Rightarrow> status_history list" where
  "history_of k s = map snd (filter_rows (\<lambda>_ h. hist_student h = k) (status_histories s))"

fun history_chain :: "student_status option \<Rightarrow> status_history list \<Rightarrow> bool" where
  "history_chain from [] = True"
| "history_chain from (h # hs) = (hist_from h = from \<and> hist_reason h \<noteq> [] \<and> history_chain (Some (hist_to h)) hs)"

definition history_end :: "student_status option \<Rightarrow> status_history list \<Rightarrow> student_status option" where
  "history_end from hs = (if hs = [] then from else Some (hist_to (last hs)))"

definition history_ok :: "'a registry_db_scheme \<Rightarrow> bool" where
  "history_ok s \<longleftrightarrow>
     (\<forall>k st. get_row (students s) k = Some st \<longrightarrow>
        history_chain None (history_of k s) \<and> history_end None (history_of k s) = Some (st_status st)) \<and>
     (\<forall>k. get_row (students s) k = None \<longrightarrow> history_of k s = [])"

lemma history_end_simps [simp]:
  "history_end from [] = from" "history_end from (hs @ [h]) = Some (hist_to h)"
  by (simp_all add: history_end_def)

lemma history_chain_snoc:
  "history_chain from (hs @ [h]) \<longleftrightarrow> history_chain from hs \<and> hist_from h = history_end from hs \<and> hist_reason h \<noteq> []"
  by (induction hs arbitrary: "from") (auto simp: history_end_def)

lemma history_of_add:
  "history_of k (s\<lparr>status_histories := add_row h (status_histories s0)\<rparr>) =
     (map snd (filter_rows (\<lambda>_ h. hist_student h = k) (status_histories s0))) @ (if hist_student h = k then [h] else [])"
  by (simp add: history_of_def filter_rows_def add_row_def)

text \<open>The operations of the registry that touch a student's record.\<close>

inductive registry_step :: "'a registry_db_scheme \<Rightarrow> 'a registry_db_scheme \<Rightarrow> bool" where
  Create: "create_student c p y fn lname g actor sid reason extra s = Inr (k, s') \<Longrightarrow> registry_step s s'"
| Change: "change_status c k new reason actor eff ref s = Inr s' \<Longrightarrow> registry_step s s'"
| Patch: "patch_student c k data reason s = Inr s' \<Longrightarrow> registry_step s s'"

text \<open>An edit writes one row, which keeps the student ID, the status and the deletion mark.\<close>

lemma patch_student_Inr:
  assumes "patch_student c k data reason s = Inr s'"
  obtains old st tr where "get_row (students s) k = Some old" and "st = patched_student old data"
    and "s' = s\<lparr>students := put_row k st (students s), audit_log := tr\<rparr>"
    and "st_student_id st = st_student_id old" and "st_status st = st_status old"
    and "st_deleted_at st = st_deleted_at old"
proof -
  from assms obtain old where old: "get_row (students s) k = Some old"
    and u: "update_student c k old (patched_student old data) reason s = Inr s'"
    unfolding patch_student_def Let_def by (auto split: option.splits if_splits)
  from u show thesis
    by (rule update_student_Inr) (rule that [OF old refl], auto simp: patched_student_def)
qed

lemma registry_step_ids:
  assumes "registry_step s s'" and "student_ids_unique s"
  shows "student_ids_unique s'"
  using assms(1)
proof cases
  case (Create c p y fn lname g actor sid reason extra k)
  then obtain st h seqs tr where
    s': "s' = s\<lparr>id_sequences := seqs, students := add_row st (students s), audit_log := tr,
            status_histories := add_row h (status_histories s)\<rparr>" and u: "student_unique None st s"
    by (rule create_student_Inr)
  have "st_student_id a \<noteq> st_student_id st" if "get_row (students s) j = Some a" for j a
    using u get_row_in_set [OF that] by (force simp: student_unique_def exists_row_iff)
  then have "st_student_id st \<noteq> st_student_id a" if "get_row (students s) j = Some a" for j a
    using that by metis
  with assms(2) show ?thesis by (auto simp: student_ids_unique_def s' get_add_row) metis+
next
  case (Change c k new reason actor eff ref)
  then show ?thesis
  proof (cases rule: change_status_Inr)
    case (2 st)
    from 2(5) obtain h tr where "s' = s\<lparr>students := put_row k (with_status new
        (case eff of None \<Rightarrow> today c | Some d \<Rightarrow> d) st) (students s), audit_log := tr,
        status_histories := add_row h (status_histories s)\<rparr>" by (rule write_status_Inr)
    then have "students s' = put_row k (with_status new (case eff of None \<Rightarrow> today c | Some d \<Rightarrow> d) st) (students s)"
      by simp
    then show ?thesis using assms(2) 2(1)
      by (auto simp: student_ids_unique_def get_put_row split: if_splits)
  qed (use assms(2) in simp)
next
  case (Patch c k data reason)
  then obtain old st tr where "get_row (students s) k = Some old" "st_student_id st = st_student_id old"
    "s' = s\<lparr>students := put_row k st (students s), audit_log := tr\<rparr>" by (rule patch_student_Inr)
  then show ?thesis using assms(2)
    by (auto simp: student_ids_unique_def get_put_row split: if_splits)
qed

lemma registry_step_history:
  assumes "registry_step s s'" and "history_ok s"
  shows "history_ok s'"
  using assms(1)
proof cases
  case (Create c p y fn lname g actor sid reason extra k)
  then obtain st h seqs tr where
    s': "s' = s\<lparr>id_sequences := seqs, students := add_row st (students s), audit_log := tr,
            status_histories := add_row h (status_histories s)\<rparr>"
      and k: "k = fresh_pk (students s)" and h: "hist_student h = k" "hist_from h = None" "hist_to h = st_status st"
        "hist_reason h \<noteq> []"
    by (rule create_student_Inr)
  have hist: "history_of j s' = history_of j s @ (if j = k then [h] else [])" for j
    using h(1) by (auto simp: s' history_of_def filter_rows_def add_row_def)
  have studs: "students s' = add_row st (students s)" by (simp add: s')
  have "history_of k s = []" using assms(2) k by (simp add: history_ok_def)
  with assms(2) h k show ?thesis
    unfolding history_ok_def hist studs get_add_row using history_end_simps(2) [of None "[]" h] by auto
next
  case (Change c k new reason actor eff ref)
  then show ?thesis
  proof (cases rule: change_status_Inr)
    case (2 st)
    let ?st' = "with_status new (case eff of None \<Rightarrow> today c | Some d \<Rightarrow> d) st"
    from 2(5) obtain h tr where s': "s' = s\<lparr>students := put_row k ?st' (students s), audit_log := tr,
        status_histories := add_row h (status_histories s)\<rparr>"
      and h: "hist_student h = k" "hist_from h = Some (st_status st)" "hist_to h = new" "hist_reason h = reason"
      by (rule write_status_Inr)
    have hist: "history_of j s' = history_of j s @ (if j = k then [h] else [])" for j
      using h(1) by (auto simp: s' history_of_def filter_rows_def add_row_def)
    have studs: "students s' = put_row k ?st' (students s)" using s' by simp
    have "hist_reason h \<noteq> []" using 2(2) h by auto
    then show ?thesis using assms(2) 2(1) h
      unfolding history_ok_def hist studs get_put_row by (auto simp: history_chain_snoc)
  qed (use assms(2) in simp)
next
  case (Patch c k data reason)
  then obtain old st tr where st: "get_row (students s) k = Some old" "st_status st = st_status old"
    and s': "s' = s\<lparr>students := put_row k st (students s), audit_log := tr\<rparr>" by (rule patch_student_Inr)
  have "history_of j s' = history_of j s" for j by (simp add: s' history_of_def)
  then show ?thesis using assms(2) st by (auto simp: history_ok_def s' get_put_row)
qed

section \<open>The status machine of a student\<close>

definition student_status_of :: "'a registry_db_scheme \<Rightarrow> nat \<Rightarrow> student_status option" where
  "student_status_of s k = map_option st_status (get_row (students s) k)"

lemma registry_step_status:
  assumes "registry_step s s'" and "student_status_of s k = Some x"
  shows "\<exists>y. student_status_of s' k = Some y \<and> (y = x \<or> y \<in> set (student_transitions x))"
  using assms(1)
proof cases
  case (Create c p y fn lname g actor sid reason extra k')
  then obtain st h seqs tr where
    "s' = s\<lparr>id_sequences := seqs, students := add_row st (students s), audit_log := tr,
            status_histories := add_row h (status_histories s)\<rparr>"
    by (rule create_student_Inr)
  then have "students s' = add_row st (students s)" by simp
  with assms(2) show ?thesis by (auto simp: student_status_of_def get_add_row)
next
  case (Change c k' new reason actor eff ref)
  then show ?thesis
  proof (cases rule: change_status_Inr)
    case (2 st)
    from 2(5) obtain h tr where "s' = s\<lparr>students := put_row k' (with_status new
        (case eff of None \<Rightarrow> today c | Some d \<Rightarrow> d) st) (students s), audit_log := tr,
        status_histories := add_row h (status_histories s)\<rparr>" by (rule write_status_Inr)
    then have "students s' = put_row k' (with_status new (case eff of None \<Rightarrow> today c | Some d \<Rightarrow> d) st) (students s)"
      by simp
    with assms(2) 2(1,4) show ?thesis by (auto simp: student_status_of_def get_put_row)
  qed (use assms(2) in simp)
next
  case (Patch c k' data reason)
  then obtain old st tr where "get_row (students s) k' = Some old" "st_status st = st_status old"
    "s' = s\<lparr>students := put_row k' st (students s), audit_log := tr\<rparr>" by (rule patch_student_Inr)
  with assms(2) show ?thesis by (auto simp: student_status_of_def get_put_row)
qed

interpretation student_machine: status_machine student_status_of student_transitions registry_step
  by unfold_locales (rule registry_step_status)

lemma registry_steps_ids: "registry_step\<^sup>*\<^sup>* s s' \<Longrightarrow> student_ids_unique s \<Longrightarrow> student_ids_unique s'"
  by (induction rule: rtranclp_induct) (auto intro: registry_step_ids)

lemma registry_steps_history: "registry_step\<^sup>*\<^sup>* s s' \<Longrightarrow> history_ok s \<Longrightarrow> history_ok s'"
  by (induction rule: rtranclp_induct) (auto intro: registry_step_history)

text \<open>
  C9. The registry keeps its invariants. However many students are created, edited and given
  another status, no two rows (deleted ones included) share a student ID, and the status history of
  every student is one unbroken chain from admission to the current status with a reason for
  every change.
\<close>

theorem registry_invariants:
  assumes "registry_step\<^sup>*\<^sup>* s s'" and "student_ids_unique s" and "history_ok s"
  shows "student_ids_unique s' \<and> history_ok s'"
  using assms registry_steps_ids registry_steps_history by blast

text \<open>
  Graduation and expulsion are final: a student whose status is terminal has the same
  status after any further operations of the registry.
\<close>

theorem terminal_status_final:
  assumes "registry_step\<^sup>*\<^sup>* s s'" and "get_row (students s) k = Some st"
    and "st_status st \<in> set TERMINAL_STATUSES"
  shows "\<exists>st'. get_row (students s') k = Some st' \<and> st_status st' = st_status st"
proof -
  have "student_transitions (st_status st) = []" using assms(3) by (auto simp: TERMINAL_STATUSES_def)
  with student_machine.terminal_stays [OF assms(1), of k "st_status st"] assms(2)
  show ?thesis by (auto simp: student_status_of_def)
qed

section \<open>The bulk import\<close>

definition lower_char :: "char \<Rightarrow> char" where
  "lower_char ch = (let n = of_char ch :: nat in if 65 \<le> n \<and> n \<le> 90 then char_of (n + 32) else ch)"

definition row_get :: "(string \<times> string) list \<Rightarrow> string \<Rightarrow> string" where
  "row_get row field = (case map_of row field of None \<Rightarrow> [] | Some v \<Rightarrow> v)"

text \<open>
  \<open>_resolve_import_row\<close>: the resolved keyword arguments as a row and the student ID that was
  supplied, or the fields in error. A date that cannot be parsed fails in \<open>full_clean\<close>.
\<close>

definition import_candidate ::
  "ctx \<Rightarrow> (string \<times> string) list \<Rightarrow> nat \<Rightarrow> nat \<Rightarrow> nat option \<Rightarrow> student" where
  "import_candidate c row programme_id year_id version_id =
     (let val = (\<lambda>f. strip (row_get row f)) in
      blank_student
        \<lparr>st_student_id := val ''student_id'', st_programme := programme_id, st_entry_academic_year := year_id,
         st_curriculum_version := version_id,
         st_first_name := val ''first_name'', st_last_name := val ''last_name'', st_gender := val ''gender'',
         st_middle_name := val ''middle_name'', st_date_of_birth := parse_date c (val ''date_of_birth''),
         st_national_id_number := val ''national_id_number'', st_state_of_origin := val ''state_of_origin'',
         st_nationality := (if row_get row ''nationality'' = [] then ''South Sudanese'' else val ''nationality''),
         st_phone := val ''phone'', st_email := val ''email'',
         st_has_disability := map lower_char (val ''has_disability'') \<in> {''1'', ''true'', ''yes''},
         st_disability_details := val ''disability_details'', st_admitted_on := Some (today c)\<rparr>)"

definition resolve_import_row ::
  "ctx \<Rightarrow> (string \<times> string) list \<Rightarrow> 'a registry_db_scheme \<Rightarrow> string list + student" where
  "resolve_import_row c row s =
     (let val = (\<lambda>f. strip (row_get row f));
          code = val ''programme_code''; year = val ''entry_academic_year''; version = val ''curriculum_version'';
          pid = (if code = [] then None else programme_id_for_code code s);
          yid = (if year = [] then None else academic_year_id_for_name year s);
          vid = (if version = [] then None
                 else case pid of None \<Rightarrow> None | Some p \<Rightarrow> curriculum_version_id_for p version s);
          errors = filter (\<lambda>f. val f = []) [''first_name'', ''last_name'', ''gender''] @
                   (if pid = None then [''programme_code''] else []) @
                   (if yid = None then [''entry_academic_year''] else []) @
                   (if version \<noteq> [] \<and> vid = None then [''curriculum_version''] else [])
      in if errors \<noteq> [] then Inl errors
         else let st = import_candidate c row (the pid) (the yid) vid in
           if val ''date_of_birth'' \<noteq> [] \<and> st_date_of_birth st = None then Inl [''date_of_birth'']
           else case student_full_clean (st_student_id st \<noteq> []) None st s of
                  Inl e \<Rightarrow> Inl [''__all__''] | Inr u \<Rightarrow> Inr st)"

fun resolve_rows ::
  "ctx \<Rightarrow> nat \<Rightarrow> (string \<times> string) list list \<Rightarrow> 'a registry_db_scheme
    \<Rightarrow> (nat \<times> student) list \<times> (nat \<times> string list) list" where
  "resolve_rows c index [] s = ([], [])"
| "resolve_rows c index (row # rows) s =
     (let (resolved, errors) = resolve_rows c (Suc index) rows s in
      case resolve_import_row c row s of
        Inl e \<Rightarrow> (resolved, (index, e) # errors)
      | Inr st \<Rightarrow> ((index, st) # resolved, errors))"

text \<open>Rows that repeat the student ID of an earlier row of the batch.\<close>

fun drop_duplicates ::
  "string list \<Rightarrow> (nat \<times> student) list \<Rightarrow> (nat \<times> student) list \<times> (nat \<times> string list) list" where
  "drop_duplicates seen [] = ([], [])"
| "drop_duplicates seen ((index, st) # rest) =
     (if st_student_id st = [] then
        (let (kept, errors) = drop_duplicates seen rest in ((index, st) # kept, errors))
      else if st_student_id st \<in> set seen then
        (let (kept, errors) = drop_duplicates seen rest in (kept, (index, [''student_id'']) # errors))
      else
        (let (kept, errors) = drop_duplicates (st_student_id st # seen) rest in ((index, st) # kept, errors)))"

fun create_all ::
  "ctx \<Rightarrow> user option \<Rightarrow> string \<Rightarrow> (nat \<times> student) list \<Rightarrow> 'a registry_db_scheme
    \<Rightarrow> exn + nat list \<times> 'a registry_db_scheme" where
  "create_all c actor reason [] s = Inr ([], s)"
| "create_all c actor reason ((index, st) # rest) s =
     bindE (create_student c (st_programme st) (st_entry_academic_year st) (st_first_name st) (st_last_name st)
              (st_gender st) actor (if st_student_id st = [] then None else Some (st_student_id st)) reason
              (st\<lparr>st_admitted_on := None\<rparr>) s)
       (\<lambda>(k, s1). bindE (create_all c actor reason rest s1) (\<lambda>(ks, s2). Inr (k # ks, s2)))"

record import_report =
  imp_total :: nat
  imp_valid :: nat
  imp_created :: nat
  imp_errors :: "(nat \<times> string list) list"

definition import_students ::
  "ctx \<Rightarrow> (string \<times> string) list list \<Rightarrow> bool \<Rightarrow> user option \<Rightarrow> string \<Rightarrow> 'a registry_db_scheme
    \<Rightarrow> exn + import_report \<times> 'a registry_db_scheme" where
  "import_students c rows commit actor reason s =
     (let (resolved, errors1) = resolve_rows c 1 rows s;
          (kept, errors2) = drop_duplicates [] resolved;
          errors = errors1 @ errors2
      in if errors \<noteq> [] \<or> \<not> commit
         then Inr (\<lparr>imp_total = length rows, imp_valid = length kept, imp_created = 0, imp_errors = errors\<rparr>, s)
         else bindE (create_all c actor (if reason = [] then ''Bulk legacy import'' else reason) kept s)
           (\<lambda>(ks, s'). Inr (\<lparr>imp_total = length rows, imp_valid = length kept, imp_created = length ks,
                             imp_errors = []\<rparr>, s')))"

lemma create_all_steps:
  "create_all c actor reason xs s = Inr (ks, s') \<Longrightarrow>
   registry_step\<^sup>*\<^sup>* s s' \<and> length ks = length xs \<and> length (students s') = length (students s) + length xs"
proof (induction xs arbitrary: s ks)
  case (Cons x xs)
  obtain i st where x: "x = (i, st)" by (cases x)
  from Cons.prems obtain k s1 ks' where
    1: "create_student c (st_programme st) (st_entry_academic_year st) (st_first_name st) (st_last_name st)
              (st_gender st) actor (if st_student_id st = [] then None else Some (st_student_id st)) reason
              (st\<lparr>st_admitted_on := None\<rparr>) s = Inr (k, s1)"
    and 2: "create_all c actor reason xs s1 = Inr (ks', s')" and ks: "ks = k # ks'"
    unfolding x create_all.simps by (elim bindE_pairE) auto
  from 1 obtain st' h seqs tr where "s1 = s\<lparr>id_sequences := seqs, students := add_row st' (students s), audit_log := tr,
            status_histories := add_row h (status_histories s)\<rparr>" by (rule create_student_Inr)
  then have "length (students s1) = Suc (length (students s))" by (simp add: add_row_def)
  moreover have "registry_step s s1" using 1 by (rule registry_step.Create)
  ultimately show ?case using Cons.IH [OF 2] ks
    by (auto intro: converse_rtranclp_into_rtranclp [of registry_step s s1])
qed simp

lemma resolve_rows_length:
  "resolve_rows c i rows s = (resolved, errors) \<Longrightarrow> length resolved + length errors = length rows"
  by (induction rows arbitrary: i resolved errors) (auto simp: Let_def split_beta split: sum.splits)

lemma drop_duplicates_length:
  "drop_duplicates seen xs = (kept, errors) \<Longrightarrow> length kept + length errors = length xs"
proof (induction seen xs arbitrary: kept errors rule: drop_duplicates.induct)
  case (2 seen index st rest)
  then show ?case by (fastforce simp: split_beta split: if_splits)
qed simp

text \<open>
  The bulk import is all or nothing. A run that returns either reports at least one error
  or is a dry run, and has then changed nothing and created nobody; or it reports no error
  and has created exactly one student per row of the batch, by steps that keep the
  invariants of the registry.
\<close>

theorem import_all_or_nothing:
  assumes "import_students c rows commit actor reason s = Inr (rep, s')"
  shows "(imp_created rep = 0 \<and> s' = s \<and> (imp_errors rep \<noteq> [] \<or> \<not> commit)) \<or>
    (commit \<and> imp_errors rep = [] \<and> imp_created rep = length rows \<and> imp_valid rep = length rows \<and>
     length (students s') = length (students s) + length rows \<and> registry_step\<^sup>*\<^sup>* s s')"
proof -
  obtain resolved errors1 where r: "resolve_rows c 1 rows s = (resolved, errors1)" by (rule prod.exhaust)
  obtain kept errors2 where d: "drop_duplicates [] resolved = (kept, errors2)" by (rule prod.exhaust)
  show ?thesis
  proof (cases "errors1 @ errors2 \<noteq> [] \<or> \<not> commit")
    case True
    with assms r d show ?thesis by (auto simp: import_students_def Let_def)
  next
    case False
    then have len: "length kept = length rows"
      using resolve_rows_length [OF r] drop_duplicates_length [OF d] by simp
    from False assms r d obtain ks where
      ks: "create_all c actor (if reason = [] then ''Bulk legacy import'' else reason) kept s = Inr (ks, s')"
      and rep: "rep = \<lparr>imp_total = length rows, imp_valid = length kept, imp_created = length ks, imp_errors = []\<rparr>"
      by (auto simp: import_students_def Let_def elim!: bindE_pairE)
    from create_all_steps [OF ks] len rep False show ?thesis by simp
  qed
qed

section \<open>The sync handler for new students\<close>

text \<open>
  Payload values as the model's fields take them: \<open>str\<close> columns, integers and foreign keys
  (numbers or numeric text), booleans. A missing key is \<open>None\<close>.
\<close>

definition payload_get :: "(string \<times> pyval) list \<Rightarrow> string \<Rightarrow> pyval" where
  "payload_get payload key = (case map_of payload key of None \<Rightarrow> VNone | Some v \<Rightarrow> v)"

fun falsy :: "pyval \<Rightarrow> bool" where
  "falsy VNone = True"
| "falsy (VStr s) = (s = [])"
| "falsy (VInt i) = (i = 0)"
| "falsy (VBool b) = (\<not> b)"
| "falsy (VDec q) = (q = 0)"
| "falsy (VText s) = (s = [])"

text \<open>\<open>int(value)\<close> for JSON values, and the key lookup it feeds.\<close>

fun py_int :: "pyval \<Rightarrow> exn + int" where
  "py_int (VInt i) = Inr i"
| "py_int (VBool b) = Inr (if b then 1 else 0)"
| "py_int (VStr s) =
     (let t = strip s; neg = (t \<noteq> [] \<and> hd t = CHR ''-'');
          ds = (if t \<noteq> [] \<and> (hd t = CHR ''-'' \<or> hd t = CHR ''+'') then tl t else t) in
      if ds = [] \<or> \<not> list_all is_digit ds then Inl ValueError
      else Inr (if neg then - int (digits_value ds) else int (digits_value ds)))"
| "py_int (VDec q) = Inr (if 0 \<le> q then \<lfloor>q\<rfloor> else \<lceil>q\<rceil>)"
| "py_int v = Inl UnexpectedError"

definition py_key :: "pyval \<Rightarrow> exn + nat" where
  "py_key v = bindE (py_int v) (\<lambda>i. if i \<le> 0 then Inl DoesNotExist else Inr (nat i))"

fun payload_text :: "string \<Rightarrow> pyval \<Rightarrow> exn + string" where
  "payload_text dflt VNone = Inr dflt"
| "payload_text dflt (VStr s) = Inr s"
| "payload_text dflt v = Inr (case stringify v of None \<Rightarrow> [] | Some t \<Rightarrow> t)"

fun payload_date :: "ctx \<Rightarrow> pyval \<Rightarrow> exn + int option" where
  "payload_date c VNone = Inr None"
| "payload_date c (VStr s) =
     (if s = [] then Inr None else case parse_date c s of None \<Rightarrow> Inl ValidationError | Some d \<Rightarrow> Inr (Some d))"
| "payload_date c v = Inl ValidationError"

definition STUDENT_REQUIRED_FIELDS :: "string list" where
  "STUDENT_REQUIRED_FIELDS = [''programme_id'', ''entry_academic_year_id'', ''first_name'', ''last_name'', ''gender'']"

definition payload_key_opt :: "pyval \<Rightarrow> exn + nat option" where
  "payload_key_opt v = (if v = VNone then Inr None else bindE (py_key v) (\<lambda>k. Inr (Some k)))"

text \<open>The optional columns of the payload, on top of the defaults.\<close>

definition payload_student :: "ctx \<Rightarrow> (string \<times> pyval) list \<Rightarrow> exn + student" where
  "payload_student c p =
     bindE (payload_text [] (payload_get p ''middle_name'')) (\<lambda>middle.
     bindE (payload_text [] (payload_get p ''national_id_number'')) (\<lambda>nid.
     bindE (payload_text ''South Sudanese'' (payload_get p ''nationality'')) (\<lambda>nationality.
     bindE (payload_text [] (payload_get p ''state_of_origin'')) (\<lambda>state.
     bindE (payload_text [] (payload_get p ''disability_details'')) (\<lambda>details.
     bindE (payload_text [] (payload_get p ''phone'')) (\<lambda>phone.
     bindE (payload_text [] (payload_get p ''email'')) (\<lambda>email.
     bindE (payload_text ''self'' (payload_get p ''sponsorship_type'')) (\<lambda>sponsorship.
     bindE (payload_key_opt (payload_get p ''sponsor_id'')) (\<lambda>sponsor.
     bindE (payload_key_opt (payload_get p ''curriculum_version_id'')) (\<lambda>version.
     bindE (case payload_get p ''current_level'' of VNone \<Rightarrow> Inr 1 | v \<Rightarrow> py_key v) (\<lambda>level.
     bindE (payload_date c (payload_get p ''date_of_birth'')) (\<lambda>dob.
     bindE (payload_date c (payload_get p ''admitted_on'')) (\<lambda>admitted.
     bindE (payload_text [] (payload_get p ''passport_number'')) (\<lambda>passport.
     bindE (payload_text [] (payload_get p ''county'')) (\<lambda>county.
     bindE (payload_text [] (payload_get p ''alternate_phone'')) (\<lambda>phone2.
     bindE (payload_text [] (payload_get p ''physical_address'')) (\<lambda>address.
     bindE (payload_text [] (payload_get p ''previous_institution'')) (\<lambda>school.
     bindE (payload_text [] (payload_get p ''previous_qualification'')) (\<lambda>qualification.
     Inr (blank_student
       \<lparr>st_middle_name := middle, st_national_id_number := nid, st_nationality := nationality,
        st_state_of_origin := state, st_disability_details := details, st_phone := phone, st_email := email,
        st_sponsorship_type := sponsorship, st_sponsor := sponsor, st_curriculum_version := version,
        st_current_level := level, st_date_of_birth := dob, st_admitted_on := admitted,
        st_passport_number := passport, st_county := county, st_alternate_phone := phone2,
        st_physical_address := address, st_previous_institution := school,
        st_previous_qualification := qualification,
        st_has_disability := (payload_get p ''has_disability'' = VBool True)\<rparr>))))))))))))))))))))"

definition synced_student_result :: "nat \<Rightarrow> 'a registry_db_scheme \<Rightarrow> sync_result" where
  "synced_student_result k s =
     (let st = (case get_row (students s) k of None \<Rightarrow> blank_student | Some x \<Rightarrow> x) in
      \<lparr>sr_fields = [(''id'', VInt (int k)), (''student_id'', VStr (st_student_id st)),
                    (''full_name'', VStr (student_full_name st))],
       sr_overwrote = [], sr_target = Some (student_meta, k)\<rparr>)"

definition student_create_apply ::
  "ctx \<Rightarrow> sync_input \<Rightarrow> user \<Rightarrow> 'a registry_db_scheme \<Rightarrow> exn + sync_result \<times> 'a registry_db_scheme" where
  "student_create_apply c op actor s =
     (let p = in_payload op in
      if list_ex (\<lambda>f. falsy (payload_get p f)) STUDENT_REQUIRED_FIELDS then Inl ValidationError
      else bindE (payload_text [] (payload_get p ''national_id_number'')) (\<lambda>nid0.
        let nid = strip nid0 in
        case (if nid = [] then None else first_row (\<lambda>_ st. st_national_id_number st = nid) (by_name (students s))) of
          Some (k, st) \<Rightarrow>
            Inl (SyncConflictDetected ''national_id_number''
                   (VStr (st_student_id st @ '' ('' @ student_full_name st @ '')''))
                   (VStr (conflict_text (payload_get p ''first_name'') @ '' '' @ conflict_text (payload_get p ''last_name'')))
                   None (Some (mm_label student_meta, k)))
        | None \<Rightarrow>
            bindE (payload_student c p) (\<lambda>extra.
            bindE (py_key (payload_get p ''programme_id'')) (\<lambda>pid.
            bindE (py_key (payload_get p ''entry_academic_year_id'')) (\<lambda>yid.
            bindE (payload_text [] (payload_get p ''first_name'')) (\<lambda>first.
            bindE (payload_text [] (payload_get p ''last_name'')) (\<lambda>lname.
            bindE (payload_text [] (payload_get p ''gender'')) (\<lambda>gender.
            bindE (payload_text [] (payload_get p ''student_id'')) (\<lambda>sid.
            bindE (create_student c pid yid first lname gender (Some actor) (if sid = [] then None else Some sid)
                     (''Created offline on device '' @ CHR 0x27 # (if in_device_id op = [] then ''unknown'' else in_device_id op) @
                      CHR 0x27 # '' and synced (op '' @ in_client_op_id op @ '').'') extra s)
              (\<lambda>(k, s'). Inr (synced_student_result k s', s')))))))))))"

definition StudentCreateHandler :: "ctx \<Rightarrow> 'a registry_db_scheme sync_handler" where
  "StudentCreateHandler c =
     \<lparr>sh_entity = ''registry.student'', sh_actions = [''create''], sh_policy = LastWriteWins,
      sh_required_permission = ''registry.add_student'', sh_apply = student_create_apply c\<rparr>"

lemma student_create_apply_step:
  assumes "student_create_apply c op actor s = Inr (r, s')"
  shows "registry_step s s'"
proof -
  from assms obtain pid yid first lname gender sid reason extra k where
    "create_student c pid yid first lname gender (Some actor) sid reason extra s = Inr (k, s')"
    unfolding student_create_apply_def Let_def
    by (auto split: if_splits option.splits elim!: bindE_InrE bindE_pairE)
  then show ?thesis by (rule registry_step.Create)
qed

lemma registry_step_ledger:
  "registry_step s s' \<Longrightarrow> sync_operations s' = sync_operations s \<and> sync_conflicts s' = sync_conflicts s"
proof (induction rule: registry_step.induct)
  case (Create c p y fn lname g actor sid reason extra s k s')
  then show ?case by (elim create_student_Inr) simp
next
  case (Change c k new reason actor eff ref s s')
  then show ?case by (cases rule: change_status_Inr) (auto elim!: write_status_Inr)
next
  case (Patch c k data reason s s')
  then show ?case by (elim patch_student_Inr) simp
qed

text \<open>No step of the registry touches the tables of the modules above it.\<close>

lemma registry_step_more:
  assumes "registry_step s s'"
  shows "registry_db.more s' = registry_db.more s"
  using assms
  by (cases rule: registry_step.cases) (auto elim!: create_student_Inr change_status_Inr write_status_Inr patch_student_Inr)

section \<open>Concrete inputs\<close>

definition sample_registry_db :: registry_db where
  "sample_registry_db =
     \<lparr>id_sequences = [], audit_log = [], sync_operations = [], sync_conflicts = [],
      institutions = [], academic_years = [(1, sample_year)], semesters = [(1, sample_semester)],
      grading_scales = [], grade_bands = [],
      faculties = faculties (sample_codes_db []), departments = departments (sample_codes_db []),
      programmes = programmes (sample_codes_db []),
      curriculum_versions = [], courses = [], curriculum_courses = [], prerequisites = [],
      sponsors = [], students = [], status_histories = [], student_documents = [], staff_profiles = []\<rparr>"

definition offline_ctx :: ctx where
  "offline_ctx = sample_ctx\<lparr>audit_up := False\<rparr>"

lemma safe_write_down: "\<not> audit_up c \<Longrightarrow> safe_write False c r s = Inr s"
  by (simp add: safe_write_def write_audit_def)

lemma record_change_down: "\<not> audit_up c \<Longrightarrow> record_change c False i f old new act reason u s = Inr s"
  by (simp add: record_change_def safe_write_down)

lemma audit_changes_down:
  "\<not> audit_up c \<Longrightarrow> \<not> mm_sensitive m \<Longrightarrow> audit_changes c m pk prev cur reason s = Inr s"
  by (induction cur arbitrary: s) (auto simp: record_change_down Let_def)

lemma audit_save_down: "\<not> audit_up c \<Longrightarrow> \<not> mm_sensitive m \<Longrightarrow> audit_save c m pk snap cur reason s = Inr s"
  by (cases snap) (simp_all add: audit_save_def record_action_def safe_write_down audit_changes_down)

lemma student_audit_down: "audit_save offline_ctx student_meta pk snap cur reason s = Inr s"
  by (rule audit_save_down) (simp_all add: offline_ctx_def student_meta_def)

text \<open>A legacy student is recorded and then expelled.\<close>

definition sample_student :: student where
  "sample_student = blank_student\<lparr>st_student_id := ''LEG/1'', st_programme := 1, st_entry_academic_year := 1,
     st_first_name := ''Aluel'', st_last_name := ''Deng'', st_gender := ''female'', st_admitted_on := Some 10\<rparr>"

definition sample_admitted :: registry_db where
  "sample_admitted = sample_registry_db
     \<lparr>students := [(1, sample_student)],
      status_histories := [(1, \<lparr>hist_student = 1, hist_from = None, hist_to = St_Active,
        hist_reason = ''Initial enrollment'', hist_effective_date = 10, hist_changed_by = None, hist_reference = []\<rparr>)]\<rparr>"

definition sample_expelled :: registry_db where
  "sample_expelled = sample_admitted
     \<lparr>students := [(1, sample_student\<lparr>st_status := St_Expelled\<rparr>)],
      status_histories := status_histories sample_admitted @
        [(2, \<lparr>hist_student = 1, hist_from = Some St_Active, hist_to = St_Expelled,
          hist_reason = ''Forged certificate'', hist_effective_date = 10, hist_changed_by = None, hist_reference = []\<rparr>)]\<rparr>"

lemma get_row_singleton: "get_row [(k, x)] j = (if j = k then Some x else None)"
  by (simp add: get_row_def)

lemma sample_names: "strip ''Aluel'' = ''Aluel''" "strip ''Deng'' = ''Deng''" "nonblank ''Forged certificate''"
  by code_simp+

lemma sample_create:
  "create_student offline_ctx 1 1 ''Aluel'' ''Deng'' ''female'' None (Some ''LEG/1'') [] blank_student
     sample_registry_db = Inr (1, sample_admitted)"
proof -
  have "student_full_clean True None sample_student sample_registry_db = Inr ()" by code_simp
  moreover have "student_unique None sample_student sample_registry_db" by code_simp
  moreover have "blank_student\<lparr>st_student_id := ''LEG/1'', st_programme := 1, st_entry_academic_year := 1,
      st_first_name := ''Aluel'', st_last_name := ''Deng'', st_gender := ''female'',
      st_admitted_on := Some (today offline_ctx)\<rparr> = sample_student"
    by (simp add: sample_student_def offline_ctx_def sample_ctx_def)
  ultimately show ?thesis
    by (simp add: create_student_def enroll_row_def insert_student_def student_audit_down Let_def sample_names
        blank_student_def actor_fk_def)
      (simp add: add_history_def sample_admitted_def sample_registry_db_def add_row_def fresh_pk_def
        sample_student_def blank_student_def)
qed

lemma sample_expel:
  "change_status offline_ctx 1 St_Expelled ''Forged certificate'' None None [] sample_admitted = Inr sample_expelled"
proof -
  have "with_status St_Expelled (today offline_ctx) sample_student = sample_student\<lparr>st_status := St_Expelled\<rparr>"
    by (simp add: with_status_def)
  moreover have "student_full_clean True (Some 1) (sample_student\<lparr>st_status := St_Expelled\<rparr>) sample_admitted = Inr ()"
    by code_simp
  moreover have "student_unique (Some 1) (sample_student\<lparr>st_status := St_Expelled\<rparr>) sample_admitted" by code_simp
  moreover have "get_row (students sample_admitted) 1 = Some sample_student" "st_status sample_student = St_Active"
    by (simp_all add: sample_admitted_def get_row_singleton sample_student_def blank_student_def)
  ultimately show ?thesis
    by (simp add: change_status_def write_status_def update_student_def student_audit_down Let_def sample_names
        TERMINAL_STATUSES_def actor_fk_def)
      (simp add: add_history_def sample_expelled_def sample_admitted_def add_row_def fresh_pk_def put_row_def
        offline_ctx_def sample_ctx_def)
qed

lemma sample_steps: "registry_step sample_registry_db sample_admitted" "registry_step sample_admitted sample_expelled"
  using registry_step.Create [OF sample_create] registry_step.Change [OF sample_expel] by simp_all

lemma registry_invariants_witness:
  "student_ids_unique sample_expelled \<and> history_ok sample_expelled \<and> length (history_of 1 sample_expelled) = 2"
proof -
  have "student_ids_unique sample_registry_db" and "history_ok sample_registry_db"
    by (simp_all add: student_ids_unique_def history_ok_def sample_registry_db_def get_row_def history_of_def
        filter_rows_def)
  moreover have "registry_step\<^sup>*\<^sup>* sample_registry_db sample_expelled" using sample_steps by auto
  moreover have "length (history_of 1 sample_expelled) = 2"
    by (simp add: history_of_def filter_rows_def sample_expelled_def sample_admitted_def)
  ultimately show ?thesis using registry_invariants by blast
qed

lemma terminal_status_final_witness:
  "\<exists>st'. get_row (students sample_expelled) 1 = Some st' \<and> st_status st' = St_Expelled"
proof -
  have "get_row (students sample_expelled) 1 = Some (sample_student\<lparr>st_status := St_Expelled\<rparr>)"
    by (simp add: sample_expelled_def get_row_singleton)
  from terminal_status_final [OF rtranclp.rtrancl_refl this] show ?thesis by (simp add: TERMINAL_STATUSES_def)
qed

lemma import_all_or_nothing_witness:
  "\<exists>rep. import_students offline_ctx [[(''first_name'', ''Aluel'')]] True None [] sample_registry_db =
     Inr (rep, sample_registry_db) \<and> imp_created rep = 0 \<and> imp_errors rep \<noteq> []"
proof -
  have "resolve_import_row offline_ctx [(''first_name'', ''Aluel'')] sample_registry_db =
      Inl [''last_name'', ''gender'', ''programme_code'', ''entry_academic_year'']"
    by code_simp
  then obtain rep s' where run: "import_students offline_ctx [[(''first_name'', ''Aluel'')]] True None [] sample_registry_db =
      Inr (rep, s')"
    by (simp add: import_students_def Let_def)
  from import_all_or_nothing [OF run] run
    \<open>resolve_import_row offline_ctx [(''first_name'', ''Aluel'')] sample_registry_db = _\<close>
  show ?thesis by (auto simp: import_students_def Let_def)
qed

end
