(* ===== verification/Payments.thy ===== *)
theory Payments
  imports Platform
begin

text \<open>
  The payment port of \<open>core/ports.py\<close> and the sandbox provider of
  \<open>core/providers/payments.py\<close>. The locale \<open>payment_provider\<close> states what the callers rely on
  (a reference the provider never issued is not confirmed, a confirmation is not taken
  back); it is interpreted on the sandbox provider, whose state is the table of its intents.
\<close>

section \<open>The port\<close>

datatype payment_state = PayPending | PayConfirmed | PayFailed | PayCancelled

record payment_intent =
  pi_provider :: string
  pi_reference :: string
  pi_state :: payment_state
  pi_amount :: rat
  pi_currency :: string
  pi_instructions :: string

record payment_status_result =
  psr_reference :: string
  psr_state :: payment_state
  psr_amount :: "rat option"
  psr_currency :: "string option"
  psr_paid_at :: "int option"
  psr_detail :: string

record payment_event =
  pe_provider :: string
  pe_reference :: string
  pe_state :: payment_state
  pe_amount :: "rat option"
  pe_currency :: "string option"
  pe_verified :: bool
  pe_value_date :: "int option"

locale payment_provider =
  fixes initiate :: "string \<Rightarrow> rat \<Rightarrow> string \<Rightarrow> string \<Rightarrow> string \<Rightarrow> 'p \<Rightarrow> payment_intent \<times> 'p"
    and status :: "ctx \<Rightarrow> string \<Rightarrow> 'p \<Rightarrow> payment_status_result \<times> 'p"
    and issued :: "'p \<Rightarrow> string \<Rightarrow> bool"
  assumes initiate_pending: "pi_state (fst (initiate token amount currency payer invoice p)) = PayPending"
    and initiate_issues: "issued (snd (initiate token amount currency payer invoice p))
      (pi_reference (fst (initiate token amount currency payer invoice p)))"
    and unknown_fails: "\<not> issued p ref \<Longrightarrow> psr_state (fst (status c ref p)) \<noteq> PayConfirmed"
    and status_issues: "issued (snd (status c ref p)) = issued p"
    and confirmed_once: "psr_state (fst (status c ref p)) = PayConfirmed \<Longrightarrow>
      psr_state (fst (status c'' ref (snd (status c ref p)))) = PayConfirmed"
    and confirmed_other: "psr_state (fst (status c ref p)) = PayConfirmed \<Longrightarrow> ref' \<noteq> ref \<Longrightarrow>
      psr_state (fst (status c ref (snd (status c' ref' p)))) = PayConfirmed"
begin

fun poll_all :: "(ctx \<times> string) list \<Rightarrow> 'p \<Rightarrow> 'p" where
  "poll_all [] p = p"
| "poll_all ((c, ref) # polls) p = poll_all polls (snd (status c ref p))"

lemma poll_all_issues: "issued (poll_all polls p) = issued p"
  by (induction polls p rule: poll_all.induct) (simp_all add: status_issues)

lemma never_issued_never_confirmed:
  "\<not> issued p ref \<Longrightarrow> psr_state (fst (status c ref (poll_all polls p))) \<noteq> PayConfirmed"
  by (intro unknown_fails) (simp add: poll_all_issues)

end

section \<open>The sandbox provider\<close>

record mock_intent =
  mi_amount :: rat
  mi_currency :: string
  mi_payer_ref :: string
  mi_invoice_ref :: string
  mi_state :: payment_state
  mi_polls :: nat
  mi_paid_at :: "int option"

type_synonym mock_provider = "(string \<times> mock_intent) list"

text \<open>\<open>token\<close> is the random \<open>uuid4().hex[:12].upper()\<close>.\<close>

definition mock_initiate ::
  "string \<Rightarrow> rat \<Rightarrow> string \<Rightarrow> string \<Rightarrow> string \<Rightarrow> mock_provider \<Rightarrow> payment_intent \<times> mock_provider" where
  "mock_initiate token amount currency payer_ref invoice_ref p =
     (let reference = ''MOCK-'' @ token in
      (\<lparr>pi_provider = ''mock'', pi_reference = reference, pi_state = PayPending, pi_amount = amount,
        pi_currency = currency,
        pi_instructions = ''Sandbox intent '' @ reference @ '': approve by polling status twice.''\<rparr>,
       AList.update reference
         \<lparr>mi_amount = amount, mi_currency = currency, mi_payer_ref = payer_ref, mi_invoice_ref = invoice_ref,
          mi_state = PayPending, mi_polls = 0, mi_paid_at = None\<rparr> p))"

definition polled :: "ctx \<Rightarrow> mock_intent \<Rightarrow> mock_intent" where
  "polled c i =
     (let i1 = i\<lparr>mi_polls := mi_polls i + 1\<rparr> in
      if 2 \<le> mi_polls i1 \<and> mi_state i1 = PayPending
      then i1\<lparr>mi_state := PayConfirmed, mi_paid_at := Some (now c)\<rparr> else i1)"

definition mock_status :: "ctx \<Rightarrow> string \<Rightarrow> mock_provider \<Rightarrow> payment_status_result \<times> mock_provider" where
  "mock_status c reference p =
     (case map_of p reference of
        None \<Rightarrow> (\<lparr>psr_reference = reference, psr_state = PayFailed, psr_amount = None, psr_currency = None,
                  psr_paid_at = None, psr_detail = ''Unknown reference.''\<rparr>, p)
      | Some i \<Rightarrow> let i' = polled c i in
          (\<lparr>psr_reference = reference, psr_state = mi_state i', psr_amount = Some (mi_amount i'),
            psr_currency = Some (mi_currency i'), psr_paid_at = mi_paid_at i', psr_detail = []\<rparr>,
           AList.update reference i' p))"

text \<open>
  \<open>verify_callback\<close>: \<open>reference\<close> and \<open>signature\<close> are the body's reference and the header
  \<open>X-Mock-Signature\<close>, empty when they are missing.
\<close>

definition mock_verify_callback ::
  "ctx \<Rightarrow> string \<Rightarrow> string \<Rightarrow> mock_provider \<Rightarrow> payment_event \<times> mock_provider" where
  "mock_verify_callback c reference signature p =
     (let verified = (reference \<noteq> [] \<and> signature = ''sandbox'');
          settle = (\<lambda>i. i\<lparr>mi_state := PayConfirmed, mi_paid_at := Some (now c)\<rparr>);
          p' = (case map_of p reference of
                  Some i \<Rightarrow> if verified then AList.update reference (settle i) p else p | None \<Rightarrow> p);
          intent = map_of p' reference
      in (\<lparr>pe_provider = ''mock'', pe_reference = reference,
           pe_state = (case intent of Some i \<Rightarrow> mi_state i | None \<Rightarrow> PayFailed),
           pe_amount = map_option mi_amount intent, pe_currency = map_option mi_currency intent,
           pe_verified = verified, pe_value_date = (if verified then Some (today c) else None)\<rparr>, p'))"

definition mock_force_confirm :: "ctx \<Rightarrow> string \<Rightarrow> int option \<Rightarrow> mock_provider \<Rightarrow> mock_provider" where
  "mock_force_confirm c reference when p =
     (case map_of p reference of
        None \<Rightarrow> p
      | Some i \<Rightarrow> AList.update reference
          (i\<lparr>mi_state := PayConfirmed, mi_paid_at := Some (case when of None \<Rightarrow> now c | Some t \<Rightarrow> t)\<rparr>) p)"

definition mock_issued :: "mock_provider \<Rightarrow> string \<Rightarrow> bool" where
  "mock_issued p ref \<longleftrightarrow> map_of p ref \<noteq> None"

lemma polled_confirmed [simp]: "mi_state i = PayConfirmed \<Longrightarrow> mi_state (polled c i) = PayConfirmed"
  by (simp add: polled_def Let_def)

lemma mock_status_intents:
  "map_of (snd (mock_status c ref p)) ref' = (if ref' = ref then map_option (polled c) (map_of p ref) else map_of p ref')"
  by (auto simp: mock_status_def Let_def update_conv split: option.split)

lemma mock_status_state:
  "psr_state (fst (mock_status c ref p)) = (case map_of p ref of None \<Rightarrow> PayFailed | Some i \<Rightarrow> mi_state (polled c i))"
  by (simp add: mock_status_def Let_def split: option.split)

lemma polled_state: "mi_state (polled c i) = mi_state (polled c' i)"
  by (simp add: polled_def Let_def)

interpretation mock_payments: payment_provider mock_initiate mock_status mock_issued
proof unfold_locales
  fix c c'' :: ctx and ref :: string and p :: mock_provider
  assume "psr_state (fst (mock_status c ref p)) = PayConfirmed"
  then show "psr_state (fst (mock_status c'' ref (snd (mock_status c ref p)))) = PayConfirmed"
    by (simp add: mock_status_state mock_status_intents split: option.splits)
next
  fix c c' :: ctx and ref ref' :: string and p :: mock_provider
  assume "psr_state (fst (mock_status c ref p)) = PayConfirmed" and "ref' \<noteq> ref"
  then show "psr_state (fst (mock_status c ref (snd (mock_status c' ref' p)))) = PayConfirmed"
    by (simp add: mock_status_state mock_status_intents)
qed (auto simp: mock_initiate_def mock_issued_def mock_status_state mock_status_intents Let_def update_conv fun_eq_iff
      split: option.splits)

text \<open>
  The sandbox settles on the second poll and not before: after an initiation the first poll
  reports a pending payment, the second and every later one a confirmed payment, and an
  unsigned callback in between changes nothing.
\<close>

theorem mock_settles_on_second_poll:
  "let (intent, p0) = mock_initiate token amount currency payer_ref invoice_ref p;
       ref = pi_reference intent;
       (r1, p1) = mock_status c1 ref p0;
       (e, p1') = mock_verify_callback c2 ref [] p1;
       (r2, p2) = mock_status c3 ref p1';
       (r3, p3) = mock_status c4 ref p2
   in psr_state r1 = PayPending \<and> \<not> pe_verified e \<and> pe_state e = PayPending \<and> p1' = p1 \<and>
      psr_state r2 = PayConfirmed \<and> psr_state r3 = PayConfirmed \<and> psr_amount r3 = Some amount \<and>
      psr_paid_at r3 = Some (now c3)"
  by (simp add: mock_initiate_def mock_status_def mock_verify_callback_def polled_def Let_def update_conv
      split_beta)

end
