(* ===== verification/Admissions.thy ===== *)
theory Admissions
  imports Merit_List Money Payments
begin

text \<open>
  Admissions: the models of \<open>admissions/models.py\<close> and the services of
  \<open>admissions/services.py\<close>, from the first draft of an application to its conversion into a
  student record. The lemmas show that an application only moves forward along
  \<open>ALLOWED_TRANSITIONS\<close>, that the reference numbers stay unique, what each decision writes and
  audits, and that a conversion creates exactly one student who keeps the application's
  programme, year and bio-data.
\<close>

section \<open>Models\<close>

datatype application_status =
    App_Draft | App_Submitted | App_UnderReview | App_Offered | App_Accepted | App_Rejected | App_Withdrawn
  | App_Enrolled

fun application_status_text :: "application_status \<Rightarrow> string" where
  "application_status_text App_Draft = ''draft''"
| "application_status_text App_Submitted = ''submitted''"
| "application_status_text App_UnderReview = ''under_review''"
| "application_status_text App_Offered = ''offered''"
| "application_status_text App_Accepted = ''accepted''"
| "application_status_text App_Rejected = ''rejected''"
| "application_status_text App_Withdrawn = ''withdrawn''"
| "application_status_text App_Enrolled = ''enrolled''"

datatype application_source = SelfService | StaffEntry

record application =
  app_reference_number :: string
  app_user :: "nat option"
  app_programme :: nat
  app_intended_academic_year :: nat
  app_first_name :: string
  app_middle_name :: string
  app_last_name :: string
  app_date_of_birth :: "int option"
  app_gender :: string
  app_nationality :: string
  app_phone :: string
  app_email :: string
  app_national_id_number :: string
  app_state_of_origin :: string
  app_county :: string
  app_has_disability :: bool
  app_disability_details :: string
  app_physical_address :: string
  app_previous_institution :: string
  app_previous_qualification :: string
  app_previous_grade :: string
  app_status :: application_status
  app_source :: application_source
  app_entered_by :: "nat option"
  app_submitted_at :: "int option"
  app_score :: "rat option"
  app_reviewed_by :: "nat option"
  app_reviewed_at :: "int option"
  app_decision_reason :: string
  app_fee_paid :: bool
  app_student :: "nat option"
  app_deleted_at :: "int option"

definition blank_application :: application where
  "blank_application =
     \<lparr>app_reference_number = [], app_user = None, app_programme = 0, app_intended_academic_year = 0,
      app_first_name = [], app_middle_name = [], app_last_name = [], app_date_of_birth = None, app_gender = [],
      app_nationality = ''South Sudanese'', app_phone = [], app_email = [], app_national_id_number = [],
      app_state_of_origin = [], app_county = [], app_has_disability = False, app_disability_details = [],
      app_physical_address = [], app_previous_institution = [], app_previous_qualification = [],
      app_previous_grade = [], app_status = App_Draft, app_source = SelfService, app_entered_by = None,
      app_submitted_at = None, app_score = None, app_reviewed_by = None, app_reviewed_at = None,
      app_decision_reason = [], app_fee_paid = False, app_student = None, app_deleted_at = None\<rparr>"

record application_document =
  ad_application :: nat
  ad_document_type :: string
  ad_title :: string
  ad_file :: string
  ad_file_size :: nat
  ad_content_hash :: string
  ad_uploaded_by :: "nat option"
  ad_verified_by :: "nat option"
  ad_verified_at :: "int option"

record application_review =
  ar_application :: nat
  ar_reviewer :: nat
  ar_score :: rat
  ar_criteria :: "(string \<times> pyval) list"
  ar_comments :: string

datatype fee_payment_status = FeePending | FeeConfirmed | FeeFailed

record application_fee_payment =
  afp_money :: money_mixin
  afp_application :: nat
  afp_provider :: string
  afp_reference :: string
  afp_status :: fee_payment_status
  afp_confirmed_at :: "int option"

record admissions_db = registry_db +
  applications :: "application table"
  application_documents :: "application_document table"
  application_reviews :: "application_review table"
  application_fee_payments :: "application_fee_payment table"

definition app_full_name :: "application \<Rightarrow> string" where
  "app_full_name a = join_names [app_first_name a, app_middle_name a, app_last_name a]"

section \<open>Validation and saving\<close>

definition application_clean :: "application \<Rightarrow> exn + unit" where
  "application_clean a =
     ensure (\<not> (app_has_disability a \<and> \<not> nonblank (app_disability_details a))) ValidationError"

definition score_field :: "rat \<Rightarrow> bool" where
  "score_field q \<longleftrightarrow> two_places q \<and> \<bar>q\<bar> < 10 ^ 4"

definition application_fields_ok :: "application \<Rightarrow> 'a admissions_db_scheme \<Rightarrow> bool" where
  "application_fields_ok a s \<longleftrightarrow>
     app_reference_number a \<noteq> [] \<and> length (app_reference_number a) \<le> 30 \<and>
     app_first_name a \<noteq> [] \<and> length (app_first_name a) \<le> 100 \<and> length (app_middle_name a) \<le> 100 \<and>
     app_last_name a \<noteq> [] \<and> length (app_last_name a) \<le> 100 \<and>
     app_gender a \<in> set Gender_values \<and>
     app_nationality a \<noteq> [] \<and> length (app_nationality a) \<le> 100 \<and>
     length (app_phone a) \<le> 32 \<and> length (app_national_id_number a) \<le> 50 \<and>
     (app_state_of_origin a = [] \<or> app_state_of_origin a \<in> set SouthSudanState_values) \<and>
     length (app_county a) \<le> 100 \<and> length (app_previous_institution a) \<le> 200 \<and>
     length (app_previous_qualification a) \<le> 200 \<and> length (app_previous_grade a) \<le> 10 \<and>
     (case app_score a of None \<Rightarrow> True | Some q \<Rightarrow> score_field q) \<and>
     get_row (programmes s) (app_programme a) \<noteq> None \<and>
     get_row (academic_years s) (app_intended_academic_year a) \<noteq> None \<and>
     (case app_student a of None \<Rightarrow> True | Some k \<Rightarrow> get_row (students s) k \<noteq> None)"

text \<open>Uniqueness: \<open>full_clean\<close> sees the rows of the default manager, the indexes all rows.\<close>

definition application_clashes :: "nat option \<Rightarrow> application \<Rightarrow> nat \<Rightarrow> application \<Rightarrow> bool" where
  "application_clashes pk a k y \<longleftrightarrow> Some k \<noteq> pk \<and>
     (app_reference_number y = app_reference_number a \<or> (app_student a \<noteq> None \<and> app_student y = app_student a))"

definition application_full_clean :: "nat option \<Rightarrow> application \<Rightarrow> 'a admissions_db_scheme \<Rightarrow> exn + unit" where
  "application_full_clean pk a s =
     (if \<not> application_fields_ok a s then Inl ValidationError
      else bindE (application_clean a) (\<lambda>_.
        ensure (\<not> exists_row (\<lambda>k y. app_deleted_at y = None \<and> application_clashes pk a k y) (applications s))
          ValidationError))"

definition application_meta :: model_meta where
  "application_meta =
     \<lparr>mm_label = ''admissions.application'', mm_verbose = ''application'', mm_sensitive = True\<rparr>"

definition application_audit :: "application \<Rightarrow> (string \<times> pyval) list" where
  "application_audit a =
     [(''status'', VStr (application_status_text (app_status a))),
      (''score'', opt_dec (app_score a)), (''programme'', VInt (int (app_programme a))),
      (''fee_paid'', VBool (app_fee_paid a))]"

definition insert_application ::
  "ctx \<Rightarrow> application \<Rightarrow> string \<Rightarrow> 'a admissions_db_scheme \<Rightarrow> exn + nat \<times> 'a admissions_db_scheme" where
  "insert_application c a reason s =
     (if exists_row (application_clashes None a) (applications s) then Inl IntegrityError
      else let k = fresh_pk (applications s) in
        bindE (audit_save c application_meta k None (application_audit a) reason
                 (s\<lparr>applications := add_row a (applications s)\<rparr>)) (\<lambda>s'. Inr (k, s')))"

text \<open>
  \<open>full_clean()\<close> and \<open>save()\<close> of a changed row. The audit compares with the snapshot of the
  loaded row \<open>old\<close>.
\<close>

definition save_application ::
  "ctx \<Rightarrow> nat \<Rightarrow> application \<Rightarrow> application \<Rightarrow> string \<Rightarrow> 'a admissions_db_scheme \<Rightarrow> exn + 'a admissions_db_scheme" where
  "save_application c k old a reason s =
     bindE (application_full_clean (Some k) a s) (\<lambda>_.
       if exists_row (application_clashes (Some k) a) (applications s) then Inl IntegrityError
       else audit_save c application_meta k (Some (application_audit old)) (application_audit a) reason
              (s\<lparr>applications := put_row k a (applications s)\<rparr>))"

text \<open>\<open>get_object()\<close>: the default manager hides deleted rows.\<close>

definition get_application :: "nat \<Rightarrow> 'a admissions_db_scheme \<Rightarrow> exn + application" where
  "get_application k s =
     (case get_row (applications s) k of
        None \<Rightarrow> Inl DoesNotExist
      | Some a \<Rightarrow> if app_deleted_at a = None then Inr a else Inl DoesNotExist)"

section \<open>The lifecycle\<close>

definition InvalidApplicationTransition :: exn where
  "InvalidApplicationTransition = DomainError ''invalid_application_transition'' 400"

fun application_transitions :: "application_status \<Rightarrow> application_status list" where
  "application_transitions App_Draft = [App_Submitted, App_Withdrawn]"
| "application_transitions App_Submitted = [App_UnderReview, App_Offered, App_Rejected, App_Withdrawn]"
| "application_transitions App_UnderReview = [App_Offered, App_Rejected, App_Withdrawn]"
| "application_transitions App_Offered = [App_Accepted, App_Rejected, App_Withdrawn]"
| "application_transitions App_Accepted = [App_Enrolled]"
| "application_transitions App_Rejected = []"
| "application_transitions App_Withdrawn = []"
| "application_transitions App_Enrolled = []"

definition check_transition :: "application \<Rightarrow> application_status \<Rightarrow> exn + unit" where
  "check_transition a to_status =
     ensure (to_status \<in> set (application_transitions (app_status a))) InvalidApplicationTransition"

definition source_text :: "application_source \<Rightarrow> string" where
  "source_text src = (case src of SelfService \<Rightarrow> ''self_service'' | StaffEntry \<Rightarrow> ''staff_entry'')"

text \<open>\<open>extra\<close> is a row that carries the remaining keyword arguments.\<close>

definition create_application ::
  "ctx \<Rightarrow> nat \<Rightarrow> nat \<Rightarrow> string \<Rightarrow> string \<Rightarrow> string \<Rightarrow> application_source \<Rightarrow> user option \<Rightarrow> user option \<Rightarrow> application
    \<Rightarrow> 'a admissions_db_scheme \<Rightarrow> exn + nat \<times> 'a admissions_db_scheme" where
  "create_application c programme_id year_id first_name last_name gender src applicant_user entered_by extra s =
     bindE (academic_year_name year_id s) (\<lambda>year_name.
       let (reference, s1) = generate_reference_number year_name s;
           a = extra\<lparr>app_reference_number := reference, app_programme := programme_id,
                     app_intended_academic_year := year_id, app_first_name := strip first_name,
                     app_last_name := strip last_name, app_gender := gender, app_source := src,
                     app_user := actor_fk applicant_user, app_entered_by := actor_fk entered_by\<rparr>
       in bindE (application_full_clean None a s1) (\<lambda>_.
            insert_application c a (''Application created via '' @ source_text src) s1))"

definition eligibility_warnings :: "nat \<Rightarrow> 'a admissions_db_scheme \<Rightarrow> exn + entry_warning list" where
  "eligibility_warnings k s =
     bindE (get_application k s) (\<lambda>a.
       case get_row (programmes s) (app_programme a) of
         None \<Rightarrow> Inl DoesNotExist
       | Some p \<Rightarrow> Inr (evaluate_entry_requirements (prog_entry_requirements p) (app_previous_grade a)))"

definition submit_application ::
  "ctx \<Rightarrow> nat \<Rightarrow> string \<Rightarrow> 'a admissions_db_scheme \<Rightarrow> exn + 'a admissions_db_scheme" where
  "submit_application c k reason s =
     bindE (get_application k s) (\<lambda>a.
     bindE (check_transition a App_Submitted) (\<lambda>_.
       if app_first_name a = [] \<or> app_last_name a = [] \<or> app_gender a = [] \<or> app_phone a = [] then Inl ValidationError
       else if \<not> app_fee_paid a then Inl InvalidApplicationTransition
       else save_application c k a (a\<lparr>app_status := App_Submitted, app_submitted_at := Some (now c)\<rparr>)
              (if reason = [] then ''Submitted by applicant'' else reason) s))"

definition withdraw_application ::
  "ctx \<Rightarrow> nat \<Rightarrow> string \<Rightarrow> 'a admissions_db_scheme \<Rightarrow> exn + 'a admissions_db_scheme" where
  "withdraw_application c k reason s =
     bindE (get_application k s) (\<lambda>a.
       if \<not> nonblank reason then Inl InvalidApplicationTransition
       else bindE (check_transition a App_Withdrawn) (\<lambda>_.
         save_application c k a (a\<lparr>app_status := App_Withdrawn\<rparr>) reason s))"

subsection \<open>Review and decision\<close>

text \<open>
  Writing a \<open>DecimalField(6, 2)\<close> without validation quantises to two places and raises when
  six digits are not enough.
\<close>

definition review_score_column :: "rat \<Rightarrow> exn + rat" where
  "review_score_column q =
     (let r = quantize_half_even q in if \<bar>r\<bar> < 10 ^ 4 then Inr r else Inl UnexpectedError)"

definition upsert_review ::
  "nat \<Rightarrow> user \<Rightarrow> rat \<Rightarrow> (string \<times> pyval) list \<Rightarrow> string \<Rightarrow> 'a admissions_db_scheme \<Rightarrow> 'a admissions_db_scheme" where
  "upsert_review k reviewer score criteria comments s =
     (let row = \<lparr>ar_application = k, ar_reviewer = user_pk reviewer, ar_score = score,
                 ar_criteria = criteria, ar_comments = comments\<rparr> in
      case first_row (\<lambda>_ r. ar_application r = k \<and> ar_reviewer r = user_pk reviewer) (application_reviews s) of
        None \<Rightarrow> s\<lparr>application_reviews := add_row row (application_reviews s)\<rparr>
      | Some (rk, _) \<Rightarrow> s\<lparr>application_reviews := put_row rk row (application_reviews s)\<rparr>)"

definition review_scores :: "nat \<Rightarrow> 'a admissions_db_scheme \<Rightarrow> rat list" where
  "review_scores k s = map (\<lambda>(_, r). ar_score r) (filter_rows (\<lambda>_ r. ar_application r = k) (application_reviews s))"

text \<open>\<open>(sum(scores) / len(scores)).quantize(TWO_PLACES, rounding=ROUND_HALF_UP)\<close>\<close>

definition average_score :: "rat list \<Rightarrow> rat option" where
  "average_score scores =
     (if scores = [] then None
      else Some (quantize_half_up (dec_div (foldl (\<lambda>acc q. dec_ctx (acc + q)) 0 scores) (of_nat (length scores)))))"

definition record_review ::
  "ctx \<Rightarrow> nat \<Rightarrow> user \<Rightarrow> rat \<Rightarrow> (string \<times> pyval) list \<Rightarrow> string
    \<Rightarrow> 'a admissions_db_scheme \<Rightarrow> exn + 'a admissions_db_scheme" where
  "record_review c k reviewer score criteria comments s =
     bindE (get_application k s) (\<lambda>a.
     bindE (review_score_column score) (\<lambda>q.
       let s1 = upsert_review k reviewer q criteria comments s;
           a1 = a\<lparr>app_score := average_score (review_scores k s1)\<rparr>
       in save_application c k a
            (if app_status a = App_Submitted then a1\<lparr>app_status := App_UnderReview\<rparr> else a1)
            (''Reviewed by '' @ user_str reviewer) s1))"

definition decide_application ::
  "ctx \<Rightarrow> nat \<Rightarrow> application_status \<Rightarrow> user \<Rightarrow> string \<Rightarrow> 'a admissions_db_scheme \<Rightarrow> exn + 'a admissions_db_scheme" where
  "decide_application c k decision decided_by reason s =
     bindE (get_application k s) (\<lambda>a.
       if decision \<notin> {App_Offered, App_Rejected} then Inl InvalidApplicationTransition
       else if \<not> nonblank reason then Inl InvalidApplicationTransition
       else bindE (check_transition a decision) (\<lambda>_.
         save_application c k a
           (a\<lparr>app_status := decision, app_reviewed_by := Some (user_pk decided_by),
              app_reviewed_at := Some (now c), app_decision_reason := reason\<rparr>) reason s))"

text \<open>
  \<open>_notify_decision\<close>: the messages handed to the notification provider, as (channel,
  recipient, text). A failure to send is swallowed, so the state does not depend on it.
\<close>

definition notify_decision :: "application \<Rightarrow> string \<Rightarrow> application_status \<Rightarrow> (string \<times> string \<times> string) list" where
  "notify_decision a programme_name decision =
     (let verb = (if decision = App_Offered then ''an offer of admission'' else ''a decision'');
          body = ''Dear '' @ app_first_name a @ '', your application '' @ app_reference_number a @ '' to '' @
                 programme_name @ '' has resulted in '' @ verb @
                 ''. Log in to the applicant portal for details.''
      in (if app_phone a = [] then [] else [(''sms'', app_phone a, body)]) @
         (if app_email a = [] then [] else [(''email'', app_email a, body)]))"

definition accept_offer :: "ctx \<Rightarrow> nat \<Rightarrow> 'a admissions_db_scheme \<Rightarrow> exn + 'a admissions_db_scheme" where
  "accept_offer c k s =
     bindE (get_application k s) (\<lambda>a.
     bindE (check_transition a App_Accepted) (\<lambda>_.
       save_application c k a (a\<lparr>app_status := App_Accepted\<rparr>) ''Offer accepted by applicant'' s))"

definition decline_offer :: "ctx \<Rightarrow> nat \<Rightarrow> string \<Rightarrow> 'a admissions_db_scheme \<Rightarrow> exn + 'a admissions_db_scheme" where
  "decline_offer c k reason s =
     bindE (get_application k s) (\<lambda>a.
     bindE (check_transition a App_Rejected) (\<lambda>_.
       let r = (if reason = [] then ''Declined by applicant'' else reason) in
       save_application c k a (a\<lparr>app_status := App_Rejected, app_decision_reason := r\<rparr>) r s))"

subsection \<open>Conversion\<close>

definition student_of_application :: "application \<Rightarrow> student" where
  "student_of_application a =
     blank_student
       \<lparr>st_middle_name := app_middle_name a, st_national_id_number := app_national_id_number a,
        st_nationality := app_nationality a, st_state_of_origin := app_state_of_origin a,
        st_county := app_county a, st_has_disability := app_has_disability a,
        st_disability_details := app_disability_details a, st_phone := app_phone a, st_email := app_email a,
        st_physical_address := app_physical_address a, st_previous_institution := app_previous_institution a,
        st_previous_qualification := app_previous_qualification a, st_date_of_birth := app_date_of_birth a,
        st_user := app_user a\<rparr>"

definition convert_to_student ::
  "ctx \<Rightarrow> nat \<Rightarrow> user option \<Rightarrow> 'a admissions_db_scheme \<Rightarrow> exn + nat \<times> 'a admissions_db_scheme" where
  "convert_to_student c k actor s =
     bindE (get_application k s) (\<lambda>a.
     bindE (check_transition a App_Enrolled) (\<lambda>_.
       if app_student a \<noteq> None then Inl InvalidApplicationTransition
       else bindE (create_student c (app_programme a) (app_intended_academic_year a) (app_first_name a)
                     (app_last_name a) (app_gender a) actor None
                     (''Converted from application '' @ app_reference_number a) (student_of_application a) s)
         (\<lambda>(sk, s1).
           bindE (save_application c k a (a\<lparr>app_status := App_Enrolled, app_student := Some sk\<rparr>)
                    (''Converted to student '' @
                     (case get_row (students s1) sk of None \<Rightarrow> [] | Some st \<Rightarrow> st_student_id st)) s1)
             (\<lambda>s2. Inr (sk, s2)))))"

subsection \<open>Editing a draft\<close>

text \<open>
  \<open>perform_update\<close> of the view set: \<open>data\<close> is the row with the submitted values; the
  serializer writes its writable fields only. Field checks are the serializer's.
\<close>

definition edited_application :: "application \<Rightarrow> application \<Rightarrow> application" where
  "edited_application a data =
     data\<lparr>app_reference_number := app_reference_number a, app_user := app_user a, app_status := app_status a,
          app_source := app_source a, app_entered_by := app_entered_by a, app_submitted_at := app_submitted_at a,
          app_score := app_score a, app_reviewed_by := app_reviewed_by a, app_reviewed_at := app_reviewed_at a,
          app_decision_reason := app_decision_reason a, app_fee_paid := app_fee_paid a,
          app_student := app_student a, app_deleted_at := app_deleted_at a\<rparr>"

definition update_application ::
  "ctx \<Rightarrow> nat \<Rightarrow> application \<Rightarrow> 'a admissions_db_scheme \<Rightarrow> exn + 'a admissions_db_scheme" where
  "update_application c k data s =
     bindE (get_application k s) (\<lambda>a.
       if \<not> application_fields_ok (edited_application a data) s then Inl ValidationError
       else if app_status a \<noteq> App_Draft then Inl (DomainError ''not_editable'' 400)
       else audit_save c application_meta k (Some (application_audit a))
              (application_audit (edited_application a data)) ''Edited before submission''
              (s\<lparr>applications := put_row k (edited_application a data) (applications s)\<rparr>))"

text \<open>
  \<open>perform_create\<close>: an applicant applies for themselves, anybody else enters the application
  for somebody. The serializer passes its writable fields only.
\<close>

definition create_application_request ::
  "ctx \<Rightarrow> user \<Rightarrow> application \<Rightarrow> 'a admissions_db_scheme \<Rightarrow> exn + nat \<times> 'a admissions_db_scheme" where
  "create_application_request c u data s =
     (let applicant = (user_role_code u = ''applicant'') in
      create_application c (app_programme data) (app_intended_academic_year data) (app_first_name data)
        (app_last_name data) (app_gender data) (if applicant then SelfService else StaffEntry)
        (if applicant then Some u else None) (if applicant then None else Some u)
        (edited_application blank_application data) s)"

section \<open>Documents, fees and the merit list\<close>

definition attach_application_document ::
  "nat \<Rightarrow> string \<Rightarrow> string \<Rightarrow> string \<Rightarrow> user option \<Rightarrow> nat \<Rightarrow> 'a admissions_db_scheme
    \<Rightarrow> exn + nat \<times> 'a admissions_db_scheme" where
  "attach_application_document k document_type title content uploaded_by limit s =
     (if limit < length content then Inl ValidationError
      else let d = \<lparr>ad_application = k, ad_document_type = document_type, ad_title = title, ad_file = content,
                    ad_file_size = length content, ad_content_hash = sha256 content,
                    ad_uploaded_by = actor_fk uploaded_by, ad_verified_by = None, ad_verified_at = None\<rparr>
           in Inr (fresh_pk (application_documents s),
                   s\<lparr>application_documents := add_row d (application_documents s)\<rparr>))"

text \<open>
  The payment provider is not part of the database, so its state is threaded separately.
  The amount column rounds to two places and holds sixteen digits.
\<close>

definition money_column :: "rat \<Rightarrow> exn + rat" where
  "money_column q = (let r = quantize_half_even q in if \<bar>r\<bar> < 10 ^ 14 then Inr r else Inl UnexpectedError)"

definition store_fee_intent ::
  "nat \<Rightarrow> payment_intent \<Rightarrow> rat \<Rightarrow> string \<Rightarrow> 'a admissions_db_scheme \<Rightarrow> exn + nat \<times> 'a admissions_db_scheme" where
  "store_fee_intent k intent amount currency s =
     bindE (money_column amount) (\<lambda>q.
       if exists_row (\<lambda>_ r. afp_reference r = pi_reference intent) (application_fee_payments s) then Inl IntegrityError
       else Inr (fresh_pk (application_fee_payments s),
             s\<lparr>application_fee_payments := add_row
               \<lparr>afp_money = \<lparr>mx_amount = q, mx_currency = currency, mx_fx_rate = None, mx_fx_rate_date = None\<rparr>,
                afp_application = k, afp_provider = pi_provider intent,
                afp_reference = pi_reference intent, afp_status = FeePending, afp_confirmed_at = None\<rparr>
               (application_fee_payments s)\<rparr>))"

definition initiate_fee_payment ::
  "(string \<Rightarrow> rat \<Rightarrow> string \<Rightarrow> string \<Rightarrow> string \<Rightarrow> 'p \<Rightarrow> payment_intent \<times> 'p) \<Rightarrow> string \<Rightarrow> nat \<Rightarrow> rat \<Rightarrow> string
    \<Rightarrow> 'a admissions_db_scheme \<Rightarrow> 'p \<Rightarrow> (exn + nat \<times> 'a admissions_db_scheme) \<times> 'p" where
  "initiate_fee_payment initiate token k amount currency s p =
     (case get_application k s of
        Inl e \<Rightarrow> (Inl e, p)
      | Inr a \<Rightarrow>
          let (intent, p') = initiate token amount currency (app_reference_number a) (app_reference_number a) p in
          (store_fee_intent k intent amount currency s, p'))"

text \<open>
  \<open>confirm_fee_payment\<close> polls the provider; \<open>settle_fee_payment\<close> is what it writes for the
  state that the provider reports. \<open>set_fee_paid\<close> is the bulk \<open>update\<close> of the application,
  which bypasses \<open>save\<close> and its audit.
\<close>

definition set_fee_paid :: "nat \<Rightarrow> 'a admissions_db_scheme \<Rightarrow> 'a admissions_db_scheme" where
  "set_fee_paid k s =
     (case get_row (applications s) k of
        None \<Rightarrow> s
      | Some a \<Rightarrow> if app_deleted_at a \<noteq> None then s
                  else s\<lparr>applications := put_row k (a\<lparr>app_fee_paid := True\<rparr>) (applications s)\<rparr>)"

definition settle_fee_payment ::
  "ctx \<Rightarrow> nat \<Rightarrow> application_fee_payment \<Rightarrow> payment_state \<Rightarrow> 'a admissions_db_scheme \<Rightarrow> 'a admissions_db_scheme" where
  "settle_fee_payment c pk f state s =
     (let write = (\<lambda>f'. s\<lparr>application_fee_payments := put_row pk f' (application_fee_payments s)\<rparr>) in
      case state of
        PayConfirmed \<Rightarrow> set_fee_paid (afp_application f)
          (write (f\<lparr>afp_status := FeeConfirmed, afp_confirmed_at := Some (now c)\<rparr>))
      | PayFailed \<Rightarrow> write (f\<lparr>afp_status := FeeFailed\<rparr>)
      | _ \<Rightarrow> s)"

definition confirm_fee_payment ::
  "(ctx \<Rightarrow> string \<Rightarrow> 'p \<Rightarrow> payment_status_result \<times> 'p) \<Rightarrow> ctx \<Rightarrow> nat
    \<Rightarrow> 'a admissions_db_scheme \<Rightarrow> 'p \<Rightarrow> (exn + 'a admissions_db_scheme) \<times> 'p" where
  "confirm_fee_payment status c pk s p =
     (case get_row (application_fee_payments s) pk of
        None \<Rightarrow> (Inl DoesNotExist, p)
      | Some f \<Rightarrow> let (result, p') = status c (afp_reference f) p in
          (Inr (settle_fee_payment c pk f (psr_state result) s), p'))"

definition MERIT_STATUSES :: "application_status list" where
  "MERIT_STATUSES = [App_Submitted, App_UnderReview, App_Offered, App_Accepted, App_Rejected]"

definition merit_candidates :: "nat \<Rightarrow> nat \<Rightarrow> 'a admissions_db_scheme \<Rightarrow> candidate list" where
  "merit_candidates programme_id year_id s =
     map (\<lambda>(k, a). \<lparr>cand_application_id = k, cand_score = app_score a,
                    cand_attributes = [(''gender'', VStr (app_gender a)), (''state'', VStr (app_state_of_origin a)),
                                       (''disability'', VBool (app_has_disability a))]\<rparr>)
       (filter_rows (\<lambda>_ a. app_deleted_at a = None \<and> app_programme a = programme_id \<and>
          app_intended_academic_year a = year_id \<and> app_status a \<in> set MERIT_STATUSES) (applications s))"

definition build_merit_list :: "nat \<Rightarrow> nat \<Rightarrow> 'a admissions_db_scheme \<Rightarrow> exn + merit_entry list" where
  "build_merit_list programme_id year_id s =
     bindE (admission_quota_rules programme_id s) (\<lambda>rules.
       Inr (generate_merit_list (merit_candidates programme_id year_id s) rules))"

section \<open>Steps and their effect on the applications\<close>

inductive admissions_step :: "'a admissions_db_scheme \<Rightarrow> 'a admissions_db_scheme \<Rightarrow> bool" where
  Create: "create_application_request c u data s = Inr (k, s') \<Longrightarrow> admissions_step s s'"
| Update: "update_application c k data s = Inr s' \<Longrightarrow> admissions_step s s'"
| Submit: "submit_application c k reason s = Inr s' \<Longrightarrow> admissions_step s s'"
| Withdraw: "withdraw_application c k reason s = Inr s' \<Longrightarrow> admissions_step s s'"
| Review: "record_review c k reviewer score criteria comments s = Inr s' \<Longrightarrow> admissions_step s s'"
| Decide: "decide_application c k decision u reason s = Inr s' \<Longrightarrow> admissions_step s s'"
| Accept: "accept_offer c k s = Inr s' \<Longrightarrow> admissions_step s s'"
| Decline: "decline_offer c k reason s = Inr s' \<Longrightarrow> admissions_step s s'"
| Convert: "convert_to_student c k actor s = Inr (sk, s') \<Longrightarrow> admissions_step s s'"
| Document: "attach_application_document k dt title content uploader limit s = Inr (d, s') \<Longrightarrow> admissions_step s s'"
| Fee: "store_fee_intent k intent amount currency s = Inr (f, s') \<Longrightarrow> admissions_step s s'"
| Settle: "get_row (application_fee_payments s) pk = Some f \<Longrightarrow> admissions_step s (settle_fee_payment c pk f state s)"
| Registry: "registry_step s s' \<Longrightarrow> admissions_step s s'"

text \<open>
  What one step may do to an application. \<open>app_linked\<close>: exactly the enrolled applications
  have a student record.
\<close>

definition app_linked :: "application \<Rightarrow> bool" where
  "app_linked a \<longleftrightarrow> (app_status a = App_Enrolled \<longleftrightarrow> app_student a \<noteq> None)"

definition app_move :: "application \<Rightarrow> application \<Rightarrow> bool" where
  "app_move a a' \<longleftrightarrow> app_reference_number a' = app_reference_number a \<and> app_fee_paid a' = app_fee_paid a \<and>
     (app_status a' = app_status a \<or> app_status a' \<in> set (application_transitions (app_status a))) \<and>
     (app_status a = App_Draft \<longrightarrow> app_status a' \<in> {App_Draft, App_Withdrawn} \<or> app_fee_paid a) \<and>
     (app_linked a \<longrightarrow> app_linked a')"

definition payments_grow :: "application_fee_payment table \<Rightarrow> application_fee_payment table \<Rightarrow> bool" where
  "payments_grow t t' \<longleftrightarrow> (\<forall>pk f. get_row t pk = Some f \<longrightarrow> afp_confirmed_at f \<noteq> None \<longrightarrow>
     (\<exists>f'. get_row t' pk = Some f' \<and> afp_application f' = afp_application f \<and> afp_confirmed_at f' \<noteq> None))"

lemma payments_grow_refl [simp]: "payments_grow t t"
  by (simp add: payments_grow_def)

definition fee_backed :: "nat \<Rightarrow> application_fee_payment table \<Rightarrow> bool" where
  "fee_backed k t \<longleftrightarrow> (\<exists>pk f. get_row t pk = Some f \<and> afp_application f = k \<and> afp_confirmed_at f \<noteq> None)"

lemma fee_backed_grow: "fee_backed k t \<Longrightarrow> payments_grow t t' \<Longrightarrow> fee_backed k t'"
  by (force simp: fee_backed_def payments_grow_def)

text \<open>The effect of a step, seen on the two tables of the invariant.\<close>

inductive app_effect :: "'a admissions_db_scheme \<Rightarrow> 'a admissions_db_scheme \<Rightarrow> bool" where
  same: "applications s' = applications s \<Longrightarrow>
    payments_grow (application_fee_payments s) (application_fee_payments s') \<Longrightarrow> app_effect s s'"
| new: "applications s' = add_row a (applications s) \<Longrightarrow> app_status a = App_Draft \<Longrightarrow> \<not> app_fee_paid a \<Longrightarrow>
    app_student a = None \<Longrightarrow> application_fee_payments s' = application_fee_payments s \<Longrightarrow>
    \<not> exists_row (application_clashes None a) (applications s) \<Longrightarrow> app_effect s s'"
| moved: "get_row (applications s) k = Some a \<Longrightarrow> applications s' = put_row k a' (applications s) \<Longrightarrow> app_move a a' \<Longrightarrow>
    app_student a' = app_student a \<or> \<not> exists_row (application_clashes (Some k) a') (applications s) \<Longrightarrow>
    application_fee_payments s' = application_fee_payments s \<Longrightarrow> app_effect s s'"
| paid: "get_row (applications s) k = Some a \<Longrightarrow>
    applications s' = put_row k (a\<lparr>app_fee_paid := True\<rparr>) (applications s) \<Longrightarrow>
    payments_grow (application_fee_payments s) (application_fee_payments s') \<Longrightarrow>
    fee_backed k (application_fee_payments s') \<Longrightarrow> app_effect s s'"

lemma get_application_Inr:
  "get_application k s = Inr a \<longleftrightarrow> get_row (applications s) k = Some a \<and> app_deleted_at a = None"
  by (auto simp: get_application_def split: option.splits)

lemma save_application_Inr:
  assumes "save_application c k old a reason s = Inr s'"
  obtains tr where "s' = s\<lparr>applications := put_row k a (applications s), audit_log := tr\<rparr>"
    and "audit_ext (audit_log s) tr" and "\<not> exists_row (application_clashes (Some k) a) (applications s)"
    and "application_full_clean (Some k) a s = Inr ()"
  using assms unfolding save_application_def
  by (auto simp: bindE_eq_Inr split: if_splits elim!: audit_saveE) 

lemma insert_application_Inr:
  assumes "insert_application c a reason s = Inr (k, s')"
  obtains tr where "s' = s\<lparr>applications := add_row a (applications s), audit_log := tr\<rparr>"
    and "k = fresh_pk (applications s)" and "audit_ext (audit_log s) tr"
    and "\<not> exists_row (application_clashes None a) (applications s)"
  using assms unfolding insert_application_def
  by (auto simp: bindE_eq_Inr Let_def split: if_splits elim!: audit_saveE)

lemma reference_number_state:
  "generate_reference_number y s = (r, s1) \<Longrightarrow> s1 = s\<lparr>id_sequences := id_sequences s1\<rparr>"
  by (auto simp: generate_reference_number_def Let_def allocate_def split_beta)

lemma create_application_Inr:
  assumes "create_application c p y fn lname g src au eb extra s = Inr (k, s')"
  obtains a seqs tr where
    "s' = s\<lparr>id_sequences := seqs, applications := add_row a (applications s), audit_log := tr\<rparr>"
    and "k = fresh_pk (applications s)" and "audit_ext (audit_log s) tr"
    and "\<not> exists_row (application_clashes None a) (applications s)"
    and "app_status a = app_status extra" and "app_fee_paid a = app_fee_paid extra"
    and "app_student a = app_student extra"
proof -
  from assms obtain year where "(let (reference, s1) = generate_reference_number year s;
           a = extra\<lparr>app_reference_number := reference, app_programme := p,
                     app_intended_academic_year := y, app_first_name := strip fn,
                     app_last_name := strip lname, app_gender := g, app_source := src,
                     app_user := actor_fk au, app_entered_by := actor_fk eb\<rparr>
       in bindE (application_full_clean None a s1) (\<lambda>_.
            insert_application c a (''Application created via '' @ source_text src) s1)) = Inr (k, s')"
    unfolding create_application_def by (rule bindE_InrE)
  moreover obtain r s1 where r: "generate_reference_number year s = (r, s1)" by (rule prod.exhaust)
  ultimately obtain a reason where ins: "insert_application c a reason s1 = Inr (k, s')"
    and a: "app_status a = app_status extra" "app_fee_paid a = app_fee_paid extra" "app_student a = app_student extra"
    by (auto simp: Let_def elim!: bindE_InrE)
  from reference_number_state [OF r] obtain seqs where s1: "s1 = s\<lparr>id_sequences := seqs\<rparr>" by blast
  from ins show thesis by (rule insert_application_Inr) (rule that [where a = a and seqs = seqs], auto simp: s1 a)
qed

lemma saved_effect:
  assumes "save_application c k a a' reason s1 = Inr s'" and "get_row (applications s) k = Some a"
    and "applications s1 = applications s" and "application_fee_payments s1 = application_fee_payments s"
    and "app_move a a'"
  shows "app_effect s s'"
proof -
  from assms(1) obtain tr where s': "s' = s1\<lparr>applications := put_row k a' (applications s1), audit_log := tr\<rparr>"
    and u: "\<not> exists_row (application_clashes (Some k) a') (applications s1)" by (rule save_application_Inr)
  have "app_student a' = app_student a \<or> \<not> exists_row (application_clashes (Some k) a') (applications s)"
    using u assms(3) by simp
  from app_effect.moved [OF assms(2) _ assms(5) this] show ?thesis by (simp add: s' assms)
qed

lemma registry_step_frame:
  assumes "registry_step (s :: 'a admissions_db_scheme) s'"
  shows "applications s' = applications s" and "application_fee_payments s' = application_fee_payments s"
    and "application_reviews s' = application_reviews s"
  using assms
  by (cases rule: registry_step.cases; auto elim!: create_student_Inr change_status_Inr write_status_Inr patch_student_Inr)+

lemma settle_effect:
  assumes "get_row (application_fee_payments s) pk = Some f"
  shows "app_effect s (settle_fee_payment c pk f state s)"
proof (cases "state = PayConfirmed")
  case False
  then show ?thesis
    by (intro app_effect.same) (auto simp: settle_fee_payment_def Let_def payments_grow_def get_put_row assms
        split: payment_state.splits)
next
  case True
  let ?f = "f\<lparr>afp_status := FeeConfirmed, afp_confirmed_at := Some (now c)\<rparr>"
  let ?s1 = "s\<lparr>application_fee_payments := put_row pk ?f (application_fee_payments s)\<rparr>"
  have eq: "settle_fee_payment c pk f state s = set_fee_paid (afp_application f) ?s1"
    by (simp add: settle_fee_payment_def True)
  have grow: "payments_grow (application_fee_payments s) (application_fee_payments ?s1)"
    using assms by (auto simp: payments_grow_def get_put_row)
  have backed: "fee_backed (afp_application f) (application_fee_payments ?s1)"
    unfolding fee_backed_def using assms by (intro exI [of _ pk] exI [of _ ?f]) (simp add: get_put_row)
  show ?thesis
  proof (cases "\<exists>a. get_row (applications s) (afp_application f) = Some a \<and> app_deleted_at a = None")
    case True
    then obtain a where "get_row (applications s) (afp_application f) = Some a" "app_deleted_at a = None" by blast
    with grow backed show ?thesis unfolding eq
      by (intro app_effect.paid) (simp_all add: set_fee_paid_def)
  next
    case False
    then have "set_fee_paid (afp_application f) ?s1 = ?s1"
      by (auto simp: set_fee_paid_def split: option.split)
    with grow show ?thesis unfolding eq by (intro app_effect.same) simp_all
  qed
qed

lemma transition_effect:
  assumes "save_application c k a a' reason s = Inr s'" and "get_row (applications s) k = Some a"
    and "app_status a' \<in> set (application_transitions (app_status a))"
    and "app_status a' = App_Submitted \<longrightarrow> app_fee_paid a" and "app_status a' \<noteq> App_Enrolled"
    and "app_reference_number a' = app_reference_number a" and "app_fee_paid a' = app_fee_paid a"
    and "app_student a' = app_student a"
  shows "app_effect s s'"
proof (rule saved_effect [OF assms(1,2)])
  have "app_status a \<noteq> App_Enrolled" using assms(3) by auto
  moreover have "app_status a = App_Draft \<longrightarrow> app_status a' \<in> {App_Draft, App_Withdrawn} \<or> app_fee_paid a"
    using assms(3,4) by auto
  ultimately show "app_move a a'" using assms by (simp add: app_move_def app_linked_def)
qed simp_all

lemma submit_effect: "submit_application c k reason s = Inr s' \<Longrightarrow> app_effect s s'"
  unfolding submit_application_def check_transition_def
  by (elim bindE_InrE; simp add: get_application_Inr ensure_eq_Inr split: if_splits)
    (erule transition_effect; simp)+

lemma withdraw_effect: "withdraw_application c k reason s = Inr s' \<Longrightarrow> app_effect s s'"
  unfolding withdraw_application_def check_transition_def
  by (elim bindE_InrE; simp add: get_application_Inr ensure_eq_Inr bindE_eq_Inr split: if_splits)
    (elim conjE exE, erule transition_effect; simp)

lemma decide_effect: "decide_application c k decision u reason s = Inr s' \<Longrightarrow> app_effect s s'"
  unfolding decide_application_def check_transition_def
  by (elim bindE_InrE; simp add: get_application_Inr ensure_eq_Inr bindE_eq_Inr split: if_splits)
    (elim conjE exE, erule transition_effect; auto)

lemma accept_effect: "accept_offer c k s = Inr s' \<Longrightarrow> app_effect s s'"
  unfolding accept_offer_def check_transition_def
  by (elim bindE_InrE; simp add: get_application_Inr ensure_eq_Inr)
    (elim conjE, erule transition_effect; simp)

lemma decline_effect: "decline_offer c k reason s = Inr s' \<Longrightarrow> app_effect s s'"
  unfolding decline_offer_def check_transition_def Let_def
  by (elim bindE_InrE; simp add: get_application_Inr ensure_eq_Inr)
    (elim conjE, erule transition_effect; simp)

lemma update_effect:
  assumes "update_application c k data s = Inr s'"
  shows "app_effect s s'"
proof -
  from assms obtain a where a: "get_row (applications s) k = Some a" "app_status a = App_Draft"
    and sv: "audit_save c application_meta k (Some (application_audit a)) (application_audit (edited_application a data))
        ''Edited before submission'' (s\<lparr>applications := put_row k (edited_application a data) (applications s)\<rparr>) = Inr s'"
    unfolding update_application_def by (elim bindE_InrE) (auto simp: get_application_Inr split: if_splits)
  from sv obtain tr where s': "s' = s\<lparr>applications := put_row k (edited_application a data) (applications s), audit_log := tr\<rparr>"
    by (rule audit_saveE) simp
  show ?thesis
    by (rule app_effect.moved [OF a(1), of s' "edited_application a data"])
      (simp_all add: s' edited_application_def app_move_def app_linked_def)
qed

lemma upsert_review_frame [simp]:
  "applications (upsert_review k u q cr cm s) = applications s"
  "application_fee_payments (upsert_review k u q cr cm s) = application_fee_payments s"
  by (simp_all add: upsert_review_def Let_def split: option.split)

lemma review_effect:
  assumes "record_review c k reviewer score criteria comments s = Inr s'"
  shows "app_effect s s'"
proof -
  from assms obtain a q where a: "get_application k s = Inr a"
    and sv: "save_application c k a (if app_status a = App_Submitted
        then a\<lparr>app_score := average_score (review_scores k (upsert_review k reviewer q criteria comments s)),
               app_status := App_UnderReview\<rparr>
        else a\<lparr>app_score := average_score (review_scores k (upsert_review k reviewer q criteria comments s))\<rparr>)
      (''Reviewed by '' @ user_str reviewer) (upsert_review k reviewer q criteria comments s) = Inr s'"
    unfolding record_review_def Let_def by (elim bindE_InrE) blast
  show ?thesis
    by (rule saved_effect [OF sv]) (use a in \<open>simp_all add: get_application_Inr app_move_def app_linked_def\<close>)
qed

lemma convert_to_student_Inr:
  assumes "convert_to_student c k actor s = Inr (sk, s')"
  obtains a s1 reason1 reason2 where "get_row (applications s) k = Some a" and "app_deleted_at a = None"
    and "app_status a = App_Accepted" and "app_student a = None"
    and "create_student c (app_programme a) (app_intended_academic_year a) (app_first_name a)
        (app_last_name a) (app_gender a) actor None reason1 (student_of_application a) s = Inr (sk, s1)"
    and "save_application c k a (a\<lparr>app_status := App_Enrolled, app_student := Some sk\<rparr>) reason2 s1 = Inr s'"
proof -
  have acc: "App_Enrolled \<in> set (application_transitions st) \<longleftrightarrow> st = App_Accepted" for st by (cases st) simp_all
  from assms obtain a where a: "get_row (applications s) k = Some a" "app_deleted_at a = None" "app_status a = App_Accepted"
    and r: "(if app_student a \<noteq> None then Inl InvalidApplicationTransition
       else bindE (create_student c (app_programme a) (app_intended_academic_year a) (app_first_name a)
                     (app_last_name a) (app_gender a) actor None
                     (''Converted from application '' @ app_reference_number a) (student_of_application a) s)
         (\<lambda>(sk, s1).
           bindE (save_application c k a (a\<lparr>app_status := App_Enrolled, app_student := Some sk\<rparr>)
                    (''Converted to student '' @
                     (case get_row (students s1) sk of None \<Rightarrow> [] | Some st \<Rightarrow> st_student_id st)) s1)
             (\<lambda>s2. Inr (sk, s2)))) = Inr (sk, s')"
    unfolding convert_to_student_def check_transition_def
    by (elim bindE_InrE) (auto simp: get_application_Inr ensure_eq_Inr acc)
  then have none: "app_student a = None" by (simp split: if_splits)
  from r obtain s1 where "create_student c (app_programme a) (app_intended_academic_year a) (app_first_name a)
        (app_last_name a) (app_gender a) actor None (''Converted from application '' @ app_reference_number a)
        (student_of_application a) s = Inr (sk, s1)"
    and "save_application c k a (a\<lparr>app_status := App_Enrolled, app_student := Some sk\<rparr>)
      (''Converted to student '' @ (case get_row (students s1) sk of None \<Rightarrow> [] | Some st \<Rightarrow> st_student_id st)) s1 = Inr s'"
    by (auto simp: none elim!: bindE_pairE bindE_InrE)
  with that a none show thesis by blast
qed

lemma convert_effect:
  assumes "convert_to_student c k actor s = Inr (sk, s')"
  shows "app_effect s s'"
  using assms
proof (rule convert_to_student_Inr)
  fix a s1 reason1 reason2
  assume a: "get_row (applications s) k = Some a" "app_status a = App_Accepted"
    and cs: "create_student c (app_programme a) (app_intended_academic_year a) (app_first_name a)
        (app_last_name a) (app_gender a) actor None reason1 (student_of_application a) s = Inr (sk, s1)"
    and sv: "save_application c k a (a\<lparr>app_status := App_Enrolled, app_student := Some sk\<rparr>) reason2 s1 = Inr s'"
  from registry_step_frame [OF registry_step.Create [OF cs]] show ?thesis
    by (intro saved_effect [OF sv a(1)]) (simp_all add: app_move_def app_linked_def a)
qed

lemma create_effect:
  assumes "create_application_request c u data s = Inr (k, s')"
  shows "app_effect s s'"
  using assms [unfolded create_application_request_def Let_def]
proof (rule create_application_Inr)
  fix a seqs tr
  assume s': "s' = s\<lparr>id_sequences := seqs, applications := add_row a (applications s), audit_log := tr\<rparr>"
    and u: "\<not> exists_row (application_clashes None a) (applications s)"
    and "app_status a = app_status (edited_application blank_application data)"
    and "app_fee_paid a = app_fee_paid (edited_application blank_application data)"
    and "app_student a = app_student (edited_application blank_application data)"
  then show ?thesis
    by (intro app_effect.new [of s' a s]) (simp_all add: edited_application_def blank_application_def)
qed

lemma admissions_step_effect: "admissions_step s s' \<Longrightarrow> app_effect s s'"
proof (induction rule: admissions_step.induct)
  case (Document k dt title content uploader limit s d s')
  then show ?case
    by (intro app_effect.same) (auto simp: attach_application_document_def Let_def split: if_splits)
next
  case (Fee k intent amount currency s f s')
  then show ?case
    by (intro app_effect.same)
      (auto simp: store_fee_intent_def bindE_eq_Inr payments_grow_def get_add_row split: if_splits)
next
  case (Registry s s')
  from registry_step_frame [OF this] show ?case by (intro app_effect.same) simp_all
qed (auto intro: create_effect update_effect submit_effect withdraw_effect review_effect decide_effect accept_effect
      decline_effect convert_effect settle_effect)

text \<open>No step of admissions touches the tables of the modules above it.\<close>

lemma save_application_more: "save_application c k a a' reason s = Inr s' \<Longrightarrow> admissions_db.more s' = admissions_db.more s"
  by (erule save_application_Inr) simp

lemma create_application_more:
  "create_application c p y fn lname g src au eb extra s = Inr (k, s') \<Longrightarrow> admissions_db.more s' = admissions_db.more s"
  by (erule create_application_Inr) simp

lemma update_application_more: "update_application c k data s = Inr s' \<Longrightarrow> admissions_db.more s' = admissions_db.more s"
  unfolding update_application_def by (auto elim!: bindE_InrE audit_saveE split: if_splits)

lemma registry_step_admissions_more: "registry_step s s' \<Longrightarrow> admissions_db.more s' = admissions_db.more s"
  using registry_step_more [of s s'] by (cases s; cases s') simp

lemma convert_to_student_more:
  "convert_to_student c k actor s = Inr (sk, s') \<Longrightarrow> admissions_db.more s' = admissions_db.more s"
  by (erule convert_to_student_Inr)
    (metis save_application_more registry_step_admissions_more registry_step.Create)

lemma admissions_step_more: "admissions_step s s' \<Longrightarrow> admissions_db.more s' = admissions_db.more s"
proof (induction rule: admissions_step.induct)
  case (Settle s pk f c state)
  show ?case
    by (simp add: settle_fee_payment_def set_fee_paid_def Let_def split: payment_state.split option.split)
next
  case (Review c k reviewer score criteria comments s s')
  then show ?case unfolding record_review_def Let_def
    by (elim bindE_InrE) (drule save_application_more, simp add: upsert_review_def Let_def split: option.split)
qed (auto simp: create_application_request_def Let_def submit_application_def withdraw_application_def
      decide_application_def accept_offer_def decline_offer_def attach_application_document_def store_fee_intent_def
      split: if_splits elim!: bindE_InrE
      dest: save_application_more create_application_more update_application_more convert_to_student_more
        registry_step_admissions_more)

section \<open>Invariants\<close>

definition app_gate :: "application \<Rightarrow> bool" where
  "app_gate a \<longleftrightarrow> app_status a \<in> {App_Draft, App_Withdrawn} \<or> app_fee_paid a"

text \<open>
  No two applications share a reference number or a student; every application is linked
  and past the fee gate as its status says; a paid application has a payment row that was
  confirmed.
\<close>

definition same_key :: "application \<Rightarrow> application \<Rightarrow> bool" where
  "same_key a b \<longleftrightarrow> app_reference_number a = app_reference_number b \<or>
     (app_student a \<noteq> None \<and> app_student a = app_student b)"

definition app_keys_unique :: "application table \<Rightarrow> bool" where
  "app_keys_unique t \<longleftrightarrow> (\<forall>k j a b. get_row t k = Some a \<longrightarrow> get_row t j = Some b \<longrightarrow> same_key a b \<longrightarrow> k = j)"

definition app_states_ok :: "application table \<Rightarrow> application_fee_payment table \<Rightarrow> bool" where
  "app_states_ok t fees \<longleftrightarrow> (\<forall>k a. get_row t k = Some a \<longrightarrow>
     app_linked a \<and> app_gate a \<and> (app_fee_paid a \<longrightarrow> fee_backed k fees))"

definition admissions_inv :: "'a admissions_db_scheme \<Rightarrow> bool" where
  "admissions_inv s \<longleftrightarrow> app_keys_unique (applications s) \<and>
     app_states_ok (applications s) (application_fee_payments s)"

lemma same_key_sym: "same_key a b = same_key b a"
  unfolding same_key_def by metis

lemma keys_unique_add:
  assumes "app_keys_unique t" and "\<And>j b. get_row t j = Some b \<Longrightarrow> \<not> same_key a b"
  shows "app_keys_unique (add_row a t)"
  unfolding app_keys_unique_def get_add_row
proof (intro allI impI)
  fix k j x y
  assume "(if k = fresh_pk t then Some a else get_row t k) = Some x"
    and "(if j = fresh_pk t then Some a else get_row t j) = Some y" and "same_key x y"
  then show "k = j" using assms same_key_sym [of x y]
    by (cases "k = fresh_pk t"; cases "j = fresh_pk t") (auto simp: app_keys_unique_def)
qed

lemma keys_unique_put:
  assumes "app_keys_unique t" and "\<And>j b. get_row t j = Some b \<Longrightarrow> j \<noteq> k \<Longrightarrow> \<not> same_key a b"
  shows "app_keys_unique (put_row k a t)"
  unfolding app_keys_unique_def get_put_row
proof (intro allI impI)
  fix i j x y
  assume "(if i = k \<and> get_row t k \<noteq> None then Some a else get_row t i) = Some x"
    and "(if j = k \<and> get_row t k \<noteq> None then Some a else get_row t j) = Some y" and "same_key x y"
  then show "i = j" using assms same_key_sym [of x y]
    by (cases "i = k"; cases "j = k") (auto simp: app_keys_unique_def split: if_splits)
qed

lemma no_clashD:
  assumes "\<not> exists_row (application_clashes pk a) t" and "get_row t j = Some b" and "Some j \<noteq> pk"
  shows "\<not> same_key a b"
  using assms(1,3) get_row_in_set [OF assms(2)]
  unfolding exists_row_iff application_clashes_def same_key_def by metis

lemma app_move_gate: "app_move a a' \<Longrightarrow> app_linked a \<Longrightarrow> app_gate a \<Longrightarrow> app_linked a' \<and> app_gate a'"
  unfolding app_move_def app_gate_def by (cases "app_status a") auto

lemma app_effect_keys:
  assumes "app_effect s s'" and "app_keys_unique (applications s)"
  shows "app_keys_unique (applications s')"
  using assms(1)
proof cases
  case same
  then show ?thesis using assms(2) by simp
next
  case (new a)
  show ?thesis unfolding new(1) using no_clashD [OF new(6)] by (intro keys_unique_add [OF assms(2)]) simp
next
  case (moved k a a')
  have old: "\<not> same_key a b" if "get_row (applications s) j = Some b" "j \<noteq> k" for j b
    using assms(2) moved(1) that by (auto simp: app_keys_unique_def)
  have "\<not> same_key a' b" if "get_row (applications s) j = Some b" "j \<noteq> k" for j b
    using moved(4)
  proof
    assume "app_student a' = app_student a"
    then show ?thesis using old [OF that] moved(3) by (simp add: same_key_def app_move_def)
  next
    assume "\<not> exists_row (application_clashes (Some k) a') (applications s)"
    from no_clashD [OF this that(1)] that(2) show ?thesis by simp
  qed
  then show ?thesis unfolding moved(2) by (intro keys_unique_put [OF assms(2)])
next
  case (paid k a)
  have "\<not> same_key a b" if "get_row (applications s) j = Some b" "j \<noteq> k" for j b
    using assms(2) paid(1) that by (auto simp: app_keys_unique_def)
  then show ?thesis unfolding paid(2) by (intro keys_unique_put [OF assms(2)]) (simp add: same_key_def)
qed

lemma app_effect_states:
  assumes "app_effect s s'" and "app_states_ok (applications s) (application_fee_payments s)"
  shows "app_states_ok (applications s') (application_fee_payments s')"
  using assms(1)
proof cases
  case same
  then show ?thesis using assms(2) fee_backed_grow [OF _ same(2)] by (simp add: app_states_ok_def)
next
  case (new a)
  then show ?thesis using assms(2)
    by (simp add: app_states_ok_def get_add_row app_linked_def app_gate_def)
next
  case (moved k a a')
  have old: "app_linked a" "app_gate a" "app_fee_paid a \<longrightarrow> fee_backed k (application_fee_payments s)"
    using assms(2) moved(1) by (auto simp: app_states_ok_def)
  have "app_fee_paid a' = app_fee_paid a" using moved(3) by (simp add: app_move_def)
  with app_move_gate [OF moved(3) old(1,2)] old(3) show ?thesis using assms(2) moved(2,5)
    by (simp add: app_states_ok_def get_put_row)
next
  case (paid k a)
  have "app_linked (a\<lparr>app_fee_paid := True\<rparr>)" "app_gate (a\<lparr>app_fee_paid := True\<rparr>)"
    using assms(2) paid(1) by (auto simp: app_states_ok_def app_linked_def app_gate_def)
  then show ?thesis using assms(2) paid(2,4) fee_backed_grow [OF _ paid(3)]
    by (simp add: app_states_ok_def get_put_row)
qed

section \<open>The state machine of an application\<close>

definition application_status_of :: "'a admissions_db_scheme \<Rightarrow> nat \<Rightarrow> application_status option" where
  "application_status_of s k = map_option app_status (get_row (applications s) k)"

fun application_rank :: "application_status \<Rightarrow> nat" where
  "application_rank App_Draft = 0"
| "application_rank App_Submitted = 1"
| "application_rank App_UnderReview = 2"
| "application_rank App_Offered = 3"
| "application_rank App_Accepted = 4"
| "application_rank App_Rejected = 5"
| "application_rank App_Withdrawn = 5"
| "application_rank App_Enrolled = 5"

lemma app_effect_status:
  assumes "app_effect s s'" and "application_status_of s k = Some x"
  shows "\<exists>y. application_status_of s' k = Some y \<and> (y = x \<or> y \<in> set (application_transitions x))"
  using assms
  by cases (auto simp: application_status_of_def get_add_row get_put_row app_move_def)

interpretation application_machine:
  forward_status_machine application_status_of application_transitions admissions_step application_rank
proof
  fix s s' :: "'a admissions_db_scheme" and k x
  assume "admissions_step s s'" and "application_status_of s k = Some x"
  then show "\<exists>y. application_status_of s' k = Some y \<and> (y = x \<or> y \<in> set (application_transitions x))"
    by (intro app_effect_status [OF admissions_step_effect])
next
  fix x y assume "y \<in> set (application_transitions x)"
  then show "application_rank x < application_rank y" by (cases x) auto
qed

lemma admissions_steps_inv: "admissions_step\<^sup>*\<^sup>* s s' \<Longrightarrow> admissions_inv s \<Longrightarrow> admissions_inv s'"
  by (induction rule: rtranclp_induct)
    (auto simp: admissions_inv_def intro: app_effect_keys app_effect_states admissions_step_effect)

section \<open>Properties\<close>

text \<open>
  C20. Admissions keep their invariants. After any sequence of operations, by applicants, staff,
  the payment provider and the registry, no two applications share a reference number or a
  student; exactly the enrolled applications have a student; every application past the
  draft that was not withdrawn has its fee paid; and every paid fee is backed by a payment
  of that application which the provider confirmed.
\<close>

theorem admissions_invariants:
  assumes "admissions_step\<^sup>*\<^sup>* s s'" and "admissions_inv s"
  shows "admissions_inv s'"
  using assms by (rule admissions_steps_inv)

text \<open>
  An application moves forward only. Its status changes along the allowed transitions, an
  application that has left a status never returns to it, and a rejected, withdrawn or
  enrolled application keeps its status for good.
\<close>

theorem application_moves_forward:
  assumes "admissions_step\<^sup>*\<^sup>* s s'" and "admissions_step\<^sup>*\<^sup>* s' s''"
    and "get_row (applications s) k = Some a"
  shows "\<exists>a' a''. get_row (applications s') k = Some a' \<and> get_row (applications s'') k = Some a'' \<and>
    (\<lambda>x y. y \<in> set (application_transitions x))\<^sup>*\<^sup>* (app_status a) (app_status a') \<and>
    (app_status a' \<noteq> app_status a \<longrightarrow> app_status a'' \<noteq> app_status a) \<and>
    (app_status a' \<in> {App_Rejected, App_Withdrawn, App_Enrolled} \<longrightarrow> app_status a'' = app_status a')"
proof -
  have st: "application_status_of s k = Some (app_status a)" by (simp add: application_status_of_def assms(3))
  from application_machine.status_steps [OF assms(1) st] obtain a' where
    a': "get_row (applications s') k = Some a'" "application_status_of s' k = Some (app_status a')"
      "(\<lambda>x y. y \<in> set (application_transitions x))\<^sup>*\<^sup>* (app_status a) (app_status a')"
    by (auto simp: application_status_of_def)
  from application_machine.status_steps [OF assms(2) a'(2)] obtain a'' where
    a'': "get_row (applications s'') k = Some a''" "application_status_of s'' k = Some (app_status a'')"
    by (auto simp: application_status_of_def)
  have "app_status a' \<noteq> app_status a \<longrightarrow> app_status a'' \<noteq> app_status a"
    using application_machine.never_returns [OF assms(1,2) st a'(2)] a''(2) by auto
  moreover have "app_status a' \<in> {App_Rejected, App_Withdrawn, App_Enrolled} \<longrightarrow> app_status a'' = app_status a'"
    using application_machine.terminal_stays [OF assms(2) a'(2)] a''(2) by auto
  ultimately show ?thesis using a' a'' by blast
qed

text \<open>
  An admission decision is never silent. A decision that succeeds is an offer or a
  rejection with a reason, was allowed by the status, and leaves exactly one entry of the
  audit trail behind: the change of \<open>status\<close>, with the reason and the acting user. When the
  audit trail cannot be written, no decision succeeds.
\<close>

theorem decision_audited:
  assumes "get_row (applications s) k = Some a"
  shows "(\<forall>s'. decide_application c k decision u reason s = Inr s' \<longrightarrow>
      decision \<in> {App_Offered, App_Rejected} \<and> decision \<in> set (application_transitions (app_status a)) \<and> nonblank reason \<and>
      get_row (applications s') k = Some (a\<lparr>app_status := decision, app_reviewed_by := Some (user_pk u),
        app_reviewed_at := Some (now c), app_decision_reason := reason\<rparr>) \<and>
      (\<exists>e. audit_log s' = audit_log s @ [e] \<and> ae_field_name e = ''status'' \<and> ae_reason e = reason \<and>
         ae_old_value e = Some (application_status_text (app_status a)) \<and>
         ae_new_value e = Some (application_status_text decision) \<and> ae_actor_id e = actor_fk (req_actor c))) \<and>
    (\<not> audit_up c \<longrightarrow> (\<exists>e. decide_application c k decision u reason s = Inl e))"
proof -
  let ?a = "a\<lparr>app_status := decision, app_reviewed_by := Some (user_pk u), app_reviewed_at := Some (now c),
    app_decision_reason := reason\<rparr>"
  have sens: "mm_sensitive application_meta" by (simp add: application_meta_def)
  have inv: "decision \<in> {App_Offered, App_Rejected} \<and> decision \<in> set (application_transitions (app_status a)) \<and>
      nonblank reason \<and> save_application c k a ?a reason s = Inr s'"
    if "decide_application c k decision u reason s = Inr s'" for s'
    using that assms by (auto simp: decide_application_def get_application_def check_transition_def ensure_def
        split: if_splits)
  have changed: "changed_fields (application_audit a) (application_audit ?a) =
      [(''status'', Some (application_status_text (app_status a)), Some (application_status_text decision))]"
    if "decision \<in> set (application_transitions (app_status a))"
    using that by (cases "app_status a"; cases decision) (auto simp: changed_fields_def application_audit_def)
  have one: "\<exists>e. audit_log s' = audit_log s @ [e] \<and> ae_field_name e = ''status'' \<and> ae_reason e = reason \<and>
         ae_old_value e = Some (application_status_text (app_status a)) \<and>
         ae_new_value e = Some (application_status_text decision) \<and> ae_actor_id e = actor_fk (req_actor c)"
    and up: "audit_up c" and row: "get_row (applications s') k = Some ?a"
    if "decide_application c k decision u reason s = Inr s'" for s'
  proof -
    from inv [OF that] have d: "decision \<in> set (application_transitions (app_status a))"
      and sv: "save_application c k a ?a reason s = Inr s'" by simp_all
    then have au: "audit_changes c application_meta k (application_audit a) (application_audit ?a) reason
        (s\<lparr>applications := put_row k ?a (applications s)\<rparr>) = Inr s'"
      by (auto simp: save_application_def audit_save_def bindE_eq_Inr split: if_splits)
    from audit_changes_exact [OF sens au] obtain es where "audit_log s' = audit_log s @ es"
      "recorded es = changed_fields (application_audit a) (application_audit ?a)"
      "\<forall>e \<in> set es. ae_reason e = reason \<and> ae_actor_id e = actor_fk (req_actor c)" by auto
    then show "\<exists>e. audit_log s' = audit_log s @ [e] \<and> ae_field_name e = ''status'' \<and> ae_reason e = reason \<and>
         ae_old_value e = Some (application_status_text (app_status a)) \<and>
         ae_new_value e = Some (application_status_text decision) \<and> ae_actor_id e = actor_fk (req_actor c)"
      unfolding changed [OF d] by (auto simp: recorded_def)
    show "audit_up c"
    proof (rule ccontr)
      assume "\<not> audit_up c"
      then have "audit_changes c application_meta k (application_audit a) (application_audit ?a) reason
          (s\<lparr>applications := put_row k ?a (applications s)\<rparr>) = Inl AuditWriteFailed"
        by (intro audit_changes_down_sensitive [OF sens]) (simp_all add: changed [OF d])
      with au show False by simp
    qed
    from sv show "get_row (applications s') k = Some ?a"
      by (rule save_application_Inr) (simp add: get_put_row assms)
  qed
  show ?thesis using inv one up row by (metis sum.exhaust)
qed

lemma convert_once:
  assumes "convert_to_student c k actor s = Inr (sk, s')"
  shows "\<exists>a st. get_row (applications s) k = Some a \<and> app_status a = App_Accepted \<and> app_student a = None \<and>
    students s' = add_row st (students s) \<and> sk = fresh_pk (students s) \<and> st_status st = St_Active \<and>
    st_programme st = app_programme a \<and> st_entry_academic_year st = app_intended_academic_year a \<and>
    st_first_name st = strip (app_first_name a) \<and> st_last_name st = strip (app_last_name a) \<and>
    st_national_id_number st = app_national_id_number a \<and>
    get_row (applications s') k = Some (a\<lparr>app_status := App_Enrolled, app_student := Some sk\<rparr>) \<and>
    (\<forall>c' actor'. \<exists>e. convert_to_student c' k actor' s' = Inl e)"
  using assms
proof (rule convert_to_student_Inr)
  fix a s1 reason1 reason2
  assume a: "get_row (applications s) k = Some a" "app_deleted_at a = None" "app_status a = App_Accepted"
      "app_student a = None"
    and cs: "create_student c (app_programme a) (app_intended_academic_year a) (app_first_name a)
        (app_last_name a) (app_gender a) actor None reason1 (student_of_application a) s = Inr (sk, s1)"
    and sv: "save_application c k a (a\<lparr>app_status := App_Enrolled, app_student := Some sk\<rparr>) reason2 s1 = Inr s'"
  let ?a = "a\<lparr>app_status := App_Enrolled, app_student := Some sk\<rparr>"
  have apps1: "applications s1 = applications s" using registry_step_frame [OF registry_step.Create [OF cs]] by simp
  from sv obtain tr where s': "s' = s1\<lparr>applications := put_row k ?a (applications s1), audit_log := tr\<rparr>"
    by (rule save_application_Inr)
  have row: "get_row (applications s') k = Some ?a" by (simp add: s' apps1 get_put_row a(1))
  have again: "\<exists>e. convert_to_student c' k actor' s' = Inl e" for c' actor'
    using row a(2) by (simp add: convert_to_student_def get_application_def check_transition_def)
  from cs show ?thesis
  proof (rule create_student_Inr)
    fix st h seqs tr'
    assume s1: "s1 = s\<lparr>id_sequences := seqs, students := add_row st (students s), audit_log := tr',
            status_histories := add_row h (status_histories s)\<rparr>" and "sk = fresh_pk (students s)"
      and "st_programme st = app_programme a" and "st_status st = st_status (student_of_application a)"
      and "st_entry_academic_year st = app_intended_academic_year a"
      and "st_first_name st = strip (app_first_name a)" and "st_last_name st = strip (app_last_name a)"
      and "st_national_id_number st = st_national_id_number (student_of_application a)"
    moreover have "students s' = add_row st (students s)" by (simp add: s' s1)
    ultimately show ?thesis using a row again
      by (intro exI [of _ a] exI [of _ st]) (simp add: student_of_application_def blank_student_def)
  qed
qed

text \<open>
  Conversion makes one student of one accepted application. A successful conversion adds
  exactly one student, active, with the programme, the entry year, the (trimmed) names and
  the national ID of the application; the application is then enrolled and points to the
  student, and no second conversion of it can succeed.
\<close>

theorem conversion_effect:
  "case convert_to_student c k actor s of
     Inl e \<Rightarrow> True
   | Inr (sk, s') \<Rightarrow> \<exists>a st. get_row (applications s) k = Some a \<and> app_status a = App_Accepted \<and> app_student a = None \<and>
       students s' = add_row st (students s) \<and> sk = fresh_pk (students s) \<and> st_status st = St_Active \<and>
       st_programme st = app_programme a \<and> st_entry_academic_year st = app_intended_academic_year a \<and>
       st_first_name st = strip (app_first_name a) \<and> st_last_name st = strip (app_last_name a) \<and>
       st_national_id_number st = app_national_id_number a \<and>
       get_row (applications s') k = Some (a\<lparr>app_status := App_Enrolled, app_student := Some sk\<rparr>) \<and>
       (\<forall>c' actor'. \<exists>e. convert_to_student c' k actor' s' = Inl e)"
  by (cases "convert_to_student c k actor s") (auto dest!: convert_once)

section \<open>Concrete inputs\<close>

text \<open>A draft with a pending payment, the same application offered, and one accepted.\<close>

definition sample_application :: application where
  "sample_application = blank_application\<lparr>app_reference_number := ''APP/2025/00001'', app_programme := 1,
     app_intended_academic_year := 1, app_first_name := ''Achol'', app_last_name := ''Garang'',
     app_gender := ''female'', app_phone := ''0921''\<rparr>"

definition sample_admissions_db :: "application \<Rightarrow> admissions_db" where
  "sample_admissions_db a = registry_db.extend sample_registry_db
     \<lparr>applications = [(1, a)], application_documents = [], application_reviews = [],
      application_fee_payments = [(1, \<lparr>afp_money = \<lparr>mx_amount = 5000, mx_currency = ''SSP'', mx_fx_rate = None,
          mx_fx_rate_date = None\<rparr>, afp_application = 1, afp_provider = ''mock'', afp_reference = ''MOCK-1'',
        afp_status = FeePending, afp_confirmed_at = None\<rparr>)]\<rparr>"

lemma sample_tables [simp]:
  "applications (sample_admissions_db a) = [(1, a)]" "audit_log (sample_admissions_db a) = []"
  "programmes (sample_admissions_db a) = programmes sample_registry_db"
  "academic_years (sample_admissions_db a) = academic_years sample_registry_db"
  "students (sample_admissions_db a) = []"
  by (simp_all add: sample_admissions_db_def registry_db.defs sample_registry_db_def)

lemma sample_inv: "admissions_inv (sample_admissions_db sample_application)"
  by (simp add: admissions_inv_def app_keys_unique_def app_states_ok_def get_row_singleton sample_application_def
      blank_application_def app_linked_def app_gate_def)

lemma admissions_invariants_witness:
  "\<exists>s'. admissions_step (sample_admissions_db sample_application) s' \<and> admissions_inv s' \<and>
     (\<exists>a. get_row (applications s') 1 = Some a \<and> app_fee_paid a)"
proof -
  let ?s = "sample_admissions_db sample_application"
  obtain f where f: "get_row (application_fee_payments ?s) 1 = Some f" "afp_application f = 1"
    by (auto simp: sample_admissions_db_def registry_db.defs get_row_singleton)
  define s' where "s' = settle_fee_payment sample_ctx 1 f PayConfirmed ?s"
  have step: "admissions_step ?s s'" unfolding s'_def using f(1) by (rule admissions_step.Settle)
  have "admissions_inv s'" using r_into_rtranclp [of admissions_step, OF step] sample_inv by (rule admissions_invariants)
  moreover have "get_row (applications s') 1 = Some (sample_application\<lparr>app_fee_paid := True\<rparr>)"
    by (simp add: s'_def settle_fee_payment_def set_fee_paid_def f(2) get_row_singleton get_put_row)
      (simp add: sample_application_def blank_application_def)
  ultimately show ?thesis using step by force
qed

lemma application_row_ok [simp]:
  "application_full_clean (Some 1) (sample_application\<lparr>app_status := st, app_student := k, app_fee_paid := p,
      app_reviewed_by := r, app_reviewed_at := t, app_decision_reason := d\<rparr>) (sample_admissions_db a) = Inr ()"
  if "k = None"
  using that
  by (simp add: application_full_clean_def application_fields_ok_def application_clean_def exists_row_def
      application_clashes_def sample_application_def blank_application_def Gender_values_def)
    (simp add: sample_registry_db_def get_row_def sample_codes_db_def)

lemma sample_texts: "nonblank ''Below the cut-off''" "nonblank ''Moving abroad''"
  by code_simp+

abbreviation "sample_submitted \<equiv> sample_application\<lparr>app_status := App_Submitted, app_fee_paid := True\<rparr>"

lemma sample_decide: "\<exists>s'. decide_application sample_ctx 1 App_Rejected sample_user ''Below the cut-off''
    (sample_admissions_db sample_submitted) = Inr s'"
  using application_row_ok [where k = None and st = App_Rejected and p = True and r = "Some (user_pk sample_user)"
      and t = "Some (now sample_ctx)" and d = "''Below the cut-off''" and a = sample_submitted]
  by (simp add: decide_application_def get_application_def get_row_singleton check_transition_def sample_texts
      save_application_def exists_row_def application_clashes_def audit_save_def application_audit_def
      record_change_def safe_write_def application_meta_def write_audit_first sample_ctx_def)
    (simp add: sample_application_def blank_application_def)

lemma decision_audited_witness:
  "\<exists>s' e. decide_application sample_ctx 1 App_Rejected sample_user ''Below the cut-off''
      (sample_admissions_db sample_submitted) = Inr s' \<and> audit_log s' = [e] \<and>
    ae_old_value e = Some ''submitted'' \<and> ae_new_value e = Some ''rejected''"
proof -
  obtain s' where s': "decide_application sample_ctx 1 App_Rejected sample_user ''Below the cut-off''
      (sample_admissions_db sample_submitted) = Inr s'" using sample_decide by blast
  from decision_audited [of "sample_admissions_db sample_submitted" 1 sample_submitted sample_ctx App_Rejected sample_user
      "''Below the cut-off''"] s'
  show ?thesis by (auto simp: get_row_singleton)
qed

lemma application_moves_forward_witness:
  "\<exists>s' a'. admissions_step (sample_admissions_db sample_submitted) s' \<and> get_row (applications s') 1 = Some a' \<and>
    (\<lambda>x y. y \<in> set (application_transitions x))\<^sup>*\<^sup>* App_Submitted (app_status a')"
proof -
  obtain s' where "decide_application sample_ctx 1 App_Rejected sample_user ''Below the cut-off''
      (sample_admissions_db sample_submitted) = Inr s'" using sample_decide by blast
  then have step: "admissions_step (sample_admissions_db sample_submitted) s'" by (rule admissions_step.Decide)
  from application_moves_forward [OF r_into_rtranclp [of admissions_step, OF step] rtranclp.rtrancl_refl,
      of 1 sample_submitted] step
  show ?thesis by (auto simp: get_row_singleton)
qed

text \<open>
  Confirming a fee changes the audited column \<open>fee_paid\<close> without an audit entry, and a
  confirmed payment that is polled again and reported failed is marked failed while the
  application stays paid.
\<close>

lemma fee_paid_unaudited: "audit_log (settle_fee_payment c pk f state s) = audit_log s"
  by (simp add: settle_fee_payment_def set_fee_paid_def Let_def split: payment_state.split option.split)

lemma failed_after_confirmed:
  "get_row (application_fee_payments s) pk = Some f \<Longrightarrow>
     applications (settle_fee_payment c pk f PayFailed s) = applications s \<and>
     get_row (application_fee_payments (settle_fee_payment c pk f PayFailed s)) pk = Some (f\<lparr>afp_status := FeeFailed\<rparr>)"
  by (simp add: settle_fee_payment_def get_put_row)

end
