(* ===== verification/Enrollment.thy ===== *)
theory Enrollment
  imports Admissions "HOL-Library.List_Lexorder" "HOL-Library.Char_ord"
begin

text \<open>
  Course registration: the model of \<open>enrollment/models.py\<close> and the services of
  \<open>enrollment/services.py\<close>. \<open>register_course\<close> composes the calendar, the curriculum checks and
  the hold providers. The lemmas show what a successful registration guarantees (open window,
  prerequisites, credit limit, no hold without an authorised override), that there is one row
  per student, course and semester, and that a completed registration is final.
\<close>

section \<open>Model\<close>

datatype registration_status = Reg_Registered | Reg_Dropped | Reg_Completed

fun registration_status_text :: "registration_status \<Rightarrow> string" where
  "registration_status_text Reg_Registered = ''registered''"
| "registration_status_text Reg_Dropped = ''dropped''"
| "registration_status_text Reg_Completed = ''completed''"

record course_registration =
  cr_student :: nat
  cr_course :: nat
  cr_semester :: nat
  cr_status :: registration_status
  cr_is_repeat :: bool
  cr_registered_by :: "nat option"
  cr_dropped_at :: "int option"
  cr_drop_reason :: string
  cr_hold_override_by :: "nat option"
  cr_override_reason :: string
  cr_completed_by :: "nat option"
  cr_completed_at :: "int option"

record enrollment_db = admissions_db +
  course_registrations :: "course_registration table"

definition new_registration :: "nat \<Rightarrow> nat \<Rightarrow> nat \<Rightarrow> course_registration" where
  "new_registration student course semester =
     \<lparr>cr_student = student, cr_course = course, cr_semester = semester, cr_status = Reg_Registered,
      cr_is_repeat = False, cr_registered_by = None, cr_dropped_at = None, cr_drop_reason = [],
      cr_hold_override_by = None, cr_override_reason = [], cr_completed_by = None, cr_completed_at = None\<rparr>"

definition registration_meta :: model_meta where
  "registration_meta = \<lparr>mm_label = ''enrollment.courseregistration'', mm_verbose = ''course registration'',
     mm_sensitive = False\<rparr>"

definition registration_audit :: "course_registration \<Rightarrow> (string \<times> pyval) list" where
  "registration_audit r =
     [(''status'', VStr (registration_status_text (cr_status r))), (''is_repeat'', VBool (cr_is_repeat r))]"

text \<open>The constraint \<open>one_registration_per_course_per_semester\<close>.\<close>

definition registration_clash :: "nat option \<Rightarrow> course_registration \<Rightarrow> nat \<Rightarrow> course_registration \<Rightarrow> bool" where
  "registration_clash pk r k y \<longleftrightarrow> Some k \<noteq> pk \<and> cr_student y = cr_student r \<and> cr_course y = cr_course r \<and>
     cr_semester y = cr_semester r"

definition registration_full_clean ::
  "nat option \<Rightarrow> course_registration \<Rightarrow> 'a enrollment_db_scheme \<Rightarrow> exn + unit" where
  "registration_full_clean pk r s =
     ensure (get_row (students s) (cr_student r) \<noteq> None \<and> get_row (courses s) (cr_course r) \<noteq> None \<and>
             get_row (semesters s) (cr_semester r) \<noteq> None \<and>
             \<not> exists_row (registration_clash pk r) (course_registrations s)) ValidationError"

text \<open>\<open>full_clean()\<close> and \<open>save()\<close>; \<open>old\<close> is the loaded row of an existing key.\<close>

definition save_registration ::
  "ctx \<Rightarrow> (nat \<times> course_registration) option \<Rightarrow> course_registration \<Rightarrow> string \<Rightarrow> 'a enrollment_db_scheme
    \<Rightarrow> exn + nat \<times> 'a enrollment_db_scheme" where
  "save_registration c old r reason s =
     bindE (registration_full_clean (map_option fst old) r s) (\<lambda>_.
       let k = (case old of None \<Rightarrow> fresh_pk (course_registrations s) | Some (k, _) \<Rightarrow> k) in
       bindE (audit_save c registration_meta k (map_option (\<lambda>(_, o1). registration_audit o1) old)
                (registration_audit r) reason
                (s\<lparr>course_registrations := (case old of
                     None \<Rightarrow> add_row r (course_registrations s)
                   | Some (k, _) \<Rightarrow> put_row k r (course_registrations s))\<rparr>))
         (\<lambda>s'. Inr (k, s')))"

section \<open>Queries\<close>

definition PrerequisiteNotMet :: exn where "PrerequisiteNotMet = DomainError ''prerequisite_not_met'' 409"
definition CreditLimitExceeded :: exn where "CreditLimitExceeded = DomainError ''credit_limit_exceeded'' 409"
definition AlreadyRegistered :: exn where "AlreadyRegistered = DomainError ''already_registered'' 400"
definition RegistrationNotOpen :: exn where "RegistrationNotOpen = DomainError ''registration_not_open'' 400"
definition ReasonRequired :: exn where "ReasonRequired = DomainError ''reason_required'' 400"

definition resolve_semester :: "nat option \<Rightarrow> 'a enrollment_db_scheme \<Rightarrow> exn + nat \<times> semester" where
  "resolve_semester semester_id s =
     (case semester_id of
        Some k \<Rightarrow> bindE (get_semester k s) (\<lambda>r. Inr (k, r))
      | None \<Rightarrow> require_current_semester s)"

text \<open>\<open>dict.fromkeys(course_ids)\<close>: no grade point is known for any passed course.\<close>

definition passed_course_ids :: "nat \<Rightarrow> 'a enrollment_db_scheme \<Rightarrow> (nat \<times> rat option) list" where
  "passed_course_ids student s =
     map (\<lambda>(k, r). (cr_course r, None))
       (filter_rows (\<lambda>_ r. cr_student r = student \<and> cr_status r = Reg_Completed) (course_registrations s))"

definition credit_hours_of :: "'a enrollment_db_scheme \<Rightarrow> course_registration \<Rightarrow> nat" where
  "credit_hours_of s r = (case get_row (courses s) (cr_course r) of None \<Rightarrow> 0 | Some x \<Rightarrow> crs_credit_hours x)"

definition active_credit_load :: "nat \<Rightarrow> nat \<Rightarrow> nat option \<Rightarrow> 'a enrollment_db_scheme \<Rightarrow> nat" where
  "active_credit_load student semester exclude_pk s =
     sum_rows (\<lambda>k r. cr_student r = student \<and> cr_semester r = semester \<and> cr_status r = Reg_Registered \<and>
        Some k \<noteq> exclude_pk) (credit_hours_of s) (course_registrations s)"

definition active_registration_ids :: "nat \<Rightarrow> nat \<Rightarrow> 'a enrollment_db_scheme \<Rightarrow> nat list" where
  "active_registration_ids course semester s =
     map fst (filter_rows (\<lambda>_ r. cr_course r = course \<and> cr_semester r = semester \<and> cr_status r = Reg_Registered)
       (course_registrations s))"

definition students_registered_in :: "nat \<Rightarrow> 'a enrollment_db_scheme \<Rightarrow> nat list" where
  "students_registered_in semester s =
     remdups (map (\<lambda>(_, r). cr_student r)
       (filter_rows (\<lambda>_ r. cr_semester r = semester \<and> cr_status r = Reg_Registered) (course_registrations s)))"

definition student_id_for_registration :: "nat \<Rightarrow> 'a enrollment_db_scheme \<Rightarrow> nat option" where
  "student_id_for_registration k s = map_option cr_student (get_row (course_registrations s) k)"

definition course_id_for_registration :: "nat \<Rightarrow> 'a enrollment_db_scheme \<Rightarrow> nat option" where
  "course_id_for_registration k s = map_option cr_course (get_row (course_registrations s) k)"

record registration_info =
  ri_registration_id :: nat
  ri_course_id :: nat
  ri_credit_hours :: nat
  ri_is_repeat :: bool
  ri_status :: registration_status

definition registrations_for_student :: "nat \<Rightarrow> nat \<Rightarrow> 'a enrollment_db_scheme \<Rightarrow> registration_info list" where
  "registrations_for_student student semester s =
     map (\<lambda>(k, r). \<lparr>ri_registration_id = k, ri_course_id = cr_course r, ri_credit_hours = credit_hours_of s r,
                    ri_is_repeat = cr_is_repeat r, ri_status = cr_status r\<rparr>)
       (filter_rows (\<lambda>_ r. cr_student r = student \<and> cr_semester r = semester) (course_registrations s))"

text \<open>The printed register, in the order of the names (by code point; the database may collate).\<close>

definition class_list :: "nat \<Rightarrow> nat \<Rightarrow> 'a enrollment_db_scheme \<Rightarrow> (nat \<times> string \<times> string \<times> bool) list" where
  "class_list course semester s =
     (let named = (\<lambda>(k, r). (k, r, case get_row (students s) (cr_student r) of None \<Rightarrow> blank_student | Some st \<Rightarrow> st));
          rows = map named (filter_rows (\<lambda>_ r. cr_course r = course \<and> cr_semester r = semester \<and>
                   cr_status r = Reg_Registered) (course_registrations s))
      in map (\<lambda>(k, r, st). (k, st_student_id st, student_full_name st, cr_is_repeat r))
           (sort_key (\<lambda>(k, r, st). (st_last_name st, st_first_name st)) rows))"

record credit_report =
  crep_registered_credits :: nat
  crep_min_credits :: nat
  crep_max_credits :: nat
  crep_meets_minimum :: bool

definition credit_summary :: "nat \<Rightarrow> nat \<Rightarrow> 'a enrollment_db_scheme \<Rightarrow> exn + credit_report" where
  "credit_summary student semester s =
     bindE (get_programme_id student s) (\<lambda>p.
     bindE (credit_limits p s) (\<lambda>(lo, hi).
       let load = active_credit_load student semester None s in
       Inr \<lparr>crep_registered_credits = load, crep_min_credits = lo, crep_max_credits = hi,
            crep_meets_minimum = (lo \<le> load)\<rparr>))"

section \<open>Operations\<close>

definition find_registration :: "nat \<Rightarrow> nat \<Rightarrow> nat \<Rightarrow> 'a enrollment_db_scheme \<Rightarrow> (nat \<times> course_registration) option" where
  "find_registration student course semester s =
     first_row (\<lambda>_ r. cr_student r = student \<and> cr_course r = course \<and> cr_semester r = semester)
       (course_registrations s)"

definition check_existing :: "(nat \<times> course_registration) option \<Rightarrow> exn + unit" where
  "check_existing existing =
     (case existing of
        None \<Rightarrow> Inr ()
      | Some (_, r) \<Rightarrow> (case cr_status r of
            Reg_Registered \<Rightarrow> Inl AlreadyRegistered | Reg_Completed \<Rightarrow> Inl RegistrationNotOpen | Reg_Dropped \<Rightarrow> Inr ()))"

definition projected_load :: "nat \<Rightarrow> nat \<Rightarrow> nat \<Rightarrow> nat option \<Rightarrow> 'a enrollment_db_scheme \<Rightarrow> nat" where
  "projected_load student course semester exclude_pk s =
     active_credit_load student semester exclude_pk s + total_credits [course] s"

text \<open>Whether blocking holds were overridden; an override needs a reason and the permission.\<close>

definition check_holds :: "hold_source_provider bucket \<Rightarrow> nat \<Rightarrow> user option \<Rightarrow> string \<Rightarrow> exn + bool" where
  "check_holds providers student actor override_reason =
     (if blocking_holds providers student = [] then Inr False
      else if nonblank override_reason \<and> (case actor of None \<Rightarrow> False | Some u \<Rightarrow> has_perm u ''enrollment.override_hold'')
      then Inr True
      else Inl BlockedByHold)"

definition is_repeat_registration :: "nat \<Rightarrow> nat \<Rightarrow> nat option \<Rightarrow> 'a enrollment_db_scheme \<Rightarrow> bool" where
  "is_repeat_registration student course pk s =
     exists_row (\<lambda>k r. cr_student r = student \<and> cr_course r = course \<and> Some k \<noteq> pk) (course_registrations s)"

definition registration_row ::
  "(nat \<times> course_registration) option \<Rightarrow> nat \<Rightarrow> nat \<Rightarrow> nat \<Rightarrow> bool \<Rightarrow> user option \<Rightarrow> bool \<Rightarrow> string \<Rightarrow> course_registration" where
  "registration_row existing student course semester repeated actor overridden override_reason =
     (let base = (case existing of None \<Rightarrow> new_registration student course semester
                  | Some (_, r) \<Rightarrow> r\<lparr>cr_status := Reg_Registered, cr_dropped_at := None\<rparr>);
          r = base\<lparr>cr_is_repeat := repeated, cr_registered_by := actor_fk actor\<rparr>
      in if overridden then r\<lparr>cr_hold_override_by := actor_fk actor, cr_override_reason := override_reason\<rparr> else r)"

definition register_course ::
  "ctx \<Rightarrow> hold_source_provider bucket \<Rightarrow> nat \<Rightarrow> nat \<Rightarrow> nat option \<Rightarrow> user option \<Rightarrow> string
    \<Rightarrow> 'a enrollment_db_scheme \<Rightarrow> exn + nat \<times> 'a enrollment_db_scheme" where
  "register_course c providers student course semester_id actor override_reason s =
     bindE (resolve_semester semester_id s) (\<lambda>(sem, semester).
     bindE (require_registration_open c (Some semester) s) (\<lambda>_.
       let existing = find_registration student course sem s; pk = map_option fst existing in
     bindE (check_existing existing) (\<lambda>_.
     bindE (get_programme_id student s) (\<lambda>programme.
     bindE (ensure (unmet_prerequisites [course] (passed_course_ids student s) [] s = []) PrerequisiteNotMet) (\<lambda>_.
     bindE (credit_limits programme s) (\<lambda>(_, max_credits).
     bindE (ensure (projected_load student course sem pk s \<le> max_credits) CreditLimitExceeded) (\<lambda>_.
     bindE (check_holds providers student actor override_reason) (\<lambda>overridden.
       save_registration c existing
         (registration_row existing student course sem (is_repeat_registration student course pk s) actor
            overridden override_reason)
         (if overridden then ''Registered (override: '' @ override_reason @ '')'' else ''Registered'') s))))))))"

text \<open>The argument of the other operations is the loaded row of key \<open>k\<close>.\<close>

definition drop_course ::
  "ctx \<Rightarrow> nat \<Rightarrow> string \<Rightarrow> 'a enrollment_db_scheme \<Rightarrow> exn + nat \<times> 'a enrollment_db_scheme" where
  "drop_course c k reason s =
     (case get_row (course_registrations s) k of
        None \<Rightarrow> Inl DoesNotExist
      | Some r \<Rightarrow>
          if \<not> nonblank reason then Inl ReasonRequired
          else if cr_status r \<noteq> Reg_Registered then Inl RegistrationNotOpen
          else bindE (get_semester (cr_semester r) s) (\<lambda>semester.
            if \<not> is_add_drop_open (Some semester) (now c) s then Inl RegistrationNotOpen
            else save_registration c (Some (k, r))
                   (r\<lparr>cr_status := Reg_Dropped, cr_dropped_at := Some (now c), cr_drop_reason := reason\<rparr>) reason s))"

definition record_prior_completion ::
  "ctx \<Rightarrow> nat \<Rightarrow> user \<Rightarrow> string \<Rightarrow> 'a enrollment_db_scheme \<Rightarrow> exn + nat \<times> 'a enrollment_db_scheme" where
  "record_prior_completion c k actor reason s =
     (case get_row (course_registrations s) k of
        None \<Rightarrow> Inl DoesNotExist
      | Some r \<Rightarrow>
          if \<not> nonblank reason then Inl ReasonRequired
          else if cr_status r = Reg_Completed then Inr (k, s)
          else save_registration c (Some (k, r))
                 (r\<lparr>cr_status := Reg_Completed, cr_completed_by := Some (user_pk actor),
                    cr_completed_at := Some (now c)\<rparr>) reason s)"

section \<open>What the operations write\<close>

lemma save_registration_Inr:
  assumes "save_registration c old r reason s = Inr (k, s')"
  obtains tr where "s' = s\<lparr>course_registrations := (case old of None \<Rightarrow> add_row r (course_registrations s)
                     | Some (k, _) \<Rightarrow> put_row k r (course_registrations s)), audit_log := tr\<rparr>"
    and "k = (case old of None \<Rightarrow> fresh_pk (course_registrations s) | Some (k, _) \<Rightarrow> k)"
    and "audit_ext (audit_log s) tr"
    and "\<not> exists_row (registration_clash (map_option fst old) r) (course_registrations s)"
proof -
  from assms obtain s1 where clean: "registration_full_clean (map_option fst old) r s = Inr ()"
    and k: "k = (case old of None \<Rightarrow> fresh_pk (course_registrations s) | Some (k, _) \<Rightarrow> k)"
    and au: "audit_save c registration_meta k (map_option (\<lambda>(_, o1). registration_audit o1) old) (registration_audit r)
       reason (s\<lparr>course_registrations := (case old of None \<Rightarrow> add_row r (course_registrations s)
                     | Some (k, _) \<Rightarrow> put_row k r (course_registrations s))\<rparr>) = Inr s'"
    unfolding save_registration_def Let_def by (elim bindE_InrE) auto
  from au clean k show thesis
    by (elim audit_saveE) (rule that, auto simp: registration_full_clean_def ensure_eq_Inr)
qed

lemma register_course_Inr:
  assumes "register_course c providers student course semester_id actor override_reason s = Inr (k, s')"
  obtains sem semester existing programme lo hi overridden reason where
    "resolve_semester semester_id s = Inr (sem, semester)" and "is_registration_open (Some semester) (now c) s"
    and "existing = find_registration student course sem s" and "check_existing existing = Inr ()"
    and "get_programme_id student s = Inr programme"
    and "unmet_prerequisites [course] (passed_course_ids student s) [] s = []"
    and "credit_limits programme s = Inr (lo, hi)"
    and "projected_load student course sem (map_option fst existing) s \<le> hi"
    and "check_holds providers student actor override_reason = Inr overridden"
    and "save_registration c existing (registration_row existing student course sem
           (is_repeat_registration student course (map_option fst existing) s) actor overridden override_reason)
           reason s = Inr (k, s')"
proof -
  from assms obtain sem semester where 1: "resolve_semester semester_id s = Inr (sem, semester)"
    and r: "bindE (require_registration_open c (Some semester) s) (\<lambda>_.
       let existing = find_registration student course sem s; pk = map_option fst existing in
     bindE (check_existing existing) (\<lambda>_.
     bindE (get_programme_id student s) (\<lambda>programme.
     bindE (ensure (unmet_prerequisites [course] (passed_course_ids student s) [] s = []) PrerequisiteNotMet) (\<lambda>_.
     bindE (credit_limits programme s) (\<lambda>(_, max_credits).
     bindE (ensure (projected_load student course sem pk s \<le> max_credits) CreditLimitExceeded) (\<lambda>_.
     bindE (check_holds providers student actor override_reason) (\<lambda>overridden.
       save_registration c existing
         (registration_row existing student course sem (is_repeat_registration student course pk s) actor
            overridden override_reason)
         (if overridden then ''Registered (override: '' @ override_reason @ '')'' else ''Registered'') s))))))) = Inr (k, s')"
    unfolding register_course_def by (rule bindE_pairE)
  from r show thesis unfolding Let_def
    by (elim bindE_InrE bindE_pairE)
      (rule that [OF 1 _ refl], auto simp: require_registration_open_def ensure_eq_Inr split: if_splits)
qed

section \<open>Steps\<close>

inductive enrollment_step :: "'a enrollment_db_scheme \<Rightarrow> 'a enrollment_db_scheme \<Rightarrow> bool" where
  Register: "register_course c providers student course semester_id actor override_reason s = Inr (k, s') \<Longrightarrow>
    enrollment_step s s'"
| Drop: "drop_course c k reason s = Inr (k', s') \<Longrightarrow> enrollment_step s s'"
| Complete: "record_prior_completion c k u reason s = Inr (k', s') \<Longrightarrow> enrollment_step s s'"
| Admission: "admissions_step s s' \<Longrightarrow> enrollment_step s s'"

lemma admissions_step_registrations:
  "admissions_step s s' \<Longrightarrow> course_registrations s' = course_registrations s"
  using admissions_step_more [of s s'] by (cases s; cases s') simp

fun registration_transitions :: "registration_status \<Rightarrow> registration_status list" where
  "registration_transitions Reg_Registered = [Reg_Dropped, Reg_Completed]"
| "registration_transitions Reg_Dropped = [Reg_Registered, Reg_Completed]"
| "registration_transitions Reg_Completed = []"

definition registration_key :: "course_registration \<Rightarrow> nat \<times> nat \<times> nat" where
  "registration_key r = (cr_student r, cr_course r, cr_semester r)"

text \<open>Every step leaves the table, inserts a row, or updates one row without changing its key.\<close>

inductive registration_effect :: "'a enrollment_db_scheme \<Rightarrow> 'a enrollment_db_scheme \<Rightarrow> bool" where
  same: "course_registrations s' = course_registrations s \<Longrightarrow> registration_effect s s'"
| new: "course_registrations s' = add_row r (course_registrations s) \<Longrightarrow>
    \<not> exists_row (registration_clash None r) (course_registrations s) \<Longrightarrow> registration_effect s s'"
| changed: "get_row (course_registrations s) k = Some r \<Longrightarrow>
    course_registrations s' = put_row k r' (course_registrations s) \<Longrightarrow> registration_key r' = registration_key r \<Longrightarrow>
    cr_status r' \<in> set (registration_transitions (cr_status r)) \<Longrightarrow> registration_effect s s'"

lemma find_registrationD:
  assumes "find_registration student course semester s = Some (k, r)" and "wf_table (course_registrations s)"
  shows "get_row (course_registrations s) k = Some r" and "registration_key r = (student, course, semester)"
  using first_row_get [OF assms(2)] first_row_Some assms(1)
  by (fastforce simp: find_registration_def registration_key_def)+

lemma registration_row_sel [simp]:
  "cr_status (registration_row existing student course sem rep actor ov reason) = Reg_Registered"
  "cr_is_repeat (registration_row existing student course sem rep actor ov reason) = rep"
  by (auto simp: registration_row_def Let_def new_registration_def split: option.split)

lemma registration_row_key:
  "registration_key (registration_row existing student course sem rep actor ov reason) =
     (case existing of None \<Rightarrow> (student, course, sem) | Some (k, r) \<Rightarrow> registration_key r)"
  by (simp add: registration_row_def registration_key_def Let_def new_registration_def split: option.split)

lemma register_effect:
  assumes "register_course c providers student course semester_id actor override_reason s = Inr (k, s')"
    and "wf_table (course_registrations s)"
  shows "registration_effect s s'"
  using assms(1)
proof (rule register_course_Inr)
  fix sem semester existing overridden reason
  assume ex: "existing = find_registration student course sem s" "check_existing existing = Inr ()"
    and sv: "save_registration c existing (registration_row existing student course sem
           (is_repeat_registration student course (map_option fst existing) s) actor overridden override_reason)
           reason s = Inr (k, s')" (is "save_registration c existing ?r reason s = _")
  show ?thesis
  proof (cases existing)
    case None
    with sv show ?thesis by (elim save_registration_Inr) (simp add: registration_effect.new)
  next
    case (Some x)
    obtain k0 r where x: "x = (k0, r)" by (cases x)
    from ex(1) Some x have fnd: "find_registration student course sem s = Some (k0, r)" by simp
    note r = find_registrationD [OF fnd assms(2)]
    have "cr_status r = Reg_Dropped"
      using ex(2) by (simp add: Some x check_existing_def split: registration_status.splits)
    moreover have "registration_key ?r = registration_key r" by (simp add: registration_row_key Some x)
    moreover have "course_registrations s' = put_row k0 ?r (course_registrations s)"
      using sv by (elim save_registration_Inr) (simp add: Some x)
    ultimately show ?thesis using registration_effect.changed [OF r(1)] by simp
  qed
qed

lemma changed_effect:
  assumes "save_registration c (Some (k, r)) r' reason s = Inr (k', s')" and "get_row (course_registrations s) k = Some r"
    and "registration_key r' = registration_key r" and "cr_status r' \<in> set (registration_transitions (cr_status r))"
  shows "registration_effect s s'"
  using assms(1) by (elim save_registration_Inr) (simp add: registration_effect.changed [OF assms(2) _ assms(3,4)])

lemma enrollment_step_effect:
  assumes "enrollment_step s s'" and "wf_table (course_registrations s)"
  shows "registration_effect s s'"
  using assms
proof (induction rule: enrollment_step.induct)
  case (Drop c k reason s k' s')
  then show ?case
    by (auto simp: drop_course_def registration_key_def split: option.splits if_splits elim!: bindE_InrE changed_effect)
next
  case (Complete c k u reason s k' s')
  then show ?case
  proof (cases "get_row (course_registrations s) k")
    case (Some r)
    show ?thesis
    proof (cases "cr_status r = Reg_Completed")
      case True
      with Complete Some show ?thesis
        by (auto simp: record_prior_completion_def split: if_splits intro: registration_effect.same)
    next
      case False
      then have "Reg_Completed \<in> set (registration_transitions (cr_status r))" by (cases "cr_status r") simp_all
      with Complete Some False show ?thesis
        by (auto simp: record_prior_completion_def registration_key_def split: if_splits elim!: changed_effect)
    qed
  qed (simp add: record_prior_completion_def)
qed (auto intro: register_effect registration_effect.same admissions_step_registrations)

section \<open>Invariants and the status machine\<close>

definition registrations_unique :: "course_registration table \<Rightarrow> bool" where
  "registrations_unique t \<longleftrightarrow> wf_table t \<and> unique_on (\<lambda>r. Some (registration_key r)) t"

definition registration_status_of :: "'a enrollment_db_scheme \<Rightarrow> nat \<Rightarrow> registration_status option" where
  "registration_status_of s k = map_option cr_status (get_row (course_registrations s) k)"

text \<open>Steps from tables with distinct primary keys, which every step keeps.\<close>

definition registration_machine_step :: "'a enrollment_db_scheme \<Rightarrow> 'a enrollment_db_scheme \<Rightarrow> bool" where
  "registration_machine_step s s' \<longleftrightarrow> wf_table (course_registrations s) \<and> enrollment_step s s'"

lemma registration_effect_wf:
  "registration_effect s s' \<Longrightarrow> wf_table (course_registrations s) \<Longrightarrow> wf_table (course_registrations s')"
  by (induction rule: registration_effect.induct) simp_all

lemma enrollment_steps_machine:
  assumes "enrollment_step\<^sup>*\<^sup>* s s'" and "wf_table (course_registrations s)"
  shows "registration_machine_step\<^sup>*\<^sup>* s s' \<and> wf_table (course_registrations s')"
  using assms
proof (induction rule: rtranclp_induct)
  case (step s1 s2)
  then have "registration_machine_step s1 s2" by (simp add: registration_machine_step_def)
  with step show ?case
    using registration_effect_wf [OF enrollment_step_effect [OF step.hyps(2)]] by (auto intro: rtranclp.rtrancl_into_rtrancl)
qed simp

interpretation registration_machine:
  status_machine registration_status_of registration_transitions registration_machine_step
proof
  fix s s' :: "'a enrollment_db_scheme" and k x
  assume "registration_machine_step s s'" and x: "registration_status_of s k = Some x"
  then have "registration_effect s s'" by (auto simp: registration_machine_step_def intro: enrollment_step_effect)
  then show "\<exists>y. registration_status_of s' k = Some y \<and> (y = x \<or> y \<in> set (registration_transitions x))"
    using x by cases (auto simp: registration_status_of_def get_add_row get_put_row)
qed

lemma registration_effect_unique:
  assumes "registration_effect s s'" and "registrations_unique (course_registrations s)"
  shows "registrations_unique (course_registrations s')"
  using assms(1)
proof cases
  case (new r)
  have "registration_key b \<noteq> registration_key r" if "get_row (course_registrations s) j = Some b" for j b
    using no_clash_unique [OF new(2) that] by (auto simp: registration_clash_def registration_key_def)
  with assms(2) show ?thesis unfolding registrations_unique_def new(1)
    by (auto intro: unique_on_add)
next
  case (changed k r r')
  with assms(2) show ?thesis unfolding registrations_unique_def changed(2)
    by (simp add: unique_on_put_same)
qed (use assms(2) in simp)

section \<open>Properties\<close>

text \<open>
  C13. Registrations stay consistent. However students register, drop and are credited, no two
  rows are for the same student, course and semester, and a completed registration remains
  completed, for the same student, course and semester.
\<close>

theorem registrations_consistent:
  assumes "enrollment_step\<^sup>*\<^sup>* s s'" and "registrations_unique (course_registrations s)"
  shows "registrations_unique (course_registrations s') \<and>
    (\<forall>k. registration_status_of s k = Some Reg_Completed \<longrightarrow> registration_status_of s' k = Some Reg_Completed)"
proof -
  have wf: "wf_table (course_registrations s)" using assms(2) by (simp add: registrations_unique_def)
  note run = enrollment_steps_machine [OF assms(1) wf, THEN conjunct1]
  from run have "registrations_unique (course_registrations s')"
  proof (induction rule: rtranclp_induct)
    case (step s1 s2)
    then show ?case
      by (auto simp: registration_machine_step_def intro: registration_effect_unique enrollment_step_effect)
  qed (rule assms(2))
  moreover have "registration_status_of s' k = Some Reg_Completed" if "registration_status_of s k = Some Reg_Completed" for k
    by (rule registration_machine.terminal_stays [OF run that]) simp
  ultimately show ?thesis by blast
qed

lemma find_registration_row:
  assumes "find_registration student course semester s = Some (k, r)"
  shows "get_row (course_registrations s) k \<noteq> None" and "registration_key r = (student, course, semester)"
proof -
  from assms have "(k, r) \<in> set (course_registrations s) \<and> cr_student r = student \<and> cr_course r = course \<and>
      cr_semester r = semester" unfolding find_registration_def by (rule first_row_Some)
  then show "get_row (course_registrations s) k \<noteq> None" and "registration_key r = (student, course, semester)"
    by (auto simp: get_row_def registration_key_def weak_map_of_SomeI)
qed

lemma registered_row:
  assumes "save_registration c existing r reason s = Inr (k, s')"
    and "existing = find_registration student course sem s"
  shows "get_row (course_registrations s') k = Some r"
proof (cases existing)
  case None
  with assms(1) show ?thesis by (elim save_registration_Inr) (simp add: get_add_row)
next
  case (Some x)
  obtain k0 r0 where x: "x = (k0, r0)" by (cases x)
  with Some assms(2) have "get_row (course_registrations s) k0 \<noteq> None" by (intro find_registration_row(1)) simp
  with assms(1) show ?thesis by (elim save_registration_Inr) (simp add: Some x get_put_row)
qed

text \<open>
  C5. A registration that succeeds satisfied every rule: the registration window of the semester
  was open, no prerequisite was unmet, and the student had no blocking hold, unless somebody
  with the permission gave a reason, in which case the row records who and why. The row is
  registered, for the right student, course and semester, and it is marked as a repeat
  exactly when the student has another row for the course.
\<close>

theorem registration_requirements:
  "case register_course c providers student course semester_id actor override_reason s of
     Inl e \<Rightarrow> True
   | Inr (k, s') \<Rightarrow> \<exists>sem semester r.
       resolve_semester semester_id s = Inr (sem, semester) \<and> is_registration_open (Some semester) (now c) s \<and>
       unmet_prerequisites [course] (passed_course_ids student s) [] s = [] \<and>
       (blocking_holds providers student = [] \<or>
        (\<exists>u. actor = Some u \<and> has_perm u ''enrollment.override_hold'' \<and> nonblank override_reason \<and>
           cr_hold_override_by r = Some (user_pk u) \<and> cr_override_reason r = override_reason)) \<and>
       get_row (course_registrations s') k = Some r \<and> registration_key r = (student, course, sem) \<and>
       cr_status r = Reg_Registered \<and>
       cr_is_repeat r = is_repeat_registration student course
          (map_option fst (find_registration student course sem s)) s"
proof (cases "register_course c providers student course semester_id actor override_reason s")
  case (Inr x)
  obtain k s' where x: "x = (k, s')" by (cases x)
  show ?thesis unfolding Inr x sum.case prod.case using Inr [unfolded x]
  proof (rule register_course_Inr)
    fix sem semester existing overridden reason
    assume 1: "resolve_semester semester_id s = Inr (sem, semester)" "is_registration_open (Some semester) (now c) s"
      "unmet_prerequisites [course] (passed_course_ids student s) [] s = []"
      and ex: "existing = find_registration student course sem s"
      and holds: "check_holds providers student actor override_reason = Inr overridden"
      and sv: "save_registration c existing (registration_row existing student course sem
           (is_repeat_registration student course (map_option fst existing) s) actor overridden override_reason)
           reason s = Inr (k, s')" (is "save_registration c existing ?r reason s = _")
    have key: "registration_key ?r = (student, course, sem)"
      unfolding registration_row_key using ex find_registration_row(2) by (auto split: option.split)
    have holds': "blocking_holds providers student = [] \<or>
        (\<exists>u. actor = Some u \<and> has_perm u ''enrollment.override_hold'' \<and> nonblank override_reason \<and>
           cr_hold_override_by ?r = Some (user_pk u) \<and> cr_override_reason ?r = override_reason)"
      using holds by (auto simp: check_holds_def registration_row_def Let_def actor_fk_def split: if_splits option.splits)
    show "\<exists>sem semester r.
       resolve_semester semester_id s = Inr (sem, semester) \<and> is_registration_open (Some semester) (now c) s \<and>
       unmet_prerequisites [course] (passed_course_ids student s) [] s = [] \<and>
       (blocking_holds providers student = [] \<or>
        (\<exists>u. actor = Some u \<and> has_perm u ''enrollment.override_hold'' \<and> nonblank override_reason \<and>
           cr_hold_override_by r = Some (user_pk u) \<and> cr_override_reason r = override_reason)) \<and>
       get_row (course_registrations s') k = Some r \<and> registration_key r = (student, course, sem) \<and>
       cr_status r = Reg_Registered \<and>
       cr_is_repeat r = is_repeat_registration student course
          (map_option fst (find_registration student course sem s)) s"
      using 1 holds' key registered_row [OF sv ex] by (intro exI [of _ sem] exI [of _ semester] exI [of _ ?r]) (simp add: ex)
  qed
qed simp

text \<open>
  C14. The credit limit holds after every registration: when the course has not been deleted, the
  credit load of the student in the semester, the new registration included, is at most the
  maximum of the student's programme.
\<close>

theorem credit_limit_respected:
  assumes "register_course c providers student course semester_id actor override_reason s = Inr (k, s')"
    and "wf_table (course_registrations s)" and "wf_table (courses s)"
    and "get_row (courses s) course = Some x" and "crs_deleted_at x = None"
  shows "\<exists>sem semester programme lo hi. resolve_semester semester_id s = Inr (sem, semester) \<and>
    get_programme_id student s = Inr programme \<and> credit_limits programme s = Inr (lo, hi) \<and>
    active_credit_load student sem None s' \<le> hi"
  using assms(1)
proof (rule register_course_Inr)
  fix sem semester existing programme lo hi overridden reason
  assume 1: "resolve_semester semester_id s = Inr (sem, semester)" "get_programme_id student s = Inr programme"
      "credit_limits programme s = Inr (lo, hi)"
    and ex: "existing = find_registration student course sem s"
    and load: "projected_load student course sem (map_option fst existing) s \<le> hi"
    and sv: "save_registration c existing (registration_row existing student course sem
         (is_repeat_registration student course (map_option fst existing) s) actor overridden override_reason)
         reason s = Inr (k, s')" (is "save_registration c existing ?r reason s = _")
  let ?P = "\<lambda>r. cr_student r = student \<and> cr_semester r = sem \<and> cr_status r = Reg_Registered"
  have "registration_key ?r = (student, course, sem)"
    unfolding registration_row_key using ex find_registration_row(2) by (auto split: option.split)
  then have key: "cr_student ?r = student" "cr_course ?r = course" "cr_semester ?r = sem"
    by (simp_all add: registration_key_def)
  have hours: "credit_hours_of s' = credit_hours_of s" using sv
    by (elim save_registration_Inr) (simp add: credit_hours_of_def fun_eq_iff)
  have "total_credits [course] s = crs_credit_hours x"
    using sum_rows_single [OF assms(3,4), of "\<lambda>x. crs_deleted_at x = None"] assms(5)
    by (simp add: total_credits_def)
  then have course: "total_credits [course] s = credit_hours_of s ?r"
    using assms(4) by (simp add: credit_hours_of_def key)
  have "active_credit_load student sem None s' = active_credit_load student sem (map_option fst existing) s + credit_hours_of s ?r"
  proof (cases existing)
    case None
    with sv have "course_registrations s' = add_row ?r (course_registrations s)"
      by (elim save_registration_Inr) simp
    with key None show ?thesis by (simp add: active_credit_load_def hours sum_rows_add_row)
  next
    case (Some p)
    obtain k0 r0 where p: "p = (k0, r0)" by (cases p)
    from ex Some p have fnd: "find_registration student course sem s = Some (k0, r0)" by simp
    from sv have put: "course_registrations s' = put_row k0 ?r (course_registrations s)"
      by (elim save_registration_Inr) (simp add: Some p)
    have "sum_rows (\<lambda>j. ?P) (credit_hours_of s) (put_row k0 ?r (course_registrations s)) =
        sum_rows (\<lambda>j r. ?P r \<and> j \<noteq> k0) (credit_hours_of s) (course_registrations s) + credit_hours_of s ?r"
      using sum_rows_put_row_split [OF assms(2) find_registrationD(1) [OF fnd assms(2)],
          where P = "\<lambda>_. ?P" and r = ?r and f = "credit_hours_of s"]
      by (simp add: key)
    then have "active_credit_load student sem None s' =
        sum_rows (\<lambda>j r. ?P r \<and> j \<noteq> k0) (credit_hours_of s) (course_registrations s) + credit_hours_of s ?r"
      by (simp add: active_credit_load_def hours put)
    moreover have "sum_rows (\<lambda>j r. ?P r \<and> j \<noteq> k0) (credit_hours_of s) (course_registrations s) =
        active_credit_load student sem (map_option fst existing) s"
      by (simp add: active_credit_load_def Some p conj_assoc)
    ultimately show ?thesis by (simp only:)
  qed
  with load course have "active_credit_load student sem None s' \<le> hi" by (simp add: projected_load_def)
  with 1 show ?thesis by blast
qed

section \<open>Concrete inputs\<close>

definition sample_course :: course where
  "sample_course =
     \<lparr>crs_department = 1, crs_code = ''CSC101'', crs_title = ''Programming'', crs_credit_hours = 3, crs_level = 1,
      crs_is_active = True, crs_deleted_at = None\<rparr>"

text \<open>One active student, one course of three credits, an open registration window.\<close>

definition sample_enrollment_db :: "(nat \<times> course_registration) list \<Rightarrow> enrollment_db" where
  "sample_enrollment_db regs =
     admissions_db.extend
       (registry_db.extend (sample_admitted\<lparr>courses := [(1, sample_course)]\<rparr>)
          \<lparr>applications = [], application_documents = [], application_reviews = [], application_fee_payments = []\<rparr>)
       \<lparr>course_registrations = regs\<rparr>"

lemma sample_enrollment_tables [simp]:
  "course_registrations (sample_enrollment_db regs) = regs"
  "courses (sample_enrollment_db regs) = [(1, sample_course)]"
  "semesters (sample_enrollment_db regs) = [(1, sample_semester)]"
  "students (sample_enrollment_db regs) = [(1, sample_student)]"
  "programmes (sample_enrollment_db regs) = programmes (sample_codes_db [])"
  "prerequisites (sample_enrollment_db regs) = []"
  by (simp_all add: sample_enrollment_db_def admissions_db.defs registry_db.defs sample_admitted_def sample_registry_db_def)

lemma registration_audit_down: "audit_save offline_ctx registration_meta pk snap cur reason s = Inr s"
  by (rule audit_save_down) (simp_all add: offline_ctx_def registration_meta_def)

definition sample_registration :: course_registration where
  "sample_registration = (new_registration 1 1 1)\<lparr>cr_registered_by := Some (user_pk sample_user)\<rparr>"

lemma sample_enrolled_rows [simp]: "st_programme sample_student = 1" "st_deleted_at sample_student = None"
  "st_status sample_student = St_Active"
  by (simp_all add: sample_student_def blank_student_def)

lemma sample_register:
  "register_course offline_ctx [] 1 1 (Some 1) (Some sample_user) [] (sample_enrollment_db []) =
     Inr (1, sample_enrollment_db [(1, sample_registration)])"
proof -
  have "sample_enrollment_db []\<lparr>course_registrations := [(1, r)]\<rparr> = sample_enrollment_db [(1, r)]" for r
    by (simp add: sample_enrollment_db_def admissions_db.defs)
  moreover have "get_programme_id 1 (sample_enrollment_db []) = Inr 1"
    by (simp add: get_programme_id_def get_student_def get_row_singleton)
  moreover have "credit_limits 1 (sample_enrollment_db []) = Inr (12, 24)"
    by (simp add: credit_limits_def get_programme_def get_row_def sample_codes_db_def)
  ultimately show ?thesis
    by (simp add: register_course_def resolve_semester_def get_semester_def get_row_singleton require_registration_open_def
        is_registration_open_def or_current_def sample_semester_def offline_ctx_def sample_ctx_def
        find_registration_def first_row_def check_existing_def unmet_prerequisites_def projected_load_def
        active_credit_load_def total_credits_def sample_course_def check_holds_def blocking_holds_def
        save_registration_def registration_full_clean_def exists_row_def Let_def registration_row_def
        new_registration_def is_repeat_registration_def add_row_def fresh_pk_def
        registration_audit_down [unfolded offline_ctx_def sample_ctx_def, simplified] sample_registration_def actor_fk_def)
qed

lemma registrations_consistent_witness:
  "registrations_unique (course_registrations (sample_enrollment_db [(1, sample_registration)])) \<and>
   enrollment_step (sample_enrollment_db []) (sample_enrollment_db [(1, sample_registration)])"
proof -
  have step: "enrollment_step (sample_enrollment_db []) (sample_enrollment_db [(1, sample_registration)])"
    using sample_register by (rule enrollment_step.Register)
  have "registrations_unique (course_registrations (sample_enrollment_db []))"
    by (simp add: registrations_unique_def)
  from registrations_consistent [OF r_into_rtranclp [of enrollment_step, OF step] this] step show ?thesis by blast
qed

lemma credit_limit_respected_witness:
  "\<exists>lo hi. credit_limits 1 (sample_enrollment_db []) = Inr (lo, hi) \<and>
     active_credit_load 1 1 None (sample_enrollment_db [(1, sample_registration)]) \<le> hi"
proof -
  have "get_row (courses (sample_enrollment_db [])) 1 = Some sample_course"
    and "wf_table (courses (sample_enrollment_db []))" and "crs_deleted_at sample_course = None"
    by (simp_all add: get_row_singleton wf_table_def sample_course_def)
  with credit_limit_respected [OF sample_register] obtain sem semester programme lo hi where
    "resolve_semester (Some 1) (sample_enrollment_db []) = Inr (sem, semester)"
    "get_programme_id 1 (sample_enrollment_db []) = Inr programme"
    "credit_limits programme (sample_enrollment_db []) = Inr (lo, hi)"
    "active_credit_load 1 sem None (sample_enrollment_db [(1, sample_registration)]) \<le> hi" by auto
  then show ?thesis
    by (auto simp: resolve_semester_def get_semester_def get_row_singleton get_programme_id_def get_student_def)
qed

end
