(* ===== verification/Persistence.thy ===== *)
theory Persistence
  imports Registry
begin

text \<open>
  \<open>AuditedModel.save\<close> once for all the models whose rows are only inserted and updated: the
  table is given by the selector and the update function of its column in the database
  record, the audited fields by a function of the row. The laws say that a save which
  succeeds changes that table and extends the audit trail, and nothing else.
\<close>

definition insert_audited ::
  "ctx \<Rightarrow> model_meta \<Rightarrow> ('r \<Rightarrow> (string \<times> pyval) list) \<Rightarrow> ('a core_db_scheme \<Rightarrow> 'r table)
    \<Rightarrow> ('r table \<Rightarrow> 'a core_db_scheme \<Rightarrow> 'a core_db_scheme) \<Rightarrow> 'r \<Rightarrow> string
    \<Rightarrow> 'a core_db_scheme \<Rightarrow> exn + nat \<times> 'a core_db_scheme" where
  "insert_audited c m audited tbl upd r reason s =
     (let k = fresh_pk (tbl s) in
      bindE (audit_save c m k None (audited r) reason (upd (add_row r (tbl s)) s)) (\<lambda>s'. Inr (k, s')))"

definition update_audited ::
  "ctx \<Rightarrow> model_meta \<Rightarrow> ('r \<Rightarrow> (string \<times> pyval) list) \<Rightarrow> ('a core_db_scheme \<Rightarrow> 'r table)
    \<Rightarrow> ('r table \<Rightarrow> 'a core_db_scheme \<Rightarrow> 'a core_db_scheme) \<Rightarrow> nat \<Rightarrow> 'r \<Rightarrow> 'r \<Rightarrow> string
    \<Rightarrow> 'a core_db_scheme \<Rightarrow> exn + 'a core_db_scheme" where
  "update_audited c m audited tbl upd k old r reason s =
     audit_save c m k (Some (audited old)) (audited r) reason (upd (put_row k r (tbl s)) s)"

lemma insert_audited_Inr:
  assumes "insert_audited c m audited tbl upd r reason s = Inr (k, s')"
  obtains tr where "s' = (upd (add_row r (tbl s)) s)\<lparr>audit_log := tr\<rparr>" and "k = fresh_pk (tbl s)"
    and "audit_ext (audit_log (upd (add_row r (tbl s)) s)) tr"
  using assms unfolding insert_audited_def Let_def
  by (elim bindE_InrE) (auto elim: audit_saveE)

lemma update_audited_Inr:
  assumes "update_audited c m audited tbl upd k old r reason s = Inr s'"
  obtains tr where "s' = (upd (put_row k r (tbl s)) s)\<lparr>audit_log := tr\<rparr>"
    and "audit_ext (audit_log (upd (put_row k r (tbl s)) s)) tr"
  using assms unfolding update_audited_def by (rule audit_saveE)

lemma insert_audited_down:
  "\<not> audit_up c \<Longrightarrow> \<not> mm_sensitive m \<Longrightarrow>
     insert_audited c m audited tbl upd r reason s = Inr (fresh_pk (tbl s), upd (add_row r (tbl s)) s)"
  by (simp add: insert_audited_def audit_save_down)

lemma update_audited_down:
  "\<not> audit_up c \<Longrightarrow> \<not> mm_sensitive m \<Longrightarrow>
     update_audited c m audited tbl upd k old r reason s = Inr (upd (put_row k r (tbl s)) s)"
  by (simp add: update_audited_def audit_save_down)

text \<open>A sensitive row inserted while the trail cannot be written.\<close>

lemma insert_audited_sensitive_down:
  "\<not> audit_up c \<Longrightarrow> mm_sensitive m \<Longrightarrow> insert_audited c m audited tbl upd r reason s = Inl AuditWriteFailed"
  by (simp add: insert_audited_def audit_save_def record_action_def safe_write_def write_audit_def)

end
