(* ===== verification/Hostel.thy ===== *)
theory Hostel
  imports Enrollment Persistence "HOL-Library.Multiset"
begin

text \<open>
  The hostel: rooms, allocations and the fee policy of \<open>hostel/models.py\<close> and the services of
  \<open>hostel/services.py\<close>. The lemmas show that a student holds at most one active room, that
  every occupant has the gender the room is restricted to, unless it was edited since, that an allocation never
  overfills a room, and that the waiting list is a stable ranking of the candidates.
\<close>

section \<open>Models\<close>

record room =
  rm_building :: string
  rm_room_number :: string
  rm_capacity :: nat
  rm_gender_restriction :: string
  rm_is_active :: bool
  rm_deleted_at :: "int option"

datatype allocation_status = Alloc_Active | Alloc_Vacated

fun allocation_status_text :: "allocation_status \<Rightarrow> string" where
  "allocation_status_text Alloc_Active = ''active''"
| "allocation_status_text Alloc_Vacated = ''vacated''"

record allocation =
  al_student :: nat
  al_room :: nat
  al_academic_year :: nat
  al_status :: allocation_status
  al_allocated_at :: int
  al_allocated_by :: "nat option"
  al_vacated_at :: "int option"
  al_vacated_by :: "nat option"
  al_notes :: string

record hostel_policy =
  hp_termly_fee :: rat
  hp_currency :: string

record hostel_db = enrollment_db +
  rooms :: "room table"
  allocations :: "allocation table"
  hostel_policies :: "hostel_policy table"

abbreviation put_rooms :: "room table \<Rightarrow> 'a hostel_db_scheme \<Rightarrow> 'a hostel_db_scheme" where
  "put_rooms t s \<equiv> s\<lparr>rooms := t\<rparr>"

abbreviation put_allocations :: "allocation table \<Rightarrow> 'a hostel_db_scheme \<Rightarrow> 'a hostel_db_scheme" where
  "put_allocations t s \<equiv> s\<lparr>allocations := t\<rparr>"

definition room_meta :: model_meta where
  "room_meta = \<lparr>mm_label = ''hostel.room'', mm_verbose = ''room'', mm_sensitive = False\<rparr>"

definition room_audit :: "room \<Rightarrow> (string \<times> pyval) list" where
  "room_audit r =
     [(''building'', VStr (rm_building r)), (''room_number'', VStr (rm_room_number r)),
      (''capacity'', VInt (int (rm_capacity r))), (''gender_restriction'', VStr (rm_gender_restriction r)),
      (''is_active'', VBool (rm_is_active r))]"

definition allocation_meta :: model_meta where
  "allocation_meta = \<lparr>mm_label = ''hostel.allocation'', mm_verbose = ''allocation'', mm_sensitive = False\<rparr>"

definition allocation_audit :: "allocation \<Rightarrow> (string \<times> pyval) list" where
  "allocation_audit a = [(''room'', VInt (int (al_room a))), (''status'', VStr (allocation_status_text (al_status a)))]"

definition active_in :: "nat \<Rightarrow> nat \<Rightarrow> allocation \<Rightarrow> bool" where
  "active_in room k a \<longleftrightarrow> al_room a = room \<and> al_status a = Alloc_Active"

definition occupied_beds :: "nat \<Rightarrow> 'a hostel_db_scheme \<Rightarrow> nat" where
  "occupied_beds room s = count_rows (active_in room) (allocations s)"

definition available_beds :: "nat \<Rightarrow> room \<Rightarrow> 'a hostel_db_scheme \<Rightarrow> nat" where
  "available_beds k r s = rm_capacity r - occupied_beds k s"

text \<open>\<open>Room.clean\<close>: the loop over the active occupants.\<close>

fun occupants_match :: "nat list \<Rightarrow> string \<Rightarrow> 'a hostel_db_scheme \<Rightarrow> exn + unit" where
  "occupants_match [] gender s = Inr ()"
| "occupants_match (student # rest) gender s =
     bindE (gender_for_student student s) (\<lambda>g.
       if g \<noteq> gender then Inl ValidationError else occupants_match rest gender s)"

definition room_clean :: "nat option \<Rightarrow> room \<Rightarrow> 'a hostel_db_scheme \<Rightarrow> exn + unit" where
  "room_clean pk r s =
     (case pk of
        None \<Rightarrow> Inr ()
      | Some k \<Rightarrow>
          if rm_gender_restriction r = [] then Inr ()
          else occupants_match (map (\<lambda>(j, a). al_student a) (filter_rows (active_in k) (allocations s)))
                 (rm_gender_restriction r) s)"

definition room_fields_ok :: "room \<Rightarrow> bool" where
  "room_fields_ok r \<longleftrightarrow>
     rm_building r \<noteq> [] \<and> length (rm_building r) \<le> 100 \<and> rm_room_number r \<noteq> [] \<and> length (rm_room_number r) \<le> 20 \<and>
     1 \<le> rm_capacity r \<and> rm_capacity r \<le> 32767 \<and> rm_gender_restriction r \<in> set Gender_values"

text \<open>The constraint \<open>one_room_per_building_number\<close>; its validation does not see deleted rooms.\<close>

definition same_room :: "nat option \<Rightarrow> room \<Rightarrow> nat \<Rightarrow> room \<Rightarrow> bool" where
  "same_room pk r k y \<longleftrightarrow> Some k \<noteq> pk \<and> rm_building y = rm_building r \<and> rm_room_number y = rm_room_number r"

definition room_full_clean :: "nat option \<Rightarrow> room \<Rightarrow> 'a hostel_db_scheme \<Rightarrow> exn + unit" where
  "room_full_clean pk r s =
     bindE (room_clean pk r s) (\<lambda>_.
       ensure (room_fields_ok r \<and> \<not> exists_row (\<lambda>k y. same_room pk r k y \<and> rm_deleted_at y = None) (rooms s))
         ValidationError)"

definition active_of :: "nat option \<Rightarrow> nat \<Rightarrow> nat \<Rightarrow> allocation \<Rightarrow> bool" where
  "active_of pk student k a \<longleftrightarrow> Some k \<noteq> pk \<and> al_student a = student \<and> al_status a = Alloc_Active"

text \<open>
  \<open>full_clean\<close> of an allocation: \<open>clean\<close> compares the gender with the room's (through the
  foreign key, so a deleted room counts), the other references must exist, and
  \<open>one_active_allocation_per_student\<close> is a partial constraint.
\<close>

definition allocation_full_clean :: "nat option \<Rightarrow> allocation \<Rightarrow> 'a hostel_db_scheme \<Rightarrow> exn + unit" where
  "allocation_full_clean pk a s =
     bindE (gender_for_student (al_student a) s) (\<lambda>g.
       case get_row (rooms s) (al_room a) of
         None \<Rightarrow> Inl DoesNotExist
       | Some r \<Rightarrow>
           ensure (g = rm_gender_restriction r \<and> get_row (academic_years s) (al_academic_year a) \<noteq> None \<and>
                   \<not> (al_status a = Alloc_Active \<and> exists_row (active_of pk (al_student a)) (allocations s)))
             ValidationError)"

section \<open>Operations\<close>

definition RoomFull :: exn where "RoomFull = DomainError ''room_full'' 409"
definition GenderMismatch :: exn where "GenderMismatch = DomainError ''gender_mismatch'' 400"
definition AlreadyAllocated :: exn where "AlreadyAllocated = DomainError ''already_allocated'' 409"

definition create_room :: "ctx \<Rightarrow> room \<Rightarrow> 'a hostel_db_scheme \<Rightarrow> exn + nat \<times> 'a hostel_db_scheme" where
  "create_room c data s =
     (let r = data\<lparr>rm_deleted_at := None\<rparr> in
      bindE (room_full_clean None r s) (\<lambda>_.
        if exists_row (same_room None r) (rooms s) then Inl IntegrityError
        else insert_audited c room_meta room_audit rooms put_rooms r ''Room added'' s))"

text \<open>The room is loaded from the rooms that are not deleted; \<open>data\<close> holds its columns after the change.\<close>

definition get_room :: "nat \<Rightarrow> 'a hostel_db_scheme \<Rightarrow> exn + room" where
  "get_room k s =
     (case get_row (rooms s) k of
        None \<Rightarrow> Inl DoesNotExist
      | Some r \<Rightarrow> if rm_deleted_at r = None then Inr r else Inl DoesNotExist)"

definition update_room :: "ctx \<Rightarrow> nat \<Rightarrow> room \<Rightarrow> 'a hostel_db_scheme \<Rightarrow> exn + 'a hostel_db_scheme" where
  "update_room c k data s =
     bindE (get_room k s) (\<lambda>old.
       let r = data\<lparr>rm_deleted_at := None\<rparr> in
       bindE (room_full_clean (Some k) r s) (\<lambda>_.
         if exists_row (same_room (Some k) r) (rooms s) then Inl IntegrityError
         else update_audited c room_meta room_audit rooms put_rooms k old r ''Room updated'' s))"

definition allocate_room ::
  "ctx \<Rightarrow> nat \<Rightarrow> nat \<Rightarrow> nat \<Rightarrow> user option \<Rightarrow> 'a hostel_db_scheme \<Rightarrow> exn + nat \<times> 'a hostel_db_scheme" where
  "allocate_room c student room year actor s =
     bindE (get_room room s) (\<lambda>r.
       if available_beds room r s = 0 then Inl RoomFull
       else bindE (gender_for_student student s) (\<lambda>g.
         if g \<noteq> rm_gender_restriction r then Inl GenderMismatch
         else if exists_row (active_of None student) (allocations s) then Inl AlreadyAllocated
         else let a = \<lparr>al_student = student, al_room = room, al_academic_year = year, al_status = Alloc_Active,
                       al_allocated_at = now c, al_allocated_by = actor_fk actor, al_vacated_at = None,
                       al_vacated_by = None, al_notes = []\<rparr>
              in bindE (allocation_full_clean None a s) (\<lambda>_.
                   insert_audited c allocation_meta allocation_audit allocations put_allocations a
                     ''Room allocated'' s)))"

definition vacate_allocation ::
  "ctx \<Rightarrow> nat \<Rightarrow> user option \<Rightarrow> string \<Rightarrow> 'a hostel_db_scheme \<Rightarrow> exn + 'a hostel_db_scheme" where
  "vacate_allocation c k actor reason s =
     (case get_row (allocations s) k of
        None \<Rightarrow> Inl DoesNotExist
      | Some a \<Rightarrow>
          if al_status a \<noteq> Alloc_Active then Inl (DomainError ''not_active'' 400)
          else let a' = a\<lparr>al_status := Alloc_Vacated, al_vacated_at := Some (now c), al_vacated_by := actor_fk actor,
                          al_notes := (if reason = [] then al_notes a else reason)\<rparr>
               in bindE (allocation_full_clean (Some k) a' s) (\<lambda>_.
                    update_audited c allocation_meta allocation_audit allocations put_allocations k a a'
                      (''Room vacated'' @ (if reason = [] then [] else '': '' @ reason)) s))"

text \<open>
  The ranking of the waiting list. \<open>profile.get(\<dots>)\<close> of a student without a profile (unknown
  or deleted) is the neutral value.
\<close>

definition priority_key :: "(nat \<times> bool \<times> string \<times> nat) list \<Rightarrow> nat \<Rightarrow> nat \<times> nat \<times> nat" where
  "priority_key profiles student =
     (case map_of profiles student of
        None \<Rightarrow> (1, 1, 0)
      | Some (disability, state, year) \<Rightarrow> (if disability then 0 else 1, if state = ''outside'' then 0 else 1, year))"

definition waiting_list_priority :: "nat list \<Rightarrow> 'a hostel_db_scheme \<Rightarrow> nat list" where
  "waiting_list_priority ids s = sort_key (priority_key (hostel_priority_profile ids s)) ids"

definition policy_defaults :: "ctx \<Rightarrow> 'a hostel_db_scheme \<Rightarrow> rat \<times> string" where
  "policy_defaults c s =
     (case first_row (\<lambda>_ _. True) (hostel_policies s) of
        None \<Rightarrow> (0, base_currency c s)
      | Some (_, p) \<Rightarrow> (hp_termly_fee p, hp_currency p))"

definition fee_for_active_allocation :: "ctx \<Rightarrow> nat \<Rightarrow> nat \<Rightarrow> 'a hostel_db_scheme \<Rightarrow> rat" where
  "fee_for_active_allocation c student year s =
     (if exists_row (\<lambda>_ a. al_student a = student \<and> al_academic_year a = year \<and> al_status a = Alloc_Active) (allocations s)
      then fst (policy_defaults c s) else 0)"

section \<open>Who keeps the gender\<close>

text \<open>
  Only the edit of a student's own record changes a gender, and no operation removes a student.
\<close>

definition genders_kept :: "'a registry_db_scheme \<Rightarrow> 'a registry_db_scheme \<Rightarrow> bool" where
  "genders_kept s s' \<longleftrightarrow> (\<forall>k st. get_row (students s) k = Some st \<longrightarrow>
     (\<exists>st'. get_row (students s') k = Some st' \<and> st_gender st' = st_gender st))"

definition regendered :: "'a registry_db_scheme \<Rightarrow> 'a registry_db_scheme \<Rightarrow> nat set" where
  "regendered s s' = {k. \<exists>st st'. get_row (students s) k = Some st \<and> get_row (students s') k = Some st' \<and>
     st_gender st' \<noteq> st_gender st}"

definition edited :: "'a registry_db_scheme \<Rightarrow> 'a registry_db_scheme \<Rightarrow> nat \<Rightarrow> bool" where
  "edited s s' k \<longleftrightarrow> (\<exists>c data reason. patch_student c k data reason s = Inr s')"

definition students_kept :: "'a registry_db_scheme \<Rightarrow> 'a registry_db_scheme \<Rightarrow> bool" where
  "students_kept s s' \<longleftrightarrow> genders_kept s s' \<or> (\<exists>k. edited s s' k)"

lemma genders_kept_same [simp]: "students s' = students s \<Longrightarrow> genders_kept s s'"
  by (simp add: genders_kept_def)

lemma students_kept_same [simp]: "students s' = students s \<Longrightarrow> students_kept s s'"
  by (simp add: students_kept_def)

lemma genders_kept_trans: "genders_kept s s1 \<Longrightarrow> genders_kept s1 s2 \<Longrightarrow> genders_kept s s2"
  unfolding genders_kept_def by metis

lemma edited_kept:
  assumes "edited s s' k" and "get_row (students s) j = Some st"
  shows "\<exists>st'. get_row (students s') j = Some st' \<and> (j \<noteq> k \<longrightarrow> st' = st)"
  using assms by (auto simp: edited_def get_put_row elim!: patch_student_Inr)

lemma students_keptD:
  assumes "students_kept s s'" and "get_row (students s) k = Some st"
  obtains st' where "get_row (students s') k = Some st'" and "k \<notin> regendered s s' \<Longrightarrow> st_gender st' = st_gender st"
proof -
  from assms have "\<exists>st'. get_row (students s') k = Some st'"
    unfolding students_kept_def by (blast dest: edited_kept genders_kept_def [THEN iffD1])
  then show thesis using assms(2) that by (auto simp: regendered_def)
qed

lemma regendered_edited: "students_kept s s' \<Longrightarrow> k \<in> regendered s s' \<Longrightarrow> edited s s' k"
  unfolding students_kept_def
proof (elim disjE exE)
  fix j
  assume "k \<in> regendered s s'" and e: "edited s s' j"
  then obtain st st' where "get_row (students s) k = Some st" "get_row (students s') k = Some st'" "st_gender st' \<noteq> st_gender st"
    by (auto simp: regendered_def)
  with edited_kept [OF e, of k st] have "k = j" by auto
  with e show "edited s s' k" by simp
qed (fastforce simp: regendered_def genders_kept_def)

lemma create_student_genders: "create_student c p y fn lname g actor sid reason extra s = Inr (k, s') \<Longrightarrow> genders_kept s s'"
  by (elim create_student_Inr) (auto simp: genders_kept_def get_add_row)

lemma registry_step_students: "registry_step s s' \<Longrightarrow> students_kept s s'"
proof (induction rule: registry_step.induct)
  case (Create c p y fn lname g actor sid reason extra s k s')
  from create_student_genders [OF this] show ?case by (simp add: students_kept_def)
next
  case (Change c k new reason actor eff ref s s')
  then have "genders_kept s s'"
    by (cases rule: change_status_Inr) (auto simp: genders_kept_def get_put_row with_status_def elim!: write_status_Inr)
  then show ?case by (simp add: students_kept_def)
next
  case (Patch c k data reason s s')
  then show ?case by (auto simp: students_kept_def edited_def)
qed

lemma save_application_students: "save_application c k a a' reason s = Inr s' \<Longrightarrow> students s' = students s"
  by (erule save_application_Inr) simp

lemma update_application_students: "update_application c k data s = Inr s' \<Longrightarrow> students s' = students s"
  unfolding update_application_def by (auto elim!: bindE_InrE audit_saveE split: if_splits)

lemma create_application_students:
  "create_application c p y fn lname g src au eb extra s = Inr (k, s') \<Longrightarrow> students s' = students s"
  by (erule create_application_Inr) simp

lemma convert_students: "convert_to_student c k actor s = Inr (sk, s') \<Longrightarrow> students_kept s s'"
  by (erule convert_to_student_Inr)
    (metis genders_kept_trans genders_kept_same save_application_students create_student_genders students_kept_def)

lemma admissions_step_students: "admissions_step s s' \<Longrightarrow> students_kept s s'"
proof (induction rule: admissions_step.induct)
  case (Settle s pk f c state)
  show ?case
    by (simp add: settle_fee_payment_def set_fee_paid_def Let_def split: payment_state.split option.split)
next
  case (Review c k reviewer score criteria comments s s')
  then show ?case unfolding record_review_def Let_def
    by (elim bindE_InrE) (drule save_application_students, simp add: upsert_review_def Let_def split: option.splits)
next
  case (Convert c k actor s sk s')
  then show ?case by (rule convert_students)
next
  case (Registry s s')
  then show ?case by (rule registry_step_students)
qed (auto simp: create_application_request_def Let_def submit_application_def withdraw_application_def
      decide_application_def accept_offer_def decline_offer_def attach_application_document_def store_fee_intent_def
      split: if_splits elim!: bindE_InrE
      dest: save_application_students create_application_students update_application_students
      intro!: students_kept_same)

lemma enrollment_step_students: "enrollment_step s s' \<Longrightarrow> students_kept s s'"
proof (induction rule: enrollment_step.induct)
  case (Register c providers student course semester_id actor override_reason s k s')
  then show ?case by (elim register_course_Inr save_registration_Inr) simp
next
  case (Drop c k reason s k' s')
  then show ?case
    by (auto simp: drop_course_def split: option.splits if_splits elim!: bindE_InrE save_registration_Inr)
next
  case (Complete c k u reason s k' s')
  then show ?case
    by (auto simp: record_prior_completion_def split: option.splits if_splits elim!: save_registration_Inr)
qed (rule admissions_step_students)

section \<open>What the operations do\<close>

lemma get_room_Inr: "get_room k s = Inr r \<longleftrightarrow> get_row (rooms s) k = Some r \<and> rm_deleted_at r = None"
  by (auto simp: get_room_def split: option.splits)

lemma gender_for_student_Inr:
  "gender_for_student k s = Inr g \<longleftrightarrow>
     (\<exists>st. get_row (students s) k = Some st \<and> st_deleted_at st = None \<and> st_gender st = g)"
  by (auto simp: gender_for_student_def get_student_def bindE_eq_Inr split: option.splits if_splits)

lemma allocate_room_Inr:
  assumes "allocate_room c student room year actor s = Inr (k, s')"
  obtains r a tr where "get_row (rooms s) room = Some r" and "rm_deleted_at r = None"
    and "occupied_beds room s < rm_capacity r"
    and "gender_for_student student s = Inr (rm_gender_restriction r)"
    and "\<not> exists_row (active_of None student) (allocations s)"
    and "s' = s\<lparr>allocations := add_row a (allocations s), audit_log := tr\<rparr>" and "k = fresh_pk (allocations s)"
    and "al_student a = student" and "al_room a = room" and "al_academic_year a = year" and "al_status a = Alloc_Active"
proof -
  from assms obtain r where r: "get_room room s = Inr r" and free: "available_beds room r s \<noteq> 0"
    and g: "gender_for_student student s = Inr (rm_gender_restriction r)"
    and none: "\<not> exists_row (active_of None student) (allocations s)"
    and ins: "insert_audited c allocation_meta allocation_audit allocations put_allocations
       \<lparr>al_student = student, al_room = room, al_academic_year = year, al_status = Alloc_Active,
        al_allocated_at = now c, al_allocated_by = actor_fk actor, al_vacated_at = None,
        al_vacated_by = None, al_notes = []\<rparr> ''Room allocated'' s = Inr (k, s')"
    unfolding allocate_room_def Let_def by (auto elim!: bindE_InrE split: if_splits)
  from ins show thesis
    by (rule insert_audited_Inr)
      (rule that, use r free g none in \<open>auto simp: get_room_Inr available_beds_def\<close>)
qed

lemma vacate_allocation_Inr:
  assumes "vacate_allocation c k actor reason s = Inr s'"
  obtains a a' tr where "get_row (allocations s) k = Some a" and "al_status a = Alloc_Active"
    and "s' = s\<lparr>allocations := put_row k a' (allocations s), audit_log := tr\<rparr>"
    and "al_student a' = al_student a" and "al_room a' = al_room a" and "al_academic_year a' = al_academic_year a"
    and "al_status a' = Alloc_Vacated"
proof -
  from assms obtain a where a: "get_row (allocations s) k = Some a" "al_status a = Alloc_Active"
    unfolding vacate_allocation_def by (auto split: option.splits if_splits)
  with assms obtain a' r' where "update_audited c allocation_meta allocation_audit allocations put_allocations k a a' r' s = Inr s'"
    and "al_student a' = al_student a" "al_room a' = al_room a" "al_academic_year a' = al_academic_year a"
    "al_status a' = Alloc_Vacated"
    unfolding vacate_allocation_def Let_def by (auto elim!: bindE_InrE)
  with a show thesis by (elim update_audited_Inr) (rule that, auto)
qed

lemma update_room_Inr:
  assumes "update_room c k data s = Inr s'"
  obtains r0 r tr where "get_row (rooms s) k = Some r0"
    and "s' = s\<lparr>rooms := put_row k r (rooms s), audit_log := tr\<rparr>" and "r = data\<lparr>rm_deleted_at := None\<rparr>"
    and "room_clean (Some k) r s = Inr ()" and "rm_gender_restriction r \<in> set Gender_values"
  using assms unfolding update_room_def Let_def
  by (elim bindE_InrE)
    (auto simp: room_full_clean_def bindE_eq_Inr ensure_eq_Inr room_fields_ok_def get_room_Inr
      split: if_splits elim!: update_audited_Inr)

lemma create_room_Inr:
  assumes "create_room c data s = Inr (k, s')"
  obtains r tr where "s' = s\<lparr>rooms := add_row r (rooms s), audit_log := tr\<rparr>"
  using assms unfolding create_room_def Let_def
  by (elim bindE_InrE) (auto split: if_splits elim!: insert_audited_Inr)

lemma occupants_match_Inr:
  "occupants_match ids g s = Inr () \<longleftrightarrow> (\<forall>i \<in> set ids. gender_for_student i s = Inr g)"
  by (induction ids g s rule: occupants_match.induct) (auto simp: bindE_eq_Inr)

section \<open>Steps and invariants\<close>

inductive hostel_step :: "'a hostel_db_scheme \<Rightarrow> 'a hostel_db_scheme \<Rightarrow> bool" where
  CreateRoom: "create_room c data s = Inr (k, s') \<Longrightarrow> hostel_step s s'"
| UpdateRoom: "update_room c k data s = Inr s' \<Longrightarrow> hostel_step s s'"
| Allocate: "allocate_room c student room year actor s = Inr (k, s') \<Longrightarrow> hostel_step s s'"
| Vacate: "vacate_allocation c k actor reason s = Inr s' \<Longrightarrow> hostel_step s s'"
| Enrollment: "enrollment_step s s' \<Longrightarrow> hostel_step s s'"

definition active_student :: "allocation \<Rightarrow> nat option" where
  "active_student a = (if al_status a = Alloc_Active then Some (al_student a) else None)"

text \<open>
  Active allocations are of existing rooms and of students of the room's gender, but for the
  students in \<open>G\<close>.
\<close>

definition housed :: "nat set \<Rightarrow> 'a hostel_db_scheme \<Rightarrow> allocation \<Rightarrow> bool" where
  "housed G s a \<longleftrightarrow> (\<exists>r st. get_row (rooms s) (al_room a) = Some r \<and> get_row (students s) (al_student a) = Some st \<and>
     (al_student a \<in> G \<or> st_gender st = rm_gender_restriction r))"

definition occupants_ok :: "nat set \<Rightarrow> 'a hostel_db_scheme \<Rightarrow> bool" where
  "occupants_ok G s \<longleftrightarrow>
     (\<forall>k a. get_row (allocations s) k = Some a \<longrightarrow> al_status a = Alloc_Active \<longrightarrow> housed G s a)"

definition hostel_inv :: "nat set \<Rightarrow> 'a hostel_db_scheme \<Rightarrow> bool" where
  "hostel_inv G s \<longleftrightarrow> wf_table (allocations s) \<and> unique_on active_student (allocations s) \<and> occupants_ok G s"

text \<open>A run of operations, with the students whose gender was corrected on the way.\<close>

inductive hostel_run :: "nat set \<Rightarrow> 'a hostel_db_scheme \<Rightarrow> 'a hostel_db_scheme \<Rightarrow> bool" where
  Start: "hostel_run {} s s"
| Step: "hostel_run G s s1 \<Longrightarrow> hostel_step s1 s2 \<Longrightarrow> hostel_run (G \<union> regendered s1 s2) s s2"

lemma admissions_step_enrollment_more:
  "admissions_step s s' \<Longrightarrow> enrollment_db.more s' = enrollment_db.more s"
  using admissions_step_more [of s s'] by (cases s; cases s') simp

lemma save_registration_more:
  "save_registration c old r reason s = Inr (k, s') \<Longrightarrow> enrollment_db.more s' = enrollment_db.more s"
  by (erule save_registration_Inr) simp

lemma enrollment_step_more: "enrollment_step s s' \<Longrightarrow> enrollment_db.more s' = enrollment_db.more s"
proof (induction rule: enrollment_step.induct)
  case (Register c providers student course semester_id actor override_reason s k s')
  then show ?case by (elim register_course_Inr save_registration_more)
next
  case (Drop c k reason s k' s')
  then show ?case
    by (auto simp: drop_course_def split: option.splits if_splits elim!: bindE_InrE dest: save_registration_more)
next
  case (Complete c k u reason s k' s')
  then show ?case
    by (auto simp: record_prior_completion_def split: option.splits if_splits dest: save_registration_more)
qed (rule admissions_step_enrollment_more)

lemma enrollment_step_hostel:
  "enrollment_step s s' \<Longrightarrow> rooms s' = rooms s \<and> allocations s' = allocations s"
  using enrollment_step_more [of s s'] by (cases s; cases s') simp

lemma room_clean_occupants:
  assumes "room_clean (Some k) r s = Inr ()" and "rm_gender_restriction r \<in> set Gender_values"
    and "get_row (allocations s) j = Some a" and "al_room a = k" and "al_status a = Alloc_Active"
  shows "gender_for_student (al_student a) s = Inr (rm_gender_restriction r)"
proof -
  have "rm_gender_restriction r \<noteq> []" using assms(2) by (auto simp: Gender_values_def)
  moreover have "al_student a \<in> set (map (\<lambda>(j, a). al_student a) (filter_rows (active_in k) (allocations s)))"
    using get_row_in_set [OF assms(3)] assms(4,5)
    by (auto simp: filter_rows_def active_in_def intro!: image_eqI [where x = "(j, a)"])
  ultimately show ?thesis using assms(1) by (simp only: room_clean_def occupants_match_Inr if_False option.case)
qed

lemma hostel_inv_occupant:
  "hostel_inv G s \<Longrightarrow> get_row (allocations s) k = Some a \<Longrightarrow> al_status a = Alloc_Active \<Longrightarrow> housed G s a"
  by (auto simp: hostel_inv_def occupants_ok_def)

lemma hostel_invI:
  assumes "wf_table (allocations s)" and "unique_on active_student (allocations s)"
    and "\<And>k a. get_row (allocations s) k = Some a \<Longrightarrow> al_status a = Alloc_Active \<Longrightarrow> housed G s a"
  shows "hostel_inv G s"
  using assms by (simp add: hostel_inv_def occupants_ok_def)

lemma hostel_step_inv:
  assumes "hostel_step s s'" and inv: "hostel_inv G s"
  shows "hostel_inv (G \<union> regendered s s') s'"
proof -
  let ?G = "G \<union> regendered s s'"
  note old = hostel_inv_occupant [OF inv]
  have wf: "wf_table (allocations s)" and uniq: "unique_on active_student (allocations s)"
    using inv by (simp_all add: hostel_inv_def)
  show ?thesis
    using assms(1)
  proof cases
    case (CreateRoom c data k)
    then obtain r tr where s': "s' = s\<lparr>rooms := add_row r (rooms s), audit_log := tr\<rparr>" by (rule create_room_Inr)
    have "housed ?G s' a" if "housed G s a" for a using that by (auto simp: housed_def s' get_add_row)
    with wf uniq old show ?thesis by (intro hostel_invI) (simp_all add: s')
  next
    case (UpdateRoom c k data)
    then obtain r0 r tr where k: "get_row (rooms s) k = Some r0"
      and s': "s' = s\<lparr>rooms := put_row k r (rooms s), audit_log := tr\<rparr>"
      and clean: "room_clean (Some k) r s = Inr ()" "rm_gender_restriction r \<in> set Gender_values"
      by (rule update_room_Inr)
    have "housed ?G s' a" if a: "get_row (allocations s) j = Some a" "al_status a = Alloc_Active" for j a
    proof (cases "al_room a = k")
      case True
      from room_clean_occupants [OF clean a(1) True a(2)] show ?thesis
        using k True by (auto simp: housed_def s' get_put_row gender_for_student_Inr)
    next
      case False
      with old [OF a] show ?thesis by (auto simp: housed_def s' get_put_row)
    qed
    with wf uniq show ?thesis by (intro hostel_invI) (simp_all add: s')
  next
    case (Allocate c student room year actor k)
    then obtain r a tr where r: "get_row (rooms s) room = Some r"
      and g: "gender_for_student student s = Inr (rm_gender_restriction r)"
      and none: "\<not> exists_row (active_of None student) (allocations s)"
      and s': "s' = s\<lparr>allocations := add_row a (allocations s), audit_log := tr\<rparr>"
      and a: "al_student a = student" "al_room a = room" "al_status a = Alloc_Active"
      by (rule allocate_room_Inr)
    have "active_student b \<noteq> Some x" if "get_row (allocations s) j = Some b" "active_student a = Some x" for j b x
      using no_clash_unique [OF none that(1)] that(2) a by (auto simp: active_student_def active_of_def split: if_splits)
    then have "unique_on active_student (allocations s')"
      using uniq unfolding s' by (auto intro: unique_on_add)
    moreover have "housed ?G s' b" if "b = a \<or> housed G s b" for b
      using that r g a by (auto simp: housed_def s' gender_for_student_Inr)
    ultimately show ?thesis using wf old by (intro hostel_invI) (auto simp: s' get_add_row split: if_splits)
  next
    case (Vacate c k actor reason)
    then obtain a a' tr where a: "get_row (allocations s) k = Some a"
      and s': "s' = s\<lparr>allocations := put_row k a' (allocations s), audit_log := tr\<rparr>" and v: "al_status a' = Alloc_Vacated"
      by (rule vacate_allocation_Inr)
    have "unique_on active_student (allocations s')"
      using uniq a v unfolding s' by (auto intro: unique_on_put_same simp: active_student_def)
    moreover have "housed ?G s' b" if "housed G s b" for b using that by (auto simp: housed_def s')
    ultimately show ?thesis using wf old v a by (intro hostel_invI) (auto simp: s' get_put_row split: if_splits)
  next
    case Enrollment
    note same = enrollment_step_hostel [OF Enrollment] and kept = enrollment_step_students [OF Enrollment]
    have "housed ?G s' a" if "housed G s a" for a
    proof -
      from that obtain r st where r: "get_row (rooms s) (al_room a) = Some r" and st: "get_row (students s) (al_student a) = Some st"
        "al_student a \<in> G \<or> st_gender st = rm_gender_restriction r" unfolding housed_def by blast
      from students_keptD [OF kept st(1)] obtain st' where "get_row (students s') (al_student a) = Some st'"
        "al_student a \<notin> regendered s s' \<Longrightarrow> st_gender st' = st_gender st" by blast
      with r st(2) show ?thesis unfolding housed_def using same by (cases "al_student a \<in> regendered s s'") auto
    qed
    with wf uniq old show ?thesis by (intro hostel_invI) (simp_all add: same)
  qed
qed

lemma hostel_run_inv: "hostel_run G s s' \<Longrightarrow> hostel_inv {} s \<Longrightarrow> hostel_inv G s'"
  by (induction rule: hostel_run.induct) (auto intro: hostel_step_inv)

text \<open>For every student in the set the run has a step that edited the record and gave another gender.\<close>

lemma hostel_step_regendered:
  assumes "hostel_step s s'" and "k \<in> regendered s s'"
  shows "edited s s' k"
  using assms(1)
proof cases
  case Enrollment
  from regendered_edited [OF enrollment_step_students [OF this] assms(2)] show ?thesis .
qed (use assms(2) in \<open>auto simp: regendered_def elim!: create_room_Inr update_room_Inr allocate_room_Inr vacate_allocation_Inr\<close>)

lemma hostel_run_edited:
  "hostel_run G s s' \<Longrightarrow> k \<in> G \<Longrightarrow> \<exists>H s1 s2. hostel_run H s s1 \<and> edited s1 s2 k \<and> k \<in> regendered s1 s2"
proof (induction rule: hostel_run.induct)
  case (Step G s s1 s2)
  show ?case
  proof (cases "k \<in> regendered s1 s2")
    case True
    with hostel_step_regendered [OF Step.hyps(2) this] Step.hyps(1) show ?thesis by blast
  next
    case False
    with Step show ?thesis by blast
  qed
qed simp

lemma occupied_beds_add:
  "occupied_beds room (s\<lparr>allocations := add_row a (allocations s), audit_log := tr\<rparr>) =
     occupied_beds room s + (if active_in room 0 a then 1 else 0)"
  by (simp add: occupied_beds_def count_rows_eq_sum sum_rows_add_row active_in_def)

section \<open>Properties\<close>

text \<open>
  C15. Rooms are single-sex and nobody holds two of them. After any operations of the hostel and
  of the modules below it, a student has at most one active allocation, and every active
  allocation is of an existing room, whose restriction is the gender of the student - unless
  the student's own record was edited on the way and the gender changed by it.
\<close>

theorem hostel_occupancy:
  assumes "hostel_run G s s'" and "hostel_inv {} s"
    and "get_row (allocations s') k = Some a" and "al_status a = Alloc_Active"
  shows "(\<exists>r st. get_row (rooms s') (al_room a) = Some r \<and> get_row (students s') (al_student a) = Some st \<and>
       (st_gender st = rm_gender_restriction r \<or> al_student a \<in> G)) \<and>
    (al_student a \<in> G \<longrightarrow>
       (\<exists>H s1 s2. hostel_run H s s1 \<and> edited s1 s2 (al_student a) \<and> al_student a \<in> regendered s1 s2)) \<and>
    (\<forall>j b. get_row (allocations s') j = Some b \<and> al_status b = Alloc_Active \<and> al_student b = al_student a \<longrightarrow> j = k)"
proof -
  from hostel_run_inv [OF assms(1,2)] have inv: "hostel_inv G s'" .
  then have "unique_on active_student (allocations s')" by (simp add: hostel_inv_def)
  then have "j = k" if "get_row (allocations s') j = Some b" "al_status b = Alloc_Active" "al_student b = al_student a" for j b
    using unique_onD [of active_student _ j b k a "al_student a"] that assms(3,4) by (simp add: active_student_def)
  moreover have "housed G s' a" using hostel_inv_occupant [OF inv assms(3,4)] .
  ultimately show ?thesis using hostel_run_edited [OF assms(1), of "al_student a"] by (auto simp: housed_def)
qed

text \<open>
  An allocation fits. When a room is allocated, it had a free bed, it is not overfilled
  afterwards, the student held no other room and has the gender of the room, the new
  allocation is the only row that changed, and from then on the student of this year is
  charged the termly fee of the policy.
\<close>

theorem allocation_fits:
  "case allocate_room c student room year actor s of
     Inl e \<Rightarrow> True
   | Inr (k, s') \<Rightarrow> \<exists>r a. get_row (rooms s') room = Some r \<and> rm_deleted_at r = None \<and>
       occupied_beds room s' = Suc (occupied_beds room s) \<and> occupied_beds room s' \<le> rm_capacity r \<and>
       gender_for_student student s' = Inr (rm_gender_restriction r) \<and>
       \<not> exists_row (active_of None student) (allocations s) \<and>
       allocations s' = add_row a (allocations s) \<and> get_row (allocations s') k = Some a \<and>
       al_student a = student \<and> al_room a = room \<and> al_status a = Alloc_Active \<and>
       fee_for_active_allocation c student year s' = fst (policy_defaults c s)"
proof (cases "allocate_room c student room year actor s")
  case (Inr x)
  obtain k s' where x: "x = (k, s')" by (cases x)
  show ?thesis unfolding Inr x sum.case prod.case using Inr [unfolded x]
  proof (rule allocate_room_Inr)
    fix r a tr
    assume r: "get_row (rooms s) room = Some r" "rm_deleted_at r = None" "occupied_beds room s < rm_capacity r"
      "gender_for_student student s = Inr (rm_gender_restriction r)" "\<not> exists_row (active_of None student) (allocations s)"
      and s': "s' = s\<lparr>allocations := add_row a (allocations s), audit_log := tr\<rparr>" and k: "k = fresh_pk (allocations s)"
      and a: "al_student a = student" "al_room a = room" "al_academic_year a = year" "al_status a = Alloc_Active"
    have "exists_row (\<lambda>_ a. al_student a = student \<and> al_academic_year a = year \<and> al_status a = Alloc_Active) (allocations s')"
      using a by (auto simp: exists_row_iff s' set_add_row)
    moreover have "policy_defaults c s' = policy_defaults c s"
      by (simp add: policy_defaults_def s' base_currency_def get_institution_def split: option.split)
    moreover have "gender_for_student student s' = gender_for_student student s"
      by (simp add: gender_for_student_def get_student_def s')
    ultimately show "\<exists>r a. get_row (rooms s') room = Some r \<and> rm_deleted_at r = None \<and>
       occupied_beds room s' = Suc (occupied_beds room s) \<and> occupied_beds room s' \<le> rm_capacity r \<and>
       gender_for_student student s' = Inr (rm_gender_restriction r) \<and>
       \<not> exists_row (active_of None student) (allocations s) \<and>
       allocations s' = add_row a (allocations s) \<and> get_row (allocations s') k = Some a \<and>
       al_student a = student \<and> al_room a = room \<and> al_status a = Alloc_Active \<and>
       fee_for_active_allocation c student year s' = fst (policy_defaults c s)"
      using r a k
      by (intro exI [of _ r] exI [of _ a])
        (simp add: s' occupied_beds_add active_in_def get_add_row fee_for_active_allocation_def)
  qed
qed simp

text \<open>
  The waiting list ranks all the candidates it was given, in the order of their priority, and
  keeps the given order among equals.
\<close>

theorem waiting_list_ranked:
  "mset (waiting_list_priority ids s) = mset ids \<and>
   sorted (map (priority_key (hostel_priority_profile ids s)) (waiting_list_priority ids s)) \<and>
   filter (\<lambda>i. priority_key (hostel_priority_profile ids s) i = p) (waiting_list_priority ids s) =
     filter (\<lambda>i. priority_key (hostel_priority_profile ids s) i = p) ids"
  by (simp add: waiting_list_priority_def sort_key_stable)

text \<open>
  Two gaps. The capacity of a room can be reduced below the number of its occupants, since
  \<open>Room.clean\<close> looks at the gender only; and a room that is not active can be allocated.
\<close>

lemma capacity_unchecked:
  "room_clean pk (r\<lparr>rm_capacity := n\<rparr>) s = room_clean pk r s"
  by (simp add: room_clean_def split: option.split)

section \<open>Concrete inputs\<close>

definition sample_room :: room where
  "sample_room = \<lparr>rm_building = ''Jebel Hall'', rm_room_number = ''4'', rm_capacity = 1, rm_gender_restriction = ''female'',
     rm_is_active = False, rm_deleted_at = None\<rparr>"

definition sample_allocation :: allocation where
  "sample_allocation = \<lparr>al_student = 1, al_room = 1, al_academic_year = 1, al_status = Alloc_Active, al_allocated_at = 1000,
     al_allocated_by = Some 7, al_vacated_at = None, al_vacated_by = None, al_notes = []\<rparr>"

definition sample_hostel_db :: "allocation table \<Rightarrow> hostel_db" where
  "sample_hostel_db allocs = enrollment_db.extend (sample_enrollment_db [])
     \<lparr>rooms = [(1, sample_room)], allocations = allocs,
      hostel_policies = [(1, \<lparr>hp_termly_fee = 300, hp_currency = ''SSP''\<rparr>)]\<rparr>"

lemma sample_hostel_tables [simp]:
  "rooms (sample_hostel_db allocs) = [(1, sample_room)]" "allocations (sample_hostel_db allocs) = allocs"
  "students (sample_hostel_db allocs) = [(1, sample_student)]"
  "academic_years (sample_hostel_db allocs) = [(1, sample_year)]"
  by (simp_all add: sample_hostel_db_def sample_enrollment_db_def admissions_db.defs registry_db.defs enrollment_db.defs
      sample_admitted_def sample_registry_db_def)

lemma sample_allocate:
  "allocate_room offline_ctx 1 1 1 (Some sample_user) (sample_hostel_db []) = Inr (1, sample_hostel_db [(1, sample_allocation)])"
proof -
  have "gender_for_student 1 (sample_hostel_db []) = Inr ''female''"
    by (simp add: gender_for_student_Inr get_row_singleton sample_student_def blank_student_def)
  moreover have "put_allocations [(1, a)] (sample_hostel_db []) = sample_hostel_db [(1, a)]" for a
    by (simp add: sample_hostel_db_def enrollment_db.defs)
  moreover have "\<not> audit_up offline_ctx" "\<not> mm_sensitive allocation_meta"
    by (simp_all add: offline_ctx_def allocation_meta_def)
  ultimately show ?thesis
    by (simp add: allocate_room_def get_room_def get_row_singleton available_beds_def occupied_beds_def count_rows_def
        filter_rows_def exists_row_def sample_room_def Let_def allocation_full_clean_def insert_audited_down fresh_pk_def
        add_row_def)
      (simp add: sample_allocation_def offline_ctx_def sample_ctx_def sample_user_def actor_fk_def)
qed

text \<open>The room of the example is not active, and is allocated all the same.\<close>

lemma inactive_room_allocated:
  "\<not> rm_is_active sample_room \<and>
   (\<exists>s'. allocate_room offline_ctx 1 1 1 (Some sample_user) (sample_hostel_db []) = Inr (1, s'))"
  by (rule conjI, simp add: sample_room_def, rule exI, rule sample_allocate)

lemma sample_hostel_empty_inv: "hostel_inv {} (sample_hostel_db [])"
  by (simp add: hostel_inv_def occupants_ok_def get_row_def)

lemma hostel_occupancy_witness:
  "hostel_step (sample_hostel_db []) (sample_hostel_db [(1, sample_allocation)]) \<and>
   (\<exists>r st. get_row (rooms (sample_hostel_db [(1, sample_allocation)])) 1 = Some r \<and>
      get_row (students (sample_hostel_db [(1, sample_allocation)])) 1 = Some st \<and>
      st_gender st = rm_gender_restriction r)"
proof -
  have step: "hostel_step (sample_hostel_db []) (sample_hostel_db [(1, sample_allocation)])"
    using sample_allocate by (rule hostel_step.Allocate)
  have "regendered (sample_hostel_db []) (sample_hostel_db [(1, sample_allocation)]) = {}"
    by (simp add: regendered_def)
  then have "hostel_run {} (sample_hostel_db []) (sample_hostel_db [(1, sample_allocation)])"
    using hostel_run.Step [OF hostel_run.Start step] by simp
  from hostel_occupancy [OF this sample_hostel_empty_inv, of 1 sample_allocation] step
  show ?thesis by (simp add: get_row_singleton sample_allocation_def)
qed

text \<open>
  The exception is real. Neither the view nor the serializer of a student looks at the
  allocations, so the record of an occupant takes any gender.
\<close>

lemma occupant_gender_edited:
  "\<exists>s' st. hostel_step (sample_hostel_db [(1, sample_allocation)]) s' \<and> get_row (students s') 1 = Some st \<and>
     get_row (allocations s') 1 = Some sample_allocation \<and> get_row (rooms s') 1 = Some sample_room \<and>
     st_gender st \<noteq> rm_gender_restriction sample_room"
proof -
  let ?s = "sample_hostel_db [(1, sample_allocation)]" and ?st = "sample_student\<lparr>st_gender := ''male''\<rparr>"
  have same: "patched_student sample_student ?st = ?st" by (simp add: patched_student_def)
  have "student_fields_ok False ?st ?s"
    by (simp add: student_fields_ok_def sample_hostel_db_def sample_enrollment_db_def admissions_db.defs registry_db.defs
        enrollment_db.defs sample_admitted_def sample_registry_db_def sample_student_def blank_student_def Gender_values_def
        SponsorshipType_values_def get_row_singleton) (simp add: sample_codes_db_def get_row_def)
  then have "patch_student offline_ctx 1 ?st [] ?s = Inr (?s\<lparr>students := [(1, ?st)]\<rparr>)"
    by (simp add: patch_student_def same get_row_singleton Let_def update_student_def student_unique_def exists_row_def
        audit_save_down student_meta_def offline_ctx_def)
  then have "hostel_step ?s (?s\<lparr>students := [(1, ?st)]\<rparr>)"
    by (intro hostel_step.Enrollment enrollment_step.Admission admissions_step.Registry registry_step.Patch)
  then show ?thesis
    by (intro exI [of _ "?s\<lparr>students := [(1, ?st)]\<rparr>"] exI [of _ ?st]) (simp add: get_row_singleton sample_room_def)
qed

end
