(* ===== verification/Payload.thy ===== *)
theory Payload
  imports Registry
begin

text \<open>
  Decimals in the payload of a queued operation, as the sync handlers of finance and of the
  examinations read them: \<open>Decimal(str(value))\<close>, with the grammar of Python's constructor.
\<close>

datatype py_decimal = Finite rat | NonFinite

text \<open>An optional exponent: nothing, or \<open>e\<close>, a sign and digits.\<close>

definition decimal_exponent :: "string \<Rightarrow> int option" where
  "decimal_exponent e =
     (if e = [] then Some 0
      else let t = tl e; neg = (t \<noteq> [] \<and> hd t = CHR ''-'');
               ds = (if t \<noteq> [] \<and> (hd t = CHR ''-'' \<or> hd t = CHR ''+'') then tl t else t) in
           if ds = [] \<or> \<not> list_all is_digit ds then None
           else Some (if neg then - int (digits_value ds) else int (digits_value ds)))"

definition non_finite_word :: "string \<Rightarrow> bool" where
  "non_finite_word t \<longleftrightarrow> t = ''inf'' \<or> t = ''infinity'' \<or>
     (take 3 t = ''nan'' \<and> list_all is_digit (drop 3 t)) \<or> (take 4 t = ''snan'' \<and> list_all is_digit (drop 4 t))"

definition parse_decimal :: "string \<Rightarrow> py_decimal option" where
  "parse_decimal s =
     (let u = map lower_char (filter (\<lambda>ch. ch \<noteq> CHR ''_'') (strip s));
          neg = (u \<noteq> [] \<and> hd u = CHR ''-'');
          t = (if u \<noteq> [] \<and> (hd u = CHR ''-'' \<or> hd u = CHR ''+'') then tl u else u);
          mantissa = takeWhile (\<lambda>ch. ch \<noteq> CHR ''e'') t;
          whole = takeWhile (\<lambda>ch. ch \<noteq> CHR ''.'') mantissa;
          cents = drop (Suc (length whole)) mantissa
      in if non_finite_word t then Some NonFinite
         else if whole @ cents = [] \<or> \<not> list_all is_digit (whole @ cents) then None
         else case decimal_exponent (drop (length mantissa) t) of
             None \<Rightarrow> None
           | Some e \<Rightarrow> Some (Finite ((if neg then - 1 else 1) * of_nat (digits_value (whole @ cents)) *
                         10 powi (e - int (length cents)))))"

text \<open>A float is given by its value; \<open>str(True)\<close> is not a number.\<close>

definition payload_decimal :: "pyval \<Rightarrow> exn + py_decimal" where
  "payload_decimal v =
     (case v of
        VInt i \<Rightarrow> Inr (Finite (of_int i))
      | VDec q \<Rightarrow> Inr (Finite q)
      | VStr s \<Rightarrow> from_option ValidationError (parse_decimal s)
      | _ \<Rightarrow> Inl ValidationError)"

text \<open>
  \<open>Decimal(str(value))\<close> keeps the digits as they were written: the sign, the coefficient and the
  exponent. \<open>decimal_text\<close> is how it prints them; a value with more than two decimal places
  does not fit the column even when the last ones are zero.
\<close>

definition written_decimal :: "string \<Rightarrow> bool \<times> nat \<times> int" where
  "written_decimal s =
     (let u = map lower_char (filter (\<lambda>ch. ch \<noteq> CHR ''_'') (strip s));
          neg = (u \<noteq> [] \<and> hd u = CHR ''-'');
          t = (if u \<noteq> [] \<and> (hd u = CHR ''-'' \<or> hd u = CHR ''+'') then tl u else u);
          mantissa = takeWhile (\<lambda>ch. ch \<noteq> CHR ''e'') t;
          whole = takeWhile (\<lambda>ch. ch \<noteq> CHR ''.'') mantissa;
          cents = drop (Suc (length whole)) mantissa
      in (neg, digits_value (whole @ cents),
          (case decimal_exponent (drop (length mantissa) t) of None \<Rightarrow> 0 | Some e \<Rightarrow> e) - int (length cents)))"

definition decimal_text :: "bool \<times> nat \<times> int \<Rightarrow> string" where
  "decimal_text d =
     (case d of (neg, coefficient, e) \<Rightarrow>
       let ds = str_nat coefficient; leftdigits = e + int (length ds);
           dot = (if e \<le> 0 \<and> - 6 < leftdigits then leftdigits else 1);
           digits = (if dot \<le> 0 then ''0.'' @ replicate (nat (- dot)) CHR ''0'' @ ds
                     else if int (length ds) \<le> dot then ds @ replicate (nat dot - length ds) CHR ''0''
                     else take (nat dot) ds @ ''.'' @ drop (nat dot) ds);
           scale = leftdigits - dot
       in (if neg then ''-'' else []) @ digits @
          (if scale = 0 then [] else ''E'' @ (if 0 < scale then ''+'' else []) @ str_int scale))"

definition non_finite_text :: "string \<Rightarrow> string" where
  "non_finite_text s =
     (let u = map lower_char (filter (\<lambda>ch. ch \<noteq> CHR ''_'') (strip s));
          t = (if u \<noteq> [] \<and> (hd u = CHR ''-'' \<or> hd u = CHR ''+'') then tl u else u)
      in (if u \<noteq> [] \<and> hd u = CHR ''-'' then ''-'' else []) @
         (if t \<noteq> [] \<and> hd t = CHR ''i'' then ''Infinity''
          else ''NaN'' @ dropWhile (\<lambda>ch. ch = CHR ''0'') (drop 3 t)))"

text \<open>A float is printed with one or two places, which is what a score or an amount has.\<close>

definition decimal_shown :: "pyval \<Rightarrow> string" where
  "decimal_shown v =
     (case v of
        VStr t \<Rightarrow>
          (case parse_decimal t of Some (Finite q) \<Rightarrow> decimal_text (written_decimal t) | _ \<Rightarrow> non_finite_text t)
      | VDec q \<Rightarrow> (let t = str_decimal q in if last t = CHR ''0'' then butlast t else t)
      | _ \<Rightarrow> conflict_text v)"

definition decimal_fits :: "pyval \<Rightarrow> bool" where
  "decimal_fits v = (case v of VStr t \<Rightarrow> - 2 \<le> snd (snd (written_decimal t)) | _ \<Rightarrow> True)"

text \<open>A signalling value cannot even be compared.\<close>

definition decimal_signals :: "pyval \<Rightarrow> bool" where
  "decimal_signals v = (case v of VStr t \<Rightarrow> list_ex (\<lambda>ch. lower_char ch = CHR ''s'') t | _ \<Rightarrow> False)"

text \<open>\<open>payload.get(f) in (None, "")\<close>\<close>

definition payload_missing :: "(string \<times> pyval) list \<Rightarrow> string \<Rightarrow> bool" where
  "payload_missing p f \<longleftrightarrow> payload_get p f = VNone \<or> payload_get p f = VStr []"

section \<open>The value of printed digits\<close>

lemma digits_value_snoc: "digits_value (ds @ [ch]) = 10 * digits_value ds + (of_char ch - 48)"
  by (simp add: digits_value_def)

lemma digits_value_Nil [simp]: "digits_value [] = 0"
  by (simp add: digits_value_def)

lemma digits_value_append: "digits_value (xs @ ys) = digits_value xs * 10 ^ length ys + digits_value ys"
proof (induction ys rule: rev_induct)
  case (snoc ch ys)
  have "digits_value (xs @ ys @ [ch]) = 10 * digits_value (xs @ ys) + (of_char ch - 48)"
    using digits_value_snoc [of "xs @ ys" ch] by simp
  with snoc show ?case by (simp add: digits_value_snoc algebra_simps)
qed simp

lemma digits_value_str_nat [simp]: "digits_value (str_nat n) = n"
proof (induction n rule: str_nat.induct)
  case (1 n)
  have small: "digits_value [digit_char k] = k" if "k < 10" for k
    using digits_value_snoc [of "[]" "digit_char k"] of_digit_char [OF that] by simp
  show ?case
  proof (cases "n < 10")
    case True
    with small show ?thesis by (simp add: str_nat_small)
  next
    case False
    with 1 of_digit_char [of "n mod 10"] show ?thesis by (simp add: str_nat_large digits_value_snoc)
  qed
qed

lemma digits_value_zeros [simp]: "digits_value (replicate k (CHR ''0'') @ ds) = digits_value ds"
proof -
  have "digits_value (replicate k (CHR ''0'')) = 0"
  proof (induction k)
    case (Suc k)
    have "replicate (Suc k) (CHR ''0'') = replicate k (CHR ''0'') @ [CHR ''0'']" by (simp only: replicate_append_same replicate_Suc)
    with Suc show ?case by (simp only: digits_value_snoc) simp
  qed simp
  then show ?thesis by (simp add: digits_value_append)
qed

lemma pad0_two: "b < 100 \<Longrightarrow> length (pad0 2 (str_nat b)) = 2 \<and> digits_value (pad0 2 (str_nat b)) = b"
proof -
  assume "b < 100"
  have "length (str_nat b) \<le> 2"
  proof (cases "b < 10")
    case False
    with \<open>b < 100\<close> have "b div 10 < 10" by simp
    with False show ?thesis by (simp add: str_nat_large str_nat_small)
  qed (simp add: str_nat_small)
  then show ?thesis by (simp add: pad0_def)
qed

lemma pad0_digits: "set (pad0 w (str_nat n)) \<subseteq> {ch. is_digit ch}"
  using str_nat_all_digits [of n] by (auto simp: pad0_def is_digit_def)

end
