(* ===== verification/Finance.thy ===== *)
theory Finance
  imports Hostel Payload Money Payments
begin

text \<open>
  Finance: the models of \<open>finance/models.py\<close>, the numbers of \<open>finance/id_generation.py\<close>, the
  services of \<open>finance/services.py\<close>, the hold provider of \<open>finance/providers.py\<close> and the sync
  handler of \<open>finance/sync.py\<close>. The properties are in \<open>Finance_Ledger\<close>.
\<close>

section \<open>Models\<close>

record fee_structure =
  fs_programme :: nat
  fs_academic_year :: nat
  fs_level :: nat
  fs_residency :: string
  fs_amount :: rat
  fs_currency :: string
  fs_is_active :: bool

datatype invoice_status = Inv_Issued | Inv_Partially_Paid | Inv_Paid | Inv_Cancelled | Inv_Written_Off

fun invoice_status_text :: "invoice_status \<Rightarrow> string" where
  "invoice_status_text Inv_Issued = ''issued''"
| "invoice_status_text Inv_Partially_Paid = ''partially_paid''"
| "invoice_status_text Inv_Paid = ''paid''"
| "invoice_status_text Inv_Cancelled = ''cancelled''"
| "invoice_status_text Inv_Written_Off = ''written_off''"

record invoice =
  inv_student :: nat
  inv_semester :: nat
  inv_fee_structure :: "nat option"
  inv_number :: string
  inv_amount :: rat
  inv_discount :: rat
  inv_currency :: string
  inv_status :: invoice_status
  inv_due_date :: int
  inv_issued_by :: "nat option"

datatype payment_method = Mobile_Money | Bank_Slip | Cash | Cheque

fun payment_method_text :: "payment_method \<Rightarrow> string" where
  "payment_method_text Mobile_Money = ''mobile_money''"
| "payment_method_text Bank_Slip = ''bank_slip''"
| "payment_method_text Cash = ''cash''"
| "payment_method_text Cheque = ''cheque''"

text \<open>The status of a payment has the strings of \<open>PaymentState\<close> of the port.\<close>

type_synonym payment_status = payment_state

fun payment_status_text :: "payment_status \<Rightarrow> string" where
  "payment_status_text PayPending = ''pending''"
| "payment_status_text PayConfirmed = ''confirmed''"
| "payment_status_text PayFailed = ''failed''"
| "payment_status_text PayCancelled = ''cancelled''"

record payment =
  pay_invoice :: nat
  pay_method :: payment_method
  pay_amount :: rat
  pay_currency :: string
  pay_provider :: string
  pay_reference :: string
  pay_status :: payment_status
  pay_receipt_number :: "string option"
  pay_received_by :: "nat option"
  pay_confirmed_at :: "int option"
  pay_notes :: string
  pay_updated_at :: int

datatype coverage_type = Percentage | Fixed_Amount

fun coverage_text :: "coverage_type \<Rightarrow> string" where
  "coverage_text Percentage = ''percentage''"
| "coverage_text Fixed_Amount = ''fixed_amount''"

record scholarship =
  sch_student :: nat
  sch_sponsor :: "nat option"
  sch_academic_year :: nat
  sch_coverage_type :: coverage_type
  sch_percentage :: "rat option"
  sch_fixed_amount :: "rat option"
  sch_currency :: string
  sch_is_active :: bool
  sch_notes :: string

datatype refund_status = Ref_Requested | Ref_Approved | Ref_Rejected | Ref_Paid

fun refund_status_text :: "refund_status \<Rightarrow> string" where
  "refund_status_text Ref_Requested = ''requested''"
| "refund_status_text Ref_Approved = ''approved''"
| "refund_status_text Ref_Rejected = ''rejected''"
| "refund_status_text Ref_Paid = ''paid''"

record refund =
  rf_payment :: nat
  rf_amount :: rat
  rf_currency :: string
  rf_reason :: string
  rf_status :: refund_status
  rf_requested_by :: "nat option"
  rf_decided_by :: "nat option"
  rf_decision_notes :: string
  rf_decided_at :: "int option"
  rf_paid_at :: "int option"

record finance_db = hostel_db +
  fee_structures :: "fee_structure table"
  invoices :: "invoice table"
  payments :: "payment table"
  scholarships :: "scholarship table"
  refunds :: "refund table"

abbreviation put_fee_structures :: "fee_structure table \<Rightarrow> 'a finance_db_scheme \<Rightarrow> 'a finance_db_scheme" where
  "put_fee_structures t s \<equiv> s\<lparr>fee_structures := t\<rparr>"

abbreviation put_invoices :: "invoice table \<Rightarrow> 'a finance_db_scheme \<Rightarrow> 'a finance_db_scheme" where
  "put_invoices t s \<equiv> s\<lparr>invoices := t\<rparr>"

abbreviation put_payments :: "payment table \<Rightarrow> 'a finance_db_scheme \<Rightarrow> 'a finance_db_scheme" where
  "put_payments t s \<equiv> s\<lparr>payments := t\<rparr>"

abbreviation put_scholarships :: "scholarship table \<Rightarrow> 'a finance_db_scheme \<Rightarrow> 'a finance_db_scheme" where
  "put_scholarships t s \<equiv> s\<lparr>scholarships := t\<rparr>"

abbreviation put_refunds :: "refund table \<Rightarrow> 'a finance_db_scheme \<Rightarrow> 'a finance_db_scheme" where
  "put_refunds t s \<equiv> s\<lparr>refunds := t\<rparr>"

section \<open>Validation and audit of the models\<close>

definition Residency_values :: "string list" where
  "Residency_values = [''local'', ''international'']"

definition fee_structure_meta :: model_meta where
  "fee_structure_meta = \<lparr>mm_label = ''finance.feestructure'', mm_verbose = ''fee structure'', mm_sensitive = False\<rparr>"

definition fee_structure_audit :: "fee_structure \<Rightarrow> (string \<times> pyval) list" where
  "fee_structure_audit f =
     [(''amount'', VDec (fs_amount f)), (''currency'', VStr (fs_currency f)), (''is_active'', VBool (fs_is_active f))]"

definition fee_structure_full_clean :: "nat option \<Rightarrow> fee_structure \<Rightarrow> 'a finance_db_scheme \<Rightarrow> exn + unit" where
  "fee_structure_full_clean pk f s =
     ensure (get_row (programmes s) (fs_programme f) \<noteq> None \<and> get_row (academic_years s) (fs_academic_year f) \<noteq> None \<and>
             1 \<le> fs_level f \<and> fs_level f \<le> 10 \<and> fs_residency f \<in> set Residency_values \<and>
             money_amount_field (fs_amount f) \<and> currency_field (fs_currency f) \<and>
             \<not> exists_row (\<lambda>k y. Some k \<noteq> pk \<and> fs_programme y = fs_programme f \<and>
                  fs_academic_year y = fs_academic_year f \<and> fs_level y = fs_level f \<and>
                  fs_residency y = fs_residency f) (fee_structures s))
       ValidationError"

definition invoice_meta :: model_meta where
  "invoice_meta = \<lparr>mm_label = ''finance.invoice'', mm_verbose = ''invoice'', mm_sensitive = True\<rparr>"

definition invoice_audit :: "invoice \<Rightarrow> (string \<times> pyval) list" where
  "invoice_audit i =
     [(''amount'', VDec (inv_amount i)), (''discount_amount'', VDec (inv_discount i)),
      (''status'', VStr (invoice_status_text (inv_status i)))]"

definition net_amount :: "invoice \<Rightarrow> rat" where
  "net_amount i = inv_amount i - inv_discount i"

definition invoice_clash :: "nat option \<Rightarrow> invoice \<Rightarrow> nat \<Rightarrow> invoice \<Rightarrow> bool" where
  "invoice_clash pk i k y \<longleftrightarrow> Some k \<noteq> pk \<and>
     (inv_number y = inv_number i \<or> inv_student y = inv_student i \<and> inv_semester y = inv_semester i)"

definition invoice_full_clean :: "nat option \<Rightarrow> invoice \<Rightarrow> 'a finance_db_scheme \<Rightarrow> exn + unit" where
  "invoice_full_clean pk i s =
     ensure (get_row (students s) (inv_student i) \<noteq> None \<and> get_row (semesters s) (inv_semester i) \<noteq> None \<and>
             (case inv_fee_structure i of None \<Rightarrow> True | Some k \<Rightarrow> get_row (fee_structures s) k \<noteq> None) \<and>
             inv_number i \<noteq> [] \<and> length (inv_number i) \<le> 40 \<and>
             money_amount_field (inv_amount i) \<and> money_amount_field (inv_discount i) \<and> currency_field (inv_currency i) \<and>
             inv_discount i \<le> inv_amount i \<and> \<not> exists_row (invoice_clash pk i) (invoices s))
       ValidationError"

definition payment_meta :: model_meta where
  "payment_meta = \<lparr>mm_label = ''finance.payment'', mm_verbose = ''payment'', mm_sensitive = True\<rparr>"

definition payment_audit :: "payment \<Rightarrow> (string \<times> pyval) list" where
  "payment_audit p =
     [(''amount'', VDec (pay_amount p)), (''status'', VStr (payment_status_text (pay_status p))),
      (''receipt_number'', case pay_receipt_number p of None \<Rightarrow> VNone | Some n \<Rightarrow> VStr n)]"

definition payment_clash :: "nat option \<Rightarrow> payment \<Rightarrow> nat \<Rightarrow> payment \<Rightarrow> bool" where
  "payment_clash pk p k y \<longleftrightarrow> Some k \<noteq> pk \<and>
     (pay_reference y = pay_reference p \<or> pay_receipt_number p \<noteq> None \<and> pay_receipt_number y = pay_receipt_number p)"

definition payment_full_clean :: "nat option \<Rightarrow> payment \<Rightarrow> 'a finance_db_scheme \<Rightarrow> exn + unit" where
  "payment_full_clean pk p s =
     ensure (get_row (invoices s) (pay_invoice p) \<noteq> None \<and> money_amount_field (pay_amount p) \<and>
             currency_field (pay_currency p) \<and> length (pay_provider p) \<le> 50 \<and>
             pay_reference p \<noteq> [] \<and> length (pay_reference p) \<le> 120 \<and>
             (case pay_receipt_number p of None \<Rightarrow> True | Some n \<Rightarrow> length n \<le> 40) \<and>
             \<not> exists_row (payment_clash pk p) (payments s))
       ValidationError"

definition scholarship_meta :: model_meta where
  "scholarship_meta = \<lparr>mm_label = ''finance.scholarship'', mm_verbose = ''scholarship'', mm_sensitive = True\<rparr>"

definition scholarship_audit :: "scholarship \<Rightarrow> (string \<times> pyval) list" where
  "scholarship_audit x =
     [(''coverage_type'', VStr (coverage_text (sch_coverage_type x))), (''percentage'', opt_dec (sch_percentage x)),
      (''fixed_amount'', opt_dec (sch_fixed_amount x)), (''is_active'', VBool (sch_is_active x))]"

definition percent_field :: "rat \<Rightarrow> bool" where
  "percent_field q \<longleftrightarrow> two_places q \<and> 0 \<le> q \<and> q \<le> 100"

definition scholarship_full_clean :: "nat option \<Rightarrow> scholarship \<Rightarrow> 'a finance_db_scheme \<Rightarrow> exn + unit" where
  "scholarship_full_clean pk x s =
     ensure (get_row (students s) (sch_student x) \<noteq> None \<and> get_row (academic_years s) (sch_academic_year x) \<noteq> None \<and>
             (case sch_sponsor x of None \<Rightarrow> True | Some k \<Rightarrow> get_row (sponsors s) k \<noteq> None) \<and>
             (case sch_percentage x of None \<Rightarrow> True | Some q \<Rightarrow> percent_field q) \<and>
             (case sch_fixed_amount x of None \<Rightarrow> True | Some q \<Rightarrow> money_amount_field q) \<and>
             currency_field (sch_currency x) \<and>
             \<not> (sch_coverage_type x = Percentage \<and> sch_percentage x = None) \<and>
             \<not> (sch_coverage_type x = Fixed_Amount \<and> sch_fixed_amount x = None) \<and>
             \<not> exists_row (\<lambda>k y. Some k \<noteq> pk \<and> sch_student y = sch_student x \<and>
                  sch_academic_year y = sch_academic_year x) (scholarships s))
       ValidationError"

text \<open>
  \<open>discount_for\<close>: \<open>quantize\<close> rounds half to even, and cannot overflow for column values; a
  missing percentage is Python's \<open>TypeError\<close>.
\<close>

definition discount_for :: "scholarship \<Rightarrow> rat \<Rightarrow> exn + rat" where
  "discount_for x amount =
     (if \<not> sch_is_active x then Inr 0
      else bindE (case sch_coverage_type x of
            Percentage \<Rightarrow> (case sch_percentage x of
                None \<Rightarrow> Inl UnexpectedError
              | Some q \<Rightarrow> Inr (quantize_half_even (dec_div (dec_mul amount q) 100)))
          | Fixed_Amount \<Rightarrow> Inr (case sch_fixed_amount x of None \<Rightarrow> 0 | Some q \<Rightarrow> q))
        (\<lambda>discount. Inr (min discount amount)))"

definition refund_meta :: model_meta where
  "refund_meta = \<lparr>mm_label = ''finance.refund'', mm_verbose = ''refund'', mm_sensitive = True\<rparr>"

definition refund_audit :: "refund \<Rightarrow> (string \<times> pyval) list" where
  "refund_audit r = [(''amount'', VDec (rf_amount r)), (''status'', VStr (refund_status_text (rf_status r)))]"

definition refund_full_clean :: "refund \<Rightarrow> 'a finance_db_scheme \<Rightarrow> exn + unit" where
  "refund_full_clean r s =
     ensure (get_row (payments s) (rf_payment r) \<noteq> None \<and> money_amount_field (rf_amount r) \<and>
             currency_field (rf_currency r) \<and> rf_reason r \<noteq> []) ValidationError"

section \<open>Fee structures\<close>

definition create_fee_structure ::
  "ctx \<Rightarrow> nat \<Rightarrow> nat \<Rightarrow> nat \<Rightarrow> string \<Rightarrow> rat \<Rightarrow> string option \<Rightarrow> 'a finance_db_scheme
    \<Rightarrow> exn + nat \<times> 'a finance_db_scheme" where
  "create_fee_structure c programme year level residency amount currency s =
     (let f = \<lparr>fs_programme = programme, fs_academic_year = year, fs_level = level, fs_residency = residency,
               fs_amount = amount,
               fs_currency = (case currency of Some cur \<Rightarrow> if cur = [] then base_currency c s else cur
                              | None \<Rightarrow> base_currency c s),
               fs_is_active = True\<rparr>
      in bindE (fee_structure_full_clean None f s) (\<lambda>_.
           insert_audited c fee_structure_meta fee_structure_audit fee_structures put_fee_structures f
             ''Fee structure created'' s))"

definition update_fee_structure ::
  "ctx \<Rightarrow> nat \<Rightarrow> rat option \<Rightarrow> bool option \<Rightarrow> 'a finance_db_scheme \<Rightarrow> exn + 'a finance_db_scheme" where
  "update_fee_structure c k amount is_active s =
     (case get_row (fee_structures s) k of
        None \<Rightarrow> Inl DoesNotExist
      | Some f \<Rightarrow>
          let f' = f\<lparr>fs_amount := (case amount of None \<Rightarrow> fs_amount f | Some q \<Rightarrow> q),
                     fs_is_active := (case is_active of None \<Rightarrow> fs_is_active f | Some b \<Rightarrow> b)\<rparr>
          in bindE (fee_structure_full_clean (Some k) f' s) (\<lambda>_.
               update_audited c fee_structure_meta fee_structure_audit fee_structures put_fee_structures k f f'
                 ''Fee structure updated'' s))"

definition applicable_fee_structure ::
  "nat \<Rightarrow> nat \<Rightarrow> nat \<Rightarrow> string \<Rightarrow> 'a finance_db_scheme \<Rightarrow> exn + nat \<times> fee_structure" where
  "applicable_fee_structure programme year level residency s =
     from_option ConfigurationError
       (first_row (\<lambda>_ f. fs_programme f = programme \<and> fs_academic_year f = year \<and> fs_level f = level \<and>
          fs_residency f = residency \<and> fs_is_active f) (fee_structures s))"

section \<open>Invoices\<close>

definition DuplicateInvoice :: exn where "DuplicateInvoice = DomainError ''duplicate_invoice'' 409"
definition InvalidPaymentMethod :: exn where "InvalidPaymentMethod = DomainError ''invalid_payment_method'' 400"
definition PaymentNotConfirmed :: exn where "PaymentNotConfirmed = DomainError ''payment_not_confirmed'' 409"
definition RefundExceedsPayment :: exn where "RefundExceedsPayment = DomainError ''refund_exceeds_payment'' 409"
definition InvalidRefundTransition :: exn where "InvalidRefundTransition = DomainError ''invalid_refund_transition'' 409"

definition generate_invoice_number :: "string \<Rightarrow> 'a core_db_scheme \<Rightarrow> string \<times> 'a core_db_scheme" where
  "generate_invoice_number year_name s =
     (let year = leading_year year_name; (seq, s') = allocate (''invoice_no:'' @ year) s in
      (''INV/'' @ year @ ''/'' @ pad0 5 (str_nat seq), s'))"

definition generate_receipt_number :: "string \<Rightarrow> 'a core_db_scheme \<Rightarrow> string \<times> 'a core_db_scheme" where
  "generate_receipt_number year_name s =
     (let year = leading_year year_name; (seq, s') = allocate (''receipt_no:'' @ year) s in
      (''RCT/'' @ year @ ''/'' @ pad0 5 (str_nat seq), s'))"

text \<open>The discount of the active scholarship of the student for the year, on the tuition only.\<close>

definition scholarship_discount :: "nat \<Rightarrow> nat \<Rightarrow> rat \<Rightarrow> 'a finance_db_scheme \<Rightarrow> exn + rat" where
  "scholarship_discount student year amount s =
     (case first_row (\<lambda>_ x. sch_student x = student \<and> sch_academic_year x = year \<and> sch_is_active x) (scholarships s) of
        None \<Rightarrow> Inr 0
      | Some (_, x) \<Rightarrow> discount_for x amount)"

definition generate_invoice ::
  "ctx \<Rightarrow> nat \<Rightarrow> nat \<Rightarrow> int option \<Rightarrow> user option \<Rightarrow> 'a finance_db_scheme \<Rightarrow> exn + nat \<times> 'a finance_db_scheme" where
  "generate_invoice c student semester_id due_date actor s =
     (if exists_row (\<lambda>_ i. inv_student i = student \<and> inv_semester i = semester_id) (invoices s) then Inl DuplicateInvoice
      else bindE (get_semester semester_id s) (\<lambda>semester.
        bindE (get_programme_id student s) (\<lambda>programme.
        bindE (current_level_for_student student s) (\<lambda>level.
        bindE (residency_for_student student s) (\<lambda>residency.
        bindE (applicable_fee_structure programme (sem_academic_year semester) level residency s) (\<lambda>(fs, structure).
          let hostel_fee = fee_for_active_allocation c student (sem_academic_year semester) s in
        bindE (scholarship_discount student (sem_academic_year semester) (fs_amount structure) s) (\<lambda>discount.
        bindE (academic_year_name (sem_academic_year semester) s) (\<lambda>name.
          let (number, s1) = generate_invoice_number name s;
              i = \<lparr>inv_student = student, inv_semester = semester_id, inv_fee_structure = Some fs,
                   inv_number = number, inv_amount = fs_amount structure + hostel_fee, inv_discount = discount,
                   inv_currency = fs_currency structure, inv_status = Inv_Issued,
                   inv_due_date = (case due_date of None \<Rightarrow> sem_teaching_end semester | Some d \<Rightarrow> d),
                   inv_issued_by = actor_fk actor\<rparr>
          in bindE (invoice_full_clean None i s1) (\<lambda>_.
               insert_audited c invoice_meta invoice_audit invoices put_invoices i ''Invoice issued'' s1)))))))))"

text \<open>
  The batch. Every invoice is a transaction of its own and the batch is not one, so an
  error other than the two that are skipped leaves the invoices already issued.
\<close>

record invoice_batch =
  ib_created :: nat
  ib_skipped :: "(nat \<times> exn) list"

fun invoice_students ::
  "ctx \<Rightarrow> nat \<Rightarrow> user option \<Rightarrow> nat list \<Rightarrow> invoice_batch \<Rightarrow> 'a finance_db_scheme
    \<Rightarrow> (exn + invoice_batch) \<times> 'a finance_db_scheme" where
  "invoice_students c semester actor [] b s = (Inr b, s)"
| "invoice_students c semester actor (student # rest) b s =
     (case generate_invoice c student semester None actor s of
        Inr (k, s') \<Rightarrow> invoice_students c semester actor rest (b\<lparr>ib_created := Suc (ib_created b)\<rparr>) s'
      | Inl e \<Rightarrow>
          if e = DuplicateInvoice \<or> e = ConfigurationError
          then invoice_students c semester actor rest (b\<lparr>ib_skipped := ib_skipped b @ [(student, e)]\<rparr>) s
          else (Inl e, s))"

definition generate_invoices_for_semester ::
  "ctx \<Rightarrow> nat \<Rightarrow> user option \<Rightarrow> 'a finance_db_scheme \<Rightarrow> (exn + invoice_batch) \<times> 'a finance_db_scheme" where
  "generate_invoices_for_semester c semester actor s =
     invoice_students c semester actor (sort (students_registered_in semester s))
       \<lparr>ib_created = 0, ib_skipped = []\<rparr> s"

definition confirmed_for :: "nat \<Rightarrow> nat \<Rightarrow> payment \<Rightarrow> bool" where
  "confirmed_for k j p \<longleftrightarrow> pay_invoice p = k \<and> pay_status p = PayConfirmed"

definition paid_amount :: "nat \<Rightarrow> payment table \<Rightarrow> rat" where
  "paid_amount k t = sum_rows (confirmed_for k) pay_amount t"

definition invoice_balance :: "nat \<Rightarrow> invoice \<Rightarrow> 'a finance_db_scheme \<Rightarrow> rat" where
  "invoice_balance k i s = net_amount i - paid_amount k (payments s)"

definition status_for_balance :: "rat \<Rightarrow> rat \<Rightarrow> invoice_status" where
  "status_for_balance balance net =
     (if balance \<le> 0 then Inv_Paid else if balance < net then Inv_Partially_Paid else Inv_Issued)"

definition refresh_invoice_status :: "ctx \<Rightarrow> nat \<Rightarrow> 'a finance_db_scheme \<Rightarrow> exn + 'a finance_db_scheme" where
  "refresh_invoice_status c k s =
     (case get_row (invoices s) k of
        None \<Rightarrow> Inl DoesNotExist
      | Some i \<Rightarrow>
          let balance = invoice_balance k i s; new_status = status_for_balance balance (net_amount i) in
          if inv_status i \<in> {Inv_Cancelled, Inv_Written_Off} \<or> new_status = inv_status i then Inr s
          else update_audited c invoice_meta invoice_audit invoices put_invoices k i (i\<lparr>inv_status := new_status\<rparr>)
                 (''Balance now '' @ str_decimal balance @ '' '' @ inv_currency i) s)"

section \<open>Payments\<close>

definition insert_payment ::
  "ctx \<Rightarrow> payment \<Rightarrow> string \<Rightarrow> 'a finance_db_scheme \<Rightarrow> exn + nat \<times> 'a finance_db_scheme" where
  "insert_payment c p reason s =
     bindE (payment_full_clean None p s)
       (\<lambda>_. insert_audited c payment_meta payment_audit payments put_payments p reason s)"

definition save_payment ::
  "ctx \<Rightarrow> nat \<Rightarrow> payment \<Rightarrow> payment \<Rightarrow> string \<Rightarrow> 'a finance_db_scheme \<Rightarrow> exn + 'a finance_db_scheme" where
  "save_payment c k old p reason s =
     bindE (payment_full_clean (Some k) p s)
       (\<lambda>_. update_audited c payment_meta payment_audit payments put_payments k old (p\<lparr>pay_updated_at := now c\<rparr>) reason s)"

definition confirm_payment ::
  "ctx \<Rightarrow> nat \<Rightarrow> payment \<Rightarrow> int option \<Rightarrow> 'a finance_db_scheme \<Rightarrow> exn + 'a finance_db_scheme" where
  "confirm_payment c k p paid_at s =
     (case get_row (invoices s) (pay_invoice p) of
        None \<Rightarrow> Inl DoesNotExist
      | Some i \<Rightarrow>
          bindE (get_semester (inv_semester i) s) (\<lambda>semester.
          bindE (academic_year_name (sem_academic_year semester) s) (\<lambda>name.
            let (receipt, s1) = generate_receipt_number name s in
            bindE (save_payment c k p
                     (p\<lparr>pay_status := PayConfirmed,
                        pay_confirmed_at := Some (case paid_at of None \<Rightarrow> now c | Some t \<Rightarrow> t),
                        pay_receipt_number := Some receipt\<rparr>)
                     (''Payment confirmed; receipt '' @ receipt) s1)
              (refresh_invoice_status c (pay_invoice p)))))"

definition new_payment :: "ctx \<Rightarrow> nat \<Rightarrow> invoice \<Rightarrow> payment_method \<Rightarrow> rat \<Rightarrow> string \<Rightarrow> payment" where
  "new_payment c k i meth amount reference =
     \<lparr>pay_invoice = k, pay_method = meth, pay_amount = amount, pay_currency = inv_currency i, pay_provider = [],
      pay_reference = reference, pay_status = PayPending, pay_receipt_number = None, pay_received_by = None,
      pay_confirmed_at = None, pay_notes = [], pay_updated_at = now c\<rparr>"

definition record_manual_payment ::
  "ctx \<Rightarrow> nat \<Rightarrow> payment_method \<Rightarrow> rat \<Rightarrow> string \<Rightarrow> user option \<Rightarrow> string \<Rightarrow> 'a finance_db_scheme
    \<Rightarrow> exn + nat \<times> 'a finance_db_scheme" where
  "record_manual_payment c invoice_id meth amount reference actor notes s =
     (if meth = Mobile_Money then Inl InvalidPaymentMethod
      else case get_row (invoices s) invoice_id of
          None \<Rightarrow> Inl DoesNotExist
        | Some i \<Rightarrow>
            let p = (new_payment c invoice_id i meth amount reference)
                      \<lparr>pay_received_by := actor_fk actor, pay_notes := notes\<rparr>
            in bindE (insert_payment c p (payment_method_text meth @ '' payment recorded'') s) (\<lambda>(k, s1).
                 if meth = Cash then bindE (confirm_payment c k p None s1) (\<lambda>s2. Inr (k, s2)) else Inr (k, s1)))"

text \<open>In the following operations \<open>k\<close> is the key of the payment that was loaded.\<close>

definition not_pending :: exn where "not_pending = DomainError ''not_pending'' 400"

definition confirm_manual_payment :: "ctx \<Rightarrow> nat \<Rightarrow> 'a finance_db_scheme \<Rightarrow> exn + 'a finance_db_scheme" where
  "confirm_manual_payment c k s =
     (case get_row (payments s) k of
        None \<Rightarrow> Inl DoesNotExist
      | Some p \<Rightarrow> if pay_status p \<noteq> PayPending then Inl not_pending else confirm_payment c k p None s)"

definition reject_manual_payment :: "ctx \<Rightarrow> nat \<Rightarrow> string \<Rightarrow> 'a finance_db_scheme \<Rightarrow> exn + 'a finance_db_scheme" where
  "reject_manual_payment c k reason s =
     (case get_row (payments s) k of
        None \<Rightarrow> Inl DoesNotExist
      | Some p \<Rightarrow>
          if \<not> nonblank reason then Inl ReasonRequired
          else if pay_status p \<noteq> PayPending then Inl not_pending
          else save_payment c k p
                 (p\<lparr>pay_status := PayFailed, pay_notes := strip (pay_notes p @ char_of (10 :: nat) # ''Rejected: '' @ reason)\<rparr>)
                 (''Payment rejected: '' @ reason) s)"

text \<open>
  The provider is not part of the database and its state is threaded separately; what an
  exception rolls back is the database only.
\<close>

definition store_mobile_payment ::
  "ctx \<Rightarrow> nat \<Rightarrow> invoice \<Rightarrow> rat \<Rightarrow> payment_intent \<Rightarrow> 'a finance_db_scheme \<Rightarrow> exn + nat \<times> 'a finance_db_scheme" where
  "store_mobile_payment c k i requested intent s =
     insert_payment c ((new_payment c k i Mobile_Money requested (pi_reference intent))\<lparr>pay_provider := pi_provider intent\<rparr>)
       ''Mobile money payment initiated'' s"

definition initiate_mobile_payment ::
  "(string \<Rightarrow> rat \<Rightarrow> string \<Rightarrow> string \<Rightarrow> string \<Rightarrow> 'p \<Rightarrow> payment_intent \<times> 'p) \<Rightarrow> string \<Rightarrow> ctx \<Rightarrow> nat \<Rightarrow> string
    \<Rightarrow> rat option \<Rightarrow> 'a finance_db_scheme \<Rightarrow> 'p \<Rightarrow> (exn + nat \<times> 'a finance_db_scheme) \<times> 'p" where
  "initiate_mobile_payment initiate token c invoice_id payer_ref amount s p =
     (case get_row (invoices s) invoice_id of
        None \<Rightarrow> (Inl DoesNotExist, p)
      | Some i \<Rightarrow>
          let requested = (case amount of None \<Rightarrow> invoice_balance invoice_id i s | Some q \<Rightarrow> q) in
          if requested \<le> 0 then (Inl (DomainError ''nothing_due'' 400), p)
          else let (intent, p') = initiate token requested (inv_currency i) payer_ref (inv_number i) p in
               (store_mobile_payment c invoice_id i requested intent s, p'))"

text \<open>What polling writes for the provider's answer.\<close>

definition settle_mobile_payment ::
  "ctx \<Rightarrow> nat \<Rightarrow> payment \<Rightarrow> payment_status_result \<Rightarrow> 'a finance_db_scheme \<Rightarrow> exn + 'a finance_db_scheme" where
  "settle_mobile_payment c k p result s =
     (case psr_state result of
        PayConfirmed \<Rightarrow> confirm_payment c k p (psr_paid_at result) s
      | PayPending \<Rightarrow> Inr s
      | state \<Rightarrow> save_payment c k p (p\<lparr>pay_status := state\<rparr>)
          (''Provider reports '' @ payment_status_text state @ '': '' @ psr_detail result) s)"

definition poll_mobile_payment ::
  "(ctx \<Rightarrow> string \<Rightarrow> 'p \<Rightarrow> payment_status_result \<times> 'p) \<Rightarrow> ctx \<Rightarrow> nat \<Rightarrow> 'a finance_db_scheme \<Rightarrow> 'p
    \<Rightarrow> (exn + 'a finance_db_scheme) \<times> 'p" where
  "poll_mobile_payment status c k s p =
     (case get_row (payments s) k of
        None \<Rightarrow> (Inl DoesNotExist, p)
      | Some pay \<Rightarrow>
          if pay_status pay \<noteq> PayPending then (Inr s, p)
          else let (result, p') = status c (pay_reference pay) p in (settle_mobile_payment c k pay result s, p'))"

text \<open>
  The webhook, given the event that \<open>verify_callback\<close> returns for the request. The event's
  \<open>value_date\<close> is a date and no \<open>datetime\<close>, so the time of confirmation is the present.
\<close>

definition handle_payment_webhook ::
  "ctx \<Rightarrow> payment_event \<Rightarrow> 'a finance_db_scheme \<Rightarrow> exn + nat option \<times> 'a finance_db_scheme" where
  "handle_payment_webhook c event s =
     (if \<not> pe_verified event \<or> pe_state event \<noteq> PayConfirmed then Inr (None, s)
      else case first_row (\<lambda>_ p. pay_reference p = pe_reference event \<and> pay_status p = PayPending) (payments s) of
          None \<Rightarrow> Inr (None, s)
        | Some (k, p) \<Rightarrow> bindE (confirm_payment c k p None s) (\<lambda>s'. Inr (Some k, s')))"

section \<open>Scholarships and refunds\<close>

definition create_scholarship ::
  "ctx \<Rightarrow> scholarship \<Rightarrow> string option \<Rightarrow> 'a finance_db_scheme \<Rightarrow> exn + nat \<times> 'a finance_db_scheme" where
  "create_scholarship c data currency s =
     (let x = data\<lparr>sch_currency := (case currency of Some cur \<Rightarrow> if cur = [] then base_currency c s else cur
                                    | None \<Rightarrow> base_currency c s),
                   sch_is_active := True\<rparr>
      in bindE (scholarship_full_clean None x s) (\<lambda>_.
           insert_audited c scholarship_meta scholarship_audit scholarships put_scholarships x ''Scholarship recorded'' s))"

definition update_scholarship ::
  "ctx \<Rightarrow> nat \<Rightarrow> rat option \<Rightarrow> rat option \<Rightarrow> bool option \<Rightarrow> 'a finance_db_scheme \<Rightarrow> exn + 'a finance_db_scheme" where
  "update_scholarship c k percentage fixed_amount is_active s =
     (case get_row (scholarships s) k of
        None \<Rightarrow> Inl DoesNotExist
      | Some x \<Rightarrow>
          let x' = x\<lparr>sch_percentage := (if percentage = None then sch_percentage x else percentage),
                     sch_fixed_amount := (if fixed_amount = None then sch_fixed_amount x else fixed_amount),
                     sch_is_active := (case is_active of None \<Rightarrow> sch_is_active x | Some b \<Rightarrow> b)\<rparr>
          in bindE (scholarship_full_clean (Some k) x' s) (\<lambda>_.
               update_audited c scholarship_meta scholarship_audit scholarships put_scholarships k x x'
                 ''Scholarship updated'' s))"

definition claims_on :: "nat \<Rightarrow> nat \<Rightarrow> refund \<Rightarrow> bool" where
  "claims_on k j r \<longleftrightarrow> rf_payment r = k \<and> rf_status r \<noteq> Ref_Rejected"

definition already_claimed :: "nat \<Rightarrow> refund table \<Rightarrow> rat" where
  "already_claimed k t = sum_rows (claims_on k) rf_amount t"

definition request_refund ::
  "ctx \<Rightarrow> nat \<Rightarrow> rat \<Rightarrow> string \<Rightarrow> user option \<Rightarrow> 'a finance_db_scheme \<Rightarrow> exn + nat \<times> 'a finance_db_scheme" where
  "request_refund c k amount reason actor s =
     (if \<not> nonblank reason then Inl ReasonRequired
      else case get_row (payments s) k of
          None \<Rightarrow> Inl DoesNotExist
        | Some p \<Rightarrow>
            if pay_status p \<noteq> PayConfirmed then Inl PaymentNotConfirmed
            else if pay_amount p - already_claimed k (refunds s) < amount then Inl RefundExceedsPayment
            else let r = \<lparr>rf_payment = k, rf_amount = amount, rf_currency = pay_currency p, rf_reason = reason,
                          rf_status = Ref_Requested, rf_requested_by = actor_fk actor, rf_decided_by = None,
                          rf_decision_notes = [], rf_decided_at = None, rf_paid_at = None\<rparr>
                 in bindE (refund_full_clean r s) (\<lambda>_.
                      insert_audited c refund_meta refund_audit refunds put_refunds r ''Refund requested'' s))"

definition decide_refund ::
  "ctx \<Rightarrow> nat \<Rightarrow> bool \<Rightarrow> user \<Rightarrow> string \<Rightarrow> 'a finance_db_scheme \<Rightarrow> exn + 'a finance_db_scheme" where
  "decide_refund c k approve actor notes s =
     (case get_row (refunds s) k of
        None \<Rightarrow> Inl DoesNotExist
      | Some r \<Rightarrow>
          if \<not> nonblank notes then Inl ReasonRequired
          else if rf_status r \<noteq> Ref_Requested then Inl InvalidRefundTransition
          else let r' = r\<lparr>rf_status := (if approve then Ref_Approved else Ref_Rejected),
                          rf_decided_by := Some (user_pk actor), rf_decision_notes := notes,
                          rf_decided_at := Some (now c)\<rparr>
               in bindE (refund_full_clean r' s) (\<lambda>_.
                    update_audited c refund_meta refund_audit refunds put_refunds k r r'
                      (''Refund '' @ refund_status_text (rf_status r') @ '': '' @ notes) s))"

definition mark_refund_paid :: "ctx \<Rightarrow> nat \<Rightarrow> 'a finance_db_scheme \<Rightarrow> exn + 'a finance_db_scheme" where
  "mark_refund_paid c k s =
     (case get_row (refunds s) k of
        None \<Rightarrow> Inl DoesNotExist
      | Some r \<Rightarrow>
          if rf_status r \<noteq> Ref_Approved then Inl InvalidRefundTransition
          else let r' = r\<lparr>rf_status := Ref_Paid, rf_paid_at := Some (now c)\<rparr>
               in bindE (refund_full_clean r' s) (\<lambda>_.
                    update_audited c refund_meta refund_audit refunds put_refunds k r r' ''Refund paid out'' s))"

section \<open>Balances, reports and the hold\<close>

definition is_open :: "invoice \<Rightarrow> bool" where
  "is_open i \<longleftrightarrow> inv_status i \<in> {Inv_Issued, Inv_Partially_Paid}"

definition open_balance :: "(invoice \<Rightarrow> bool) \<Rightarrow> 'a finance_db_scheme \<Rightarrow> rat" where
  "open_balance P s = sum_list (map (\<lambda>(k, i). invoice_balance k i s) (filter_rows (\<lambda>_ i. P i \<and> is_open i) (invoices s)))"

definition fee_balance_for_student :: "nat \<Rightarrow> 'a finance_db_scheme \<Rightarrow> rat" where
  "fee_balance_for_student student s = open_balance (\<lambda>i. inv_student i = student) s"

record revenue_report =
  rev_total_invoiced :: rat
  rev_total_discount :: rat
  rev_net_billed :: rat
  rev_collected :: rat
  rev_outstanding :: rat

definition in_year :: "nat option \<Rightarrow> 'a finance_db_scheme \<Rightarrow> invoice \<Rightarrow> bool" where
  "in_year year s i = (case year of None \<Rightarrow> True
     | Some y \<Rightarrow> (case get_row (semesters s) (inv_semester i) of None \<Rightarrow> False | Some r \<Rightarrow> sem_academic_year r = y))"

definition revenue_summary :: "nat option \<Rightarrow> 'a finance_db_scheme \<Rightarrow> revenue_report" where
  "revenue_summary year s =
     (let invoiced = sum_rows (\<lambda>_. in_year year s) inv_amount (invoices s);
          discount = sum_rows (\<lambda>_. in_year year s) inv_discount (invoices s);
          net = invoiced - discount;
          outstanding = open_balance (in_year year s) s
      in \<lparr>rev_total_invoiced = invoiced, rev_total_discount = discount, rev_net_billed = net,
          rev_collected = net - outstanding, rev_outstanding = outstanding\<rparr>)"

record defaulter_row =
  df_invoice_id :: nat
  df_invoice_number :: string
  df_student_id :: nat
  df_student_number :: string
  df_student_name :: string
  df_semester_id :: nat
  df_balance :: rat
  df_currency :: string
  df_due_date :: int
  df_days_overdue :: int

text \<open>One row per open invoice that carries a balance, the newest invoice first.\<close>

definition defaulter_report :: "ctx \<Rightarrow> nat option \<Rightarrow> 'a finance_db_scheme \<Rightarrow> defaulter_row list" where
  "defaulter_report c semester s =
     map (\<lambda>(k, i).
         let st = (case get_row (students s) (inv_student i) of None \<Rightarrow> blank_student | Some st \<Rightarrow> st) in
         \<lparr>df_invoice_id = k, df_invoice_number = inv_number i, df_student_id = inv_student i,
          df_student_number = st_student_id st, df_student_name = student_full_name st,
          df_semester_id = inv_semester i, df_balance = invoice_balance k i s, df_currency = inv_currency i,
          df_due_date = inv_due_date i, df_days_overdue = max 0 (today c - inv_due_date i)\<rparr>)
       (filter (\<lambda>(k, i). 0 < invoice_balance k i s)
         (rev (filter_rows (\<lambda>_ i. is_open i \<and> (case semester of None \<Rightarrow> True | Some x \<Rightarrow> inv_semester i = x)) (invoices s))))"

definition fee_holds_for :: "'a finance_db_scheme \<Rightarrow> nat \<Rightarrow> exn + hold list" where
  "fee_holds_for s student =
     Inr (if fee_balance_for_student student s \<le> 0 then []
          else [\<lparr>hold_code = ''unpaid_fees'', hold_source = ''finance'', hold_blocking = True\<rparr>])"

definition FeeBalanceHoldProvider :: "'a finance_db_scheme \<Rightarrow> string \<times> hold_source_provider" where
  "FeeBalanceHoldProvider s =
     (''FeeBalanceHoldProvider'', \<lparr>provider_source = ''finance'', holds_for = fee_holds_for s\<rparr>)"

section \<open>The sync handler\<close>

definition PAYMENT_REQUIRED_FIELDS :: "string list" where
  "PAYMENT_REQUIRED_FIELDS = [''invoice_id'', ''method'', ''amount'', ''reference'']"

definition MANUAL_METHODS :: "payment_method list" where
  "MANUAL_METHODS = [Cash, Cheque, Bank_Slip]"

definition manual_method :: "pyval \<Rightarrow> payment_method option" where
  "manual_method v = find (\<lambda>m. v = VStr (payment_method_text m)) MANUAL_METHODS"

definition payment_result :: "nat \<Rightarrow> payment \<Rightarrow> sync_result" where
  "payment_result k p =
     \<lparr>sr_fields = [(''id'', VInt (int k)), (''status'', VStr (payment_status_text (pay_status p)))], sr_overwrote = [],
      sr_target = Some (payment_meta, k)\<rparr>"

text \<open>
  Comparing the stored amount with a signalling value is an error of its own. Notes that are an explicit null
  and amounts that are not finite or written with more than two places fail the validation of the row, after the invoice was found.
\<close>

definition manual_payment_apply ::
  "ctx \<Rightarrow> sync_input \<Rightarrow> user \<Rightarrow> 'a finance_db_scheme \<Rightarrow> exn + sync_result \<times> 'a finance_db_scheme" where
  "manual_payment_apply c op actor s =
     (let p = in_payload op in
      if list_ex (payload_missing p) PAYMENT_REQUIRED_FIELDS then Inl ValidationError
      else case manual_method (payload_get p ''method'') of
        None \<Rightarrow> Inl ValidationError
      | Some meth \<Rightarrow>
          bindE (payload_decimal (payload_get p ''amount'')) (\<lambda>amount.
          bindE (payload_text [] (payload_get p ''reference'')) (\<lambda>reference.
          case first_row (\<lambda>_ y. pay_reference y = reference) (payments s) of
            Some (k, y) \<Rightarrow>
              if amount = NonFinite \<and> decimal_signals (payload_get p ''amount'') then Inl UnexpectedError
              else if amount \<noteq> Finite (pay_amount y) \<or> pay_method y \<noteq> meth
              then Inl (SyncConflictDetected ''amount''
                     (VStr (str_decimal (pay_amount y) @ '' ('' @ payment_method_text (pay_method y) @ '')''))
                     (VStr (decimal_shown (payload_get p ''amount'') @ '' ('' @ payment_method_text meth @ '')''))
                     (Some (pay_updated_at y)) (Some (mm_label payment_meta, k)))
              else Inr (payment_result k y, s)
          | None \<Rightarrow>
              bindE (py_key (payload_get p ''invoice_id'')) (\<lambda>invoice_id.
              bindE (payload_text [] (payload_get p ''notes'')) (\<lambda>notes.
              case amount of
                NonFinite \<Rightarrow> Inl (if get_row (invoices s) invoice_id = None then DoesNotExist else ValidationError)
              | Finite q \<Rightarrow>
                  if map_of p ''notes'' = Some VNone \<or> \<not> decimal_fits (payload_get p ''amount'')
                  then Inl (if get_row (invoices s) invoice_id = None then DoesNotExist else ValidationError)
                  else bindE (record_manual_payment c invoice_id meth q reference (Some actor) notes s) (\<lambda>(k, s').
                    case get_row (payments s') k of
                      None \<Rightarrow> Inl UnexpectedError
                    | Some y \<Rightarrow> Inr (payment_result k y, s')))))))"

definition ManualPaymentHandler :: "ctx \<Rightarrow> 'a finance_db_scheme sync_handler" where
  "ManualPaymentHandler c =
     \<lparr>sh_entity = ''finance.payment'', sh_actions = [''create''], sh_policy = FlagForReview,
      sh_required_permission = ''finance.add_payment'', sh_apply = manual_payment_apply c\<rparr>"

end
