(* ===== verification/Finance_Ledger.thy ===== *)
theory Finance_Ledger
  imports Finance
begin

text \<open>
  What the operations of \<open>Finance\<close> guarantee. \<open>finance_effect\<close> abstracts every operation to what
  it may do to invoices, payments and refunds; the invariants of the ledger, the status
  machines of payments and refunds and the bounds are proved on that abstraction.
\<close>

section \<open>What the operations write\<close>

lemma receipt_number_state:
  "generate_receipt_number y s = (r, s1) \<Longrightarrow> s1 = s\<lparr>id_sequences := id_sequences s1\<rparr>"
  by (auto simp: generate_receipt_number_def Let_def allocate_def split_beta)

lemma invoice_number_state:
  "generate_invoice_number y s = (r, s1) \<Longrightarrow> s1 = s\<lparr>id_sequences := id_sequences s1\<rparr>"
  by (auto simp: generate_invoice_number_def Let_def allocate_def split_beta)

lemma insert_payment_Inr:
  assumes "insert_payment c p reason s = Inr (k, s')"
  obtains tr where "s' = s\<lparr>payments := add_row p (payments s), audit_log := tr\<rparr>" and "k = fresh_pk (payments s)"
    and "audit_ext (audit_log s) tr" and "payment_full_clean None p s = Inr ()"
  using assms unfolding insert_payment_def
  by (elim bindE_InrE insert_audited_Inr) (rule that, auto)

lemma save_payment_Inr:
  assumes "save_payment c k old p reason s = Inr s'"
  obtains tr where "s' = s\<lparr>payments := put_row k (p\<lparr>pay_updated_at := now c\<rparr>) (payments s), audit_log := tr\<rparr>"
    and "audit_ext (audit_log s) tr" and "payment_full_clean (Some k) p s = Inr ()"
  using assms unfolding save_payment_def
  by (elim bindE_InrE update_audited_Inr) (rule that, auto)

text \<open>The status of an invoice agrees with its balance.\<close>

definition fresh_status :: "nat \<Rightarrow> invoice \<Rightarrow> 'a finance_db_scheme \<Rightarrow> bool" where
  "fresh_status k i s \<longleftrightarrow> inv_status i \<in> {Inv_Cancelled, Inv_Written_Off} \<or>
     inv_status i = status_for_balance (invoice_balance k i s) (net_amount i)"

definition restatus :: "nat \<Rightarrow> invoice table \<Rightarrow> invoice table \<Rightarrow> bool" where
  "restatus k t t' \<longleftrightarrow> (\<exists>i st. get_row t k = Some i \<and> (t' = t \<and> st = inv_status i \<or> t' = put_row k (i\<lparr>inv_status := st\<rparr>) t))"

lemma net_amount_status [simp]: "net_amount (i\<lparr>inv_status := st\<rparr>) = net_amount i"
  by (simp add: net_amount_def)

lemma refresh_Inr:
  assumes "refresh_invoice_status c k s = Inr s'"
  obtains i st tr where "get_row (invoices s) k = Some i" and "get_row (invoices s') k = Some (i\<lparr>inv_status := st\<rparr>)"
    and "fresh_status k (i\<lparr>inv_status := st\<rparr>) s'" and "restatus k (invoices s) (invoices s')"
    and "s' = s\<lparr>invoices := invoices s', audit_log := tr\<rparr>" and "audit_ext (audit_log s) tr"
proof -
  from assms obtain i where i: "get_row (invoices s) k = Some i"
    by (auto simp: refresh_invoice_status_def split: option.splits)
  let ?new = "status_for_balance (invoice_balance k i s) (net_amount i)"
  show thesis
  proof (cases "inv_status i \<in> {Inv_Cancelled, Inv_Written_Off} \<or> ?new = inv_status i")
    case True
    with assms i have s': "s' = s" by (simp add: refresh_invoice_status_def Let_def)
    show thesis
      by (rule that [of i "inv_status i" "audit_log s"])
        (use i True in \<open>auto simp: s' fresh_status_def restatus_def\<close>)
  next
    case False
    with assms i obtain reason where
      "update_audited c invoice_meta invoice_audit invoices put_invoices k i (i\<lparr>inv_status := ?new\<rparr>) reason s = Inr s'"
      by (auto simp: refresh_invoice_status_def Let_def)
    then obtain tr where s': "s' = s\<lparr>invoices := put_row k (i\<lparr>inv_status := ?new\<rparr>) (invoices s), audit_log := tr\<rparr>"
      "audit_ext (audit_log s) tr" by (elim update_audited_Inr) auto
    then show thesis
      by (intro that [of i ?new tr])
        (use i in \<open>auto simp: get_put_row fresh_status_def restatus_def invoice_balance_def net_amount_def\<close>)
  qed
qed

text \<open>Confirming writes the payment and then the status of its invoice.\<close>

definition confirmed_row :: "payment \<Rightarrow> payment \<Rightarrow> bool" where
  "confirmed_row p p' \<longleftrightarrow> (\<exists>t receipt u. p' = p\<lparr>pay_status := PayConfirmed, pay_confirmed_at := Some t,
     pay_receipt_number := Some receipt, pay_updated_at := u\<rparr>)"

lemma confirm_payment_Inr:
  assumes "confirm_payment c k p paid_at s = Inr s'"
  obtains p' i st seqs tr where "confirmed_row p p'" and "payment_full_clean (Some k) p' (s\<lparr>id_sequences := seqs\<rparr>) = Inr ()"
    and "pay_confirmed_at p' = Some (case paid_at of None \<Rightarrow> now c | Some t \<Rightarrow> t)"
    and "s' = s\<lparr>id_sequences := seqs, payments := put_row k p' (payments s), invoices := invoices s', audit_log := tr\<rparr>"
    and "get_row (invoices s') (pay_invoice p) = Some (i\<lparr>inv_status := st\<rparr>)"
    and "fresh_status (pay_invoice p) (i\<lparr>inv_status := st\<rparr>) s'" and "restatus (pay_invoice p) (invoices s) (invoices s')"
    and "audit_ext (audit_log s) tr"
proof -
  from assms obtain i0 where "get_row (invoices s) (pay_invoice p) = Some i0"
    by (auto simp: confirm_payment_def split: option.splits)
  with assms obtain name receipt s1 s2 where gen: "generate_receipt_number name s = (receipt, s1)"
    and sv: "save_payment c k p (p\<lparr>pay_status := PayConfirmed,
                        pay_confirmed_at := Some (case paid_at of None \<Rightarrow> now c | Some t \<Rightarrow> t),
                        pay_receipt_number := Some receipt\<rparr>) (''Payment confirmed; receipt '' @ receipt) s1 = Inr s2"
    and rf: "refresh_invoice_status c (pay_invoice p) s2 = Inr s'"
    unfolding confirm_payment_def Let_def by (auto elim!: bindE_InrE split: prod.splits)
  obtain seqs where s1: "s1 = s\<lparr>id_sequences := seqs\<rparr>" using receipt_number_state [OF gen] by blast
  define p' where "p' = p\<lparr>pay_status := PayConfirmed,
      pay_confirmed_at := Some (case paid_at of None \<Rightarrow> now c | Some t \<Rightarrow> t), pay_receipt_number := Some receipt,
      pay_updated_at := now c\<rparr>"
  from sv obtain tr1 where s2: "s2 = s1\<lparr>payments := put_row k p' (payments s1), audit_log := tr1\<rparr>" "audit_ext (audit_log s1) tr1"
    and clean: "payment_full_clean (Some k) (p\<lparr>pay_status := PayConfirmed,
      pay_confirmed_at := Some (case paid_at of None \<Rightarrow> now c | Some t \<Rightarrow> t), pay_receipt_number := Some receipt\<rparr>) s1 = Inr ()"
    by (elim save_payment_Inr) (simp add: p'_def)
  from clean have clean': "payment_full_clean (Some k) p' (s\<lparr>id_sequences := seqs\<rparr>) = Inr ()"
    by (simp add: payment_full_clean_def p'_def s1 payment_clash_def [abs_def])
  have row: "confirmed_row p p'" by (auto simp: confirmed_row_def p'_def)
  from rf show thesis
  proof (rule refresh_Inr)
    fix i st tr
    assume "get_row (invoices s2) (pay_invoice p) = Some i"
      and st: "get_row (invoices s') (pay_invoice p) = Some (i\<lparr>inv_status := st\<rparr>)"
      "fresh_status (pay_invoice p) (i\<lparr>inv_status := st\<rparr>) s'" "restatus (pay_invoice p) (invoices s2) (invoices s')"
      and s': "s' = s2\<lparr>invoices := invoices s', audit_log := tr\<rparr>" "audit_ext (audit_log s2) tr"
    have "s' = s\<lparr>id_sequences := seqs, payments := put_row k p' (payments s), invoices := invoices s', audit_log := tr\<rparr>"
      using s'(1) by (simp add: s2 s1)
    moreover have "audit_ext (audit_log s) tr"
      using s2(2) s'(2) by (auto simp: s2 s1 intro: audit_ext_trans)
    moreover have "restatus (pay_invoice p) (invoices s) (invoices s')" using st(3) by (simp add: s2 s1)
    ultimately show thesis using that [OF row clean' _ _ st(1,2)] by (simp add: p'_def)
  qed
qed

lemma generate_invoice_Inr:
  assumes "generate_invoice c student semester_id due_date actor s = Inr (k, s')"
  obtains i seqs tr semester programme level residency fs fstr discount where
    "\<not> exists_row (\<lambda>_ i. inv_student i = student \<and> inv_semester i = semester_id) (invoices s)"
    and "get_semester semester_id s = Inr semester" and "get_programme_id student s = Inr programme"
    and "current_level_for_student student s = Inr level" and "residency_for_student student s = Inr residency"
    and "applicable_fee_structure programme (sem_academic_year semester) level residency s = Inr (fs, fstr)"
    and "scholarship_discount student (sem_academic_year semester) (fs_amount fstr) s = Inr discount"
    and "s' = s\<lparr>id_sequences := seqs, invoices := add_row i (invoices s), audit_log := tr\<rparr>"
    and "k = fresh_pk (invoices s)" and "audit_ext (audit_log s) tr"
    and "invoice_full_clean None i (s\<lparr>id_sequences := seqs\<rparr>) = Inr ()"
    and "inv_student i = student" and "inv_semester i = semester_id" and "inv_status i = Inv_Issued"
    and "inv_amount i = fs_amount fstr + fee_for_active_allocation c student (sem_academic_year semester) s"
    and "inv_discount i = discount" and "inv_currency i = fs_currency fstr" and "inv_fee_structure i = Some fs"
proof -
  from assms have none: "\<not> exists_row (\<lambda>_ i. inv_student i = student \<and> inv_semester i = semester_id) (invoices s)"
    by (auto simp: generate_invoice_def split: if_splits)
  with assms obtain semester programme level residency fs fstr discount name number s1 where
    1: "get_semester semester_id s = Inr semester" "get_programme_id student s = Inr programme"
      "current_level_for_student student s = Inr level" "residency_for_student student s = Inr residency"
      "applicable_fee_structure programme (sem_academic_year semester) level residency s = Inr (fs, fstr)"
      "scholarship_discount student (sem_academic_year semester) (fs_amount fstr) s = Inr discount"
    and gen: "generate_invoice_number name s = (number, s1)"
    and r: "bindE (invoice_full_clean None
         \<lparr>inv_student = student, inv_semester = semester_id, inv_fee_structure = Some fs,
          inv_number = number, inv_amount = fs_amount fstr + fee_for_active_allocation c student (sem_academic_year semester) s,
          inv_discount = discount, inv_currency = fs_currency fstr, inv_status = Inv_Issued,
          inv_due_date = (case due_date of None \<Rightarrow> sem_teaching_end semester | Some d \<Rightarrow> d),
          inv_issued_by = actor_fk actor\<rparr> s1)
       (\<lambda>_. insert_audited c invoice_meta invoice_audit invoices put_invoices
         \<lparr>inv_student = student, inv_semester = semester_id, inv_fee_structure = Some fs,
          inv_number = number, inv_amount = fs_amount fstr + fee_for_active_allocation c student (sem_academic_year semester) s,
          inv_discount = discount, inv_currency = fs_currency fstr, inv_status = Inv_Issued,
          inv_due_date = (case due_date of None \<Rightarrow> sem_teaching_end semester | Some d \<Rightarrow> d),
          inv_issued_by = actor_fk actor\<rparr> ''Invoice issued'' s1) = Inr (k, s')"
      (is "bindE (invoice_full_clean None ?i s1) _ = _")
    unfolding generate_invoice_def Let_def by (auto elim!: bindE_InrE bindE_pairE split: prod.splits)
  obtain seqs where s1: "s1 = s\<lparr>id_sequences := seqs\<rparr>" using invoice_number_state [OF gen] by blast
  from r have clean: "invoice_full_clean None ?i (s\<lparr>id_sequences := seqs\<rparr>) = Inr ()"
    and ins: "insert_audited c invoice_meta invoice_audit invoices put_invoices ?i ''Invoice issued'' s1 = Inr (k, s')"
    by (auto simp: s1 elim!: bindE_InrE)
  from ins obtain tr where "s' = s\<lparr>id_sequences := seqs, invoices := add_row ?i (invoices s), audit_log := tr\<rparr>"
    "k = fresh_pk (invoices s)" "audit_ext (audit_log s) tr" by (elim insert_audited_Inr) (simp add: s1)
  with none 1 clean show thesis using that [where i = ?i and seqs = seqs and tr = tr and semester = semester and fs = fs and fstr = fstr] by simp
qed

section \<open>The effect of one operation\<close>

fun payment_transitions :: "payment_status \<Rightarrow> payment_status list" where
  "payment_transitions PayPending = [PayConfirmed, PayFailed, PayCancelled]"
| "payment_transitions _ = []"

fun refund_transitions :: "refund_status \<Rightarrow> refund_status list" where
  "refund_transitions Ref_Requested = [Ref_Approved, Ref_Rejected]"
| "refund_transitions Ref_Approved = [Ref_Paid]"
| "refund_transitions _ = []"

definition closed_row :: "payment \<Rightarrow> payment \<Rightarrow> bool" where
  "closed_row p p' \<longleftrightarrow> (\<exists>st remark u. p' = p\<lparr>pay_status := st, pay_notes := remark, pay_updated_at := u\<rparr> \<and>
     st \<in> {PayFailed, PayCancelled})"

inductive finance_effect :: "'a finance_db_scheme \<Rightarrow> 'a finance_db_scheme \<Rightarrow> bool" where
  same: "invoices s' = invoices s \<Longrightarrow> payments s' = payments s \<Longrightarrow> refunds s' = refunds s \<Longrightarrow> finance_effect s s'"
| invoiced: "invoices s' = add_row i (invoices s) \<Longrightarrow> \<not> exists_row (invoice_clash None i) (invoices s) \<Longrightarrow>
    inv_status i = Inv_Issued \<Longrightarrow> inv_discount i \<le> inv_amount i \<Longrightarrow>
    payments s' = payments s \<Longrightarrow> refunds s' = refunds s \<Longrightarrow> finance_effect s s'"
| recorded: "payments s' = add_row p (payments s) \<Longrightarrow> pay_status p = PayPending \<Longrightarrow> pay_receipt_number p = None \<Longrightarrow>
    get_row (invoices s) (pay_invoice p) \<noteq> None \<Longrightarrow> \<not> exists_row (payment_clash None p) (payments s) \<Longrightarrow>
    invoices s' = invoices s \<Longrightarrow> refunds s' = refunds s \<Longrightarrow> finance_effect s s'"
| closed: "get_row (payments s) k = Some p \<Longrightarrow> pay_status p = PayPending \<Longrightarrow> payments s' = put_row k p' (payments s) \<Longrightarrow>
    closed_row p p' \<Longrightarrow> invoices s' = invoices s \<Longrightarrow> refunds s' = refunds s \<Longrightarrow> finance_effect s s'"
| confirmed: "get_row (payments s) k = Some p \<Longrightarrow> pay_status p = PayPending \<Longrightarrow> payments s' = put_row k p' (payments s) \<Longrightarrow>
    confirmed_row p p' \<Longrightarrow> \<not> exists_row (payment_clash (Some k) p') (payments s) \<Longrightarrow>
    restatus (pay_invoice p) (invoices s) (invoices s') \<Longrightarrow> get_row (invoices s') (pay_invoice p) = Some i \<Longrightarrow>
    fresh_status (pay_invoice p) i s' \<Longrightarrow> refunds s' = refunds s \<Longrightarrow> finance_effect s s'"
| requested: "get_row (payments s) (rf_payment r) = Some p \<Longrightarrow> pay_status p = PayConfirmed \<Longrightarrow>
    rf_amount r \<le> pay_amount p - already_claimed (rf_payment r) (refunds s) \<Longrightarrow> rf_status r = Ref_Requested \<Longrightarrow>
    refunds s' = add_row r (refunds s) \<Longrightarrow> invoices s' = invoices s \<Longrightarrow> payments s' = payments s \<Longrightarrow> finance_effect s s'"
| decided: "get_row (refunds s) k = Some r \<Longrightarrow> refunds s' = put_row k r' (refunds s) \<Longrightarrow>
    rf_payment r' = rf_payment r \<Longrightarrow> rf_amount r' = rf_amount r \<Longrightarrow>
    rf_status r' \<in> set (refund_transitions (rf_status r)) \<Longrightarrow> invoices s' = invoices s \<Longrightarrow> payments s' = payments s \<Longrightarrow>
    finance_effect s s'"

text \<open>Every operation of the module, and of the modules below it.\<close>

inductive finance_step :: "'a finance_db_scheme \<Rightarrow> 'a finance_db_scheme \<Rightarrow> bool" where
  NewFee: "create_fee_structure c programme year level residency amount currency s = Inr (k, s') \<Longrightarrow> finance_step s s'"
| EditFee: "update_fee_structure c k new_amount active s = Inr s' \<Longrightarrow> finance_step s s'"
| Invoice: "generate_invoice c student semester due actor s = Inr (k, s') \<Longrightarrow> finance_step s s'"
| Manual: "record_manual_payment c invoice_id meth amount reference actor remark s = Inr (k, s') \<Longrightarrow> finance_step s s'"
| Confirm: "confirm_manual_payment c k s = Inr s' \<Longrightarrow> finance_step s s'"
| Reject: "reject_manual_payment c k reason s = Inr s' \<Longrightarrow> finance_step s s'"
| Mobile: "get_row (invoices s) j = Some i \<Longrightarrow> store_mobile_payment c j i requested intent s = Inr (k, s') \<Longrightarrow> finance_step s s'"
| Poll: "get_row (payments s) k = Some p \<Longrightarrow> pay_status p = PayPending \<Longrightarrow>
    settle_mobile_payment c k p result s = Inr s' \<Longrightarrow> finance_step s s'"
| Webhook: "handle_payment_webhook c event s = Inr (m, s') \<Longrightarrow> finance_step s s'"
| NewScholarship: "create_scholarship c data currency s = Inr (k, s') \<Longrightarrow> finance_step s s'"
| EditScholarship: "update_scholarship c k percentage fixed active s = Inr s' \<Longrightarrow> finance_step s s'"
| Request: "request_refund c pk amount reason actor s = Inr (k, s') \<Longrightarrow> finance_step s s'"
| Decide: "decide_refund c k approve u remark s = Inr s' \<Longrightarrow> finance_step s s'"
| PaidOut: "mark_refund_paid c k s = Inr s' \<Longrightarrow> finance_step s s'"
| Hostel: "hostel_step s s' \<Longrightarrow> finance_step s s'"

lemma enrollment_step_hostel_more: "enrollment_step s s' \<Longrightarrow> hostel_db.more s' = hostel_db.more s"
  using enrollment_step_more [of s s'] by (cases s; cases s') simp

lemma hostel_step_more: "hostel_step s s' \<Longrightarrow> hostel_db.more s' = hostel_db.more s"
proof (induction rule: hostel_step.induct)
  case (Enrollment s s')
  then show ?case by (rule enrollment_step_hostel_more)
qed (auto elim!: create_room_Inr update_room_Inr allocate_room_Inr vacate_allocation_Inr)

lemma hostel_step_finance:
  "hostel_step s s' \<Longrightarrow> invoices s' = invoices s \<and> payments s' = payments s \<and> refunds s' = refunds s"
  using hostel_step_more [of s s'] by (cases s; cases s') simp

lemma confirm_effect:
  assumes "confirm_payment c k p paid_at s = Inr s'" and "get_row (payments s) k = Some p" and "pay_status p = PayPending"
  shows "finance_effect s s'"
  using assms(1)
proof (rule confirm_payment_Inr)
  fix p' i st seqs tr
  assume p': "confirmed_row p p'" "payment_full_clean (Some k) p' (s\<lparr>id_sequences := seqs\<rparr>) = Inr ()"
    and s': "s' = s\<lparr>id_sequences := seqs, payments := put_row k p' (payments s), invoices := invoices s', audit_log := tr\<rparr>"
    and i: "get_row (invoices s') (pay_invoice p) = Some (i\<lparr>inv_status := st\<rparr>)"
      "fresh_status (pay_invoice p) (i\<lparr>inv_status := st\<rparr>) s'" "restatus (pay_invoice p) (invoices s) (invoices s')"
  have "\<not> exists_row (payment_clash (Some k) p') (payments s)" "payments s' = put_row k p' (payments s)" "refunds s' = refunds s"
    using p'(2) by (simp_all add: payment_full_clean_def ensure_eq_Inr) (subst s', simp)+
  with assms(2,3) p'(1) i show ?thesis by (intro finance_effect.confirmed)
qed

lemma recorded_effect:
  assumes "insert_payment c p reason s = Inr (k, s')" and "pay_status p = PayPending" and "pay_receipt_number p = None"
  shows "finance_effect s s' \<and> get_row (payments s') k = Some p"
  using assms(1)
  by (elim insert_payment_Inr)
    (auto simp: payment_full_clean_def ensure_eq_Inr get_add_row assms intro: finance_effect.recorded)

lemma closed_effect:
  assumes "save_payment c k p p' reason s = Inr s'" and "get_row (payments s) k = Some p" and "pay_status p = PayPending"
    and "p' = p\<lparr>pay_status := st, pay_notes := remark\<rparr>" and "st \<in> {PayFailed, PayCancelled}"
  shows "finance_effect s s'"
  using assms(1)
  by (elim save_payment_Inr)
    (rule finance_effect.closed [OF assms(2,3)], use assms(5) in \<open>auto simp: closed_row_def assms(4)\<close>)

lemma decided_effect:
  assumes "update_audited c refund_meta refund_audit refunds put_refunds k r r' reason s = Inr s'"
    and "get_row (refunds s) k = Some r" and "rf_payment r' = rf_payment r" and "rf_amount r' = rf_amount r"
    and "rf_status r' \<in> set (refund_transitions (rf_status r))"
  shows "finance_effect s s'"
  using assms(1) by (elim update_audited_Inr) (rule finance_effect.decided [OF assms(2) _ assms(3-5)], simp_all)

lemma record_manual_payment_Inr:
  assumes "record_manual_payment c invoice_id meth amount reference actor remark s = Inr (k, s')"
  obtains i p s1 where "get_row (invoices s) invoice_id = Some i" and "meth \<noteq> Mobile_Money"
    and "p = (new_payment c invoice_id i meth amount reference)\<lparr>pay_received_by := actor_fk actor, pay_notes := remark\<rparr>"
    and "insert_payment c p (payment_method_text meth @ '' payment recorded'') s = Inr (k, s1)"
    and "meth = Cash \<Longrightarrow> confirm_payment c k p None s1 = Inr s'" and "meth \<noteq> Cash \<Longrightarrow> s' = s1"
proof -
  from assms obtain i where i: "get_row (invoices s) invoice_id = Some i" "meth \<noteq> Mobile_Money"
    by (auto simp: record_manual_payment_def split: if_splits option.splits)
  with assms show thesis
    unfolding record_manual_payment_def Let_def
    by (auto elim!: bindE_pairE bindE_InrE split: if_splits intro: that [OF i refl])
qed

lemma manual_effect:
  assumes "record_manual_payment c invoice_id meth amount reference actor remark s = Inr (k, s')"
  shows "finance_effect\<^sup>*\<^sup>* s s'"
  using assms
proof (rule record_manual_payment_Inr)
  fix i p s1
  assume p: "p = (new_payment c invoice_id i meth amount reference)\<lparr>pay_received_by := actor_fk actor, pay_notes := remark\<rparr>"
    and ins: "insert_payment c p (payment_method_text meth @ '' payment recorded'') s = Inr (k, s1)"
    and cash: "meth = Cash \<Longrightarrow> confirm_payment c k p None s1 = Inr s'" and other: "meth \<noteq> Cash \<Longrightarrow> s' = s1"
  have pend: "pay_status p = PayPending" "pay_receipt_number p = None" by (simp_all add: p new_payment_def)
  note rec = recorded_effect [OF ins pend]
  show ?thesis
  proof (cases "meth = Cash")
    case True
    from confirm_effect [OF cash [OF True]] rec pend(1) have "finance_effect s1 s'" by blast
    with rec show ?thesis by (meson converse_rtranclp_into_rtranclp r_into_rtranclp)
  next
    case False
    with rec other show ?thesis by auto
  qed
qed

lemma invoice_effect:
  assumes "generate_invoice c student semester due actor s = Inr (k, s')"
  shows "finance_effect s s'"
  using assms
  by (rule generate_invoice_Inr)
    (rule finance_effect.invoiced, auto simp: invoice_full_clean_def ensure_eq_Inr)

lemma payment_settle_effect:
  assumes "settle_mobile_payment c k p result s = Inr s'" and "get_row (payments s) k = Some p" and "pay_status p = PayPending"
  shows "finance_effect s s'"
proof (cases "psr_state result")
  case PayConfirmed
  with assms confirm_effect show ?thesis by (auto simp: settle_mobile_payment_def)
next
  case PayFailed
  with assms show ?thesis
    by (auto simp: settle_mobile_payment_def intro: closed_effect [where st = PayFailed and remark = "pay_notes p"])
next
  case PayCancelled
  with assms show ?thesis
    by (auto simp: settle_mobile_payment_def intro: closed_effect [where st = PayCancelled and remark = "pay_notes p"])
qed (use assms in \<open>auto simp: settle_mobile_payment_def intro: finance_effect.same\<close>)

lemma webhook_effect:
  assumes "handle_payment_webhook c event s = Inr (m, s')" and "wf_table (payments s)"
  shows "finance_effect s s'"
proof (cases "first_row (\<lambda>_ p. pay_reference p = pe_reference event \<and> pay_status p = PayPending) (payments s)")
  case None
  with assms show ?thesis by (auto simp: handle_payment_webhook_def split: if_splits intro: finance_effect.same)
next
  case (Some x)
  obtain k p where x: "x = (k, p)" by (cases x)
  have row: "get_row (payments s) k = Some p" "pay_status p = PayPending"
    using first_row_get [OF assms(2)] first_row_Some Some x by fastforce+
  with assms(1) Some x show ?thesis
    by (auto simp: handle_payment_webhook_def split: if_splits elim!: bindE_InrE
        intro: finance_effect.same confirm_effect)
qed

lemma request_effect:
  assumes "request_refund c pk amount reason actor s = Inr (k, s')"
  shows "finance_effect s s'"
proof -
  from assms obtain p where p: "get_row (payments s) pk = Some p" "pay_status p = PayConfirmed"
    and am: "amount \<le> pay_amount p - already_claimed pk (refunds s)"
    unfolding request_refund_def by (auto split: if_splits option.splits)
  let ?r = "\<lparr>rf_payment = pk, rf_amount = amount, rf_currency = pay_currency p, rf_reason = reason,
    rf_status = Ref_Requested, rf_requested_by = actor_fk actor, rf_decided_by = None, rf_decision_notes = [],
    rf_decided_at = None, rf_paid_at = None\<rparr>"
  from assms p am have "insert_audited c refund_meta refund_audit refunds put_refunds ?r ''Refund requested'' s = Inr (k, s')"
    unfolding request_refund_def Let_def by (auto split: if_splits elim!: bindE_InrE)
  then show ?thesis
    by (elim insert_audited_Inr) (rule finance_effect.requested [where r = ?r], use p am in auto)
qed

lemma finance_step_effects:
  assumes "finance_step s s'" and "wf_table (payments s)"
  shows "finance_effect\<^sup>*\<^sup>* s s'"
  using assms(1)
proof cases
  case (Manual c invoice_id meth amount reference actor remark k)
  then show ?thesis by (rule manual_effect)
next
  case (Invoice c student semester due actor k)
  then show ?thesis using invoice_effect by blast
next
  case (Confirm c k)
  then show ?thesis
    by (auto simp: confirm_manual_payment_def split: option.splits if_splits intro: confirm_effect)
next
  case (Reject c k reason)
  then show ?thesis
    by (auto simp: reject_manual_payment_def split: option.splits if_splits intro: closed_effect [where st = PayFailed])
next
  case (Mobile j i c requested intent k)
  then show ?thesis
    using recorded_effect unfolding store_mobile_payment_def by (fastforce simp: new_payment_def)
next
  case (Poll k p c result)
  then show ?thesis using payment_settle_effect by blast
next
  case (Webhook c event m)
  then show ?thesis using webhook_effect assms(2) by blast
next
  case (Request c pk amount reason actor k)
  then show ?thesis using request_effect by blast
next
  case (Decide c k approve u remark)
  then show ?thesis
    by (auto simp: decide_refund_def Let_def split: option.splits if_splits
        elim!: bindE_InrE dest!: decided_effect)
next
  case (PaidOut c k)
  then show ?thesis
    by (auto simp: mark_refund_paid_def Let_def split: option.splits if_splits
        elim!: bindE_InrE dest!: decided_effect)
next
  case Hostel
  then show ?thesis using hostel_step_finance finance_effect.same by blast
next
  case (NewFee c programme year level residency amount currency k)
  then show ?thesis
    by (auto simp: create_fee_structure_def Let_def elim!: bindE_InrE insert_audited_Inr intro!: r_into_rtranclp finance_effect.same)
next
  case (EditFee c k new_amount active)
  then show ?thesis
    by (auto simp: update_fee_structure_def Let_def split: option.splits
        elim!: bindE_InrE update_audited_Inr intro!: r_into_rtranclp finance_effect.same)
next
  case (NewScholarship c data currency k)
  then show ?thesis
    by (auto simp: create_scholarship_def Let_def elim!: bindE_InrE insert_audited_Inr intro!: r_into_rtranclp finance_effect.same)
next
  case (EditScholarship c k percentage fixed active)
  then show ?thesis
    by (auto simp: update_scholarship_def Let_def split: option.splits
        elim!: bindE_InrE update_audited_Inr intro!: r_into_rtranclp finance_effect.same)
qed

section \<open>Status machines\<close>

definition payment_status_of :: "'a finance_db_scheme \<Rightarrow> nat \<Rightarrow> payment_status option" where
  "payment_status_of s k = map_option pay_status (get_row (payments s) k)"

definition refund_status_of :: "'a finance_db_scheme \<Rightarrow> nat \<Rightarrow> refund_status option" where
  "refund_status_of s k = map_option rf_status (get_row (refunds s) k)"

fun payment_rank :: "payment_status \<Rightarrow> nat" where
  "payment_rank PayPending = 0"
| "payment_rank _ = 1"

fun refund_rank :: "refund_status \<Rightarrow> nat" where
  "refund_rank Ref_Requested = 0"
| "refund_rank Ref_Paid = 2"
| "refund_rank _ = 1"

interpretation payment_machine:
  forward_status_machine payment_status_of payment_transitions finance_effect payment_rank
proof
  fix s s' :: "'a finance_db_scheme" and k x
  assume "finance_effect s s'" and "payment_status_of s k = Some x"
  then show "\<exists>y. payment_status_of s' k = Some y \<and> (y = x \<or> y \<in> set (payment_transitions x))"
    by cases (auto simp: payment_status_of_def get_add_row get_put_row closed_row_def confirmed_row_def)
next
  fix x y assume "y \<in> set (payment_transitions x)"
  then show "payment_rank x < payment_rank y" by (cases x) auto
qed

interpretation refund_machine:
  forward_status_machine refund_status_of refund_transitions finance_effect refund_rank
proof
  fix s s' :: "'a finance_db_scheme" and k x
  assume "finance_effect s s'" and "refund_status_of s k = Some x"
  then show "\<exists>y. refund_status_of s' k = Some y \<and> (y = x \<or> y \<in> set (refund_transitions x))"
    by cases (auto simp: refund_status_of_def get_add_row get_put_row)
next
  fix x y assume "y \<in> set (refund_transitions x)"
  then show "refund_rank x < refund_rank y" by (cases x) auto
qed

section \<open>The invariant of the ledger\<close>

text \<open>
  \<open>invoice_ok\<close>: the discount does not exceed the amount and the status tells the balance;
  a new invoice is issued whatever its balance is.
\<close>

definition invoice_ok :: "'a finance_db_scheme \<Rightarrow> nat \<Rightarrow> invoice \<Rightarrow> bool" where
  "invoice_ok s k i \<longleftrightarrow> inv_discount i \<le> inv_amount i \<and>
     (fresh_status k i s \<or> inv_status i = Inv_Issued \<and> paid_amount k (payments s) = 0)"

definition payment_ok :: "'a finance_db_scheme \<Rightarrow> payment \<Rightarrow> bool" where
  "payment_ok s p \<longleftrightarrow> get_row (invoices s) (pay_invoice p) \<noteq> None \<and>
     (pay_receipt_number p \<noteq> None \<longleftrightarrow> pay_status p = PayConfirmed)"

definition refund_ok :: "'a finance_db_scheme \<Rightarrow> refund \<Rightarrow> bool" where
  "refund_ok s r \<longleftrightarrow> (\<exists>p. get_row (payments s) (rf_payment r) = Some p \<and> pay_status p = PayConfirmed)"

definition ledger_unique :: "'a finance_db_scheme \<Rightarrow> bool" where
  "ledger_unique s \<longleftrightarrow> wf_table (invoices s) \<and> wf_table (payments s) \<and> wf_table (refunds s) \<and>
     unique_on (\<lambda>i. Some (inv_student i, inv_semester i)) (invoices s) \<and> unique_on (\<lambda>i. Some (inv_number i)) (invoices s) \<and>
     unique_on (\<lambda>p. Some (pay_reference p)) (payments s) \<and> unique_on pay_receipt_number (payments s)"

definition ledger_rows_ok :: "'a finance_db_scheme \<Rightarrow> bool" where
  "ledger_rows_ok s \<longleftrightarrow> (\<forall>k i. get_row (invoices s) k = Some i \<longrightarrow> invoice_ok s k i) \<and>
     (\<forall>k p. get_row (payments s) k = Some p \<longrightarrow> payment_ok s p) \<and>
     (\<forall>k r. get_row (refunds s) k = Some r \<longrightarrow> refund_ok s r)"

definition ledger_inv :: "'a finance_db_scheme \<Rightarrow> bool" where
  "ledger_inv s \<longleftrightarrow> ledger_unique s \<and> ledger_rows_ok s"

lemma restatus_same_key:
  assumes "restatus k t t'"
  shows "wf_table t' = wf_table t" and "unique_on (\<lambda>i. Some (inv_student i, inv_semester i)) t \<Longrightarrow>
      unique_on (\<lambda>i. Some (inv_student i, inv_semester i)) t'"
    and "unique_on (\<lambda>i. Some (inv_number i)) t \<Longrightarrow> unique_on (\<lambda>i. Some (inv_number i)) t'"
    and "j \<noteq> k \<Longrightarrow> get_row t' j = get_row t j" and "get_row t' j = None \<longleftrightarrow> get_row t j = None"
  using assms by (auto simp: restatus_def get_put_row intro: unique_on_put_same split: if_splits)

lemma restatus_row:
  "restatus k t t' \<Longrightarrow> get_row t' k = Some i \<Longrightarrow> \<exists>i0. get_row t k = Some i0 \<and> inv_discount i = inv_discount i0 \<and>
     inv_amount i = inv_amount i0"
  by (auto simp: restatus_def get_put_row)

lemma row_clash_free:
  assumes "\<not> exists_row (payment_clash (Some k) p') t" and "get_row t j = Some b" and "j \<noteq> k"
  shows "pay_reference b \<noteq> pay_reference p'" and "pay_receipt_number p' = Some n \<Longrightarrow> pay_receipt_number b \<noteq> Some n"
  using no_clash_unique [OF assms(1,2)] assms(3) by (auto simp: payment_clash_def)

lemma effect_unique:
  assumes "finance_effect s s'" and "ledger_unique s"
  shows "ledger_unique s'"
  using assms(1)
proof cases
  case (invoiced i)
  have "(inv_student b, inv_semester b) \<noteq> (inv_student i, inv_semester i)" "inv_number b \<noteq> inv_number i"
    if "get_row (invoices s) j = Some b" for j b
    using no_clash_unique [OF invoiced(2) that] by (auto simp: invoice_clash_def)
  with assms(2) invoiced show ?thesis by (auto simp: ledger_unique_def intro!: unique_on_add)
next
  case (recorded p)
  have "pay_reference b \<noteq> pay_reference p" if "get_row (payments s) j = Some b" for j b
    using no_clash_unique [OF recorded(5) that] by (auto simp: payment_clash_def)
  with assms(2) recorded show ?thesis by (auto simp: ledger_unique_def intro!: unique_on_add)
next
  case (closed k p p')
  with assms(2) show ?thesis
    by (auto simp: ledger_unique_def closed_row_def intro: unique_on_put_same)
next
  case (confirmed k p p' i)
  have "unique_on (\<lambda>p. Some (pay_reference p)) (payments s')"
    using assms(2) confirmed(1,3,4) by (auto simp: ledger_unique_def confirmed_row_def intro: unique_on_put_same)
  moreover have "unique_on pay_receipt_number (payments s')"
    unfolding confirmed(3)
    by (rule unique_on_put) (use assms(2) row_clash_free(2) [OF confirmed(5)] in \<open>auto simp: ledger_unique_def\<close>)
  ultimately show ?thesis
    using assms(2) confirmed(3,9) restatus_same_key(1-3) [OF confirmed(6)] by (auto simp: ledger_unique_def)
qed (use assms(2) in \<open>auto simp: ledger_unique_def\<close>)

lemma paid_amount_unconfirmed:
  assumes "wf_table t" and "get_row t k = Some p" and "\<not> confirmed_for j 0 p" and "\<not> confirmed_for j 0 p'"
  shows "paid_amount j (put_row k p' t) = paid_amount j t"
  using sum_rows_put_row [OF assms(1,2), of "confirmed_for j" pay_amount p'] assms(3,4)
  by (auto simp: paid_amount_def confirmed_for_def)

lemma paid_amount_pending: "pay_status p \<noteq> PayConfirmed \<Longrightarrow> paid_amount j (add_row p t) = paid_amount j t"
  by (simp add: paid_amount_def sum_rows_add_row confirmed_for_def)

lemma invoice_ok_cong:
  "paid_amount k (payments s') = paid_amount k (payments s) \<Longrightarrow> invoice_ok s' k i = invoice_ok s k i"
  by (simp add: invoice_ok_def fresh_status_def invoice_balance_def)

lemma no_payments_of_fresh_invoice:
  assumes "ledger_rows_ok s" and "wf_table (payments s)"
  shows "paid_amount (fresh_pk (invoices s)) (payments s) = 0"
proof -
  have "\<not> exists_row (confirmed_for (fresh_pk (invoices s))) (payments s)"
  proof
    assume "exists_row (confirmed_for (fresh_pk (invoices s))) (payments s)"
    then obtain j p where "(j, p) \<in> set (payments s)" "pay_invoice p = fresh_pk (invoices s)"
      by (auto simp: exists_row_iff confirmed_for_def)
    with assms show False
      using in_set_get_row [OF assms(2)] by (force simp: ledger_rows_ok_def payment_ok_def)
  qed
  then show ?thesis by (simp add: paid_amount_def sum_rows_absent)
qed

lemma ledger_rows_okI:
  assumes "\<And>k i. get_row (invoices s) k = Some i \<Longrightarrow> invoice_ok s k i"
    and "\<And>k p. get_row (payments s) k = Some p \<Longrightarrow> payment_ok s p"
    and "\<And>k r. get_row (refunds s) k = Some r \<Longrightarrow> refund_ok s r"
  shows "ledger_rows_ok s"
  using assms by (simp add: ledger_rows_ok_def)

lemma ledger_rows_okD:
  assumes "ledger_rows_ok s"
  shows "get_row (invoices s) k = Some i \<Longrightarrow> invoice_ok s k i"
    and "get_row (payments s) k = Some p \<Longrightarrow> payment_ok s p"
    and "get_row (refunds s) k = Some r \<Longrightarrow> refund_ok s r"
  using assms by (simp_all add: ledger_rows_ok_def)

lemma rows_ok_invoiced:
  assumes ok: "ledger_rows_ok s" and wf: "wf_table (payments s)"
    and i: "invoices s' = add_row i (invoices s)" "inv_status i = Inv_Issued" "inv_discount i \<le> inv_amount i"
    and same: "payments s' = payments s" "refunds s' = refunds s"
  shows "ledger_rows_ok s'"
proof (rule ledger_rows_okI)
  fix k j assume j: "get_row (invoices s') k = Some j"
  show "invoice_ok s' k j"
  proof (cases "k = fresh_pk (invoices s)")
    case True
    with j i same no_payments_of_fresh_invoice [OF ok wf] show ?thesis by (simp add: get_add_row invoice_ok_def)
  next
    case False
    with j i have "invoice_ok s k j" by (intro ledger_rows_okD(1) [OF ok]) (simp add: get_add_row)
    with same invoice_ok_cong [of k s' s j] show ?thesis by simp
  qed
next
  fix k p assume "get_row (payments s') k = Some p"
  with same have "payment_ok s p" by (intro ledger_rows_okD(2) [OF ok]) simp
  with i show "payment_ok s' p" by (simp add: payment_ok_def get_add_row)
next
  fix k r assume "get_row (refunds s') k = Some r"
  with same have "refund_ok s r" by (intro ledger_rows_okD(3) [OF ok]) simp
  with same show "refund_ok s' r" by (simp add: refund_ok_def)
qed

lemma refund_ok_payments:
  assumes "refund_ok s r" and "\<And>k p. get_row (payments s) k = Some p \<Longrightarrow> pay_status p = PayConfirmed \<Longrightarrow>
    \<exists>p'. get_row (payments s') k = Some p' \<and> pay_status p' = PayConfirmed"
  shows "refund_ok s' r"
  using assms unfolding refund_ok_def by blast

lemma rows_ok_recorded:
  assumes ok: "ledger_rows_ok s"
    and p: "payments s' = add_row p (payments s)" "pay_status p = PayPending" "pay_receipt_number p = None"
      "get_row (invoices s) (pay_invoice p) \<noteq> None"
    and same: "invoices s' = invoices s" "refunds s' = refunds s"
  shows "ledger_rows_ok s'"
proof (rule ledger_rows_okI)
  fix k i assume "get_row (invoices s') k = Some i"
  with same have "invoice_ok s k i" by (intro ledger_rows_okD(1) [OF ok]) simp
  moreover have "paid_amount k (payments s') = paid_amount k (payments s)" by (simp add: p paid_amount_pending)
  ultimately show "invoice_ok s' k i" using invoice_ok_cong [of k s' s i] by simp
next
  fix k q assume q: "get_row (payments s') k = Some q"
  show "payment_ok s' q"
  proof (cases "k = fresh_pk (payments s)")
    case True
    with q p same show ?thesis by (simp add: payment_ok_def get_add_row)
  next
    case False
    with q p have "payment_ok s q" by (intro ledger_rows_okD(2) [OF ok]) (simp add: get_add_row)
    with same show ?thesis by (simp add: payment_ok_def)
  qed
next
  fix k r assume "get_row (refunds s') k = Some r"
  with same have "refund_ok s r" by (intro ledger_rows_okD(3) [OF ok]) simp
  then show "refund_ok s' r" by (rule refund_ok_payments) (auto simp: p get_add_row)
qed

lemma rows_ok_closed:
  assumes ok: "ledger_rows_ok s" and wf: "wf_table (payments s)"
    and p: "get_row (payments s) k = Some p" "pay_status p = PayPending" "payments s' = put_row k p' (payments s)"
    and p': "pay_status p' \<noteq> PayConfirmed" "pay_invoice p' = pay_invoice p" "pay_receipt_number p' = pay_receipt_number p"
    and same: "invoices s' = invoices s" "refunds s' = refunds s"
  shows "ledger_rows_ok s'"
proof (rule ledger_rows_okI)
  fix j i assume "get_row (invoices s') j = Some i"
  with same have "invoice_ok s j i" by (intro ledger_rows_okD(1) [OF ok]) simp
  moreover have "paid_amount j (payments s') = paid_amount j (payments s)"
    unfolding p(3) by (rule paid_amount_unconfirmed [OF wf p(1)]) (simp_all add: confirmed_for_def p p')
  ultimately show "invoice_ok s' j i" using invoice_ok_cong [of j s' s i] by simp
next
  fix j q assume q: "get_row (payments s') j = Some q"
  show "payment_ok s' q"
  proof (cases "j = k")
    case True
    with q p have "q = p'" by (simp add: get_put_row)
    with ledger_rows_okD(2) [OF ok p(1)] p(2) p' same show ?thesis by (simp add: payment_ok_def)
  next
    case False
    with q p have "payment_ok s q" by (intro ledger_rows_okD(2) [OF ok]) (simp add: get_put_row)
    with same show ?thesis by (simp add: payment_ok_def)
  qed
next
  fix j r assume "get_row (refunds s') j = Some r"
  with same have "refund_ok s r" by (intro ledger_rows_okD(3) [OF ok]) simp
  then show "refund_ok s' r" by (rule refund_ok_payments) (use p in \<open>auto simp: get_put_row\<close>)
qed

lemma rows_ok_confirmed:
  assumes ok: "ledger_rows_ok s" and wf: "wf_table (payments s)"
    and p: "get_row (payments s) k = Some p" "pay_status p = PayPending" "payments s' = put_row k p' (payments s)"
    and p': "pay_status p' = PayConfirmed" "pay_invoice p' = pay_invoice p" "pay_receipt_number p' \<noteq> None"
    and i: "restatus (pay_invoice p) (invoices s) (invoices s')" "get_row (invoices s') (pay_invoice p) = Some i"
      "fresh_status (pay_invoice p) i s'"
    and same: "refunds s' = refunds s"
  shows "ledger_rows_ok s'"
proof (rule ledger_rows_okI)
  fix j x assume x: "get_row (invoices s') j = Some x"
  show "invoice_ok s' j x"
  proof (cases "j = pay_invoice p")
    case True
    from restatus_row [OF i(1,2)] obtain i0 where "get_row (invoices s) j = Some i0"
      "inv_discount i = inv_discount i0" "inv_amount i = inv_amount i0" by (auto simp: True)
    with ledger_rows_okD(1) [OF ok, of j i0] i x show ?thesis by (simp add: invoice_ok_def True)
  next
    case False
    with x restatus_same_key(4) [OF i(1)] have "invoice_ok s j x" by (intro ledger_rows_okD(1) [OF ok]) simp
    moreover have "paid_amount j (payments s') = paid_amount j (payments s)"
      unfolding p(3) by (rule paid_amount_unconfirmed [OF wf p(1)]) (use False p' in \<open>simp_all add: confirmed_for_def\<close>)
    ultimately show ?thesis using invoice_ok_cong [of j s' s x] by simp
  qed
next
  fix j q assume q: "get_row (payments s') j = Some q"
  show "payment_ok s' q"
  proof (cases "j = k")
    case True
    with q p have "q = p'" by (simp add: get_put_row)
    with ledger_rows_okD(2) [OF ok p(1)] p' i(2) show ?thesis by (simp add: payment_ok_def)
  next
    case False
    with q p have "payment_ok s q" by (intro ledger_rows_okD(2) [OF ok]) (simp add: get_put_row)
    with restatus_same_key(5) [OF i(1)] show ?thesis by (simp add: payment_ok_def)
  qed
next
  fix j r assume "get_row (refunds s') j = Some r"
  with same have "refund_ok s r" by (intro ledger_rows_okD(3) [OF ok]) simp
  then show "refund_ok s' r" by (rule refund_ok_payments) (use p p' in \<open>auto simp: get_put_row\<close>)
qed

lemma rows_ok_refunds:
  assumes ok: "ledger_rows_ok s" and same: "invoices s' = invoices s" "payments s' = payments s"
    and r: "\<And>j r. get_row (refunds s') j = Some r \<Longrightarrow>
      \<exists>p. get_row (payments s) (rf_payment r) = Some p \<and> pay_status p = PayConfirmed"
  shows "ledger_rows_ok s'"
proof (rule ledger_rows_okI)
  fix j i assume "get_row (invoices s') j = Some i"
  with same have "invoice_ok s j i" by (intro ledger_rows_okD(1) [OF ok]) simp
  with same invoice_ok_cong [of j s' s i] show "invoice_ok s' j i" by simp
next
  fix j q assume "get_row (payments s') j = Some q"
  with same have "payment_ok s q" by (intro ledger_rows_okD(2) [OF ok]) simp
  with same show "payment_ok s' q" by (simp add: payment_ok_def)
next
  fix j x assume "get_row (refunds s') j = Some x"
  with r same show "refund_ok s' x" by (simp add: refund_ok_def)
qed

lemma effect_rows_ok:
  assumes "finance_effect s s'" and u: "ledger_unique s" and ok: "ledger_rows_ok s"
  shows "ledger_rows_ok s'"
proof -
  have wf: "wf_table (payments s)" using u by (simp add: ledger_unique_def)
  note refund = ledger_rows_okD(3) [OF ok, unfolded refund_ok_def]
  from assms(1) show ?thesis
  proof cases
    case same
    then show ?thesis by (intro rows_ok_refunds [OF ok]) (use refund in simp_all)
  next
    case (invoiced i)
    then show ?thesis by (intro rows_ok_invoiced [OF ok wf])
  next
    case (recorded p)
    then show ?thesis by (intro rows_ok_recorded [OF ok])
  next
    case (closed k p p')
    from closed(4) have "pay_status p' \<noteq> PayConfirmed" "pay_invoice p' = pay_invoice p"
      "pay_receipt_number p' = pay_receipt_number p" by (auto simp: closed_row_def)
    with closed show ?thesis by (intro rows_ok_closed [OF ok wf])
  next
    case (confirmed k p p' i)
    from confirmed(4) have "pay_status p' = PayConfirmed" "pay_invoice p' = pay_invoice p" "pay_receipt_number p' \<noteq> None"
      by (auto simp: confirmed_row_def)
    with confirmed show ?thesis by (intro rows_ok_confirmed [OF ok wf])
  next
    case (requested r p)
    show ?thesis
      by (rule rows_ok_refunds [OF ok requested(6,7)])
        (use requested refund in \<open>auto simp: get_add_row split: if_splits\<close>)
  next
    case (decided k r r')
    show ?thesis
      by (rule rows_ok_refunds [OF ok decided(6,7)])
        (use decided refund in \<open>auto simp: get_put_row split: if_splits\<close>)
  qed
qed

lemma effects_inv: "finance_effect\<^sup>*\<^sup>* s s' \<Longrightarrow> ledger_inv s \<Longrightarrow> ledger_inv s'"
  by (induction rule: rtranclp_induct) (auto simp: ledger_inv_def intro: effect_unique effect_rows_ok)

lemma steps_effects:
  assumes "finance_step\<^sup>*\<^sup>* s s'" and "ledger_inv s"
  shows "finance_effect\<^sup>*\<^sup>* s s' \<and> ledger_inv s'"
  using assms
proof (induction rule: rtranclp_induct)
  case (step s1 s2)
  then have "wf_table (payments s1)" by (simp add: ledger_inv_def ledger_unique_def)
  from finance_step_effects [OF step.hyps(2) this] step effects_inv show ?case by (auto intro: rtranclp_trans)
qed simp

section \<open>Refunds stay within their payment\<close>

definition refund_amounts_nonneg :: "'a finance_db_scheme \<Rightarrow> bool" where
  "refund_amounts_nonneg s \<longleftrightarrow> (\<forall>k r. get_row (refunds s) k = Some r \<longrightarrow> 0 \<le> rf_amount r)"

definition refunds_bounded :: "'a finance_db_scheme \<Rightarrow> bool" where
  "refunds_bounded s \<longleftrightarrow> (\<forall>k p. get_row (payments s) k = Some p \<longrightarrow> exists_row (claims_on k) (refunds s) \<longrightarrow>
     already_claimed k (refunds s) \<le> pay_amount p)"

lemma effect_amounts_nonneg: "finance_effect s s' \<Longrightarrow> refund_amounts_nonneg s' \<Longrightarrow> refund_amounts_nonneg s"
proof (induction rule: finance_effect.induct)
  case (requested s r p s')
  have "0 \<le> rf_amount x" if x: "get_row (refunds s) k = Some x" for k x
  proof -
    have "get_row (refunds s') k = Some x" using x requested by (auto simp: get_add_row)
    with requested show ?thesis by (simp add: refund_amounts_nonneg_def)
  qed
  then show ?case by (simp add: refund_amounts_nonneg_def)
next
  case (decided s k r s' r')
  have "0 \<le> rf_amount x" if x: "get_row (refunds s) j = Some x" for j x
  proof (cases "j = k")
    case True
    with decided x have "get_row (refunds s') k = Some r'" "rf_amount r' = rf_amount x" by (auto simp: get_put_row)
    with decided show ?thesis unfolding refund_amounts_nonneg_def by metis
  next
    case False
    with decided x have "get_row (refunds s') j = Some x" by (simp add: get_put_row)
    with decided show ?thesis unfolding refund_amounts_nonneg_def by blast
  qed
  then show ?case by (simp add: refund_amounts_nonneg_def)
qed (simp_all add: refund_amounts_nonneg_def)

lemma claimed_put_row:
  assumes "wf_table t" and "get_row t k = Some r" and "rf_payment r' = rf_payment r" and "rf_amount r' = rf_amount r"
    and "0 \<le> rf_amount r" and "rf_status r' \<in> set (refund_transitions (rf_status r))"
  shows "already_claimed j (put_row k r' t) \<le> already_claimed j t"
  using sum_rows_put_row [OF assms(1,2), of "claims_on j" rf_amount r'] assms(3-6)
  by (cases "rf_status r") (auto simp: already_claimed_def claims_on_def)

lemma claims_put_row:
  assumes "get_row t k = Some r" and "rf_payment r' = rf_payment r"
    and "rf_status r' \<in> set (refund_transitions (rf_status r))" and "exists_row (claims_on j) (put_row k r' t)"
  shows "exists_row (claims_on j) t"
proof -
  from assms(4) obtain i x where x: "(i, x) \<in> set (put_row k r' t)" "claims_on j i x" by (auto simp: exists_row_iff)
  show ?thesis
  proof (cases "i = k")
    case True
    with x have "claims_on j k r'" by (auto simp: set_put_row split: if_splits)
    then have "claims_on j k r" using assms(2,3) by (cases "rf_status r") (auto simp: claims_on_def)
    with get_row_in_set [OF assms(1)] show ?thesis unfolding exists_row_iff by blast
  next
    case False
    with x show ?thesis unfolding exists_row_iff set_put_row by (auto split: if_splits)
  qed
qed

lemma effect_refunds_bounded:
  assumes "finance_effect s s'" and inv: "ledger_inv s" and nn: "refund_amounts_nonneg s" and b: "refunds_bounded s"
  shows "refunds_bounded s'"
proof -
  have keep: "refunds_bounded s'" if "refunds s' = refunds s"
    "\<And>k p. get_row (payments s') k = Some p \<Longrightarrow> exists_row (claims_on k) (refunds s) \<Longrightarrow>
       \<exists>p0. get_row (payments s) k = Some p0 \<and> pay_amount p0 = pay_amount p"
    unfolding refunds_bounded_def
  proof (intro allI impI)
    fix k p assume "get_row (payments s') k = Some p" "exists_row (claims_on k) (refunds s')"
    with that obtain p0 where "get_row (payments s) k = Some p0" "pay_amount p0 = pay_amount p"
      "exists_row (claims_on k) (refunds s)" by fastforce
    with b have "already_claimed k (refunds s) \<le> pay_amount p0" unfolding refunds_bounded_def by blast
    with that(1) \<open>pay_amount p0 = pay_amount p\<close> show "already_claimed k (refunds s') \<le> pay_amount p" by simp
  qed
  have wf: "wf_table (refunds s)" using inv by (simp add: ledger_inv_def ledger_unique_def)
  from assms(1) show ?thesis
  proof cases
    case (recorded p)
    have none: "\<not> exists_row (claims_on (fresh_pk (payments s))) (refunds s)"
    proof
      assume "exists_row (claims_on (fresh_pk (payments s))) (refunds s)"
      then obtain j r where "(j, r) \<in> set (refunds s)" "rf_payment r = fresh_pk (payments s)"
        by (auto simp: exists_row_iff claims_on_def)
      with in_set_get_row [OF wf] inv show False by (force simp: ledger_inv_def ledger_rows_ok_def refund_ok_def)
    qed
    show ?thesis
    proof (rule keep)
      fix k q assume "get_row (payments s') k = Some q" "exists_row (claims_on k) (refunds s)"
      with none recorded show "\<exists>p0. get_row (payments s) k = Some p0 \<and> pay_amount p0 = pay_amount q"
        by (cases "k = fresh_pk (payments s)") (simp_all add: get_add_row)
    qed (rule recorded)
  next
    case (closed k p p')
    then have "pay_amount p' = pay_amount p" by (auto simp: closed_row_def)
    with closed show ?thesis by (intro keep) (auto simp: get_put_row split: if_splits)
  next
    case (confirmed k p p' i)
    then have "pay_amount p' = pay_amount p" by (auto simp: confirmed_row_def)
    with confirmed show ?thesis by (intro keep) (auto simp: get_put_row split: if_splits)
  next
    case (requested r p)
    have "already_claimed k (refunds s') \<le> pay_amount q"
      if q: "get_row (payments s') k = Some q" and ex: "exists_row (claims_on k) (refunds s')" for k q
    proof (cases "k = rf_payment r")
      case True
      with q requested have "q = p" by simp
      with requested True show ?thesis by (simp add: already_claimed_def sum_rows_add_row claims_on_def)
    next
      case False
      with ex requested have "exists_row (claims_on k) (refunds s)"
        by (auto simp: exists_row_iff set_add_row claims_on_def)
      with b q requested have "already_claimed k (refunds s) \<le> pay_amount q" by (simp add: refunds_bounded_def)
      with False requested show ?thesis by (simp add: already_claimed_def sum_rows_add_row claims_on_def)
    qed
    then show ?thesis by (simp add: refunds_bounded_def)
  next
    case (decided k r r')
    have r: "0 \<le> rf_amount r" using nn decided(1) by (simp add: refund_amounts_nonneg_def)
    have "already_claimed j (refunds s') \<le> pay_amount q"
      if q: "get_row (payments s') j = Some q" and ex: "exists_row (claims_on j) (refunds s')" for j q
    proof -
      from claims_put_row [OF decided(1,3,5)] ex have "exists_row (claims_on j) (refunds s)" by (simp add: decided(2))
      with b q decided(7) have "already_claimed j (refunds s) \<le> pay_amount q" by (simp add: refunds_bounded_def)
      with claimed_put_row [OF wf decided(1,3,4) r decided(5), of j] show ?thesis by (simp add: decided(2))
    qed
    then show ?thesis by (simp add: refunds_bounded_def)
  qed (rule keep; simp)+
qed

lemma effects_refunds_bounded:
  assumes "finance_effect\<^sup>*\<^sup>* s s'" and "ledger_inv s" and "refunds_bounded s" and "refund_amounts_nonneg s'"
  shows "refunds_bounded s'"
  using assms
proof (induction rule: rtranclp_induct)
  case (step s1 s2)
  have inv: "ledger_inv s1" using effects_inv [OF step.hyps(1) step.prems(1)] .
  have "refund_amounts_nonneg s1" using effect_amounts_nonneg [OF step.hyps(2) step.prems(3)] .
  with step effect_refunds_bounded [OF step.hyps(2) inv] show ?case by blast
qed simp

section \<open>Properties of the ledger\<close>

text \<open>
  C2. The ledger stays consistent. After any operations of finance and of the modules below it, a
  student has at most one invoice per semester, no two invoices share a number and no two
  payments a reference or a receipt number, a payment has a receipt exactly if it is
  confirmed, every invoice's discount is at most its amount and its status tells its balance,
  and refunds exist of confirmed payments only.
\<close>

theorem ledger_consistent:
  assumes "finance_step\<^sup>*\<^sup>* s s'" and "ledger_inv s"
  shows "ledger_inv s'"
  using steps_effects [OF assms] by blast

lemma effect_settled_rows:
  assumes "finance_effect s s'"
  shows "get_row (payments s) k = Some p \<Longrightarrow> pay_status p \<noteq> PayPending \<Longrightarrow> get_row (payments s') k = Some p"
    and "get_row (refunds s) k = Some r \<Longrightarrow> refund_transitions (rf_status r) = [] \<Longrightarrow> get_row (refunds s') k = Some r"
  using assms by (cases; auto simp: get_add_row get_put_row)+

lemma settled_rows_stay:
  assumes "finance_effect\<^sup>*\<^sup>* s s'"
  shows "get_row (payments s) k = Some p \<Longrightarrow> pay_status p \<noteq> PayPending \<Longrightarrow> get_row (payments s') k = Some p"
    and "get_row (refunds s) k = Some r \<Longrightarrow> refund_transitions (rf_status r) = [] \<Longrightarrow> get_row (refunds s') k = Some r"
  using assms by (induction rule: rtranclp_induct) (auto intro: effect_settled_rows)

text \<open>
  C12. What is settled stays settled. The status of a payment and of a refund moves along the
  allowed transitions only; a payment that has been confirmed, failed or cancelled, and a
  refund that has been rejected or paid out, never change again in any column.
\<close>

theorem settled_rows_final:
  assumes "finance_step\<^sup>*\<^sup>* s s'" and "ledger_inv s"
  shows "(case get_row (payments s) k of
       None \<Rightarrow> True
     | Some p \<Rightarrow> \<exists>p'. get_row (payments s') k = Some p' \<and>
         (\<lambda>x y. y \<in> set (payment_transitions x))\<^sup>*\<^sup>* (pay_status p) (pay_status p') \<and>
         (pay_status p \<noteq> PayPending \<longrightarrow> p' = p)) \<and>
    (case get_row (refunds s) j of
       None \<Rightarrow> True
     | Some r \<Rightarrow> \<exists>r'. get_row (refunds s') j = Some r' \<and>
         (\<lambda>x y. y \<in> set (refund_transitions x))\<^sup>*\<^sup>* (rf_status r) (rf_status r') \<and>
         (rf_status r \<in> {Ref_Rejected, Ref_Paid} \<longrightarrow> r' = r))"
proof (rule conjI)
  from steps_effects [OF assms] have run: "finance_effect\<^sup>*\<^sup>* s s'" by blast
  show "case get_row (payments s) k of
       None \<Rightarrow> True
     | Some p \<Rightarrow> \<exists>p'. get_row (payments s') k = Some p' \<and>
         (\<lambda>x y. y \<in> set (payment_transitions x))\<^sup>*\<^sup>* (pay_status p) (pay_status p') \<and>
         (pay_status p \<noteq> PayPending \<longrightarrow> p' = p)"
  proof (cases "get_row (payments s) k")
    case (Some p)
    with payment_machine.status_steps [OF run, of k "pay_status p"] obtain p' where
      p': "get_row (payments s') k = Some p'" "(\<lambda>x y. y \<in> set (payment_transitions x))\<^sup>*\<^sup>* (pay_status p) (pay_status p')"
      by (auto simp: payment_status_of_def)
    have "p' = p" if "pay_status p \<noteq> PayPending" using settled_rows_stay(1) [OF run Some that] p'(1) by simp
    with p' Some show ?thesis by auto
  qed simp
  show "case get_row (refunds s) j of
       None \<Rightarrow> True
     | Some r \<Rightarrow> \<exists>r'. get_row (refunds s') j = Some r' \<and>
         (\<lambda>x y. y \<in> set (refund_transitions x))\<^sup>*\<^sup>* (rf_status r) (rf_status r') \<and>
         (rf_status r \<in> {Ref_Rejected, Ref_Paid} \<longrightarrow> r' = r)"
  proof (cases "get_row (refunds s) j")
    case (Some r)
    with refund_machine.status_steps [OF run, of j "rf_status r"] obtain r' where
      r': "get_row (refunds s') j = Some r'" "(\<lambda>x y. y \<in> set (refund_transitions x))\<^sup>*\<^sup>* (rf_status r) (rf_status r')"
      by (auto simp: refund_status_of_def)
    have "r' = r" if "rf_status r \<in> {Ref_Rejected, Ref_Paid}"
      using settled_rows_stay(2) [OF run Some] that r'(1) by auto
    with r' Some show ?thesis by auto
  qed simp
qed

lemma paid_out_le_claimed:
  assumes "refund_amounts_nonneg s" and "wf_table (refunds s)"
  shows "sum_rows (\<lambda>_ r. rf_payment r = k \<and> rf_status r = Ref_Paid) rf_amount (refunds s) \<le> already_claimed k (refunds s)"
proof -
  have nn: "\<forall>(j, r) \<in> set (refunds s). 0 \<le> rf_amount r"
    using assms in_set_get_row by (fastforce simp: refund_amounts_nonneg_def)
  have "sum_rows (\<lambda>_ r. rf_payment r = k \<and> rf_status r = Ref_Paid) rf_amount t \<le> sum_rows (claims_on k) rf_amount t"
    if "\<forall>(j, r) \<in> set t. 0 \<le> rf_amount r" for t
    using that by (induction t) (auto simp: claims_on_def)
  from this [OF nn] show ?thesis by (simp add: already_claimed_def)
qed

text \<open>
  C11. Refunds never exceed what was paid. As long as no refund has a negative amount, the refunds
  claimed on a payment that were not rejected, and so the refunds paid out, add up to at most
  the amount of the payment, however many are requested and decided.
\<close>

theorem refunds_within_payment:
  assumes "finance_step\<^sup>*\<^sup>* s s'" and "ledger_inv s" and "refunds_bounded s" and "refund_amounts_nonneg s'"
    and "get_row (payments s') k = Some p" and "exists_row (claims_on k) (refunds s')"
  shows "already_claimed k (refunds s') \<le> pay_amount p \<and>
    sum_rows (\<lambda>_ r. rf_payment r = k \<and> rf_status r = Ref_Paid) rf_amount (refunds s') \<le> pay_amount p"
proof -
  from steps_effects [OF assms(1,2)] have run: "finance_effect\<^sup>*\<^sup>* s s'" and inv: "ledger_inv s'" by auto
  from effects_refunds_bounded [OF run assms(2-4)] assms(5,6) have "already_claimed k (refunds s') \<le> pay_amount p"
    by (simp add: refunds_bounded_def)
  moreover have "wf_table (refunds s')" using inv by (simp add: ledger_inv_def ledger_unique_def)
  ultimately show ?thesis using paid_out_le_claimed [OF assms(4)] order_trans by blast
qed

text \<open>
  C16. An invoice bills what the tables say. A generated invoice is the only row added: the fee of
  the structure for the student's programme, level and residency in the year of the semester,
  plus the hostel fee, in the currency of the structure, less a discount that exceeds neither
  the tuition nor the bill; and a second invoice for the same student and semester is refused.
\<close>

theorem invoice_bills_tables:
  "case generate_invoice c student semester_id due_date actor s of
     Inl e \<Rightarrow> True
   | Inr (k, s') \<Rightarrow> \<exists>i semester programme level residency fs fstr.
       get_semester semester_id s = Inr semester \<and> get_programme_id student s = Inr programme \<and>
       current_level_for_student student s = Inr level \<and> residency_for_student student s = Inr residency \<and>
       applicable_fee_structure programme (sem_academic_year semester) level residency s = Inr (fs, fstr) \<and>
       invoices s' = add_row i (invoices s) \<and> get_row (invoices s') k = Some i \<and> inv_student i = student \<and>
       inv_semester i = semester_id \<and> inv_currency i = fs_currency fstr \<and>
       inv_amount i = fs_amount fstr + fee_for_active_allocation c student (sem_academic_year semester) s \<and>
       scholarship_discount student (sem_academic_year semester) (fs_amount fstr) s = Inr (inv_discount i) \<and>
       inv_discount i \<le> inv_amount i \<and> inv_discount i \<le> max 0 (fs_amount fstr) \<and>
       (\<forall>c' d u. generate_invoice c' student semester_id d u s' = Inl DuplicateInvoice)"
proof (cases "generate_invoice c student semester_id due_date actor s")
  case (Inr x)
  obtain k s' where x: "x = (k, s')" by (cases x)
  show ?thesis unfolding Inr x sum.case prod.case using Inr [unfolded x]
  proof (rule generate_invoice_Inr)
    fix i seqs tr semester programme level residency fs fstr discount
    assume 1: "get_semester semester_id s = Inr semester" "get_programme_id student s = Inr programme"
        "current_level_for_student student s = Inr level" "residency_for_student student s = Inr residency"
        "applicable_fee_structure programme (sem_academic_year semester) level residency s = Inr (fs, fstr)"
      and disc: "scholarship_discount student (sem_academic_year semester) (fs_amount fstr) s = Inr discount"
      and s': "s' = s\<lparr>id_sequences := seqs, invoices := add_row i (invoices s), audit_log := tr\<rparr>" and k: "k = fresh_pk (invoices s)"
      and clean: "invoice_full_clean None i (s\<lparr>id_sequences := seqs\<rparr>) = Inr ()"
      and i: "inv_student i = student" "inv_semester i = semester_id"
        "inv_amount i = fs_amount fstr + fee_for_active_allocation c student (sem_academic_year semester) s"
        "inv_discount i = discount" "inv_currency i = fs_currency fstr"
    have "discount \<le> max 0 (fs_amount fstr)"
      using disc by (auto simp: scholarship_discount_def discount_for_def bindE_eq_Inr split: option.splits if_splits)
    moreover have "inv_discount i \<le> inv_amount i" using clean by (simp add: invoice_full_clean_def ensure_eq_Inr)
    moreover have "generate_invoice c' student semester_id d u s' = Inl DuplicateInvoice" for c' d u
      using i by (simp add: generate_invoice_def exists_row_iff s' set_add_row) blast
    ultimately show "\<exists>i semester programme level residency fs fstr.
       get_semester semester_id s = Inr semester \<and> get_programme_id student s = Inr programme \<and>
       current_level_for_student student s = Inr level \<and> residency_for_student student s = Inr residency \<and>
       applicable_fee_structure programme (sem_academic_year semester) level residency s = Inr (fs, fstr) \<and>
       invoices s' = add_row i (invoices s) \<and> get_row (invoices s') k = Some i \<and> inv_student i = student \<and>
       inv_semester i = semester_id \<and> inv_currency i = fs_currency fstr \<and>
       inv_amount i = fs_amount fstr + fee_for_active_allocation c student (sem_academic_year semester) s \<and>
       scholarship_discount student (sem_academic_year semester) (fs_amount fstr) s = Inr (inv_discount i) \<and>
       inv_discount i \<le> inv_amount i \<and> inv_discount i \<le> max 0 (fs_amount fstr) \<and>
       (\<forall>c' d u. generate_invoice c' student semester_id d u s' = Inl DuplicateInvoice)"
      using 1 disc i k
      by (intro exI [of _ i] exI [of _ semester] exI [of _ programme] exI [of _ level] exI [of _ residency] exI [of _ fs]
          exI [of _ fstr]) (simp add: s' get_add_row)
  qed
qed simp

section \<open>Unpaid fees and registration\<close>

text \<open>The providers as the start-up of \<open>core\<close> and of \<open>finance\<close> registers them.\<close>

definition hold_providers :: "(nat \<times> rat) list \<Rightarrow> 'a finance_db_scheme \<Rightarrow> hold_source_provider bucket" where
  "hold_providers balances s =
     registry_get_all ''HoldProvider''
       (registry_add ''HoldProvider'' (FeeBalanceHoldProvider s)
         (registry_add ''HoldProvider'' (DemoFeeBalanceHoldProvider balances) []))"

lemma hold_providers_eq:
  "hold_providers balances s = [DemoFeeBalanceHoldProvider balances, FeeBalanceHoldProvider s]"
  by (simp add: hold_providers_def registry_get_all_def registry_add_def DemoFeeBalanceHoldProvider_def
      FeeBalanceHoldProvider_def)

interpretation fees: hold_provider "snd (FeeBalanceHoldProvider s)" "\<lambda>student. 0 < fee_balance_for_student student s"
  for s :: "'a finance_db_scheme"
  by unfold_locales (auto simp: FeeBalanceHoldProvider_def fee_holds_for_def split: if_splits)

lemma unpaid_blocks:
  "0 < fee_balance_for_student student s \<Longrightarrow> blocking_holds (hold_providers balances s) student \<noteq> []"
  by (rule fees.blocking_holds_nonempty [where s = s and cls = "''FeeBalanceHoldProvider''"])
    (simp_all add: hold_providers_eq FeeBalanceHoldProvider_def)

text \<open>
  C4. Unpaid fees block registration. With the providers of the back end, a student who owes
  anything on open invoices can register for a course only when somebody with the permission
  overrides the hold and gives a reason, which the registration records; and without demo
  balances a student is blocked exactly if the fee balance is positive.
\<close>

theorem unpaid_fees_block_registration:
  "(case register_course c (hold_providers balances s) student course semester_id actor override_reason s of
      Inl e \<Rightarrow> True
    | Inr (k, s') \<Rightarrow> fee_balance_for_student student s \<le> 0 \<or>
        (\<exists>u r. actor = Some u \<and> has_perm u ''enrollment.override_hold'' \<and> nonblank override_reason \<and>
           get_row (course_registrations s') k = Some r \<and> cr_hold_override_by r = Some (user_pk u) \<and>
           cr_override_reason r = override_reason)) \<and>
   (blocking_holds (hold_providers [] s) student = [] \<longleftrightarrow> fee_balance_for_student student s \<le> 0)"
proof
  show "case register_course c (hold_providers balances s) student course semester_id actor override_reason s of
      Inl e \<Rightarrow> True
    | Inr (k, s') \<Rightarrow> fee_balance_for_student student s \<le> 0 \<or>
        (\<exists>u r. actor = Some u \<and> has_perm u ''enrollment.override_hold'' \<and> nonblank override_reason \<and>
           get_row (course_registrations s') k = Some r \<and> cr_hold_override_by r = Some (user_pk u) \<and>
           cr_override_reason r = override_reason)"
  proof (cases "register_course c (hold_providers balances s) student course semester_id actor override_reason s")
    case (Inr x)
    obtain k s' where x: "x = (k, s')" by (cases x)
    from Inr x obtain sem existing overridden reason where
      ex: "existing = find_registration student course sem s"
      and holds: "check_holds (hold_providers balances s) student actor override_reason = Inr overridden"
      and sv: "save_registration c existing (registration_row existing student course sem
           (is_repeat_registration student course (map_option fst existing) s) actor overridden override_reason)
           reason s = Inr (k, s')" (is "save_registration c existing ?r reason s = _")
      by (auto elim: register_course_Inr)
    have "fee_balance_for_student student s \<le> 0 \<or> overridden"
      using holds unpaid_blocks [of student s balances]
      by (cases "0 < fee_balance_for_student student s") (auto simp: check_holds_def split: if_splits)
    moreover have "\<exists>u. actor = Some u \<and> has_perm u ''enrollment.override_hold'' \<and> nonblank override_reason \<and>
        cr_hold_override_by ?r = Some (user_pk u) \<and> cr_override_reason ?r = override_reason" if overridden
      using holds that by (auto simp: check_holds_def registration_row_def Let_def actor_fk_def split: if_splits option.splits)
    ultimately show ?thesis using registered_row [OF sv ex] by (auto simp: Inr x)
  qed simp
  show "blocking_holds (hold_providers [] s) student = [] \<longleftrightarrow> fee_balance_for_student student s \<le> 0"
    by (simp add: hold_providers_eq blocking_holds_def DemoFeeBalanceHoldProvider_def demo_holds_for_def
        FeeBalanceHoldProvider_def fee_holds_for_def)
qed

section \<open>The provider's word\<close>

lemma payments_of_confirmed:
  "s' = s\<lparr>id_sequences := seqs, payments := ps, invoices := is, audit_log := tr\<rparr> \<Longrightarrow> payments s' = ps"
  by simp

text \<open>
  C17. A callback moves money only on the provider's verified word. Handling a webhook either
  leaves the state as it is and reports no payment, or the event was verified and says
  confirmed, and exactly one payment, pending until then and with the reference of the event,
  is confirmed with a receipt.
\<close>

theorem webhook_needs_verified_event:
  "case handle_payment_webhook c event s of
     Inl e \<Rightarrow> True
   | Inr (m, s') \<Rightarrow> (m = None \<and> s' = s) \<or>
       (pe_verified event \<and> pe_state event = PayConfirmed \<and>
        (\<exists>k p p'. m = Some k \<and> (k, p) \<in> set (payments s) \<and> pay_reference p = pe_reference event \<and>
           pay_status p = PayPending \<and> payments s' = put_row k p' (payments s) \<and> confirmed_row p p'))"
proof (cases "handle_payment_webhook c event s")
  case (Inr x)
  obtain m s' where x: "x = (m, s')" by (cases x)
  show ?thesis
  proof (cases "pe_verified event \<and> pe_state event = PayConfirmed \<and> m \<noteq> None")
    case True
    with Inr x obtain k p where first: "first_row (\<lambda>_ p. pay_reference p = pe_reference event \<and> pay_status p = PayPending)
        (payments s) = Some (k, p)" and conf: "confirm_payment c k p None s = Inr s'" and m: "m = Some k"
      by (auto simp: handle_payment_webhook_def split: option.splits elim!: bindE_InrE)
    from conf obtain p' seqs tr where "confirmed_row p p'"
      "s' = s\<lparr>id_sequences := seqs, payments := put_row k p' (payments s), invoices := invoices s', audit_log := tr\<rparr>"
      by (rule confirm_payment_Inr)
    moreover from this(2) have "payments s' = put_row k p' (payments s)" by (metis payments_of_confirmed)
    ultimately have "payments s' = put_row k p' (payments s)" "confirmed_row p p'" by blast+
    with True m first_row_Some [OF first] show ?thesis by (auto simp: Inr x)
  next
    case False
    with Inr x have "m = None \<and> s' = s"
      by (auto simp: handle_payment_webhook_def split: option.splits if_splits elim!: bindE_InrE)
    with Inr x show ?thesis by simp
  qed
qed simp

text \<open>
  Confirmation by hand does not ask for the method: a mobile-money payment that is still
  pending at the provider is confirmed by it as any other.
\<close>

lemma mobile_money_confirmed_by_hand:
  "get_row (payments s) k = Some p \<Longrightarrow> pay_status p = PayPending \<Longrightarrow> pay_method p = Mobile_Money \<Longrightarrow>
     confirm_manual_payment c k s = confirm_payment c k p None s"
  by (simp add: confirm_manual_payment_def)

section \<open>Payments taken offline\<close>

lemma record_manual_payment_tables:
  assumes "record_manual_payment c invoice_id meth amount reference actor remark s = Inr (k, s')"
  shows "\<exists>p. payments s' = add_row p (payments s) \<and> pay_reference p = reference \<and> pay_amount p = amount \<and>
    pay_method p = meth \<and> pay_invoice p = invoice_id"
    and "sync_operations s' = sync_operations s \<and> sync_conflicts s' = sync_conflicts s"
proof -
  from assms obtain i p s1 where
    p: "p = (new_payment c invoice_id i meth amount reference)\<lparr>pay_received_by := actor_fk actor, pay_notes := remark\<rparr>"
    and ins: "insert_payment c p (payment_method_text meth @ '' payment recorded'') s = Inr (k, s1)"
    and cash: "meth = Cash \<Longrightarrow> confirm_payment c k p None s1 = Inr s'" and other: "meth \<noteq> Cash \<Longrightarrow> s' = s1"
    by (rule record_manual_payment_Inr) blast
  from ins obtain tr where s1: "s1 = s\<lparr>payments := add_row p (payments s), audit_log := tr\<rparr>" and k: "k = fresh_pk (payments s)"
    by (rule insert_payment_Inr)
  have sel: "pay_reference p = reference" "pay_amount p = amount" "pay_method p = meth" "pay_invoice p = invoice_id"
    by (simp_all add: p new_payment_def)
  have "(\<exists>p. payments s' = add_row p (payments s) \<and> pay_reference p = reference \<and> pay_amount p = amount \<and>
      pay_method p = meth \<and> pay_invoice p = invoice_id) \<and>
    sync_operations s' = sync_operations s \<and> sync_conflicts s' = sync_conflicts s"
  proof (cases "meth = Cash")
    case True
    from cash [OF True] obtain p' seqs invs tr' where row: "confirmed_row p p'"
      and s': "s' = s1\<lparr>id_sequences := seqs, payments := put_row k p' (payments s1), invoices := invs, audit_log := tr'\<rparr>"
      by (rule confirm_payment_Inr) blast
    have "payments s' = add_row p' (payments s)" by (simp add: s' s1 k add_row_def put_row_snoc)
    moreover have "pay_reference p' = reference" "pay_amount p' = amount" "pay_method p' = meth" "pay_invoice p' = invoice_id"
      using row sel by (auto simp: confirmed_row_def)
    moreover have "sync_operations s' = sync_operations s \<and> sync_conflicts s' = sync_conflicts s"
      by (simp add: s' s1)
    ultimately show ?thesis by blast
  next
    case False
    with other sel show ?thesis by (auto simp: s1)
  qed
  then show "\<exists>p. payments s' = add_row p (payments s) \<and> pay_reference p = reference \<and> pay_amount p = amount \<and>
      pay_method p = meth \<and> pay_invoice p = invoice_id"
    and "sync_operations s' = sync_operations s \<and> sync_conflicts s' = sync_conflicts s" by blast+
qed

lemma manual_payment_apply_Inr:
  assumes "manual_payment_apply c op u s = Inr (r, s')"
  obtains reference k y where "s' = s" and "r = payment_result k y"
    and "first_row (\<lambda>_ y. pay_reference y = reference) (payments s) = Some (k, y)"
    and "payload_decimal (payload_get (in_payload op) ''amount'') = Inr (Finite (pay_amount y))"
    and "manual_method (payload_get (in_payload op) ''method'') = Some (pay_method y)"
    and "payload_text [] (payload_get (in_payload op) ''reference'') = Inr reference"
  | invoice_id meth q reference remark k where
    "\<not> exists_row (\<lambda>_ y. pay_reference y = reference) (payments s)"
    and "payload_decimal (payload_get (in_payload op) ''amount'') = Inr (Finite q)"
    and "manual_method (payload_get (in_payload op) ''method'') = Some meth"
    and "payload_text [] (payload_get (in_payload op) ''reference'') = Inr reference"
    and "py_key (payload_get (in_payload op) ''invoice_id'') = Inr invoice_id"
    and "record_manual_payment c invoice_id meth q reference (Some u) remark s = Inr (k, s')"
proof -
  let ?p = "in_payload op"
  from assms obtain meth amount reference where m: "manual_method (payload_get ?p ''method'') = Some meth"
    and am: "payload_decimal (payload_get ?p ''amount'') = Inr amount"
    and rf: "payload_text [] (payload_get ?p ''reference'') = Inr reference"
    and req: "\<not> list_ex (payload_missing ?p) PAYMENT_REQUIRED_FIELDS"
    unfolding manual_payment_apply_def Let_def by (auto split: if_splits option.splits elim!: bindE_InrE)
  show thesis
  proof (cases "first_row (\<lambda>_ y. pay_reference y = reference) (payments s)")
    case None
    with assms m am rf req obtain invoice_id q remark k where "amount = Finite q"
      "py_key (payload_get ?p ''invoice_id'') = Inr invoice_id"
      "record_manual_payment c invoice_id meth q reference (Some u) remark s = Inr (k, s')"
      unfolding manual_payment_apply_def Let_def
      by (auto split: if_splits option.splits py_decimal.splits elim!: bindE_InrE bindE_pairE)
    with None m am rf that(2) show thesis by (auto simp: first_row_None)
  next
    case (Some x)
    obtain k y where x: "x = (k, y)" by (cases x)
    from assms m am rf req Some x have "s' = s" "r = payment_result k y" "amount = Finite (pay_amount y)" "pay_method y = meth"
      by (auto simp: manual_payment_apply_def Let_def split: if_splits)
    with Some m am rf that(1) show thesis by (auto simp: x)
  qed
qed

lemma manual_payment_known_reference:
  assumes "\<not> list_ex (payload_missing (in_payload op)) PAYMENT_REQUIRED_FIELDS"
    and "manual_method (payload_get (in_payload op) ''method'') = Some meth"
    and "payload_decimal (payload_get (in_payload op) ''amount'') = Inr amount"
    and "payload_text [] (payload_get (in_payload op) ''reference'') = Inr reference"
    and "first_row (\<lambda>_ y. pay_reference y = reference) (payments s) = Some (k, y)"
  shows "manual_payment_apply c op u s =
    (if amount = NonFinite \<and> decimal_signals (payload_get (in_payload op) ''amount'') then Inl UnexpectedError
     else if amount = Finite (pay_amount y) \<and> pay_method y = meth then Inr (payment_result k y, s)
     else Inl (SyncConflictDetected ''amount''
       (VStr (str_decimal (pay_amount y) @ '' ('' @ payment_method_text (pay_method y) @ '')''))
       (VStr (decimal_shown (payload_get (in_payload op) ''amount'') @ '' ('' @ payment_method_text meth @ '')''))
       (Some (pay_updated_at y)) (Some (mm_label payment_meta, k))))"
  using assms by (simp add: manual_payment_apply_def Let_def)

lemma manual_payment_ill_formed:
  assumes "manual_method (payload_get (in_payload op) ''method'') = None \<or>
    payload_decimal (payload_get (in_payload op) ''amount'') = Inl e"
  shows "manual_payment_apply c op u s = Inl ValidationError"
proof -
  have "e' = ValidationError" if "payload_decimal v = Inl e'" for v e'
    using that by (cases v) (auto simp: payload_decimal_def from_option_def split: option.splits)
  with assms show ?thesis
    by (auto simp: manual_payment_apply_def Let_def split: option.split)
qed

lemma payload_text_Inl [simp]: "payload_text d v \<noteq> Inl e"
  by (cases "(d, v)" rule: payload_text.cases) simp_all

text \<open>
  C18. A payment taken offline never overwrites another one. The outcome depends on the payment
  the ledger has under the reference that was sent. If the operation succeeds, then either
  there is one, of the amount and of the method that were sent, and nothing changes and its
  key is answered; or there is none and exactly one row is added, with the reference, the
  invoice, the amount and the method that were sent. If the operation fails though all its
  fields are there and well-formed and the reference is known, then the payment known is of
  another amount or of another method, and the failure is the conflict that shows both - or
  the error of a signalling \<open>NaN\<close>, which cannot be compared.
\<close>

theorem queued_payment_never_overwrites:
  "case manual_payment_apply c op u s of
     Inl e \<Rightarrow>
       (case (manual_method (payload_get (in_payload op) ''method''), payload_decimal (payload_get (in_payload op) ''amount''),
          payload_text [] (payload_get (in_payload op) ''reference'')) of
          (Some meth, Inr amount, Inr reference) \<Rightarrow>
            (case first_row (\<lambda>_ y. pay_reference y = reference) (payments s) of
               None \<Rightarrow> True
             | Some (k, y) \<Rightarrow>
                 if list_ex (payload_missing (in_payload op)) PAYMENT_REQUIRED_FIELDS then e = ValidationError
                 else (amount, meth) \<noteq> (Finite (pay_amount y), pay_method y) \<and>
                   e = (if amount = NonFinite \<and> decimal_signals (payload_get (in_payload op) ''amount'') then UnexpectedError
                     else SyncConflictDetected ''amount''
                       (VStr (str_decimal (pay_amount y) @ '' ('' @ payment_method_text (pay_method y) @ '')''))
                       (VStr (decimal_shown (payload_get (in_payload op) ''amount'') @ '' ('' @ payment_method_text meth @ '')''))
                       (Some (pay_updated_at y)) (Some (mm_label payment_meta, k))))
        | _ \<Rightarrow> e = ValidationError)
   | Inr (r, s') \<Rightarrow> \<exists>reference meth amount.
       payload_text [] (payload_get (in_payload op) ''reference'') = Inr reference \<and>
       manual_method (payload_get (in_payload op) ''method'') = Some meth \<and>
       payload_decimal (payload_get (in_payload op) ''amount'') = Inr (Finite amount) \<and>
       (case first_row (\<lambda>_ y. pay_reference y = reference) (payments s) of
          Some (k, y) \<Rightarrow> s' = s \<and> r = payment_result k y \<and> pay_amount y = amount \<and> pay_method y = meth
        | None \<Rightarrow> \<exists>p. payments s' = add_row p (payments s) \<and> pay_reference p = reference \<and>
            py_key (payload_get (in_payload op) ''invoice_id'') = Inr (pay_invoice p) \<and>
            pay_amount p = amount \<and> pay_method p = meth)"
proof (cases "manual_payment_apply c op u s")
  case (Inr x)
  obtain r s' where x: "x = (r, s')" by (cases x)
  from Inr [unfolded x] show ?thesis
  proof (cases rule: manual_payment_apply_Inr)
    case (1 reference k y)
    then show ?thesis unfolding Inr x sum.case prod.case
      by (intro exI [of _ reference] exI [of _ "pay_method y"] exI [of _ "pay_amount y"]) simp
  next
    case (2 invoice_id meth q reference remark k)
    from record_manual_payment_tables(1) [OF 2(6)] have "\<exists>p. payments s' = add_row p (payments s) \<and> pay_reference p = reference \<and>
        py_key (payload_get (in_payload op) ''invoice_id'') = Inr (pay_invoice p) \<and> pay_amount p = q \<and> pay_method p = meth"
      using 2(5) by auto
    with 2(1-4) show ?thesis unfolding Inr x sum.case prod.case
      by (intro exI [of _ reference] exI [of _ meth] exI [of _ q]) (simp add: first_row_None [THEN iffD2])
  qed
next
  case (Inl e)
  show ?thesis
  proof (cases "list_ex (payload_missing (in_payload op)) PAYMENT_REQUIRED_FIELDS")
    case True
    then have "e = ValidationError" using Inl by (simp add: manual_payment_apply_def Let_def)
    then show ?thesis using True by (auto simp: Inl split: option.split sum.split)
  next
    case False
    show ?thesis
    proof (cases "manual_method (payload_get (in_payload op) ''method'')")
      case None
      with Inl manual_payment_ill_formed [OF disjI1 [OF None], of c u s] show ?thesis by simp
    next
      case meth: (Some meth)
      show ?thesis
      proof (cases "payload_decimal (payload_get (in_payload op) ''amount'')")
        case (Inl e')
        with \<open>manual_payment_apply c op u s = Inl e\<close> manual_payment_ill_formed [OF disjI2 [OF Inl], of c u s] meth
        show ?thesis by simp
      next
        case (Inr amount)
        note known = manual_payment_known_reference [OF False meth Inr]
        show ?thesis using \<open>manual_payment_apply c op u s = Inl e\<close>
          by (auto simp: meth Inr False known split: option.split sum.split if_splits)
      qed
    qed
  qed
qed

lemma manual_payment_ledger:
  assumes "manual_payment_apply c op u s = Inr (r, s')"
  shows "sync_operations s' = sync_operations s \<and> sync_conflicts s' = sync_conflicts s"
  using assms
proof (cases rule: manual_payment_apply_Inr)
  case (2 invoice_id meth q reference remark k)
  then show ?thesis by (intro record_manual_payment_tables(2))
qed simp

section \<open>Revenue\<close>

lemma paid_amounts_add_up:
  assumes "wf_table is" and "\<forall>(j, p) \<in> set ps. pay_status p = PayConfirmed \<longrightarrow> pay_invoice p \<in> fst ` set is"
  shows "sum_list (map (\<lambda>(k, i). paid_amount k ps) is) = sum_rows (\<lambda>_ p. pay_status p = PayConfirmed) pay_amount ps"
  using assms(2)
proof (induction ps)
  case Nil
  show ?case by (induction "is") (auto simp: paid_amount_def)
next
  case (Cons x ps)
  obtain j p where x: "x = (j, p)" by (cases x)
  have "paid_amount k (x # ps) = paid_amount k ps + (if k = pay_invoice p \<and> pay_status p = PayConfirmed then pay_amount p else 0)" for k
    by (simp add: x paid_amount_def confirmed_for_def)
  then have "sum_list (map (\<lambda>(k, i). paid_amount k (x # ps)) is) = sum_list (map (\<lambda>(k, i). paid_amount k ps) is) +
      sum_list (map (\<lambda>(k, i). if k = pay_invoice p \<and> pay_status p = PayConfirmed then pay_amount p else 0) is)"
    by (simp add: sum_list_addf split_def)
  also have "sum_list (map (\<lambda>(k, i). if k = pay_invoice p \<and> pay_status p = PayConfirmed then pay_amount p else 0) is) =
      (if pay_status p = PayConfirmed then pay_amount p else 0)"
  proof (cases "pay_status p = PayConfirmed")
    case True
    with Cons.prems have "pay_invoice p \<in> fst ` set is" by (simp add: x)
    with assms(1) have "sum_list (map (\<lambda>(k, i). if k = pay_invoice p then pay_amount p else 0) is) = pay_amount p"
    proof (induction "is")
      case (Cons y ys)
      obtain k i where y: "y = (k, i)" by (cases y)
      have zero: "pay_invoice p \<notin> fst ` set ys \<Longrightarrow>
          sum_list (map (\<lambda>(k, i). if k = pay_invoice p then pay_amount p else 0) ys) = 0"
        by (induction ys) auto
      show ?case
      proof (cases "k = pay_invoice p")
        case True
        with Cons.prems(1) zero show ?thesis by (simp add: y wf_table_def)
      next
        case False
        with Cons show ?thesis by (simp add: y wf_table_def)
      qed
    qed simp
    with True show ?thesis by simp
  qed (simp add: split_def)
  finally show ?case using Cons by (simp add: x)
qed

definition settled_exactly :: "'a finance_db_scheme \<Rightarrow> bool" where
  "settled_exactly s \<longleftrightarrow> (\<forall>k i. get_row (invoices s) k = Some i \<longrightarrow>
     inv_status i \<notin> {Inv_Cancelled, Inv_Written_Off} \<and> (inv_status i = Inv_Paid \<longrightarrow> invoice_balance k i s = 0))"

text \<open>
  C19. The revenue report adds up. When no invoice was cancelled, written off or overpaid, the
  amount reported as collected, which is computed as billed less outstanding, is the sum of
  all confirmed payments, and the outstanding amount is the sum of the balances.
\<close>

theorem revenue_adds_up:
  assumes "ledger_inv s" and "settled_exactly s"
  shows "rev_collected (revenue_summary None s) = sum_rows (\<lambda>_ p. pay_status p = PayConfirmed) pay_amount (payments s) \<and>
    rev_outstanding (revenue_summary None s) = sum_list (map (\<lambda>(k, i). invoice_balance k i s) (invoices s))"
proof -
  have wf: "wf_table (invoices s)" "wf_table (payments s)" using assms(1) by (simp_all add: ledger_inv_def ledger_unique_def)
  have closed0: "\<forall>(k, i) \<in> set (invoices s). \<not> is_open i \<longrightarrow> invoice_balance k i s = 0"
  proof (intro ballI, clarify)
    fix k i assume "(k, i) \<in> set (invoices s)" "\<not> is_open i"
    with assms(2) in_set_get_row [OF wf(1)] show "invoice_balance k i s = 0"
      by (cases "inv_status i") (auto simp: settled_exactly_def is_open_def)
  qed
  have "sum_list (map (\<lambda>(k, i). invoice_balance k i s) (filter_rows (\<lambda>_. is_open) t)) =
      sum_list (map (\<lambda>(k, i). invoice_balance k i s) t)"
    if "\<forall>(k, i) \<in> set t. \<not> is_open i \<longrightarrow> invoice_balance k i s = 0" for t
    using that by (induction t) (auto simp: filter_rows_def)
  from this [OF closed0] have out: "open_balance (in_year None s) s = sum_list (map (\<lambda>(k, i). invoice_balance k i s) (invoices s))"
    by (simp add: open_balance_def in_year_def)
  have all: "sum_rows (\<lambda>_ i. True) f (invoices s) = sum_list (map (\<lambda>(k, i). f i) (invoices s))" for f :: "invoice \<Rightarrow> rat"
    by (simp add: sum_rows_def filter_rows_def)
  have net: "sum_list (map (\<lambda>(k, i). inv_amount i) t) - sum_list (map (\<lambda>(k, i). inv_discount i) t) -
      sum_list (map (\<lambda>(k, i). invoice_balance k i s) t) = sum_list (map (\<lambda>(k, i). paid_amount k (payments s)) t)" for t
    by (induction t) (auto simp: invoice_balance_def net_amount_def)
  have "\<forall>(j, p) \<in> set (payments s). pay_status p = PayConfirmed \<longrightarrow> pay_invoice p \<in> fst ` set (invoices s)"
  proof (intro ballI, clarify)
    fix j p assume "(j, p) \<in> set (payments s)"
    then have "get_row (payments s) j = Some p" by (rule in_set_get_row [OF wf(2)])
    with assms(1) have "get_row (invoices s) (pay_invoice p) \<noteq> None"
      unfolding ledger_inv_def using ledger_rows_okD(2) payment_ok_def by blast
    then show "pay_invoice p \<in> fst ` set (invoices s)" using get_row_key by fastforce
  qed
  from paid_amounts_add_up [OF wf(1) this] net [of "invoices s"] out show ?thesis
    by (simp add: revenue_summary_def Let_def all in_year_def [abs_def])
qed

text \<open>
  An invoice that was written off counts as collected: with this one invoice and no payment
  at all, the report says that its whole net amount was collected.
\<close>

lemma written_off_counted_as_collected:
  assumes "invoices s = [(k, i)]" and "inv_status i = Inv_Written_Off" and "payments s = []"
  shows "rev_collected (revenue_summary None s) = net_amount i \<and> rev_outstanding (revenue_summary None s) = 0"
  using assms by (simp add: revenue_summary_def Let_def open_balance_def in_year_def is_open_def filter_rows_def net_amount_def)

section \<open>Modules above finance\<close>

text \<open>The operations of finance leave the columns of the modules above it alone.\<close>

lemma confirm_payment_more:
  assumes "confirm_payment c k p paid_at s = Inr s'"
  shows "finance_db.more s' = finance_db.more s"
  using assms
proof (rule confirm_payment_Inr)
  fix p' i st seqs tr
  assume "s' = s\<lparr>id_sequences := seqs, payments := put_row k p' (payments s), invoices := invoices s', audit_log := tr\<rparr>"
  then have "finance_db.more s' = finance_db.more
      (s\<lparr>id_sequences := seqs, payments := put_row k p' (payments s), invoices := invoices s', audit_log := tr\<rparr>)"
    by (rule arg_cong)
  then show ?thesis by simp
qed

lemma save_payment_more: "save_payment c k p p' reason s = Inr s' \<Longrightarrow> finance_db.more s' = finance_db.more s"
  by (erule save_payment_Inr) simp

lemma insert_payment_more: "insert_payment c p reason s = Inr (k, s') \<Longrightarrow> finance_db.more s' = finance_db.more s"
  by (erule insert_payment_Inr) simp

lemma record_manual_payment_more:
  assumes "record_manual_payment c invoice_id meth amount reference actor remark s = Inr (k, s')"
  shows "finance_db.more s' = finance_db.more s"
  using assms
  by (rule record_manual_payment_Inr) (metis confirm_payment_more insert_payment_more)

lemma settle_mobile_payment_more:
  "settle_mobile_payment c k p result s = Inr s' \<Longrightarrow> finance_db.more s' = finance_db.more s"
  by (auto simp: settle_mobile_payment_def Let_def split: payment_state.splits
      dest: confirm_payment_more save_payment_more)

lemma hostel_step_finance_more: "hostel_step s s' \<Longrightarrow> finance_db.more s' = finance_db.more s"
  using hostel_step_more [of s s'] by (cases s; cases s') simp

lemma finance_step_more: "finance_step s s' \<Longrightarrow> finance_db.more s' = finance_db.more s"
proof (induction rule: finance_step.induct)
  case (Invoice c student semester due actor s k s')
  then show ?case by (rule generate_invoice_Inr) simp
next
  case (Manual c invoice_id meth amount reference actor remark s k s')
  then show ?case by (rule record_manual_payment_more)
next
  case (Confirm c k s s')
  then show ?case by (auto simp: confirm_manual_payment_def split: option.splits if_splits dest: confirm_payment_more)
next
  case (Reject c k reason s s')
  then show ?case
    by (auto simp: reject_manual_payment_def Let_def split: option.splits if_splits dest: save_payment_more)
next
  case (Mobile s j i c requested intent k s')
  then show ?case by (auto simp: store_mobile_payment_def Let_def dest: insert_payment_more)
next
  case (Poll s k p c result s')
  then show ?case using settle_mobile_payment_more by blast
next
  case (Webhook c event s m s')
  then show ?case
    by (auto simp: handle_payment_webhook_def split: if_splits option.splits elim!: bindE_InrE dest: confirm_payment_more)
next
  case (Hostel s s')
  then show ?case by (rule hostel_step_finance_more)
qed (auto simp: create_fee_structure_def update_fee_structure_def create_scholarship_def update_scholarship_def
      request_refund_def decide_refund_def mark_refund_paid_def Let_def
      split: if_splits option.splits elim!: bindE_InrE insert_audited_Inr update_audited_Inr)

section \<open>Concrete inputs\<close>

definition sample_fee :: fee_structure where
  "sample_fee = \<lparr>fs_programme = 1, fs_academic_year = 1, fs_level = 1, fs_residency = ''local'', fs_amount = 1000,
     fs_currency = ''SSP'', fs_is_active = True\<rparr>"

definition sample_scholarship :: scholarship where
  "sample_scholarship = \<lparr>sch_student = 1, sch_sponsor = None, sch_academic_year = 1, sch_coverage_type = Fixed_Amount,
     sch_percentage = None, sch_fixed_amount = Some 250, sch_currency = ''SSP'', sch_is_active = True, sch_notes = []\<rparr>"

definition sample_invoice :: invoice where
  "sample_invoice = \<lparr>inv_student = 1, inv_semester = 1, inv_fee_structure = Some 1, inv_number = ''INV/2026/00001'',
     inv_amount = 1300, inv_discount = 250, inv_currency = ''SSP'', inv_status = Inv_Partially_Paid, inv_due_date = 200,
     inv_issued_by = Some 7\<rparr>"

definition sample_payment :: payment where
  "sample_payment = \<lparr>pay_invoice = 1, pay_method = Cash, pay_amount = 100, pay_currency = ''SSP'', pay_provider = [],
     pay_reference = ''desk-1'', pay_status = PayConfirmed, pay_receipt_number = Some ''RCT/2026/00001'',
     pay_received_by = Some 7, pay_confirmed_at = Some 900, pay_notes = [], pay_updated_at = 900\<rparr>"

definition sample_refund :: refund where
  "sample_refund = \<lparr>rf_payment = 1, rf_amount = 40, rf_currency = ''SSP'', rf_reason = ''withdrew'', rf_status = Ref_Paid,
     rf_requested_by = Some 7, rf_decided_by = Some 8, rf_decision_notes = ''agreed'', rf_decided_at = Some 950,
     rf_paid_at = Some 960\<rparr>"

text \<open>One student in the hostel with a scholarship; the tables of the ledger are given.\<close>

definition sample_finance_db :: "invoice table \<Rightarrow> payment table \<Rightarrow> refund table \<Rightarrow> finance_db" where
  "sample_finance_db is ps rs = hostel_db.extend (sample_hostel_db [(1, sample_allocation)])
     \<lparr>fee_structures = [(1, sample_fee)], invoices = is, payments = ps, scholarships = [(1, sample_scholarship)],
      refunds = rs\<rparr>"

lemma sample_finance_tables [simp]:
  "fee_structures (sample_finance_db is ps rs) = [(1, sample_fee)]" "invoices (sample_finance_db is ps rs) = is"
  "payments (sample_finance_db is ps rs) = ps" "refunds (sample_finance_db is ps rs) = rs"
  "scholarships (sample_finance_db is ps rs) = [(1, sample_scholarship)]"
  "audit_log (sample_finance_db is ps rs) = []" "id_sequences (sample_finance_db is ps rs) = []"
  "students (sample_finance_db is ps rs) = [(1, sample_student)]"
  "semesters (sample_finance_db is ps rs) = [(1, sample_semester)]"
  "academic_years (sample_finance_db is ps rs) = [(1, sample_year)]"
  "allocations (sample_finance_db is ps rs) = [(1, sample_allocation)]"
  "hostel_policies (sample_finance_db is ps rs) = [(1, \<lparr>hp_termly_fee = 300, hp_currency = ''SSP''\<rparr>)]"
  by (simp_all add: sample_finance_db_def sample_hostel_db_def sample_enrollment_db_def admissions_db.defs registry_db.defs
      enrollment_db.defs hostel_db.defs sample_admitted_def sample_registry_db_def)

lemma unique_on_singleton [simp]: "unique_on f [(k, r)]"
  by (simp add: unique_on_def get_row_singleton)

lemma wf_table_singleton [simp]: "wf_table [(k, r)]"
  by (simp add: wf_table_def)

lemma sample_ledger_inv: "ledger_inv (sample_finance_db [(1, sample_invoice)] [(1, sample_payment)] [(1, sample_refund)])"
  by (simp add: ledger_inv_def ledger_unique_def ledger_rows_ok_def get_row_singleton invoice_ok_def payment_ok_def
      refund_ok_def fresh_status_def invoice_balance_def net_amount_def paid_amount_def confirmed_for_def status_for_balance_def)
    (simp add: sample_invoice_def sample_payment_def sample_refund_def)

lemma empty_ledger_inv: "ledger_inv (sample_finance_db [] [] [])"
  by (simp add: ledger_inv_def ledger_unique_def ledger_rows_ok_def get_row_def)

lemma first_sensitive_insert:
  "mm_sensitive m \<Longrightarrow> audit_up c \<Longrightarrow> audit_log (upd (add_row r (tbl s)) s) = [] \<Longrightarrow>
     \<exists>e. insert_audited c m audited tbl upd r reason s =
       Inr (fresh_pk (tbl s), (upd (add_row r (tbl s)) s)\<lparr>audit_log := [e]\<rparr>)"
  by (simp add: insert_audited_def audit_save_def record_action_def safe_write_def write_audit_first Let_def)
    (rule exI, rule refl)

lemma sample_lookups:
  "get_programme_id 1 (sample_finance_db is ps rs) = Inr 1" "current_level_for_student 1 (sample_finance_db is ps rs) = Inr 1"
  "residency_for_student 1 (sample_finance_db is ps rs) = Inr ''local''"
  by (simp_all add: get_programme_id_def current_level_for_student_def residency_for_student_def get_student_def get_row_singleton)
    (simp_all add: sample_student_def blank_student_def)

lemma sample_generate:
  "\<exists>s' i. generate_invoice sample_ctx 1 1 None (Some sample_user) (sample_finance_db [] [] []) = Inr (1, s') \<and>
     invoices s' = [(1, i)] \<and> inv_amount i = 1300 \<and> inv_discount i = 250 \<and> inv_status i = Inv_Issued"
proof -
  let ?s = "sample_finance_db [] [] []"
  obtain number s1 where gen: "generate_invoice_number ''2026/2027'' ?s = (number, s1)" by (rule prod.exhaust)
  from invoice_number_state [OF gen] obtain seqs where s1: "s1 = ?s\<lparr>id_sequences := seqs\<rparr>" by blast
  have number: "number = ''INV/2026/00001''"
  proof -
    have "leading_year ''2026/2027'' = ''2026''" and "pad0 5 (str_nat 1) = ''00001''" by code_simp+
    with gen show ?thesis by (simp add: generate_invoice_number_def allocate_def Let_def)
  qed
  have fs: "applicable_fee_structure 1 1 1 ''local'' ?s = Inr (1, sample_fee)"
    by (simp add: applicable_fee_structure_def first_row_def) (simp add: sample_fee_def)
  have disc: "scholarship_discount 1 1 1000 ?s = Inr 250"
    by (simp add: scholarship_discount_def first_row_def) (simp add: sample_scholarship_def discount_for_def)
  have fee: "fee_for_active_allocation sample_ctx 1 1 ?s = 300"
    by (simp add: fee_for_active_allocation_def exists_row_def policy_defaults_def first_row_def) (simp add: sample_allocation_def)
  define i where "i = sample_invoice\<lparr>inv_status := Inv_Issued\<rparr>"
  have clean: "invoice_full_clean None i s1 = Inr ()"
    by (simp add: invoice_full_clean_def i_def s1 get_row_singleton exists_row_def money_amount_field_def currency_field_def
        Currency_values_def MONEY_MAX_DIGITS_def) (simp add: sample_invoice_def get_row_singleton)
  have "mm_sensitive invoice_meta" "audit_up sample_ctx" by (simp_all add: invoice_meta_def sample_ctx_def)
  then obtain e where ins: "insert_audited sample_ctx invoice_meta invoice_audit invoices put_invoices i ''Invoice issued'' s1 =
      Inr (1, s1\<lparr>invoices := [(1, i)], audit_log := [e]\<rparr>)"
    using first_sensitive_insert [of invoice_meta sample_ctx put_invoices i invoices s1 invoice_audit "''Invoice issued''"]
    by (auto simp: s1 add_row_def fresh_pk_def)
  have row: "\<lparr>inv_student = 1, inv_semester = 1, inv_fee_structure = Some 1, inv_number = number, inv_amount = 1000 + 300,
      inv_discount = 250, inv_currency = ''SSP'', inv_status = Inv_Issued, inv_due_date = 200,
      inv_issued_by = actor_fk (Some sample_user)\<rparr> = i"
    by (simp add: i_def sample_invoice_def number actor_fk_def sample_user_def)
  have fields: "sem_academic_year sample_semester = 1" "sem_teaching_end sample_semester = 200" "ay_name sample_year = ''2026/2027''"
    "fs_amount sample_fee = 1000" "fs_currency sample_fee = ''SSP''"
    by (simp_all add: sample_semester_def sample_year_def sample_fee_def)
  have "generate_invoice sample_ctx 1 1 None (Some sample_user) ?s = Inr (1, s1\<lparr>invoices := [(1, i)], audit_log := [e]\<rparr>)"
    using fs disc fee gen clean ins row fields sample_lookups [of "[]" "[]" "[]"]
    by (simp add: generate_invoice_def exists_row_def get_semester_def get_row_singleton academic_year_name_def
        Let_def)
  then show ?thesis by (simp add: i_def sample_invoice_def)
qed

lemma ledger_consistent_witness:
  "\<exists>s' i. finance_step (sample_finance_db [] [] []) s' \<and> ledger_inv s' \<and> invoices s' = [(1, i)] \<and> net_amount i = 1050"
proof -
  from sample_generate obtain s' i where
    gen: "generate_invoice sample_ctx 1 1 None (Some sample_user) (sample_finance_db [] [] []) = Inr (1, s')"
    and i: "invoices s' = [(1, i)]" "inv_amount i = 1300" "inv_discount i = 250" by blast
  from gen have step: "finance_step (sample_finance_db [] [] []) s'" by (rule finance_step.Invoice)
  have "ledger_inv s'"
    using r_into_rtranclp [of finance_step, OF step] empty_ledger_inv by (rule ledger_consistent)
  with step i show ?thesis by (auto simp: net_amount_def)
qed

lemma sample_request:
  assumes "amount \<le> 100 - already_claimed 1 rs" and "money_amount_field amount"
  shows "\<exists>s' r. request_refund sample_ctx 1 amount ''left the programme'' (Some sample_user)
       (sample_finance_db [(1, sample_invoice)] [(1, sample_payment)] rs) = Inr (fresh_pk rs, s') \<and>
     payments s' = [(1, sample_payment)] \<and> refunds s' = add_row r rs \<and> rf_payment r = 1 \<and>
     rf_amount r = amount \<and> rf_status r = Ref_Requested"
proof -
  let ?s = "sample_finance_db [(1, sample_invoice)] [(1, sample_payment)] rs"
  define r where "r = \<lparr>rf_payment = 1, rf_amount = amount, rf_currency = ''SSP'', rf_reason = ''left the programme'',
    rf_status = Ref_Requested, rf_requested_by = actor_fk (Some sample_user), rf_decided_by = None,
    rf_decision_notes = [], rf_decided_at = None, rf_paid_at = None\<rparr>"
  have clean: "refund_full_clean r ?s = Inr ()"
    using assms(2) by (simp add: refund_full_clean_def r_def get_row_singleton currency_field_def Currency_values_def)
  have "mm_sensitive refund_meta" "audit_up sample_ctx" by (simp_all add: refund_meta_def sample_ctx_def)
  then obtain e where ins: "insert_audited sample_ctx refund_meta refund_audit refunds put_refunds r ''Refund requested'' ?s =
      Inr (fresh_pk rs, ?s\<lparr>refunds := add_row r rs, audit_log := [e]\<rparr>)"
    using first_sensitive_insert [of refund_meta sample_ctx put_refunds r refunds ?s refund_audit "''Refund requested''"]
    by auto
  have vals: "pay_status sample_payment = PayConfirmed" "pay_amount sample_payment = 100" "pay_currency sample_payment = ''SSP''"
    by (simp_all add: sample_payment_def)
  have "nonblank ''left the programme''" by code_simp
  then have "request_refund sample_ctx 1 amount ''left the programme'' (Some sample_user) ?s =
      Inr (fresh_pk rs, ?s\<lparr>refunds := add_row r rs, audit_log := [e]\<rparr>)"
    using clean ins assms(1) by (simp add: request_refund_def get_row_singleton vals Let_def r_def)
  then show ?thesis
    by (intro exI [of _ "?s\<lparr>refunds := add_row r rs, audit_log := [e]\<rparr>"] exI [of _ r]) (simp add: r_def)
qed

lemma sample_claimed:
  "already_claimed 1 [(1, sample_refund)] = 40"
  "already_claimed 1 [(1, sample_refund\<lparr>rf_amount := q, rf_status := Ref_Requested\<rparr>)] = q"
  by (simp_all add: already_claimed_def claims_on_def sample_refund_def)

lemma sample_amounts: "money_amount_field 60" "money_amount_field (- 50)" "money_amount_field 150"
  by (simp_all add: money_amount_field_def MONEY_MAX_DIGITS_def)

text \<open>Of the payment of 100, 40 have been refunded; the rest is requested.\<close>

lemma sample_request_rest:
  "\<exists>s' r. request_refund sample_ctx 1 60 ''left the programme'' (Some sample_user)
       (sample_finance_db [(1, sample_invoice)] [(1, sample_payment)] [(1, sample_refund)]) = Inr (2, s') \<and>
     payments s' = [(1, sample_payment)] \<and> refunds s' = [(1, sample_refund), (2, r)] \<and> rf_payment r = 1 \<and>
     rf_amount r = 60 \<and> rf_status r = Ref_Requested"
  using sample_request [of 60 "[(1, sample_refund)]"] sample_claimed(1) sample_amounts(1)
  by (simp add: add_row_def fresh_pk_def numeral_2_eq_2)

lemma settled_rows_final_witness:
  "\<exists>s'. finance_step (sample_finance_db [(1, sample_invoice)] [(1, sample_payment)] [(1, sample_refund)]) s' \<and>
     get_row (payments s') 1 = Some sample_payment \<and> get_row (refunds s') 1 = Some sample_refund"
proof -
  let ?s = "sample_finance_db [(1, sample_invoice)] [(1, sample_payment)] [(1, sample_refund)]"
  from sample_request_rest obtain s' where
    "request_refund sample_ctx 1 60 ''left the programme'' (Some sample_user) ?s = Inr (2, s')" by blast
  then have step: "finance_step ?s s'" by (rule finance_step.Request)
  from settled_rows_final [OF r_into_rtranclp [of finance_step, OF step] sample_ledger_inv, of 1 1]
  show ?thesis using step by (auto simp: get_row_singleton sample_payment_def sample_refund_def)
qed

lemma refunds_within_payment_witness:
  "\<exists>s'. finance_step (sample_finance_db [(1, sample_invoice)] [(1, sample_payment)] [(1, sample_refund)]) s' \<and>
     length (refunds s') = 2 \<and> already_claimed 1 (refunds s') \<le> 100"
proof -
  let ?s = "sample_finance_db [(1, sample_invoice)] [(1, sample_payment)] [(1, sample_refund)]"
  from sample_request_rest obtain s' r where
    "request_refund sample_ctx 1 60 ''left the programme'' (Some sample_user) ?s = Inr (2, s')"
    and s': "payments s' = [(1, sample_payment)]" "refunds s' = [(1, sample_refund), (2, r)]"
    and r: "rf_payment r = 1" "rf_amount r = 60" "rf_status r = Ref_Requested" by blast
  then have step: "finance_step ?s s'" by (blast intro: finance_step.Request)
  have "refunds_bounded ?s"
    by (simp add: refunds_bounded_def get_row_singleton already_claimed_def claims_on_def)
      (simp add: sample_refund_def sample_payment_def)
  moreover have "refund_amounts_nonneg s'"
    by (auto simp: refund_amounts_nonneg_def s' get_row_def r split: if_splits) (simp_all add: sample_refund_def)
  moreover have "get_row (payments s') 1 = Some sample_payment" by (simp add: s' get_row_singleton)
  moreover have "exists_row (claims_on 1) (refunds s')" by (simp add: s' exists_row_def claims_on_def r)
  ultimately have "already_claimed 1 (refunds s') \<le> pay_amount sample_payment"
    using refunds_within_payment [OF r_into_rtranclp [of finance_step, OF step] sample_ledger_inv] by blast
  then have "length (refunds s') = 2 \<and> already_claimed 1 (refunds s') \<le> 100" by (simp add: s' sample_payment_def)
  with step show ?thesis by blast
qed

lemma revenue_adds_up_witness:
  "rev_collected (revenue_summary None (sample_finance_db [(1, sample_invoice)] [(1, sample_payment)] [])) = 100"
proof -
  let ?s = "sample_finance_db [(1, sample_invoice)] [(1, sample_payment)] []"
  have "ledger_inv ?s"
    using sample_ledger_inv by (auto simp: ledger_inv_def ledger_unique_def ledger_rows_ok_def invoice_ok_def fresh_status_def
        invoice_balance_def payment_ok_def get_row_def split: if_splits)
  moreover have "settled_exactly ?s"
    by (simp add: settled_exactly_def get_row_singleton) (simp add: sample_invoice_def)
  ultimately show ?thesis using revenue_adds_up [of ?s] by (simp add: sample_payment_def)
qed

text \<open>
  A negative refund opens the cap. The column accepts negative amounts, and after a refund of
  minus 50 has been requested of the payment of 100, a refund of 150 is accepted.
\<close>

lemma negative_refund_opens_cap:
  "(\<exists>s'. request_refund sample_ctx 1 (- 50) ''left the programme'' (Some sample_user)
      (sample_finance_db [(1, sample_invoice)] [(1, sample_payment)] []) = Inr (1, s')) \<and>
   (\<exists>s'. request_refund sample_ctx 1 150 ''left the programme'' (Some sample_user)
      (sample_finance_db [(1, sample_invoice)] [(1, sample_payment)]
         [(1, sample_refund\<lparr>rf_amount := - 50, rf_status := Ref_Requested\<rparr>)]) = Inr (2, s'))"
  using sample_request [of "- 50" "[]"] sample_amounts sample_claimed(2) [of "- 50"]
    sample_request [of 150 "[(1, sample_refund\<lparr>rf_amount := - 50, rf_status := Ref_Requested\<rparr>)]"]
  by (auto simp: already_claimed_def fresh_pk_def numeral_2_eq_2)

end
