(* ===== verification/Calendar_Dates.thy ===== *)
theory Calendar_Dates
  imports Payload
begin

text \<open>
  Dates and times of day as the payloads of the sync handlers and the audit trail spell them.
  A date is its proleptic Gregorian ordinal (\<open>date.toordinal()\<close>: 1 is the first of January of
  year 1), a time of day the seconds since midnight. The lemmas relate the calendar to the
  ordinals and show that \<open>date.fromisoformat\<close> reads back what \<open>isoformat\<close> writes.
\<close>

section \<open>The calendar\<close>

definition is_leap :: "int \<Rightarrow> bool" where
  "is_leap y \<longleftrightarrow> y mod 4 = 0 \<and> (y mod 100 \<noteq> 0 \<or> y mod 400 = 0)"

definition month_lengths :: "int \<Rightarrow> int list" where
  "month_lengths y = [31, if is_leap y then 29 else 28, 31, 30, 31, 30, 31, 31, 30, 31, 30, 31]"

definition days_before_year :: "int \<Rightarrow> int" where
  "days_before_year y = (y - 1) * 365 + (y - 1) div 4 - (y - 1) div 100 + (y - 1) div 400"

definition ymd_to_ord :: "int \<Rightarrow> nat \<Rightarrow> int \<Rightarrow> int" where
  "ymd_to_ord y m d = days_before_year y + sum_list (take (m - 1) (month_lengths y)) + d"

fun month_and_day :: "int list \<Rightarrow> nat \<Rightarrow> int \<Rightarrow> nat \<times> int" where
  "month_and_day [] m n = (m, n + 1)"
| "month_and_day (len # rest) m n = (if n < len then (m, n + 1) else month_and_day rest (Suc m) (n - len))"

definition ord_to_ymd :: "int \<Rightarrow> int \<times> nat \<times> int" where
  "ord_to_ymd ordinal =
     (let n400 = (ordinal - 1) div 146097; a = (ordinal - 1) mod 146097;
          n100 = a div 36524; b = a mod 36524;
          n4 = b div 1461; e = b mod 1461;
          n1 = e div 365; n = e mod 365;
          y = n400 * 400 + n100 * 100 + n4 * 4 + n1 + 1
      in if n1 = 4 \<or> n100 = 4 then (y - 1, 12, 31)
         else (y, month_and_day (month_lengths y) 1 n))"

definition valid_ymd :: "int \<Rightarrow> nat \<Rightarrow> int \<Rightarrow> bool" where
  "valid_ymd y m d \<longleftrightarrow> 1 \<le> y \<and> y \<le> 9999 \<and> 1 \<le> m \<and> m \<le> 12 \<and> 1 \<le> d \<and> d \<le> month_lengths y ! (m - 1)"

definition MAX_ORDINAL :: int where "MAX_ORDINAL = 3652059"

section \<open>Texts\<close>

definition iso_date :: "int \<Rightarrow> string" where
  "iso_date ordinal =
     (case ord_to_ymd ordinal of (y, m, d) \<Rightarrow>
        pad0 4 (str_nat (nat y)) @ ''-'' @ pad0 2 (str_nat m) @ ''-'' @ pad0 2 (str_nat (nat d)))"

definition time_text :: "int \<Rightarrow> string" where
  "time_text t =
     pad0 2 (str_nat (nat (t div 3600))) @ '':'' @ pad0 2 (str_nat (nat (t div 60 mod 60))) @ '':'' @
     pad0 2 (str_nat (nat (t mod 60)))"

text \<open>Exactly \<open>k\<close> digits at position \<open>p\<close>.\<close>

definition digits_at :: "string \<Rightarrow> nat \<Rightarrow> nat \<Rightarrow> nat option" where
  "digits_at s p k =
     (let ds = take k (drop p s) in
      if length ds = k \<and> list_all is_digit ds then Some (digits_value ds) else None)"

text \<open>The date of an ISO week: the days of a week are numbered from Monday (1).\<close>

definition week1_monday :: "int \<Rightarrow> int" where
  "week1_monday y =
     (let first = ymd_to_ord y 1 1; weekday = (first + 6) mod 7; monday = first - weekday
      in if 3 < weekday then monday + 7 else monday)"

definition week_to_ord :: "int \<Rightarrow> nat \<Rightarrow> nat \<Rightarrow> int option" where
  "week_to_ord y week dow =
     (let first_weekday = (ymd_to_ord y 1 1 + 6) mod 7;
          week_ok = 1 \<le> week \<and> (week < 53 \<or> week = 53 \<and> (first_weekday = 3 \<or> first_weekday = 2 \<and> is_leap y));
          n = week1_monday y + (int week - 1) * 7 + int dow - 1
      in if 1 \<le> y \<and> week_ok \<and> 1 \<le> dow \<and> dow \<le> 7 \<and> 1 \<le> n \<and> n \<le> MAX_ORDINAL then Some n else None)"

text \<open>\<open>date.fromisoformat\<close>: calendar dates and week dates, with the separators or without.\<close>

definition date_fromisoformat :: "string \<Rightarrow> exn + int" where
  "date_fromisoformat s =
     from_option ValueError
      (if length s \<notin> {7, 8, 10} then None
       else case digits_at s 0 4 of None \<Rightarrow> None | Some y \<Rightarrow>
         (let sep = s ! 4 = CHR ''-''; p = (if sep then 5 else 4) in
          if s ! p = CHR ''W''
          then case digits_at s (p + 1) 2 of None \<Rightarrow> None | Some week \<Rightarrow>
            if length s = p + 3 then week_to_ord (int y) week 1
            else if sep \<and> s ! (p + 3) \<noteq> CHR ''-'' then None
            else case digits_at s (if sep then p + 4 else p + 3) 1 of None \<Rightarrow> None | Some dow \<Rightarrow>
                   week_to_ord (int y) week dow
          else case digits_at s p 2 of None \<Rightarrow> None | Some m \<Rightarrow>
            if sep \<and> take 1 (drop (p + 2) s) \<noteq> ''-'' then None
            else case digits_at s (if sep then p + 3 else p + 2) 2 of None \<Rightarrow> None | Some d \<Rightarrow>
                   if length s = (if sep then p + 5 else p + 4) \<and> valid_ymd (int y) m (int d)
                   then Some (ymd_to_ord (int y) m (int d)) else None))"

section \<open>The calendar and the ordinals\<close>

lemma month_lengths_nth: "m < 12 \<Longrightarrow> month_lengths y ! m \<le> 31 \<and> 28 \<le> month_lengths y ! m"
  by (auto simp: month_lengths_def numeral_eq_Suc less_Suc_eq)

lemma month_and_day_sound:
  assumes "0 \<le> n" and "n < sum_list lens" and "month_and_day lens m0 n = (m, d)"
  shows "m0 \<le> m \<and> m < m0 + length lens \<and> 1 \<le> d \<and> d \<le> lens ! (m - m0) \<and> sum_list (take (m - m0) lens) + d = n + 1"
  using assms
proof (induction lens arbitrary: m0 n)
  case (Cons len rest)
  show ?case
  proof (cases "n < len")
    case True
    with Cons.prems show ?thesis by auto
  next
    case False
    with Cons.prems have "month_and_day rest (Suc m0) (n - len) = (m, d)" and "n - len < sum_list rest" by auto
    from Cons.IH [OF _ this(2,1)] False have ih: "Suc m0 \<le> m \<and> m < Suc m0 + length rest \<and> 1 \<le> d \<and>
        d \<le> rest ! (m - Suc m0) \<and> sum_list (take (m - Suc m0) rest) + d = n - len + 1" by simp
    then have "m - m0 = Suc (m - Suc m0)" by linarith
    with ih show ?thesis by simp
  qed
qed simp

lemma year_length: "sum_list (month_lengths y) = (if is_leap y then 366 else 365)"
  by (simp add: month_lengths_def)

text \<open>An ordinal is taken apart into cycles of 400, 100, 4 and 1 years and a day of the year.\<close>

lemma ordinal_cycles:
  fixes q h f a n :: int
  assumes "0 \<le> h" "h \<le> 3" "0 \<le> f" "f \<le> 24" "0 \<le> a" "a \<le> 3"
  shows "days_before_year (q * 400 + h * 100 + f * 4 + a + 1) = q * 146097 + h * 36524 + f * 1461 + a * 365"
    and "is_leap (q * 400 + h * 100 + f * 4 + a + 1) \<longleftrightarrow> a = 3 \<and> (f \<noteq> 24 \<or> h = 3)"
proof -
  let ?y = "q * 400 + h * 100 + f * 4 + a"
  have "?y div 4 = q * 100 + h * 25 + f" by (rule int_div_pos_eq [where r = a]) (use assms in auto)
  moreover have "?y div 100 = q * 4 + h" by (rule int_div_pos_eq [where r = "f * 4 + a"]) (use assms in auto)
  moreover have "?y div 400 = q" by (rule int_div_pos_eq [where r = "h * 100 + f * 4 + a"]) (use assms in auto)
  ultimately show "days_before_year (?y + 1) = q * 146097 + h * 36524 + f * 1461 + a * 365"
    by (simp add: days_before_year_def)
  have last: "r mod b = 0 \<longleftrightarrow> r = b" if "1 \<le> r" "r \<le> b" for r b :: int
    using that by (cases "r = b") auto
  have "?y + 1 = (a + 1) + (q * 100 + h * 25 + f) * 4" by simp
  then have "(?y + 1) mod 4 = (a + 1) mod 4" by (simp only: mod_mult_self1)
  moreover have "?y + 1 = (f * 4 + a + 1) + (q * 4 + h) * 100" by simp
  then have "(?y + 1) mod 100 = (f * 4 + a + 1) mod 100" by (simp only: mod_mult_self1)
  moreover have "?y + 1 = (h * 100 + f * 4 + a + 1) + q * 400" by simp
  then have "(?y + 1) mod 400 = (h * 100 + f * 4 + a + 1) mod 400" by (simp only: mod_mult_self1)
  moreover have "(a + 1) mod 4 = 0 \<longleftrightarrow> a + 1 = 4" "(f * 4 + a + 1) mod 100 = 0 \<longleftrightarrow> f * 4 + a + 1 = 100"
    "(h * 100 + f * 4 + a + 1) mod 400 = 0 \<longleftrightarrow> h * 100 + f * 4 + a + 1 = 400"
    by (rule last; use assms in linarith)+
  moreover have "a + 1 = 4 \<longleftrightarrow> a = 3" by linarith
  moreover have "f * 4 + a + 1 = 100 \<longleftrightarrow> f = 24 \<and> a = 3"
    by (intro iffI conjI; (elim conjE)?) (use assms in linarith)+
  moreover have "h * 100 + f * 4 + a + 1 = 400 \<longleftrightarrow> h = 3 \<and> f = 24 \<and> a = 3"
    by (intro iffI conjI; (elim conjE)?) (use assms in linarith)+
  ultimately have "(?y + 1) mod 4 = 0 \<longleftrightarrow> a = 3" "(?y + 1) mod 100 = 0 \<longleftrightarrow> f = 24 \<and> a = 3"
    "(?y + 1) mod 400 = 0 \<longleftrightarrow> h = 3 \<and> f = 24 \<and> a = 3" by (simp_all only:)
  then show "is_leap (?y + 1) \<longleftrightarrow> a = 3 \<and> (f \<noteq> 24 \<or> h = 3)"
    by (auto simp: is_leap_def)
qed

theorem ordinal_roundtrip:
  assumes "1 \<le> n" and "n \<le> MAX_ORDINAL"
  shows "case ord_to_ymd n of (y, m, d) \<Rightarrow> valid_ymd y m d \<and> ymd_to_ord y m d = n"
proof -
  define q b where "q = (n - 1) div 146097" and "b = (n - 1) mod 146097"
  define h e where "h = b div 36524" and "e = b mod 36524"
  define f g where "f = e div 1461" and "g = e mod 1461"
  define a r where "a = g div 365" and "r = g mod 365"
  note defs = q_def b_def h_def e_def f_def g_def a_def r_def
  have n: "n = 146097 * q + b + 1" "b = 36524 * h + e" "e = 1461 * f + g" "g = 365 * a + r"
    by (simp_all add: defs)
  have bounds: "0 \<le> b" "b < 146097" "0 \<le> e" "e < 36524" "0 \<le> g" "g < 1461" "0 \<le> r" "r < 365"
    by (simp_all add: defs)
  have "0 \<le> q" "q \<le> 24" using assms by (simp_all add: q_def MAX_ORDINAL_def)
  have "0 \<le> h" "h \<le> 4" "0 \<le> f" "f \<le> 24" "0 \<le> a" "a \<le> 4" using n(2-4) bounds by linarith+
  let ?y = "q * 400 + h * 100 + f * 4 + a + 1"
  have res: "ord_to_ymd n = (if a = 4 \<or> h = 4 then (?y - 1, 12, 31) else (?y, month_and_day (month_lengths ?y) 1 r))"
    by (simp only: ord_to_ymd_def Let_def defs)
  consider "h = 4" | "h \<le> 3" "a = 4" | "h \<le> 3" "a \<le> 3" using \<open>h \<le> 4\<close> \<open>a \<le> 4\<close> by linarith
  then show ?thesis
  proof cases
    case 1
    have "e = 0" "f = 0" "a = 0" using n bounds 1 \<open>0 \<le> f\<close> \<open>0 \<le> a\<close> by linarith+
    then have "n = q * 146097 + 146097" using n bounds 1 by linarith
    moreover have "ord_to_ymd n = (q * 400 + 400, 12, 31)" using res 1 \<open>f = 0\<close> \<open>a = 0\<close> by simp
    moreover have "q \<le> 23" using assms(2) \<open>n = q * 146097 + 146097\<close> by (simp add: MAX_ORDINAL_def)
    ultimately show ?thesis
      using ordinal_cycles [of 3 24 3 q] \<open>0 \<le> q\<close> by (simp add: valid_ymd_def ymd_to_ord_def month_lengths_def add.commute)
  next
    case 2
    then have "r = 0" "f \<noteq> 24" using n bounds by linarith+
    then have "ord_to_ymd n = (q * 400 + h * 100 + f * 4 + 3 + 1, 12, 31)"
      and "n = q * 146097 + h * 36524 + f * 1461 + 3 * 365 + 366" using res 2 n by simp_all
    with ordinal_cycles [of h f 3 q] 2(1) \<open>f \<noteq> 24\<close> \<open>0 \<le> h\<close> \<open>0 \<le> f\<close> \<open>f \<le> 24\<close> \<open>0 \<le> q\<close> \<open>q \<le> 24\<close> show ?thesis
      by (simp add: valid_ymd_def ymd_to_ord_def month_lengths_def)
  next
    case 3
    note cyc = ordinal_cycles [OF \<open>0 \<le> h\<close> 3(1) \<open>0 \<le> f\<close> \<open>f \<le> 24\<close> \<open>0 \<le> a\<close> 3(2), of q]
    have "r < sum_list (month_lengths ?y)" using bounds by (simp add: year_length)
    with bounds obtain m d where md: "month_and_day (month_lengths ?y) 1 r = (m, d)" "1 \<le> m" "m < 13" "1 \<le> d"
      "d \<le> month_lengths ?y ! (m - 1)" "sum_list (take (m - 1) (month_lengths ?y)) + d = r + 1"
      using month_and_day_sound [of r "month_lengths ?y" 1] by (cases "month_and_day (month_lengths ?y) 1 r") (auto simp: month_lengths_def)
    have "?y \<le> 9999"
    proof (rule ccontr)
      assume "\<not> ?y \<le> 9999"
      with 3 \<open>f \<le> 24\<close> \<open>q \<le> 24\<close> have "q = 24" "h = 3" "f = 24" "a = 3" by linarith+
      with n bounds assms(2) show False by (simp add: MAX_ORDINAL_def)
    qed
    moreover have "1 \<le> ?y" using \<open>0 \<le> q\<close> \<open>0 \<le> h\<close> \<open>0 \<le> f\<close> \<open>0 \<le> a\<close> by linarith
    moreover have "ymd_to_ord ?y m d = n" using n cyc(1) md(6) by (simp add: ymd_to_ord_def)
    ultimately show ?thesis using 3 md(1-5) by (simp add: res valid_ymd_def)
  qed
qed

lemma ordinal_roundtrip_witness: "ord_to_ymd 738000 = (2021, 7, 29) \<and> ymd_to_ord 2021 7 29 = 738000"
proof -
  have "ord_to_ymd 738000 = (2021, 7, 29)" by code_simp
  with ordinal_roundtrip [of 738000] show ?thesis by (simp add: MAX_ORDINAL_def)
qed

section \<open>Dates and their texts\<close>

lemma str_nat_length: "n < 10 ^ w \<Longrightarrow> 0 < w \<Longrightarrow> length (str_nat n) \<le> w"
proof (induction w arbitrary: n)
  case (Suc w)
  show ?case
  proof (cases "n < 10")
    case False
    then have "0 < w" using Suc.prems by (cases w) auto
    moreover have "n div 10 < 10 ^ w" using Suc.prems by (simp add: less_mult_imp_div_less mult.commute)
    ultimately show ?thesis using Suc.IH [of "n div 10"] False by (simp add: str_nat_large)
  qed (simp add: str_nat_small)
qed simp

lemma pad0_text:
  assumes "n < 10 ^ w" and "0 < w"
  shows "length (pad0 w (str_nat n)) = w \<and> digits_value (pad0 w (str_nat n)) = n \<and> list_all is_digit (pad0 w (str_nat n))"
  using str_nat_length [OF assms] pad0_digits [of w n] by (auto simp: pad0_def list_all_iff)

lemma digits_at_field:
  assumes "list_all is_digit ds" and "length pre = p" and "length ds = k"
  shows "digits_at (pre @ ds @ post) p k = Some (digits_value ds)"
  using assms by (auto simp: digits_at_def)

text \<open>What \<open>isoformat\<close> writes, \<open>fromisoformat\<close> reads back.\<close>

theorem date_text_roundtrip:
  assumes "1 \<le> n" and "n \<le> MAX_ORDINAL"
  shows "date_fromisoformat (iso_date n) = Inr n"
proof -
  obtain y m d where ymd: "ord_to_ymd n = (y, m, d)" by (cases "ord_to_ymd n")
  with ordinal_roundtrip [OF assms] have v: "valid_ymd y m d" and n: "ymd_to_ord y m d = n" by auto
  define Y M D where "Y = pad0 4 (str_nat (nat y))" and "M = pad0 2 (str_nat m)" and "D = pad0 2 (str_nat (nat d))"
  have "d \<le> 31" using v month_lengths_nth [of "m - 1" y] by (fastforce simp: valid_ymd_def)
  then have Y: "length Y = 4" "digits_value Y = nat y" "list_all is_digit Y"
    and M: "length M = 2" "digits_value M = m" "list_all is_digit M"
    and D: "length D = 2" "digits_value D = nat d" "list_all is_digit D"
    using v pad0_text [of "nat y" 4] pad0_text [of m 2] pad0_text [of "nat d" 2]
    by (auto simp: valid_ymd_def Y_def M_def D_def)
  let ?s = "Y @ ''-'' @ M @ ''-'' @ D"
  have iso: "iso_date n = ?s" by (simp add: iso_date_def ymd Y_def M_def D_def)
  have "digits_at ?s 0 4 = Some (nat y)" "digits_at ?s 5 2 = Some m" "digits_at ?s 8 2 = Some (nat d)"
    using digits_at_field [OF Y(3), of "[]" 0 4] digits_at_field [OF M(3), of "Y @ ''-''" 5 2]
      digits_at_field [OF D(3), of "Y @ ''-'' @ M @ ''-''" 8 2, of "[]"] Y M D by simp_all
  moreover have "?s ! 4 = CHR ''-''" "?s ! 5 \<noteq> CHR ''W''" "take 1 (drop 7 ?s) = ''-''" "length ?s = 10"
  proof -
    have "M ! 0 \<noteq> CHR ''W''" using M(1,3) by (cases M) (auto simp: is_digit_def)
    then show "?s ! 5 \<noteq> CHR ''W''" using Y M by (simp add: nth_append)
  qed (use Y M D in \<open>simp_all add: nth_append\<close>)
  ultimately show ?thesis
    unfolding iso date_fromisoformat_def Let_def using v n by (simp add: valid_ymd_def)
qed

lemma date_text_roundtrip_witness: "date_fromisoformat (iso_date 738886) = Inr 738886 \<and> iso_date 738886 = ''2024-01-01''"
  using date_text_roundtrip [of 738886] by (simp add: MAX_ORDINAL_def) code_simp


end
