(* ===== verification/Timetabling.thy ===== *)
theory Timetabling
  imports Finance_Ledger Calendar_Dates "HOL-Library.Product_Lexorder"
begin

text \<open>
  The weekly class timetable and the exam timetable: the models of \<open>timetabling/models.py\<close> and
  the services of \<open>timetabling/services.py\<close>. Double bookings are excluded by one argument for
  rooms, lecturers and exam rooms, the locale \<open>booking\<close>.
\<close>

section \<open>Models\<close>

record tt_room =
  ttr_code :: string
  ttr_name :: string
  ttr_building :: string
  ttr_capacity :: nat
  ttr_is_active :: bool

record timetable_entry =
  te_course :: nat
  te_semester :: nat
  te_room :: "nat option"
  te_lecturer :: "nat option"
  te_day_of_week :: nat
  te_start_time :: int
  te_end_time :: int
  te_is_published :: bool
  te_published_at :: "int option"
  te_published_by :: "nat option"

record exam_timetable =
  ex_course :: nat
  ex_semester :: nat
  ex_room :: "nat option"
  ex_invigilators :: "nat list"
  ex_exam_date :: int
  ex_start_time :: int
  ex_end_time :: int
  ex_is_published :: bool
  ex_published_at :: "int option"
  ex_published_by :: "nat option"

record timetabling_db = finance_db +
  tt_rooms :: "tt_room table"
  timetable_entries :: "timetable_entry table"
  exam_timetables :: "exam_timetable table"

abbreviation put_tt_rooms :: "tt_room table \<Rightarrow> 'a timetabling_db_scheme \<Rightarrow> 'a timetabling_db_scheme" where
  "put_tt_rooms t s \<equiv> s\<lparr>tt_rooms := t\<rparr>"

abbreviation put_entries :: "timetable_entry table \<Rightarrow> 'a timetabling_db_scheme \<Rightarrow> 'a timetabling_db_scheme" where
  "put_entries t s \<equiv> s\<lparr>timetable_entries := t\<rparr>"

abbreviation put_exams :: "exam_timetable table \<Rightarrow> 'a timetabling_db_scheme \<Rightarrow> 'a timetabling_db_scheme" where
  "put_exams t s \<equiv> s\<lparr>exam_timetables := t\<rparr>"

definition tt_room_meta :: model_meta where
  "tt_room_meta = \<lparr>mm_label = ''timetabling.room'', mm_verbose = ''room'', mm_sensitive = False\<rparr>"

definition tt_room_audit :: "tt_room \<Rightarrow> (string \<times> pyval) list" where
  "tt_room_audit r =
     [(''code'', VStr (ttr_code r)), (''name'', VStr (ttr_name r)), (''capacity'', VInt (int (ttr_capacity r))),
      (''is_active'', VBool (ttr_is_active r))]"

definition entry_meta :: model_meta where
  "entry_meta = \<lparr>mm_label = ''timetabling.timetableentry'', mm_verbose = ''timetable entry'', mm_sensitive = False\<rparr>"

definition entry_audit :: "timetable_entry \<Rightarrow> (string \<times> pyval) list" where
  "entry_audit e =
     [(''course'', VInt (int (te_course e))), (''semester'', VInt (int (te_semester e))),
      (''day_of_week'', VInt (int (te_day_of_week e))), (''start_time'', VText (time_text (te_start_time e))),
      (''end_time'', VText (time_text (te_end_time e))), (''room'', opt_nat (te_room e)),
      (''lecturer'', opt_nat (te_lecturer e)), (''is_published'', VBool (te_is_published e))]"

definition exam_meta :: model_meta where
  "exam_meta =
     \<lparr>mm_label = ''timetabling.examtimetable'', mm_verbose = ''exam timetable entry'', mm_sensitive = False\<rparr>"

definition exam_audit :: "exam_timetable \<Rightarrow> (string \<times> pyval) list" where
  "exam_audit e =
     [(''course'', VInt (int (ex_course e))), (''semester'', VInt (int (ex_semester e))),
      (''exam_date'', VText (iso_date (ex_exam_date e))), (''start_time'', VText (time_text (ex_start_time e))),
      (''end_time'', VText (time_text (ex_end_time e))), (''room'', opt_nat (ex_room e)),
      (''is_published'', VBool (ex_is_published e))]"

text \<open>A foreign key that may be null refers to a row if it is set.\<close>

definition opt_ref :: "nat option \<Rightarrow> 'r table \<Rightarrow> bool" where
  "opt_ref k t \<longleftrightarrow> (case k of None \<Rightarrow> True | Some j \<Rightarrow> get_row t j \<noteq> None)"

definition tt_room_full_clean :: "nat option \<Rightarrow> tt_room \<Rightarrow> 'a timetabling_db_scheme \<Rightarrow> exn + unit" where
  "tt_room_full_clean pk r s =
     ensure (ttr_code r \<noteq> [] \<and> length (ttr_code r) \<le> 20 \<and> ttr_name r \<noteq> [] \<and> length (ttr_name r) \<le> 150 \<and>
             length (ttr_building r) \<le> 100 \<and> ttr_capacity r \<le> 2147483647 \<and>
             \<not> exists_row (\<lambda>k y. Some k \<noteq> pk \<and> ttr_code y = ttr_code r) (tt_rooms s)) ValidationError"

definition entry_full_clean :: "timetable_entry \<Rightarrow> 'a timetabling_db_scheme \<Rightarrow> exn + unit" where
  "entry_full_clean e s =
     ensure (get_row (courses s) (te_course e) \<noteq> None \<and> get_row (semesters s) (te_semester e) \<noteq> None \<and>
             opt_ref (te_room e) (tt_rooms s) \<and> opt_ref (te_lecturer e) (staff_profiles s) \<and> te_day_of_week e \<le> 6)
       ValidationError"

definition exam_full_clean :: "nat option \<Rightarrow> exam_timetable \<Rightarrow> 'a timetabling_db_scheme \<Rightarrow> exn + unit" where
  "exam_full_clean pk e s =
     ensure (get_row (courses s) (ex_course e) \<noteq> None \<and> get_row (semesters s) (ex_semester e) \<noteq> None \<and>
             opt_ref (ex_room e) (tt_rooms s) \<and>
             \<not> exists_row (\<lambda>k y. Some k \<noteq> pk \<and> ex_course y = ex_course e \<and> ex_semester y = ex_semester e)
                 (exam_timetables s)) ValidationError"

section \<open>Exceptions and rooms\<close>

definition RoomClash :: exn where "RoomClash = DomainError ''room_clash'' 409"
definition LecturerClash :: exn where "LecturerClash = DomainError ''lecturer_clash'' 409"
definition InvigilatorClash :: exn where "InvigilatorClash = DomainError ''invigilator_clash'' 409"
definition InvalidTimeRange :: exn where "InvalidTimeRange = DomainError ''invalid_time_range'' 400"
definition OutsideExamWindow :: exn where "OutsideExamWindow = DomainError ''outside_exam_window'' 409"

definition overlap :: "int \<Rightarrow> int \<Rightarrow> int \<Rightarrow> int \<Rightarrow> bool" where
  "overlap start_a end_a start_b end_b \<longleftrightarrow> start_a < end_b \<and> start_b < end_a"

definition create_tt_room ::
  "ctx \<Rightarrow> string \<Rightarrow> string \<Rightarrow> string \<Rightarrow> nat \<Rightarrow> 'a timetabling_db_scheme \<Rightarrow> exn + nat \<times> 'a timetabling_db_scheme" where
  "create_tt_room c code name building capacity s =
     (let r = \<lparr>ttr_code = code, ttr_name = name, ttr_building = building, ttr_capacity = capacity,
               ttr_is_active = True\<rparr> in
      bindE (tt_room_full_clean None r s) (\<lambda>_.
        insert_audited c tt_room_meta tt_room_audit tt_rooms put_tt_rooms r ''Room created'' s))"

text \<open>An argument that is \<open>None\<close> leaves its column alone.\<close>

definition or_keep :: "'v option \<Rightarrow> 'v \<Rightarrow> 'v" where
  "or_keep new old = (case new of None \<Rightarrow> old | Some v \<Rightarrow> v)"

definition update_tt_room ::
  "ctx \<Rightarrow> nat \<Rightarrow> string option \<Rightarrow> string option \<Rightarrow> nat option \<Rightarrow> bool option
    \<Rightarrow> 'a timetabling_db_scheme \<Rightarrow> exn + 'a timetabling_db_scheme" where
  "update_tt_room c k name building capacity is_active s =
     (case get_row (tt_rooms s) k of
        None \<Rightarrow> Inl DoesNotExist
      | Some old \<Rightarrow>
          let r = old\<lparr>ttr_name := or_keep name (ttr_name old), ttr_building := or_keep building (ttr_building old),
                      ttr_capacity := or_keep capacity (ttr_capacity old),
                      ttr_is_active := or_keep is_active (ttr_is_active old)\<rparr>
          in bindE (tt_room_full_clean (Some k) r s) (\<lambda>_.
               update_audited c tt_room_meta tt_room_audit tt_rooms put_tt_rooms k old r ''Room updated'' s))"

section \<open>The class timetable\<close>

definition room_busy ::
  "nat option \<Rightarrow> nat \<Rightarrow> nat \<Rightarrow> int \<Rightarrow> int \<Rightarrow> nat option \<Rightarrow> timetable_entry table \<Rightarrow> bool" where
  "room_busy room semester day start_time end_time exclude_pk t =
     (case room of
        None \<Rightarrow> False
      | Some r \<Rightarrow> list_ex (\<lambda>(k, e). overlap start_time end_time (te_start_time e) (te_end_time e))
          (filter_rows (\<lambda>k e. te_room e = Some r \<and> te_semester e = semester \<and> te_day_of_week e = day \<and>
             Some k \<noteq> exclude_pk) t))"

definition lecturer_busy ::
  "nat option \<Rightarrow> nat \<Rightarrow> nat \<Rightarrow> int \<Rightarrow> int \<Rightarrow> nat option \<Rightarrow> timetable_entry table \<Rightarrow> bool" where
  "lecturer_busy lecturer semester day start_time end_time exclude_pk t =
     (case lecturer of
        None \<Rightarrow> False
      | Some l \<Rightarrow> list_ex (\<lambda>(k, e). overlap start_time end_time (te_start_time e) (te_end_time e))
          (filter_rows (\<lambda>k e. te_lecturer e = Some l \<and> te_semester e = semester \<and> te_day_of_week e = day \<and>
             Some k \<noteq> exclude_pk) t))"

definition create_entry ::
  "ctx \<Rightarrow> nat \<Rightarrow> nat \<Rightarrow> nat \<Rightarrow> int \<Rightarrow> int \<Rightarrow> nat option \<Rightarrow> nat option
    \<Rightarrow> 'a timetabling_db_scheme \<Rightarrow> exn + nat \<times> 'a timetabling_db_scheme" where
  "create_entry c course semester day start_time end_time room lecturer s =
     (if end_time \<le> start_time then Inl InvalidTimeRange
      else if room_busy room semester day start_time end_time None (timetable_entries s) then Inl RoomClash
      else if lecturer_busy lecturer semester day start_time end_time None (timetable_entries s) then Inl LecturerClash
      else let e = \<lparr>te_course = course, te_semester = semester, te_room = room, te_lecturer = lecturer,
                    te_day_of_week = day, te_start_time = start_time, te_end_time = end_time,
                    te_is_published = False, te_published_at = None, te_published_by = None\<rparr>
           in bindE (entry_full_clean e s) (\<lambda>_.
                insert_audited c entry_meta entry_audit timetable_entries put_entries e ''Timetable entry created'' s))"

text \<open>The room and the lecturer have the default \<open>__unset__\<close> (\<open>None\<close>); \<open>Some None\<close> clears the column.\<close>

definition update_entry ::
  "ctx \<Rightarrow> nat \<Rightarrow> nat option \<Rightarrow> int option \<Rightarrow> int option \<Rightarrow> nat option option \<Rightarrow> nat option option
    \<Rightarrow> 'a timetabling_db_scheme \<Rightarrow> exn + 'a timetabling_db_scheme" where
  "update_entry c k day start_time end_time room lecturer s =
     (case get_row (timetable_entries s) k of
        None \<Rightarrow> Inl DoesNotExist
      | Some e \<Rightarrow>
          let new_day = or_keep day (te_day_of_week e); new_start = or_keep start_time (te_start_time e);
              new_end = or_keep end_time (te_end_time e); new_room = or_keep room (te_room e);
              new_lecturer = or_keep lecturer (te_lecturer e)
          in if new_end \<le> new_start then Inl InvalidTimeRange
             else if room_busy new_room (te_semester e) new_day new_start new_end (Some k) (timetable_entries s)
             then Inl RoomClash
             else if lecturer_busy new_lecturer (te_semester e) new_day new_start new_end (Some k) (timetable_entries s)
             then Inl LecturerClash
             else let e' = e\<lparr>te_day_of_week := new_day, te_start_time := new_start, te_end_time := new_end,
                             te_room := new_room, te_lecturer := new_lecturer\<rparr>
                  in bindE (entry_full_clean e' s) (\<lambda>_.
                       update_audited c entry_meta entry_audit timetable_entries put_entries k e e'
                         ''Timetable entry updated'' s))"

fun publish_entries :: "ctx \<Rightarrow> user option \<Rightarrow> (nat \<times> timetable_entry) list
    \<Rightarrow> 'a timetabling_db_scheme \<Rightarrow> exn + 'a timetabling_db_scheme" where
  "publish_entries c actor [] s = Inr s"
| "publish_entries c actor ((k, e) # rest) s =
     bindE (update_audited c entry_meta entry_audit timetable_entries put_entries k e
              (e\<lparr>te_is_published := True, te_published_at := Some (now c), te_published_by := actor_fk actor\<rparr>)
              ''Timetable published'' s)
       (publish_entries c actor rest)"

definition publish_timetable ::
  "ctx \<Rightarrow> nat \<Rightarrow> user option \<Rightarrow> 'a timetabling_db_scheme \<Rightarrow> exn + nat \<times> 'a timetabling_db_scheme" where
  "publish_timetable c semester actor s =
     (let entries = filter_rows (\<lambda>_ e. te_semester e = semester \<and> \<not> te_is_published e) (timetable_entries s) in
      bindE (publish_entries c actor entries s) (\<lambda>s'. Inr (length entries, s')))"

definition entry_context :: "nat \<Rightarrow> 'a timetabling_db_scheme \<Rightarrow> exn + nat \<times> nat" where
  "entry_context k s =
     (case get_row (timetable_entries s) k of
        None \<Rightarrow> Inl DoesNotExist
      | Some e \<Rightarrow> Inr (te_course e, te_semester e))"

definition given_is :: "'v option \<Rightarrow> 'v option \<Rightarrow> bool" where
  "given_is wanted v \<longleftrightarrow> (wanted = None \<or> v = wanted)"

definition weekly_timetable ::
  "nat \<Rightarrow> nat option \<Rightarrow> nat option \<Rightarrow> nat option \<Rightarrow> bool \<Rightarrow> 'a timetabling_db_scheme \<Rightarrow> (nat \<times> timetable_entry) list" where
  "weekly_timetable semester course lecturer room published_only s =
     sort_key (\<lambda>(k, e). (te_day_of_week e, te_start_time e))
       (filter_rows (\<lambda>k e. te_semester e = semester \<and> (published_only \<longrightarrow> te_is_published e) \<and>
          given_is course (Some (te_course e)) \<and> given_is lecturer (te_lecturer e) \<and> given_is room (te_room e))
        (timetable_entries s))"

section \<open>The exam timetable\<close>

definition exam_room_busy ::
  "nat option \<Rightarrow> int \<Rightarrow> int \<Rightarrow> int \<Rightarrow> nat option \<Rightarrow> exam_timetable table \<Rightarrow> bool" where
  "exam_room_busy room exam_date start_time end_time exclude_pk t =
     (case room of
        None \<Rightarrow> False
      | Some r \<Rightarrow> list_ex (\<lambda>(k, e). overlap start_time end_time (ex_start_time e) (ex_end_time e))
          (filter_rows (\<lambda>k e. ex_room e = Some r \<and> ex_exam_date e = exam_date \<and> Some k \<noteq> exclude_pk) t))"

definition invigilators_busy ::
  "nat list \<Rightarrow> int \<Rightarrow> int \<Rightarrow> int \<Rightarrow> nat option \<Rightarrow> exam_timetable table \<Rightarrow> bool" where
  "invigilators_busy staff exam_date start_time end_time exclude_pk t =
     (staff \<noteq> [] \<and>
      list_ex (\<lambda>(k, e). overlap start_time end_time (ex_start_time e) (ex_end_time e))
        (filter_rows (\<lambda>k e. ex_exam_date e = exam_date \<and> list_ex (\<lambda>i. i \<in> set staff) (ex_invigilators e) \<and>
           Some k \<noteq> exclude_pk) t))"

definition outside_window :: "semester \<Rightarrow> int \<Rightarrow> bool" where
  "outside_window semester d =
     (case (sem_exam_start semester, sem_exam_end semester) of
        (Some a, Some b) \<Rightarrow> \<not> (a \<le> d \<and> d \<le> b)
      | _ \<Rightarrow> False)"

text \<open>\<open>entry.invigilators.set(ids)\<close> writes the rows of the many-to-many table; an unknown key
  violates its foreign key.\<close>

definition set_invigilators ::
  "nat \<Rightarrow> nat list \<Rightarrow> 'a timetabling_db_scheme \<Rightarrow> exn + 'a timetabling_db_scheme" where
  "set_invigilators k staff s =
     (case get_row (exam_timetables s) k of
        None \<Rightarrow> Inl DoesNotExist
      | Some e \<Rightarrow>
          if list_ex (\<lambda>i. get_row (staff_profiles s) i = None) staff then Inl IntegrityError
          else Inr (put_exams (put_row k (e\<lparr>ex_invigilators := remdups staff\<rparr>) (exam_timetables s)) s))"

definition create_exam_entry ::
  "ctx \<Rightarrow> nat \<Rightarrow> nat \<Rightarrow> int \<Rightarrow> int \<Rightarrow> int \<Rightarrow> nat option \<Rightarrow> nat list option
    \<Rightarrow> 'a timetabling_db_scheme \<Rightarrow> exn + nat \<times> 'a timetabling_db_scheme" where
  "create_exam_entry c course semester_id exam_date start_time end_time room invigilator_ids s =
     bindE (get_semester semester_id s) (\<lambda>semester.
       if end_time \<le> start_time then Inl InvalidTimeRange
       else if outside_window semester exam_date then Inl OutsideExamWindow
       else let staff = (case invigilator_ids of None \<Rightarrow> [] | Some ids \<Rightarrow> ids) in
         if exam_room_busy room exam_date start_time end_time None (exam_timetables s) then Inl RoomClash
         else if invigilators_busy staff exam_date start_time end_time None (exam_timetables s) then Inl InvigilatorClash
         else let e = \<lparr>ex_course = course, ex_semester = semester_id, ex_room = room, ex_invigilators = [],
                       ex_exam_date = exam_date, ex_start_time = start_time, ex_end_time = end_time,
                       ex_is_published = False, ex_published_at = None, ex_published_by = None\<rparr>
              in bindE (exam_full_clean None e s) (\<lambda>_.
                 bindE (insert_audited c exam_meta exam_audit exam_timetables put_exams e ''Exam scheduled'' s) (\<lambda>(k, s1).
                 bindE (if staff = [] then Inr s1 else set_invigilators k staff s1) (\<lambda>s2. Inr (k, s2)))))"

definition update_exam_entry ::
  "ctx \<Rightarrow> nat \<Rightarrow> int option \<Rightarrow> int option \<Rightarrow> int option \<Rightarrow> nat option option \<Rightarrow> nat list option
    \<Rightarrow> 'a timetabling_db_scheme \<Rightarrow> exn + 'a timetabling_db_scheme" where
  "update_exam_entry c k exam_date start_time end_time room invigilator_ids s =
     (case get_row (exam_timetables s) k of
        None \<Rightarrow> Inl DoesNotExist
      | Some e \<Rightarrow>
          let new_date = or_keep exam_date (ex_exam_date e); new_start = or_keep start_time (ex_start_time e);
              new_end = or_keep end_time (ex_end_time e); new_room = or_keep room (ex_room e)
          in bindE (get_semester (ex_semester e) s) (\<lambda>semester.
             if new_end \<le> new_start then Inl InvalidTimeRange
             else if outside_window semester new_date then Inl OutsideExamWindow
             else if exam_room_busy new_room new_date new_start new_end (Some k) (exam_timetables s) then Inl RoomClash
             else if (case invigilator_ids of None \<Rightarrow> False
                      | Some staff \<Rightarrow> invigilators_busy staff new_date new_start new_end (Some k) (exam_timetables s))
             then Inl InvigilatorClash
             else let e' = e\<lparr>ex_exam_date := new_date, ex_start_time := new_start, ex_end_time := new_end,
                             ex_room := new_room\<rparr>
                  in bindE (exam_full_clean (Some k) e' s) (\<lambda>_.
                     bindE (update_audited c exam_meta exam_audit exam_timetables put_exams k e e'
                              ''Exam schedule updated'' s) (\<lambda>s1.
                     case invigilator_ids of None \<Rightarrow> Inr s1 | Some staff \<Rightarrow> set_invigilators k staff s1))))"

fun publish_exams :: "ctx \<Rightarrow> user option \<Rightarrow> (nat \<times> exam_timetable) list
    \<Rightarrow> 'a timetabling_db_scheme \<Rightarrow> exn + 'a timetabling_db_scheme" where
  "publish_exams c actor [] s = Inr s"
| "publish_exams c actor ((k, e) # rest) s =
     bindE (update_audited c exam_meta exam_audit exam_timetables put_exams k e
              (e\<lparr>ex_is_published := True, ex_published_at := Some (now c), ex_published_by := actor_fk actor\<rparr>)
              ''Exam timetable published'' s)
       (publish_exams c actor rest)"

definition publish_exam_timetable ::
  "ctx \<Rightarrow> nat \<Rightarrow> user option \<Rightarrow> 'a timetabling_db_scheme \<Rightarrow> exn + nat \<times> 'a timetabling_db_scheme" where
  "publish_exam_timetable c semester actor s =
     (let entries = filter_rows (\<lambda>_ e. ex_semester e = semester \<and> \<not> ex_is_published e) (exam_timetables s) in
      bindE (publish_exams c actor entries s) (\<lambda>s'. Inr (length entries, s')))"

definition exam_schedule ::
  "nat \<Rightarrow> nat option \<Rightarrow> bool \<Rightarrow> 'a timetabling_db_scheme \<Rightarrow> (nat \<times> exam_timetable) list" where
  "exam_schedule semester course published_only s =
     sort_key (\<lambda>(k, e). (ex_exam_date e, ex_start_time e))
       (filter_rows (\<lambda>k e. ex_semester e = semester \<and> (published_only \<longrightarrow> ex_is_published e) \<and>
          given_is course (Some (ex_course e))) (exam_timetables s))"

definition exam_entry_for :: "nat \<Rightarrow> nat \<Rightarrow> 'a timetabling_db_scheme \<Rightarrow> (nat \<times> exam_timetable) option" where
  "exam_entry_for course semester s =
     first_row (\<lambda>_ e. ex_course e = course \<and> ex_semester e = semester)
       (sort_key (\<lambda>(k, e). (ex_exam_date e, ex_start_time e)) (exam_timetables s))"

section \<open>Bookings\<close>

text \<open>
  A row may hold a resource for a span of time; \<open>busy\<close> is the check the services make before
  they write. Its law says that it looks at every other holder of the resource, and from this
  it follows that no two rows hold the same resource at the same time.
\<close>

lemma overlap_instant: "a \<le> x \<Longrightarrow> x < b \<Longrightarrow> a' \<le> x \<Longrightarrow> x < b' \<Longrightarrow> overlap a b a' b'"
  by (simp add: overlap_def)

locale booking =
  fixes holder :: "'r \<Rightarrow> 'k option"
    and from_time until :: "'r \<Rightarrow> int"
    and busy :: "'k \<Rightarrow> int \<Rightarrow> int \<Rightarrow> nat option \<Rightarrow> 'r table \<Rightarrow> bool"
  assumes busy_iff: "busy h a b pk t \<longleftrightarrow>
    (\<exists>(k, r) \<in> set t. Some k \<noteq> pk \<and> holder r = Some h \<and> overlap a b (from_time r) (until r))"
begin

definition clash_free :: "'r table \<Rightarrow> bool" where
  "clash_free t \<longleftrightarrow> (\<forall>j r k q h. get_row t j = Some r \<longrightarrow> get_row t k = Some q \<longrightarrow> j \<noteq> k \<longrightarrow>
     holder r = Some h \<longrightarrow> holder q = Some h \<longrightarrow> \<not> overlap (from_time r) (until r) (from_time q) (until q))"

definition free_for :: "'r \<Rightarrow> nat option \<Rightarrow> 'r table \<Rightarrow> bool" where
  "free_for r pk t \<longleftrightarrow> (case holder r of None \<Rightarrow> True | Some h \<Rightarrow> \<not> busy h (from_time r) (until r) pk t)"

lemma free_forD:
  "free_for r pk t \<Longrightarrow> get_row t k = Some q \<Longrightarrow> Some k \<noteq> pk \<Longrightarrow> holder r = Some h \<Longrightarrow> holder q = Some h \<Longrightarrow>
     \<not> overlap (from_time r) (until r) (from_time q) (until q) \<and> \<not> overlap (from_time q) (until q) (from_time r) (until r)"
  by (force simp: free_for_def busy_iff overlap_def dest!: get_row_in_set)

lemma clash_free_add: "clash_free t \<Longrightarrow> free_for r None t \<Longrightarrow> clash_free (add_row r t)"
  unfolding clash_free_def by (auto simp: get_add_row dest: free_forD split: if_splits)

lemma clash_free_put: "clash_free t \<Longrightarrow> free_for r (Some k) t \<Longrightarrow> clash_free (put_row k r t)"
  unfolding clash_free_def by (auto simp: get_put_row dest: free_forD split: if_splits)

lemma clash_free_put_same:
  assumes "clash_free t" and "get_row t k = Some r"
    and "holder r' = holder r" and "from_time r' = from_time r" and "until r' = until r"
  shows "clash_free (put_row k r' t)"
  using assms unfolding clash_free_def by (auto simp: get_put_row)

lemma clash_free_map:
  assumes "clash_free t" and "\<And>k. get_row t' k = map_option f (get_row t k)"
    and "\<And>r. holder (f r) = holder r \<and> from_time (f r) = from_time r \<and> until (f r) = until r"
  shows "clash_free t'"
  using assms(1) unfolding clash_free_def by (auto simp: assms(2,3))

lemma one_at_a_time:
  assumes "clash_free t" and "get_row t j = Some r" and "get_row t k = Some q"
    and "holder r = Some h" and "holder q = Some h"
    and "from_time r \<le> x" "x < until r" "from_time q \<le> x" "x < until q"
  shows "j = k"
  using assms overlap_instant unfolding clash_free_def by metis

lemma clash_free_Nil [simp]: "clash_free []"
  by (simp add: clash_free_def get_row_def)

end

definition entry_room :: "timetable_entry \<Rightarrow> (nat \<times> nat \<times> nat) option" where
  "entry_room e = map_option (\<lambda>r. (r, te_semester e, te_day_of_week e)) (te_room e)"

definition entry_lecturer :: "timetable_entry \<Rightarrow> (nat \<times> nat \<times> nat) option" where
  "entry_lecturer e = map_option (\<lambda>l. (l, te_semester e, te_day_of_week e)) (te_lecturer e)"

definition exam_room :: "exam_timetable \<Rightarrow> (nat \<times> int) option" where
  "exam_room e = map_option (\<lambda>r. (r, ex_exam_date e)) (ex_room e)"

interpretation rooms: booking entry_room te_start_time te_end_time
  "\<lambda>(r, semester, day). room_busy (Some r) semester day"
  by unfold_locales (fastforce simp: room_busy_def entry_room_def filter_rows_def list_ex_iff)

interpretation lecturers: booking entry_lecturer te_start_time te_end_time
  "\<lambda>(l, semester, day). lecturer_busy (Some l) semester day"
  by unfold_locales (fastforce simp: lecturer_busy_def entry_lecturer_def filter_rows_def list_ex_iff)

interpretation exam_rooms: booking exam_room ex_start_time ex_end_time "\<lambda>(r, d). exam_room_busy (Some r) d"
  by unfold_locales (fastforce simp: exam_room_busy_def exam_room_def filter_rows_def list_ex_iff)

lemma room_free:
  "\<not> room_busy (te_room e) (te_semester e) (te_day_of_week e) (te_start_time e) (te_end_time e) pk t \<longleftrightarrow>
     rooms.free_for e pk t"
  by (cases "te_room e") (simp_all add: rooms.free_for_def entry_room_def room_busy_def)

lemma lecturer_free:
  "\<not> lecturer_busy (te_lecturer e) (te_semester e) (te_day_of_week e) (te_start_time e) (te_end_time e) pk t \<longleftrightarrow>
     lecturers.free_for e pk t"
  by (cases "te_lecturer e") (simp_all add: lecturers.free_for_def entry_lecturer_def lecturer_busy_def)

lemma exam_room_free:
  "\<not> exam_room_busy (ex_room e) (ex_exam_date e) (ex_start_time e) (ex_end_time e) pk t \<longleftrightarrow>
     exam_rooms.free_for e pk t"
  by (cases "ex_room e") (simp_all add: exam_rooms.free_for_def exam_room_def exam_room_busy_def)

section \<open>Operations keep the timetables free of clashes\<close>

lemma plain_audit_changes_succeed:
  "\<not> mm_sensitive m \<Longrightarrow> \<exists>s'. audit_changes c m pk prev cur reason s = Inr s'"
proof (induction cur arbitrary: s)
  case (Cons x cur)
  obtain name new where x: "x = (name, new)" by (cases x)
  define old where "old = (case map_of prev name of None \<Rightarrow> VNone | Some v \<Rightarrow> v)"
  have "\<exists>s1. (if old \<noteq> new then record_change c (mm_sensitive m) (mm_label m, Some pk) name old new ''update''
      reason None s else Inr s) = Inr s1"
    using Cons.prems by (simp add: record_change_def safe_write_False)
  then obtain s1 where "(if old \<noteq> new then record_change c (mm_sensitive m) (mm_label m, Some pk) name old new ''update''
      reason None s else Inr s) = Inr s1" by blast
  with Cons.IH [of s1] Cons.prems show ?case by (simp add: x old_def [symmetric])
qed simp

lemma plain_save_succeeds:
  assumes "\<not> mm_sensitive m"
  shows "\<exists>s'. audit_save c m pk snapshot cur reason s = Inr s'"
  using assms plain_audit_changes_succeed [OF assms] safe_write_False
  by (cases snapshot) (simp_all add: audit_save_def record_action_def)

lemma plain_update_succeeds:
  assumes "\<not> mm_sensitive m"
  obtains tr where "update_audited c m audited tbl upd k old r reason s = Inr ((upd (put_row k r (tbl s)) s)\<lparr>audit_log := tr\<rparr>)"
  using plain_save_succeeds [OF assms] by (metis audit_saveE update_audited_def)

lemma create_entry_Inr:
  assumes "create_entry c course semester day start_time end_time room lecturer s = Inr (k, s')"
  obtains e tr where "s' = s\<lparr>timetable_entries := add_row e (timetable_entries s), audit_log := tr\<rparr>"
    and "k = fresh_pk (timetable_entries s)" and "te_start_time e < te_end_time e"
    and "rooms.free_for e None (timetable_entries s)" and "lecturers.free_for e None (timetable_entries s)"
    and "te_course e = course" and "te_semester e = semester" and "te_day_of_week e = day" and "te_room e = room"
    and "te_lecturer e = lecturer" and "te_start_time e = start_time" and "te_end_time e = end_time"
    and "\<not> te_is_published e" and "entry_full_clean e s = Inr ()"
proof -
  let ?e = "\<lparr>te_course = course, te_semester = semester, te_room = room, te_lecturer = lecturer,
     te_day_of_week = day, te_start_time = start_time, te_end_time = end_time,
     te_is_published = False, te_published_at = None, te_published_by = None\<rparr>"
  from assms have ins: "insert_audited c entry_meta entry_audit timetable_entries put_entries ?e
      ''Timetable entry created'' s = Inr (k, s')" and "entry_full_clean ?e s = Inr ()"
    and "start_time < end_time" and "rooms.free_for ?e None (timetable_entries s)"
    and "lecturers.free_for ?e None (timetable_entries s)"
    unfolding create_entry_def Let_def
    by (auto simp: room_free [symmetric] lecturer_free [symmetric] elim!: bindE_InrE split: if_splits)
  with ins show thesis by (elim insert_audited_Inr) (rule that [where e = ?e], simp_all)
qed

lemma update_entry_Inr:
  assumes "update_entry c k day start_time end_time room lecturer s = Inr s'"
  obtains e e' tr where "get_row (timetable_entries s) k = Some e"
    and "s' = s\<lparr>timetable_entries := put_row k e' (timetable_entries s), audit_log := tr\<rparr>"
    and "te_start_time e' < te_end_time e'" and "rooms.free_for e' (Some k) (timetable_entries s)"
    and "lecturers.free_for e' (Some k) (timetable_entries s)"
    and "te_course e' = te_course e" and "te_semester e' = te_semester e" and "te_is_published e' = te_is_published e"
    and "te_room e' = or_keep room (te_room e)" and "te_lecturer e' = or_keep lecturer (te_lecturer e)"
    and "te_start_time e' = or_keep start_time (te_start_time e)" and "te_end_time e' = or_keep end_time (te_end_time e)"
    and "te_day_of_week e' = or_keep day (te_day_of_week e)"
proof -
  from assms obtain e where e: "get_row (timetable_entries s) k = Some e"
    by (auto simp: update_entry_def split: option.splits)
  let ?e = "e\<lparr>te_day_of_week := or_keep day (te_day_of_week e), te_start_time := or_keep start_time (te_start_time e),
     te_end_time := or_keep end_time (te_end_time e), te_room := or_keep room (te_room e),
     te_lecturer := or_keep lecturer (te_lecturer e)\<rparr>"
  from assms e have upd: "update_audited c entry_meta entry_audit timetable_entries put_entries k e ?e
      ''Timetable entry updated'' s = Inr s'" and "te_start_time ?e < te_end_time ?e"
    and "rooms.free_for ?e (Some k) (timetable_entries s)" and "lecturers.free_for ?e (Some k) (timetable_entries s)"
    unfolding update_entry_def Let_def
    by (auto simp: room_free [symmetric] lecturer_free [symmetric] elim!: bindE_InrE split: if_splits)
  with upd show thesis by (elim update_audited_Inr) (rule that [OF e, where e' = ?e], simp_all)
qed

definition published_entry :: "ctx \<Rightarrow> user option \<Rightarrow> timetable_entry \<Rightarrow> timetable_entry" where
  "published_entry c actor e =
     e\<lparr>te_is_published := True, te_published_at := Some (now c), te_published_by := actor_fk actor\<rparr>"

lemma publish_entries_succeeds:
  "\<exists>tr. publish_entries c actor es s =
     Inr (s\<lparr>timetable_entries := fold (\<lambda>(k, e). put_row k (published_entry c actor e)) es (timetable_entries s),
            audit_log := tr\<rparr>)"
proof (induction es arbitrary: s)
  case Nil
  show ?case by (rule exI [of _ "audit_log s"]) simp
next
  case (Cons x es)
  obtain k e where x: "x = (k, e)" by (cases x)
  have plain: "\<not> mm_sensitive entry_meta" by (simp add: entry_meta_def)
  obtain tr where upd: "update_audited c entry_meta entry_audit timetable_entries put_entries k e (published_entry c actor e)
      ''Timetable published'' s =
      Inr (s\<lparr>timetable_entries := put_row k (published_entry c actor e) (timetable_entries s), audit_log := tr\<rparr>)"
    by (rule plain_update_succeeds [OF plain])
  obtain tr' where "publish_entries c actor es
      (s\<lparr>timetable_entries := put_row k (published_entry c actor e) (timetable_entries s), audit_log := tr\<rparr>) =
    Inr (s\<lparr>timetable_entries := fold (\<lambda>(k, e). put_row k (published_entry c actor e)) es
             (put_row k (published_entry c actor e) (timetable_entries s)), audit_log := tr'\<rparr>)"
    using Cons.IH [of "s\<lparr>timetable_entries := put_row k (published_entry c actor e) (timetable_entries s), audit_log := tr\<rparr>"]
    by auto
  with upd show ?case unfolding x publish_entries.simps published_entry_def [symmetric] by simp (rule exI [of _ tr'], rule refl)
qed

lemma get_row_fold_put:
  assumes "distinct (map fst es)" and "fst ` set es \<subseteq> fst ` set t"
  shows "get_row (fold (\<lambda>(k, e). put_row k (f e)) es t) j =
    (case map_of es j of Some e \<Rightarrow> Some (f e) | None \<Rightarrow> get_row t j)"
  using assms
proof (induction es arbitrary: t)
  case (Cons x es)
  obtain k e where x: "x = (k, e)" by (cases x)
  have "get_row t k \<noteq> None" using Cons.prems(2) by (simp add: x get_row_def map_of_eq_None_iff)
  moreover have "map_of es k = None" using Cons.prems(1) by (simp add: x map_of_eq_None_iff)
  moreover have "fst ` set (put_row k (f e) t) = fst ` set t"
    by (metis keys_put_row list.set_map)
  ultimately show ?case
    using Cons.IH [of "put_row k (f e) t"] Cons.prems by (auto simp: x get_put_row split: option.splits)
qed simp

lemma put_row_fresh: "put_row (fresh_pk t) r (add_row e t) = add_row r t"
proof -
  have "fresh_pk t \<notin> fst ` set t" by (rule fresh_pk_notin)
  then have "put_row (fresh_pk t) r t = t" by (rule put_row_absent)
  then show ?thesis by (simp add: add_row_def put_row_def)
qed

lemma put_row_twice: "put_row k r (put_row k q t) = put_row k r t"
  by (induction t) auto

lemma set_invigilators_Inr:
  assumes "set_invigilators k staff s = Inr s'"
  obtains e where "get_row (exam_timetables s) k = Some e"
    and "s' = s\<lparr>exam_timetables := put_row k (e\<lparr>ex_invigilators := remdups staff\<rparr>) (exam_timetables s)\<rparr>"
  using assms by (auto simp: set_invigilators_def split: option.splits if_splits)

lemma create_exam_entry_Inr:
  assumes "create_exam_entry c course semester_id exam_date start_time end_time room invigilator_ids s = Inr (k, s')"
  obtains semester e tr where "get_semester semester_id s = Inr semester" and "\<not> outside_window semester exam_date"
    and "s' = s\<lparr>exam_timetables := add_row e (exam_timetables s), audit_log := tr\<rparr>"
    and "k = fresh_pk (exam_timetables s)" and "ex_start_time e < ex_end_time e"
    and "exam_rooms.free_for e None (exam_timetables s)"
    and "\<not> invigilators_busy (ex_invigilators e) exam_date start_time end_time None (exam_timetables s)"
    and "ex_course e = course" and "ex_semester e = semester_id" and "ex_exam_date e = exam_date" and "ex_room e = room"
    and "ex_start_time e = start_time" and "ex_end_time e = end_time"
    and "set (ex_invigilators e) = set (case invigilator_ids of None \<Rightarrow> [] | Some ids \<Rightarrow> ids)"
    and "\<not> exists_row (\<lambda>k y. ex_course y = course \<and> ex_semester y = semester_id) (exam_timetables s)"
proof -
  define staff where "staff = (case invigilator_ids of None \<Rightarrow> [] | Some ids \<Rightarrow> ids)"
  let ?e = "\<lparr>ex_course = course, ex_semester = semester_id, ex_room = room, ex_invigilators = [],
     ex_exam_date = exam_date, ex_start_time = start_time, ex_end_time = end_time,
     ex_is_published = False, ex_published_at = None, ex_published_by = None\<rparr>"
  from assms obtain semester s1 where sem: "get_semester semester_id s = Inr semester"
    and out: "\<not> outside_window semester exam_date" and lt: "start_time < end_time"
    and free: "exam_rooms.free_for ?e None (exam_timetables s)"
    and inv: "\<not> invigilators_busy staff exam_date start_time end_time None (exam_timetables s)"
    and clean: "exam_full_clean None ?e s = Inr ()"
    and ins: "insert_audited c exam_meta exam_audit exam_timetables put_exams ?e ''Exam scheduled'' s = Inr (k, s1)"
    and set: "(if staff = [] then Inr s1 else set_invigilators k staff s1) = Inr s'"
    unfolding create_exam_entry_def Let_def staff_def [symmetric]
    by (elim bindE_InrE) (auto simp: exam_room_free [symmetric] elim!: bindE_InrE bindE_pairE split: if_splits)
  from ins obtain tr where s1: "s1 = s\<lparr>exam_timetables := add_row ?e (exam_timetables s), audit_log := tr\<rparr>"
    and k: "k = fresh_pk (exam_timetables s)" by (elim insert_audited_Inr) simp
  let ?e' = "?e\<lparr>ex_invigilators := remdups staff\<rparr>"
  have "s' = s\<lparr>exam_timetables := add_row ?e' (exam_timetables s), audit_log := tr\<rparr>"
    using set by (cases "staff = []") (auto simp: s1 k get_add_row put_row_fresh elim!: set_invigilators_Inr)
  moreover have "exam_rooms.free_for ?e' None (exam_timetables s)"
    using free by (simp add: exam_room_free [symmetric])
  moreover have "\<not> invigilators_busy (remdups staff) exam_date start_time end_time None (exam_timetables s)"
    using inv by (simp add: invigilators_busy_def)
  ultimately show thesis
    using that [OF sem out, where e = ?e' and tr = tr] k lt clean by (auto simp: staff_def exam_full_clean_def ensure_eq_Inr)
qed

lemma update_exam_entry_Inr:
  assumes "update_exam_entry c k exam_date start_time end_time room invigilator_ids s = Inr s'"
  obtains e e' tr semester where "get_row (exam_timetables s) k = Some e" and "get_semester (ex_semester e) s = Inr semester"
    and "\<not> outside_window semester (ex_exam_date e')"
    and "s' = s\<lparr>exam_timetables := put_row k e' (exam_timetables s), audit_log := tr\<rparr>"
    and "ex_start_time e' < ex_end_time e'" and "exam_rooms.free_for e' (Some k) (exam_timetables s)"
    and "ex_course e' = ex_course e" and "ex_semester e' = ex_semester e" and "ex_is_published e' = ex_is_published e"
proof -
  from assms obtain e where e: "get_row (exam_timetables s) k = Some e"
    by (auto simp: update_exam_entry_def split: option.splits)
  let ?e = "e\<lparr>ex_exam_date := or_keep exam_date (ex_exam_date e), ex_start_time := or_keep start_time (ex_start_time e),
     ex_end_time := or_keep end_time (ex_end_time e), ex_room := or_keep room (ex_room e)\<rparr>"
  from assms obtain semester s1 where sem: "get_semester (ex_semester e) s = Inr semester"
    and out: "\<not> outside_window semester (ex_exam_date ?e)" and lt: "ex_start_time ?e < ex_end_time ?e"
    and free: "exam_rooms.free_for ?e (Some k) (exam_timetables s)"
    and upd: "update_audited c exam_meta exam_audit exam_timetables put_exams k e ?e ''Exam schedule updated'' s = Inr s1"
    and set: "(case invigilator_ids of None \<Rightarrow> Inr s1 | Some staff \<Rightarrow> set_invigilators k staff s1) = Inr s'"
    unfolding update_exam_entry_def Let_def e option.case
    by (elim bindE_InrE) (auto simp: exam_room_free [symmetric] elim!: bindE_InrE split: if_splits)
  from upd obtain tr where s1: "s1 = s\<lparr>exam_timetables := put_row k ?e (exam_timetables s), audit_log := tr\<rparr>"
    by (elim update_audited_Inr) simp
  let ?e' = "case invigilator_ids of None \<Rightarrow> ?e | Some staff \<Rightarrow> ?e\<lparr>ex_invigilators := remdups staff\<rparr>"
  have "s' = s\<lparr>exam_timetables := put_row k ?e' (exam_timetables s), audit_log := tr\<rparr>"
    using set e by (cases invigilator_ids) (auto simp: s1 get_put_row put_row_twice elim!: set_invigilators_Inr)
  moreover have "exam_rooms.free_for ?e' (Some k) (exam_timetables s)"
    using free by (cases invigilator_ids) (simp_all add: exam_room_free [symmetric])
  ultimately show thesis
    using out lt by (intro that [OF e sem, where e' = ?e' and tr = tr]) (cases invigilator_ids; simp)+
qed

section \<open>Reachable timetables\<close>

inductive timetabling_step :: "'a timetabling_db_scheme \<Rightarrow> 'a timetabling_db_scheme \<Rightarrow> bool" where
  NewRoom: "create_tt_room c code name building capacity s = Inr (k, s') \<Longrightarrow> timetabling_step s s'"
| EditRoom: "update_tt_room c k name_opt building_opt capacity_opt active s = Inr s' \<Longrightarrow> timetabling_step s s'"
| NewEntry: "create_entry c course semester day start_time end_time room lecturer s = Inr (k, s') \<Longrightarrow> timetabling_step s s'"
| EditEntry: "update_entry c k day_opt start_opt end_opt room_opt lecturer_opt s = Inr s' \<Longrightarrow> timetabling_step s s'"
| Publish: "publish_timetable c semester actor s = Inr (n, s') \<Longrightarrow> timetabling_step s s'"
| NewExam: "create_exam_entry c course semester d start_time end_time room ids s = Inr (k, s') \<Longrightarrow> timetabling_step s s'"
| EditExam: "update_exam_entry c k date_opt start_opt end_opt room_opt ids s = Inr s' \<Longrightarrow> timetabling_step s s'"
| PublishExams: "publish_exam_timetable c semester actor s = Inr (n, s') \<Longrightarrow> timetabling_step s s'"
| Finance: "finance_step s s' \<Longrightarrow> timetabling_step s s'"

definition spans_ok :: "'a timetabling_db_scheme \<Rightarrow> bool" where
  "spans_ok s \<longleftrightarrow> (\<forall>k e. get_row (timetable_entries s) k = Some e \<longrightarrow> te_start_time e < te_end_time e) \<and>
     (\<forall>k e. get_row (exam_timetables s) k = Some e \<longrightarrow> ex_start_time e < ex_end_time e)"

definition timetabling_inv :: "'a timetabling_db_scheme \<Rightarrow> bool" where
  "timetabling_inv s \<longleftrightarrow> wf_table (timetable_entries s) \<and> wf_table (exam_timetables s) \<and>
     rooms.clash_free (timetable_entries s) \<and> lecturers.clash_free (timetable_entries s) \<and>
     exam_rooms.clash_free (exam_timetables s) \<and> spans_ok s"

lemma timetabling_inv_cong:
  "timetable_entries s' = timetable_entries s \<Longrightarrow> exam_timetables s' = exam_timetables s \<Longrightarrow>
     timetabling_inv s \<Longrightarrow> timetabling_inv s'"
  by (simp add: timetabling_inv_def spans_ok_def)

lemma finance_step_tables:
  "finance_step s s' \<Longrightarrow> timetable_entries s' = timetable_entries s \<and> exam_timetables s' = exam_timetables s"
  using finance_step_more [of s s'] by (cases s; cases s') simp

definition published_exam :: "ctx \<Rightarrow> user option \<Rightarrow> exam_timetable \<Rightarrow> exam_timetable" where
  "published_exam c actor e =
     e\<lparr>ex_is_published := True, ex_published_at := Some (now c), ex_published_by := actor_fk actor\<rparr>"

lemma publish_exams_succeeds:
  "\<exists>tr. publish_exams c actor es s =
     Inr (s\<lparr>exam_timetables := fold (\<lambda>(k, e). put_row k (published_exam c actor e)) es (exam_timetables s),
            audit_log := tr\<rparr>)"
proof (induction es arbitrary: s)
  case Nil
  show ?case by (rule exI [of _ "audit_log s"]) simp
next
  case (Cons x es)
  obtain k e where x: "x = (k, e)" by (cases x)
  have plain: "\<not> mm_sensitive exam_meta" by (simp add: exam_meta_def)
  obtain tr where upd: "update_audited c exam_meta exam_audit exam_timetables put_exams k e (published_exam c actor e)
      ''Exam timetable published'' s =
      Inr (s\<lparr>exam_timetables := put_row k (published_exam c actor e) (exam_timetables s), audit_log := tr\<rparr>)"
    by (rule plain_update_succeeds [OF plain])
  obtain tr' where "publish_exams c actor es
      (s\<lparr>exam_timetables := put_row k (published_exam c actor e) (exam_timetables s), audit_log := tr\<rparr>) =
    Inr (s\<lparr>exam_timetables := fold (\<lambda>(k, e). put_row k (published_exam c actor e)) es
             (put_row k (published_exam c actor e) (exam_timetables s)), audit_log := tr'\<rparr>)"
    using Cons.IH [of "s\<lparr>exam_timetables := put_row k (published_exam c actor e) (exam_timetables s), audit_log := tr\<rparr>"]
    by auto
  with upd show ?case unfolding x publish_exams.simps published_exam_def [symmetric] by simp (rule exI [of _ tr'], rule refl)
qed

text \<open>Publishing rewrites rows of the table, each to a row with the same booking.\<close>

lemma filtered_rows_keys:
  assumes "wf_table t"
  shows "distinct (map fst (filter_rows P t))" and "fst ` set (filter_rows P t) \<subseteq> fst ` set t"
    and "map_of (filter_rows P t) k = Some r \<longleftrightarrow> get_row t k = Some r \<and> P k r"
proof -
  show d: "distinct (map fst (filter_rows P t))"
    using assms by (simp add: wf_table_def filter_rows_def distinct_map_filter)
  show "fst ` set (filter_rows P t) \<subseteq> fst ` set t" by (auto simp: filter_rows_def)
  show "map_of (filter_rows P t) k = Some r \<longleftrightarrow> get_row t k = Some r \<and> P k r"
    using assms by (simp add: map_of_eq_Some_iff [OF d] in_set_iff_get_row [symmetric] filter_rows_iff [symmetric])
qed

lemma wf_fold_put: "wf_table (fold (\<lambda>(k, e). put_row k (f e)) es t) = wf_table t"
  by (induction es arbitrary: t) (auto simp: case_prod_beta)

lemma publish_timetable_rows:
  assumes "publish_timetable c semester actor s = Inr (n, s')" and "wf_table (timetable_entries s)"
  shows "get_row (timetable_entries s') k = map_option
      (\<lambda>e. if te_semester e = semester \<and> \<not> te_is_published e then published_entry c actor e else e)
      (get_row (timetable_entries s) k)"
    and "exam_timetables s' = exam_timetables s" and "wf_table (timetable_entries s')"
    and "n = length (filter_rows (\<lambda>_ e. te_semester e = semester \<and> \<not> te_is_published e) (timetable_entries s))"
proof -
  let ?P = "\<lambda>_ e. te_semester e = semester \<and> \<not> te_is_published e"
  let ?es = "filter_rows ?P (timetable_entries s)"
  obtain tr where s': "s' = s\<lparr>timetable_entries := fold (\<lambda>(k, e). put_row k (published_entry c actor e)) ?es
      (timetable_entries s), audit_log := tr\<rparr>" and n: "n = length ?es"
    using assms(1) publish_entries_succeeds [of c actor ?es s] by (auto simp: publish_timetable_def Let_def)
  note keys = filtered_rows_keys [OF assms(2), of ?P]
  have row: "get_row (timetable_entries s') k =
      (case map_of ?es k of Some e \<Rightarrow> Some (published_entry c actor e) | None \<Rightarrow> get_row (timetable_entries s) k)"
    using get_row_fold_put [OF keys(1,2), where f = "published_entry c actor"] by (simp add: s')
  show "get_row (timetable_entries s') k = map_option
      (\<lambda>e. if ?P k e then published_entry c actor e else e) (get_row (timetable_entries s) k)"
  proof (cases "map_of ?es k")
    case None
    then have "\<not> ?P k e" if "get_row (timetable_entries s) k = Some e" for e using keys(3) [of k e] that by auto
    with None show ?thesis unfolding row by (cases "get_row (timetable_entries s) k") auto
  next
    case (Some e)
    then show ?thesis unfolding row using keys(3) [of k e] by auto
  qed
  show "exam_timetables s' = exam_timetables s" "wf_table (timetable_entries s')" "n = length ?es"
    using assms(2) n by (simp_all add: s' wf_fold_put)
qed

lemma publish_exam_timetable_rows:
  assumes "publish_exam_timetable c semester actor s = Inr (n, s')" and "wf_table (exam_timetables s)"
  shows "get_row (exam_timetables s') k = map_option
      (\<lambda>e. if ex_semester e = semester \<and> \<not> ex_is_published e then published_exam c actor e else e)
      (get_row (exam_timetables s) k)"
    and "timetable_entries s' = timetable_entries s" and "wf_table (exam_timetables s')"
proof -
  let ?P = "\<lambda>_ e. ex_semester e = semester \<and> \<not> ex_is_published e"
  let ?es = "filter_rows ?P (exam_timetables s)"
  obtain tr where s': "s' = s\<lparr>exam_timetables := fold (\<lambda>(k, e). put_row k (published_exam c actor e)) ?es
      (exam_timetables s), audit_log := tr\<rparr>"
    using assms(1) publish_exams_succeeds [of c actor ?es s] by (auto simp: publish_exam_timetable_def Let_def)
  note keys = filtered_rows_keys [OF assms(2), of ?P]
  have row: "get_row (exam_timetables s') k =
      (case map_of ?es k of Some e \<Rightarrow> Some (published_exam c actor e) | None \<Rightarrow> get_row (exam_timetables s) k)"
    using get_row_fold_put [OF keys(1,2), where f = "published_exam c actor"] by (simp add: s')
  show "get_row (exam_timetables s') k = map_option
      (\<lambda>e. if ?P k e then published_exam c actor e else e) (get_row (exam_timetables s) k)"
  proof (cases "map_of ?es k")
    case None
    then have "\<not> ?P k e" if "get_row (exam_timetables s) k = Some e" for e using keys(3) [of k e] that by auto
    with None show ?thesis unfolding row by (cases "get_row (exam_timetables s) k") auto
  next
    case (Some e)
    then show ?thesis unfolding row using keys(3) [of k e] by auto
  qed
  show "timetable_entries s' = timetable_entries s" "wf_table (exam_timetables s')"
    using assms(2) by (simp_all add: s' wf_fold_put)
qed

lemma timetabling_step_inv:
  assumes "timetabling_step s s'" and "timetabling_inv s"
  shows "timetabling_inv s'"
  using assms(1)
proof cases
  case (NewRoom c code name building capacity k)
  then show ?thesis
    using assms(2) by (auto simp: create_tt_room_def Let_def elim!: bindE_InrE insert_audited_Inr intro: timetabling_inv_cong)
next
  case (EditRoom c k name_opt building_opt capacity_opt active)
  then show ?thesis
    using assms(2) by (auto simp: update_tt_room_def Let_def split: option.splits
        elim!: bindE_InrE update_audited_Inr intro: timetabling_inv_cong)
next
  case (NewEntry c course semester day start_time end_time room lecturer k)
  then show ?thesis
    using assms(2) rooms.clash_free_add lecturers.clash_free_add
    by (elim create_entry_Inr) (auto simp: timetabling_inv_def spans_ok_def get_add_row)
next
  case (EditEntry c k day_opt start_opt end_opt room_opt lecturer_opt)
  then show ?thesis
    using assms(2) rooms.clash_free_put lecturers.clash_free_put
    by (elim update_entry_Inr) (auto simp: timetabling_inv_def spans_ok_def get_put_row)
next
  case (Publish c semester actor n)
  let ?f = "\<lambda>e. if te_semester e = semester \<and> \<not> te_is_published e then published_entry c actor e else e"
  have wf: "wf_table (timetable_entries s)" using assms(2) by (simp add: timetabling_inv_def)
  note rows = publish_timetable_rows [OF Publish wf]
  have same: "entry_room (?f e) = entry_room e \<and> entry_lecturer (?f e) = entry_lecturer e \<and>
      te_start_time (?f e) = te_start_time e \<and> te_end_time (?f e) = te_end_time e" for e
    by (simp add: published_entry_def entry_room_def entry_lecturer_def)
  then show ?thesis
    using assms(2) rows rooms.clash_free_map [OF _ rows(1)] lecturers.clash_free_map [OF _ rows(1)]
    by (auto simp: timetabling_inv_def spans_ok_def published_entry_def simp del: if_split)
next
  case (NewExam c course semester d start_time end_time room ids k)
  then show ?thesis
    using assms(2) exam_rooms.clash_free_add
    by (elim create_exam_entry_Inr) (auto simp: timetabling_inv_def spans_ok_def get_add_row)
next
  case (EditExam c k date_opt start_opt end_opt room_opt ids)
  then show ?thesis
    using assms(2) exam_rooms.clash_free_put
    by (elim update_exam_entry_Inr) (auto simp: timetabling_inv_def spans_ok_def get_put_row)
next
  case (PublishExams c semester actor n)
  let ?f = "\<lambda>e. if ex_semester e = semester \<and> \<not> ex_is_published e then published_exam c actor e else e"
  have wf: "wf_table (exam_timetables s)" using assms(2) by (simp add: timetabling_inv_def)
  note rows = publish_exam_timetable_rows [OF PublishExams wf]
  have same: "exam_room (?f e) = exam_room e \<and> ex_start_time (?f e) = ex_start_time e \<and>
      ex_end_time (?f e) = ex_end_time e" for e
    by (simp add: published_exam_def exam_room_def)
  then show ?thesis
    using assms(2) rows exam_rooms.clash_free_map [OF _ rows(1)]
    by (auto simp: timetabling_inv_def spans_ok_def published_exam_def simp del: if_split)
next
  case Finance
  then show ?thesis using assms(2) finance_step_tables timetabling_inv_cong by blast
qed

lemma timetabling_reachable_inv: "timetabling_step\<^sup>*\<^sup>* s s' \<Longrightarrow> timetabling_inv s \<Longrightarrow> timetabling_inv s'"
  by (induction rule: rtranclp_induct) (auto intro: timetabling_step_inv)

section \<open>Properties\<close>

text \<open>
  C39. No room and no lecturer is booked twice. After any operations of the timetables and of the
  modules below them, at every instant of every weekday of a semester a room holds at most one
  class and a lecturer teaches at most one, and a room holds at most one exam at a time.
\<close>

theorem no_double_booking:
  assumes "timetabling_step\<^sup>*\<^sup>* s s'" and "timetabling_inv s"
  shows "(\<forall>j k e f r x. get_row (timetable_entries s') j = Some e \<longrightarrow> get_row (timetable_entries s') k = Some f \<longrightarrow>
      te_semester e = te_semester f \<longrightarrow> te_day_of_week e = te_day_of_week f \<longrightarrow>
      te_start_time e \<le> x \<longrightarrow> x < te_end_time e \<longrightarrow> te_start_time f \<le> x \<longrightarrow> x < te_end_time f \<longrightarrow>
      (te_room e = Some r \<and> te_room f = Some r) \<or> (te_lecturer e = Some r \<and> te_lecturer f = Some r) \<longrightarrow> j = k) \<and>
    (\<forall>j k e f r x. get_row (exam_timetables s') j = Some e \<longrightarrow> get_row (exam_timetables s') k = Some f \<longrightarrow>
      ex_exam_date e = ex_exam_date f \<longrightarrow> ex_room e = Some r \<longrightarrow> ex_room f = Some r \<longrightarrow>
      ex_start_time e \<le> x \<longrightarrow> x < ex_end_time e \<longrightarrow> ex_start_time f \<le> x \<longrightarrow> x < ex_end_time f \<longrightarrow> j = k)"
proof -
  have "rooms.clash_free (timetable_entries s')" "lecturers.clash_free (timetable_entries s')"
    "exam_rooms.clash_free (exam_timetables s')"
    using timetabling_reachable_inv [OF assms] by (simp_all add: timetabling_inv_def)
  note free = rooms.one_at_a_time [OF this(1)] lecturers.one_at_a_time [OF this(2)] exam_rooms.one_at_a_time [OF this(3)]
  show ?thesis
  proof (intro conjI allI impI, goal_cases)
    case (1 j k e f r x)
    then show ?case
      using free(1) [of j e k f "(r, te_semester f, te_day_of_week f)" x]
        free(2) [of j e k f "(r, te_semester f, te_day_of_week f)" x]
      by (auto simp: entry_room_def entry_lecturer_def)
  next
    case (2 j k e f r x)
    then show ?case
      using free(3) [of j e k f "(r, ex_exam_date f)" x] by (auto simp: exam_room_def)
  qed
qed

text \<open>
  C22. Publishing a class timetable is complete. It never fails, even when the audit trail cannot be
  written; afterwards every class of the semester is published, the classes that were not carry
  the time and the user, and no other column of any class has changed.
\<close>

theorem publishing_complete:
  assumes "wf_table (timetable_entries s)"
  shows "\<exists>s'. publish_timetable c semester actor s =
      Inr (length (filter_rows (\<lambda>_ e. te_semester e = semester \<and> \<not> te_is_published e) (timetable_entries s)), s') \<and>
    (\<forall>k. get_row (timetable_entries s') k = map_option
      (\<lambda>e. if te_semester e = semester \<and> \<not> te_is_published e
           then e\<lparr>te_is_published := True, te_published_at := Some (now c), te_published_by := actor_fk actor\<rparr> else e)
      (get_row (timetable_entries s) k))"
proof -
  let ?es = "filter_rows (\<lambda>_ e. te_semester e = semester \<and> \<not> te_is_published e) (timetable_entries s)"
  obtain s' where s': "publish_timetable c semester actor s = Inr (length ?es, s')"
    using publish_entries_succeeds [of c actor ?es s] by (auto simp: publish_timetable_def Let_def)
  with publish_timetable_rows(1) [OF s' assms] show ?thesis unfolding published_entry_def by blast
qed

lemma invigilators_busy_iff:
  "invigilators_busy staff d a b None t \<longleftrightarrow>
     exists_row (\<lambda>_ y. ex_exam_date y = d \<and> set (ex_invigilators y) \<inter> set staff \<noteq> {} \<and>
       overlap a b (ex_start_time y) (ex_end_time y)) t"
proof -
  have "list_ex (\<lambda>(k, e). overlap a b (ex_start_time e) (ex_end_time e))
      (filter_rows (\<lambda>k e. ex_exam_date e = d \<and> list_ex (\<lambda>i. i \<in> set staff) (ex_invigilators e) \<and> Some k \<noteq> None) t) \<longleftrightarrow>
    (\<exists>(k, y) \<in> set t. ex_exam_date y = d \<and> set (ex_invigilators y) \<inter> set staff \<noteq> {} \<and>
       overlap a b (ex_start_time y) (ex_end_time y))"
    unfolding filter_rows_def list_ex_iff set_filter by blast
  then show ?thesis by (cases "staff = []") (auto simp: invigilators_busy_def exists_row_def list_ex_iff)
qed

text \<open>
  A scheduled exam fits. When an exam is scheduled its date is in the exam period of the
  semester if that has one, it starts before it ends, it is the only sitting of the course, and
  none of its invigilators has another exam at an overlapping time of that day.
\<close>

theorem scheduled_exam_fits:
  "case create_exam_entry c course semester_id d start_time end_time room ids s of
     Inl e \<Rightarrow> True
   | Inr (k, s') \<Rightarrow> \<exists>semester e. get_semester semester_id s = Inr semester \<and> \<not> outside_window semester d \<and>
       exam_timetables s' = add_row e (exam_timetables s) \<and> ex_exam_date e = d \<and> ex_start_time e < ex_end_time e \<and>
       \<not> exists_row (\<lambda>_ y. ex_course y = course \<and> ex_semester y = semester_id) (exam_timetables s) \<and>
       set (ex_invigilators e) = set (case ids of None \<Rightarrow> [] | Some xs \<Rightarrow> xs) \<and>
       \<not> exists_row (\<lambda>_ y. ex_exam_date y = d \<and> set (ex_invigilators y) \<inter> set (ex_invigilators e) \<noteq> {} \<and>
            overlap start_time end_time (ex_start_time y) (ex_end_time y)) (exam_timetables s)"
proof (cases "create_exam_entry c course semester_id d start_time end_time room ids s")
  case (Inr x)
  obtain k s' where x: "x = (k, s')" by (cases x)
  from Inr [unfolded x] show ?thesis
  proof (rule create_exam_entry_Inr)
    fix semester e tr
    assume a: "get_semester semester_id s = Inr semester" "\<not> outside_window semester d"
      and s': "s' = s\<lparr>exam_timetables := add_row e (exam_timetables s), audit_log := tr\<rparr>"
      and e: "ex_start_time e < ex_end_time e" "ex_exam_date e = d"
        "set (ex_invigilators e) = set (case ids of None \<Rightarrow> [] | Some ids \<Rightarrow> ids)"
      and busy: "\<not> invigilators_busy (ex_invigilators e) d start_time end_time None (exam_timetables s)"
      and none: "\<not> exists_row (\<lambda>k y. ex_course y = course \<and> ex_semester y = semester_id) (exam_timetables s)"
    have "\<not> exists_row (\<lambda>_ y. ex_exam_date y = d \<and> set (ex_invigilators y) \<inter> set (ex_invigilators e) \<noteq> {} \<and>
        overlap start_time end_time (ex_start_time y) (ex_end_time y)) (exam_timetables s)"
      using busy by (simp add: invigilators_busy_iff)
    then show ?thesis unfolding Inr x sum.case prod.case
      by (intro exI [of _ semester] exI [of _ e] conjI) (use a e none in \<open>simp_all add: s'\<close>)
  qed
qed simp

section \<open>What the checks miss\<close>

text \<open>
  The invigilators are compared only when they are given: moving an exam onto the time of
  another one of the same invigilator is accepted.
\<close>

lemma moved_exam_keeps_invigilators:
  assumes "get_row (exam_timetables s) k = Some e" and "get_semester (ex_semester e) s = Inr semester"
    and "a < b" and "\<not> outside_window semester d" and "ex_room e = None" and "exam_full_clean (Some k)
      (e\<lparr>ex_exam_date := d, ex_start_time := a, ex_end_time := b\<rparr>) s = Inr ()"
  shows "\<exists>s'. update_exam_entry c k (Some d) (Some a) (Some b) None None s = Inr s' \<and>
    get_row (exam_timetables s') k = Some (e\<lparr>ex_exam_date := d, ex_start_time := a, ex_end_time := b\<rparr>)"
proof -
  have plain: "\<not> mm_sensitive exam_meta" by (simp add: exam_meta_def)
  let ?e = "e\<lparr>ex_exam_date := d, ex_start_time := a, ex_end_time := b\<rparr>"
  have e: "e\<lparr>ex_exam_date := d, ex_start_time := a, ex_end_time := b, ex_room := None\<rparr> = ?e" using assms(5) by (cases e) simp
  obtain tr where "update_audited c exam_meta exam_audit exam_timetables put_exams k e ?e ''Exam schedule updated'' s =
      Inr ((put_exams (put_row k ?e (exam_timetables s)) s)\<lparr>audit_log := tr\<rparr>)"
    by (rule plain_update_succeeds [OF plain])
  with assms show ?thesis
    by (simp add: update_exam_entry_def or_keep_def Let_def exam_room_busy_def get_put_row e)
qed

text \<open>
  \<open>perform_update\<close> of the view turns a missing room into \<open>None\<close>, not into the default of the
  service, so a partial update that only moves a class takes its room and its lecturer away.
\<close>

definition entry_perform_update ::
  "ctx \<Rightarrow> nat \<Rightarrow> nat option \<Rightarrow> int option \<Rightarrow> int option \<Rightarrow> nat option \<Rightarrow> nat option
    \<Rightarrow> 'a timetabling_db_scheme \<Rightarrow> exn + 'a timetabling_db_scheme" where
  "entry_perform_update c k day start_time end_time room lecturer s =
     update_entry c k day start_time end_time (Some room) (Some lecturer) s"

lemma patch_clears_room:
  assumes "entry_perform_update c k day start_time end_time None None s = Inr s'"
  shows "\<exists>e. get_row (timetable_entries s') k = Some e \<and> te_room e = None \<and> te_lecturer e = None"
  using assms unfolding entry_perform_update_def
  by (elim update_entry_Inr) (auto simp: get_put_row or_keep_def)

section \<open>Concrete inputs\<close>

definition sample_entry :: timetable_entry where
  "sample_entry =
     \<lparr>te_course = 1, te_semester = 1, te_room = Some 1, te_lecturer = None, te_day_of_week = 0,
      te_start_time = 32400, te_end_time = 36000, te_is_published = False, te_published_at = None,
      te_published_by = None\<rparr>"

definition sample_timetabling_db ::
  "course_registration table \<Rightarrow> timetable_entry table \<Rightarrow> exam_timetable table \<Rightarrow> timetabling_db" where
  "sample_timetabling_db regs es xs =
     finance_db.extend ((sample_finance_db [] [] [])\<lparr>course_registrations := regs\<rparr>)
       \<lparr>tt_rooms = [(1, \<lparr>ttr_code = ''L1'', ttr_name = ''Hall'', ttr_building = [], ttr_capacity = 40,
                        ttr_is_active = True\<rparr>)],
        timetable_entries = es, exam_timetables = xs\<rparr>"

lemma sample_timetabling_tables [simp]:
  "timetable_entries (sample_timetabling_db regs es xs) = es" "exam_timetables (sample_timetabling_db regs es xs) = xs"
  "get_row (tt_rooms (sample_timetabling_db regs es xs)) (Suc 0) = Some \<lparr>ttr_code = ''L1'', ttr_name = ''Hall'',
     ttr_building = [], ttr_capacity = 40, ttr_is_active = True\<rparr>"
  "courses (sample_timetabling_db regs es xs) = [(1, sample_course)]"
  "semesters (sample_timetabling_db regs es xs) = [(1, sample_semester)]"
  "course_registrations (sample_timetabling_db regs es xs) = regs"
  "audit_log (sample_timetabling_db regs es xs) = []"
  "students (sample_timetabling_db regs es xs) = [(1, sample_student)]"
  by (simp_all add: sample_timetabling_db_def finance_db.defs sample_finance_db_def hostel_db.defs
      sample_hostel_db_def enrollment_db.defs sample_enrollment_db_def admissions_db.defs registry_db.defs
      sample_admitted_def sample_registry_db_def get_row_def)

lemma sample_create_entry:
  "create_entry offline_ctx 1 1 0 32400 36000 (Some 1) None (sample_timetabling_db [] [] []) =
     Inr (1, (sample_timetabling_db [] [] [])\<lparr>timetable_entries := [(1, sample_entry)]\<rparr>)"
proof -
  have "entry_full_clean sample_entry (sample_timetabling_db [] [] []) = Inr ()"
    by (simp add: entry_full_clean_def sample_entry_def opt_ref_def get_row_singleton)
  then show ?thesis
    by (simp add: create_entry_def room_busy_def lecturer_busy_def filter_rows_def insert_audited_down offline_ctx_def
        entry_meta_def sample_entry_def add_row_def fresh_pk_def)
qed

lemma no_double_booking_witness:
  "timetabling_step (sample_timetabling_db [] [] []) ((sample_timetabling_db [] [] [])\<lparr>timetable_entries := [(1, sample_entry)]\<rparr>) \<and>
   {k. \<exists>e. get_row (timetable_entries ((sample_timetabling_db [] [] [])\<lparr>timetable_entries := [(1, sample_entry)]\<rparr>)) k = Some e \<and>
      te_semester e = 1 \<and> te_day_of_week e = 0 \<and> te_start_time e \<le> 33000 \<and> 33000 < te_end_time e \<and>
      te_room e = Some 1} \<subseteq> {1}"
proof -
  let ?s' = "(sample_timetabling_db [] [] [])\<lparr>timetable_entries := [(1, sample_entry)]\<rparr>"
  have step: "timetabling_step (sample_timetabling_db [] [] []) ?s'"
    using sample_create_entry by (rule timetabling_step.NewEntry)
  have "timetabling_inv (sample_timetabling_db [] [] [])"
    by (simp add: timetabling_inv_def spans_ok_def get_row_def)
  note free = no_double_booking [OF r_into_rtranclp [of timetabling_step, OF step] this, THEN conjunct1, rule_format]
  have "k = 1" if "get_row (timetable_entries ?s') k = Some e" and "te_semester e = 1" and "te_day_of_week e = 0"
    and "te_start_time e \<le> 33000" and "33000 < te_end_time e" and "te_room e = Some 1" for k e
  proof (rule free [where e = e and f = sample_entry and x = 33000 and r = 1])
    show "get_row (timetable_entries ?s') 1 = Some sample_entry" by (simp add: get_row_singleton)
  qed (use that in \<open>simp_all add: sample_entry_def\<close>)
  with step show ?thesis by blast
qed

lemma publishing_complete_witness:
  "\<exists>s'. publish_timetable sample_ctx 1 None (sample_timetabling_db [] [(1, sample_entry)] []) = Inr (1, s') \<and>
     get_row (timetable_entries s') 1 = Some (sample_entry\<lparr>te_is_published := True, te_published_at := Some (now sample_ctx)\<rparr>)"
  using publishing_complete [of "sample_timetabling_db [] [(1, sample_entry)] []" sample_ctx 1 None]
  by (auto simp: wf_table_def filter_rows_def sample_entry_def get_row_singleton actor_fk_def)

end
