(* ===== verification/Attendance.thy ===== *)
theory Attendance
  imports Timetabling
begin

text \<open>
  Attendance: the register of a class, the percentage a registration has attended, the waiver
  of the threshold, and the sync handler of the register (\<open>attendance/models.py\<close>,
  \<open>attendance/services.py\<close>, \<open>attendance/sync.py\<close>).
\<close>

section \<open>Models\<close>

datatype attendance_status = Present | Absent | Late | Excused

fun attendance_status_text :: "attendance_status \<Rightarrow> string" where
  "attendance_status_text Present = ''present''"
| "attendance_status_text Absent = ''absent''"
| "attendance_status_text Late = ''late''"
| "attendance_status_text Excused = ''excused''"

definition attendance_status_of :: "string \<Rightarrow> attendance_status option" where
  "attendance_status_of t = find (\<lambda>x. attendance_status_text x = t) [Present, Absent, Late, Excused]"

record session_record =
  att_timetable_entry :: nat
  att_registration :: nat
  att_session_date :: int
  att_status :: attendance_status
  att_notes :: string
  att_recorded_by :: "nat option"

record attendance_waiver =
  wv_registration :: nat
  wv_granted_by :: "nat option"
  wv_reason :: string

record attendance_db = timetabling_db +
  session_records :: "session_record table"
  attendance_waivers :: "attendance_waiver table"

abbreviation put_session_records :: "session_record table \<Rightarrow> 'a attendance_db_scheme \<Rightarrow> 'a attendance_db_scheme" where
  "put_session_records t s \<equiv> s\<lparr>session_records := t\<rparr>"

abbreviation put_waivers :: "attendance_waiver table \<Rightarrow> 'a attendance_db_scheme \<Rightarrow> 'a attendance_db_scheme" where
  "put_waivers t s \<equiv> s\<lparr>attendance_waivers := t\<rparr>"

definition session_record_meta :: model_meta where
  "session_record_meta =
     \<lparr>mm_label = ''attendance.sessionrecord'', mm_verbose = ''session record'', mm_sensitive = True\<rparr>"

definition session_record_audit :: "session_record \<Rightarrow> (string \<times> pyval) list" where
  "session_record_audit r = [(''status'', VStr (attendance_status_text (att_status r)))]"

definition waiver_meta :: model_meta where
  "waiver_meta =
     \<lparr>mm_label = ''attendance.attendancewaiver'', mm_verbose = ''attendance waiver'', mm_sensitive = True\<rparr>"

definition waiver_audit :: "attendance_waiver \<Rightarrow> (string \<times> pyval) list" where
  "waiver_audit w = [(''reason'', VStr (wv_reason w))]"

definition same_session :: "nat option \<Rightarrow> session_record \<Rightarrow> nat \<Rightarrow> session_record \<Rightarrow> bool" where
  "same_session pk r k y \<longleftrightarrow> Some k \<noteq> pk \<and> att_timetable_entry y = att_timetable_entry r \<and>
     att_session_date y = att_session_date r \<and> att_registration y = att_registration r"

definition session_record_full_clean :: "nat option \<Rightarrow> session_record \<Rightarrow> 'a attendance_db_scheme \<Rightarrow> exn + unit" where
  "session_record_full_clean pk r s =
     ensure (get_row (timetable_entries s) (att_timetable_entry r) \<noteq> None \<and>
             get_row (course_registrations s) (att_registration r) \<noteq> None \<and> length (att_notes r) \<le> 255 \<and>
             \<not> exists_row (same_session pk r) (session_records s)) ValidationError"

definition waiver_full_clean :: "nat option \<Rightarrow> attendance_waiver \<Rightarrow> 'a attendance_db_scheme \<Rightarrow> exn + unit" where
  "waiver_full_clean pk w s =
     ensure (get_row (course_registrations s) (wv_registration w) \<noteq> None \<and> wv_reason w \<noteq> [] \<and>
             \<not> exists_row (\<lambda>k y. Some k \<noteq> pk \<and> wv_registration y = wv_registration w) (attendance_waivers s))
       ValidationError"

section \<open>Recording a session\<close>

definition UnregisteredStudent :: exn where "UnregisteredStudent = DomainError ''unregistered_student'' 400"
definition WaiverReasonRequired :: exn where "WaiverReasonRequired = DomainError ''reason_required'' 400"

text \<open>One entry of \<open>marks\<close>; a missing status is \<open>None\<close>, missing notes are empty.\<close>

record register_mark =
  mk_registration :: nat
  mk_status :: "string option"
  mk_notes :: string

definition is_session :: "nat \<Rightarrow> int \<Rightarrow> nat \<Rightarrow> nat \<Rightarrow> session_record \<Rightarrow> bool" where
  "is_session entry d registration k y \<longleftrightarrow>
     att_timetable_entry y = entry \<and> att_session_date y = d \<and> att_registration y = registration"

definition record_one ::
  "ctx \<Rightarrow> nat \<Rightarrow> int \<Rightarrow> register_mark \<Rightarrow> user option \<Rightarrow> 'a attendance_db_scheme
    \<Rightarrow> exn + nat \<times> 'a attendance_db_scheme" where
  "record_one c entry d m actor s =
     (case attendance_status_of (or_keep (mk_status m) ''present'') of
        None \<Rightarrow> Inl ValidationError
      | Some st \<Rightarrow>
          let r = \<lparr>att_timetable_entry = entry, att_registration = mk_registration m, att_session_date = d,
                   att_status = st, att_notes = mk_notes m, att_recorded_by = actor_fk actor\<rparr>
          in case first_row (is_session entry d (mk_registration m)) (session_records s) of
               None \<Rightarrow>
                 bindE (session_record_full_clean None r s) (\<lambda>_.
                   insert_audited c session_record_meta session_record_audit session_records put_session_records r
                     ''Attendance recorded'' s)
             | Some (k, old) \<Rightarrow>
                 bindE (session_record_full_clean (Some k) r s) (\<lambda>_.
                 bindE (update_audited c session_record_meta session_record_audit session_records put_session_records
                          k old r ''Attendance recorded'' s) (\<lambda>s'. Inr (k, s'))))"

fun record_all ::
  "ctx \<Rightarrow> nat \<Rightarrow> int \<Rightarrow> register_mark list \<Rightarrow> user option \<Rightarrow> 'a attendance_db_scheme
    \<Rightarrow> exn + nat list \<times> 'a attendance_db_scheme" where
  "record_all c entry d [] actor s = Inr ([], s)"
| "record_all c entry d (m # ms) actor s =
     bindE (record_one c entry d m actor s) (\<lambda>(k, s1).
     bindE (record_all c entry d ms actor s1) (\<lambda>(ks, s2). Inr (k # ks, s2)))"

definition record_session ::
  "ctx \<Rightarrow> nat \<Rightarrow> int \<Rightarrow> register_mark list \<Rightarrow> user option \<Rightarrow> 'a attendance_db_scheme
    \<Rightarrow> exn + nat list \<times> 'a attendance_db_scheme" where
  "record_session c entry d marks actor s =
     bindE (entry_context entry s) (\<lambda>(course, semester).
       let valid_ids = active_registration_ids course semester s in
       if list_ex (\<lambda>m. mk_registration m \<notin> set valid_ids) marks then Inl UnregisteredStudent
       else record_all c entry d marks actor s)"

definition session_records_of :: "nat \<Rightarrow> int \<Rightarrow> 'a attendance_db_scheme \<Rightarrow> (nat \<times> session_record) list" where
  "session_records_of entry d s =
     filter_rows (\<lambda>_ r. att_timetable_entry r = entry \<and> att_session_date r = d) (session_records s)"

section \<open>The percentage\<close>

record attendance_report =
  ar_sessions_recorded :: nat
  ar_sessions_attended :: nat
  ar_percentage :: "rat option"

definition attendance_summary :: "nat \<Rightarrow> 'a attendance_db_scheme \<Rightarrow> attendance_report" where
  "attendance_summary registration s =
     (let total = count_rows (\<lambda>_ r. att_registration r = registration \<and> att_status r \<noteq> Excused) (session_records s);
          attended = count_rows (\<lambda>_ r. att_registration r = registration \<and> att_status r \<in> {Present, Late}) (session_records s)
      in \<lparr>ar_sessions_recorded = total, ar_sessions_attended = attended,
          ar_percentage = (if total = 0 then None
                           else Some (quantize_half_up (dec_mul (dec_div (of_nat attended) (of_nat total)) 100)))\<rparr>)"

definition is_below_threshold :: "nat \<Rightarrow> 'a attendance_db_scheme \<Rightarrow> bool" where
  "is_below_threshold registration s =
     (case ar_percentage (attendance_summary registration s) of
        None \<Rightarrow> False
      | Some p \<Rightarrow> p < attendance_threshold s)"

record exam_eligibility_report =
  ee_summary :: attendance_report
  ee_threshold :: rat
  ee_below_threshold :: bool
  ee_waived :: bool
  ee_eligible :: bool

definition exam_eligibility :: "nat \<Rightarrow> 'a attendance_db_scheme \<Rightarrow> exam_eligibility_report" where
  "exam_eligibility registration s =
     (let below = is_below_threshold registration s;
          waived = exists_row (\<lambda>_ w. wv_registration w = registration) (attendance_waivers s)
      in \<lparr>ee_summary = attendance_summary registration s, ee_threshold = attendance_threshold s,
          ee_below_threshold = below, ee_waived = waived, ee_eligible = (\<not> below \<or> waived)\<rparr>)"

definition grant_waiver ::
  "ctx \<Rightarrow> nat \<Rightarrow> user option \<Rightarrow> string \<Rightarrow> 'a attendance_db_scheme \<Rightarrow> exn + nat \<times> 'a attendance_db_scheme" where
  "grant_waiver c registration actor reason s =
     (if \<not> nonblank reason then Inl WaiverReasonRequired
      else let w = \<lparr>wv_registration = registration, wv_granted_by = actor_fk actor, wv_reason = reason\<rparr>
           in case first_row (\<lambda>_ y. wv_registration y = registration) (attendance_waivers s) of
                None \<Rightarrow>
                  bindE (waiver_full_clean None w s) (\<lambda>_.
                    insert_audited c waiver_meta waiver_audit attendance_waivers put_waivers w reason s)
              | Some (k, old) \<Rightarrow>
                  bindE (waiver_full_clean (Some k) w s) (\<lambda>_.
                  bindE (update_audited c waiver_meta waiver_audit attendance_waivers put_waivers k old w reason s)
                    (\<lambda>s'. Inr (k, s'))))"

section \<open>The sync handler\<close>

definition SESSION_REQUIRED_FIELDS :: "string list" where
  "SESSION_REQUIRED_FIELDS = [''timetable_entry_id'', ''session_date'', ''registration_id'', ''status'']"

text \<open>
  The integers are read before anything is looked up. A date that is not a string makes the
  query of the existing record fail, a status of another type than text is not one of the
  choices, and explicit null notes violate the column when the row is written.
\<close>

definition session_record_apply ::
  "ctx \<Rightarrow> sync_input \<Rightarrow> user \<Rightarrow> 'a attendance_db_scheme \<Rightarrow> exn + sync_result \<times> 'a attendance_db_scheme" where
  "session_record_apply c op actor s =
     (let p = in_payload op in
      if list_ex (payload_missing p) SESSION_REQUIRED_FIELDS then Inl ValidationError
      else
        bindE (case payload_get p ''session_date'' of
                 VStr t \<Rightarrow> bindE (date_fromisoformat t) (\<lambda>d. Inr (Some d))
               | v \<Rightarrow> Inr None) (\<lambda>session_date.
        bindE (py_int (payload_get p ''timetable_entry_id'')) (\<lambda>entry.
        bindE (py_int (payload_get p ''registration_id'')) (\<lambda>registration.
        bindE (payload_text [] (payload_get p ''status'')) (\<lambda>status.
        bindE (payload_text [] (payload_get p ''notes'')) (\<lambda>remark.
        if entry \<le> 0 then Inl DoesNotExist
        else bindE (entry_context (nat entry) s) (\<lambda>(course, semester).
        if registration \<le> 0 \<or> nat registration \<notin> set (active_registration_ids course semester s)
        then Inl UnregisteredStudent
        else case session_date of
            None \<Rightarrow> Inl UnexpectedError
          | Some d \<Rightarrow>
              bindE (record_session c (nat entry) d
                  [\<lparr>mk_registration = nat registration, mk_status = Some status, mk_notes = remark\<rparr>] (Some actor) s)
                (\<lambda>(ks, s').
                  if map_of p ''notes'' = Some VNone then Inl IntegrityError
                  else case get_row (session_records s') (hd ks) of
                      None \<Rightarrow> Inl UnexpectedError
                    | Some r \<Rightarrow>
                        Inr (\<lparr>sr_fields = [(''id'', VInt (int (hd ks))),
                                           (''status'', VStr (attendance_status_text (att_status r)))],
                              sr_overwrote = [], sr_target = Some (session_record_meta, hd ks)\<rparr>, s')))))))))"

definition SessionRecordHandler :: "ctx \<Rightarrow> 'a attendance_db_scheme sync_handler" where
  "SessionRecordHandler c =
     \<lparr>sh_entity = ''attendance.sessionrecord'', sh_actions = [''create'', ''update''], sh_policy = LastWriteWins,
      sh_required_permission = ''attendance.add_sessionrecord'', sh_apply = session_record_apply c\<rparr>"

section \<open>The effect of a register\<close>

definition session_key :: "session_record \<Rightarrow> (nat \<times> int \<times> nat) option" where
  "session_key r = Some (att_timetable_entry r, att_session_date r, att_registration r)"

definition waiver_key :: "attendance_waiver \<Rightarrow> nat option" where
  "waiver_key w = Some (wv_registration w)"

definition attendance_inv :: "'a attendance_db_scheme \<Rightarrow> bool" where
  "attendance_inv s \<longleftrightarrow> wf_table (session_records s) \<and> unique_on session_key (session_records s) \<and>
     wf_table (attendance_waivers s) \<and> unique_on waiver_key (attendance_waivers s)"

definition status_in_register :: "nat \<Rightarrow> int \<Rightarrow> nat \<Rightarrow> 'a attendance_db_scheme \<Rightarrow> attendance_status option" where
  "status_in_register entry d registration s =
     map_option (\<lambda>(k, r). att_status r) (first_row (is_session entry d registration) (session_records s))"

lemma status_in_register_iff:
  assumes "attendance_inv s"
  shows "status_in_register entry d registration s = Some st \<longleftrightarrow>
    (\<exists>k r. get_row (session_records s) k = Some r \<and> is_session entry d registration k r \<and> att_status r = st)"
proof
  assume "status_in_register entry d registration s = Some st"
  then show "\<exists>k r. get_row (session_records s) k = Some r \<and> is_session entry d registration k r \<and> att_status r = st"
    using first_row_get first_row_Some assms unfolding status_in_register_def attendance_inv_def by fastforce
next
  assume "\<exists>k r. get_row (session_records s) k = Some r \<and> is_session entry d registration k r \<and> att_status r = st"
  then obtain k r where r: "get_row (session_records s) k = Some r" "is_session entry d registration k r" "att_status r = st"
    by blast
  then obtain j q where q: "first_row (is_session entry d registration) (session_records s) = Some (j, q)"
    using no_clash_unique [of "is_session entry d registration"] first_row_None
    by (cases "first_row (is_session entry d registration) (session_records s)") fastforce+
  then have "get_row (session_records s) j = Some q" "is_session entry d registration j q"
    using first_row_get first_row_Some assms unfolding attendance_inv_def by fastforce+
  then have "j = k"
    using unique_onD [of session_key "session_records s" j q k r] r assms
    by (simp add: attendance_inv_def session_key_def is_session_def)
  with q r \<open>get_row (session_records s) j = Some q\<close> show "status_in_register entry d registration s = Some st"
    by (simp add: status_in_register_def)
qed

lemma record_one_Inr:
  assumes "record_one c entry d m actor s = Inr (k, s')"
  obtains st r tr where "attendance_status_of (or_keep (mk_status m) ''present'') = Some st"
    and "r = \<lparr>att_timetable_entry = entry, att_registration = mk_registration m, att_session_date = d,
              att_status = st, att_notes = mk_notes m, att_recorded_by = actor_fk actor\<rparr>"
    and "first_row (is_session entry d (mk_registration m)) (session_records s) = None \<and> k = fresh_pk (session_records s) \<and>
           s' = s\<lparr>session_records := add_row r (session_records s), audit_log := tr\<rparr> \<or>
         (\<exists>old. first_row (is_session entry d (mk_registration m)) (session_records s) = Some (k, old) \<and>
           s' = s\<lparr>session_records := put_row k r (session_records s), audit_log := tr\<rparr>)"
    and "\<not> exists_row (same_session (map_option fst (first_row (is_session entry d (mk_registration m)) (session_records s))) r)
           (session_records s)"
proof -
  from assms obtain st where st: "attendance_status_of (or_keep (mk_status m) ''present'') = Some st"
    by (auto simp: record_one_def split: option.splits)
  let ?r = "\<lparr>att_timetable_entry = entry, att_registration = mk_registration m, att_session_date = d,
    att_status = st, att_notes = mk_notes m, att_recorded_by = actor_fk actor\<rparr>"
  show thesis
  proof (cases "first_row (is_session entry d (mk_registration m)) (session_records s)")
    case None
    with assms st have "session_record_full_clean None ?r s = Inr ()"
      and "insert_audited c session_record_meta session_record_audit session_records put_session_records ?r
        ''Attendance recorded'' s = Inr (k, s')"
      by (auto simp: record_one_def Let_def elim!: bindE_InrE)
    with None st show thesis
      by (elim insert_audited_Inr) (rule that [OF st refl], auto simp: session_record_full_clean_def ensure_eq_Inr)
  next
    case (Some x)
    obtain j old where x: "x = (j, old)" by (cases x)
    with assms st Some have "session_record_full_clean (Some j) ?r s = Inr ()" and "j = k"
      and "update_audited c session_record_meta session_record_audit session_records put_session_records j old ?r
        ''Attendance recorded'' s = Inr s'"
      by (auto simp: record_one_def Let_def elim!: bindE_InrE)
    with Some x st show thesis
      by (elim update_audited_Inr) (rule that [OF st refl], auto simp: session_record_full_clean_def ensure_eq_Inr)
  qed
qed

lemma record_one_effect:
  assumes "record_one c entry d m actor s = Inr (k, s')" and inv: "attendance_inv s"
  shows "attendance_inv s'"
    and "\<exists>st. attendance_status_of (or_keep (mk_status m) ''present'') = Some st \<and>
      (\<forall>e' d' g. status_in_register e' d' g s' =
         (if (e', d', g) = (entry, d, mk_registration m) then Some st else status_in_register e' d' g s))"
    and "\<exists>r. get_row (session_records s') k = Some r \<and> is_session entry d (mk_registration m) k r"
    and "attendance_waivers s' = attendance_waivers s"
  using assms(1)
proof (atomize (full), rule record_one_Inr, goal_cases)
  case (1 st r tr)
  note st = 1(1) and r = 1(2) and tab = 1(3) and clash = 1(4)
  let ?old = "first_row (is_session entry d (mk_registration m)) (session_records s)"
  have free: "session_key b \<noteq> session_key r" if "get_row (session_records s) j = Some b" "Some j \<noteq> map_option fst ?old" for j b
    using no_clash_unique [OF clash that(1)] that(2) by (auto simp: same_session_def session_key_def)
  have old: "get_row (session_records s) k = Some old \<and> is_session entry d (mk_registration m) k old"
    if "?old = Some (k, old)" for old
    using first_row_get first_row_Some that inv unfolding attendance_inv_def by fastforce
  have inv': "attendance_inv s'"
    using tab
  proof
    assume a: "?old = None \<and> k = fresh_pk (session_records s) \<and>
      s' = s\<lparr>session_records := add_row r (session_records s), audit_log := tr\<rparr>"
    have "unique_on session_key (add_row r (session_records s))"
      using inv free a by (intro unique_on_add) (force simp: attendance_inv_def)+
    with a inv show ?thesis by (simp add: attendance_inv_def)
  next
    assume "\<exists>old. ?old = Some (k, old) \<and> s' = s\<lparr>session_records := put_row k r (session_records s), audit_log := tr\<rparr>"
    then obtain old where a: "?old = Some (k, old)"
      "s' = s\<lparr>session_records := put_row k r (session_records s), audit_log := tr\<rparr>" by blast
    have "unique_on session_key (put_row k r (session_records s))"
      using inv free a by (intro unique_on_put) (force simp: attendance_inv_def)+
    with a inv show ?thesis by (simp add: attendance_inv_def)
  qed
  have row: "get_row (session_records s') j = (if j = k then Some r else get_row (session_records s) j)" for j
    using tab old by (auto simp: get_add_row get_put_row)
  have other: "get_row (session_records s) k = None \<or>
      (\<exists>old. get_row (session_records s) k = Some old \<and> is_session entry d (mk_registration m) k old)"
    using tab old by (auto simp: get_row_fresh)
  have key: "is_session e' d' g j r \<longleftrightarrow> (e', d', g) = (entry, d, mk_registration m)" for e' d' g j
    by (auto simp: r is_session_def)
  have "status_in_register e' d' g s' =
      (if (e', d', g) = (entry, d, mk_registration m) then Some st else status_in_register e' d' g s)" for e' d' g
  proof (cases "(e', d', g) = (entry, d, mk_registration m)")
    case True
    have "get_row (session_records s') k = Some r \<and> is_session e' d' g k r \<and> att_status r = st"
      using True by (simp add: row key) (simp add: r)
    with status_in_register_iff [OF inv', of e' d' g st] True show ?thesis by auto
  next
    case False
    have "(get_row (session_records s') j = Some q \<and> is_session e' d' g j q) =
        (get_row (session_records s) j = Some q \<and> is_session e' d' g j q)" for j q
      using other False key [of e' d' g j] by (cases "j = k") (auto simp: row is_session_def)
    then have "status_in_register e' d' g s' = Some x \<longleftrightarrow> status_in_register e' d' g s = Some x" for x
      unfolding status_in_register_iff [OF inv'] status_in_register_iff [OF inv] conj_assoc [symmetric] by (simp only:)
    then show ?thesis using False by (metis not_None_eq)
  qed
  moreover have "attendance_waivers s' = attendance_waivers s" using tab by auto
  moreover have "\<exists>r. get_row (session_records s') k = Some r \<and> is_session entry d (mk_registration m) k r"
    using key by (auto simp: row)
  ultimately show ?case using inv' st by blast
qed

text \<open>The statuses of a register; a registration that is marked twice keeps the last mark.\<close>

definition marked :: "register_mark list \<Rightarrow> nat \<Rightarrow> attendance_status option" where
  "marked marks g = (case map_of (rev (map (\<lambda>m. (mk_registration m, or_keep (mk_status m) ''present'')) marks)) g of
     None \<Rightarrow> None | Some t \<Rightarrow> attendance_status_of t)"

lemma marked_Cons:
  "marked (m # ms) g = (case marked ms g of
     None \<Rightarrow> if g \<in> mk_registration ` set ms then None
             else if g = mk_registration m then attendance_status_of (or_keep (mk_status m) ''present'') else None
   | Some st \<Rightarrow> Some st)"
proof -
  let ?f = "\<lambda>m. (mk_registration m, or_keep (mk_status m) ''present'')"
  have "map_of (rev (map ?f ms)) g = None \<longleftrightarrow> g \<notin> mk_registration ` set ms"
    by (simp add: map_of_eq_None_iff image_image)
  then show ?thesis
    by (cases "g \<in> mk_registration ` set ms") (auto simp: marked_def map_add_def simp del: image_iff split: option.splits)
qed

lemma record_all_effect:
  assumes "record_all c entry d marks actor s = Inr (ks, s')" and "attendance_inv s"
  shows "attendance_inv s' \<and> attendance_waivers s' = attendance_waivers s \<and> length ks = length marks \<and>
    (\<forall>m \<in> set marks. attendance_status_of (or_keep (mk_status m) ''present'') \<noteq> None) \<and>
    (\<forall>e' d' g. status_in_register e' d' g s' =
       (case if e' = entry \<and> d' = d then marked marks g else None of
          Some st \<Rightarrow> Some st | None \<Rightarrow> status_in_register e' d' g s))"
  using assms
proof (induction marks arbitrary: s ks)
  case Nil
  then show ?case by (simp add: marked_def)
next
  case (Cons m ms)
  then obtain k s1 ks' where one: "record_one c entry d m actor s = Inr (k, s1)"
    and all: "record_all c entry d ms actor s1 = Inr (ks', s')" and ks: "ks = k # ks'"
    by (auto elim!: bindE_pairE)
  note eff = record_one_effect [OF one Cons.prems(2)]
  from eff(2) obtain st where st: "attendance_status_of (or_keep (mk_status m) ''present'') = Some st"
    and row: "\<And>e' d' g. status_in_register e' d' g s1 =
         (if (e', d', g) = (entry, d, mk_registration m) then Some st else status_in_register e' d' g s)" by blast
  note ih = Cons.IH [OF all eff(1)]
  have "marked ms g \<noteq> None" if "g \<in> mk_registration ` set ms" for g
  proof -
    have "map_of (rev (map (\<lambda>m. (mk_registration m, or_keep (mk_status m) ''present'')) ms)) g \<noteq> None"
      using that by (simp add: map_of_eq_None_iff image_image)
    then obtain t where t: "map_of (rev (map (\<lambda>m. (mk_registration m, or_keep (mk_status m) ''present'')) ms)) g = Some t" by blast
    then have "t \<in> (\<lambda>m. or_keep (mk_status m) ''present'') ` set ms" using map_of_SomeD by fastforce
    with ih t show ?thesis by (auto simp: marked_def)
  qed
  then have defined: "\<And>g. g \<in> mk_registration ` set ms \<Longrightarrow> marked ms g \<noteq> None" .
  have "marked (m # ms) g = (case marked ms g of None \<Rightarrow> if g = mk_registration m then Some st else None | Some x \<Rightarrow> Some x)" for g
  proof (cases "g \<in> mk_registration ` set ms")
    case True
    with defined obtain x where "marked ms g = Some x" by blast
    then show ?thesis by (simp add: marked_Cons)
  next
    case False
    then show ?thesis using st by (simp add: marked_Cons del: image_iff split: option.splits)
  qed
  with ih eff(4) st ks row show ?case by (auto split: option.splits)
qed

lemma record_session_Inr:
  assumes "record_session c entry d marks actor s = Inr (ks, s')"
  obtains course semester where "entry_context entry s = Inr (course, semester)"
    and "mk_registration ` set marks \<subseteq> set (active_registration_ids course semester s)"
    and "record_all c entry d marks actor s = Inr (ks, s')"
  using assms unfolding record_session_def Let_def
  by (auto elim!: bindE_pairE simp: list_ex_iff image_subset_iff split: if_splits)

lemma grant_waiver_Inr:
  assumes "grant_waiver c registration actor reason s = Inr (k, s')"
  obtains w tr where "w = \<lparr>wv_registration = registration, wv_granted_by = actor_fk actor, wv_reason = reason\<rparr>"
    and "nonblank reason"
    and "first_row (\<lambda>_ y. wv_registration y = registration) (attendance_waivers s) = None \<and>
           s' = s\<lparr>attendance_waivers := add_row w (attendance_waivers s), audit_log := tr\<rparr> \<or>
         (\<exists>old. first_row (\<lambda>_ y. wv_registration y = registration) (attendance_waivers s) = Some (k, old) \<and>
           s' = s\<lparr>attendance_waivers := put_row k w (attendance_waivers s), audit_log := tr\<rparr>)"
    and "\<not> exists_row (\<lambda>j y. Some j \<noteq> map_option fst (first_row (\<lambda>_ y. wv_registration y = registration) (attendance_waivers s)) \<and>
           wv_registration y = registration) (attendance_waivers s)"
proof -
  let ?w = "\<lparr>wv_registration = registration, wv_granted_by = actor_fk actor, wv_reason = reason\<rparr>"
  have blank: "nonblank reason" using assms by (auto simp: grant_waiver_def split: if_splits)
  show thesis
  proof (cases "first_row (\<lambda>_ y. wv_registration y = registration) (attendance_waivers s)")
    case None
    with assms blank have "waiver_full_clean None ?w s = Inr ()"
      and "insert_audited c waiver_meta waiver_audit attendance_waivers put_waivers ?w reason s = Inr (k, s')"
      by (auto simp: grant_waiver_def Let_def elim!: bindE_InrE)
    with None blank show thesis
      by (elim insert_audited_Inr) (rule that [OF refl blank], auto simp: waiver_full_clean_def ensure_eq_Inr)
  next
    case (Some x)
    obtain j old where x: "x = (j, old)" by (cases x)
    with assms blank Some have "waiver_full_clean (Some j) ?w s = Inr ()" and "j = k"
      and "update_audited c waiver_meta waiver_audit attendance_waivers put_waivers j old ?w reason s = Inr s'"
      by (auto simp: grant_waiver_def Let_def elim!: bindE_InrE)
    with Some x blank show thesis
      by (elim update_audited_Inr) (rule that [OF refl blank], auto simp: waiver_full_clean_def ensure_eq_Inr)
  qed
qed

lemma grant_waiver_inv:
  assumes "grant_waiver c registration actor reason s = Inr (k, s')" and "attendance_inv s"
  shows "attendance_inv s'"
  using assms(1)
proof (rule grant_waiver_Inr)
  fix w tr
  let ?old = "first_row (\<lambda>_ y. wv_registration y = registration) (attendance_waivers s)"
  assume w: "w = \<lparr>wv_registration = registration, wv_granted_by = actor_fk actor, wv_reason = reason\<rparr>"
    and tab: "?old = None \<and> s' = s\<lparr>attendance_waivers := add_row w (attendance_waivers s), audit_log := tr\<rparr> \<or>
         (\<exists>old. ?old = Some (k, old) \<and> s' = s\<lparr>attendance_waivers := put_row k w (attendance_waivers s), audit_log := tr\<rparr>)"
    and clash: "\<not> exists_row (\<lambda>j y. Some j \<noteq> map_option fst ?old \<and> wv_registration y = registration) (attendance_waivers s)"
  have free: "waiver_key b \<noteq> waiver_key w" if "get_row (attendance_waivers s) j = Some b" "Some j \<noteq> map_option fst ?old" for j b
    using no_clash_unique [OF clash that(1)] that(2) by (auto simp: waiver_key_def w)
  have "unique_on waiver_key (add_row w (attendance_waivers s))" if "?old = None"
    using assms(2) free that by (intro unique_on_add) (force simp: attendance_inv_def)+
  moreover have "unique_on waiver_key (put_row k w (attendance_waivers s))" if "?old = Some (k, old)" for old
    using assms(2) free that by (intro unique_on_put) (force simp: attendance_inv_def)+
  ultimately show ?thesis using tab assms(2) by (auto simp: attendance_inv_def)
qed

section \<open>Reachable states\<close>

inductive attendance_step :: "'a attendance_db_scheme \<Rightarrow> 'a attendance_db_scheme \<Rightarrow> bool" where
  Session: "record_session c entry d marks actor s = Inr (ks, s') \<Longrightarrow> attendance_step s s'"
| Waiver: "grant_waiver c registration actor reason s = Inr (k, s') \<Longrightarrow> attendance_step s s'"
| Timetabling: "timetabling_step s s' \<Longrightarrow> attendance_step s s'"

lemma finance_step_timetabling_more: "finance_step s s' \<Longrightarrow> timetabling_db.more s' = timetabling_db.more s"
  using finance_step_more [of s s'] by (cases s; cases s') simp

lemma timetabling_step_more: "timetabling_step s s' \<Longrightarrow> timetabling_db.more s' = timetabling_db.more s"
proof (induction rule: timetabling_step.induct)
  case (NewEntry c course semester day start_time end_time room lecturer s k s')
  then show ?case by (rule create_entry_Inr) simp
next
  case (EditEntry c k day_opt start_opt end_opt room_opt lecturer_opt s s')
  then show ?case by (rule update_entry_Inr) simp
next
  case (NewExam c course semester d start_time end_time room ids s k s')
  then show ?case by (rule create_exam_entry_Inr) simp
next
  case (EditExam c k date_opt start_opt end_opt room_opt ids s s')
  then show ?case by (rule update_exam_entry_Inr) simp
next
  case (Publish c semester actor s n s')
  then show ?case
    using publish_entries_succeeds [of c actor "filter_rows (\<lambda>_ e. te_semester e = semester \<and> \<not> te_is_published e) (timetable_entries s)" s]
    by (auto simp: publish_timetable_def Let_def)
next
  case (PublishExams c semester actor s n s')
  then show ?case
    using publish_exams_succeeds [of c actor "filter_rows (\<lambda>_ e. ex_semester e = semester \<and> \<not> ex_is_published e) (exam_timetables s)" s]
    by (auto simp: publish_exam_timetable_def Let_def)
next
  case (Finance s s')
  then show ?case by (rule finance_step_timetabling_more)
qed (auto simp: create_tt_room_def update_tt_room_def Let_def split: option.splits
      elim!: bindE_InrE insert_audited_Inr update_audited_Inr)

lemma timetabling_step_attendance:
  "timetabling_step s s' \<Longrightarrow> session_records s' = session_records s \<and> attendance_waivers s' = attendance_waivers s"
  using timetabling_step_more [of s s'] by (cases s; cases s') simp

lemma attendance_step_inv: "attendance_step s s' \<Longrightarrow> attendance_inv s \<Longrightarrow> attendance_inv s'"
proof (induction rule: attendance_step.induct)
  case (Session c entry d marks actor s ks s')
  then show ?case using record_all_effect by (elim record_session_Inr) blast
next
  case (Waiver c registration actor reason s k s')
  then show ?case by (rule grant_waiver_inv)
next
  case (Timetabling s s')
  then show ?case using timetabling_step_attendance [of s s'] by (simp add: attendance_inv_def)
qed

lemma attendance_reachable_inv: "attendance_step\<^sup>*\<^sup>* s s' \<Longrightarrow> attendance_inv s \<Longrightarrow> attendance_inv s'"
  by (induction rule: rtranclp_induct) (auto intro: attendance_step_inv)

section \<open>Properties\<close>

text \<open>
  A register says what was marked. After any operations, recording a session for a class
  succeeds only for active registrations of its course and semester; afterwards each of them
  has the status it was marked with last, every other entry of every register is as before,
  and there is still one row per class, day and registration, so a register that is sent twice
  corrects and never duplicates.
\<close>

theorem register_recorded:
  assumes "attendance_step\<^sup>*\<^sup>* s0 s" and "attendance_inv s0" and "record_session c entry d marks actor s = Inr (ks, s')"
  shows "(\<exists>course semester. entry_context entry s = Inr (course, semester) \<and>
      mk_registration ` set marks \<subseteq> set (active_registration_ids course semester s)) \<and>
    unique_on session_key (session_records s') \<and>
    (\<forall>e' d' g. status_in_register e' d' g s' =
       (case if e' = entry \<and> d' = d then marked marks g else None of
          Some st \<Rightarrow> Some st | None \<Rightarrow> status_in_register e' d' g s))"
  using assms(3)
proof (rule record_session_Inr)
  fix course semester
  assume "entry_context entry s = Inr (course, semester)"
    and "mk_registration ` set marks \<subseteq> set (active_registration_ids course semester s)"
    and "record_all c entry d marks actor s = Inr (ks, s')"
  moreover note record_all_effect [OF this(3) attendance_reachable_inv [OF assms(1,2)]]
  ultimately show ?thesis unfolding attendance_inv_def by blast
qed

text \<open>A value that is closer to a fraction than the fraction is to a rounding boundary.\<close>

lemma quantize_close:
  fixes x :: rat and a b :: int
  assumes "0 \<le> a" and "0 < b" and "0 \<le> x"
    and close: "\<bar>x - of_int a / of_int b\<bar> * (200 * of_int b) < 1"
    and tie: "(of_int a / of_int b :: rat) * 100 + 1 / 2 \<in> \<int> \<Longrightarrow> x = of_int a / of_int b"
  shows "quantize_half_up x = quantize_half_up (of_int a / of_int b)"
proof -
  define q :: rat where "q = of_int a / of_int b"
  have "round_half_up (x * 100) = round_half_up (q * 100)"
  proof (rule round_half_up_stable)
    show "0 \<le> q * 100" "0 \<le> x * 100" using assms(1-3) by (simp_all add: q_def)
  next
    fix m :: int
    assume ne: "q * 100 + 1 / 2 \<noteq> of_int m"
    define N where "N = 200 * a + b - 2 * m * b"
    have eq: "(q * 100 + 1 / 2 - of_int m) * (2 * of_int b) = of_int N"
      using \<open>0 < b\<close> by (simp add: q_def N_def field_simps)
    have "(q * 100 + 1 / 2 - of_int m) * (2 * of_int b) \<noteq> 0" using ne \<open>0 < b\<close> by simp
    then have "1 \<le> \<bar>N\<bar>" unfolding eq of_int_eq_0_iff by simp
    then have "(1::rat) \<le> \<bar>of_int N\<bar>" by (metis of_int_1_le_iff of_int_abs)
    also have "\<dots> = \<bar>q * 100 + 1 / 2 - of_int m\<bar> * (2 * of_int b)"
      using \<open>0 < b\<close> by (simp only: eq [symmetric] abs_mult)
    finally have "1 \<le> \<bar>q * 100 + 1 / 2 - of_int m\<bar> * (2 * of_int b)" .
    moreover have "\<bar>x * 100 - q * 100\<bar> = \<bar>x - q\<bar> * 100"
      by (simp only: left_diff_distrib [symmetric] abs_mult abs_numeral)
    then have "\<bar>x * 100 - q * 100\<bar> * (2 * of_int b) < 1" using close by (simp add: q_def algebra_simps)
    ultimately have "\<bar>x * 100 - q * 100\<bar> * (2 * of_int b) < \<bar>q * 100 + 1 / 2 - of_int m\<bar> * (2 * of_int b)" by linarith
    then show "\<bar>x * 100 - q * 100\<bar> < \<bar>q * 100 + 1 / 2 - of_int m\<bar>"
      by (rule mult_right_less_imp_less) (use \<open>0 < b\<close> in simp)
  qed (use tie in \<open>simp add: q_def\<close>)
  then show ?thesis by (simp add: quantize_half_up_def q_def)
qed

lemma percentage_exact:
  fixes a t :: nat
  assumes "a \<le> t" and "0 < t" and "t < 10 ^ 20"
  shows "quantize_half_up (dec_mul (dec_div (of_nat a) (of_nat t)) 100) = quantize_half_up (of_nat (100 * a) / of_nat t)"
proof -
  define q :: rat where "q = of_nat a / of_nat t"
  define y where "y = dec_ctx q"
  have q: "0 \<le> q" "q \<le> 1" using assms by (simp_all add: q_def)
  have y: "0 \<le> y" unfolding y_def using q by (intro dec_ctx_nonneg)
  have e1: "\<bar>y - q\<bar> \<le> 10 ^ 1 / 10 ^ 28 / 2" unfolding y_def using q by (intro dec_ctx_error_bound) simp
  then have "\<bar>y - q\<bar> \<le> 1" by (rule order_trans) simp
  then have "y \<le> 2" using q by linarith
  then have e2: "\<bar>dec_ctx (y * 100) - y * 100\<bar> \<le> 10 ^ 3 / 10 ^ 28 / 2" using y by (intro dec_ctx_error_bound) simp
  have e3: "\<bar>y * 100 - q * 100\<bar> \<le> 10 ^ 3 / 10 ^ 28 / 2"
  proof -
    have "\<bar>y * 100 - q * 100\<bar> = \<bar>y - q\<bar> * 100" by (simp only: left_diff_distrib [symmetric] abs_mult abs_numeral)
    with e1 show ?thesis by simp
  qed
  have near: "\<bar>dec_ctx (y * 100) - q * 100\<bar> \<le> 10 ^ 3 / 10 ^ 28"
  proof -
    have "\<bar>dec_ctx (y * 100) - q * 100\<bar> \<le> \<bar>dec_ctx (y * 100) - y * 100\<bar> + \<bar>y * 100 - q * 100\<bar>" by linarith
    also have "\<dots> \<le> 10 ^ 3 / 10 ^ 28 / 2 + 10 ^ 3 / 10 ^ 28 / 2" using e2 e3 by (rule add_mono)
    also have "\<dots> = 10 ^ 3 / 10 ^ 28" by simp
    finally show ?thesis .
  qed
  have tie: "dec_ctx (y * 100) = q * 100" if "q * 100 * 100 + 1 / 2 \<in> \<int>"
  proof -
    from that obtain m where m: "q * 100 * 100 + 1 / 2 = of_int m" by (auto elim: Ints_cases)
    then have "q * 10 ^ 5 = of_int (10 * m - 5)" by simp
    then have i1: "q * 10 ^ 5 \<in> \<int>" by (simp only: Ints_of_int)
    then have i2: "(q * 100) * 10 ^ 5 \<in> \<int>"
      using Ints_mult [OF _ i1, of 100] by (simp add: mult.assoc mult.commute)
    have "y = q" unfolding y_def using q by (intro dec_ctx_exact [OF i1]) simp
    moreover have "dec_ctx (q * 100) = q * 100" using q by (intro dec_ctx_exact [OF i2]) simp
    ultimately show ?thesis by simp
  qed
  have eq: "of_int (int (100 * a)) / of_int (int t) = q * 100" by (simp add: q_def)
  have "(1000::rat) / 10 ^ 28 * (200 * of_nat t) < 1"
  proof -
    have "(of_nat t :: rat) < 10 ^ 20" using assms(3) by (metis of_nat_less_iff of_nat_numeral of_nat_power)
    then show ?thesis by simp
  qed
  moreover have "\<bar>dec_ctx (y * 100) - q * 100\<bar> * (200 * of_nat t) \<le> 1000 / 10 ^ 28 * (200 * of_nat t)"
    using near by (intro mult_right_mono) simp_all
  ultimately have "\<bar>dec_ctx (y * 100) - q * 100\<bar> * (200 * of_nat t) < 1" by linarith
  then have "quantize_half_up (dec_ctx (y * 100)) = quantize_half_up (q * 100)"
    using quantize_close [of "int (100 * a)" "int t" "dec_ctx (y * 100)"] assms(2) y tie dec_ctx_nonneg
    unfolding eq by simp
  then show ?thesis by (simp add: dec_mul_def dec_div_def y_def q_def mult.commute)
qed

lemma quantize_half_up_less:
  assumes "0 \<le> q" and "two_places v"
  shows "quantize_half_up q < v \<longleftrightarrow> q + 1 / 200 < v"
proof -
  obtain n where v: "v = of_int n / 100" using assms(2) by (rule two_placesE)
  have "quantize_half_up q < v \<longleftrightarrow> round_half_up (q * 100) < n"
    by (simp add: quantize_half_up_def v divide_less_cancel)
  also have "\<dots> \<longleftrightarrow> q * 100 + 1 / 2 < of_int n" using assms(1) by (simp add: round_half_up_def floor_less_iff)
  also have "\<dots> \<longleftrightarrow> q + 1 / 200 < v" unfolding v by linarith
  finally show ?thesis .
qed

lemma attended_le_recorded:
  "count_rows (\<lambda>_ r. att_registration r = g \<and> att_status r \<in> {Present, Late}) t \<le>
     count_rows (\<lambda>_ r. att_registration r = g \<and> att_status r \<noteq> Excused) t"
  unfolding count_rows_def filter_rows_def by (induction t) auto

text \<open>
  Eligibility for an examination is decided exactly. The 28-digit arithmetic of the percentage
  gives the exact share of attended sessions rounded half-up; so a registration may sit the
  examination if and only if it has a waiver, or no session counts, or the share rounded to two
  decimals reaches the configured threshold.
\<close>

theorem eligibility_exact:
  assumes "two_places (attendance_threshold s)"
    and "ar_sessions_recorded (attendance_summary g s) < 10 ^ 20"
  shows "(ee_eligible (exam_eligibility g s) \<longleftrightarrow>
      exists_row (\<lambda>_ w. wv_registration w = g) (attendance_waivers s) \<or>
      ar_sessions_recorded (attendance_summary g s) = 0 \<or>
      attendance_threshold s \<le> of_nat (100 * ar_sessions_attended (attendance_summary g s)) /
        of_nat (ar_sessions_recorded (attendance_summary g s)) + 1 / 200) \<and>
    ar_percentage (attendance_summary g s) =
      (if ar_sessions_recorded (attendance_summary g s) = 0 then None
       else Some (quantize_half_up (of_nat (100 * ar_sessions_attended (attendance_summary g s)) /
         of_nat (ar_sessions_recorded (attendance_summary g s)))))"
proof -
  let ?t = "ar_sessions_recorded (attendance_summary g s)" and ?a = "ar_sessions_attended (attendance_summary g s)"
  have le: "?a \<le> ?t" using attended_le_recorded by (simp add: attendance_summary_def Let_def)
  have p: "ar_percentage (attendance_summary g s) =
      (if ?t = 0 then None else Some (quantize_half_up (dec_mul (dec_div (of_nat ?a) (of_nat ?t)) 100)))"
    by (simp add: attendance_summary_def Let_def)
  with percentage_exact [OF le] assms(2) have exact: "ar_percentage (attendance_summary g s) =
      (if ?t = 0 then None else Some (quantize_half_up (of_nat (100 * ?a) / of_nat ?t)))" by simp
  have "is_below_threshold g s \<longleftrightarrow> ?t \<noteq> 0 \<and> of_nat (100 * ?a) / of_nat ?t + 1 / 200 < attendance_threshold s"
    using quantize_half_up_less [OF _ assms(1), of "of_nat (100 * ?a) / of_nat ?t"] by (simp add: is_below_threshold_def exact)
  then have "ee_eligible (exam_eligibility g s) \<longleftrightarrow>
      exists_row (\<lambda>_ w. wv_registration w = g) (attendance_waivers s) \<or> ?t = 0 \<or>
      attendance_threshold s \<le> of_nat (100 * ?a) / of_nat ?t + 1 / 200"
    by (auto simp: exam_eligibility_def Let_def)
  with exact show ?thesis by simp
qed

section \<open>The handler and the ledger\<close>

lemma record_session_frame:
  assumes "record_session c entry d marks actor s = Inr (ks, s')"
  shows "\<exists>t tr. s' = s\<lparr>session_records := t, audit_log := tr\<rparr>"
proof -
  have "\<exists>t tr. s' = s\<lparr>session_records := t, audit_log := tr\<rparr>" if "record_all c entry d marks actor s = Inr (ks, s')" for ks
    using that
  proof (induction marks arbitrary: s ks)
    case Nil
    then show ?case by (intro exI [of _ "session_records s"] exI [of _ "audit_log s"]) simp
  next
    case (Cons m ms)
    then obtain k s1 ks' where one: "record_one c entry d m actor s = Inr (k, s1)"
      and all: "record_all c entry d ms actor s1 = Inr (ks', s')" by (auto elim!: bindE_pairE)
    from one obtain t1 tr1 where "s1 = s\<lparr>session_records := t1, audit_log := tr1\<rparr>"
      by (rule record_one_Inr) blast
    with Cons.IH [OF all] show ?case by auto
  qed
  with assms show ?thesis by (elim record_session_Inr) blast
qed

lemma session_record_apply_Inr:
  assumes "session_record_apply c op u s = Inr (r, s')"
  obtains entry d m ks where "record_session c entry d [m] (Some u) s = Inr (ks, s')"
  using assms unfolding session_record_apply_def Let_def
  by (auto elim!: bindE_InrE bindE_pairE split: if_splits option.splits)

lemma session_record_ledger:
  assumes "session_record_apply c op u s = Inr (r, s')"
  shows "sync_operations s' = sync_operations s \<and> sync_conflicts s' = sync_conflicts s"
  using assms by (rule session_record_apply_Inr) (drule record_session_frame, auto)

section \<open>Concrete inputs\<close>

definition sample_attendance_db :: "session_record table \<Rightarrow> attendance_waiver table \<Rightarrow> attendance_db" where
  "sample_attendance_db rs ws =
     timetabling_db.extend (sample_timetabling_db [(1, new_registration 1 1 1)] [(1, sample_entry)] [])
       \<lparr>session_records = rs, attendance_waivers = ws\<rparr>"

lemma sample_attendance_tables [simp]:
  "session_records (sample_attendance_db rs ws) = rs" "attendance_waivers (sample_attendance_db rs ws) = ws"
  "timetable_entries (sample_attendance_db rs ws) = [(1, sample_entry)]"
  "course_registrations (sample_attendance_db rs ws) = [(1, new_registration 1 1 1)]"
  "semesters (sample_attendance_db rs ws) = [(1, sample_semester)]"
  "courses (sample_attendance_db rs ws) = [(1, sample_course)]"
  "students (sample_attendance_db rs ws) = [(1, sample_student)]"
  "institutions (sample_attendance_db rs ws) = []"
  "audit_log (sample_attendance_db rs ws) = []"
  by (simp_all add: sample_attendance_db_def timetabling_db.defs sample_timetabling_db_def finance_db.defs
      sample_finance_db_def hostel_db.defs sample_hostel_db_def enrollment_db.defs sample_enrollment_db_def
      admissions_db.defs registry_db.defs sample_admitted_def sample_registry_db_def)

definition sample_mark :: register_mark where
  "sample_mark = \<lparr>mk_registration = 1, mk_status = Some ''late'', mk_notes = []\<rparr>"

lemma sample_record_session:
  "\<exists>s'. record_session sample_ctx 1 120 [sample_mark] None (sample_attendance_db [] []) = Inr ([1], s')"
proof -
  let ?s = "sample_attendance_db [] []"
  let ?r = "\<lparr>att_timetable_entry = 1, att_registration = 1, att_session_date = 120, att_status = Late, att_notes = [],
    att_recorded_by = None\<rparr>"
  have "attendance_status_of ''late'' = Some Late" by code_simp
  moreover have "session_record_full_clean None ?r ?s = Inr ()"
    by (simp add: session_record_full_clean_def get_row_singleton exists_row_def)
  moreover have "mm_sensitive session_record_meta" "audit_up sample_ctx" by (simp_all add: session_record_meta_def sample_ctx_def)
  then obtain e where "insert_audited sample_ctx session_record_meta session_record_audit session_records put_session_records ?r
      ''Attendance recorded'' ?s = Inr (fresh_pk (session_records ?s), (put_session_records (add_row ?r (session_records ?s)) ?s)\<lparr>audit_log := [e]\<rparr>)"
    using first_sensitive_insert [of session_record_meta sample_ctx put_session_records ?r session_records ?s] by auto
  ultimately have "record_one sample_ctx 1 120 sample_mark None ?s = Inr (1, (put_session_records (add_row ?r []) ?s)\<lparr>audit_log := [e]\<rparr>)"
    by (simp add: record_one_def sample_mark_def or_keep_def first_row_def actor_fk_def fresh_pk_def)
  moreover have "entry_context 1 ?s = Inr (1, 1)" by (simp add: entry_context_def get_row_singleton) (simp add: sample_entry_def)
  moreover have "active_registration_ids 1 1 ?s = [1]"
    by (simp add: active_registration_ids_def filter_rows_def new_registration_def)
  ultimately show ?thesis by (simp add: record_session_def sample_mark_def)
qed

lemma register_recorded_witness:
  "\<exists>s'. record_session sample_ctx 1 120 [sample_mark] None (sample_attendance_db [] []) = Inr ([1], s') \<and>
     status_in_register 1 120 1 s' = Some Late"
proof -
  obtain s' where s': "record_session sample_ctx 1 120 [sample_mark] None (sample_attendance_db [] []) = Inr ([1], s')"
    using sample_record_session by blast
  have "attendance_inv (sample_attendance_db [] [])" by (simp add: attendance_inv_def)
  from register_recorded [OF rtranclp.rtrancl_refl this s'] have "status_in_register 1 120 1 s' =
      (case if (1::nat) = 1 \<and> (120::int) = 120 then marked [sample_mark] 1 else None of
         Some st \<Rightarrow> Some st | None \<Rightarrow> status_in_register 1 120 1 (sample_attendance_db [] []))" by blast
  moreover have "marked [sample_mark] 1 = Some Late" by code_simp
  ultimately have "status_in_register 1 120 1 s' = Some Late" by (simp only: simp_thms if_True option.case)
  with s' show ?thesis by blast
qed

lemma eligibility_exact_witness:
  "ee_eligible (exam_eligibility 1 (sample_attendance_db
     [(1, \<lparr>att_timetable_entry = 1, att_registration = 1, att_session_date = 120, att_status = Absent, att_notes = [],
           att_recorded_by = None\<rparr>)] [])) = False"
proof -
  define s where "s = sample_attendance_db [(1, \<lparr>att_timetable_entry = 1, att_registration = 1, att_session_date = 120,
    att_status = Absent, att_notes = [], att_recorded_by = None\<rparr>)] []"
  have "attendance_threshold s = 75" by (simp add: s_def attendance_threshold_def get_institution_def first_row_def)
  moreover have "ar_sessions_recorded (attendance_summary 1 s) = 1" "ar_sessions_attended (attendance_summary 1 s) = 0"
    by (simp_all add: s_def attendance_summary_def Let_def count_rows_def filter_rows_def)
  moreover have "\<not> exists_row (\<lambda>_ w. wv_registration w = 1) (attendance_waivers s)" by (simp add: s_def exists_row_def)
  ultimately have "\<not> ee_eligible (exam_eligibility 1 s)" using eligibility_exact [of s 1] by simp
  then show ?thesis by (simp add: s_def)
qed

end
