(* ===== verification/Examinations.thy ===== *)
theory Examinations
  imports Attendance
begin

text \<open>
  Examinations: assessment schemes, marks and their moderation, results of courses and
  semesters, the approval of results and grade appeals, and the sync handler of marks
  (\<open>examinations/models.py\<close>, \<open>examinations/services.py\<close>, \<open>examinations/sync.py\<close>). The lemmas about
  them are in \<open>Exam_Results\<close>.
\<close>

section \<open>Models\<close>

record assessment =
  as_course :: nat
  as_name :: string
  as_weight_percent :: rat
  as_max_score :: rat
  as_sequence :: nat
  as_grade_entry_deadline :: "int option"

record mark =
  mark_registration :: nat
  mark_assessment :: nat
  mark_score :: rat
  mark_is_late :: bool
  mark_moderated_score :: "rat option"
  mark_moderated_by :: "nat option"
  mark_moderation_notes :: string
  mark_is_irregular :: bool
  mark_irregularity_notes :: string
  mark_entered_by :: "nat option"
  mark_updated_at :: int

definition effective_score :: "mark \<Rightarrow> rat" where
  "effective_score m = (case mark_moderated_score m of Some q \<Rightarrow> q | None \<Rightarrow> mark_score m)"

datatype appeal_status = Appeal_Submitted | Appeal_Under_Review | Appeal_Upheld | Appeal_Rejected

fun appeal_status_text :: "appeal_status \<Rightarrow> string" where
  "appeal_status_text Appeal_Submitted = ''submitted''"
| "appeal_status_text Appeal_Under_Review = ''under_review''"
| "appeal_status_text Appeal_Upheld = ''upheld''"
| "appeal_status_text Appeal_Rejected = ''rejected''"

record grade_appeal =
  ga_registration :: nat
  ga_assessment :: "nat option"
  ga_reason :: string
  ga_status :: appeal_status
  ga_submitted_by :: "nat option"
  ga_decided_by :: "nat option"
  ga_decision_notes :: string
  ga_decided_at :: "int option"

datatype approval_status = Approval_Pending | Approval_Approved | Approval_Rejected | Approval_Published

fun approval_status_text :: "approval_status \<Rightarrow> string" where
  "approval_status_text Approval_Pending = ''pending''"
| "approval_status_text Approval_Approved = ''approved''"
| "approval_status_text Approval_Rejected = ''rejected''"
| "approval_status_text Approval_Published = ''published''"

record result_approval =
  ra_semester :: nat
  ra_programme :: "nat option"
  ra_status :: approval_status
  ra_approved_by :: "nat option"
  ra_approved_at :: "int option"
  ra_approval_notes :: string
  ra_published_by :: "nat option"
  ra_published_at :: "int option"

record exam_db = attendance_db +
  assessments :: "assessment table"
  marks :: "mark table"
  grade_appeals :: "grade_appeal table"
  result_approvals :: "result_approval table"

abbreviation put_assessments :: "assessment table \<Rightarrow> 'a exam_db_scheme \<Rightarrow> 'a exam_db_scheme" where
  "put_assessments t s \<equiv> s\<lparr>assessments := t\<rparr>"

abbreviation put_marks :: "mark table \<Rightarrow> 'a exam_db_scheme \<Rightarrow> 'a exam_db_scheme" where
  "put_marks t s \<equiv> s\<lparr>marks := t\<rparr>"

abbreviation put_appeals :: "grade_appeal table \<Rightarrow> 'a exam_db_scheme \<Rightarrow> 'a exam_db_scheme" where
  "put_appeals t s \<equiv> s\<lparr>grade_appeals := t\<rparr>"

abbreviation put_approvals :: "result_approval table \<Rightarrow> 'a exam_db_scheme \<Rightarrow> 'a exam_db_scheme" where
  "put_approvals t s \<equiv> s\<lparr>result_approvals := t\<rparr>"

definition assessment_meta :: model_meta where
  "assessment_meta = \<lparr>mm_label = ''examinations.assessment'', mm_verbose = ''assessment'', mm_sensitive = False\<rparr>"

definition assessment_audit :: "assessment \<Rightarrow> (string \<times> pyval) list" where
  "assessment_audit a =
     [(''name'', VStr (as_name a)), (''weight_percent'', VDec (as_weight_percent a)), (''max_score'', VDec (as_max_score a)),
      (''grade_entry_deadline'', case as_grade_entry_deadline a of None \<Rightarrow> VNone | Some t \<Rightarrow> VInt t)]"

definition mark_meta :: model_meta where
  "mark_meta = \<lparr>mm_label = ''examinations.mark'', mm_verbose = ''mark'', mm_sensitive = True\<rparr>"

definition mark_audit :: "mark \<Rightarrow> (string \<times> pyval) list" where
  "mark_audit m =
     [(''score'', VDec (mark_score m)), (''moderated_score'', opt_dec (mark_moderated_score m)),
      (''is_irregular'', VBool (mark_is_irregular m))]"

definition appeal_meta :: model_meta where
  "appeal_meta = \<lparr>mm_label = ''examinations.gradeappeal'', mm_verbose = ''grade appeal'', mm_sensitive = True\<rparr>"

definition appeal_audit :: "grade_appeal \<Rightarrow> (string \<times> pyval) list" where
  "appeal_audit g = [(''status'', VStr (appeal_status_text (ga_status g)))]"

definition approval_meta :: model_meta where
  "approval_meta =
     \<lparr>mm_label = ''examinations.resultapproval'', mm_verbose = ''result approval'', mm_sensitive = True\<rparr>"

definition approval_audit :: "result_approval \<Rightarrow> (string \<times> pyval) list" where
  "approval_audit r = [(''status'', VStr (approval_status_text (ra_status r)))]"

text \<open>\<open>DecimalField(max_digits=6, decimal_places=2)\<close>\<close>

definition score_column :: "rat \<Rightarrow> bool" where
  "score_column q \<longleftrightarrow> two_places q \<and> \<bar>q\<bar> < 10 ^ 4"

definition assessment_full_clean :: "nat option \<Rightarrow> assessment \<Rightarrow> 'a exam_db_scheme \<Rightarrow> exn + unit" where
  "assessment_full_clean pk a s =
     ensure (get_row (courses s) (as_course a) \<noteq> None \<and> as_name a \<noteq> [] \<and> length (as_name a) \<le> 100 \<and>
             two_places (as_weight_percent a) \<and> 0 \<le> as_weight_percent a \<and> as_weight_percent a \<le> 100 \<and>
             score_column (as_max_score a) \<and> as_sequence a \<le> 32767 \<and>
             \<not> exists_row (\<lambda>k y. Some k \<noteq> pk \<and> as_course y = as_course a \<and> as_name y = as_name a) (assessments s))
       ValidationError"

text \<open>\<open>Mark.clean\<close> bounds the score by the maximum of the assessment, not the moderated score.\<close>

definition mark_clean :: "mark \<Rightarrow> 'a exam_db_scheme \<Rightarrow> exn + unit" where
  "mark_clean m s =
     (case get_row (assessments s) (mark_assessment m) of
        None \<Rightarrow> Inl ValidationError
      | Some a \<Rightarrow> if as_max_score a < mark_score m then Inl ValidationError
                  else if mark_score m < 0 then Inl ValidationError else Inr ())"

definition mark_full_clean :: "nat option \<Rightarrow> mark \<Rightarrow> 'a exam_db_scheme \<Rightarrow> exn + unit" where
  "mark_full_clean pk m s =
     bindE (ensure (get_row (course_registrations s) (mark_registration m) \<noteq> None \<and> score_column (mark_score m) \<and>
                    (case mark_moderated_score m of None \<Rightarrow> True | Some q \<Rightarrow> score_column q)) ValidationError) (\<lambda>_.
     bindE (mark_clean m s) (\<lambda>_.
     ensure (\<not> exists_row (\<lambda>k y. Some k \<noteq> pk \<and> mark_registration y = mark_registration m \<and>
               mark_assessment y = mark_assessment m) (marks s)) ValidationError))"

definition appeal_full_clean :: "grade_appeal \<Rightarrow> 'a exam_db_scheme \<Rightarrow> exn + unit" where
  "appeal_full_clean g s =
     ensure (get_row (course_registrations s) (ga_registration g) \<noteq> None \<and> opt_ref (ga_assessment g) (assessments s) \<and>
             ga_reason g \<noteq> []) ValidationError"

text \<open>Two partial constraints: one row per semester and programme, one without a programme.\<close>

definition approval_full_clean :: "nat option \<Rightarrow> result_approval \<Rightarrow> 'a exam_db_scheme \<Rightarrow> exn + unit" where
  "approval_full_clean pk r s =
     ensure (get_row (semesters s) (ra_semester r) \<noteq> None \<and> opt_ref (ra_programme r) (programmes s) \<and>
             \<not> exists_row (\<lambda>k y. Some k \<noteq> pk \<and> ra_semester y = ra_semester r \<and> ra_programme y = ra_programme r)
               (result_approvals s)) ValidationError"

section \<open>Assessments\<close>

definition DroppedRegistration :: exn where "DroppedRegistration = DomainError ''dropped_registration'' 400"
definition AppealAlreadyDecided :: exn where "AppealAlreadyDecided = DomainError ''appeal_already_decided'' 409"
definition InvalidApprovalTransition :: exn where
  "InvalidApprovalTransition = DomainError ''invalid_approval_transition'' 409"

definition create_assessment ::
  "ctx \<Rightarrow> nat \<Rightarrow> string \<Rightarrow> rat \<Rightarrow> rat \<Rightarrow> nat \<Rightarrow> int option \<Rightarrow> 'a exam_db_scheme \<Rightarrow> exn + nat \<times> 'a exam_db_scheme" where
  "create_assessment c course name weight max_score sequence deadline s =
     (let a = \<lparr>as_course = course, as_name = name, as_weight_percent = weight, as_max_score = max_score,
               as_sequence = sequence, as_grade_entry_deadline = deadline\<rparr>
      in bindE (assessment_full_clean None a s) (\<lambda>_.
           insert_audited c assessment_meta assessment_audit assessments put_assessments a ''Assessment created'' s))"

definition update_assessment ::
  "ctx \<Rightarrow> nat \<Rightarrow> string option \<Rightarrow> rat option \<Rightarrow> rat option \<Rightarrow> nat option \<Rightarrow> int option option
    \<Rightarrow> 'a exam_db_scheme \<Rightarrow> exn + 'a exam_db_scheme" where
  "update_assessment c k name weight max_score sequence deadline s =
     (case get_row (assessments s) k of
        None \<Rightarrow> Inl DoesNotExist
      | Some a \<Rightarrow>
          let a' = a\<lparr>as_name := or_keep name (as_name a), as_weight_percent := or_keep weight (as_weight_percent a),
                     as_max_score := or_keep max_score (as_max_score a), as_sequence := or_keep sequence (as_sequence a),
                     as_grade_entry_deadline := or_keep deadline (as_grade_entry_deadline a)\<rparr>
          in bindE (assessment_full_clean (Some k) a' s) (\<lambda>_.
               update_audited c assessment_meta assessment_audit assessments put_assessments k a a'
                 ''Assessment updated'' s))"

text \<open>The two messages of \<open>ConfigurationError\<close>, and that of a scale which cannot grade.\<close>

datatype scheme_problem = NoScheme | WeightsSumTo rat | CannotGrade

definition assessments_of :: "nat \<Rightarrow> 'a exam_db_scheme \<Rightarrow> assessment table" where
  "assessments_of course s =
     sort_key (\<lambda>(k, a). as_sequence a) (filter_rows (\<lambda>_ a. as_course a = course) (assessments s))"

definition validate_assessment_weights :: "nat \<Rightarrow> 'a exam_db_scheme \<Rightarrow> scheme_problem + unit" where
  "validate_assessment_weights course s =
     (let weights = map (\<lambda>(k, a). as_weight_percent a) (filter_rows (\<lambda>_ a. as_course a = course) (assessments s)) in
      if weights = [] then Inl NoScheme
      else if sum_list weights \<noteq> 100 then Inl (WeightsSumTo (sum_list weights)) else Inr ())"

section \<open>Marks\<close>

definition is_mark_of :: "nat \<Rightarrow> nat \<Rightarrow> nat \<Rightarrow> mark \<Rightarrow> bool" where
  "is_mark_of registration assessment_id k m \<longleftrightarrow> mark_registration m = registration \<and> mark_assessment m = assessment_id"

definition save_mark :: "ctx \<Rightarrow> nat \<Rightarrow> mark \<Rightarrow> mark \<Rightarrow> string \<Rightarrow> 'a exam_db_scheme \<Rightarrow> exn + 'a exam_db_scheme" where
  "save_mark c k old m reason s =
     bindE (mark_full_clean (Some k) m s) (\<lambda>_.
       update_audited c mark_meta mark_audit marks put_marks k old (m\<lparr>mark_updated_at := now c\<rparr>) reason s)"

text \<open>The assessment, then the registration, which must not be dropped.\<close>

definition mark_target :: "nat \<Rightarrow> nat \<Rightarrow> 'a exam_db_scheme \<Rightarrow> exn + assessment" where
  "mark_target registration assessment_id s =
     bindE (from_option DoesNotExist (get_row (assessments s) assessment_id)) (\<lambda>a.
     bindE (from_option DoesNotExist (get_row (course_registrations s) registration)) (\<lambda>r.
       if cr_status r = Reg_Dropped then Inl DroppedRegistration else Inr a))"

definition entered_late :: "ctx \<Rightarrow> assessment \<Rightarrow> bool" where
  "entered_late c a \<longleftrightarrow> (case as_grade_entry_deadline a of None \<Rightarrow> False | Some t \<Rightarrow> t < now c)"

definition record_mark ::
  "ctx \<Rightarrow> nat \<Rightarrow> nat \<Rightarrow> rat \<Rightarrow> user option \<Rightarrow> 'a exam_db_scheme \<Rightarrow> exn + nat \<times> 'a exam_db_scheme" where
  "record_mark c registration assessment_id score actor s =
     bindE (mark_target registration assessment_id s) (\<lambda>a.
       let late = entered_late c a;
           reason = ''Mark recorded'' @ (if late then '' (late)'' else [])
       in case first_row (is_mark_of registration assessment_id) (marks s) of
            None \<Rightarrow>
              let m = \<lparr>mark_registration = registration, mark_assessment = assessment_id, mark_score = score,
                       mark_is_late = late, mark_moderated_score = None, mark_moderated_by = None,
                       mark_moderation_notes = [], mark_is_irregular = False, mark_irregularity_notes = [],
                       mark_entered_by = actor_fk actor, mark_updated_at = now c\<rparr>
              in bindE (mark_full_clean None m s) (\<lambda>_.
                   insert_audited c mark_meta mark_audit marks put_marks m reason s)
          | Some (k, old) \<Rightarrow>
              bindE (save_mark c k old
                  (old\<lparr>mark_score := score, mark_is_late := late, mark_entered_by := actor_fk actor\<rparr>) reason s)
                (\<lambda>s'. Inr (k, s')))"

definition with_mark :: "nat \<Rightarrow> (mark \<Rightarrow> exn + 'a exam_db_scheme) \<Rightarrow> 'a exam_db_scheme \<Rightarrow> exn + 'a exam_db_scheme" where
  "with_mark k f s = (case get_row (marks s) k of None \<Rightarrow> Inl DoesNotExist | Some m \<Rightarrow> f m)"

definition moderate_mark ::
  "ctx \<Rightarrow> nat \<Rightarrow> rat \<Rightarrow> string \<Rightarrow> user option \<Rightarrow> 'a exam_db_scheme \<Rightarrow> exn + 'a exam_db_scheme" where
  "moderate_mark c k score remark actor s =
     with_mark k (\<lambda>m.
       if \<not> nonblank remark then Inl ReasonRequired
       else save_mark c k m
              (m\<lparr>mark_moderated_score := Some score, mark_moderated_by := actor_fk actor, mark_moderation_notes := remark\<rparr>)
              (''Moderated: '' @ remark) s) s"

definition flag_irregularity :: "ctx \<Rightarrow> nat \<Rightarrow> string \<Rightarrow> 'a exam_db_scheme \<Rightarrow> exn + 'a exam_db_scheme" where
  "flag_irregularity c k remark s =
     with_mark k (\<lambda>m.
       if \<not> nonblank remark then Inl ReasonRequired
       else save_mark c k m (m\<lparr>mark_is_irregular := True, mark_irregularity_notes := remark\<rparr>)
              (''Flagged irregular: '' @ remark) s) s"

definition clear_irregularity :: "ctx \<Rightarrow> nat \<Rightarrow> string \<Rightarrow> 'a exam_db_scheme \<Rightarrow> exn + 'a exam_db_scheme" where
  "clear_irregularity c k remark s =
     with_mark k (\<lambda>m.
       save_mark c k m (m\<lparr>mark_is_irregular := False, mark_irregularity_notes := remark\<rparr>)
         (''Irregularity cleared'' @ (if remark = [] then [] else '': '' @ remark)) s) s"

definition missing_marks_report :: "nat \<Rightarrow> nat \<Rightarrow> 'a exam_db_scheme \<Rightarrow> (nat \<times> nat \<times> string) list" where
  "missing_marks_report course semester s =
     (let ids = active_registration_ids course semester s; as = assessments_of course s in
      if ids = [] \<or> as = [] then []
      else concat (map (\<lambda>g. List.map_filter (\<lambda>(k, a).
             if exists_row (is_mark_of g k) (marks s) then None else Some (g, k, as_name a)) as) (sort ids)))"

section \<open>Results\<close>

record component_score =
  cs_assessment :: string
  cs_weight_percent :: rat
  cs_score :: "rat option"
  cs_max_score :: "rat option"

record course_report =
  rep_registration :: nat
  rep_components :: "component_score list"
  rep_complete :: bool
  rep_has_irregularity :: bool
  rep_configuration_error :: "scheme_problem option"
  rep_percent :: "rat option"
  rep_letter :: "string option"
  rep_grade_point :: "rat option"
  rep_is_pass :: "bool option"

definition weighted_score :: "assessment \<Rightarrow> mark \<Rightarrow> rat" where
  "weighted_score a m =
     quantize_half_up (dec_mul
       (if as_max_score a = 0 then 0 else dec_div (effective_score m) (as_max_score a)) (as_weight_percent a))"

definition component_of :: "assessment \<Rightarrow> mark option \<Rightarrow> component_score" where
  "component_of a mo =
     \<lparr>cs_assessment = as_name a, cs_weight_percent = as_weight_percent a, cs_score = map_option effective_score mo,
      cs_max_score = map_option (\<lambda>_. as_max_score a) mo\<rparr>"

text \<open>The loop over the assessments: the percentage so far, whether complete, whether irregular.\<close>

fun score_components ::
  "(nat \<Rightarrow> mark option) \<Rightarrow> assessment table \<Rightarrow> rat \<times> bool \<times> bool \<times> component_score list
    \<Rightarrow> rat \<times> bool \<times> bool \<times> component_score list" where
  "score_components marks_by [] acc = acc"
| "score_components marks_by ((k, a) # as) (percent, full, irregular, cs) =
     score_components marks_by as
       (case marks_by k of
          None \<Rightarrow> (percent, False, irregular, cs @ [component_of a None])
        | Some m \<Rightarrow> (percent + weighted_score a m, full, irregular \<or> mark_is_irregular m,
                     cs @ [component_of a (Some m)]))"

definition mark_for :: "nat \<Rightarrow> 'a exam_db_scheme \<Rightarrow> nat \<Rightarrow> mark option" where
  "mark_for registration s k = map_option snd (first_row (is_mark_of registration k) (marks s))"

definition course_result :: "nat \<Rightarrow> 'a exam_db_scheme \<Rightarrow> course_report" where
  "course_result registration s =
     (let course_id = course_id_for_registration registration s;
          as = (case course_id of None \<Rightarrow> [] | Some course \<Rightarrow> assessments_of course s);
          problem = (case course_id of
                       Some course \<Rightarrow>
                         (if as = [] then None
                          else (case validate_assessment_weights course s of Inl e \<Rightarrow> Some e | Inr _ \<Rightarrow> None))
                     | None \<Rightarrow> None);
          (percent, full, irregular, cs) =
            score_components (mark_for registration s) as (0, as \<noteq> [] \<and> problem = None, False, []);
          report = \<lparr>rep_registration = registration, rep_components = cs, rep_complete = full,
                    rep_has_irregularity = irregular, rep_configuration_error = problem,
                    rep_percent = (if as = [] then None else Some (quantize_half_up percent)),
                    rep_letter = None, rep_grade_point = None, rep_is_pass = None\<rparr>
      in if full \<and> \<not> irregular
         then (case grade_for (quantize_half_up percent) None s of
                 Inl _ \<Rightarrow> report\<lparr>rep_complete := False, rep_configuration_error := Some CannotGrade\<rparr>
               | Inr g \<Rightarrow> report\<lparr>rep_letter := Some (gr_letter g), rep_grade_point := Some (gr_grade_point g),
                                rep_is_pass := Some (gr_is_pass g)\<rparr>)
         else report)"

definition gpa_entry_of :: "'a exam_db_scheme \<Rightarrow> registration_info \<Rightarrow> gpa_entry option" where
  "gpa_entry_of s i =
     map_option (\<lambda>gp. CourseGrade (int (ri_credit_hours i)) gp True)
       (rep_grade_point (course_result (ri_registration_id i) s))"

definition semester_gpa :: "nat \<Rightarrow> nat \<Rightarrow> 'a exam_db_scheme \<Rightarrow> exn + rat option" where
  "semester_gpa student semester s =
     gpa (List.map_filter (gpa_entry_of s) (registrations_for_student student semester s))"

section \<open>The approval of results\<close>

definition is_approval_of :: "nat \<Rightarrow> nat option \<Rightarrow> nat \<Rightarrow> result_approval \<Rightarrow> bool" where
  "is_approval_of semester programme k r \<longleftrightarrow> ra_semester r = semester \<and> ra_programme r = programme"

definition save_approval ::
  "ctx \<Rightarrow> nat \<Rightarrow> result_approval \<Rightarrow> result_approval \<Rightarrow> string \<Rightarrow> 'a exam_db_scheme \<Rightarrow> exn + 'a exam_db_scheme" where
  "save_approval c k old r reason s =
     bindE (approval_full_clean (Some k) r s) (\<lambda>_.
       update_audited c approval_meta approval_audit result_approvals put_approvals k old r reason s)"

definition submit_for_approval ::
  "ctx \<Rightarrow> nat \<Rightarrow> nat option \<Rightarrow> 'a exam_db_scheme \<Rightarrow> exn + nat \<times> 'a exam_db_scheme" where
  "submit_for_approval c semester programme s =
     (case first_row (is_approval_of semester programme) (result_approvals s) of
        None \<Rightarrow>
          let r = \<lparr>ra_semester = semester, ra_programme = programme, ra_status = Approval_Pending,
                   ra_approved_by = None, ra_approved_at = None, ra_approval_notes = [], ra_published_by = None,
                   ra_published_at = None\<rparr>
          in bindE (approval_full_clean None r s) (\<lambda>_.
               insert_audited c approval_meta approval_audit result_approvals put_approvals r
                 ''Submitted for Senate approval'' s)
      | Some (k, old) \<Rightarrow>
          if ra_status old \<notin> {Approval_Pending, Approval_Rejected} then Inl InvalidApprovalTransition
          else bindE (save_approval c k old (old\<lparr>ra_status := Approval_Pending\<rparr>) ''Submitted for Senate approval'' s)
                 (\<lambda>s'. Inr (k, s')))"

definition with_approval ::
  "nat \<Rightarrow> (result_approval \<Rightarrow> exn + 'a exam_db_scheme) \<Rightarrow> 'a exam_db_scheme \<Rightarrow> exn + 'a exam_db_scheme" where
  "with_approval k f s = (case get_row (result_approvals s) k of None \<Rightarrow> Inl DoesNotExist | Some r \<Rightarrow> f r)"

definition approve_results ::
  "ctx \<Rightarrow> nat \<Rightarrow> user option \<Rightarrow> string \<Rightarrow> 'a exam_db_scheme \<Rightarrow> exn + 'a exam_db_scheme" where
  "approve_results c k actor remark s =
     with_approval k (\<lambda>r.
       if ra_status r \<noteq> Approval_Pending then Inl InvalidApprovalTransition
       else save_approval c k r
              (r\<lparr>ra_status := Approval_Approved, ra_approved_by := actor_fk actor, ra_approved_at := Some (now c),
                 ra_approval_notes := remark\<rparr>)
              (''Approved by Senate'' @ (if remark = [] then [] else '': '' @ remark)) s) s"

definition reject_results :: "ctx \<Rightarrow> nat \<Rightarrow> string \<Rightarrow> 'a exam_db_scheme \<Rightarrow> exn + 'a exam_db_scheme" where
  "reject_results c k remark s =
     with_approval k (\<lambda>r.
       if \<not> nonblank remark then Inl ReasonRequired
       else if ra_status r \<noteq> Approval_Pending then Inl InvalidApprovalTransition
       else save_approval c k r (r\<lparr>ra_status := Approval_Rejected, ra_approval_notes := remark\<rparr>)
              (''Rejected by Senate: '' @ remark) s) s"

definition publish_results :: "ctx \<Rightarrow> nat \<Rightarrow> user option \<Rightarrow> 'a exam_db_scheme \<Rightarrow> exn + 'a exam_db_scheme" where
  "publish_results c k actor s =
     with_approval k (\<lambda>r.
       if ra_status r \<noteq> Approval_Approved then Inl InvalidApprovalTransition
       else save_approval c k r
              (r\<lparr>ra_status := Approval_Published, ra_published_by := actor_fk actor, ra_published_at := Some (now c)\<rparr>)
              ''Published to students'' s) s"

text \<open>The approval of the student's programme, or else the one for all programmes.\<close>

definition approval_for :: "nat \<Rightarrow> nat \<Rightarrow> 'a exam_db_scheme \<Rightarrow> exn + result_approval option" where
  "approval_for student semester s =
     bindE (get_programme_id student s) (\<lambda>programme.
       Inr (map_option snd
         (case first_row (is_approval_of semester (Some programme)) (result_approvals s) of
            Some x \<Rightarrow> Some x
          | None \<Rightarrow> first_row (is_approval_of semester None) (result_approvals s))))"

record student_report =
  stu_published :: bool
  stu_withheld :: bool
  stu_holds :: "string list"
  stu_courses :: "(course_report \<times> nat) list"
  stu_gpa :: "rat option"

definition student_result ::
  "hold_source_provider bucket \<Rightarrow> nat \<Rightarrow> nat \<Rightarrow> 'a exam_db_scheme \<Rightarrow> exn + student_report" where
  "student_result providers student semester s =
     bindE (approval_for student semester s) (\<lambda>approval.
       if map_option ra_status approval \<noteq> Some Approval_Published
       then Inr \<lparr>stu_published = False, stu_withheld = False, stu_holds = [], stu_courses = [], stu_gpa = None\<rparr>
       else let holds = blocking_holds providers student in
         if holds \<noteq> []
         then Inr \<lparr>stu_published = True, stu_withheld = True,
                   stu_holds = map hold_code holds, stu_courses = [], stu_gpa = None\<rparr>
         else bindE (semester_gpa student semester s) (\<lambda>g.
                Inr \<lparr>stu_published = True, stu_withheld = False, stu_holds = [],
                     stu_courses = map (\<lambda>i. (course_result (ri_registration_id i) s, ri_course_id i))
                       (registrations_for_student student semester s),
                     stu_gpa = g\<rparr>))"

section \<open>Grade appeals\<close>

definition submit_appeal ::
  "ctx \<Rightarrow> nat \<Rightarrow> nat option \<Rightarrow> string \<Rightarrow> user option \<Rightarrow> 'a exam_db_scheme \<Rightarrow> exn + nat \<times> 'a exam_db_scheme" where
  "submit_appeal c registration assessment_id reason actor s =
     (if \<not> nonblank reason then Inl ReasonRequired
      else let g = \<lparr>ga_registration = registration, ga_assessment = assessment_id, ga_reason = reason,
                    ga_status = Appeal_Submitted, ga_submitted_by = actor_fk actor, ga_decided_by = None,
                    ga_decision_notes = [], ga_decided_at = None\<rparr>
           in bindE (appeal_full_clean g s) (\<lambda>_.
                insert_audited c appeal_meta appeal_audit grade_appeals put_appeals g ''Appeal submitted'' s))"

definition appeal_decision :: "string \<Rightarrow> appeal_status option" where
  "appeal_decision t = find (\<lambda>x. appeal_status_text x = t) [Appeal_Upheld, Appeal_Rejected]"

definition decide_appeal ::
  "ctx \<Rightarrow> nat \<Rightarrow> string \<Rightarrow> string \<Rightarrow> user option \<Rightarrow> 'a exam_db_scheme \<Rightarrow> exn + 'a exam_db_scheme" where
  "decide_appeal c k decision remark actor s =
     (case get_row (grade_appeals s) k of
        None \<Rightarrow> Inl DoesNotExist
      | Some g \<Rightarrow>
          if ga_status g \<notin> {Appeal_Submitted, Appeal_Under_Review} then Inl AppealAlreadyDecided
          else case appeal_decision decision of
              None \<Rightarrow> Inl (DomainError ''invalid_decision'' 400)
            | Some st \<Rightarrow>
                if \<not> nonblank remark then Inl ReasonRequired
                else let g' = g\<lparr>ga_status := st, ga_decided_by := actor_fk actor, ga_decision_notes := remark,
                                ga_decided_at := Some (now c)\<rparr>
                     in bindE (appeal_full_clean g' s) (\<lambda>_.
                          update_audited c appeal_meta appeal_audit grade_appeals put_appeals k g g'
                            (''Appeal '' @ decision @ '': '' @ remark) s))"

section \<open>The sync handler\<close>

definition MARK_REQUIRED_FIELDS :: "string list" where
  "MARK_REQUIRED_FIELDS = [''registration_id'', ''assessment_id'', ''score'']"

text \<open>
  A score that is not a number cannot be compared with the maximum, an infinite one can; a
  signalling one cannot even be compared with the stored score.
\<close>

definition score_is_nan :: "pyval \<Rightarrow> bool" where
  "score_is_nan v = (case v of VStr t \<Rightarrow> list_ex (\<lambda>ch. lower_char ch = CHR ''a'') t | _ \<Rightarrow> False)"

text \<open>What \<open>record_mark\<close> does with the score, once the registration may have marks.\<close>

definition record_sent_mark ::
  "ctx \<Rightarrow> nat \<Rightarrow> nat \<Rightarrow> pyval \<Rightarrow> py_decimal \<Rightarrow> user \<Rightarrow> 'a exam_db_scheme \<Rightarrow> exn + sync_result \<times> 'a exam_db_scheme" where
  "record_sent_mark c g k v score actor s =
     (case score of
        NonFinite \<Rightarrow>
          bindE (mark_target g k s) (\<lambda>_. Inl (if score_is_nan v then UnexpectedError else ValidationError))
      | Finite q \<Rightarrow>
          if \<not> decimal_fits v then bindE (mark_target g k s) (\<lambda>_. Inl ValidationError)
          else bindE (record_mark c g k q (Some actor) s) (\<lambda>(j, s').
                 Inr (\<lparr>sr_fields = [(''id'', VInt (int j)), (''score'', VStr (decimal_shown v))], sr_overwrote = [],
                       sr_target = Some (mark_meta, j)\<rparr>, s')))"

definition mark_apply ::
  "ctx \<Rightarrow> sync_input \<Rightarrow> user \<Rightarrow> 'a exam_db_scheme \<Rightarrow> exn + sync_result \<times> 'a exam_db_scheme" where
  "mark_apply c op actor s =
     (let p = in_payload op; v = payload_get p ''score'' in
      if list_ex (payload_missing p) MARK_REQUIRED_FIELDS then Inl ValidationError
      else
        bindE (py_int (payload_get p ''registration_id'')) (\<lambda>registration.
        bindE (py_int (payload_get p ''assessment_id'')) (\<lambda>assessment_id.
        bindE (payload_decimal v) (\<lambda>score.
        if registration \<le> 0 \<or> assessment_id \<le> 0 then Inl DoesNotExist
        else case first_row (is_mark_of (nat registration) (nat assessment_id)) (marks s) of
            Some (j, m) \<Rightarrow>
              if score = NonFinite \<and> decimal_signals v then Inl UnexpectedError
              else if score \<noteq> Finite (mark_score m)
              then Inl (SyncConflictDetected ''score'' (VDec (mark_score m)) (VStr (decimal_shown v))
                     (Some (mark_updated_at m)) (Some (mm_label mark_meta, j)))
              else record_sent_mark c (nat registration) (nat assessment_id) v score actor s
          | None \<Rightarrow> record_sent_mark c (nat registration) (nat assessment_id) v score actor s))))"

definition MarkHandler :: "ctx \<Rightarrow> 'a exam_db_scheme sync_handler" where
  "MarkHandler c =
     \<lparr>sh_entity = ''examinations.mark'', sh_actions = [''create'', ''update''], sh_policy = FlagForReview,
      sh_required_permission = ''examinations.add_mark'', sh_apply = mark_apply c\<rparr>"

end
