(* ===== verification/Table_Writes.thy ===== *)
theory Table_Writes
  imports Persistence
begin

text \<open>
  One write to a table: a save either adds a row under the next key or replaces the row of a
  key. The invariants of a module follow from what its writes have in common.
\<close>

definition wrote :: "nat \<Rightarrow> 'r \<Rightarrow> 'r table \<Rightarrow> 'r table \<Rightarrow> bool" where
  "wrote k r t t' \<longleftrightarrow> k = fresh_pk t \<and> t' = add_row r t \<or> get_row t k \<noteq> None \<and> t' = put_row k r t"

lemma wrote_add [intro]: "wrote (fresh_pk t) r t (add_row r t)"
  by (simp add: wrote_def)

lemma wrote_put [intro]: "get_row t k = Some old \<Longrightarrow> wrote k r t (put_row k r t)"
  by (simp add: wrote_def)

lemma get_row_wrote: "wrote k r t t' \<Longrightarrow> get_row t' j = (if j = k then Some r else get_row t j)"
  by (auto simp: wrote_def get_add_row get_put_row)

lemma wf_wrote: "wrote k r t t' \<Longrightarrow> wf_table t' = wf_table t \<or> wf_table t'"
  by (auto simp: wrote_def)

lemma wf_wroteI: "wrote k r t t' \<Longrightarrow> wf_table t \<Longrightarrow> wf_table t'"
  by (auto simp: wrote_def)

text \<open>A key that no other row has stays unique.\<close>

definition key_free :: "('r \<Rightarrow> 'k option) \<Rightarrow> nat \<Rightarrow> 'r \<Rightarrow> 'r table \<Rightarrow> bool" where
  "key_free f k r t \<longleftrightarrow> (\<forall>j b. get_row t j = Some b \<longrightarrow> j \<noteq> k \<longrightarrow> f r \<noteq> None \<longrightarrow> f b \<noteq> f r)"

lemma key_free_fresh: "\<not> exists_row (\<lambda>j y. f r \<noteq> None \<and> f y = f r) t \<Longrightarrow> key_free f (fresh_pk t) r t"
  using no_clash_unique by (fastforce simp: key_free_def)

lemma key_free_other: "\<not> exists_row (\<lambda>j y. Some j \<noteq> Some k \<and> f r \<noteq> None \<and> f y = f r) t \<Longrightarrow> key_free f k r t"
  using no_clash_unique by (fastforce simp: key_free_def)

lemma key_free_same: "unique_on f t \<Longrightarrow> get_row t k = Some old \<Longrightarrow> f r = f old \<Longrightarrow> key_free f k r t"
  by (auto simp: key_free_def dest: unique_onD)

lemma unique_on_wrote: "wrote k r t t' \<Longrightarrow> key_free f k r t \<Longrightarrow> unique_on f t \<Longrightarrow> unique_on f t'"
  unfolding unique_on_def get_row_wrote by (auto simp: key_free_def)

text \<open>Saves of audited rows are writes.\<close>

lemma insert_audited_wrote:
  assumes "insert_audited c m audited tbl upd r reason s = Inr (k, s')"
  obtains t tr where "s' = (upd t s)\<lparr>audit_log := tr\<rparr>" and "wrote k r (tbl s) t" and "k = fresh_pk (tbl s)"
  using assms by (rule insert_audited_Inr) (rule that, auto)

lemma update_audited_wrote:
  assumes "update_audited c m audited tbl upd k old r reason s = Inr s'" and "get_row (tbl s) k = Some old"
  obtains t tr where "s' = (upd t s)\<lparr>audit_log := tr\<rparr>" and "wrote k r (tbl s) t"
  using assms(1) by (rule update_audited_Inr) (rule that, use assms(2) in auto)

end
