(* ===== verification/Exam_Results.thy ===== *)
theory Exam_Results
  imports Examinations Table_Writes State_Machines
begin

text \<open>
  What the operations of \<open>Examinations\<close> guarantee. \<open>exam_effect\<close> abstracts every operation to the
  one row it writes; the uniqueness of marks, the approval of results and the finality of
  decisions are proved on that abstraction. The second half compares the percentage of a
  course with the exact one.
\<close>

section \<open>What the operations write\<close>

definition assessment_key :: "assessment \<Rightarrow> (nat \<times> string) option" where
  "assessment_key a = Some (as_course a, as_name a)"

definition mark_key :: "mark \<Rightarrow> (nat \<times> nat) option" where
  "mark_key m = Some (mark_registration m, mark_assessment m)"

definition approval_key :: "result_approval \<Rightarrow> (nat \<times> nat option) option" where
  "approval_key r = Some (ra_semester r, ra_programme r)"

text \<open>Where an approval and an appeal may go.\<close>

fun approval_transitions :: "approval_status \<Rightarrow> approval_status list" where
  "approval_transitions Approval_Pending = [Approval_Approved, Approval_Rejected]"
| "approval_transitions Approval_Approved = [Approval_Published]"
| "approval_transitions Approval_Rejected = [Approval_Pending]"
| "approval_transitions Approval_Published = []"

fun appeal_transitions :: "appeal_status \<Rightarrow> appeal_status list" where
  "appeal_transitions Appeal_Submitted = [Appeal_Upheld, Appeal_Rejected]"
| "appeal_transitions Appeal_Under_Review = [Appeal_Upheld, Appeal_Rejected]"
| "appeal_transitions _ = []"

definition approval_stamped :: "result_approval \<Rightarrow> bool" where
  "approval_stamped r \<longleftrightarrow> (ra_status r \<in> {Approval_Approved, Approval_Published} \<longrightarrow> ra_approved_at r \<noteq> None) \<and>
     (ra_status r = Approval_Published \<longrightarrow> ra_published_at r \<noteq> None)"

definition approval_moves :: "result_approval option \<Rightarrow> result_approval \<Rightarrow> bool" where
  "approval_moves old r \<longleftrightarrow>
     (case old of
        None \<Rightarrow> ra_status r = Approval_Pending
      | Some q \<Rightarrow> approval_key r = approval_key q \<and>
          (ra_status q = Approval_Pending \<and> ra_status r = Approval_Pending \<or>
           ra_status r \<in> set (approval_transitions (ra_status q))) \<and>
          (approval_stamped q \<longrightarrow> approval_stamped r))"

definition appeal_moves :: "grade_appeal option \<Rightarrow> grade_appeal \<Rightarrow> bool" where
  "appeal_moves old g \<longleftrightarrow>
     (case old of
        None \<Rightarrow> ga_status g = Appeal_Submitted
      | Some q \<Rightarrow> ga_status g \<in> set (appeal_transitions (ga_status q)) \<and> ga_registration g = ga_registration q \<and>
          ga_assessment g = ga_assessment q \<and> ga_reason g = ga_reason q)"

inductive exam_effect :: "'a exam_db_scheme \<Rightarrow> 'a exam_db_scheme \<Rightarrow> bool" where
  Assessment: "wrote k a (assessments s) t \<Longrightarrow> key_free assessment_key k a (assessments s) \<Longrightarrow>
    0 \<le> as_weight_percent a \<Longrightarrow> as_weight_percent a \<le> 100 \<Longrightarrow> two_places (as_weight_percent a) \<Longrightarrow>
    exam_effect s (s\<lparr>assessments := t, audit_log := tr\<rparr>)"
| Mark: "wrote k m (marks s) t \<Longrightarrow> key_free mark_key k m (marks s) \<Longrightarrow> 0 \<le> mark_score m \<Longrightarrow>
    exam_effect s (s\<lparr>marks := t, audit_log := tr\<rparr>)"
| Approval: "wrote k r (result_approvals s) t \<Longrightarrow> key_free approval_key k r (result_approvals s) \<Longrightarrow>
    approval_moves (get_row (result_approvals s) k) r \<Longrightarrow>
    exam_effect s (s\<lparr>result_approvals := t, audit_log := tr\<rparr>)"
| Appeal: "wrote k g (grade_appeals s) t \<Longrightarrow> appeal_moves (get_row (grade_appeals s) k) g \<Longrightarrow>
    exam_effect s (s\<lparr>grade_appeals := t, audit_log := tr\<rparr>)"
| Other: "exam_db.more s' = exam_db.more s \<Longrightarrow> assessments s' = assessments s \<Longrightarrow> marks s' = marks s \<Longrightarrow>
    grade_appeals s' = grade_appeals s \<Longrightarrow> result_approvals s' = result_approvals s \<Longrightarrow> exam_effect s s'"

lemma create_assessment_Inr:
  assumes "create_assessment c course name weight max_score sequence deadline s = Inr (k, s')"
  obtains a t tr where "s' = s\<lparr>assessments := t, audit_log := tr\<rparr>" and "wrote k a (assessments s) t"
    and "key_free assessment_key k a (assessments s)" and "0 \<le> as_weight_percent a" and "as_weight_percent a \<le> 100"
    and "two_places (as_weight_percent a)"
  using assms unfolding create_assessment_def Let_def
  by (elim bindE_InrE insert_audited_wrote) (rule that, auto simp: assessment_full_clean_def ensure_eq_Inr
      assessment_key_def intro!: key_free_fresh)

lemma update_assessment_Inr:
  assumes "update_assessment c k name weight max_score sequence deadline s = Inr s'"
  obtains a t tr where "s' = s\<lparr>assessments := t, audit_log := tr\<rparr>" and "wrote k a (assessments s) t"
    and "key_free assessment_key k a (assessments s)" and "0 \<le> as_weight_percent a" and "as_weight_percent a \<le> 100"
    and "two_places (as_weight_percent a)"
proof -
  from assms obtain old a where old: "get_row (assessments s) k = Some old"
    and clean: "assessment_full_clean (Some k) a s = Inr ()"
    and save: "update_audited c assessment_meta assessment_audit assessments put_assessments k old a ''Assessment updated'' s = Inr s'"
    unfolding update_assessment_def Let_def by (auto split: option.splits elim!: bindE_InrE)
  from save old show thesis
    by (rule update_audited_wrote) (rule that, use clean in \<open>auto simp: assessment_full_clean_def ensure_eq_Inr
      assessment_key_def intro!: key_free_other\<close>)
qed

text \<open>The lines of \<open>record_mark\<close> that lead to a save.\<close>

lemma mark_full_clean_Inr:
  assumes "mark_full_clean pk m s = Inr u"
  obtains a where "get_row (assessments s) (mark_assessment m) = Some a" and "0 \<le> mark_score m"
    and "mark_score m \<le> as_max_score a" and "score_column (mark_score m)"
    and "\<not> exists_row (\<lambda>k y. Some k \<noteq> pk \<and> mark_registration y = mark_registration m \<and>
           mark_assessment y = mark_assessment m) (marks s)"
  using assms unfolding mark_full_clean_def mark_clean_def
  by (auto simp: ensure_eq_Inr split: option.splits if_splits elim!: bindE_InrE)

lemma save_mark_Inr:
  assumes "save_mark c k old m reason s = Inr s'" and "get_row (marks s) k = Some old"
  obtains t tr where "s' = s\<lparr>marks := t, audit_log := tr\<rparr>" and "wrote k (m\<lparr>mark_updated_at := now c\<rparr>) (marks s) t"
    and "key_free mark_key k (m\<lparr>mark_updated_at := now c\<rparr>) (marks s)" and "0 \<le> mark_score m"
    and "mark_full_clean (Some k) m s = Inr ()"
proof -
  from assms(1) have clean: "mark_full_clean (Some k) m s = Inr ()" and save: "update_audited c mark_meta mark_audit
      marks put_marks k old (m\<lparr>mark_updated_at := now c\<rparr>) reason s = Inr s'"
    unfolding save_mark_def by (auto elim!: bindE_InrE)
  from clean have "0 \<le> mark_score m" and "key_free mark_key k (m\<lparr>mark_updated_at := now c\<rparr>) (marks s)"
    by (auto simp: mark_key_def elim!: mark_full_clean_Inr intro!: key_free_other)
  with save assms(2) clean show thesis by (auto elim!: update_audited_wrote intro!: that)
qed

lemma mark_target_Inr:
  assumes "mark_target registration k s = Inr a"
  obtains r where "get_row (assessments s) k = Some a" and "get_row (course_registrations s) registration = Some r"
    and "cr_status r \<noteq> Reg_Dropped"
  using assms unfolding mark_target_def by (auto simp: from_option_eq_Inr split: if_splits elim!: bindE_InrE)

lemma record_mark_Inr:
  assumes "record_mark c registration assessment_id score actor s = Inr (k, s')" and "wf_table (marks s)"
  obtains a m t tr where "s' = s\<lparr>marks := t, audit_log := tr\<rparr>" and "wrote k m (marks s) t"
    and "key_free mark_key k m (marks s)" and "0 \<le> score" and "score \<le> as_max_score a"
    and "mark_target registration assessment_id s = Inr a" and "mark_registration m = registration"
    and "mark_assessment m = assessment_id" and "mark_score m = score"
    and "mark_is_late m = entered_late c a" and "mark_updated_at m = now c"
    and "case get_row (marks s) k of
           None \<Rightarrow> mark_moderated_score m = None \<and> \<not> mark_is_irregular m
         | Some old \<Rightarrow> first_row (is_mark_of registration assessment_id) (marks s) = Some (k, old) \<and>
             is_mark_of registration assessment_id k old \<and>
             mark_moderated_score m = mark_moderated_score old \<and> mark_is_irregular m = mark_is_irregular old"
proof -
  from assms(1) obtain a where a: "mark_target registration assessment_id s = Inr a"
    unfolding record_mark_def by (auto elim!: bindE_InrE)
  show thesis
  proof (cases "first_row (is_mark_of registration assessment_id) (marks s)")
    case None
    define m where "m = \<lparr>mark_registration = registration, mark_assessment = assessment_id, mark_score = score,
       mark_is_late = entered_late c a, mark_moderated_score = None, mark_moderated_by = None,
       mark_moderation_notes = [], mark_is_irregular = False, mark_irregularity_notes = [],
       mark_entered_by = actor_fk actor, mark_updated_at = now c\<rparr>"
    have sel: "mark_registration m = registration" "mark_assessment m = assessment_id" "mark_score m = score"
      "mark_is_late m = entered_late c a" "mark_updated_at m = now c" "mark_moderated_score m = None" "\<not> mark_is_irregular m"
      by (simp_all add: m_def)
    from assms(1) a None obtain reason where clean: "mark_full_clean None m s = Inr ()"
      and save: "insert_audited c mark_meta mark_audit marks put_marks m reason s = Inr (k, s')"
      unfolding record_mark_def Let_def m_def by (auto elim!: bindE_InrE)
    from clean obtain a' where a': "get_row (assessments s) assessment_id = Some a'" "0 \<le> score" "score \<le> as_max_score a'"
      and none: "\<not> exists_row (\<lambda>j y. mark_registration y = registration \<and> mark_assessment y = assessment_id) (marks s)"
      by (auto simp: sel elim!: mark_full_clean_Inr)
    from none have free: "key_free mark_key (fresh_pk (marks s)) m (marks s)"
      by (intro key_free_fresh) (simp add: sel mark_key_def)
    from a a'(1) have "a' = a" by (auto elim!: mark_target_Inr)
    from save obtain t tr where s': "s' = s\<lparr>marks := t, audit_log := tr\<rparr>" and w: "wrote k m (marks s) t"
      and k: "k = fresh_pk (marks s)" by (rule insert_audited_wrote)
    have fresh: "get_row (marks s) k = None" and free': "key_free mark_key k m (marks s)" using free by (simp_all add: k)
    have le: "score \<le> as_max_score a" using a'(3) \<open>a' = a\<close> by simp
    have last: "case get_row (marks s) k of None \<Rightarrow> mark_moderated_score m = None \<and> \<not> mark_is_irregular m
        | Some old \<Rightarrow> first_row (is_mark_of registration assessment_id) (marks s) = Some (k, old) \<and>
            is_mark_of registration assessment_id k old \<and>
            mark_moderated_score m = mark_moderated_score old \<and> mark_is_irregular m = mark_is_irregular old"
      using sel(6,7) by (simp add: fresh)
    show thesis by (rule that [OF s' w free' a'(2) le a sel(1-5) last])
  next
    case (Some x)
    obtain j old where x: "x = (j, old)" by (cases x)
    have old: "get_row (marks s) j = Some old" "is_mark_of registration assessment_id j old"
      using first_row_get [OF assms(2) Some [unfolded x]] first_row_Some [OF Some [unfolded x]] by blast+
    define m where "m = old\<lparr>mark_score := score, mark_is_late := entered_late c a, mark_entered_by := actor_fk actor\<rparr>"
    have sel: "mark_registration m = registration" "mark_assessment m = assessment_id" "mark_score m = score"
      "mark_is_late m = entered_late c a"
      using old(2) by (simp_all add: m_def is_mark_of_def)
    have kept: "mark_moderated_score m = mark_moderated_score old" "mark_is_irregular m = mark_is_irregular old"
      by (simp_all add: m_def)
    from assms(1) a Some x obtain reason where "j = k" and save: "save_mark c k old m reason s = Inr s'"
      unfolding record_mark_def Let_def m_def by (auto elim!: bindE_InrE)
    from save old(1) [unfolded \<open>j = k\<close>] show thesis
    proof (rule save_mark_Inr)
      fix t tr
      assume w: "s' = s\<lparr>marks := t, audit_log := tr\<rparr>" "wrote k (m\<lparr>mark_updated_at := now c\<rparr>) (marks s) t"
        "key_free mark_key k (m\<lparr>mark_updated_at := now c\<rparr>) (marks s)" "0 \<le> mark_score m"
        and clean: "mark_full_clean (Some k) m s = Inr ()"
      from clean obtain a' where "get_row (assessments s) assessment_id = Some a'" "score \<le> as_max_score a'"
        by (auto simp: sel elim!: mark_full_clean_Inr)
      with a have le: "score \<le> as_max_score a" by (auto elim: mark_target_Inr)
      have row: "get_row (marks s) k = Some old" "is_mark_of registration assessment_id k old"
        "first_row (is_mark_of registration assessment_id) (marks s) = Some (k, old)"
        using old Some x \<open>j = k\<close> by simp_all
      show thesis
        by (rule that [OF w(1-3) _ le a]) (use w(4) row sel kept in simp_all)
    qed
  qed
qed

lemma with_mark_save_Inr:
  assumes "with_mark k f s = Inr s'" and "\<And>m. f m = Inr s' \<Longrightarrow> \<exists>m' reason. save_mark c k m m' reason s = Inr s'"
  obtains m m' t tr where "s' = s\<lparr>marks := t, audit_log := tr\<rparr>" and "wrote k m' (marks s) t"
    and "key_free mark_key k m' (marks s)" and "0 \<le> mark_score m'"
proof -
  from assms(1) obtain m where m: "get_row (marks s) k = Some m" and f: "f m = Inr s'"
    by (auto simp: with_mark_def split: option.splits)
  from assms(2) [OF f] obtain m' reason where "save_mark c k m m' reason s = Inr s'" by blast
  from this m show thesis
  proof (rule save_mark_Inr)
    fix t tr
    assume "s' = s\<lparr>marks := t, audit_log := tr\<rparr>" "wrote k (m'\<lparr>mark_updated_at := now c\<rparr>) (marks s) t"
      "key_free mark_key k (m'\<lparr>mark_updated_at := now c\<rparr>) (marks s)" "0 \<le> mark_score m'"
    from that [OF this(1-3)] this(4) show thesis by simp
  qed
qed

lemma save_mark_effect:
  assumes "with_mark k f s = Inr s'" and "\<And>m. f m = Inr s' \<Longrightarrow> \<exists>m' reason. save_mark c k m m' reason s = Inr s'"
  shows "exam_effect s s'"
proof (rule with_mark_save_Inr [where f = f and c = c, OF assms])
  fix m m' t tr
  assume "s' = s\<lparr>marks := t, audit_log := tr\<rparr>" "wrote k m' (marks s) t" "key_free mark_key k m' (marks s)" "0 \<le> mark_score m'"
  then show ?thesis by (simp add: exam_effect.Mark)
qed

lemma moderate_mark_effect: "moderate_mark c k score remark actor s = Inr s' \<Longrightarrow> exam_effect s s'"
  unfolding moderate_mark_def by (erule save_mark_effect [where c = c]) (auto split: if_splits)

lemma flag_irregularity_effect: "flag_irregularity c k remark s = Inr s' \<Longrightarrow> exam_effect s s'"
  unfolding flag_irregularity_def by (erule save_mark_effect [where c = c]) (auto split: if_splits)

lemma clear_irregularity_effect: "clear_irregularity c k remark s = Inr s' \<Longrightarrow> exam_effect s s'"
  unfolding clear_irregularity_def by (erule save_mark_effect [where c = c]) blast

lemma record_mark_effect: "record_mark c g k score actor s = Inr (j, s') \<Longrightarrow> wf_table (marks s) \<Longrightarrow> exam_effect s s'"
  by (erule record_mark_Inr) (simp_all add: exam_effect.Mark)

text \<open>Every operation on approvals is a save of one row that moves along the transitions.\<close>

lemma save_approval_effect:
  assumes "save_approval c k old r reason s = Inr s'" and "get_row (result_approvals s) k = Some old"
    and "approval_moves (Some old) r"
  shows "exam_effect s s'"
proof -
  from assms(1) have clean: "approval_full_clean (Some k) r s = Inr ()" and save: "update_audited c approval_meta
      approval_audit result_approvals put_approvals k old r reason s = Inr s'"
    unfolding save_approval_def by (auto elim!: bindE_InrE)
  from clean have "key_free approval_key k r (result_approvals s)"
    by (intro key_free_other) (auto simp: approval_full_clean_def ensure_eq_Inr approval_key_def)
  with save assms(2,3) show ?thesis by (elim update_audited_wrote) (auto intro: exam_effect.Approval)
qed

lemma with_approval_effect:
  assumes "with_approval k f s = Inr s'"
    and "\<And>q. f q = Inr s' \<Longrightarrow> \<exists>r reason. save_approval c k q r reason s = Inr s' \<and> approval_moves (Some q) r"
  shows "exam_effect s s'"
proof -
  from assms(1) obtain q where q: "get_row (result_approvals s) k = Some q" and f: "f q = Inr s'"
    by (auto simp: with_approval_def split: option.splits)
  from assms(2) [OF f] q show ?thesis by (blast intro: save_approval_effect)
qed

lemma approve_results_effect: "approve_results c k actor remark s = Inr s' \<Longrightarrow> exam_effect s s'"
  unfolding approve_results_def
  by (erule with_approval_effect [where c = c])
    (auto split: if_splits simp: approval_moves_def approval_key_def approval_stamped_def)

lemma reject_results_effect: "reject_results c k remark s = Inr s' \<Longrightarrow> exam_effect s s'"
  unfolding reject_results_def
  by (erule with_approval_effect [where c = c])
    (auto split: if_splits simp: approval_moves_def approval_key_def approval_stamped_def)

lemma publish_results_effect: "publish_results c k actor s = Inr s' \<Longrightarrow> exam_effect s s'"
  unfolding publish_results_def
  by (erule with_approval_effect [where c = c])
    (auto split: if_splits simp: approval_moves_def approval_key_def approval_stamped_def)

lemma submit_for_approval_effect:
  assumes "submit_for_approval c semester programme s = Inr (k, s')" and "wf_table (result_approvals s)"
  shows "exam_effect s s'"
proof (cases "first_row (is_approval_of semester programme) (result_approvals s)")
  case None
  define r where "r = \<lparr>ra_semester = semester, ra_programme = programme, ra_status = Approval_Pending,
    ra_approved_by = None, ra_approved_at = None, ra_approval_notes = [], ra_published_by = None, ra_published_at = None\<rparr>"
  have r: "ra_semester r = semester" "ra_programme r = programme" "ra_status r = Approval_Pending" by (simp_all add: r_def)
  from assms(1) None have clean: "approval_full_clean None r s = Inr ()"
    and save: "insert_audited c approval_meta approval_audit result_approvals put_approvals r
      ''Submitted for Senate approval'' s = Inr (k, s')"
    unfolding submit_for_approval_def Let_def r_def by (auto elim!: bindE_InrE)
  from clean have free: "key_free approval_key (fresh_pk (result_approvals s)) r (result_approvals s)"
    by (intro key_free_fresh) (auto simp: approval_full_clean_def ensure_eq_Inr approval_key_def)
  from save obtain t tr where s': "s' = s\<lparr>result_approvals := t, audit_log := tr\<rparr>"
    and w: "wrote k r (result_approvals s) t" and k: "k = fresh_pk (result_approvals s)" by (rule insert_audited_wrote)
  show ?thesis unfolding s'
    by (rule exam_effect.Approval [OF w]) (use free r in \<open>simp_all add: k approval_moves_def\<close>)
next
  case (Some x)
  obtain j old where x: "x = (j, old)" by (cases x)
  have old: "get_row (result_approvals s) j = Some old" by (rule first_row_get [OF assms(2) Some [unfolded x]])
  from assms(1) Some x have "ra_status old \<in> {Approval_Pending, Approval_Rejected}"
    and save: "save_approval c j old (old\<lparr>ra_status := Approval_Pending\<rparr>) ''Submitted for Senate approval'' s = Inr s'"
    unfolding submit_for_approval_def by (auto split: if_splits elim!: bindE_InrE)
  then show ?thesis
    by (intro save_approval_effect [OF save old])
      (auto simp: approval_moves_def approval_key_def approval_stamped_def)
qed

lemma submit_appeal_effect: "submit_appeal c registration k reason actor s = Inr (j, s') \<Longrightarrow> exam_effect s s'"
  unfolding submit_appeal_def Let_def
  by (auto split: if_splits elim!: bindE_InrE insert_audited_wrote intro!: exam_effect.Appeal simp: appeal_moves_def)

lemma appeal_decision_iff:
  "appeal_decision t = Some st \<longleftrightarrow> st \<in> {Appeal_Upheld, Appeal_Rejected} \<and> t = appeal_status_text st"
  by (auto simp: appeal_decision_def)

lemma decide_appeal_effect: "decide_appeal c k decision remark actor s = Inr s' \<Longrightarrow> exam_effect s s'"
  unfolding decide_appeal_def Let_def
  by (auto split: if_splits option.splits elim!: bindE_InrE update_audited_wrote intro!: exam_effect.Appeal
      simp: appeal_moves_def appeal_decision_iff)

section \<open>Reachable states\<close>

inductive exam_step :: "'a exam_db_scheme \<Rightarrow> 'a exam_db_scheme \<Rightarrow> bool" where
  NewAssessment: "create_assessment c course name weight max_score sequence deadline s = Inr (k, s') \<Longrightarrow> exam_step s s'"
| EditAssessment: "update_assessment c k name_opt weight_opt max_opt sequence_opt deadline_opt s = Inr s' \<Longrightarrow> exam_step s s'"
| Record: "record_mark c g k score actor s = Inr (j, s') \<Longrightarrow> exam_step s s'"
| Moderate: "moderate_mark c k score remark actor s = Inr s' \<Longrightarrow> exam_step s s'"
| Flag: "flag_irregularity c k remark s = Inr s' \<Longrightarrow> exam_step s s'"
| Clear: "clear_irregularity c k remark s = Inr s' \<Longrightarrow> exam_step s s'"
| Submit: "submit_for_approval c semester programme s = Inr (k, s') \<Longrightarrow> exam_step s s'"
| Approve: "approve_results c k actor remark s = Inr s' \<Longrightarrow> exam_step s s'"
| Reject: "reject_results c k remark s = Inr s' \<Longrightarrow> exam_step s s'"
| Publish: "publish_results c k actor s = Inr s' \<Longrightarrow> exam_step s s'"
| AppealTo: "submit_appeal c g assessment_opt reason actor s = Inr (k, s') \<Longrightarrow> exam_step s s'"
| Decide: "decide_appeal c k decision remark actor s = Inr s' \<Longrightarrow> exam_step s s'"
| Attendance: "attendance_step s s' \<Longrightarrow> exam_step s s'"

definition exam_inv :: "'a exam_db_scheme \<Rightarrow> bool" where
  "exam_inv s \<longleftrightarrow> wf_table (assessments s) \<and> wf_table (marks s) \<and> wf_table (result_approvals s) \<and>
     wf_table (grade_appeals s) \<and> unique_on assessment_key (assessments s) \<and> unique_on mark_key (marks s) \<and>
     unique_on approval_key (result_approvals s) \<and> (\<forall>k m. get_row (marks s) k = Some m \<longrightarrow> 0 \<le> mark_score m) \<and>
     (\<forall>k a. get_row (assessments s) k = Some a \<longrightarrow> 0 \<le> as_weight_percent a \<and> as_weight_percent a \<le> 100 \<and>
        two_places (as_weight_percent a)) \<and>
     (\<forall>k r. get_row (result_approvals s) k = Some r \<longrightarrow> approval_stamped r)"

lemma exam_effect_inv: "exam_effect s s' \<Longrightarrow> exam_inv s \<Longrightarrow> exam_inv s'"
proof (induction rule: exam_effect.induct)
  case (Assessment k a s t tr)
  then show ?case by (auto simp: exam_inv_def get_row_wrote intro: wf_wroteI unique_on_wrote)
next
  case (Mark k m s t tr)
  then show ?case by (auto simp: exam_inv_def get_row_wrote intro: wf_wroteI unique_on_wrote)
next
  case (Approval k r s t tr)
  have "approval_stamped r"
    using Approval by (auto simp: exam_inv_def approval_moves_def approval_stamped_def split: option.splits)
  with Approval show ?case by (auto simp: exam_inv_def get_row_wrote intro: wf_wroteI unique_on_wrote)
next
  case (Appeal k g s t tr)
  then show ?case by (auto simp: exam_inv_def intro: wf_wroteI)
qed (simp add: exam_inv_def)

lemma attendance_step_more: "attendance_step s s' \<Longrightarrow> attendance_db.more s' = attendance_db.more s"
proof (induction rule: attendance_step.induct)
  case (Session c entry d ms actor s ks s')
  then show ?case by (auto dest!: record_session_frame)
next
  case (Waiver c registration actor reason s k s')
  then show ?case by (rule grant_waiver_Inr) auto
next
  case (Timetabling s s')
  then have "timetabling_db.more s' = timetabling_db.more s" by (rule timetabling_step_more)
  then show ?case by (cases s; cases s') simp
qed

lemma attendance_effect:
  assumes "attendance_step s s'"
  shows "exam_effect s s'"
proof -
  from assms have more: "attendance_db.more s' = attendance_db.more s" by (rule attendance_step_more)
  then have "assessments s' = assessments s \<and> marks s' = marks s \<and> grade_appeals s' = grade_appeals s \<and>
      result_approvals s' = result_approvals s \<and> exam_db.more s' = exam_db.more s"
    by (cases s; cases s') simp
  then show ?thesis by (simp add: exam_effect.Other)
qed

lemma exam_step_effect: "exam_step s s' \<Longrightarrow> exam_inv s \<Longrightarrow> exam_effect s s'"
proof (induction rule: exam_step.induct)
  case (NewAssessment c course name weight max_score sequence deadline s k s')
  then show ?case by (elim create_assessment_Inr) (simp add: exam_effect.Assessment)
next
  case (EditAssessment c k name_opt weight_opt max_opt sequence_opt deadline_opt s s')
  then show ?case by (elim update_assessment_Inr) (simp add: exam_effect.Assessment)
qed (auto simp: exam_inv_def intro: record_mark_effect moderate_mark_effect flag_irregularity_effect
  clear_irregularity_effect submit_for_approval_effect approve_results_effect reject_results_effect
  publish_results_effect submit_appeal_effect decide_appeal_effect attendance_effect)

lemma exam_steps_effects:
  "exam_step\<^sup>*\<^sup>* s s' \<Longrightarrow> exam_inv s \<Longrightarrow> exam_effect\<^sup>*\<^sup>* s s' \<and> exam_inv s'"
proof (induction rule: rtranclp_induct)
  case (step s1 s2)
  then have "exam_effect s1 s2" by (intro exam_step_effect) simp_all
  with step show ?case using exam_effect_inv [of s1 s2] by (auto intro: rtranclp.rtrancl_into_rtrancl)
qed simp

text \<open>The approvals and the appeals are state machines; those of appeals never return.\<close>

definition approval_status_of :: "'a exam_db_scheme \<Rightarrow> nat \<Rightarrow> approval_status option" where
  "approval_status_of s k = map_option ra_status (get_row (result_approvals s) k)"

definition appeal_status_of :: "'a exam_db_scheme \<Rightarrow> nat \<Rightarrow> appeal_status option" where
  "appeal_status_of s k = map_option ga_status (get_row (grade_appeals s) k)"

fun appeal_rank :: "appeal_status \<Rightarrow> nat" where
  "appeal_rank Appeal_Submitted = 0"
| "appeal_rank Appeal_Under_Review = 0"
| "appeal_rank _ = 1"

interpretation approval_machine: status_machine approval_status_of approval_transitions exam_effect
proof
  fix s s' :: "'a exam_db_scheme" and k x
  assume "exam_effect s s'" and "approval_status_of s k = Some x"
  then show "\<exists>y. approval_status_of s' k = Some y \<and> (y = x \<or> y \<in> set (approval_transitions x))"
    by (induction rule: exam_effect.induct) (auto simp: approval_status_of_def get_row_wrote approval_moves_def)
qed

interpretation appeal_machine: forward_status_machine appeal_status_of appeal_transitions exam_effect appeal_rank
proof
  fix s s' :: "'a exam_db_scheme" and k x
  assume "exam_effect s s'" and "appeal_status_of s k = Some x"
  then show "\<exists>y. appeal_status_of s' k = Some y \<and> (y = x \<or> y \<in> set (appeal_transitions x))"
    by (induction rule: exam_effect.induct) (auto simp: appeal_status_of_def get_row_wrote appeal_moves_def)
next
  fix x y assume "y \<in> set (appeal_transitions x)"
  then show "appeal_rank x < appeal_rank y" by (cases x) auto
qed

lemma decided_rows_stay:
  assumes "exam_effect\<^sup>*\<^sup>* s s'"
  shows "get_row (result_approvals s) k = Some r \<Longrightarrow> ra_status r = Approval_Published \<Longrightarrow> get_row (result_approvals s') k = Some r"
    and "get_row (grade_appeals s) j = Some g \<Longrightarrow> appeal_transitions (ga_status g) = [] \<Longrightarrow> get_row (grade_appeals s') j = Some g"
proof -
  have one_r: "get_row (result_approvals s2) k = Some r"
    if "exam_effect s1 s2" "get_row (result_approvals s1) k = Some r" "ra_status r = Approval_Published"
    for s1 s2 :: "'a exam_db_scheme"
    using that by (induction rule: exam_effect.induct) (auto simp: get_row_wrote approval_moves_def)
  have one_g: "get_row (grade_appeals s2) j = Some g"
    if "exam_effect s1 s2" "get_row (grade_appeals s1) j = Some g" "appeal_transitions (ga_status g) = []"
    for s1 s2 :: "'a exam_db_scheme"
    using that by (induction rule: exam_effect.induct) (auto simp: get_row_wrote appeal_moves_def)
  show "get_row (result_approvals s) k = Some r \<Longrightarrow> ra_status r = Approval_Published \<Longrightarrow> get_row (result_approvals s') k = Some r"
    using assms by (induction rule: rtranclp_induct) (auto intro: one_r)
  show "get_row (grade_appeals s) j = Some g \<Longrightarrow> appeal_transitions (ga_status g) = [] \<Longrightarrow> get_row (grade_appeals s') j = Some g"
    using assms by (induction rule: rtranclp_induct) (auto intro: one_g)
qed

section \<open>The approval gate\<close>



text \<open>
  Decisions stand. The approval of results and a grade appeal move along the allowed
  transitions only; published results are never withdrawn or changed, and an appeal that was
  upheld or rejected is never decided again.
\<close>

theorem decisions_final:
  assumes "exam_step\<^sup>*\<^sup>* s s'" and "exam_inv s"
    and "get_row (result_approvals s) k = Some r" and "get_row (grade_appeals s) j = Some g"
  shows "\<exists>r' g'. get_row (result_approvals s') k = Some r' \<and> get_row (grade_appeals s') j = Some g' \<and>
    (\<lambda>x y. y \<in> set (approval_transitions x))\<^sup>*\<^sup>* (ra_status r) (ra_status r') \<and>
    (\<lambda>x y. y \<in> set (appeal_transitions x))\<^sup>*\<^sup>* (ga_status g) (ga_status g') \<and>
    (ra_status r = Approval_Published \<longrightarrow> r' = r) \<and> (ga_status g \<in> {Appeal_Upheld, Appeal_Rejected} \<longrightarrow> g' = g)"
proof -
  from exam_steps_effects [OF assms(1,2)] have run: "exam_effect\<^sup>*\<^sup>* s s'" by blast
  from approval_machine.status_steps [OF run, of k "ra_status r"] assms(3) obtain r' where
    r': "get_row (result_approvals s') k = Some r'" "(\<lambda>x y. y \<in> set (approval_transitions x))\<^sup>*\<^sup>* (ra_status r) (ra_status r')"
    by (auto simp: approval_status_of_def)
  from appeal_machine.status_steps [OF run, of j "ga_status g"] assms(4) obtain g' where
    g': "get_row (grade_appeals s') j = Some g'" "(\<lambda>x y. y \<in> set (appeal_transitions x))\<^sup>*\<^sup>* (ga_status g) (ga_status g')"
    by (auto simp: appeal_status_of_def)
  have "r' = r" if "ra_status r = Approval_Published" using decided_rows_stay(1) [OF run assms(3) that] r'(1) by simp
  moreover have "g' = g" if "ga_status g \<in> {Appeal_Upheld, Appeal_Rejected}"
    using decided_rows_stay(2) [OF run assms(4)] that g'(1) by auto
  ultimately show ?thesis using r' g' by blast
qed

section \<open>The grade of a course\<close>

definition has_regular_mark :: "nat \<Rightarrow> 'a exam_db_scheme \<Rightarrow> nat \<times> assessment \<Rightarrow> bool" where
  "has_regular_mark g s x \<longleftrightarrow> (case mark_for g s (fst x) of None \<Rightarrow> False | Some m \<Rightarrow> \<not> mark_is_irregular m)"

definition component_percent :: "nat \<Rightarrow> 'a exam_db_scheme \<Rightarrow> nat \<times> assessment \<Rightarrow> rat" where
  "component_percent g s x = (case mark_for g s (fst x) of None \<Rightarrow> 0 | Some m \<Rightarrow> weighted_score (snd x) m)"

text \<open>What a registration is graded on: the sum over a scheme of 100% with no mark missing or disputed.\<close>

definition graded_percent :: "nat \<Rightarrow> 'a exam_db_scheme \<Rightarrow> rat option" where
  "graded_percent g s =
     (case course_id_for_registration g s of
        None \<Rightarrow> None
      | Some course \<Rightarrow>
          let as = assessments_of course s in
          if as \<noteq> [] \<and> sum_list (map (\<lambda>x. as_weight_percent (snd x)) as) = 100 \<and> list_all (has_regular_mark g s) as
          then Some (sum_list (map (component_percent g s) as)) else None)"

lemma score_components_sums:
  assumes "score_components (mark_for g s) as (p, full, irregular, cs) = (p', full', irregular', cs')"
  shows "p' = p + sum_list (map (component_percent g s) as) \<and>
    (full' \<and> \<not> irregular' \<longleftrightarrow> full \<and> \<not> irregular \<and> list_all (has_regular_mark g s) as)"
  using assms
proof (induction as arbitrary: p full irregular cs)
  case (Cons x as)
  obtain k a where x: "x = (k, a)" by (cases x)
  show ?case
  proof (cases "mark_for g s k")
    case None
    with Cons.prems have "score_components (mark_for g s) as (p, False, irregular, cs @ [component_of a None]) =
        (p', full', irregular', cs')" by (simp add: x)
    from Cons.IH [OF this] None show ?thesis by (simp add: x component_percent_def has_regular_mark_def)
  next
    case (Some m)
    with Cons.prems have "score_components (mark_for g s) as (p + weighted_score a m, full,
        irregular \<or> mark_is_irregular m, cs @ [component_of a (Some m)]) = (p', full', irregular', cs')" by (simp add: x)
    from Cons.IH [OF this] Some show ?thesis by (auto simp: x component_percent_def has_regular_mark_def)
  qed
qed simp

lemma two_places_weighted: "two_places (weighted_score a m)"
  by (simp add: weighted_score_def)

lemma two_places_component: "two_places (component_percent g s x)"
  by (auto simp: component_percent_def two_places_weighted split: option.splits)

lemma two_places_sum_list: "list_all (\<lambda>x. two_places (f x)) xs \<Longrightarrow> two_places (sum_list (map f xs))"
  by (induction xs) auto

lemma quantize_components:
  "quantize_half_up (sum_list (map (component_percent g s) as)) = sum_list (map (component_percent g s) as)"
proof -
  have "two_places (sum_list (map (component_percent g s) as))"
    by (rule two_places_sum_list) (simp add: list_all_iff two_places_component)
  then show ?thesis by simp
qed

lemma weights_of_scheme:
  "validate_assessment_weights course s =
     (let as = assessments_of course s; total = sum_list (map (\<lambda>x. as_weight_percent (snd x)) as) in
      if as = [] then Inl NoScheme else if total \<noteq> 100 then Inl (WeightsSumTo total) else Inr ())"
proof -
  let ?f = "\<lambda>x. as_weight_percent (snd x)" and ?t = "filter_rows (\<lambda>_ a. as_course a = course) (assessments s)"
  have perm: "mset (assessments_of course s) = mset ?t" by (simp add: assessments_of_def)
  have total: "sum_list (map ?f (assessments_of course s)) = sum_list (map ?f ?t)"
    using arg_cong [OF perm, of "\<lambda>x. \<Sum>y \<in># x. ?f y"] by (simp only: sum_mset_sum_list mset_map [symmetric])
  have empty: "assessments_of course s = [] \<longleftrightarrow> ?t = []"
    using perm mset_zero_iff [of "assessments_of course s"] mset_zero_iff [of ?t] by simp
  show ?thesis
    unfolding validate_assessment_weights_def Let_def total empty by (simp add: case_prod_unfold)
qed

text \<open>
  C24. A course is graded on all of its scheme or not at all. The letter, the grade point and the
  verdict of a registration are those which the default scale gives the sum of its weighted
  scores, provided that the weights of the course add up to 100%, every assessment has a mark
  and none is flagged as irregular; otherwise, and when the scale cannot grade, there is none.
\<close>

theorem course_graded_when_complete:
  "(rep_letter (course_result g s), rep_grade_point (course_result g s), rep_is_pass (course_result g s)) =
     (case graded_percent g s of
        None \<Rightarrow> (None, None, None)
      | Some p \<Rightarrow>
          (case grade_for p None s of
             Inl e \<Rightarrow> (None, None, None)
           | Inr gr \<Rightarrow> (Some (gr_letter gr), Some (gr_grade_point gr), Some (gr_is_pass gr))))"
proof (cases "course_id_for_registration g s")
  case None
  then show ?thesis by (simp add: course_result_def graded_percent_def)
next
  case (Some course)
  let ?as = "assessments_of course s"
  let ?ok = "?as \<noteq> [] \<and> sum_list (map (\<lambda>x. as_weight_percent (snd x)) ?as) = 100"
  let ?problem = "if ?as = [] then None
    else case validate_assessment_weights course s of Inl e \<Rightarrow> Some e | Inr _ \<Rightarrow> None"
  have ok: "(?as \<noteq> [] \<and> ?problem = None) = ?ok" by (simp add: weights_of_scheme Let_def)
  obtain p full irregular cs where sc: "score_components (mark_for g s) ?as (0, ?as \<noteq> [] \<and> ?problem = None, False, []) =
      (p, full, irregular, cs)" by (rule prod_cases4)
  note sums = score_components_sums [OF sc]
  have p: "p = sum_list (map (component_percent g s) ?as)" using sums by simp
  have full: "full \<and> \<not> irregular \<longleftrightarrow> ?ok \<and> list_all (has_regular_mark g s) ?as" using sums unfolding ok by blast
  have q: "quantize_half_up p = p" unfolding p by (rule quantize_components)
  have gp: "graded_percent g s = (if full \<and> \<not> irregular then Some p else None)"
    unfolding full by (simp add: graded_percent_def Some Let_def p)
  show ?thesis
    unfolding course_result_def Some Let_def option.case sc prod.case q gp
    by (cases "full \<and> \<not> irregular") (auto split: sum.splits)
qed

text \<open>One component in decimal arithmetic: between 0 and its weight, half a hundredth off at most.\<close>

lemma weighted_ratio_close:
  fixes e m w :: rat
  assumes "0 \<le> e" and "e \<le> m" and "0 < m" and "0 \<le> w" and "w \<le> 100" and "two_places w"
  defines "v \<equiv> quantize_half_up (dec_mul (dec_div e m) w)"
  shows "0 \<le> v" and "v \<le> w" and "\<bar>v - e / m * w\<bar> \<le> 1 / 200 + 1 / 10 ^ 25"
proof -
  define q where "q = e / m"
  define y where "y = dec_ctx q"
  define x where "x = dec_ctx (y * w)"
  have q: "0 \<le> q" "q \<le> 1" using assms(1-3) by (simp_all add: q_def)
  have y: "0 \<le> y" unfolding y_def using q by (intro dec_ctx_nonneg)
  have e1: "\<bar>y - q\<bar> \<le> 10 ^ 1 / 10 ^ 28 / 2" unfolding y_def using q by (intro dec_ctx_error_bound) simp
  then have "\<bar>y - q\<bar> \<le> 1" by (rule order_trans) simp
  then have "y \<le> 2" using q by linarith
  then have "y * w \<le> 2 * 100" using y assms(4,5) by (intro mult_mono) simp_all
  then have e2: "\<bar>x - y * w\<bar> \<le> 10 ^ 3 / 10 ^ 28 / 2"
    unfolding x_def using y assms(4) by (intro dec_ctx_error_bound) simp
  have e3: "\<bar>y * w - q * w\<bar> \<le> 10 ^ 3 / 10 ^ 28 / 2"
  proof -
    have "\<bar>y * w - q * w\<bar> = \<bar>y - q\<bar> * w" using assms(4) by (simp add: left_diff_distrib [symmetric] abs_mult)
    also have "\<dots> \<le> 10 ^ 1 / 10 ^ 28 / 2 * 100" using e1 assms(4,5) by (intro mult_mono) simp_all
    finally show ?thesis by simp
  qed
  have "\<bar>x - q * w\<bar> \<le> \<bar>x - y * w\<bar> + \<bar>y * w - q * w\<bar>" by linarith
  also have "\<dots> \<le> 10 ^ 3 / 10 ^ 28 / 2 + 10 ^ 3 / 10 ^ 28 / 2" using e2 e3 by (rule add_mono)
  finally have near: "\<bar>x - q * w\<bar> \<le> 1 / 10 ^ 25" by simp
  have v: "v = quantize_half_up x" by (simp add: v_def x_def y_def q_def dec_mul_def dec_div_def)
  have half: "\<bar>v - x\<bar> \<le> 1 / 200" unfolding v by (rule quantize_half_up_error)
  have "\<bar>v - q * w\<bar> \<le> \<bar>v - x\<bar> + \<bar>x - q * w\<bar>" by linarith
  also have "\<dots> \<le> 1 / 200 + 1 / 10 ^ 25" using half near by (rule add_mono)
  finally show "\<bar>v - e / m * w\<bar> \<le> 1 / 200 + 1 / 10 ^ 25" by (simp add: q_def)
  have "0 \<le> x" unfolding x_def using y assms(4) by (intro dec_ctx_nonneg) simp
  then show "0 \<le> v" unfolding v using quantize_half_up_mono [of 0 x] by simp
  have "q * w \<le> 1 * w" using q(2) assms(4) by (intro mult_right_mono)
  moreover have "\<bar>x - q * w\<bar> < 1 / 200" using near by (rule order_le_less_trans) simp
  ultimately have "v < w + 1 / 100" using half by linarith
  moreover obtain i j :: int where "v * 100 = of_int i" "w * 100 = of_int j"
    using assms(6) unfolding v quantize_half_up_def two_places_def by (auto elim: Ints_cases)
  ultimately have "of_int i < (of_int (j + 1) :: rat)" by simp
  then have "i \<le> j" unfolding of_int_less_iff by simp
  then have "(of_int i :: rat) \<le> of_int j" by simp
  then show "v \<le> w" using \<open>v * 100 = of_int i\<close> \<open>w * 100 = of_int j\<close> by simp
qed

definition exact_component :: "nat \<Rightarrow> 'a exam_db_scheme \<Rightarrow> nat \<times> assessment \<Rightarrow> rat" where
  "exact_component g s x =
     (case mark_for g s (fst x) of
        None \<Rightarrow> 0
      | Some m \<Rightarrow> effective_score m / as_max_score (snd x) * as_weight_percent (snd x))"

text \<open>No score of the registration, moderated or not, is outside the range of its assessment.\<close>

definition scores_within :: "nat \<Rightarrow> 'a exam_db_scheme \<Rightarrow> bool" where
  "scores_within g s \<longleftrightarrow> (\<forall>(k, a) \<in> set (assessments s). \<forall>m. mark_for g s k = Some m \<longrightarrow>
     0 \<le> effective_score m \<and> effective_score m \<le> as_max_score a \<and> 0 < as_max_score a)"

lemma sum_components_close:
  assumes "list_all (\<lambda>x. 0 \<le> f x \<and> f x \<le> w x \<and> \<bar>f x - h x\<bar> \<le> d) xs"
  shows "0 \<le> sum_list (map f xs) \<and> sum_list (map f xs) \<le> sum_list (map w xs) \<and>
    \<bar>sum_list (map f xs) - sum_list (map h xs)\<bar> \<le> of_nat (length xs) * (d::rat)"
  using assms
proof (induction xs)
  case (Cons x xs)
  then have IH: "\<bar>sum_list (map f xs) - sum_list (map h xs)\<bar> \<le> of_nat (length xs) * d" by simp
  have "\<bar>sum_list (map f (x # xs)) - sum_list (map h (x # xs))\<bar> \<le> \<bar>f x - h x\<bar> + \<bar>sum_list (map f xs) - sum_list (map h xs)\<bar>"
    by simp
  also have "\<dots> \<le> d + of_nat (length xs) * d" using Cons.prems IH by (intro add_mono) simp_all
  finally show ?case using Cons by (auto simp: algebra_simps)
qed simp

text \<open>
  The percentage of a course is in range and close to the exact one. When the scores are within
  the maxima of their assessments, the percentage a registration is graded on lies between 0
  and 100, so that a scale without gaps always grades it, and differs from the exact weighted
  average by at most half a hundredth per assessment, up to the error of 28 digits.
\<close>

theorem course_percent_bounds:
  assumes "exam_step\<^sup>*\<^sup>* s0 s" and "exam_inv s0" and "scores_within g s"
    and "course_id_for_registration g s = Some course" and "graded_percent g s = Some p"
  shows "0 \<le> p \<and> p \<le> 100 \<and> \<bar>p - sum_list (map (exact_component g s) (assessments_of course s))\<bar> \<le>
    of_nat (length (assessments_of course s)) * (1 / 200 + 1 / 10 ^ 25)"
proof -
  have inv: "exam_inv s" using exam_steps_effects [OF assms(1,2)] by simp
  let ?as = "assessments_of course s"
  from assms(4,5) have sum: "sum_list (map (\<lambda>x. as_weight_percent (snd x)) ?as) = 100"
    and regular: "list_all (has_regular_mark g s) ?as" and p: "p = sum_list (map (component_percent g s) ?as)"
    by (auto simp: graded_percent_def Let_def split: if_splits)
  have "0 \<le> component_percent g s x \<and> component_percent g s x \<le> as_weight_percent (snd x) \<and>
      \<bar>component_percent g s x - exact_component g s x\<bar> \<le> 1 / 200 + 1 / 10 ^ 25" if x: "x \<in> set ?as" for x
  proof -
    obtain k a where ka: "x = (k, a)" by (cases x)
    from x have row: "(k, a) \<in> set (assessments s)" by (simp add: ka assessments_of_def filter_rows_iff)
    then have w: "0 \<le> as_weight_percent a" "as_weight_percent a \<le> 100" "two_places (as_weight_percent a)"
      using inv in_set_get_row [of "assessments s" k a] by (auto simp: exam_inv_def)
    from x regular obtain m where m: "mark_for g s k = Some m"
      by (auto simp: ka list_all_iff has_regular_mark_def split: option.splits)
    with assms(3) row have e: "0 \<le> effective_score m" "effective_score m \<le> as_max_score a" "0 < as_max_score a"
      by (auto simp: scores_within_def)
    from weighted_ratio_close [OF e w] e(3) show ?thesis
      by (simp add: ka component_percent_def exact_component_def m weighted_score_def)
  qed
  then have "list_all (\<lambda>x. 0 \<le> component_percent g s x \<and> component_percent g s x \<le> as_weight_percent (snd x) \<and>
      \<bar>component_percent g s x - exact_component g s x\<bar> \<le> 1 / 200 + 1 / 10 ^ 25) ?as" by (simp add: list_all_iff)
  from sum_components_close [OF this] show ?thesis unfolding sum p by blast
qed

section \<open>Marks queued offline\<close>

lemma record_sent_mark_Inr:
  assumes "record_sent_mark c g k v score actor s = Inr (r, s')"
  obtains q j where "score = Finite q" and "record_mark c g k q (Some actor) s = Inr (j, s')"
  using assms unfolding record_sent_mark_def
  by (cases score) (auto split: if_splits elim!: bindE_InrE bindE_pairE)

lemma mark_apply_Inr:
  assumes "mark_apply c op u s = Inr (r, s')"
  obtains g k q j where "payload_decimal (payload_get (in_payload op) ''score'') = Inr (Finite q)"
    and "record_mark c g k q (Some u) s = Inr (j, s')"
    and "\<And>i m. first_row (is_mark_of g k) (marks s) = Some (i, m) \<Longrightarrow> mark_score m = q"
proof -
  from assms obtain g k score where score: "payload_decimal (payload_get (in_payload op) ''score'') = Inr score"
    and sent: "record_sent_mark c g k (payload_get (in_payload op) ''score'') score u s = Inr (r, s')"
    and same: "\<forall>i m. first_row (is_mark_of g k) (marks s) = Some (i, m) \<longrightarrow> score = Finite (mark_score m)"
    unfolding mark_apply_def Let_def by (fastforce split: if_splits option.splits elim!: bindE_InrE)
  from sent obtain q j where "score = Finite q" "record_mark c g k q (Some u) s = Inr (j, s')"
    by (rule record_sent_mark_Inr)
  with score same that show thesis by fastforce
qed

lemma mark_apply_ledger:
  assumes "mark_apply c op u s = Inr (r, s')"
  shows "sync_operations s' = sync_operations s \<and> sync_conflicts s' = sync_conflicts s"
  using assms
proof (rule mark_apply_Inr)
  fix g k q j
  assume "record_mark c g k q (Some u) s = Inr (j, s')"
  then show ?thesis
    unfolding record_mark_def Let_def save_mark_def
    by (auto split: option.splits elim!: bindE_InrE insert_audited_Inr update_audited_Inr)
qed

lemma mark_apply_conflict:
  assumes "exam_inv s" and "\<not> list_ex (payload_missing (in_payload op)) MARK_REQUIRED_FIELDS"
    and "py_int (payload_get (in_payload op) ''registration_id'') = Inr (int g)"
    and "py_int (payload_get (in_payload op) ''assessment_id'') = Inr (int k)"
    and "payload_decimal (payload_get (in_payload op) ''score'') = Inr (Finite q)" and "0 < g" and "0 < k"
    and "get_row (marks s) j = Some m" and "is_mark_of g k j m" and "mark_score m \<noteq> q"
  shows "mark_apply c op u s = Inl (SyncConflictDetected ''score'' (VDec (mark_score m))
    (VStr (decimal_shown (payload_get (in_payload op) ''score''))) (Some (mark_updated_at m)) (Some (''examinations.mark'', j)))"
proof -
  obtain i m' where found: "first_row (is_mark_of g k) (marks s) = Some (i, m')"
    using no_clash_unique [of "is_mark_of g k" "marks s" j m] assms(8,9) first_row_None [of "is_mark_of g k" "marks s"]
    by (cases "first_row (is_mark_of g k) (marks s)") auto
  have wf: "wf_table (marks s)" using assms(1) by (simp add: exam_inv_def)
  have "get_row (marks s) i = Some m'" "is_mark_of g k i m'"
    using first_row_get [OF wf found] first_row_Some [OF found] by blast+
  then have "i = j"
    using unique_onD [of mark_key "marks s" i m' j m] assms(1,8,9) by (simp add: exam_inv_def mark_key_def is_mark_of_def)
  with \<open>get_row (marks s) i = Some m'\<close> assms(8) have "m' = m" by simp
  with found \<open>i = j\<close> assms(2-7,10) show ?thesis
    unfolding mark_apply_def Let_def by (simp add: mark_meta_def)
qed

text \<open>
  C40. A mark entered offline never overwrites another score. Applying a queued mark succeeds only
  for a score that is not below zero nor above the maximum of the assessment, writes exactly
  one row, whose score is the one that was sent, and when the registration already had a mark
  for the assessment then with the same score, moderation and irregularity; a different score
  is reported as a conflict that shows both, and changes nothing.
\<close>

theorem queued_mark_never_overwrites:
  assumes "exam_step\<^sup>*\<^sup>* s0 s" and "exam_inv s0"
  shows "(case mark_apply c op u s of
      Inl e \<Rightarrow> True
    | Inr (r, s') \<Rightarrow> \<exists>k m a. marks s' = (if get_row (marks s) k = None then add_row m (marks s) else put_row k m (marks s)) \<and>
        payload_decimal (payload_get (in_payload op) ''score'') = Inr (Finite (mark_score m)) \<and>
        get_row (assessments s) (mark_assessment m) = Some a \<and> 0 \<le> mark_score m \<and> mark_score m \<le> as_max_score a \<and>
        (case get_row (marks s) k of
           None \<Rightarrow> \<not> exists_row (is_mark_of (mark_registration m) (mark_assessment m)) (marks s)
         | Some old \<Rightarrow> mark_key old = mark_key m \<and> mark_score old = mark_score m \<and>
             mark_moderated_score old = mark_moderated_score m \<and> mark_is_irregular old = mark_is_irregular m)) \<and>
    (\<forall>g k q j m. \<not> list_ex (payload_missing (in_payload op)) MARK_REQUIRED_FIELDS \<longrightarrow>
       py_int (payload_get (in_payload op) ''registration_id'') = Inr (int g) \<longrightarrow>
       py_int (payload_get (in_payload op) ''assessment_id'') = Inr (int k) \<longrightarrow> 0 < g \<longrightarrow> 0 < k \<longrightarrow>
       payload_decimal (payload_get (in_payload op) ''score'') = Inr (Finite q) \<longrightarrow>
       get_row (marks s) j = Some m \<longrightarrow> is_mark_of g k j m \<longrightarrow> mark_score m \<noteq> q \<longrightarrow>
       mark_apply c op u s = Inl (SyncConflictDetected ''score'' (VDec (mark_score m))
         (VStr (decimal_shown (payload_get (in_payload op) ''score''))) (Some (mark_updated_at m))
         (Some (''examinations.mark'', j))))"
proof (intro conjI allI impI)
  have inv: "exam_inv s" using exam_steps_effects [OF assms] by simp
  then have wf: "wf_table (marks s)" by (simp add: exam_inv_def)
  show "case mark_apply c op u s of
      Inl e \<Rightarrow> True
    | Inr (r, s') \<Rightarrow> \<exists>k m a. marks s' = (if get_row (marks s) k = None then add_row m (marks s) else put_row k m (marks s)) \<and>
        payload_decimal (payload_get (in_payload op) ''score'') = Inr (Finite (mark_score m)) \<and>
        get_row (assessments s) (mark_assessment m) = Some a \<and> 0 \<le> mark_score m \<and> mark_score m \<le> as_max_score a \<and>
        (case get_row (marks s) k of
           None \<Rightarrow> \<not> exists_row (is_mark_of (mark_registration m) (mark_assessment m)) (marks s)
         | Some old \<Rightarrow> mark_key old = mark_key m \<and> mark_score old = mark_score m \<and>
             mark_moderated_score old = mark_moderated_score m \<and> mark_is_irregular old = mark_is_irregular m)"
  proof (cases "mark_apply c op u s")
    case (Inr x)
    obtain r s' where x: "x = (r, s')" by (cases x)
    from Inr x obtain g k q j where q: "payload_decimal (payload_get (in_payload op) ''score'') = Inr (Finite q)"
      and rec: "record_mark c g k q (Some u) s = Inr (j, s')"
      and same: "\<And>i m. first_row (is_mark_of g k) (marks s) = Some (i, m) \<Longrightarrow> mark_score m = q"
      by (auto elim: mark_apply_Inr)
    from rec wf show ?thesis
    proof (rule record_mark_Inr)
      fix a m t tr
      assume s': "s' = s\<lparr>marks := t, audit_log := tr\<rparr>" and w: "wrote j m (marks s) t"
        and free: "key_free mark_key j m (marks s)" and range: "0 \<le> q" "q \<le> as_max_score a"
        and target: "mark_target g k s = Inr a" and m: "mark_registration m = g" "mark_assessment m = k" "mark_score m = q"
        and old: "case get_row (marks s) j of None \<Rightarrow> mark_moderated_score m = None \<and> \<not> mark_is_irregular m
          | Some old \<Rightarrow> first_row (is_mark_of g k) (marks s) = Some (j, old) \<and> is_mark_of g k j old \<and>
              mark_moderated_score m = mark_moderated_score old \<and> mark_is_irregular m = mark_is_irregular old"
      have t: "t = (if get_row (marks s) j = None then add_row m (marks s) else put_row j m (marks s))"
        using w by (auto simp: wrote_def)
      have none: "\<not> exists_row (is_mark_of g k) (marks s)" if "get_row (marks s) j = None"
        using free that m in_set_get_row [OF wf] by (fastforce simp: exists_row_iff key_free_def mark_key_def is_mark_of_def)
      from target have a: "get_row (assessments s) k = Some a" by (rule mark_target_Inr)
      have row: "case get_row (marks s) j of
           None \<Rightarrow> \<not> exists_row (is_mark_of (mark_registration m) (mark_assessment m)) (marks s)
         | Some old \<Rightarrow> mark_key old = mark_key m \<and> mark_score old = mark_score m \<and>
             mark_moderated_score old = mark_moderated_score m \<and> mark_is_irregular old = mark_is_irregular m"
        using old none same m by (cases "get_row (marks s) j") (auto simp: mark_key_def is_mark_of_def)
      show ?thesis unfolding Inr x sum.case prod.case
        by (intro exI [of _ j] exI [of _ m] exI [of _ a] conjI row) (use q range a m in \<open>simp_all add: s' t\<close>)
    qed
  qed simp
  fix g k q j m
  assume "\<not> list_ex (payload_missing (in_payload op)) MARK_REQUIRED_FIELDS"
    "py_int (payload_get (in_payload op) ''registration_id'') = Inr (int g)"
    "py_int (payload_get (in_payload op) ''assessment_id'') = Inr (int k)" "0 < g" "0 < k"
    "payload_decimal (payload_get (in_payload op) ''score'') = Inr (Finite q)"
    "get_row (marks s) j = Some m" "is_mark_of g k j m" "mark_score m \<noteq> q"
  then show "mark_apply c op u s = Inl (SyncConflictDetected ''score'' (VDec (mark_score m))
      (VStr (decimal_shown (payload_get (in_payload op) ''score''))) (Some (mark_updated_at m))
      (Some (''examinations.mark'', j)))"
    by (intro mark_apply_conflict [OF inv])
qed

text \<open>Evaluating the context rounding by its leading digit.\<close>

lemma adjusted_eqI:
  assumes "10 powi e \<le> \<bar>q\<bar>" and "\<bar>q\<bar> < 10 powi (e + 1)"
  shows "adjusted q = e"
proof -
  have pos: "(0::rat) < 10 powi e" by simp
  have mono: "(10::rat) powi i \<le> 10 powi j" if "i \<le> j" for i j :: int
    using that by (intro power_int_increasing) simp_all
  have "q \<noteq> 0" using order_less_le_trans [OF pos assms(1)] by simp
  from adjusted_bounds [OF this] assms have "(10::rat) powi adjusted q < 10 powi (e + 1)" "(10::rat) powi e < 10 powi (adjusted q + 1)"
    by linarith+
  with mono [of "e + 1" "adjusted q"] mono [of "adjusted q + 1" e] show ?thesis by linarith
qed

lemma round_half_even_near: "\<bar>q - of_int n\<bar> < 1 / 2 \<Longrightarrow> round_half_even q = n"
  using round_half_even_error [of q] by linarith

lemma round_half_even_tie: "even n \<Longrightarrow> round_half_even (of_int n + 1 / 2) = n"
proof -
  have "\<lfloor>of_int n + 1 / 2 :: rat\<rfloor> = n" by linarith
  then show "even n \<Longrightarrow> round_half_even (of_int n + 1 / 2) = n" by (simp add: round_half_even_def Let_def)
qed

lemma dec_ctx_eqI:
  assumes "10 powi e \<le> \<bar>q\<bar>" and "\<bar>q\<bar> < 10 powi (e + 1)" and "round_half_even (q / 10 powi (e - 27)) = n"
  shows "dec_ctx q = of_int n * 10 powi (e - 27)"
proof -
  have "(0::rat) < 10 powi e" by simp
  from order_less_le_trans [OF this assms(1)] have "q \<noteq> 0" by simp
  with adjusted_eqI [OF assms(1,2)] assms(3) show ?thesis by (simp add: dec_ctx_def Let_def)
qed

lemma five_of_24: "dec_mul (dec_div 5 24) 45 = 9374999999999999999999999998 / 10 ^ 27"
proof -
  have "round_half_even (5 / 24 / 10 powi (- 1 - 27)) = 2083333333333333333333333333"
    by (rule round_half_even_near) (simp add: power_int_minus)
  then have "dec_ctx (5 / 24) = 2083333333333333333333333333 * 10 powi (- 1 - 27)"
    using dec_ctx_eqI [of "- 1" "5 / 24"] by (simp add: power_int_minus)
  then have y: "dec_div 5 24 = 2083333333333333333333333333 / 10 ^ 28" by (simp add: dec_div_def power_int_minus)
  have "2083333333333333333333333333 / 10 ^ 28 * 45 / 10 powi (0 - 27) = (of_int 9374999999999999999999999998 + 1 / 2 :: rat)"
    by (simp add: power_int_minus)
  then have "round_half_even (2083333333333333333333333333 / 10 ^ 28 * 45 / 10 powi (0 - 27)) = 9374999999999999999999999998"
    by (simp only:) (rule round_half_even_tie, simp)
  then have "dec_ctx (2083333333333333333333333333 / 10 ^ 28 * 45) = 9374999999999999999999999998 * 10 powi (0 - 27)"
    using dec_ctx_eqI [of 0 "2083333333333333333333333333 / 10 ^ 28 * 45"] by simp
  then show ?thesis unfolding dec_mul_def y by (simp add: power_int_minus)
qed
section \<open>What the rules miss\<close>

text \<open>
  The score is divided before it is weighted, so an exact half can be lost: 5 of 24 points at
  45% are 9.375, which is entered as 9.37.
\<close>

definition sample_assessment :: assessment where
  "sample_assessment =
     \<lparr>as_course = 1, as_name = ''CA1'', as_weight_percent = 100, as_max_score = 100, as_sequence = 1,
      as_grade_entry_deadline = None\<rparr>"

definition sample_mark_row :: mark where
  "sample_mark_row =
     \<lparr>mark_registration = 1, mark_assessment = 1, mark_score = 40, mark_is_late = False, mark_moderated_score = None,
      mark_moderated_by = None, mark_moderation_notes = [], mark_is_irregular = False, mark_irregularity_notes = [],
      mark_entered_by = None, mark_updated_at = 7\<rparr>"

lemma half_rounded_down:
  "weighted_score (sample_assessment\<lparr>as_weight_percent := 45, as_max_score := 24\<rparr>) (sample_mark_row\<lparr>mark_score := 5\<rparr>) = 937 / 100 \<and>
   quantize_half_up (5 / 24 * 45) = 938 / 100"
  by (simp add: weighted_score_def effective_score_def sample_assessment_def sample_mark_row_def five_of_24
      quantize_half_up_def round_half_up_def floor_eq_iff)

text \<open>A moderated score is not compared with the maximum.\<close>

lemma moderated_score_unbounded:
  "mark_full_clean pk m s = Inr () \<Longrightarrow> score_column q \<Longrightarrow>
     mark_full_clean pk (m\<lparr>mark_moderated_score := Some q\<rparr>) s = Inr ()"
  by (auto simp: mark_full_clean_def mark_clean_def res_simps split: option.splits if_splits)

text \<open>A maximum that is lowered below a mark leaves a row that can no longer be saved, not even flagged.\<close>

lemma lowered_maximum_blocks_flag:
  assumes "get_row (marks s) k = Some m" and "get_row (assessments s) (mark_assessment m) = Some a"
    and "as_max_score a < mark_score m" and "nonblank remark"
  shows "flag_irregularity c k remark s = Inl ValidationError"
proof -
  have "mark_full_clean (Some k) (m\<lparr>mark_is_irregular := True, mark_irregularity_notes := remark\<rparr>) s = Inl ValidationError"
    using assms(2,3) by (simp add: mark_full_clean_def mark_clean_def ensure_def)
  with assms(1,4) show ?thesis by (simp add: flag_irregularity_def with_mark_def save_mark_def)
qed

text \<open>The percentage that is shown counts the marks under an irregularity flag.\<close>

lemma shown_percent_counts_flagged:
  assumes "course_id_for_registration g s = Some course" and "assessments_of course s \<noteq> []"
  shows "rep_percent (course_result g s) = Some (sum_list (map (component_percent g s) (assessments_of course s)))"
proof -
  let ?as = "assessments_of course s"
  let ?problem = "if ?as = [] then None
    else case validate_assessment_weights course s of Inl e \<Rightarrow> Some e | Inr _ \<Rightarrow> None"
  obtain p full irregular cs where sc: "score_components (mark_for g s) ?as (0, ?as \<noteq> [] \<and> ?problem = None, False, []) =
      (p, full, irregular, cs)" by (rule prod_cases4)
  from score_components_sums [OF sc] have p: "p = sum_list (map (component_percent g s) ?as)" by simp
  have q: "quantize_half_up p = p" unfolding p by (rule quantize_components)
  show ?thesis
    unfolding course_result_def assms(1) Let_def option.case sc prod.case q p [symmetric]
    using assms(2) by (auto split: sum.splits)
qed

text \<open>A registration that was dropped after it was graded stays in the average of the semester.\<close>

lemma dropped_registration_counts:
  assumes "(k, r) \<in> set (course_registrations s)" and "cr_status r = Reg_Dropped"
    and "rep_grade_point (course_result k s) = Some gp"
  shows "CourseGrade (int (credit_hours_of s r)) gp True \<in>
    set (List.map_filter (gpa_entry_of s) (registrations_for_student (cr_student r) (cr_semester r) s))"
proof -
  define i where "i = \<lparr>ri_registration_id = k, ri_course_id = cr_course r, ri_credit_hours = credit_hours_of s r,
    ri_is_repeat = cr_is_repeat r, ri_status = cr_status r\<rparr>"
  have "i \<in> set (registrations_for_student (cr_student r) (cr_semester r) s)"
    using assms(1) by (force simp: registrations_for_student_def filter_rows_def i_def)
  moreover have "gpa_entry_of s i = Some (CourseGrade (int (credit_hours_of s r)) gp True)"
    using assms(3) by (simp add: gpa_entry_of_def i_def)
  ultimately show ?thesis by (force simp: List.map_filter_def)
qed

section \<open>Concrete inputs\<close>

definition sample_approval :: result_approval where
  "sample_approval =
     \<lparr>ra_semester = 1, ra_programme = None, ra_status = Approval_Published, ra_approved_by = Some 1,
      ra_approved_at = Some 5, ra_approval_notes = [], ra_published_by = Some 1, ra_published_at = Some 6\<rparr>"

definition sample_appeal :: grade_appeal where
  "sample_appeal =
     \<lparr>ga_registration = 1, ga_assessment = None, ga_reason = ''recount'', ga_status = Appeal_Rejected,
      ga_submitted_by = None, ga_decided_by = None, ga_decision_notes = ''correct'', ga_decided_at = Some 8\<rparr>"

definition sample_exam_db :: "assessment table \<Rightarrow> mark table \<Rightarrow> exam_db" where
  "sample_exam_db as ms =
     attendance_db.extend (sample_attendance_db [] [])
       \<lparr>assessments = as, marks = ms, grade_appeals = [(1, sample_appeal)], result_approvals = [(1, sample_approval)]\<rparr>"

lemma sample_exam_tables [simp]:
  "assessments (sample_exam_db as ms) = as" "marks (sample_exam_db as ms) = ms"
  "grade_appeals (sample_exam_db as ms) = [(1, sample_appeal)]"
  "result_approvals (sample_exam_db as ms) = [(1, sample_approval)]"
  "course_registrations (sample_exam_db as ms) = [(1, new_registration 1 1 1)]"
  "courses (sample_exam_db as ms) = [(1, sample_course)]" "students (sample_exam_db as ms) = [(1, sample_student)]"
  "invoices (sample_exam_db as ms) = []" "payments (sample_exam_db as ms) = []" "audit_log (sample_exam_db as ms) = []"
  by (simp_all add: sample_exam_db_def attendance_db.defs sample_attendance_db_def timetabling_db.defs
      sample_timetabling_db_def finance_db.defs sample_finance_db_def hostel_db.defs sample_hostel_db_def
      enrollment_db.defs sample_enrollment_db_def admissions_db.defs registry_db.defs sample_admitted_def
      sample_registry_db_def)

lemma sample_exam_inv: "exam_inv (sample_exam_db [(1, sample_assessment)] [(1, sample_mark_row)])"
  "exam_inv (sample_exam_db [] [])"
  by (auto simp: exam_inv_def wf_table_def unique_on_def get_row_def approval_stamped_def sample_approval_def
      sample_mark_row_def sample_assessment_def split: if_splits)



lemma decisions_final_witness:
  "\<exists>s'. exam_step (sample_exam_db [] []) s' \<and> get_row (result_approvals s') 1 = Some sample_approval \<and>
     get_row (grade_appeals s') 1 = Some sample_appeal"
proof -
  let ?s = "sample_exam_db [] []"
  have "assessment_full_clean None sample_assessment ?s = Inr ()"
    by (simp add: assessment_full_clean_def sample_assessment_def get_row_singleton exists_row_def score_column_def)
  then obtain s' where "create_assessment offline_ctx 1 ''CA1'' 100 100 1 None ?s = Inr (1, s')"
    by (auto simp: create_assessment_def sample_assessment_def insert_audited_down offline_ctx_def assessment_meta_def
        fresh_pk_def)
  then have step: "exam_step ?s s'" by (rule exam_step.NewAssessment)
  have rows: "get_row (result_approvals ?s) 1 = Some sample_approval" "get_row (grade_appeals ?s) 1 = Some sample_appeal"
    by (simp_all add: get_row_singleton)
  from decisions_final [OF r_into_rtranclp [of exam_step, OF step] sample_exam_inv(2) rows] step show ?thesis
    by (auto simp: sample_approval_def sample_appeal_def)
qed

lemma course_percent_bounds_witness:
  "\<exists>p. graded_percent 1 (sample_exam_db [(1, sample_assessment)] [(1, sample_mark_row)]) = Some p \<and> 0 \<le> p \<and> p \<le> 100"
proof -
  define s where "s = sample_exam_db [(1, sample_assessment)] [(1, sample_mark_row)]"
  have inv: "exam_inv s" unfolding s_def by (rule sample_exam_inv(1))
  have course: "course_id_for_registration 1 s = Some 1"
    by (simp add: s_def course_id_for_registration_def get_row_singleton new_registration_def)
  have row: "mark_for 1 s 1 = Some sample_mark_row"
    by (simp add: s_def mark_for_def first_row_def is_mark_of_def sample_mark_row_def)
  have tab: "assessments s = [(1, sample_assessment)]" by (simp add: s_def)
  have as: "assessments_of 1 s = [(1, sample_assessment)]"
    by (simp add: assessments_of_def filter_rows_def tab) (simp add: sample_assessment_def)
  have vals: "effective_score sample_mark_row = 40" "as_max_score sample_assessment = 100" "\<not> mark_is_irregular sample_mark_row"
    "as_weight_percent sample_assessment = 100"
    by (simp_all add: effective_score_def sample_mark_row_def sample_assessment_def)
  have "scores_within 1 s" unfolding scores_within_def tab using row vals by auto
  moreover obtain p where p: "graded_percent 1 s = Some p"
    using row vals by (auto simp: has_regular_mark_def graded_percent_def course [unfolded One_nat_def]
        as [unfolded One_nat_def])
  ultimately show ?thesis
    using course_percent_bounds [OF rtranclp.rtrancl_refl inv _ course p] by (auto simp: s_def)
qed

definition sample_queued_mark :: sync_input where
  "sample_queued_mark =
     \<lparr>in_client_op_id = ''m1'', in_entity = ''examinations.mark'', in_action = ''create'',
      in_payload = [(''registration_id'', VInt 1), (''assessment_id'', VInt 1), (''score'', VStr ''50.00'')],
      in_client_timestamp = None, in_device_id = []\<rparr>"

lemma queued_mark_never_overwrites_witness:
  "mark_apply sample_ctx sample_queued_mark sample_user (sample_exam_db [(1, sample_assessment)] [(1, sample_mark_row)]) =
     Inl (SyncConflictDetected ''score'' (VDec 40) (VStr ''50.00'') (Some 7) (Some (''examinations.mark'', 1)))"
proof -
  let ?s = "sample_exam_db [(1, sample_assessment)] [(1, sample_mark_row)]"
  have fields: "payload_get (in_payload sample_queued_mark) ''registration_id'' = VInt 1"
    "payload_get (in_payload sample_queued_mark) ''assessment_id'' = VInt 1"
    "payload_get (in_payload sample_queued_mark) ''score'' = VStr ''50.00''"
    by (simp_all add: payload_get_def sample_queued_mark_def)
  have "\<not> list_ex (payload_missing (in_payload sample_queued_mark)) MARK_REQUIRED_FIELDS"
    by (simp add: MARK_REQUIRED_FIELDS_def payload_missing_def fields)
  moreover have read: "parse_decimal ''50.00'' = Some (Finite 50)" "written_decimal ''50.00'' = (False, 5000, - 2)"
    by (simp_all add: parse_decimal_def written_decimal_def strip_def is_space_def lower_char_def decimal_exponent_def
        non_finite_word_def digits_value_def is_digit_def power_int_minus)
  then have "payload_decimal (VStr ''50.00'') = Inr (Finite 50)" by (simp add: payload_decimal_def)
  moreover have digits: "char_of (53 :: nat) = CHR ''5''" "char_of (48 :: nat) = CHR ''0''" by code_simp+
  then have "str_nat 5000 = ''5000''"
    using digits by (simp add: str_nat_large str_nat_small digit_char_def)
  then have "decimal_text (False, 5000, - 2) = ''50.00''" by (simp add: decimal_text_def Let_def)
  then have "decimal_shown (VStr ''50.00'') = ''50.00''" by (simp add: decimal_shown_def read)
  moreover have "get_row (marks ?s) 1 = Some sample_mark_row" by (simp add: get_row_singleton)
  moreover have "is_mark_of 1 1 1 sample_mark_row" "mark_score sample_mark_row = 40" "mark_updated_at sample_mark_row = 7"
    by (simp_all add: is_mark_of_def sample_mark_row_def)
  ultimately show ?thesis
    using queued_mark_never_overwrites [OF rtranclp.rtrancl_refl sample_exam_inv(1), where c = sample_ctx and
      op = sample_queued_mark and u = sample_user, THEN conjunct2, rule_format, of 1 1 50 1 sample_mark_row] by (simp add: fields)
qed

end
