(* ===== verification/Library.thy ===== *)
theory Library
  imports Exam_Results
begin

text \<open>
  The library: the catalogue, loans and fines, and the sync handler of checkouts
  (\<open>library/models.py\<close>, \<open>library/services.py\<close>, \<open>library/sync.py\<close>).
\<close>

section \<open>Models\<close>

datatype item_type = Item_Book | Item_Journal | Item_Ebook | Item_Thesis | Item_Other

record library_item =
  li_title :: string
  li_author :: string
  li_isbn :: string
  li_item_type :: item_type
  li_is_electronic :: bool
  li_resource_url :: string
  li_total_copies :: nat
  li_is_active :: bool
  li_deleted_at :: "int option"

datatype loan_status = Loan_Active | Loan_Returned | Loan_Lost

fun loan_status_text :: "loan_status \<Rightarrow> string" where
  "loan_status_text Loan_Active = ''active''"
| "loan_status_text Loan_Returned = ''returned''"
| "loan_status_text Loan_Lost = ''lost''"

record loan =
  ln_item :: nat
  ln_borrower_student :: "nat option"
  ln_borrower_staff :: "nat option"
  ln_due_date :: int
  ln_returned_at :: "int option"
  ln_status :: loan_status
  ln_fine_amount :: rat
  ln_currency :: string
  ln_fine_waived :: bool
  ln_waived_by :: "nat option"
  ln_waived_reason :: string

record library_policy =
  lp_loan_period_days :: nat
  lp_daily_fine_rate :: rat
  lp_currency :: string

record library_db = exam_db +
  library_items :: "library_item table"
  loans :: "loan table"
  library_policies :: "library_policy table"

abbreviation put_items :: "library_item table \<Rightarrow> 'a library_db_scheme \<Rightarrow> 'a library_db_scheme" where
  "put_items t s \<equiv> s\<lparr>library_items := t\<rparr>"

abbreviation put_loans :: "loan table \<Rightarrow> 'a library_db_scheme \<Rightarrow> 'a library_db_scheme" where
  "put_loans t s \<equiv> s\<lparr>loans := t\<rparr>"

definition item_meta :: model_meta where
  "item_meta = \<lparr>mm_label = ''library.libraryitem'', mm_verbose = ''library item'', mm_sensitive = False\<rparr>"

definition item_audit :: "library_item \<Rightarrow> (string \<times> pyval) list" where
  "item_audit i =
     [(''title'', VStr (li_title i)), (''total_copies'', VInt (int (li_total_copies i))),
      (''is_active'', VBool (li_is_active i)),
      (''deleted_at'', case li_deleted_at i of None \<Rightarrow> VNone | Some t \<Rightarrow> VInt t)]"

definition loan_meta :: model_meta where
  "loan_meta = \<lparr>mm_label = ''library.loan'', mm_verbose = ''loan'', mm_sensitive = True\<rparr>"

definition loan_audit :: "loan \<Rightarrow> (string \<times> pyval) list" where
  "loan_audit l =
     [(''status'', VStr (loan_status_text (ln_status l))), (''fine_amount'', VDec (ln_fine_amount l)),
      (''fine_waived'', VBool (ln_fine_waived l))]"

definition copies_on_loan :: "nat \<Rightarrow> loan table \<Rightarrow> nat" where
  "copies_on_loan item t = count_rows (\<lambda>_ l. ln_item l = item \<and> ln_status l = Loan_Active) t"

definition available_copies :: "nat \<Rightarrow> library_item \<Rightarrow> loan table \<Rightarrow> nat" where
  "available_copies k i t = li_total_copies i - copies_on_loan k t"

definition owed :: "loan \<Rightarrow> rat" where
  "owed l = (if ln_fine_waived l then 0 else ln_fine_amount l)"

text \<open>\<open>valid_url\<close> is Django's \<open>URLValidator\<close>.\<close>

definition library_item_clean :: "library_item \<Rightarrow> exn + unit" where
  "library_item_clean i = ensure (\<not> (li_is_electronic i \<and> li_resource_url i = [])) ValidationError"

definition item_full_clean :: "(string \<Rightarrow> bool) \<Rightarrow> library_item \<Rightarrow> exn + unit" where
  "item_full_clean valid_url i =
     bindE (ensure (li_title i \<noteq> [] \<and> length (li_title i) \<le> 300 \<and> length (li_author i) \<le> 200 \<and>
                    length (li_isbn i) \<le> 20 \<and> li_total_copies i \<le> 32767 \<and>
                    (li_resource_url i = [] \<or> length (li_resource_url i) \<le> 200 \<and> valid_url (li_resource_url i)))
              ValidationError) (\<lambda>_. library_item_clean i)"

text \<open>\<open>bool(pk)\<close> of an optional key: neither missing nor 0.\<close>

definition key_given :: "int option \<Rightarrow> bool" where
  "key_given x \<longleftrightarrow> x \<noteq> None \<and> x \<noteq> Some 0"

definition loan_clean :: "loan \<Rightarrow> exn + unit" where
  "loan_clean l =
     ensure (key_given (map_option int (ln_borrower_student l)) \<noteq> key_given (map_option int (ln_borrower_staff l)))
       ValidationError"

definition loan_full_clean :: "loan \<Rightarrow> 'a library_db_scheme \<Rightarrow> exn + unit" where
  "loan_full_clean l s =
     bindE (ensure (get_row (library_items s) (ln_item l) \<noteq> None \<and> opt_ref (ln_borrower_student l) (students s) \<and>
                    opt_ref (ln_borrower_staff l) (staff_profiles s) \<and> money_amount_field (ln_fine_amount l) \<and>
                    currency_field (ln_currency l)) ValidationError) (\<lambda>_. loan_clean l)"

section \<open>The catalogue\<close>

definition NoCopiesAvailable :: exn where "NoCopiesAvailable = DomainError ''no_copies_available'' 409"
definition ExactlyOneBorrowerRequired :: exn where
  "ExactlyOneBorrowerRequired = DomainError ''exactly_one_borrower_required'' 400"
definition loan_not_active :: exn where "loan_not_active = DomainError ''not_active'' 400"

definition create_library_item ::
  "(string \<Rightarrow> bool) \<Rightarrow> ctx \<Rightarrow> library_item \<Rightarrow> 'a library_db_scheme \<Rightarrow> exn + nat \<times> 'a library_db_scheme" where
  "create_library_item valid_url c i s =
     bindE (item_full_clean valid_url i) (\<lambda>_.
       insert_audited c item_meta item_audit library_items put_items i ''Catalogued'' s)"

text \<open>\<open>setattr\<close> for the fields that are given; the serializer does not write \<open>deleted_at\<close>.\<close>

record item_changes =
  ch_title :: "string option"
  ch_author :: "string option"
  ch_isbn :: "string option"
  ch_item_type :: "item_type option"
  ch_is_electronic :: "bool option"
  ch_resource_url :: "string option"
  ch_total_copies :: "nat option"
  ch_is_active :: "bool option"

definition changed_item :: "item_changes \<Rightarrow> library_item \<Rightarrow> library_item" where
  "changed_item ch i =
     i\<lparr>li_title := or_keep (ch_title ch) (li_title i), li_author := or_keep (ch_author ch) (li_author i),
       li_isbn := or_keep (ch_isbn ch) (li_isbn i), li_item_type := or_keep (ch_item_type ch) (li_item_type i),
       li_is_electronic := or_keep (ch_is_electronic ch) (li_is_electronic i),
       li_resource_url := or_keep (ch_resource_url ch) (li_resource_url i),
       li_total_copies := or_keep (ch_total_copies ch) (li_total_copies i),
       li_is_active := or_keep (ch_is_active ch) (li_is_active i)\<rparr>"

definition update_library_item ::
  "(string \<Rightarrow> bool) \<Rightarrow> ctx \<Rightarrow> nat \<Rightarrow> item_changes \<Rightarrow> 'a library_db_scheme \<Rightarrow> exn + 'a library_db_scheme" where
  "update_library_item valid_url c k ch s =
     (case get_row (library_items s) k of
        None \<Rightarrow> Inl DoesNotExist
      | Some i \<Rightarrow>
          if li_deleted_at i \<noteq> None then Inl DoesNotExist
          else bindE (item_full_clean valid_url (changed_item ch i)) (\<lambda>_.
                 update_audited c item_meta item_audit library_items put_items k i (changed_item ch i)
                   ''Catalogue entry updated'' s))"

section \<open>Loans and fines\<close>

definition DEFAULT_LOAN_PERIOD_DAYS :: nat where "DEFAULT_LOAN_PERIOD_DAYS = 14"

definition library_policy_defaults :: "ctx \<Rightarrow> 'a library_db_scheme \<Rightarrow> nat \<times> rat \<times> string" where
  "library_policy_defaults c s =
     (case first_row (\<lambda>_ _. True) (library_policies s) of
        None \<Rightarrow> (DEFAULT_LOAN_PERIOD_DAYS, 0, base_currency c s)
      | Some (_, p) \<Rightarrow> (lp_loan_period_days p, lp_daily_fine_rate p, lp_currency p))"

text \<open>
  \<open>LibraryItem.objects\<close> hides deleted items. The keys of the borrowers are the integers the
  caller passes; one that is 0 does not count as given, and one that is not positive names no row.
\<close>

definition checkout_item ::
  "ctx \<Rightarrow> int \<Rightarrow> int option \<Rightarrow> int option \<Rightarrow> int option \<Rightarrow> 'a library_db_scheme \<Rightarrow> exn + nat \<times> 'a library_db_scheme" where
  "checkout_item c item_id student staff due s =
     (if key_given student = key_given staff then Inl ExactlyOneBorrowerRequired
      else if item_id \<le> 0 then Inl DoesNotExist
      else case get_row (library_items s) (nat item_id) of
          None \<Rightarrow> Inl DoesNotExist
        | Some i \<Rightarrow>
            if li_deleted_at i \<noteq> None then Inl DoesNotExist
            else if available_copies (nat item_id) i (loans s) = 0 then Inl NoCopiesAvailable
            else if (\<exists>x \<in> set_option student \<union> set_option staff. x \<le> 0) then Inl ValidationError
            else let (period, rate, currency) = library_policy_defaults c s;
                     l = \<lparr>ln_item = nat item_id, ln_borrower_student = map_option nat student,
                          ln_borrower_staff = map_option nat staff, ln_due_date = or_keep due (today c + int period),
                          ln_returned_at = None, ln_status = Loan_Active, ln_fine_amount = 0, ln_currency = currency,
                          ln_fine_waived = False, ln_waived_by = None, ln_waived_reason = []\<rparr>
                 in bindE (loan_full_clean l s) (\<lambda>_.
                      insert_audited c loan_meta loan_audit loans put_loans l ''Item checked out'' s))"

text \<open>The UTC date of a moment, counted in seconds from 1 January 1970.\<close>

definition utc_date :: "int \<Rightarrow> int" where
  "utc_date t = t div 86400 + 719163"

definition with_loan :: "nat \<Rightarrow> (loan \<Rightarrow> exn + 'a library_db_scheme) \<Rightarrow> 'a library_db_scheme \<Rightarrow> exn + 'a library_db_scheme" where
  "with_loan k f s = (case get_row (loans s) k of None \<Rightarrow> Inl DoesNotExist | Some l \<Rightarrow> f l)"

definition save_loan :: "ctx \<Rightarrow> nat \<Rightarrow> loan \<Rightarrow> loan \<Rightarrow> string \<Rightarrow> 'a library_db_scheme \<Rightarrow> exn + 'a library_db_scheme" where
  "save_loan c k old l reason s =
     bindE (loan_full_clean l s) (\<lambda>_. update_audited c loan_meta loan_audit loans put_loans k old l reason s)"

definition days_overdue :: "int \<Rightarrow> loan \<Rightarrow> nat" where
  "days_overdue moment l = nat (utc_date moment - ln_due_date l)"

definition return_item :: "ctx \<Rightarrow> nat \<Rightarrow> int option \<Rightarrow> 'a library_db_scheme \<Rightarrow> exn + 'a library_db_scheme" where
  "return_item c k returned_at s =
     with_loan k (\<lambda>l.
       if ln_status l \<noteq> Loan_Active then Inl loan_not_active
       else let moment = or_keep returned_at (now c); days = days_overdue moment l;
                (period, rate, currency) = library_policy_defaults c s;
                fine = dec_mul rate (of_nat days)
            in save_loan c k l (l\<lparr>ln_status := Loan_Returned, ln_returned_at := Some moment, ln_fine_amount := fine\<rparr>)
                 (if days \<noteq> 0 then ''Returned '' @ str_nat days @ '' day(s) late; fine '' @ str_decimal fine
                  else ''Returned on time'') s) s"

definition mark_lost :: "ctx \<Rightarrow> nat \<Rightarrow> 'a library_db_scheme \<Rightarrow> exn + 'a library_db_scheme" where
  "mark_lost c k s =
     with_loan k (\<lambda>l.
       if ln_status l \<noteq> Loan_Active then Inl loan_not_active
       else save_loan c k l (l\<lparr>ln_status := Loan_Lost\<rparr>) ''Reported lost'' s) s"

definition waive_fine :: "ctx \<Rightarrow> nat \<Rightarrow> user option \<Rightarrow> string \<Rightarrow> 'a library_db_scheme \<Rightarrow> exn + 'a library_db_scheme" where
  "waive_fine c k actor reason s =
     with_loan k (\<lambda>l.
       if \<not> nonblank reason then Inl ReasonRequired
       else save_loan c k l (l\<lparr>ln_fine_waived := True, ln_waived_by := actor_fk actor, ln_waived_reason := reason\<rparr>)
              (''Fine waived: '' @ reason) s) s"

definition outstanding_fines_for_student :: "nat \<Rightarrow> 'a library_db_scheme \<Rightarrow> rat" where
  "outstanding_fines_for_student student s =
     sum_rows (\<lambda>_ l. ln_borrower_student l = Some student \<and> \<not> ln_fine_waived l) owed (loans s)"

section \<open>The sync handler\<close>

definition LOAN_REQUIRED_FIELDS :: "string list" where
  "LOAN_REQUIRED_FIELDS = [''item_id'']"

definition payload_key :: "pyval \<Rightarrow> exn + int option" where
  "payload_key v = (if falsy v then Inr None else bindE (py_int v) (\<lambda>i. Inr (Some i)))"

definition loan_apply ::
  "ctx \<Rightarrow> sync_input \<Rightarrow> user \<Rightarrow> 'a library_db_scheme \<Rightarrow> exn + sync_result \<times> 'a library_db_scheme" where
  "loan_apply c op actor s =
     (let p = in_payload op in
      if list_ex (payload_missing p) LOAN_REQUIRED_FIELDS then Inl ValidationError
      else
        bindE (py_int (payload_get p ''item_id'')) (\<lambda>item.
        bindE (payload_key (payload_get p ''borrower_student_id'')) (\<lambda>student.
        bindE (payload_key (payload_get p ''borrower_staff_id'')) (\<lambda>staff.
        bindE (checkout_item c item student staff None s) (\<lambda>(k, s').
        case get_row (loans s') k of
          None \<Rightarrow> Inl UnexpectedError
        | Some l \<Rightarrow>
            Inr (\<lparr>sr_fields = [(''id'', VInt (int k)), (''due_date'', VStr (iso_date (ln_due_date l)))],
                  sr_overwrote = [], sr_target = Some (loan_meta, k)\<rparr>, s'))))))"

definition LoanCheckoutHandler :: "ctx \<Rightarrow> 'a library_db_scheme sync_handler" where
  "LoanCheckoutHandler c =
     \<lparr>sh_entity = ''library.loan'', sh_actions = [''create''], sh_policy = LastWriteWins,
      sh_required_permission = ''library.add_loan'', sh_apply = loan_apply c\<rparr>"

section \<open>What the operations write\<close>

fun loan_transitions :: "loan_status \<Rightarrow> loan_status list" where
  "loan_transitions Loan_Active = [Loan_Returned, Loan_Lost]"
| "loan_transitions _ = []"

text \<open>A closed loan keeps everything but the waiver of its fine.\<close>

definition loan_moves :: "loan option \<Rightarrow> loan \<Rightarrow> bool" where
  "loan_moves old l \<longleftrightarrow>
     (case old of
        None \<Rightarrow> ln_status l = Loan_Active \<and> ln_fine_amount l = 0 \<and> \<not> ln_fine_waived l
      | Some q \<Rightarrow> ln_item l = ln_item q \<and> ln_borrower_student l = ln_borrower_student q \<and>
          ln_borrower_staff l = ln_borrower_staff q \<and> ln_due_date l = ln_due_date q \<and> ln_currency l = ln_currency q \<and>
          (ln_fine_waived q \<longrightarrow> ln_fine_waived l) \<and>
          (ln_status l = ln_status q \<and> ln_fine_amount l = ln_fine_amount q \<and> ln_returned_at l = ln_returned_at q \<or>
           ln_status l \<in> set (loan_transitions (ln_status q))))"

definition one_borrower :: "loan \<Rightarrow> bool" where
  "one_borrower l \<longleftrightarrow> (ln_borrower_student l = None) \<noteq> (ln_borrower_staff l = None)"

inductive library_effect :: "'a library_db_scheme \<Rightarrow> 'a library_db_scheme \<Rightarrow> bool" where
  Item: "wrote k i (library_items s) t \<Longrightarrow> library_effect s (s\<lparr>library_items := t, audit_log := tr\<rparr>)"
| Loan: "wrote k l (loans s) t \<Longrightarrow> loan_moves (get_row (loans s) k) l \<Longrightarrow>
    library_effect s (s\<lparr>loans := t, audit_log := tr\<rparr>)"
| Other: "library_items s' = library_items s \<Longrightarrow> loans s' = loans s \<Longrightarrow> library_policies s' = library_policies s \<Longrightarrow>
    library_db.more s' = library_db.more s \<Longrightarrow> library_effect s s'"

lemma create_library_item_effect: "create_library_item valid_url c i s = Inr (k, s') \<Longrightarrow> library_effect s s'"
  unfolding create_library_item_def by (elim bindE_InrE insert_audited_wrote) (simp add: library_effect.Item)

lemma update_library_item_effect: "update_library_item valid_url c k ch s = Inr s' \<Longrightarrow> library_effect s s'"
  unfolding update_library_item_def
  by (auto split: option.splits if_splits elim!: bindE_InrE update_audited_wrote intro: library_effect.Item)

lemma checkout_item_Inr:
  assumes "checkout_item c item_id student staff due s = Inr (k, s')"
  obtains i l tr where "0 < item_id" and "get_row (library_items s) (nat item_id) = Some i" and "li_deleted_at i = None"
    and "copies_on_loan (nat item_id) (loans s) < li_total_copies i" and "key_given student \<noteq> key_given staff"
    and "l = \<lparr>ln_item = nat item_id, ln_borrower_student = map_option nat student, ln_borrower_staff = map_option nat staff,
      ln_due_date = or_keep due (today c + int (fst (library_policy_defaults c s))), ln_returned_at = None,
      ln_status = Loan_Active, ln_fine_amount = 0, ln_currency = snd (snd (library_policy_defaults c s)),
      ln_fine_waived = False, ln_waived_by = None, ln_waived_reason = []\<rparr>"
    and "one_borrower l" and "opt_ref (ln_borrower_student l) (students s)" and "opt_ref (ln_borrower_staff l) (staff_profiles s)"
    and "k = fresh_pk (loans s)" and "s' = s\<lparr>loans := add_row l (loans s), audit_log := tr\<rparr>"
proof -
  define l where "l = \<lparr>ln_item = nat item_id, ln_borrower_student = map_option nat student,
      ln_borrower_staff = map_option nat staff, ln_due_date = or_keep due (today c + int (fst (library_policy_defaults c s))),
      ln_returned_at = None, ln_status = Loan_Active, ln_fine_amount = 0,
      ln_currency = snd (snd (library_policy_defaults c s)), ln_fine_waived = False, ln_waived_by = None, ln_waived_reason = []\<rparr>"
  from assms obtain i where item: "0 < item_id" "get_row (library_items s) (nat item_id) = Some i" "li_deleted_at i = None"
    and free: "available_copies (nat item_id) i (loans s) \<noteq> 0" and one: "key_given student \<noteq> key_given staff"
    and pos: "\<forall>x \<in> set_option student \<union> set_option staff. 0 < x" and clean: "loan_full_clean l s = Inr ()"
    and ins: "insert_audited c loan_meta loan_audit loans put_loans l ''Item checked out'' s = Inr (k, s')"
    unfolding checkout_item_def Let_def l_def
    by (auto split: if_splits option.splits simp: case_prod_unfold not_le elim!: bindE_InrE)
  have "one_borrower l" using one pos by (cases student; cases staff) (auto simp: one_borrower_def l_def key_given_def)
  moreover have "opt_ref (ln_borrower_student l) (students s)" "opt_ref (ln_borrower_staff l) (staff_profiles s)"
    using clean by (auto simp: loan_full_clean_def ensure_eq_Inr elim!: bindE_InrE)
  moreover have "copies_on_loan (nat item_id) (loans s) < li_total_copies i" using free by (simp add: available_copies_def)
  ultimately show thesis using that [OF item(1-3) _ one l_def] ins by (elim insert_audited_Inr) auto
qed

lemma save_loan_effect:
  assumes "with_loan k f s = Inr s'"
    and "\<And>q. f q = Inr s' \<Longrightarrow> \<exists>l reason. save_loan c k q l reason s = Inr s' \<and> loan_moves (Some q) l"
  shows "library_effect s s'"
proof -
  from assms(1) obtain q where q: "get_row (loans s) k = Some q" and f: "f q = Inr s'"
    by (auto simp: with_loan_def split: option.splits)
  from assms(2) [OF f] obtain l reason where save: "save_loan c k q l reason s = Inr s'" and l: "loan_moves (Some q) l" by blast
  from save have "update_audited c loan_meta loan_audit loans put_loans k q l reason s = Inr s'"
    unfolding save_loan_def by (auto elim!: bindE_InrE)
  from this q obtain t tr where "s' = s\<lparr>loans := t, audit_log := tr\<rparr>" and "wrote k l (loans s) t"
    by (rule update_audited_wrote)
  with l q show ?thesis by (simp add: library_effect.Loan)
qed

lemma return_item_effect: "return_item c k returned_at s = Inr s' \<Longrightarrow> library_effect s s'"
  unfolding return_item_def Let_def
  by (erule save_loan_effect [where c = c]) (auto split: if_splits simp: loan_moves_def case_prod_unfold)

lemma mark_lost_effect: "mark_lost c k s = Inr s' \<Longrightarrow> library_effect s s'"
  unfolding mark_lost_def by (erule save_loan_effect [where c = c]) (auto split: if_splits simp: loan_moves_def)

lemma waive_fine_effect: "waive_fine c k actor reason s = Inr s' \<Longrightarrow> library_effect s s'"
  unfolding waive_fine_def by (erule save_loan_effect [where c = c]) (auto split: if_splits simp: loan_moves_def)

lemma checkout_effect: "checkout_item c item_id student staff due s = Inr (k, s') \<Longrightarrow> library_effect s s'"
proof (erule checkout_item_Inr)
  fix i l tr
  assume "s' = s\<lparr>loans := add_row l (loans s), audit_log := tr\<rparr>" and "l = \<lparr>ln_item = nat item_id,
      ln_borrower_student = map_option nat student, ln_borrower_staff = map_option nat staff,
      ln_due_date = or_keep due (today c + int (fst (library_policy_defaults c s))), ln_returned_at = None,
      ln_status = Loan_Active, ln_fine_amount = 0, ln_currency = snd (snd (library_policy_defaults c s)),
      ln_fine_waived = False, ln_waived_by = None, ln_waived_reason = []\<rparr>"
  then show ?thesis using library_effect.Loan [OF wrote_add, of s l tr] by (simp add: loan_moves_def)
qed

section \<open>Reachable states\<close>

inductive library_step :: "'a library_db_scheme \<Rightarrow> 'a library_db_scheme \<Rightarrow> bool" where
  NewItem: "create_library_item valid_url c i s = Inr (k, s') \<Longrightarrow> library_step s s'"
| EditItem: "update_library_item valid_url c k ch s = Inr s' \<Longrightarrow> library_step s s'"
| Checkout: "checkout_item c item_id student staff due s = Inr (k, s') \<Longrightarrow> library_step s s'"
| Return: "return_item c k returned_at s = Inr s' \<Longrightarrow> library_step s s'"
| Lost: "mark_lost c k s = Inr s' \<Longrightarrow> library_step s s'"
| Waive: "waive_fine c k actor reason s = Inr s' \<Longrightarrow> library_step s s'"
| Exam: "exam_step s s' \<Longrightarrow> library_step s s'"

lemma exam_step_more: "exam_step s s' \<Longrightarrow> exam_db.more s' = exam_db.more s"
proof (induction rule: exam_step.induct)
  case (Attendance s s')
  then have "attendance_db.more s' = attendance_db.more s" by (rule attendance_step_more)
  then show ?case by (cases s; cases s') simp
next
  case (Record c g k score actor s j s')
  then show ?case unfolding record_mark_def Let_def save_mark_def
    by (auto split: option.splits elim!: bindE_InrE insert_audited_Inr update_audited_Inr)
next
  case (Submit c semester programme s k s')
  then show ?case unfolding submit_for_approval_def Let_def save_approval_def
    by (auto split: option.splits if_splits elim!: bindE_InrE insert_audited_Inr update_audited_Inr)
qed (auto simp: create_assessment_def update_assessment_def moderate_mark_def flag_irregularity_def clear_irregularity_def
  with_mark_def save_mark_def approve_results_def reject_results_def publish_results_def with_approval_def
  save_approval_def submit_appeal_def decide_appeal_def Let_def split: option.splits if_splits
  elim!: bindE_InrE insert_audited_Inr update_audited_Inr)

lemma exam_library_effect:
  assumes "exam_step s s'"
  shows "library_effect s s'"
proof -
  from assms have "exam_db.more s' = exam_db.more s" by (rule exam_step_more)
  then have "library_items s' = library_items s \<and> loans s' = loans s \<and> library_policies s' = library_policies s \<and>
      library_db.more s' = library_db.more s" by (cases s; cases s') simp
  then show ?thesis by (simp add: library_effect.Other)
qed

lemma library_step_effect: "library_step s s' \<Longrightarrow> library_effect s s'"
  by (induction rule: library_step.induct)
    (auto intro: create_library_item_effect update_library_item_effect checkout_effect return_item_effect
      mark_lost_effect waive_fine_effect exam_library_effect)

definition loan_status_of :: "'a library_db_scheme \<Rightarrow> nat \<Rightarrow> loan_status option" where
  "loan_status_of s k = map_option ln_status (get_row (loans s) k)"

fun loan_rank :: "loan_status \<Rightarrow> nat" where
  "loan_rank Loan_Active = 0"
| "loan_rank _ = 1"

interpretation loan_machine: forward_status_machine loan_status_of loan_transitions library_effect loan_rank
proof
  fix s s' :: "'a library_db_scheme" and k x
  assume "library_effect s s'" and "loan_status_of s k = Some x"
  then show "\<exists>y. loan_status_of s' k = Some y \<and> (y = x \<or> y \<in> set (loan_transitions x))"
    by (induction rule: library_effect.induct) (auto simp: loan_status_of_def get_row_wrote loan_moves_def)
next
  fix x y assume "y \<in> set (loan_transitions x)"
  then show "loan_rank x < loan_rank y" by (cases x) auto
qed

section \<open>Properties\<close>

lemma count_rows_add: "count_rows P (add_row r t) = count_rows P t + (if P (fresh_pk t) r then 1 else 0)"
  by (simp add: count_rows_eq_sum sum_rows_add_row)

text \<open>
  C38. Nothing is lent that is not there. A checkout succeeds only for an item of the catalogue that
  is not deleted; the copies of the item on loan, the new loan included, are at most its
  copies, the loan has exactly one borrower, who exists, and it starts without a fine.
\<close>

theorem checkout_within_copies:
  "case checkout_item c item_id student staff due s of
     Inl e \<Rightarrow> True
   | Inr (k, s') \<Rightarrow> \<exists>i l. get_row (library_items s) (nat item_id) = Some i \<and> li_deleted_at i = None \<and>
       loans s' = add_row l (loans s) \<and> ln_item l = nat item_id \<and> ln_status l = Loan_Active \<and>
       copies_on_loan (nat item_id) (loans s') \<le> li_total_copies i \<and> one_borrower l \<and>
       opt_ref (ln_borrower_student l) (students s) \<and> opt_ref (ln_borrower_staff l) (staff_profiles s) \<and> owed l = 0"
proof (cases "checkout_item c item_id student staff due s")
  case (Inr x)
  obtain k s' where x: "x = (k, s')" by (cases x)
  from Inr [unfolded x] obtain i l tr where i: "get_row (library_items s) (nat item_id) = Some i" "li_deleted_at i = None"
    and free: "copies_on_loan (nat item_id) (loans s) < li_total_copies i" and one: "one_borrower l"
    and refs: "opt_ref (ln_borrower_student l) (students s)" "opt_ref (ln_borrower_staff l) (staff_profiles s)"
    and row: "ln_item l = nat item_id" "ln_status l = Loan_Active" "owed l = 0"
    and s': "s' = s\<lparr>loans := add_row l (loans s), audit_log := tr\<rparr>"
    by (rule checkout_item_Inr) (simp add: owed_def)
  have "copies_on_loan (nat item_id) (loans s') \<le> li_total_copies i"
    using free row by (simp add: s' copies_on_loan_def count_rows_add)
  then show ?thesis unfolding Inr x sum.case prod.case
    by (intro exI [of _ i] exI [of _ l] conjI) (use i one refs row in \<open>simp_all add: s'\<close>)
qed simp

lemma loan_kept:
  assumes "library_effect s s'" and "get_row (loans s) k = Some l"
  shows "\<exists>l'. get_row (loans s') k = Some l' \<and> loan_moves (Some l) l'"
  using assms
proof (induction rule: library_effect.induct)
  case (Loan j l' s t tr)
  then show ?case by (cases "j = k") (auto simp: get_row_wrote loan_moves_def)
qed (auto simp: loan_moves_def)

text \<open>
  A loan is closed once. Whatever happens later, a loan keeps its item, its borrower and its due
  date; once it was returned or reported lost its status, the time of return and the fine
  never change again, and a fine that was waived stays waived.
\<close>

theorem closed_loan_final:
  assumes "library_step\<^sup>*\<^sup>* s s'" and "get_row (loans s) k = Some l"
  shows "\<exists>l'. get_row (loans s') k = Some l' \<and> ln_item l' = ln_item l \<and> ln_borrower_student l' = ln_borrower_student l \<and>
    ln_borrower_staff l' = ln_borrower_staff l \<and> ln_due_date l' = ln_due_date l \<and>
    (ln_status l \<noteq> Loan_Active \<longrightarrow> ln_status l' = ln_status l \<and> ln_returned_at l' = ln_returned_at l \<and>
       ln_fine_amount l' = ln_fine_amount l) \<and> (ln_fine_waived l \<longrightarrow> ln_fine_waived l')"
  using assms(1)
proof (induction rule: rtranclp_induct)
  case base
  with assms(2) show ?case by blast
next
  case (step s1 s2)
  then obtain l1 where l1: "get_row (loans s1) k = Some l1" "ln_item l1 = ln_item l"
    "ln_borrower_student l1 = ln_borrower_student l" "ln_borrower_staff l1 = ln_borrower_staff l"
    "ln_due_date l1 = ln_due_date l" "ln_fine_waived l \<longrightarrow> ln_fine_waived l1"
    "ln_status l \<noteq> Loan_Active \<longrightarrow> ln_status l1 = ln_status l \<and> ln_returned_at l1 = ln_returned_at l \<and>
       ln_fine_amount l1 = ln_fine_amount l" by blast
  from loan_kept [OF library_step_effect [OF step.hyps(2)] l1(1)] obtain l2 where
    l2: "get_row (loans s2) k = Some l2" and moves: "loan_moves (Some l1) l2" by blast
  have "loan_transitions (ln_status l1) = []" if "ln_status l1 \<noteq> Loan_Active" using that by (cases "ln_status l1") simp_all
  with l1 l2 moves show ?case by (intro exI [of _ l2]) (auto simp: loan_moves_def)
qed

lemma return_item_Inr:
  assumes "return_item c k returned_at s = Inr s'"
  obtains l l' t tr where "get_row (loans s) k = Some l" and "ln_status l = Loan_Active"
    and "l' = l\<lparr>ln_status := Loan_Returned, ln_returned_at := Some (or_keep returned_at (now c)),
      ln_fine_amount := dec_mul (fst (snd (library_policy_defaults c s))) (of_nat (days_overdue (or_keep returned_at (now c)) l))\<rparr>"
    and "s' = s\<lparr>loans := t, audit_log := tr\<rparr>" and "wrote k l' (loans s) t"
proof -
  from assms obtain l where l: "get_row (loans s) k = Some l" "ln_status l = Loan_Active"
    by (auto simp: return_item_def with_loan_def split: option.splits if_splits)
  define l' where "l' = l\<lparr>ln_status := Loan_Returned, ln_returned_at := Some (or_keep returned_at (now c)),
      ln_fine_amount := dec_mul (fst (snd (library_policy_defaults c s))) (of_nat (days_overdue (or_keep returned_at (now c)) l))\<rparr>"
  from assms l obtain reason where "save_loan c k l l' reason s = Inr s'"
    unfolding l'_def by (auto simp: return_item_def with_loan_def Let_def case_prod_unfold)
  then have "update_audited c loan_meta loan_audit loans put_loans k l l' reason s = Inr s'"
    unfolding save_loan_def by (auto elim!: bindE_InrE)
  from this l(1) show thesis by (rule update_audited_wrote) (rule that [OF l l'_def])
qed

text \<open>
  The fine is the rate times the days, exactly. A return succeeds only for an active loan; the
  loan is then returned, and the decimal product of the daily rate and the days between the
  due date and the day of return is the exact one, 0 when it is not late.
\<close>

theorem fine_exact:
  assumes "return_item c k returned_at s = Inr s'"
    and "money_amount_field (fst (snd (library_policy_defaults c s)))"
    and "utc_date (or_keep returned_at (now c)) < ln_due_date (the (get_row (loans s) k)) + 10 ^ 9"
  shows "\<exists>l l'. get_row (loans s) k = Some l \<and> ln_status l = Loan_Active \<and> get_row (loans s') k = Some l' \<and>
    ln_status l' = Loan_Returned \<and> ln_returned_at l' = Some (or_keep returned_at (now c)) \<and>
    ln_fine_amount l' = fst (snd (library_policy_defaults c s)) *
      of_int (max 0 (utc_date (or_keep returned_at (now c)) - ln_due_date l))"
proof -
  let ?rate = "fst (snd (library_policy_defaults c s))" and ?m = "or_keep returned_at (now c)"
  from assms(1) obtain l l' t tr where l: "get_row (loans s) k = Some l" "ln_status l = Loan_Active"
    and l': "l' = l\<lparr>ln_status := Loan_Returned, ln_returned_at := Some ?m,
      ln_fine_amount := dec_mul ?rate (of_nat (days_overdue ?m l))\<rparr>"
    and s': "s' = s\<lparr>loans := t, audit_log := tr\<rparr>" and w: "wrote k l' (loans s) t"
    by (rule return_item_Inr)
  let ?d = "days_overdue ?m l"
  have days: "?d < 10 ^ 9" using assms(3) l(1) by (simp add: days_overdue_def nat_less_iff)
  from assms(2) have rate: "?rate * 100 \<in> \<int>" "\<bar>?rate\<bar> < 10 ^ 16"
    by (simp_all add: money_amount_field_def two_places_def MONEY_MAX_DIGITS_def)
  have "dec_ctx (?rate * of_nat ?d) = ?rate * of_nat ?d"
  proof (rule dec_ctx_exact)
    have "?rate * 100 * of_nat ?d \<in> \<int>" using rate(1) by (rule Ints_mult) simp
    then show "?rate * of_nat ?d * 10 ^ 2 \<in> \<int>" by (simp add: mult.commute mult.left_commute)
    have "(of_nat ?d :: rat) \<le> 10 ^ 9" using days by (metis less_imp_le of_nat_le_iff of_nat_numeral of_nat_power)
    then have "\<bar>?rate\<bar> * of_nat ?d \<le> 10 ^ 16 * 10 ^ 9" using rate(2) by (intro mult_mono) simp_all
    then show "\<bar>?rate * of_nat ?d * 10 ^ 2\<bar> < 10 ^ 28" by (simp add: abs_mult)
  qed
  moreover have "(of_nat ?d :: rat) = of_int (max 0 (utc_date ?m - ln_due_date l))"
    by (simp add: days_overdue_def max_def)
  ultimately have "ln_fine_amount l' = ?rate * of_int (max 0 (utc_date ?m - ln_due_date l))"
    by (simp add: l' dec_mul_def)
  moreover have "get_row (loans s') k = Some l'" using w by (simp add: s' get_row_wrote)
  ultimately show ?thesis using l by (intro exI [of _ l] exI [of _ l'] conjI) (simp_all add: l')
qed

section \<open>What the rules miss\<close>

lemma put_row_same: "wf_table t \<Longrightarrow> get_row t k = Some r \<Longrightarrow> put_row k r t = t"
  by (auto simp: put_row_def wf_table_def get_row_def intro!: map_idI dest: eq_key_imp_eq_value)

text \<open>A lost copy is no longer on loan, so it can be lent again.\<close>

lemma lost_copy_counts_as_available:
  assumes "mark_lost c k s = Inr s'" and "wf_table (loans s)" and "get_row (loans s) k = Some l"
  shows "copies_on_loan (ln_item l) (loans s) = copies_on_loan (ln_item l) (loans s') + 1"
proof -
  from assms(1,3) have active: "ln_status l = Loan_Active"
    and save: "update_audited c loan_meta loan_audit loans put_loans k l (l\<lparr>ln_status := Loan_Lost\<rparr>) ''Reported lost'' s = Inr s'"
    by (auto simp: mark_lost_def with_loan_def save_loan_def split: if_splits elim!: bindE_InrE)
  from save obtain tr where s': "s' = s\<lparr>loans := put_row k (l\<lparr>ln_status := Loan_Lost\<rparr>) (loans s), audit_log := tr\<rparr>"
    by (rule update_audited_Inr)
  note split = sum_rows_put_row_split [OF assms(2,3), of "\<lambda>_ l'. ln_item l' = ln_item l \<and> ln_status l' = Loan_Active" "\<lambda>_. 1 :: nat"]
  show ?thesis using split [of "l\<lparr>ln_status := Loan_Lost\<rparr>"] split [of l] active
    by (simp add: s' copies_on_loan_def count_rows_eq_sum put_row_same [OF assms(2,3)])
qed

text \<open>A fine can be waived before there is one: the loan is then never fined.\<close>

lemma waived_in_advance:
  assumes "return_item c k returned_at s = Inr s'" and "get_row (loans s) k = Some l" and "ln_fine_waived l"
  shows "\<exists>l'. get_row (loans s') k = Some l' \<and> owed l' = 0"
  using assms(1)
proof (rule return_item_Inr)
  fix l0 l' t tr
  assume "get_row (loans s) k = Some l0" and "l' = l0\<lparr>ln_status := Loan_Returned, ln_returned_at := Some (or_keep returned_at (now c)),
      ln_fine_amount := dec_mul (fst (snd (library_policy_defaults c s))) (of_nat (days_overdue (or_keep returned_at (now c)) l0))\<rparr>"
    and "s' = s\<lparr>loans := t, audit_log := tr\<rparr>" and "wrote k l' (loans s) t"
  with assms(2,3) show ?thesis by (simp add: get_row_wrote owed_def)
qed

section \<open>Checkouts that were queued offline\<close>

lemma loan_apply_step: "loan_apply c op actor s = Inr (r, s') \<Longrightarrow> library_step s s'"
  unfolding loan_apply_def Let_def
  by (auto split: if_splits option.splits elim!: bindE_InrE bindE_pairE intro: library_step.Checkout)

lemma loan_apply_ledger:
  assumes "loan_apply c op actor s = Inr (r, s')"
  shows "sync_operations s' = sync_operations s \<and> sync_conflicts s' = sync_conflicts s"
proof -
  from assms obtain item student staff k where "checkout_item c item student staff None s = Inr (k, s')"
    unfolding loan_apply_def Let_def by (auto split: if_splits option.splits elim!: bindE_InrE bindE_pairE)
  then show ?thesis by (rule checkout_item_Inr) simp
qed

section \<open>Concrete inputs\<close>

definition sample_item :: library_item where
  "sample_item =
     \<lparr>li_title = ''Algebra'', li_author = ''Lang'', li_isbn = [], li_item_type = Item_Book, li_is_electronic = False,
      li_resource_url = [], li_total_copies = 2, li_is_active = True, li_deleted_at = None\<rparr>"

definition sample_loan :: "loan_status \<Rightarrow> rat \<Rightarrow> loan" where
  "sample_loan st fine =
     \<lparr>ln_item = 1, ln_borrower_student = Some 1, ln_borrower_staff = None, ln_due_date = 719163, ln_returned_at = None,
      ln_status = st, ln_fine_amount = fine, ln_currency = ''SSP'', ln_fine_waived = False, ln_waived_by = None,
      ln_waived_reason = []\<rparr>"

definition sample_library_db :: "loan_status \<Rightarrow> rat \<Rightarrow> library_db" where
  "sample_library_db st fine =
     exam_db.extend (sample_exam_db [] [])
       \<lparr>library_items = [(1, sample_item)], loans = [(1, sample_loan st fine)],
        library_policies = [(1, \<lparr>lp_loan_period_days = 14, lp_daily_fine_rate = 5 / 2, lp_currency = ''SSP''\<rparr>)]\<rparr>"

lemma sample_library_tables [simp]:
  "library_items (sample_library_db st fine) = [(1, sample_item)]" "loans (sample_library_db st fine) = [(1, sample_loan st fine)]"
  "library_policies (sample_library_db st fine) = [(1, \<lparr>lp_loan_period_days = 14, lp_daily_fine_rate = 5 / 2, lp_currency = ''SSP''\<rparr>)]"
  "students (sample_library_db st fine) = [(1, sample_student)]" "audit_log (sample_library_db st fine) = []"
  using sample_exam_tables(7,10) [of "[]" "[]"] unfolding sample_library_db_def
  by (simp_all add: exam_db.defs del: sample_exam_tables)

lemma closed_loan_final_witness:
  "\<exists>s'. library_step (sample_library_db Loan_Returned 0) s' \<and> get_row (loans s') 1 \<noteq> None"
proof -
  let ?s = "sample_library_db Loan_Returned 0"
  have "item_full_clean (\<lambda>_. True) sample_item = Inr ()"
    by (simp add: item_full_clean_def library_item_clean_def sample_item_def)
  then obtain s' where "create_library_item (\<lambda>_. True) offline_ctx sample_item ?s = Inr (2, s')"
    by (auto simp: create_library_item_def insert_audited_down offline_ctx_def item_meta_def fresh_pk_def)
  then have step: "library_step ?s s'" by (rule library_step.NewItem)
  have "get_row (loans ?s) 1 = Some (sample_loan Loan_Returned 0)" by (simp add: get_row_singleton)
  from closed_loan_final [OF r_into_rtranclp [of library_step, OF step] this] step show ?thesis by auto
qed

lemma fine_exact_witness:
  "\<exists>s' l. return_item sample_ctx 1 (Some 259200) (sample_library_db Loan_Active (15 / 2)) = Inr s' \<and>
     get_row (loans s') 1 = Some l \<and> ln_fine_amount l = 15 / 2"
proof -
  let ?s = "sample_library_db Loan_Active (15 / 2)"
  have row: "get_row (loans ?s) 1 = Some (sample_loan Loan_Active (15 / 2))" by (simp add: get_row_singleton)
  have pol: "library_policy_defaults sample_ctx ?s = (14, 5 / 2, ''SSP'')"
    by (simp add: library_policy_defaults_def first_row_def)
  have fine: "dec_mul (5 / 2) 3 = 15 / 2"
    unfolding dec_mul_def by (subst dec_ctx_exact [where k = 1]) simp_all
  have money: "money_amount_field (5 / 2)" "money_amount_field (15 / 2)"
    by (simp_all add: money_amount_field_def two_places_def MONEY_MAX_DIGITS_def)
  have days: "days_overdue 259200 (sample_loan Loan_Active (15 / 2)) = 3"
    by (simp add: days_overdue_def utc_date_def sample_loan_def)
  define s where "s = ?s"
  define l where "l = sample_loan Loan_Active (15 / 2)"
  have vals: "ln_status l = Loan_Active" "ln_fine_amount l = 15 / 2" "ln_fine_waived l = False" "ln_due_date l = 719163"
    by (simp_all add: l_def sample_loan_def)
  define l' where "l' = l\<lparr>ln_status := Loan_Returned, ln_returned_at := Some 259200, ln_fine_amount := 15 / 2\<rparr>"
  have s: "get_row (loans s) 1 = Some l" "library_policy_defaults sample_ctx s = (14, 5 / 2, ''SSP'')" "audit_log s = []"
    using row pol by (simp_all add: s_def l_def)
  have "loan_full_clean l' s = Inr ()"
    using money by (simp add: loan_full_clean_def loan_clean_def l'_def l_def s_def sample_loan_def get_row_singleton
        opt_ref_def currency_field_def key_given_def Currency_values_def)
  moreover have "\<exists>s'. update_audited sample_ctx loan_meta loan_audit loans put_loans 1 l l' reason s = Inr s'" for reason
    by (simp add: update_audited_def audit_save_def loan_audit_def l'_def vals record_change_def safe_write_def
        write_audit_first loan_meta_def s(3) sample_ctx_def)
  moreover have "\<exists>reason. return_item sample_ctx 1 (Some 259200) s = save_loan sample_ctx 1 l l' reason s"
    unfolding return_item_def with_loan_def s(1) option.case s(2) Let_def or_keep_def days [folded l_def] prod.case
      of_nat_numeral fine l'_def [symmetric] by (simp only: vals(1) not_True_eq_False if_False simp_thms) blast
  ultimately obtain s' where s': "return_item sample_ctx 1 (Some 259200) s = Inr s'"
    unfolding save_loan_def by fastforce
  show ?thesis
    using fine_exact [OF s'] s' s money by (auto simp: s_def [symmetric] utc_date_def vals or_keep_def)
qed

end
