(* ===== verification/Role_Policy.thy ===== *)
theory Role_Policy
  imports Prelude
begin

text \<open>
  The authorisation policy of \<open>accounts/roles.py\<close>: the permissions of each role. The texts that
  describe the roles to the reader are left out.
\<close>

section \<open>Permission names\<close>

text \<open>\<open>app_label, model_name = model.split(''.'')\<close> of a name with one dot.\<close>

definition split_model :: "string \<Rightarrow> string \<times> string" where
  "split_model m = (takeWhile (\<lambda>ch. ch \<noteq> CHR ''.'') m, tl (dropWhile (\<lambda>ch. ch \<noteq> CHR ''.'') m))"

definition permission_name :: "string \<Rightarrow> string \<Rightarrow> string" where
  "permission_name model verb = (let (app_label, model_name) = split_model model in app_label @ ''.'' @ verb @ ''_'' @ model_name)"

definition crud :: "string \<Rightarrow> string list" where
  "crud model = map (permission_name model) [''add'', ''change'', ''delete'', ''view'']"

definition write_perms :: "string \<Rightarrow> string list" where
  "write_perms model = map (permission_name model) [''add'', ''change'', ''view'']"

definition ro :: "string \<Rightarrow> string list" where
  "ro model = [permission_name model ''view'']"

record role_definition =
  rd_code :: string
  rd_name :: string
  rd_permissions :: "string list"

section \<open>Permission sets\<close>

definition CURRICULUM_READ :: "string list" where
  "CURRICULUM_READ =
     ro ''curriculum.faculty'' @ ro ''curriculum.department'' @ ro ''curriculum.programme'' @
     ro ''curriculum.course'' @ ro ''curriculum.curriculumversion'' @ ro ''curriculum.curriculumcourse'' @
     ro ''curriculum.prerequisite''"

definition CURRICULUM_MANAGE :: "string list" where
  "CURRICULUM_MANAGE =
     crud ''curriculum.faculty'' @ crud ''curriculum.department'' @ crud ''curriculum.programme'' @
     crud ''curriculum.course'' @ write_perms ''curriculum.curriculumversion'' @
     crud ''curriculum.curriculumcourse'' @ crud ''curriculum.prerequisite''"

definition ACADEMICS_READ :: "string list" where
  "ACADEMICS_READ =
     ro ''academics.institution'' @ ro ''academics.academicyear'' @ ro ''academics.semester'' @
     ro ''academics.gradingscale'' @ ro ''academics.gradeband''"

definition ACADEMICS_MANAGE :: "string list" where
  "ACADEMICS_MANAGE =
     write_perms ''academics.institution'' @ write_perms ''academics.academicyear'' @ write_perms ''academics.semester'' @
     write_perms ''academics.gradingscale'' @ crud ''academics.gradeband''"

definition REGISTRY_MANAGE :: "string list" where
  "REGISTRY_MANAGE =
     write_perms ''registry.student'' @ ro ''registry.studentstatushistory'' @
     [''registry.change_student_status''] @ crud ''registry.nextofkin'' @ crud ''registry.sponsor'' @
     write_perms ''registry.studentdocument'' @ [''registry.verify_studentdocument'']"

definition ADMISSIONS_SELF :: "string list" where
  "ADMISSIONS_SELF =
     [''admissions.add_application'', ''admissions.view_application'', ''admissions.change_application'',
     ''admissions.add_applicationdocument'', ''admissions.view_applicationdocument'',
     ''admissions.add_applicationfeepayment'', ''admissions.view_applicationfeepayment'']"

definition ADMISSIONS_MANAGE :: "string list" where
  "ADMISSIONS_MANAGE =
     write_perms ''admissions.application'' @ write_perms ''admissions.applicationdocument'' @
     write_perms ''admissions.applicationreview'' @ write_perms ''admissions.applicationfeepayment'' @
     [''admissions.decide_application'']"

definition GRADE_WRITE_PERMISSIONS :: "string list" where
  "GRADE_WRITE_PERMISSIONS =
     [''examinations.add_mark'', ''examinations.change_mark'', ''examinations.add_assessment'',
     ''examinations.change_assessment'', ''examinations.moderate_result'', ''examinations.approve_result'']"

definition MONEY_WRITE_PERMISSIONS :: "string list" where
  "MONEY_WRITE_PERMISSIONS =
     [''finance.add_payment'', ''finance.change_payment'', ''finance.add_invoice'',
     ''finance.change_invoice'', ''finance.add_feestructure'', ''finance.change_feestructure'',
     ''finance.approve_refund'']"

section \<open>Roles\<close>

definition applicant_role :: role_definition where
  "applicant_role =
     \<lparr>rd_code = ''applicant'', rd_name = ''Applicant'',
      rd_permissions =
        ADMISSIONS_SELF @ CURRICULUM_READ @ ACADEMICS_READ\<rparr>"

definition student_role :: role_definition where
  "student_role =
     \<lparr>rd_code = ''student'', rd_name = ''Student'',
      rd_permissions =
        ro ''registry.student'' @ ro ''registry.studentdocument'' @ CURRICULUM_READ @ ACADEMICS_READ @
     write_perms ''enrollment.courseregistration'' @ [''timetabling.view_timetableentry'',
     ''timetabling.view_examtimetable'', ''attendance.view_sessionrecord'', ''examinations.view_mark'',
     ''examinations.add_gradeappeal'', ''examinations.view_gradeappeal'', ''finance.view_invoice'',
     ''finance.view_payment'', ''finance.add_refund'', ''finance.view_refund'']\<rparr>"

definition lecturer_role :: role_definition where
  "lecturer_role =
     \<lparr>rd_code = ''lecturer'', rd_name = ''Lecturer'',
      rd_permissions =
        ro ''registry.student'' @ CURRICULUM_READ @ ACADEMICS_READ @ [''enrollment.view_courseregistration'',
     ''timetabling.view_timetableentry'', ''timetabling.view_examtimetable'',
     ''attendance.add_sessionrecord'', ''attendance.change_sessionrecord'',
     ''attendance.view_sessionrecord'', ''examinations.view_assessment'', ''examinations.add_mark'',
     ''examinations.change_mark'', ''examinations.view_mark'']\<rparr>"

definition hod_role :: role_definition where
  "hod_role =
     \<lparr>rd_code = ''hod'', rd_name = ''Head of Department'',
      rd_permissions =
        ro ''registry.student'' @ ro ''registry.staffprofile'' @ CURRICULUM_READ @ ACADEMICS_READ @
     [''curriculum.change_curriculumcourse'', ''enrollment.view_courseregistration'',
     ''attendance.view_sessionrecord'', ''examinations.view_assessment'', ''examinations.view_mark'',
     ''examinations.moderate_result'', ''examinations.view_gradeappeal'',
     ''examinations.change_gradeappeal'', ''examinations.decide_gradeappeal'',
     ''timetabling.view_timetableentry'', ''timetabling.view_examtimetable'', ''hr.add_appraisal'',
     ''hr.view_appraisal'', ''hr.view_leaverequest'', ''communications.send_announcement'']\<rparr>"

definition registrar_role :: role_definition where
  "registrar_role =
     \<lparr>rd_code = ''registrar'', rd_name = ''Registrar'',
      rd_permissions =
        REGISTRY_MANAGE @ CURRICULUM_MANAGE @ ACADEMICS_MANAGE @ ro ''registry.staffprofile'' @
     ro ''core.syncoperation'' @ ro ''core.syncconflict'' @ ADMISSIONS_MANAGE @
     [''enrollment.add_courseregistration'', ''enrollment.change_courseregistration'',
     ''enrollment.view_courseregistration'', ''enrollment.override_hold'', ''enrollment.record_completion'',
     ''documents.add_transcriptrequest'', ''documents.change_transcriptrequest'',
     ''documents.issue_certificate'', ''documents.revoke_document'', ''documents.override_clearance'',
     ''communications.send_announcement'', ''communications.broadcast_all'', ''alumni.add_alumniprofile'',
     ''alumni.change_alumniprofile'', ''alumni.view_alumniprofile'', ''alumni.add_alumnievent'',
     ''alumni.change_alumnievent'', ''alumni.view_alumnievent''] @ crud ''timetabling.room'' @
     crud ''timetabling.timetableentry'' @ [''timetabling.view_examtimetable'',
     ''attendance.view_sessionrecord'']\<rparr>"

definition finance_role :: role_definition where
  "finance_role =
     \<lparr>rd_code = ''finance'', rd_name = ''Finance / Bursar'',
      rd_permissions =
        ro ''registry.student'' @ ro ''registry.sponsor'' @ ro ''curriculum.programme'' @ ACADEMICS_READ @
     [''finance.add_feestructure'', ''finance.change_feestructure'', ''finance.view_feestructure'',
     ''finance.add_invoice'', ''finance.change_invoice'', ''finance.view_invoice'', ''finance.add_payment'',
     ''finance.change_payment'', ''finance.view_payment'', ''finance.add_scholarship'',
     ''finance.view_scholarship'', ''finance.change_scholarship'', ''finance.view_refund'',
     ''finance.add_refund'', ''finance.approve_refund'', ''finance.view_defaulterreport'']\<rparr>"

definition examinations_role :: role_definition where
  "examinations_role =
     \<lparr>rd_code = ''examinations'', rd_name = ''Examinations Office'',
      rd_permissions =
        ro ''registry.student'' @ ro ''registry.staffprofile'' @ [''timetabling.view_room''] @ CURRICULUM_READ @
     ACADEMICS_MANAGE @ [''examinations.add_assessment'', ''examinations.change_assessment'',
     ''examinations.view_assessment'', ''examinations.add_mark'', ''examinations.view_mark'',
     ''examinations.change_mark'', ''examinations.moderate_result'', ''examinations.flag_irregularity'',
     ''examinations.publish_result'', ''examinations.view_gradeappeal'', ''examinations.change_gradeappeal'',
     ''examinations.decide_gradeappeal'', ''timetabling.add_examtimetable'',
     ''timetabling.change_examtimetable'', ''timetabling.delete_examtimetable'',
     ''timetabling.view_examtimetable'', ''attendance.view_sessionrecord'', ''attendance.override_block'']\<rparr>"

definition senate_role :: role_definition where
  "senate_role =
     \<lparr>rd_code = ''senate'', rd_name = ''Senate / Exam Board'',
      rd_permissions =
        ro ''registry.student'' @ CURRICULUM_READ @ ACADEMICS_READ @ [''examinations.view_mark'',
     ''examinations.view_assessment'', ''examinations.approve_result'']\<rparr>"

definition hr_role :: role_definition where
  "hr_role =
     \<lparr>rd_code = ''hr'', rd_name = ''Human Resources'',
      rd_permissions =
        crud ''registry.staffprofile'' @ ro ''curriculum.department'' @ ro ''curriculum.faculty'' @
     [''hr.add_contract'', ''hr.change_contract'', ''hr.view_contract'', ''hr.add_leaverequest'',
     ''hr.change_leaverequest'', ''hr.view_leaverequest'', ''hr.approve_leaverequest'',
     ''hr.view_appraisal'', ''hr.change_appraisal'', ''hr.export_payroll'']\<rparr>"

definition library_role :: role_definition where
  "library_role =
     \<lparr>rd_code = ''library'', rd_name = ''Library Staff'',
      rd_permissions =
        ro ''registry.student'' @ ro ''registry.staffprofile'' @ [''library.add_libraryitem'',
     ''library.change_libraryitem'', ''library.view_libraryitem'', ''library.add_loan'',
     ''library.change_loan'', ''library.view_loan'', ''library.waive_fine'']\<rparr>"

definition hostel_role :: role_definition where
  "hostel_role =
     \<lparr>rd_code = ''hostel'', rd_name = ''Hostel Office'',
      rd_permissions =
        ro ''registry.student'' @ [''hostel.add_room'', ''hostel.change_room'', ''hostel.view_room'',
     ''hostel.add_allocation'', ''hostel.change_allocation'', ''hostel.view_allocation'']\<rparr>"

definition ict_admin_role :: role_definition where
  "ict_admin_role =
     \<lparr>rd_code = ''ict_admin'', rd_name = ''ICT Administrator'',
      rd_permissions =
        crud ''accounts.user'' @ ro ''accounts.role'' @ crud ''accounts.userrole'' @ ro ''audit.auditlog'' @
     ro ''core.syncoperation'' @ ro ''core.syncconflict'' @ [''core.resolve_syncconflict''] @
     ro ''core.idsequence'' @ ACADEMICS_READ @ CURRICULUM_READ @ ro ''registry.student'' @
     ro ''registry.staffprofile'' @ crud ''reporting.dashboardwidget''\<rparr>"

definition management_role :: role_definition where
  "management_role =
     \<lparr>rd_code = ''management'', rd_name = ''University Management'',
      rd_permissions =
        ro ''registry.student'' @ ro ''registry.staffprofile'' @ CURRICULUM_READ @ ACADEMICS_READ @
     ro ''audit.auditlog'' @ [''timetabling.view_timetableentry'', ''timetabling.view_examtimetable'',
     ''attendance.view_sessionrecord'', ''examinations.view_mark'', ''finance.view_feestructure'',
     ''finance.view_invoice'', ''finance.view_payment'', ''finance.view_defaulterreport'',
     ''reporting.view_dashboard'', ''reporting.export_statutoryreport'', ''reporting.view_dashboardwidget'']\<rparr>"

definition ROLES :: "role_definition list" where
  "ROLES =
     [applicant_role, student_role, lecturer_role, hod_role, registrar_role,
      finance_role, examinations_role, senate_role, hr_role, library_role,
      hostel_role, ict_admin_role, management_role]"

definition ROLE_CODES :: "string list" where
  "ROLE_CODES = map rd_code ROLES"

definition permissions_for :: "string \<Rightarrow> string set" where
  "permissions_for code =
     (case find (\<lambda>d. rd_code d = code) ROLES of None \<Rightarrow> {} | Some d \<Rightarrow> set (rd_permissions d))"

section \<open>Separation of duties\<close>

text \<open>The checks run over the table of roles once, by evaluation.\<close>

definition holds_any :: "string list \<Rightarrow> role_definition \<Rightarrow> bool" where
  "holds_any ps d \<longleftrightarrow> list_ex (List.member ps) (rd_permissions d)"

definition holders :: "string \<Rightarrow> string list" where
  "holders p = map rd_code (filter (\<lambda>d. List.member (rd_permissions d) p) ROLES)"

lemma grade_or_money:
  "list_all (\<lambda>d. \<not> holds_any GRADE_WRITE_PERMISSIONS d \<or> \<not> holds_any MONEY_WRITE_PERMISSIONS d) ROLES"
  by code_simp

lemma ict_admin_holds_neither:
  "list_all (\<lambda>d. rd_code d \<noteq> ''ict_admin'' \<or> \<not> holds_any (GRADE_WRITE_PERMISSIONS @ MONEY_WRITE_PERMISSIONS) d) ROLES"
  by code_simp

definition is_read :: "string \<Rightarrow> bool" where
  "is_read p = (let verb = takeWhile (\<lambda>ch. ch \<noteq> CHR ''_'') (snd (split_model p)) in verb \<in> {''view'', ''export''})"

lemma management_reads:
  "list_all (\<lambda>d. rd_code d \<noteq> ''management'' \<or> list_all is_read (rd_permissions d)) ROLES"
  by code_simp

lemma deciding_offices:
  "holders ''examinations.approve_result'' = [''senate'']" "holders ''examinations.publish_result'' = [''examinations'']"
  "holders ''finance.approve_refund'' = [''finance'']" "holders ''hr.approve_leaverequest'' = [''hr'']"
  "holders ''admissions.decide_application'' = [''registrar'']" "holders ''enrollment.override_hold'' = [''registrar'']"
  "holders ''core.resolve_syncconflict'' = [''ict_admin'']"
  by code_simp+

lemma codes_distinct: "distinct ROLE_CODES"
  by code_simp

lemma permissions_for_find:
  assumes "find (\<lambda>d. rd_code d = code) ROLES = Some d"
  shows "permissions_for code = set (rd_permissions d)" and "d \<in> set ROLES" and "rd_code d = code"
  using assms find_SomeD [OF assms] by (simp_all add: permissions_for_def)

lemma permissions_for_cases:
  obtains "permissions_for code = {}" | d where "d \<in> set ROLES" and "rd_code d = code" and "permissions_for code = set (rd_permissions d)"
proof (cases "find (\<lambda>d. rd_code d = code) ROLES")
  case None
  then show thesis using that(1) by (simp add: permissions_for_def)
next
  case (Some d)
  then show thesis using that(2) permissions_for_find [OF Some] by blast
qed

lemma role_of_code: "d \<in> set ROLES \<Longrightarrow> e \<in> set ROLES \<Longrightarrow> rd_code e = rd_code d \<Longrightarrow> e = d"
  using codes_distinct unfolding ROLE_CODES_def distinct_map inj_on_def by blast

lemma permissions_for_role:
  assumes "d \<in> set ROLES"
  shows "permissions_for (rd_code d) = set (rd_permissions d)"
proof (cases "find (\<lambda>x. rd_code x = rd_code d) ROLES")
  case None
  with assms show ?thesis by (auto simp: find_None_iff)
next
  case (Some e)
  note e = permissions_for_find [OF Some]
  show ?thesis using e(1) role_of_code [OF assms e(2,3)] by simp
qed

lemma holders_iff: "p \<in> permissions_for code \<longleftrightarrow> code \<in> set (holders p)"
proof
  assume p: "p \<in> permissions_for code"
  then obtain d where "d \<in> set ROLES" and "rd_code d = code" and "permissions_for code = set (rd_permissions d)"
    by (cases rule: permissions_for_cases [of code]) auto
  with p show "code \<in> set (holders p)" by (auto simp: holders_def)
next
  assume "code \<in> set (holders p)"
  then obtain d where "d \<in> set ROLES" and "rd_code d = code" and "p \<in> set (rd_permissions d)" by (auto simp: holders_def)
  then show "p \<in> permissions_for code" using permissions_for_role [of d] by simp
qed

lemma permissions_for_all:
  assumes "list_all P ROLES"
  shows "permissions_for code = {} \<or> (\<exists>d. rd_code d = code \<and> P d \<and> permissions_for code = set (rd_permissions d))"
  using assms by (cases rule: permissions_for_cases [of code]) (auto simp: list_all_iff)

text \<open>
  C33. The policy separates duties. No role writes both grades and money, the administrators of the
  system write neither, the management only reads, and each decision - approving results,
  publishing them, approving refunds, deciding applications - belongs to one office.
\<close>

theorem duties_separated:
  "(permissions_for code \<inter> set GRADE_WRITE_PERMISSIONS = {} \<or> permissions_for code \<inter> set MONEY_WRITE_PERMISSIONS = {}) \<and>
   permissions_for ''ict_admin'' \<inter> (set GRADE_WRITE_PERMISSIONS \<union> set MONEY_WRITE_PERMISSIONS) = {} \<and>
   permissions_for ''management'' \<subseteq> Collect is_read \<and>
   {x. ''examinations.approve_result'' \<in> permissions_for x} = {''senate''} \<and>
   {x. ''examinations.publish_result'' \<in> permissions_for x} = {''examinations''} \<and>
   {x. ''finance.approve_refund'' \<in> permissions_for x} = {''finance''} \<and>
   {x. ''admissions.decide_application'' \<in> permissions_for x} = {''registrar''}"
proof (intro conjI)
  show "permissions_for code \<inter> set GRADE_WRITE_PERMISSIONS = {} \<or> permissions_for code \<inter> set MONEY_WRITE_PERMISSIONS = {}"
    using permissions_for_all [OF grade_or_money, of code] by (auto simp: holds_any_def list_ex_iff)
  show "permissions_for ''ict_admin'' \<inter> (set GRADE_WRITE_PERMISSIONS \<union> set MONEY_WRITE_PERMISSIONS) = {}"
    using permissions_for_all [OF ict_admin_holds_neither, of "''ict_admin''"] by (auto simp: holds_any_def list_ex_iff)
  show "permissions_for ''management'' \<subseteq> Collect is_read"
    using permissions_for_all [OF management_reads, of "''management''"] by (auto simp: list_all_iff)
qed (auto simp: holders_iff deciding_offices)

text \<open>The bursar holds both sides of a refund.\<close>

lemma finance_asks_and_approves: "{''finance.add_refund'', ''finance.approve_refund''} \<subseteq> permissions_for ''finance''"
proof -
  have "''finance'' \<in> set (holders ''finance.add_refund'')" by code_simp
  then show ?thesis by (simp add: holders_iff deciding_offices)
qed

end
