(* ===== verification/Accounts.thy ===== *)
theory Accounts
  imports Library Role_Policy
begin

text \<open>
  Accounts, roles and sign-in (\<open>accounts/models.py\<close>, \<open>accounts/services.py\<close>, the login and user
  serializers and the command \<open>seed_roles\<close>). Users hold roles, a role has a Django group, and
  the group carries the permissions. Password hashing, one-time codes and random tokens are
  library code: the record \<open>auth_lib\<close> stands for them.
\<close>

section \<open>Models\<close>

record account =
  acc_email :: string
  acc_first_name :: string
  acc_middle_name :: string
  acc_last_name :: string
  acc_phone :: string
  acc_is_active :: bool
  acc_is_staff :: bool
  acc_is_superuser :: bool
  acc_mfa_enabled :: bool
  acc_mfa_secret :: string
  acc_must_change_password :: bool
  acc_password :: string
  acc_last_login :: "int option"
  acc_last_login_ip :: "string option"
  acc_failed_login_attempts :: nat
  acc_locked_until :: "int option"

record backup_code =
  bc_user :: nat
  bc_code_hash :: string
  bc_created_at :: int
  bc_used_at :: "int option"

record role =
  rl_code :: string
  rl_name :: string
  rl_group :: "nat option"
  rl_is_system :: bool

record user_role =
  ur_user :: nat
  ur_role :: nat
  ur_granted_by :: "nat option"
  ur_granted_at :: int
  ur_revoked_by :: "nat option"
  ur_revoked_at :: "int option"
  ur_reason :: string

text \<open>The groups of Django, their members (user, group) and their permissions (group, name).\<close>

record accounts_db = library_db +
  accounts :: "account table"
  backup_codes :: "backup_code table"
  roles :: "role table"
  user_roles :: "user_role table"
  auth_groups :: "string table"
  group_members :: "(nat \<times> nat) list"
  group_permissions :: "(nat \<times> string) list"

abbreviation put_accounts :: "account table \<Rightarrow> 'a accounts_db_scheme \<Rightarrow> 'a accounts_db_scheme" where
  "put_accounts t s \<equiv> s\<lparr>accounts := t\<rparr>"

definition user_meta :: model_meta where
  "user_meta = \<lparr>mm_label = ''accounts.user'', mm_verbose = ''user'', mm_sensitive = False\<rparr>"

definition user_audit :: "account \<Rightarrow> (string \<times> pyval) list" where
  "user_audit a =
     [(''email'', VStr (acc_email a)), (''is_active'', VBool (acc_is_active a)), (''is_staff'', VBool (acc_is_staff a)),
      (''is_superuser'', VBool (acc_is_superuser a)), (''mfa_enabled'', VBool (acc_mfa_enabled a))]"

definition account_full_name :: "account \<Rightarrow> string" where
  "account_full_name a = join_names [acc_first_name a, acc_middle_name a, acc_last_name a]"

section \<open>Roles and permissions of a user\<close>

definition has_active_role :: "nat \<Rightarrow> nat \<Rightarrow> 'a accounts_db_scheme \<Rightarrow> bool" where
  "has_active_role user role s = exists_row (\<lambda>_ a. ur_user a = user \<and> ur_role a = role \<and> ur_revoked_at a = None) (user_roles s)"

definition active_roles :: "nat \<Rightarrow> 'a accounts_db_scheme \<Rightarrow> role table" where
  "active_roles user s = filter_rows (\<lambda>r _. has_active_role user r s) (roles s)"

definition role_codes :: "nat \<Rightarrow> 'a accounts_db_scheme \<Rightarrow> string list" where
  "role_codes user s = sort (map (\<lambda>(_, r). rl_code r) (active_roles user s))"

definition is_superuser :: "nat \<Rightarrow> 'a accounts_db_scheme \<Rightarrow> bool" where
  "is_superuser user s = (case get_row (accounts s) user of None \<Rightarrow> False | Some a \<Rightarrow> acc_is_superuser a)"

definition primary_role_code :: "nat \<Rightarrow> 'a accounts_db_scheme \<Rightarrow> string" where
  "primary_role_code user s =
     (if is_superuser user s then ''superuser'' else case role_codes user s of [] \<Rightarrow> [] | code # _ \<Rightarrow> code)"

definition has_role :: "nat \<Rightarrow> string list \<Rightarrow> 'a accounts_db_scheme \<Rightarrow> bool" where
  "has_role user codes s = list_ex (\<lambda>code. code \<in> set codes) (role_codes user s)"

text \<open>
  \<open>ModelBackend.has_perm\<close>: nothing for an inactive user, everything for a superuser, else the
  permissions of the groups. Permissions are never attached to a user directly.
\<close>

definition user_has_perm :: "nat \<Rightarrow> 'a accounts_db_scheme \<Rightarrow> string \<Rightarrow> bool" where
  "user_has_perm user s p =
     (case get_row (accounts s) user of
        None \<Rightarrow> False
      | Some a \<Rightarrow>
          acc_is_active a \<and>
          (acc_is_superuser a \<or> list_ex (\<lambda>(u, g). u = user \<and> (g, p) \<in> set (group_permissions s)) (group_members s)))"

text \<open>The acting user that the other modules see.\<close>

definition session_user :: "nat \<Rightarrow> 'a accounts_db_scheme \<Rightarrow> user option" where
  "session_user user s =
     (case get_row (accounts s) user of
        None \<Rightarrow> None
      | Some a \<Rightarrow>
          Some \<lparr>user_pk = user, user_full_name = account_full_name a, user_username = acc_email a,
                user_str = account_full_name a @ '' <'' @ acc_email a @ ''>'',
                user_role_code = primary_role_code user s, has_perm = user_has_perm user s\<rparr>)"

section \<open>Granting and revoking roles\<close>

definition UnknownRole :: exn where "UnknownRole = DomainError ''unknown_role'' 400"

definition find_role :: "string \<Rightarrow> 'a accounts_db_scheme \<Rightarrow> (nat \<times> role) option" where
  "find_role code s = first_row (\<lambda>_ r. rl_code r = code) (roles s)"

definition active_assignment :: "nat \<Rightarrow> nat \<Rightarrow> 'a accounts_db_scheme \<Rightarrow> (nat \<times> user_role) option" where
  "active_assignment user role s =
     first_row (\<lambda>_ a. ur_user a = user \<and> ur_role a = role \<and> ur_revoked_at a = None) (user_roles s)"

definition group_add :: "nat \<Rightarrow> nat option \<Rightarrow> (nat \<times> nat) list \<Rightarrow> (nat \<times> nat) list" where
  "group_add user g ms =
     (case g of None \<Rightarrow> ms | Some j \<Rightarrow> if (user, j) \<in> set ms then ms else ms @ [(user, j)])"

definition group_remove :: "nat \<Rightarrow> nat option \<Rightarrow> (nat \<times> nat) list \<Rightarrow> (nat \<times> nat) list" where
  "group_remove user g ms = (case g of None \<Rightarrow> ms | Some j \<Rightarrow> filter (\<lambda>m. m \<noteq> (user, j)) ms)"

text \<open>A reason longer than its column is refused by the database.\<close>

definition grant_role ::
  "ctx \<Rightarrow> nat \<Rightarrow> string \<Rightarrow> user option \<Rightarrow> string \<Rightarrow> 'a accounts_db_scheme \<Rightarrow> exn + nat \<times> 'a accounts_db_scheme" where
  "grant_role c user role_code granted_by reason s =
     (case find_role role_code s of
        None \<Rightarrow> Inl UnknownRole
      | Some (r, rl) \<Rightarrow>
          (case active_assignment user r s of
             Some (k, _) \<Rightarrow> Inr (k, s)
           | None \<Rightarrow>
               if 255 < length reason then Inl UnexpectedError
               else let a = \<lparr>ur_user = user, ur_role = r, ur_granted_by = actor_fk granted_by, ur_granted_at = now c,
                             ur_revoked_by = None, ur_revoked_at = None, ur_reason = reason\<rparr>;
                        s1 = s\<lparr>user_roles := add_row a (user_roles s),
                               group_members := group_add user (rl_group rl) (group_members s)\<rparr>
                    in bindE (record_action c False (Some (mm_label user_meta, Some user)) ''role_grant''
                                (''Granted role '' @ [CHR 0x27] @ rl_code rl @ [CHR 0x27]) reason granted_by s1)
                         (\<lambda>s2. Inr (fresh_pk (user_roles s), s2))))"

definition revoked :: "ctx \<Rightarrow> user option \<Rightarrow> string \<Rightarrow> user_role \<Rightarrow> user_role" where
  "revoked c by_user reason a = a\<lparr>ur_revoked_at := Some (now c), ur_revoked_by := actor_fk by_user, ur_reason := reason\<rparr>"

definition revoke_role ::
  "ctx \<Rightarrow> nat \<Rightarrow> string \<Rightarrow> user option \<Rightarrow> string \<Rightarrow> 'a accounts_db_scheme \<Rightarrow> exn + 'a accounts_db_scheme" where
  "revoke_role c user role_code revoked_by reason s =
     (case find_role role_code s of
        None \<Rightarrow> Inl UnknownRole
      | Some (r, rl) \<Rightarrow>
          if \<not> has_active_role user r s then Inr s
          else if 255 < length reason then Inl UnexpectedError
          else record_action c False (Some (mm_label user_meta, Some user)) ''role_revoke''
                 (''Revoked role '' @ [CHR 0x27] @ rl_code rl @ [CHR 0x27]) reason revoked_by
                 (s\<lparr>user_roles := map (\<lambda>(k, a). (k, if ur_user a = user \<and> ur_role a = r \<and> ur_revoked_at a = None
                                                  then revoked c revoked_by reason a else a)) (user_roles s),
                    group_members := group_remove user (rl_group rl) (group_members s)\<rparr>))"

definition resync_groups :: "nat \<Rightarrow> 'a accounts_db_scheme \<Rightarrow> 'a accounts_db_scheme" where
  "resync_groups user s =
     s\<lparr>group_members := filter (\<lambda>m. fst m \<noteq> user) (group_members s) @
         map (Pair user) (remdups (List.map_filter (\<lambda>(_, r). rl_group r) (active_roles user s)))\<rparr>"

section \<open>Seeding the policy\<close>

text \<open>
  One role of the command: the group and the role are made if they are missing, the permissions
  that are installed (\<open>available\<close>, Django's table of permissions) are added to the group, or
  replace what it has with \<open>--prune\<close>.
\<close>

definition group_for :: "string \<Rightarrow> 'a accounts_db_scheme \<Rightarrow> nat \<times> 'a accounts_db_scheme" where
  "group_for code s =
     (case first_row (\<lambda>_ n. n = code) (auth_groups s) of
        Some (g, _) \<Rightarrow> (g, s)
      | None \<Rightarrow> (fresh_pk (auth_groups s), s\<lparr>auth_groups := add_row code (auth_groups s)\<rparr>))"

definition seed_role :: "string list \<Rightarrow> bool \<Rightarrow> role_definition \<Rightarrow> 'a accounts_db_scheme \<Rightarrow> 'a accounts_db_scheme" where
  "seed_role available prune d s =
     (let (g, s1) = group_for (rd_code d) s;
          r = \<lparr>rl_code = rd_code d, rl_name = rd_name d, rl_group = Some g, rl_is_system = True\<rparr>;
          s2 = s1\<lparr>roles := (case find_role (rd_code d) s1 of None \<Rightarrow> add_row r (roles s1) | Some (k, _) \<Rightarrow> put_row k r (roles s1))\<rparr>;
          resolved = filter (\<lambda>p. p \<in> set available) (rd_permissions d);
          kept = (if prune then filter (\<lambda>(j, p). j \<noteq> g) (group_permissions s2) else group_permissions s2)
      in s2\<lparr>group_permissions := kept @ map (Pair g) (filter (\<lambda>p. (g, p) \<notin> set kept) (remdups resolved))\<rparr>)"

definition seed_roles :: "string list \<Rightarrow> bool \<Rightarrow> 'a accounts_db_scheme \<Rightarrow> 'a accounts_db_scheme" where
  "seed_roles available prune s = fold (seed_role available prune) ROLES s"

section \<open>Saving an account\<close>

text \<open>
  \<open>User.save\<close> stores the email in lower case without spaces around it. Two accounts whose
  emails differ in case only are refused by the unique index on \<open>lower(email)\<close>.
\<close>

definition normal_email :: "string \<Rightarrow> string" where
  "normal_email e = map lower_char (strip e)"

definition same_email :: "string \<Rightarrow> string \<Rightarrow> bool" where
  "same_email e e' \<longleftrightarrow> map lower_char e = map lower_char e'"

definition email_taken :: "nat option \<Rightarrow> string \<Rightarrow> 'a accounts_db_scheme \<Rightarrow> bool" where
  "email_taken pk e s \<longleftrightarrow> exists_row (\<lambda>k a. Some k \<noteq> pk \<and> same_email (acc_email a) e) (accounts s)"

definition save_account :: "ctx \<Rightarrow> nat \<Rightarrow> (account \<Rightarrow> account) \<Rightarrow> 'a accounts_db_scheme \<Rightarrow> exn + 'a accounts_db_scheme" where
  "save_account c k f s =
     (case get_row (accounts s) k of
        None \<Rightarrow> Inl DoesNotExist
      | Some a \<Rightarrow>
          let a' = (f a)\<lparr>acc_email := normal_email (acc_email (f a))\<rparr> in
          if email_taken (Some k) (acc_email a') s then Inl IntegrityError
          else update_audited c user_meta user_audit accounts put_accounts k a a' [] s)"

text \<open>\<open>save(update_fields=\<dots>)\<close> writes the columns it names, none of which is the email.\<close>

definition update_columns :: "ctx \<Rightarrow> nat \<Rightarrow> (account \<Rightarrow> account) \<Rightarrow> 'a accounts_db_scheme \<Rightarrow> exn + 'a accounts_db_scheme" where
  "update_columns c k f s =
     (case get_row (accounts s) k of
        None \<Rightarrow> Inl DoesNotExist
      | Some a \<Rightarrow> update_audited c user_meta user_audit accounts put_accounts k a (f a) [] s)"

definition find_account :: "string \<Rightarrow> 'a accounts_db_scheme \<Rightarrow> (nat \<times> account) option" where
  "find_account email s = first_row (\<lambda>_ a. same_email (acc_email a) email) (accounts s)"

section \<open>Library code\<close>

record auth_lib =
  check_password :: "string \<Rightarrow> string \<Rightarrow> bool"
  make_password :: "string \<Rightarrow> string \<Rightarrow> string"
  totp_verify :: "string \<Rightarrow> int \<Rightarrow> string \<Rightarrow> bool"
  provisioning_uri :: "string \<Rightarrow> string \<Rightarrow> string"
  valid_email :: "string \<Rightarrow> bool"
  valid_password :: "account \<Rightarrow> string \<Rightarrow> bool"

section \<open>Creating and changing accounts\<close>

definition names_valid :: "account \<Rightarrow> bool" where
  "names_valid a \<longleftrightarrow>
     acc_first_name a \<noteq> [] \<and> length (acc_first_name a) \<le> 100 \<and> length (acc_middle_name a) \<le> 100 \<and>
     acc_last_name a \<noteq> [] \<and> length (acc_last_name a) \<le> 100 \<and> length (acc_phone a) \<le> 32"

text \<open>
  The serializer of the account administration. Its unique check compares the email as it was
  typed with the stored ones; the index of the database compares them without case.
\<close>

definition admin_fields_valid :: "auth_lib \<Rightarrow> nat option \<Rightarrow> account \<Rightarrow> 'a accounts_db_scheme \<Rightarrow> exn + unit" where
  "admin_fields_valid lib pk a s =
     ensure (names_valid a \<and> length (acc_email a) \<le> 254 \<and> valid_email lib (acc_email a) \<and>
             \<not> exists_row (\<lambda>k b. Some k \<noteq> pk \<and> acc_email b = acc_email a) (accounts s)) ValidationError"

text \<open>
  The new row takes from \<open>a\<close> the fields that the serializer writes; \<open>salt\<close> is the salt of the
  hash. An account that staff made must change its password.
\<close>

definition create_account ::
  "auth_lib \<Rightarrow> ctx \<Rightarrow> string \<Rightarrow> account \<Rightarrow> string \<Rightarrow> 'a accounts_db_scheme \<Rightarrow> exn + nat \<times> 'a accounts_db_scheme" where
  "create_account lib c salt a password s =
     bindE (admin_fields_valid lib None a s) (\<lambda>_.
       if length password < 8 then Inl ValidationError
       else let a' = a\<lparr>acc_email := normal_email (acc_email a), acc_is_superuser := False, acc_mfa_secret := [],
                       acc_must_change_password := True, acc_password := make_password lib salt password,
                       acc_last_login := None, acc_last_login_ip := None, acc_failed_login_attempts := 0,
                       acc_locked_until := None\<rparr>
            in if email_taken None (acc_email a') s then Inl IntegrityError
               else insert_audited c user_meta user_audit accounts put_accounts a' [] s)"

record account_changes =
  ac_email :: "string option"
  ac_first_name :: "string option"
  ac_middle_name :: "string option"
  ac_last_name :: "string option"
  ac_phone :: "string option"
  ac_is_active :: "bool option"
  ac_is_staff :: "bool option"
  ac_mfa_enabled :: "bool option"
  ac_must_change_password :: "bool option"
  ac_password :: "string option"

definition changed_account :: "account_changes \<Rightarrow> account \<Rightarrow> account" where
  "changed_account ch a =
     a\<lparr>acc_email := or_keep (ac_email ch) (acc_email a), acc_first_name := or_keep (ac_first_name ch) (acc_first_name a),
       acc_middle_name := or_keep (ac_middle_name ch) (acc_middle_name a),
       acc_last_name := or_keep (ac_last_name ch) (acc_last_name a), acc_phone := or_keep (ac_phone ch) (acc_phone a),
       acc_is_active := or_keep (ac_is_active ch) (acc_is_active a),
       acc_is_staff := or_keep (ac_is_staff ch) (acc_is_staff a),
       acc_mfa_enabled := or_keep (ac_mfa_enabled ch) (acc_mfa_enabled a),
       acc_must_change_password := or_keep (ac_must_change_password ch) (acc_must_change_password a)\<rparr>"

definition update_account ::
  "auth_lib \<Rightarrow> ctx \<Rightarrow> string \<Rightarrow> nat \<Rightarrow> account_changes \<Rightarrow> 'a accounts_db_scheme \<Rightarrow> exn + 'a accounts_db_scheme" where
  "update_account lib c salt k ch s =
     (case get_row (accounts s) k of
        None \<Rightarrow> Inl DoesNotExist
      | Some a \<Rightarrow>
          bindE (admin_fields_valid lib (Some k) (changed_account ch a) s) (\<lambda>_.
            case ac_password ch of
              None \<Rightarrow> save_account c k (changed_account ch) s
            | Some password \<Rightarrow>
                if length password < 8 then Inl ValidationError
                else bindE (save_account c k (changed_account ch) s)
                       (update_columns c k (\<lambda>b. b\<lparr>acc_password := make_password lib salt password\<rparr>))))"

definition change_password ::
  "auth_lib \<Rightarrow> ctx \<Rightarrow> string \<Rightarrow> nat \<Rightarrow> string \<Rightarrow> string \<Rightarrow> 'a accounts_db_scheme \<Rightarrow> exn + 'a accounts_db_scheme" where
  "change_password lib c salt k current new s =
     (case get_row (accounts s) k of
        None \<Rightarrow> Inl DoesNotExist
      | Some a \<Rightarrow>
          if \<not> check_password lib current (acc_password a) \<or> \<not> valid_password lib a new then Inl ValidationError
          else update_columns c k
                 (\<lambda>b. b\<lparr>acc_password := make_password lib salt new, acc_must_change_password := False\<rparr>) s)"

section \<open>Sign-in state\<close>

definition is_locked_out :: "ctx \<Rightarrow> account \<Rightarrow> bool" where
  "is_locked_out c a = (case acc_locked_until a of None \<Rightarrow> False | Some t \<Rightarrow> now c < t)"

definition user_action :: "ctx \<Rightarrow> nat \<Rightarrow> string \<Rightarrow> string \<Rightarrow> 'a accounts_db_scheme \<Rightarrow> exn + 'a accounts_db_scheme" where
  "user_action c k action description s =
     record_action c False (Some (mm_label user_meta, Some k)) action description [] (session_user k s) s"

definition record_successful_login :: "ctx \<Rightarrow> nat \<Rightarrow> string option \<Rightarrow> 'a accounts_db_scheme \<Rightarrow> exn + 'a accounts_db_scheme" where
  "record_successful_login c k ip s =
     bindE (update_columns c k (\<lambda>a. a\<lparr>acc_failed_login_attempts := 0, acc_locked_until := None,
                                     acc_last_login_ip := ip, acc_last_login := Some (now c)\<rparr>) s)
       (\<lambda>s1. user_action c k ''login''
               (''Signed in ('' @ (if primary_role_code k s1 = [] then ''no role'' else primary_role_code k s1) @ '')'') s1)"

text \<open>
  The counter is a small integer of the database. The dash of the description is outside
  Latin-1 and written \<open>--\<close> here.
\<close>

definition count_failure :: "ctx \<Rightarrow> nat \<Rightarrow> int \<Rightarrow> account \<Rightarrow> account" where
  "count_failure c max_attempts lockout_minutes a =
     (let n = acc_failed_login_attempts a + 1 in
      a\<lparr>acc_failed_login_attempts := n,
        acc_locked_until := (if max_attempts \<le> n then Some (now c + 60 * lockout_minutes) else acc_locked_until a)\<rparr>)"

definition record_failed_login ::
  "ctx \<Rightarrow> string \<Rightarrow> nat \<Rightarrow> int \<Rightarrow> 'a accounts_db_scheme \<Rightarrow> exn + 'a accounts_db_scheme" where
  "record_failed_login c email max_attempts lockout_minutes s =
     (case find_account email s of
        None \<Rightarrow> record_action c False None ''login_failed''
                  (''Failed sign-in for unknown address '' @ [CHR 0x27] @ take 120 email @ [CHR 0x27]) [] None s
      | Some (k, a) \<Rightarrow>
          let a' = count_failure c max_attempts lockout_minutes a in
          if 32767 < acc_failed_login_attempts a' then Inl UnexpectedError
          else bindE (update_columns c k (count_failure c max_attempts lockout_minutes) s)
                 (user_action c k ''login_failed''
                    (''Failed sign-in ('' @ str_nat (acc_failed_login_attempts a') @ ''/'' @ str_nat max_attempts @ '')'' @
                     (if acc_locked_until a' = None then [] else '' -- account locked''))))"

definition record_logout :: "ctx \<Rightarrow> nat \<Rightarrow> 'a accounts_db_scheme \<Rightarrow> exn + 'a accounts_db_scheme" where
  "record_logout c k s = user_action c k ''logout'' ''Signed out'' s"

section \<open>A second factor\<close>

definition MFAAlreadyEnabled :: exn where "MFAAlreadyEnabled = DomainError ''mfa_already_enabled'' 400"
definition MFANotStarted :: exn where "MFANotStarted = DomainError ''mfa_not_started'' 400"
definition InvalidMFACode :: exn where "InvalidMFACode = DomainError ''invalid_mfa_code'' 400"

definition BACKUP_CODE_COUNT :: nat where "BACKUP_CODE_COUNT = 10"

text \<open>\<open>secret\<close> is the random secret that \<open>pyotp\<close> draws.\<close>

definition start_mfa_enrolment ::
  "auth_lib \<Rightarrow> ctx \<Rightarrow> nat \<Rightarrow> string \<Rightarrow> 'a accounts_db_scheme \<Rightarrow> exn + string \<times> 'a accounts_db_scheme" where
  "start_mfa_enrolment lib c k secret s =
     (case get_row (accounts s) k of
        None \<Rightarrow> Inl DoesNotExist
      | Some a \<Rightarrow>
          if acc_mfa_enabled a then Inl MFAAlreadyEnabled
          else bindE (update_columns c k (\<lambda>b. b\<lparr>acc_mfa_secret := secret\<rparr>) s)
                 (\<lambda>s1. Inr (provisioning_uri lib secret (acc_email a), s1)))"

text \<open>\<open>token i\<close> is the i-th result of \<open>secrets.token_hex(2)\<close>, \<open>salt i\<close> the salt of the i-th hash.\<close>

definition fresh_codes :: "(nat \<Rightarrow> string) \<Rightarrow> string list" where
  "fresh_codes token = map (\<lambda>i. token (2 * i) @ ''-'' @ token (2 * i + 1)) [0..<BACKUP_CODE_COUNT]"

definition issue_backup_codes ::
  "auth_lib \<Rightarrow> ctx \<Rightarrow> nat \<Rightarrow> (nat \<Rightarrow> string) \<Rightarrow> (nat \<Rightarrow> string) \<Rightarrow> 'a accounts_db_scheme
    \<Rightarrow> string list \<times> 'a accounts_db_scheme" where
  "issue_backup_codes lib c k token salt s =
     (let codes = fresh_codes token;
          kept = filter_rows (\<lambda>_ b. bc_user b \<noteq> k) (backup_codes s);
          add = (\<lambda>i. add_row \<lparr>bc_user = k, bc_code_hash = make_password lib (salt i) (codes ! i),
                               bc_created_at = now c, bc_used_at = None\<rparr>)
      in (codes, s\<lparr>backup_codes := fold add [0..<BACKUP_CODE_COUNT] kept\<rparr>))"

definition confirm_mfa_enrolment ::
  "auth_lib \<Rightarrow> ctx \<Rightarrow> nat \<Rightarrow> string \<Rightarrow> (nat \<Rightarrow> string) \<Rightarrow> (nat \<Rightarrow> string) \<Rightarrow> 'a accounts_db_scheme
    \<Rightarrow> exn + string list \<times> 'a accounts_db_scheme" where
  "confirm_mfa_enrolment lib c k code token salt s =
     (case get_row (accounts s) k of
        None \<Rightarrow> Inl DoesNotExist
      | Some a \<Rightarrow>
          if acc_mfa_secret a = [] then Inl MFANotStarted
          else if \<not> totp_verify lib (acc_mfa_secret a) (now c) code then Inl InvalidMFACode
          else bindE (update_columns c k (\<lambda>b. b\<lparr>acc_mfa_enabled := True\<rparr>) s) (\<lambda>s1.
               let (codes, s2) = issue_backup_codes lib c k token salt s1 in
               bindE (user_action c k ''mfa_enabled'' ''MFA enabled'' s2) (\<lambda>s3. Inr (codes, s3))))"

text \<open>The view asks for the password again.\<close>

definition disable_mfa :: "auth_lib \<Rightarrow> ctx \<Rightarrow> nat \<Rightarrow> string \<Rightarrow> 'a accounts_db_scheme \<Rightarrow> exn + 'a accounts_db_scheme" where
  "disable_mfa lib c k current s =
     (case get_row (accounts s) k of
        None \<Rightarrow> Inl DoesNotExist
      | Some a \<Rightarrow>
          if \<not> check_password lib current (acc_password a) then Inl ValidationError
          else bindE (update_columns c k (\<lambda>b. b\<lparr>acc_mfa_enabled := False, acc_mfa_secret := []\<rparr>) s) (\<lambda>s1.
               user_action c k ''mfa_disabled'' ''MFA disabled''
                 (s1\<lparr>backup_codes := filter_rows (\<lambda>_ b. bc_user b \<noteq> k) (backup_codes s1)\<rparr>)))"

definition unused_match :: "auth_lib \<Rightarrow> nat \<Rightarrow> string \<Rightarrow> 'a accounts_db_scheme \<Rightarrow> (nat \<times> backup_code) option" where
  "unused_match lib k code s =
     first_row (\<lambda>_ b. bc_user b = k \<and> bc_used_at b = None \<and> check_password lib code (bc_code_hash b)) (backup_codes s)"

definition verify_mfa_code ::
  "auth_lib \<Rightarrow> ctx \<Rightarrow> nat \<Rightarrow> string \<Rightarrow> 'a accounts_db_scheme \<Rightarrow> bool \<times> 'a accounts_db_scheme" where
  "verify_mfa_code lib c k code s =
     (case get_row (accounts s) k of
        None \<Rightarrow> (False, s)
      | Some a \<Rightarrow>
          if strip code = [] then (False, s)
          else if acc_mfa_secret a \<noteq> [] \<and> totp_verify lib (acc_mfa_secret a) (now c) (strip code) then (True, s)
          else (case unused_match lib k (strip code) s of
                  None \<Rightarrow> (False, s)
                | Some (j, b) \<Rightarrow>
                    (True, s\<lparr>backup_codes := put_row j (b\<lparr>bc_used_at := Some (now c)\<rparr>) (backup_codes s)\<rparr>)))"

section \<open>Sign-in\<close>

datatype login_result = LoggedIn nat | AccountLocked | BadCredentials | MFARequired | LoginError exn

text \<open>\<open>authenticate\<close> of Django: the account of the address, if it is active and the password is its own.\<close>

definition authenticate :: "auth_lib \<Rightarrow> string \<Rightarrow> string \<Rightarrow> 'a accounts_db_scheme \<Rightarrow> (nat \<times> account) option" where
  "authenticate lib email password s =
     (case find_account email s of
        None \<Rightarrow> None
      | Some (k, a) \<Rightarrow> if check_password lib password (acc_password a) \<and> acc_is_active a then Some (k, a) else None)"

definition login_failed ::
  "login_result \<Rightarrow> ctx \<Rightarrow> string \<Rightarrow> nat \<Rightarrow> int \<Rightarrow> 'a accounts_db_scheme \<Rightarrow> login_result \<times> 'a accounts_db_scheme" where
  "login_failed res c email max_attempts lockout_minutes s =
     (case record_failed_login c email max_attempts lockout_minutes s of Inl e \<Rightarrow> (LoginError e, s) | Inr s' \<Rightarrow> (res, s'))"

text \<open>
  The email field of the serializer is trimmed. There is no transaction around the request:
  what was written before an error stays. \<open>UPDATE_LAST_LOGIN\<close> stamps the account before
  the second factor is asked.
\<close>

definition login ::
  "auth_lib \<Rightarrow> ctx \<Rightarrow> string \<Rightarrow> string \<Rightarrow> string \<Rightarrow> nat \<Rightarrow> int \<Rightarrow> string option \<Rightarrow> 'a accounts_db_scheme
    \<Rightarrow> login_result \<times> 'a accounts_db_scheme" where
  "login lib c typed password otp max_attempts lockout_minutes ip s =
     (let email = normal_email typed in
      if (case find_account email s of None \<Rightarrow> False | Some (_, a) \<Rightarrow> is_locked_out c a) then (AccountLocked, s)
      else case authenticate lib (strip typed) password s of
          None \<Rightarrow> login_failed BadCredentials c email max_attempts lockout_minutes s
        | Some (k, a) \<Rightarrow>
            (case update_columns c k (\<lambda>b. b\<lparr>acc_last_login := Some (now c)\<rparr>) s of
               Inl e \<Rightarrow> login_failed (LoginError e) c email max_attempts lockout_minutes s
             | Inr s1 \<Rightarrow>
                 let (passed, s2) = (if acc_mfa_enabled a then verify_mfa_code lib c k otp s1 else (True, s1)) in
                 if \<not> passed then login_failed MFARequired c email max_attempts lockout_minutes s2
                 else case record_successful_login c k ip s2 of
                     Inl e \<Rightarrow> (LoginError e, s2)
                   | Inr s3 \<Rightarrow> (LoggedIn k, s3)))"

end
