(* ===== verification/Account_Security.thy ===== *)
theory Account_Security
  imports Accounts
begin

text \<open>
  What the accounts guarantee: the permissions of a user are those of the roles it holds, a
  sign-in needs everything it asks for, and guesses are bounded by the lock-out.
\<close>

section \<open>Saves of accounts\<close>

text \<open>An account is not sensitive: its saves succeed whether or not the trail can be written.\<close>

lemma safe_write_total: "\<exists>tr. safe_write False c r s = Inr (s\<lparr>audit_log := tr\<rparr>)"
  by (auto simp: safe_write_def write_audit_def Let_def intro: exI [of _ "audit_log s"])

lemma record_action_total: "\<exists>tr. record_action c False i act d reason u s = Inr (s\<lparr>audit_log := tr\<rparr>)"
  unfolding record_action_def using safe_write_total by simp

lemma audit_changes_total:
  "\<not> mm_sensitive m \<Longrightarrow> \<exists>tr. audit_changes c m pk prev cur reason s = Inr (s\<lparr>audit_log := tr\<rparr>)"
proof (induction cur arbitrary: s)
  case Nil
  then show ?case by (auto intro: exI [of _ "audit_log s"])
next
  case (Cons x cur)
  obtain n v where x: "x = (n, v)" by (cases x)
  have "\<exists>tr. (if (case map_of prev n of None \<Rightarrow> VNone | Some w \<Rightarrow> w) \<noteq> v
       then record_change c (mm_sensitive m) (mm_label m, Some pk) n (case map_of prev n of None \<Rightarrow> VNone | Some w \<Rightarrow> w) v ''update'' reason None s
       else Inr s) = Inr (s\<lparr>audit_log := tr\<rparr>)"
    using Cons.prems safe_write_total by (auto simp: record_change_def intro: exI [of _ "audit_log s"])
  then obtain tr where tr: "(if (case map_of prev n of None \<Rightarrow> VNone | Some w \<Rightarrow> w) \<noteq> v
       then record_change c (mm_sensitive m) (mm_label m, Some pk) n (case map_of prev n of None \<Rightarrow> VNone | Some w \<Rightarrow> w) v ''update'' reason None s
       else Inr s) = Inr (s\<lparr>audit_log := tr\<rparr>)" by blast
  from Cons.IH [OF Cons.prems, of "s\<lparr>audit_log := tr\<rparr>"] show ?case by (simp add: x tr)
qed

lemma update_audited_total:
  "\<not> mm_sensitive m \<Longrightarrow> \<exists>tr. update_audited c m audited tbl upd k old r reason s = Inr ((upd (put_row k r (tbl s)) s)\<lparr>audit_log := tr\<rparr>)"
  unfolding update_audited_def audit_save_def by (simp add: audit_changes_total)

lemma insert_audited_total:
  "\<not> mm_sensitive m \<Longrightarrow> \<exists>tr. insert_audited c m audited tbl upd r reason s =
     Inr (fresh_pk (tbl s), (upd (add_row r (tbl s)) s)\<lparr>audit_log := tr\<rparr>)"
proof -
  assume m: "\<not> mm_sensitive m"
  obtain tr where "record_action c False (Some (mm_label m, Some (fresh_pk (tbl s)))) ''create''
      (''Created '' @ mm_verbose m) reason None (upd (add_row r (tbl s)) s) = Inr ((upd (add_row r (tbl s)) s)\<lparr>audit_log := tr\<rparr>)"
    using record_action_total by blast
  with m show ?thesis by (auto simp: insert_audited_def audit_save_def Let_def)
qed

lemma update_columns_total:
  "get_row (accounts s) k = Some a \<Longrightarrow>
     \<exists>tr. update_columns c k f s = Inr (s\<lparr>accounts := put_row k (f a) (accounts s), audit_log := tr\<rparr>)"
  unfolding update_columns_def using update_audited_total [of user_meta] by (simp add: user_meta_def)

lemma update_columns_Inr:
  assumes "update_columns c k f s = Inr s'"
  obtains a tr where "get_row (accounts s) k = Some a"
    and "s' = s\<lparr>accounts := put_row k (f a) (accounts s), audit_log := tr\<rparr>"
  using assms unfolding update_columns_def
  by (auto split: option.splits elim!: update_audited_Inr)

lemma save_account_Inr:
  assumes "save_account c k f s = Inr s'"
  obtains a a' tr where "get_row (accounts s) k = Some a" and "a' = (f a)\<lparr>acc_email := normal_email (acc_email (f a))\<rparr>"
    and "\<not> email_taken (Some k) (acc_email a') s" and "s' = s\<lparr>accounts := put_row k a' (accounts s), audit_log := tr\<rparr>"
  using assms unfolding save_account_def Let_def
  by (auto split: option.splits if_splits elim!: update_audited_Inr)

lemma user_action_total: "\<exists>tr. user_action c k act d s = Inr (s\<lparr>audit_log := tr\<rparr>)"
  unfolding user_action_def by (rule record_action_total)

lemma user_action_Inr:
  assumes "user_action c k act d s = Inr s'"
  obtains tr where "s' = s\<lparr>audit_log := tr\<rparr>"
  using assms user_action_total [of c k act d s] by auto

section \<open>Accounts and backup codes\<close>

text \<open>
  Most operations write accounts, backup codes and the audit trail only; the ones that write
  accounts keep the emails, with the exception of those that make or edit an account, which
  check them.
\<close>

definition email_key :: "account \<Rightarrow> string option" where
  "email_key a = Some (map lower_char (acc_email a))"

definition accounts_keyed :: "'a accounts_db_scheme \<Rightarrow> bool" where
  "accounts_keyed s \<longleftrightarrow> wf_table (accounts s) \<and> unique_on email_key (accounts s) \<and> wf_table (backup_codes s)"

inductive account_effect :: "'a accounts_db_scheme \<Rightarrow> 'a accounts_db_scheme \<Rightarrow> bool" where
  Account: "wrote k a (accounts s) t \<Longrightarrow> key_free email_key k a (accounts s) \<Longrightarrow>
    account_effect s (s\<lparr>accounts := t, audit_log := tr\<rparr>)"
| Columns: "get_row (accounts s) k = Some a \<Longrightarrow> acc_email a' = acc_email a \<Longrightarrow>
    account_effect s (s\<lparr>accounts := put_row k a' (accounts s), audit_log := tr\<rparr>)"
| Codes: "wf_table (backup_codes s) \<longrightarrow> wf_table bc \<Longrightarrow> account_effect s (s\<lparr>backup_codes := bc, audit_log := tr\<rparr>)"
| Trans: "account_effect s s1 \<Longrightarrow> account_effect s1 s2 \<Longrightarrow> account_effect s s2"

lemma account_effect_log: "account_effect s (s\<lparr>audit_log := tr\<rparr>)"
  using account_effect.Codes [of s "backup_codes s" tr] by simp

lemma account_effect_refl: "account_effect s s"
  using account_effect_log [of s "audit_log s"] by simp

lemma update_columns_effect:
  assumes "update_columns c k f s = Inr s'" and "\<And>a. acc_email (f a) = acc_email a"
  shows "account_effect s s'"
  using assms(1) by (rule update_columns_Inr) (simp add: account_effect.Columns assms(2))

lemma email_free: "\<not> email_taken (Some k) (acc_email a) s \<Longrightarrow> key_free email_key k a (accounts s)"
  using key_free_other [of k email_key a "accounts s"] by (simp add: email_taken_def same_email_def email_key_def eq_commute)

lemma save_account_effect: "save_account c k f s = Inr s' \<Longrightarrow> account_effect s s'"
  by (erule save_account_Inr) (auto intro!: account_effect.Account wrote_put email_free)

lemma user_action_effect: "user_action c k act d s = Inr s' \<Longrightarrow> account_effect s s'"
  by (erule user_action_Inr) (simp add: account_effect_log)

lemmas update_columns_then = account_effect.Trans [OF update_columns_effect]
lemmas save_account_then = account_effect.Trans [OF save_account_effect]

lemma create_account_effect: "create_account lib c salt a password s = Inr (k, s') \<Longrightarrow> account_effect s s'"
proof -
  assume run: "create_account lib c salt a password s = Inr (k, s')"
  define a' where "a' = a\<lparr>acc_email := normal_email (acc_email a), acc_is_superuser := False, acc_mfa_secret := [],
    acc_must_change_password := True, acc_password := make_password lib salt password, acc_last_login := None,
    acc_last_login_ip := None, acc_failed_login_attempts := 0, acc_locked_until := None\<rparr>"
  from run have "\<not> email_taken None (acc_email a') s"
    and "insert_audited c user_meta user_audit accounts put_accounts a' [] s = Inr (k, s')"
    unfolding create_account_def Let_def a'_def by (auto split: if_splits elim!: bindE_InrE)
  moreover from this(1) have "key_free email_key (fresh_pk (accounts s)) a' (accounts s)"
    using key_free_fresh [of email_key a' "accounts s"] by (simp add: email_taken_def same_email_def email_key_def eq_commute)
  ultimately show ?thesis by (elim insert_audited_wrote) (simp add: account_effect.Account)
qed

lemma update_account_effect: "update_account lib c salt k ch s = Inr s' \<Longrightarrow> account_effect s s'"
  unfolding update_account_def
  by (auto split: option.splits if_splits elim!: bindE_InrE intro: save_account_effect)
    (erule save_account_then, erule update_columns_effect, simp)

lemma change_password_effect: "change_password lib c salt k current new s = Inr s' \<Longrightarrow> account_effect s s'"
  unfolding change_password_def by (auto split: option.splits if_splits elim!: update_columns_effect)

lemma record_successful_login_effect: "record_successful_login c k ip s = Inr s' \<Longrightarrow> account_effect s s'"
  unfolding record_successful_login_def
  by (elim bindE_InrE) (auto intro: update_columns_then user_action_effect)

lemma count_failure_email [simp]: "acc_email (count_failure c m l a) = acc_email a"
  by (simp add: count_failure_def Let_def)

lemma record_failed_login_effect: "record_failed_login c email m l s = Inr s' \<Longrightarrow> account_effect s s'"
  unfolding record_failed_login_def Let_def
  by (auto split: option.splits if_splits elim!: bindE_InrE record_actionE intro: account_effect_log)
    (erule update_columns_then, simp, erule user_action_effect)+

lemma start_mfa_effect: "start_mfa_enrolment lib c k secret s = Inr (uri, s') \<Longrightarrow> account_effect s s'"
  unfolding start_mfa_enrolment_def by (auto split: option.splits if_splits elim!: bindE_InrE update_columns_effect)

lemma wf_fold_add: "wf_table t \<Longrightarrow> wf_table (fold (\<lambda>i. add_row (f i)) xs t)"
  by (induction xs arbitrary: t) simp_all

lemma wf_filter_rows: "wf_table t \<Longrightarrow> wf_table (filter_rows P t)"
  by (auto simp: wf_table_def filter_rows_def distinct_map intro: inj_on_subset)

lemma issue_codes_effect: "issue_backup_codes lib c k token salt s = (codes, s') \<Longrightarrow> account_effect s s'"
  unfolding issue_backup_codes_def Let_def
  using account_effect.Codes [of s _ "audit_log s"] by (auto simp: wf_fold_add wf_filter_rows)

lemmas issue_codes_then = account_effect.Trans [OF issue_codes_effect]

lemma confirm_mfa_effect: "confirm_mfa_enrolment lib c k code token salt s = Inr (codes, s') \<Longrightarrow> account_effect s s'"
  unfolding confirm_mfa_enrolment_def
  by (auto split: option.splits if_splits prod.splits elim!: bindE_InrE)
    (erule update_columns_then, simp, erule issue_codes_then, erule user_action_effect)

lemma disable_mfa_effect:
  assumes "disable_mfa lib c k current s = Inr s'"
  shows "account_effect s s'"
proof -
  from assms obtain s1 where s1: "update_columns c k (\<lambda>b. b\<lparr>acc_mfa_enabled := False, acc_mfa_secret := []\<rparr>) s = Inr s1"
    and s': "user_action c k ''mfa_disabled'' ''MFA disabled''
      (s1\<lparr>backup_codes := filter_rows (\<lambda>_ b. bc_user b \<noteq> k) (backup_codes s1)\<rparr>) = Inr s'"
    unfolding disable_mfa_def by (auto split: option.splits if_splits elim!: bindE_InrE)
  have "account_effect s s1" using s1 by (rule update_columns_effect) simp
  moreover from s' obtain tr where "s' = s1\<lparr>backup_codes := filter_rows (\<lambda>_ b. bc_user b \<noteq> k) (backup_codes s1), audit_log := tr\<rparr>"
    by (rule user_action_Inr) simp
  ultimately show ?thesis using account_effect.Codes [of s1 "filter_rows (\<lambda>_ b. bc_user b \<noteq> k) (backup_codes s1)" tr]
    by (auto intro: account_effect.Trans simp: wf_filter_rows)
qed

lemma verify_mfa_effect: "verify_mfa_code lib c k code s = (ok, s') \<Longrightarrow> account_effect s s'"
  unfolding verify_mfa_code_def using account_effect.Codes [of s _ "audit_log s"]
  by (auto split: option.splits if_splits simp: account_effect_refl)

lemma login_failed_effect: "login_failed res c email m l s = (r, s') \<Longrightarrow> account_effect s s'"
  unfolding login_failed_def by (auto split: sum.splits intro: record_failed_login_effect account_effect_refl)


text \<open>What a sign-in did, by its result.\<close>

lemma lower_char_idem [simp]: "lower_char (lower_char ch) = lower_char ch"
  by (simp add: lower_char_def Let_def)

lemma find_account_normal: "find_account (strip typed) s = find_account (normal_email typed) s"
  by (simp add: find_account_def same_email_def normal_email_def comp_def)

lemma find_account_get: "accounts_keyed s \<Longrightarrow> find_account e s = Some (k, a) \<Longrightarrow> get_row (accounts s) k = Some a"
  unfolding find_account_def accounts_keyed_def by (blast dest: first_row_get)

lemma successful_login_total:
  assumes "get_row (accounts s) k \<noteq> None"
  obtains s' where "record_successful_login c k ip s = Inr s'"
proof -
  from assms obtain a where "get_row (accounts s) k = Some a" by auto
  from update_columns_total [OF this] obtain s1 where s1: "update_columns c k (\<lambda>a. a\<lparr>acc_failed_login_attempts := 0,
      acc_locked_until := None, acc_last_login_ip := ip, acc_last_login := Some (now c)\<rparr>) s = Inr s1" by blast
  obtain s2 where "user_action c k ''login''
      (''Signed in ('' @ (if primary_role_code k s1 = [] then ''no role'' else primary_role_code k s1) @ '')'') s1 = Inr s2"
    using user_action_total by blast
  with s1 have "record_successful_login c k ip s = Inr s2" by (simp add: record_successful_login_def)
  then show thesis by (rule that)
qed

lemma login_cases:
  assumes "login lib c typed password otp m l ip s = (res, s')" and inv: "accounts_keyed s"
  obtains (Locked) k a where "res = AccountLocked" and "s' = s" and "find_account (normal_email typed) s = Some (k, a)"
      and "is_locked_out c a"
  | (Failed) r sm where "login_failed r c (normal_email typed) m l sm = (res, s')" and "r \<noteq> AccountLocked" and "\<forall>k. r \<noteq> LoggedIn k"
      and "\<forall>k a. find_account (normal_email typed) s = Some (k, a) \<longrightarrow> \<not> is_locked_out c a"
      and "sm = s \<or> (\<exists>k a tr. find_account (normal_email typed) s = Some (k, a) \<and>
        sm = s\<lparr>accounts := put_row k (a\<lparr>acc_last_login := Some (now c)\<rparr>) (accounts s), audit_log := tr\<rparr>)"
  | (In) k a tr s1 s2 where "res = LoggedIn k" and "find_account (normal_email typed) s = Some (k, a)" and "\<not> is_locked_out c a"
      and "check_password lib password (acc_password a)" and "acc_is_active a"
      and "s1 = s\<lparr>accounts := put_row k (a\<lparr>acc_last_login := Some (now c)\<rparr>) (accounts s), audit_log := tr\<rparr>"
      and "(if acc_mfa_enabled a then verify_mfa_code lib c k otp s1 else (True, s1)) = (True, s2)"
      and "record_successful_login c k ip s2 = Inr s'"
proof (cases "find_account (normal_email typed) s")
  case None
  then have "login_failed BadCredentials c (normal_email typed) m l s = (res, s')"
    using assms(1) by (simp add: login_def Let_def authenticate_def find_account_normal)
  then show thesis by (rule Failed) (use None in auto)
next
  case (Some p)
  obtain k a where p: "p = (k, a)" by (cases p)
  note found = Some [unfolded p]
  have row: "get_row (accounts s) k = Some a" using inv found by (rule find_account_get)
  show thesis
  proof (cases "is_locked_out c a")
    case True
    then show thesis using assms(1) found by (intro Locked) (simp_all add: login_def Let_def)
  next
    case unlocked: False
    show thesis
    proof (cases "check_password lib password (acc_password a) \<and> acc_is_active a")
      case False
      then have "authenticate lib (strip typed) password s = None"
        using found by (auto simp: authenticate_def find_account_normal)
      then have "login_failed BadCredentials c (normal_email typed) m l s = (res, s')"
        using assms(1) found unlocked by (simp add: login_def Let_def)
      then show thesis by (rule Failed) (use found unlocked in auto)
    next
      case True
      then have auth: "authenticate lib (strip typed) password s = Some (k, a)"
        using found by (simp add: authenticate_def find_account_normal)
      obtain tr where "update_columns c k (\<lambda>b. b\<lparr>acc_last_login := Some (now c)\<rparr>) s =
          Inr (s\<lparr>accounts := put_row k (a\<lparr>acc_last_login := Some (now c)\<rparr>) (accounts s), audit_log := tr\<rparr>)"
        using update_columns_total [OF row] by blast
      moreover define s1 where "s1 = s\<lparr>accounts := put_row k (a\<lparr>acc_last_login := Some (now c)\<rparr>) (accounts s), audit_log := tr\<rparr>"
      ultimately have stamp: "update_columns c k (\<lambda>b. b\<lparr>acc_last_login := Some (now c)\<rparr>) s = Inr s1" by simp
      obtain passed s2 where factor: "(if acc_mfa_enabled a then verify_mfa_code lib c k otp s1 else (True, s1)) = (passed, s2)"
        by (rule prod.exhaust)
      show thesis
      proof (cases passed)
        case False
        then have "s2 = s1" using factor by (auto simp: verify_mfa_code_def split: option.splits if_splits)
        then have "login_failed MFARequired c (normal_email typed) m l s1 = (res, s')"
          using assms(1) found unlocked auth False stamp factor by (simp add: login_def Let_def)
        then show thesis by (rule Failed) (use found unlocked in \<open>auto simp: s1_def\<close>)
      next
        case passed: True
        have "accounts s2 = accounts s1"
          using factor by (auto simp: verify_mfa_code_def split: option.splits if_splits)
        then have "get_row (accounts s2) k \<noteq> None" using row by (simp add: s1_def get_put_row)
        then obtain s3 where fin: "record_successful_login c k ip s2 = Inr s3"
          by (rule successful_login_total)
        then have "res = LoggedIn k \<and> s' = s3"
          using assms(1) found unlocked auth passed stamp factor by (simp add: login_def Let_def)
        then show thesis using fin found unlocked True factor passed by (intro In [of k a s1 tr s2]) (auto simp: s1_def)
      qed
    qed
  qed
qed

lemma stamped_login_effect:
  assumes "(let (passed, s2) = (if mfa then verify_mfa_code lib c k otp s1 else (True, s1)) in
      if \<not> passed then login_failed MFARequired c email m l s2
      else case record_successful_login c k ip s2 of
          Inl e \<Rightarrow> (LoginError e, s2)
        | Inr s3 \<Rightarrow> (LoggedIn k, s3)) = (res, s')"
  shows "account_effect s1 s'"
proof -
  obtain passed s2 where factor: "(if mfa then verify_mfa_code lib c k otp s1 else (True, s1)) = (passed, s2)"
    by (rule prod.exhaust)
  have "account_effect s1 s2"
    using factor by (auto split: if_splits simp: account_effect_refl elim: verify_mfa_effect)
  moreover have "account_effect s2 s'"
    using assms factor login_failed_effect [of MFARequired c email m l s2 res s'] record_successful_login_effect [of c k ip s2]
    by (auto split: if_splits sum.splits simp: account_effect_refl)
  ultimately show ?thesis by (rule account_effect.Trans)
qed

lemma login_effect:
  assumes "login lib c typed password otp m l ip s = (res, s')"
  shows "account_effect s s'"
proof (cases "\<exists>k a. find_account (normal_email typed) s = Some (k, a) \<and> is_locked_out c a")
  case True
  with assms have "s' = s" by (auto simp: login_def Let_def)
  then show ?thesis by (simp add: account_effect_refl)
next
  case False
  then have open_account: "\<not> (case find_account (normal_email typed) s of None \<Rightarrow> False | Some (_, a) \<Rightarrow> is_locked_out c a)"
    by (auto split: option.splits)
  note run = assms [unfolded login_def Let_def if_not_P [OF open_account]]
  show ?thesis
  proof (cases "authenticate lib (strip typed) password s")
    case None
    with run show ?thesis by (auto intro: login_failed_effect)
  next
    case (Some p)
    obtain k a where p: "p = (k, a)" by (cases p)
    show ?thesis
    proof (cases "update_columns c k (\<lambda>b. b\<lparr>acc_last_login := Some (now c)\<rparr>) s")
      case (Inl e)
      with run Some p show ?thesis by (auto intro: login_failed_effect)
    next
      case (Inr s1)
      then have "account_effect s s1" by (rule update_columns_effect) simp
      moreover from run Some p Inr have "account_effect s1 s'"
        by (intro stamped_login_effect [unfolded Let_def]) simp
      ultimately show ?thesis by (rule account_effect.Trans)
    qed
  qed
qed

section \<open>Roles, groups and permissions agree\<close>

definition access_same :: "'a accounts_db_scheme \<Rightarrow> 'a accounts_db_scheme \<Rightarrow> bool" where
  "access_same s s' \<longleftrightarrow>
     roles s' = roles s \<and> user_roles s' = user_roles s \<and> auth_groups s' = auth_groups s \<and>
     group_members s' = group_members s \<and> group_permissions s' = group_permissions s"

lemma account_effect_access: "account_effect s s' \<Longrightarrow> access_same s s'"
  by (induction rule: account_effect.induct) (auto simp: access_same_def)

lemma account_effect_keyed: "account_effect s s' \<Longrightarrow> accounts_keyed s \<Longrightarrow> accounts_keyed s'"
proof (induction rule: account_effect.induct)
  case (Account k a s t tr)
  then show ?case by (simp add: accounts_keyed_def wf_wroteI unique_on_wrote)
next
  case (Columns s k a a' tr)
  then have "key_free email_key k a' (accounts s)"
    by (intro key_free_same) (simp_all add: accounts_keyed_def email_key_def)
  with Columns show ?case by (simp add: accounts_keyed_def unique_on_wrote [OF wrote_put])
qed (simp_all add: accounts_keyed_def)

definition role_row :: "'a accounts_db_scheme \<Rightarrow> nat \<Rightarrow> nat \<Rightarrow> string \<Rightarrow> bool" where
  "role_row s r g code \<longleftrightarrow> (\<exists>rl. get_row (roles s) r = Some rl \<and> rl_group rl = Some g \<and> rl_code rl = code)"

definition role_code_key :: "role \<Rightarrow> string option" where
  "role_code_key rl = Some (rl_code rl)"

definition access_inv :: "string set \<Rightarrow> 'a accounts_db_scheme \<Rightarrow> bool" where
  "access_inv av s \<longleftrightarrow>
     wf_table (roles s) \<and> unique_on role_code_key (roles s) \<and> wf_table (auth_groups s) \<and> unique_on Some (auth_groups s) \<and>
     (\<forall>r rl. get_row (roles s) r = Some rl \<longrightarrow> (\<exists>g. rl_group rl = Some g \<and> get_row (auth_groups s) g = Some (rl_code rl))) \<and>
     (\<forall>u r. has_active_role u r s \<longrightarrow> get_row (roles s) r \<noteq> None) \<and>
     (\<forall>u g. (u, g) \<in> set (group_members s) \<longleftrightarrow> (\<exists>r code. role_row s r g code \<and> has_active_role u r s)) \<and>
     (\<forall>g p. (g, p) \<in> set (group_permissions s) \<longleftrightarrow> (\<exists>r code. role_row s r g code \<and> p \<in> permissions_for code \<inter> av))"

lemma access_inv_same: "access_same s s' \<Longrightarrow> access_inv av s \<Longrightarrow> access_inv av s'"
  by (simp add: access_same_def access_inv_def role_row_def has_active_role_def)

lemma access_invD:
  assumes "access_inv av s"
  shows "(u, g) \<in> set (group_members s) \<longleftrightarrow> (\<exists>r code. role_row s r g code \<and> has_active_role u r s)"
    and "(g, p) \<in> set (group_permissions s) \<longleftrightarrow> (\<exists>r code. role_row s r g code \<and> p \<in> permissions_for code \<inter> av)"
    and "get_row (roles s) r = Some rl \<Longrightarrow> \<exists>g. rl_group rl = Some g \<and> role_row s r g (rl_code rl)"
    and "get_row (roles s) r = Some rl \<Longrightarrow> \<exists>g. rl_group rl = Some g \<and> get_row (auth_groups s) g = Some (rl_code rl)"
  using assms unfolding access_inv_def role_row_def by blast+

text \<open>A group belongs to one role.\<close>

lemma role_of_group:
  assumes "access_inv av s" and "role_row s r g code" and "role_row s r' g code'"
  shows "r' = r" and "code' = code"
proof -
  from assms have "get_row (auth_groups s) g = Some code" and "get_row (auth_groups s) g = Some code'"
    unfolding access_inv_def role_row_def by (metis option.inject)+
  then show "code' = code" by simp
  with assms have "unique_on role_code_key (roles s)" "\<exists>a. get_row (roles s) r = Some a \<and> rl_code a = code"
    "\<exists>a. get_row (roles s) r' = Some a \<and> rl_code a = code" by (auto simp: access_inv_def role_row_def)
  then show "r' = r" by (auto simp: unique_on_def role_code_key_def)
qed

text \<open>So a user has the permissions of the roles it holds, and no others.\<close>

lemma perm_iff:
  assumes "access_inv av s" and "get_row (accounts s) k = Some a"
  shows "user_has_perm k s p \<longleftrightarrow> acc_is_active a \<and>
    (acc_is_superuser a \<or> p \<in> av \<and> (\<exists>code \<in> set (role_codes k s). p \<in> permissions_for code))"
proof -
  have "(\<exists>g. (k, g) \<in> set (group_members s) \<and> (g, p) \<in> set (group_permissions s)) \<longleftrightarrow>
      p \<in> av \<and> (\<exists>code \<in> set (role_codes k s). p \<in> permissions_for code)" (is "?L \<longleftrightarrow> ?R")
  proof
    assume ?L
    then obtain g r code r' code' where "role_row s r g code" and act: "has_active_role k r s"
      and "role_row s r' g code'" and p: "p \<in> permissions_for code'" "p \<in> av"
      unfolding access_invD(1,2) [OF assms(1)] by blast
    with role_of_group [OF assms(1)] have row: "role_row s r g code'" by metis
    then obtain rl where "get_row (roles s) r = Some rl" and "rl_code rl = code'" by (auto simp: role_row_def)
    with act have "code' \<in> set (role_codes k s)"
      by (force simp: role_codes_def active_roles_def filter_rows_def get_row_def dest: map_of_SomeD)
    with p show ?R by blast
  next
    assume ?R
    then obtain code where p: "p \<in> av" "p \<in> permissions_for code" and "code \<in> set (role_codes k s)" by blast
    then obtain r rl where mem: "(r, rl) \<in> set (roles s)" and act: "has_active_role k r s" and code: "rl_code rl = code"
      by (auto simp: role_codes_def active_roles_def filter_rows_def)
    from assms(1) mem have "get_row (roles s) r = Some rl" by (simp add: access_inv_def in_set_get_row)
    from access_invD(3) [OF assms(1) this] code obtain g where "role_row s r g code" by blast
    with act p show ?L unfolding access_invD(1,2) [OF assms(1)] by blast
  qed
  then show ?thesis using assms(2) by (auto simp: user_has_perm_def list_ex_iff)
qed

section \<open>Granting, revoking, repairing, seeding\<close>

lemma find_role_row:
  assumes "access_inv av s" and "find_role code s = Some (r, rl)"
  obtains g where "get_row (roles s) r = Some rl" and "rl_group rl = Some g" and "role_row s r g code" and "rl_code rl = code"
proof -
  from assms(2) have code: "rl_code rl = code" unfolding find_role_def by (blast dest: first_row_Some)
  have "get_row (roles s) r = Some rl"
    using assms unfolding find_role_def access_inv_def by (blast dest: first_row_get)
  moreover from access_invD(3) [OF assms(1) this] code obtain g where "rl_group rl = Some g" and "role_row s r g code" by blast
  ultimately show thesis using that code by blast
qed

lemma set_group_add: "set (group_add u (Some g) ms) = insert (u, g) (set ms)"
  by (auto simp: group_add_def)

lemma set_group_remove: "set (group_remove u (Some g) ms) = set ms - {(u, g)}"
  by (auto simp: group_remove_def)

lemma role_row_fun: "role_row s r g code \<Longrightarrow> role_row s r g' code' \<Longrightarrow> g' = g \<and> code' = code"
  by (auto simp: role_row_def)

lemma access_inv_members:
  assumes "access_inv av s" and "roles s' = roles s" and "auth_groups s' = auth_groups s"
    and "group_permissions s' = group_permissions s"
    and "\<And>u r. has_active_role u r s' \<Longrightarrow> get_row (roles s) r \<noteq> None"
    and "\<And>u g. (u, g) \<in> set (group_members s') \<longleftrightarrow> (\<exists>r code. role_row s r g code \<and> has_active_role u r s')"
  shows "access_inv av s'"
proof -
  have "role_row s' = role_row s" using assms(2) by (intro ext) (simp add: role_row_def)
  then show ?thesis using assms unfolding access_inv_def by simp
qed

lemma grant_role_Inr:
  assumes "grant_role c u code by_user reason s = Inr (k, s')"
  obtains (Same) r where "s' = s" and "has_active_role u r s" | (New) r rl a tr where "find_role code s = Some (r, rl)"
      and "ur_user a = u" "ur_role a = r" "ur_revoked_at a = None"
      and "s' = s\<lparr>user_roles := add_row a (user_roles s), group_members := group_add u (rl_group rl) (group_members s), audit_log := tr\<rparr>"
proof (cases "find_role code s")
  case (Some p)
  obtain r rl where p: "p = (r, rl)" by (cases p)
  define a where "a = \<lparr>ur_user = u, ur_role = r, ur_granted_by = actor_fk by_user, ur_granted_at = now c, ur_revoked_by = None,
    ur_revoked_at = None, ur_reason = reason\<rparr>"
  show thesis
  proof (cases "active_assignment u r s")
    case None
    with assms Some obtain s2 where "record_action c False (Some (mm_label user_meta, Some u)) ''role_grant''
        (''Granted role '' @ [CHR 0x27] @ rl_code rl @ [CHR 0x27]) reason by_user
        (s\<lparr>user_roles := add_row a (user_roles s), group_members := group_add u (rl_group rl) (group_members s)\<rparr>) = Inr s2"
      and "s' = s2" unfolding grant_role_def Let_def a_def by (auto simp: p split: if_splits elim!: bindE_InrE)
    then obtain tr where "s' = s\<lparr>user_roles := add_row a (user_roles s),
        group_members := group_add u (rl_group rl) (group_members s), audit_log := tr\<rparr>"
      by (elim record_actionE) simp
    then show thesis using Some p by (intro New [of r rl a tr]) (simp_all add: a_def)
  next
    case assigned: (Some q)
    then have "has_active_role u r s"
      using first_row_None [of "\<lambda>_ a. ur_user a = u \<and> ur_role a = r \<and> ur_revoked_at a = None" "user_roles s"]
      unfolding active_assignment_def has_active_role_def by simp
    then show thesis using assms Some assigned by (intro Same [of r]) (auto simp: grant_role_def p split: prod.splits)
  qed
qed (use assms in \<open>simp add: grant_role_def\<close>)

lemma grant_role_access:
  assumes inv: "access_inv av s" and "grant_role c u code by_user reason s = Inr (k, s')"
  shows "access_inv av s'"
  using assms(2)
proof (cases rule: grant_role_Inr)
    case Same
    with inv show ?thesis by simp
  next
    case 2: (New r rl a tr)
    from inv 2(1) obtain g where g: "rl_group rl = Some g" and row: "role_row s r g code" "get_row (roles s) r = Some rl"
      by (rule find_role_row)
    have act: "has_active_role u' r' s' \<longleftrightarrow> has_active_role u' r' s \<or> u' = u \<and> r' = r" for u' r'
      using 2 by (auto simp: has_active_role_def exists_row_def add_row_def)
    have mem: "set (group_members s') = insert (u, g) (set (group_members s))" by (simp add: 2(5) g set_group_add)
    show ?thesis
    proof (rule access_inv_members [OF inv])
      fix u' g'
      have "(u', g') \<in> set (group_members s') \<longleftrightarrow> (u' = u \<and> g' = g) \<or> (\<exists>r code. role_row s r g' code \<and> has_active_role u' r s)"
        unfolding mem using access_invD(1) [OF inv, of u' g'] by blast
      also have "\<dots> \<longleftrightarrow> (\<exists>r code. role_row s r g' code \<and> has_active_role u' r s')"
        unfolding act using row(1) role_row_fun by metis
      finally show "(u', g') \<in> set (group_members s') \<longleftrightarrow> (\<exists>r code. role_row s r g' code \<and> has_active_role u' r s')" .
    next
      fix u' r' assume "has_active_role u' r' s'"
      then show "get_row (roles s) r' \<noteq> None" using inv row(2) unfolding act access_inv_def by auto
    qed (simp_all add: 2(5))
qed

lemma exists_row_mapped: "exists_row P (map (\<lambda>(k, a). (k, f a)) t) = exists_row (\<lambda>k a. P k (f a)) t"
  by (induction t) (auto simp: exists_row_def)

lemma exists_row_same: "(\<And>k a. P k a = Q k a) \<Longrightarrow> exists_row P t = exists_row Q t"
  by presburger

lemma revoke_role_access:
  assumes inv: "access_inv av s" and "revoke_role c u code by_user reason s = Inr s'"
  shows "access_inv av s'"
proof (cases "s' = s")
  case False
  with assms(2) obtain r rl where found: "find_role code s = Some (r, rl)"
    and act: "record_action c False (Some (mm_label user_meta, Some u)) ''role_revoke''
      (''Revoked role '' @ [CHR 0x27] @ rl_code rl @ [CHR 0x27]) reason by_user
      (s\<lparr>user_roles := map (\<lambda>(k, a). (k, if ur_user a = u \<and> ur_role a = r \<and> ur_revoked_at a = None
           then revoked c by_user reason a else a)) (user_roles s),
         group_members := group_remove u (rl_group rl) (group_members s)\<rparr>) = Inr s'"
    unfolding revoke_role_def by (auto split: option.splits if_splits)
  from act obtain tr where s': "s' = s\<lparr>user_roles := map (\<lambda>(k, a). (k, if ur_user a = u \<and> ur_role a = r \<and> ur_revoked_at a = None
           then revoked c by_user reason a else a)) (user_roles s),
         group_members := group_remove u (rl_group rl) (group_members s), audit_log := tr\<rparr>"
    by (rule record_actionE) simp
  from inv found obtain g where g: "rl_group rl = Some g" and row: "role_row s r g code" by (rule find_role_row)
  have act: "has_active_role u' r' s' \<longleftrightarrow> has_active_role u' r' s \<and> \<not> (u' = u \<and> r' = r)" for u' r'
  proof -
    have "has_active_role u' r' s' = exists_row (\<lambda>_ a. (ur_user a = u' \<and> ur_role a = r' \<and> ur_revoked_at a = None) \<and>
        \<not> (u' = u \<and> r' = r)) (user_roles s)"
      unfolding has_active_role_def s' by (simp add: exists_row_mapped) (rule exists_row_same, auto simp: revoked_def)
    then show ?thesis by (cases "u' = u \<and> r' = r") (auto simp: has_active_role_def exists_row_def list_ex_iff)
  qed
  have mem: "set (group_members s') = set (group_members s) - {(u, g)}" by (simp add: s' g set_group_remove)
  show ?thesis
  proof (rule access_inv_members [OF inv])
    fix u' g'
    have "(u', g') \<in> set (group_members s') \<longleftrightarrow>
        \<not> (u' = u \<and> g' = g) \<and> (\<exists>r code. role_row s r g' code \<and> has_active_role u' r s)"
      unfolding mem using access_invD(1) [OF inv, of u' g'] by blast
    also have "\<dots> \<longleftrightarrow> (\<exists>r code. role_row s r g' code \<and> has_active_role u' r s')"
      unfolding act using row role_row_fun role_of_group(1) [OF inv] by metis
    finally show "(u', g') \<in> set (group_members s') \<longleftrightarrow> (\<exists>r code. role_row s r g' code \<and> has_active_role u' r s')" .
  next
    fix u' r' assume "has_active_role u' r' s'"
    then show "get_row (roles s) r' \<noteq> None" using inv unfolding act access_inv_def by auto
  qed (simp_all add: s')
qed (use inv in simp)

lemma resync_access:
  assumes inv: "access_inv av s"
  shows "set (group_members (resync_groups u s)) = set (group_members s)" and "access_inv av (resync_groups u s)"
proof -
  have "g \<in> set (List.map_filter (\<lambda>(_, r). rl_group r) (active_roles u s)) \<longleftrightarrow> (u, g) \<in> set (group_members s)" for g
  proof -
    have "g \<in> set (List.map_filter (\<lambda>(_, r). rl_group r) (active_roles u s)) \<longleftrightarrow>
        (\<exists>r rl. (r, rl) \<in> set (roles s) \<and> rl_group rl = Some g \<and> has_active_role u r s)"
      by (force simp: List.map_filter_def active_roles_def filter_rows_def)
    also have "\<dots> \<longleftrightarrow> (\<exists>r code. role_row s r g code \<and> has_active_role u r s)"
    proof -
      have "(r, rl) \<in> set (roles s) \<longleftrightarrow> get_row (roles s) r = Some rl" for r rl
        using inv in_set_iff_get_row [of "roles s"] by (simp add: access_inv_def)
      then show ?thesis by (auto simp: role_row_def)
    qed
    finally show ?thesis using access_invD(1) [OF inv] by simp
  qed
  then have "set (List.map_filter (\<lambda>(_, r). rl_group r) (active_roles u s)) = {g. (u, g) \<in> set (group_members s)}" by blast
  then have "set (group_members (resync_groups u s)) = {m \<in> set (group_members s). fst m \<noteq> u} \<union> Pair u ` {g. (u, g) \<in> set (group_members s)}"
    by (simp add: resync_groups_def)
  then show set_eq: "set (group_members (resync_groups u s)) = set (group_members s)" by auto
  have "has_active_role u' r (resync_groups u s) = has_active_role u' r s" "role_row (resync_groups u s) = role_row s" for u' r
    by (auto simp: has_active_role_def resync_groups_def role_row_def fun_eq_iff)
  with inv show "access_inv av (resync_groups u s)" unfolding access_inv_def set_eq by (simp add: resync_groups_def)
qed

lemma group_for_cases:
  assumes "group_for code s = (g, s1)"
  obtains (Old) "s1 = s" and "(g, code) \<in> set (auth_groups s)"
    | (New) "g = fresh_pk (auth_groups s)" and "s1 = s\<lparr>auth_groups := add_row code (auth_groups s)\<rparr>"
      and "\<not> exists_row (\<lambda>_ n. n = code) (auth_groups s)"
  using assms unfolding group_for_def
  by (auto split: option.splits simp: first_row_None dest: first_row_Some)

lemma role_row_put:
  assumes "get_row (roles s) k = Some old" and "rl_group old = Some g" and "rl_code old = code"
    and "roles s' = put_row k r (roles s)" and "rl_group r = Some g" and "rl_code r = code"
  shows "role_row s' = role_row s"
  using assms by (auto simp: role_row_def get_put_row fun_eq_iff)

definition seeded_role :: "role_definition \<Rightarrow> nat \<Rightarrow> role" where
  "seeded_role d g = \<lparr>rl_code = rd_code d, rl_name = rd_name d, rl_group = Some g, rl_is_system = True\<rparr>"

lemma seed_role_tables:
  assumes g: "group_for (rd_code d) s = (g, s1)" and s': "s' = seed_role av prune d s"
  shows "roles s' = (case find_role (rd_code d) s1 of None \<Rightarrow> add_row (seeded_role d g) (roles s1)
      | Some (k, _) \<Rightarrow> put_row k (seeded_role d g) (roles s1))"
    and "user_roles s' = user_roles s1" and "auth_groups s' = auth_groups s1" and "group_members s' = group_members s1"
    and "set (group_permissions s') = (if prune then {(j, p) \<in> set (group_permissions s1). j \<noteq> g} else set (group_permissions s1)) \<union>
      Pair g ` (set (rd_permissions d) \<inter> set av)"
    and "accounts s' = accounts s1" and "backup_codes s' = backup_codes s1" and "audit_log s' = audit_log s1"
  unfolding s' seed_role_def g seeded_role_def Let_def by (auto split: prod.splits)

lemma find_role_None: "find_role code s = None \<Longrightarrow> (r, rl) \<in> set (roles s) \<Longrightarrow> rl_code rl \<noteq> code"
  by (auto simp: find_role_def first_row_None exists_row_iff)

lemma seed_role_new:
  assumes inv: "access_inv (set av) s" and d: "d \<in> set ROLES" and grp: "group_for (rd_code d) s = (g, s1)"
    and none: "find_role (rd_code d) s = None"
  shows "access_inv (set av) (seed_role av prune d s)"
proof -
  define s' where "s' = seed_role av prune d s"
  note tabs = seed_role_tables [OF grp s'_def]
  let ?k = "fresh_pk (roles s)" and ?r = "seeded_role d g"
  have same: "roles s1 = roles s" "user_roles s1 = user_roles s" "group_members s1 = group_members s"
      "group_permissions s1 = group_permissions s"
    using grp by (cases rule: group_for_cases; simp)+
  have g: "get_row (auth_groups s1) g = Some (rd_code d)"
    using grp inv by (cases rule: group_for_cases) (auto simp: access_inv_def in_set_get_row get_add_row)
  have groups: "wf_table (auth_groups s1)" "unique_on Some (auth_groups s1)"
  proof -
    have old: "wf_table (auth_groups s)" "unique_on Some (auth_groups s)" using inv by (simp_all add: access_inv_def)
    show "wf_table (auth_groups s1)" using grp old by (cases rule: group_for_cases) simp_all
    show "unique_on Some (auth_groups s1)" using grp
    proof (cases rule: group_for_cases)
      case New
      then have "key_free Some (fresh_pk (auth_groups s)) (rd_code d) (auth_groups s)" by (intro key_free_fresh) simp
      with New old show ?thesis by (simp add: unique_on_wrote [OF wrote_add])
    qed (simp add: old)
  qed
  have keep: "get_row (auth_groups s1) j = Some n \<and> (j = g \<longrightarrow> n = rd_code d)" if "get_row (auth_groups s) j = Some n" for j n
    using grp that g by (cases rule: group_for_cases) (auto simp: get_add_row)
  have "find_role (rd_code d) s1 = None" using none same(1) by (simp add: find_role_def)
  then have roles': "roles s' = add_row ?r (roles s)" using tabs(1) same(1) by simp
  have free: "\<not> role_row s r g code" for r code
  proof
    assume "role_row s r g code"
    then obtain rl where rl: "get_row (roles s) r = Some rl" "rl_group rl = Some g" by (auto simp: role_row_def)
    with inv have "get_row (auth_groups s) g = Some (rl_code rl)" by (fastforce simp: access_inv_def)
    with keep have "rl_code rl = rd_code d" by blast
    moreover from rl(1) have "(r, rl) \<in> set (roles s)" by (auto simp: get_row_def dest: map_of_SomeD)
    ultimately show False using find_role_None [OF none] by blast
  qed
  have rows: "role_row s' r g' code \<longleftrightarrow> role_row s r g' code \<or> r = ?k \<and> g' = g \<and> code = rd_code d" for r g' code
    unfolding role_row_def roles' by (auto simp: get_add_row seeded_role_def)
  have act: "has_active_role u r s' = has_active_role u r s" for u r by (simp add: has_active_role_def tabs(2) same)
  have idle: "\<not> has_active_role u ?k s" for u using inv by (fastforce simp: access_inv_def)
  have perms: "set (group_permissions s') = set (group_permissions s) \<union> Pair g ` (permissions_for (rd_code d) \<inter> set av)"
    using access_invD(2) [OF inv, of g] free unfolding tabs(5) same permissions_for_role [OF d] by auto
  have "unique_on role_code_key (roles s')"
  proof -
    have "\<not> exists_row (\<lambda>j y. role_code_key ?r \<noteq> None \<and> role_code_key y = role_code_key ?r) (roles s)"
      using find_role_None [OF none] by (auto simp: exists_row_iff role_code_key_def seeded_role_def)
    then have "key_free role_code_key ?k ?r (roles s)" by (rule key_free_fresh)
    moreover have "unique_on role_code_key (roles s)" using inv by (simp add: access_inv_def)
    ultimately show ?thesis unfolding roles' by (rule unique_on_wrote [OF wrote_add])
  qed
  moreover have "\<exists>j. rl_group rl = Some j \<and> get_row (auth_groups s') j = Some (rl_code rl)" if "get_row (roles s') r = Some rl" for r rl
  proof (cases "r = ?k")
    case True
    with that g show ?thesis by (simp add: roles' get_add_row seeded_role_def tabs(3)) auto
  next
    case False
    with that have "get_row (roles s) r = Some rl" by (simp add: roles' get_add_row)
    from access_invD(4) [OF inv this] obtain j where "rl_group rl = Some j" and "get_row (auth_groups s) j = Some (rl_code rl)" by blast
    with keep show ?thesis by (auto simp: tabs(3))
  qed
  moreover have "(u, j) \<in> set (group_members s') \<longleftrightarrow> (\<exists>r code. role_row s' r j code \<and> has_active_role u r s')" for u j
    unfolding tabs(4) same(3) rows act using access_invD(1) [OF inv, of u j] idle by auto
  moreover have "(j, p) \<in> set (group_permissions s') \<longleftrightarrow> (\<exists>r code. role_row s' r j code \<and> p \<in> permissions_for code \<inter> set av)" for j p
    unfolding perms rows using access_invD(2) [OF inv, of j p] free by auto
  moreover have "get_row (roles s') r \<noteq> None" if "has_active_role u r s'" for u r
    using that inv unfolding act roles' access_inv_def by (auto simp: get_add_row)
  moreover have "wf_table (roles s')" using inv by (auto simp: roles' access_inv_def)
  ultimately show ?thesis using groups unfolding access_inv_def s'_def [symmetric] by (simp add: tabs(3))
qed

lemma seed_role_known:
  assumes inv: "access_inv (set av) s" and d: "d \<in> set ROLES" and known: "find_role (rd_code d) s = Some (k, rl)"
  shows "access_inv (set av) (seed_role av prune d s)"
proof -
  obtain g s1 where grp: "group_for (rd_code d) s = (g, s1)" by (rule prod.exhaust)
  define s' where "s' = seed_role av prune d s"
  note tabs = seed_role_tables [OF grp s'_def]
  from inv known obtain g0 where rl: "get_row (roles s) k = Some rl" "rl_group rl = Some g0" "role_row s k g0 (rd_code d)"
      "rl_code rl = rd_code d" by (rule find_role_row)
  with inv have g0: "get_row (auth_groups s) g0 = Some (rd_code d)" by (fastforce simp: access_inv_def)
  then have mem0: "(g0, rd_code d) \<in> set (auth_groups s)" by (auto simp: get_row_def dest: map_of_SomeD)
  from grp have "s1 = s \<and> g = g0"
  proof (cases rule: group_for_cases)
    case Old
    with inv have "get_row (auth_groups s) g = Some (rd_code d)" by (simp add: access_inv_def in_set_get_row)
    with inv g0 have "g = g0" by (auto simp: access_inv_def unique_on_def)
    with Old show ?thesis by simp
  next
    case New
    with mem0 show ?thesis by (auto simp: exists_row_iff)
  qed
  then have s1: "s1 = s" and g: "g = g0" by simp_all
  have roles': "roles s' = put_row k (seeded_role d g) (roles s)" using tabs(1) known by (simp add: s1)
  have rows: "role_row s' = role_row s"
    by (rule role_row_put [OF rl(1,2,4) roles' [unfolded g]]) (simp_all add: seeded_role_def)
  have act: "has_active_role u r s' = has_active_role u r s" for u r by (simp add: has_active_role_def tabs(2) s1)
  have perms: "(j, p) \<in> set (group_permissions s') \<longleftrightarrow> (j, p) \<in> set (group_permissions s)" for j p
  proof (cases "j = g")
    case True
    have "(g, p) \<in> set (group_permissions s) \<longleftrightarrow> p \<in> permissions_for (rd_code d) \<inter> set av"
      using access_invD(2) [OF inv, of g p] rl(3) role_of_group(2) [OF inv rl(3)] unfolding g by blast
    then show ?thesis using True unfolding tabs(5) s1 permissions_for_role [OF d] by auto
  qed (simp add: tabs(5) s1 image_iff)
  have "unique_on role_code_key (roles s')"
    unfolding roles' using inv rl(1,4)
    by (intro unique_on_wrote [OF wrote_put] key_free_same) (auto simp: access_inv_def role_code_key_def seeded_role_def)
  moreover have "\<exists>j. rl_group y = Some j \<and> get_row (auth_groups s') j = Some (rl_code y)" if "get_row (roles s') r = Some y" for r y
    using that inv g0 by (auto simp: roles' get_put_row seeded_role_def tabs(3) s1 g access_inv_def split: if_splits)
  moreover have "get_row (roles s') r \<noteq> None" if "has_active_role u r s'" for u r
    using that inv unfolding act roles' access_inv_def by (auto simp: get_put_row)
  moreover have "wf_table (roles s')" using inv by (auto simp: roles' access_inv_def)
  ultimately show ?thesis
    using inv unfolding access_inv_def s'_def [symmetric] rows act perms by (simp add: tabs(3,4) s1)
qed

lemma seed_roles_access:
  assumes "access_inv (set av) s"
  shows "access_inv (set av) (seed_roles av prune s)"
proof -
  have "access_inv (set av) (fold (seed_role av prune) ds s)" if "set ds \<subseteq> set ROLES" for ds
    using that assms
  proof (induction ds arbitrary: s)
    case (Cons d ds)
    obtain g s1 where "group_for (rd_code d) s = (g, s1)" by (rule prod.exhaust)
    with Cons have "access_inv (set av) (seed_role av prune d s)"
      by (cases "find_role (rd_code d) s") (auto intro: seed_role_new seed_role_known)
    with Cons show ?case by simp
  qed simp
  then show ?thesis by (simp add: seed_roles_def)
qed

section \<open>Reachable states\<close>

inductive accounts_step :: "string list \<Rightarrow> 'a accounts_db_scheme \<Rightarrow> 'a accounts_db_scheme \<Rightarrow> bool" for av where
  NewAccount: "create_account lib c salt a password s = Inr (k, s') \<Longrightarrow> accounts_step av s s'"
| EditAccount: "update_account lib c salt k ch s = Inr s' \<Longrightarrow> accounts_step av s s'"
| Password: "change_password lib c salt k current new s = Inr s' \<Longrightarrow> accounts_step av s s'"
| SignIn: "login lib c typed password otp m l ip s = (res, s') \<Longrightarrow> accounts_step av s s'"
| SignOut: "record_logout c k s = Inr s' \<Longrightarrow> accounts_step av s s'"
| StartMFA: "start_mfa_enrolment lib c k secret s = Inr (uri, s') \<Longrightarrow> accounts_step av s s'"
| ConfirmMFA: "confirm_mfa_enrolment lib c k code token hashes s = Inr (codes, s') \<Longrightarrow> accounts_step av s s'"
| DisableMFA: "disable_mfa lib c k current s = Inr s' \<Longrightarrow> accounts_step av s s'"
| Grant: "grant_role c u code by_user reason s = Inr (k, s') \<Longrightarrow> accounts_step av s s'"
| Revoke: "revoke_role c u code by_user reason s = Inr s' \<Longrightarrow> accounts_step av s s'"
| Resync: "s' = resync_groups u s \<Longrightarrow> accounts_step av s s'"
| Seed: "s' = seed_roles av prune s \<Longrightarrow> accounts_step av s s'"
| Library: "library_step s s' \<Longrightarrow> accounts_step av s s'"

definition accounts_inv :: "string list \<Rightarrow> 'a accounts_db_scheme \<Rightarrow> bool" where
  "accounts_inv av s \<longleftrightarrow> accounts_keyed s \<and> access_inv (set av) s"

lemma accounts_inv_effect: "account_effect s s' \<Longrightarrow> accounts_inv av s \<Longrightarrow> accounts_inv av s'"
  by (auto simp: accounts_inv_def intro: account_effect_keyed access_inv_same account_effect_access)

definition tables_same :: "'a accounts_db_scheme \<Rightarrow> 'a accounts_db_scheme \<Rightarrow> bool" where
  "tables_same s s' \<longleftrightarrow> accounts s' = accounts s \<and> backup_codes s' = backup_codes s"

lemma keyed_same: "tables_same s s' \<Longrightarrow> accounts_keyed s \<Longrightarrow> accounts_keyed s'"
  by (simp add: tables_same_def accounts_keyed_def)

lemma grant_role_tables: "grant_role c u code by_user reason s = Inr (k, s') \<Longrightarrow> tables_same s s'"
  by (erule grant_role_Inr) (simp_all add: tables_same_def)

lemma revoke_role_tables: "revoke_role c u code by_user reason s = Inr s' \<Longrightarrow> tables_same s s'"
  unfolding revoke_role_def by (auto split: option.splits if_splits elim!: record_actionE simp: tables_same_def)

lemma seed_roles_tables: "tables_same s (seed_roles av prune s)"
proof -
  have one: "tables_same s (seed_role av prune d s)" for d and s :: "'a accounts_db_scheme"
  proof -
    obtain g s1 where grp: "group_for (rd_code d) s = (g, s1)" by (rule prod.exhaust)
    then have "accounts s1 = accounts s \<and> backup_codes s1 = backup_codes s" by (cases rule: group_for_cases) simp_all
    then show ?thesis using seed_role_tables(6,7) [OF grp refl, of av prune] by (simp add: tables_same_def)
  qed
  have "tables_same s (fold (seed_role av prune) ds s)" for ds
    using one by (induction ds arbitrary: s) (simp_all add: tables_same_def)
  then show ?thesis by (simp add: seed_roles_def)
qed

lemma library_step_more: "library_step s s' \<Longrightarrow> library_db.more s' = library_db.more s"
proof -
  assume "library_step s s'"
  then have "library_effect s s'" by (rule library_step_effect)
  then show ?thesis by (induction rule: library_effect.induct) simp_all
qed

lemma record_logout_effect: "record_logout c k s = Inr s' \<Longrightarrow> account_effect s s'"
  unfolding record_logout_def by (rule user_action_effect)

lemma accounts_step_cases:
  assumes "accounts_step av s s'" and "accounts_inv av s"
  shows "account_effect s s' \<or> tables_same s s' \<and> access_inv (set av) s'"
  using assms
proof (induction rule: accounts_step.induct)
  case (SignIn lib c typed password otp m l ip s res s')
  then show ?case by (auto intro: login_effect)
next
  case (Library s s')
  then have "library_db.more s' = library_db.more s" by (intro library_step_more)
  then have "tables_same s s' \<and> access_same s s'" by (cases s; cases s') (simp add: tables_same_def access_same_def)
  with Library show ?case by (auto simp: accounts_inv_def intro: access_inv_same)
next
  case (Resync s' u s)
  have "tables_same s s'" by (simp add: Resync(1) resync_groups_def tables_same_def)
  with Resync show ?case unfolding accounts_inv_def by (simp only: resync_access(2) simp_thms)
next
  case (Grant c u code by_user reason s k s')
  then show ?case by (auto simp: accounts_inv_def intro: grant_role_access grant_role_tables)
next
  case (Revoke c u code by_user reason s s')
  then show ?case by (auto simp: accounts_inv_def intro: revoke_role_access revoke_role_tables)
next
  case (Seed s' prune s)
  then show ?case by (simp add: accounts_inv_def seed_roles_access seed_roles_tables)
qed (blast intro: create_account_effect update_account_effect change_password_effect record_logout_effect start_mfa_effect
    confirm_mfa_effect disable_mfa_effect)+

lemma accounts_step_inv:
  assumes "accounts_step av s s'" and "accounts_inv av s"
  shows "accounts_inv av s'"
  using accounts_step_cases [OF assms] assms(2) accounts_inv_effect keyed_same unfolding accounts_inv_def by blast

lemma accounts_steps_inv: "(accounts_step av)\<^sup>*\<^sup>* s s' \<Longrightarrow> accounts_inv av s \<Longrightarrow> accounts_inv av s'"
  by (induction rule: rtranclp_induct) (auto intro: accounts_step_inv)


section \<open>Properties of the permissions\<close>

text \<open>
  C25. Permissions follow roles. However accounts were made, roles granted and revoked, groups repaired
  and the policy seeded, a user who is not a superuser has exactly the installed permissions
  that the policy gives to the roles the user holds at the moment, and none while inactive.
\<close>

theorem permissions_follow_roles:
  assumes "(accounts_step av)\<^sup>*\<^sup>* s0 s" and "accounts_inv av s0" and "get_row (accounts s) k = Some a"
  shows "user_has_perm k s p \<longleftrightarrow> acc_is_active a \<and>
    (acc_is_superuser a \<or> p \<in> set av \<and> (\<exists>code \<in> set (role_codes k s). p \<in> permissions_for code))"
proof -
  from accounts_steps_inv [OF assms(1,2)] have "access_inv (set av) s" by (simp add: accounts_inv_def)
  then show ?thesis using assms(3) by (rule perm_iff)
qed

section \<open>Properties of the sign-in\<close>

definition unused_codes :: "nat \<Rightarrow> 'a accounts_db_scheme \<Rightarrow> nat" where
  "unused_codes k s = count_rows (\<lambda>_ b. bc_user b = k \<and> bc_used_at b = None) (backup_codes s)"

lemma count_rows_put:
  assumes "wf_table t" and "get_row t k = Some r0" and "P k r0" and "\<not> P k r"
  shows "count_rows P (put_row k r t) + 1 = count_rows P t"
proof -
  note split = sum_rows_put_row_split [OF assms(1,2), of P "\<lambda>_. 1 :: nat"]
  show ?thesis using split [of r] split [of r0] assms(3,4)
    by (simp add: count_rows_eq_sum put_row_same [OF assms(1,2)])
qed

lemma verify_mfa_True:
  assumes "verify_mfa_code lib c k code s = (True, s')" and "wf_table (backup_codes s)" and "get_row (accounts s) k = Some a"
  shows "accounts s' = accounts s \<and> (totp_verify lib (acc_mfa_secret a) (now c) (strip code) \<and> unused_codes k s' = unused_codes k s \<or>
    unused_codes k s' + 1 = unused_codes k s)"
proof (cases "acc_mfa_secret a \<noteq> [] \<and> totp_verify lib (acc_mfa_secret a) (now c) (strip code)")
  case True
  with assms(1,3) show ?thesis by (simp add: verify_mfa_code_def split: if_splits)
next
  case False
  have used: "verify_mfa_code lib c k code s = (if strip code = [] then (False, s)
      else case unused_match lib k (strip code) s of None \<Rightarrow> (False, s)
        | Some (j, b) \<Rightarrow> (True, s\<lparr>backup_codes := put_row j (b\<lparr>bc_used_at := Some (now c)\<rparr>) (backup_codes s)\<rparr>))"
    by (simp only: verify_mfa_code_def assms(3) option.case if_not_P [OF False])
  obtain j b where found: "unused_match lib k (strip code) s = Some (j, b)"
    and s': "s' = s\<lparr>backup_codes := put_row j (b\<lparr>bc_used_at := Some (now c)\<rparr>) (backup_codes s)\<rparr>"
    using assms(1) unfolding used by (cases "unused_match lib k (strip code) s") (simp_all split: if_splits prod.splits)
  from found have "bc_user b = k" "bc_used_at b = None" and "get_row (backup_codes s) j = Some b"
    using first_row_Some [OF found [unfolded unused_match_def]] first_row_get [OF assms(2) found [unfolded unused_match_def]]
    by simp_all
  then have "unused_codes k s' + 1 = unused_codes k s"
    unfolding unused_codes_def s' using count_rows_put [OF assms(2)] by simp
  then show ?thesis by (simp add: s')
qed

text \<open>
  C36. A sign-in asks for everything. It succeeds for the account of the address only, if the account is
  active and not locked, with its password, and where a second factor is enabled, with a
  valid one-time code or at the price of one unused backup code; it clears the counter of
  failures.
\<close>

theorem login_granted:
  assumes "accounts_keyed s" and "login lib c typed password otp m l ip s = (LoggedIn k, s')"
  shows "\<exists>a a'. find_account (normal_email typed) s = Some (k, a) \<and> \<not> is_locked_out c a \<and> acc_is_active a \<and>
    check_password lib password (acc_password a) \<and>
    (\<not> acc_mfa_enabled a \<or> totp_verify lib (acc_mfa_secret a) (now c) (strip otp) \<or> unused_codes k s' + 1 = unused_codes k s) \<and>
    get_row (accounts s') k = Some a' \<and> acc_failed_login_attempts a' = 0 \<and> acc_locked_until a' = None"
  using assms(2,1)
proof (cases rule: login_cases)
  case (Failed r sm)
  then show ?thesis by (auto simp: login_failed_def split: sum.splits)
next
  case (In k' a tr s1 s2)
  then have k: "k' = k" by simp
  have row: "get_row (accounts s) k = Some a" using find_account_get [OF assms(1) In(2)] by (simp add: k)
  have codes1: "backup_codes s1 = backup_codes s" and row1: "get_row (accounts s1) k = Some (a\<lparr>acc_last_login := Some (now c)\<rparr>)"
    using row by (simp_all add: In(6) k get_put_row)
  have wf: "wf_table (backup_codes s1)" using assms(1) by (simp add: codes1 accounts_keyed_def)
  have factor: "accounts s2 = accounts s1 \<and> (\<not> acc_mfa_enabled a \<or> totp_verify lib (acc_mfa_secret a) (now c) (strip otp) \<or>
      unused_codes k s2 + 1 = unused_codes k s)"
  proof (cases "acc_mfa_enabled a")
    case True
    with In(7) have "verify_mfa_code lib c k otp s1 = (True, s2)" by (simp add: k)
    from verify_mfa_True [OF this wf row1] show ?thesis by (auto simp: unused_codes_def codes1)
  qed (use In(7) in simp)
  obtain s3 a2 tr2 where "get_row (accounts s2) k = Some a2" and s3: "s3 = s2\<lparr>accounts := put_row k
      (a2\<lparr>acc_failed_login_attempts := 0, acc_locked_until := None, acc_last_login_ip := ip, acc_last_login := Some (now c)\<rparr>)
      (accounts s2), audit_log := tr2\<rparr>" and act: "user_action c k ''login''
      (''Signed in ('' @ (if primary_role_code k s3 = [] then ''no role'' else primary_role_code k s3) @ '')'') s3 = Inr s'"
    using In(8) unfolding record_successful_login_def k by (auto elim!: bindE_InrE update_columns_Inr)
  moreover from act obtain tr3 where "s' = s3\<lparr>audit_log := tr3\<rparr>" by (rule user_action_Inr)
  ultimately have "\<exists>a'. get_row (accounts s') k = Some a' \<and> acc_failed_login_attempts a' = 0 \<and> acc_locked_until a' = None"
    and "backup_codes s' = backup_codes s2" by (simp_all add: get_put_row)
  with In(2-5) factor show ?thesis unfolding k unused_codes_def by auto
qed simp

section \<open>Guessing\<close>

text \<open>A run of sign-in attempts, each at its own time, with the results.\<close>

record attempt =
  at_ctx :: ctx
  at_email :: string
  at_password :: string
  at_otp :: string
  at_ip :: "string option"

fun login_run :: "auth_lib \<Rightarrow> nat \<Rightarrow> int \<Rightarrow> attempt list \<Rightarrow> 'a accounts_db_scheme \<Rightarrow> login_result list \<times> 'a accounts_db_scheme" where
  "login_run lib m l [] s = ([], s)"
| "login_run lib m l (x # xs) s =
     (let (r, s1) = login lib (at_ctx x) (at_email x) (at_password x) (at_otp x) m l (at_ip x) s;
          (rs, s2) = login_run lib m l xs s1
      in (r # rs, s2))"

text \<open>The attempts that were answered by looking at the credentials.\<close>

definition evaluated :: "login_result list \<Rightarrow> nat" where
  "evaluated rs = length (filter (\<lambda>r. r \<noteq> AccountLocked) rs)"

lemma find_account_iff:
  assumes "accounts_keyed s"
  shows "find_account e s = Some (k, a) \<longleftrightarrow> get_row (accounts s) k = Some a \<and> same_email (acc_email a) e"
proof
  assume "find_account e s = Some (k, a)"
  then show "get_row (accounts s) k = Some a \<and> same_email (acc_email a) e"
    using assms unfolding find_account_def accounts_keyed_def by (blast dest: first_row_get first_row_Some)
next
  assume row: "get_row (accounts s) k = Some a \<and> same_email (acc_email a) e"
  then have mem: "(k, a) \<in> set (accounts s)" by (auto simp: get_row_def dest: map_of_SomeD)
  then have "find_account e s \<noteq> None" using row unfolding find_account_def first_row_None exists_row_iff by simp blast
  then obtain j b where found: "find_account e s = Some (j, b)" by auto
  then have b: "get_row (accounts s) j = Some b" "same_email (acc_email b) e"
    using assms unfolding find_account_def accounts_keyed_def by (blast dest: first_row_get first_row_Some)+
  have "email_key a = email_key b" using row b(2) by (simp add: email_key_def same_email_def)
  moreover have "unique_on email_key (accounts s)" using assms by (simp add: accounts_keyed_def)
  ultimately have "k = j" using row b(1) by (auto simp: unique_on_def email_key_def)
  with found row b show "find_account e s = Some (k, a)" by simp
qed

lemma find_account_put:
  assumes "accounts_keyed s" and "find_account e s = Some (k, a)" and "acc_email a' = acc_email a"
    and "s' = s\<lparr>accounts := put_row k a' (accounts s), audit_log := tr\<rparr>"
  shows "accounts_keyed s' \<and> find_account e s' = Some (k, a')"
proof -
  have row: "get_row (accounts s) k = Some a" and e: "same_email (acc_email a) e"
    using assms(2) find_account_iff [OF assms(1)] by blast+
  have keyed: "accounts_keyed s'"
    unfolding assms(4) using account_effect_keyed [OF account_effect.Columns [OF row assms(3)] assms(1)] .
  moreover have "get_row (accounts s') k = Some a'" using row by (simp add: assms(4) get_put_row)
  ultimately show ?thesis using e find_account_iff [OF keyed] assms(3) by simp
qed

lemma failure_counted:
  assumes keyed: "accounts_keyed s" and found: "find_account e s = Some (k, a)" and small: "acc_failed_login_attempts a < 32767"
    and failed: "login_failed r c e m l s = (res, s')"
  shows "accounts_keyed s' \<and> find_account e s' = Some (k, count_failure c m l a) \<and> res = r"
proof -
  have row: "get_row (accounts s) k = Some a" using keyed found by (rule find_account_get)
  from update_columns_total [OF row] obtain tr where "update_columns c k (count_failure c m l) s =
      Inr (s\<lparr>accounts := put_row k (count_failure c m l a) (accounts s), audit_log := tr\<rparr>)" by blast
  moreover define s1 where "s1 = s\<lparr>accounts := put_row k (count_failure c m l a) (accounts s), audit_log := tr\<rparr>"
  ultimately have upd: "update_columns c k (count_failure c m l) s = Inr s1" by simp
  have s1: "accounts_keyed s1 \<and> find_account e s1 = Some (k, count_failure c m l a)"
    using keyed found by (rule find_account_put) (simp_all add: s1_def)
  have low: "\<not> 32767 < acc_failed_login_attempts (count_failure c m l a)" using small by (simp add: count_failure_def Let_def)
  obtain d s2 where rec: "record_failed_login c e m l s = user_action c k ''login_failed'' d s1"
    unfolding record_failed_login_def Let_def found option.case prod.case if_not_P [OF low] upd bindE_Inr by blast
  from user_action_total obtain tr2 where "user_action c k ''login_failed'' d s1 = Inr (s1\<lparr>audit_log := tr2\<rparr>)" by blast
  with failed rec have "s' = s1\<lparr>audit_log := tr2\<rparr>" and "res = r" by (simp_all add: login_failed_def)
  with s1 show ?thesis by (simp add: accounts_keyed_def find_account_def)
qed

text \<open>One failed attempt: the counter goes up, and with it the lock.\<close>

lemma attempt_fails:
  assumes run: "login lib c typed password otp m l ip s = (r, s')" and keyed: "accounts_keyed s"
    and found: "find_account (normal_email typed) s = Some (k, a)" and small: "acc_failed_login_attempts a < 32767"
    and out: "r \<noteq> LoggedIn k"
  shows "r = AccountLocked \<and> s' = s \<and> is_locked_out c a \<or>
    r \<noteq> AccountLocked \<and> \<not> is_locked_out c a \<and> accounts_keyed s' \<and> (\<exists>a'. find_account (normal_email typed) s' = Some (k, a') \<and>
      acc_failed_login_attempts a' = acc_failed_login_attempts a + 1 \<and>
      (m \<le> acc_failed_login_attempts a' \<longrightarrow> acc_locked_until a' = Some (now c + 60 * l)))"
  using run keyed
proof (cases rule: login_cases)
  case (Locked k' b)
  with found show ?thesis by simp
next
  case (Failed r0 sm)
  obtain a1 where sm: "accounts_keyed sm" "find_account (normal_email typed) sm = Some (k, a1)"
    and a1: "acc_failed_login_attempts a1 = acc_failed_login_attempts a"
  proof (cases "sm = s")
    case True
    then show thesis using that [of a] keyed found by simp
  next
    case False
    with Failed(5) found obtain tr where sm: "sm = s\<lparr>accounts := put_row k (a\<lparr>acc_last_login := Some (now c)\<rparr>) (accounts s), audit_log := tr\<rparr>"
      by auto
    from find_account_put [OF keyed found _ sm] show thesis by (intro that [of "a\<lparr>acc_last_login := Some (now c)\<rparr>"]) simp_all
  qed
  from failure_counted [OF sm _ Failed(1)] small a1 have "accounts_keyed s'" "r = r0"
    and "find_account (normal_email typed) s' = Some (k, count_failure c m l a1)" by simp_all
  with Failed(2,4) found a1 show ?thesis by (auto simp: count_failure_def Let_def)
next
  case (In k' b tr s1 s2)
  with found out show ?thesis by simp
qed

lemma login_run_Cons:
  assumes "login_run lib m l (x # xs) s = (rs, s')"
  obtains r s1 rs' where "login lib (at_ctx x) (at_email x) (at_password x) (at_otp x) m l (at_ip x) s = (r, s1)"
    and "login_run lib m l xs s1 = (rs', s')" and "rs = r # rs'"
  using assms by (auto split: prod.splits)

text \<open>Inside a window that the lock covers no attempt is looked at.\<close>

lemma locked_window:
  assumes "login_run lib m l xs s = (rs, s')" and "accounts_keyed s" and "find_account e s = Some (k, a)"
    and "acc_locked_until a = Some u" and "\<And>x. x \<in> set xs \<Longrightarrow> normal_email (at_email x) = e \<and> now (at_ctx x) < u"
  shows "evaluated rs = 0"
  using assms(1,5)
proof (induction xs arbitrary: rs)
  case (Cons x xs)
  from Cons.prems(1) obtain r s1 rs' where r: "login lib (at_ctx x) (at_email x) (at_password x) (at_otp x) m l (at_ip x) s = (r, s1)"
    and rest: "login_run lib m l xs s1 = (rs', s')" and rs: "rs = r # rs'" by (rule login_run_Cons)
  have "normal_email (at_email x) = e" and "is_locked_out (at_ctx x) a"
    using Cons.prems(2) [of x] assms(4) by (simp_all add: is_locked_out_def)
  with r assms(3) have "r = AccountLocked" and "s1 = s" by (simp_all add: login_def)
  with Cons.IH [of rs'] Cons.prems(2) rest rs show ?case by (simp add: evaluated_def)
qed (simp add: evaluated_def)

text \<open>
  C37. Guesses are bounded. Among attempts on one account within the length of a lock-out, in any order, of
  which none succeeds, at most as many are looked at as failures are left before the lock, and
  one where none is left: all the others are answered without reading the password.
\<close>

theorem guesses_bounded:
  assumes "accounts_keyed s" and "login_run lib m l xs s = (rs, s')" and "find_account e s = Some (k, a)"
    and "list_all (\<lambda>x. normal_email (at_email x) = e \<and> t \<le> now (at_ctx x) \<and> now (at_ctx x) < t + 60 * l) xs"
    and "acc_failed_login_attempts a < 32767" and "m \<le> 32767" and "LoggedIn k \<notin> set rs"
  shows "evaluated rs \<le> max 1 (m - acc_failed_login_attempts a)"
  using assms
proof (induction xs arbitrary: s rs a)
  case Nil
  then show ?case by (simp add: evaluated_def)
next
  case (Cons x xs)
  from Cons.prems(2) obtain r s1 rs' where r: "login lib (at_ctx x) (at_email x) (at_password x) (at_otp x) m l (at_ip x) s = (r, s1)"
    and rest: "login_run lib m l xs s1 = (rs', s')" and rs: "rs = r # rs'" by (rule login_run_Cons)
  have x: "normal_email (at_email x) = e" "t \<le> now (at_ctx x)"
    and xs: "list_all (\<lambda>x. normal_email (at_email x) = e \<and> t \<le> now (at_ctx x) \<and> now (at_ctx x) < t + 60 * l) xs"
    using Cons.prems(4) by simp_all
  have none: "r \<noteq> LoggedIn k" "LoggedIn k \<notin> set rs'" using Cons.prems(7) by (auto simp: rs)
  from attempt_fails [OF r Cons.prems(1) _ Cons.prems(5) none(1)] x(1) Cons.prems(3)
  consider "r = AccountLocked" "s1 = s" | a' where "r \<noteq> AccountLocked" "accounts_keyed s1" "find_account e s1 = Some (k, a')"
    "acc_failed_login_attempts a' = acc_failed_login_attempts a + 1"
    "m \<le> acc_failed_login_attempts a' \<longrightarrow> acc_locked_until a' = Some (now (at_ctx x) + 60 * l)" by auto
  then show ?case
  proof cases
    case 1
    with Cons.IH [OF Cons.prems(1) _ Cons.prems(3) xs Cons.prems(5,6) none(2)] rest show ?thesis
      by (simp add: rs evaluated_def)
  next
    case (2 a')
    show ?thesis
    proof (cases "m \<le> acc_failed_login_attempts a'")
      case True
      then have "acc_locked_until a' = Some (now (at_ctx x) + 60 * l)" using 2(5) by blast
      then have "evaluated rs' = 0"
        by (rule locked_window [OF rest 2(2,3)]) (use xs x(2) in \<open>auto simp: list_all_iff\<close>)
      then show ?thesis by (simp add: rs evaluated_def)
    next
      case False
      then have "evaluated rs' \<le> max 1 (m - acc_failed_login_attempts a')"
        using Cons.IH [OF 2(2) rest 2(3) xs _ Cons.prems(6) none(2)] Cons.prems(6) by simp
      moreover have "evaluated rs = Suc (evaluated rs')" using 2(1) by (simp add: rs evaluated_def)
      ultimately show ?thesis using False 2(4) by linarith
    qed
  qed
qed

section \<open>What the sign-in misses\<close>

text \<open>At the end of the small integer the failure can no longer be counted, and the lock is never renewed.\<close>

lemma counter_overflow:
  assumes "find_account (normal_email typed) s = Some (k, a)" and "acc_failed_login_attempts a = 32767"
    and "\<not> is_locked_out c a" and "\<not> check_password lib password (acc_password a)"
  shows "login lib c typed password otp m l ip s = (LoginError UnexpectedError, s)"
  using assms by (simp add: login_def Let_def authenticate_def find_account_normal login_failed_def record_failed_login_def
    count_failure_def)

text \<open>An administrator may enable the second factor of an account that has none: nobody signs in there any more.\<close>

lemma enabled_without_secret:
  assumes "accounts_keyed s" and "find_account (normal_email typed) s = Some (k, a)" and "acc_mfa_enabled a"
    and "acc_mfa_secret a = []" and "\<not> exists_row (\<lambda>_ b. bc_user b = k) (backup_codes s)"
  shows "fst (login lib c typed password otp m l ip s) \<noteq> LoggedIn j"
proof
  assume "fst (login lib c typed password otp m l ip s) = LoggedIn j"
  then obtain s' where run: "login lib c typed password otp m l ip s = (LoggedIn j, s')" by (metis prod.collapse)
  from run assms(1) show False
  proof (cases rule: login_cases)
    case (Failed r sm)
    then show False by (auto simp: login_failed_def split: sum.splits)
  next
    case (In k' b tr s1 s2)
    with assms(2) have k: "k' = k" "b = a" by simp_all
    have "get_row (accounts s) k = Some a" using assms(1,2) by (rule find_account_get)
    then have "get_row (accounts s1) k = Some (a\<lparr>acc_last_login := Some (now c)\<rparr>)" and "backup_codes s1 = backup_codes s"
      by (simp_all add: In(6) k get_put_row)
    moreover from this(2) assms(5) have "unused_match lib k (strip otp) s1 = None"
      by (auto simp: unused_match_def first_row_None exists_row_iff)
    ultimately have "verify_mfa_code lib c k otp s1 = (False, s1)" by (simp add: verify_mfa_code_def assms(4))
    with In(7) assms(3) show False by (simp add: k)
  qed simp
qed

text \<open>A user may be granted roles that separate duties from each other: the policy is checked per role only.\<close>

lemma grant_ignores_other_roles:
  "find_role code s = Some (r, rl) \<Longrightarrow> length reason \<le> 255 \<Longrightarrow> \<exists>k s'. grant_role c u code by_user reason s = Inr (k, s')"
proof -
  assume found: "find_role code s = Some (r, rl)" and short: "length reason \<le> 255"
  show ?thesis
  proof (cases "active_assignment u r s")
    case None
    obtain tr where "record_action c False (Some (mm_label user_meta, Some u)) ''role_grant''
        (''Granted role '' @ [CHR 0x27] @ rl_code rl @ [CHR 0x27]) reason by_user
        (s\<lparr>user_roles := add_row \<lparr>ur_user = u, ur_role = r, ur_granted_by = actor_fk by_user, ur_granted_at = now c,
             ur_revoked_by = None, ur_revoked_at = None, ur_reason = reason\<rparr> (user_roles s),
           group_members := group_add u (rl_group rl) (group_members s)\<rparr>) = Inr tr"
      using record_action_total by blast
    with found short None show ?thesis by (simp add: grant_role_def)
  qed (use found in \<open>auto simp: grant_role_def\<close>)
qed

text \<open>With everything it asks for a sign-in succeeds.\<close>

lemma login_succeeds:
  assumes keyed: "accounts_keyed s" and found: "find_account (normal_email typed) s = Some (k, a)" and free: "\<not> is_locked_out c a"
    and pass: "check_password lib password (acc_password a)" "acc_is_active a"
    and factor: "\<And>t tr. get_row t k = Some (a\<lparr>acc_last_login := Some (now c)\<rparr>) \<Longrightarrow>
      \<exists>s2. verify_mfa_code lib c k otp (s\<lparr>accounts := t, audit_log := tr\<rparr>) = (True, s2) \<and> accounts s2 = t"
  shows "\<exists>s'. login lib c typed password otp m l ip s = (LoggedIn k, s')"
proof -
  have row: "get_row (accounts s) k = Some a" using keyed found by (rule find_account_get)
  have auth: "authenticate lib (strip typed) password s = Some (k, a)"
    using found pass by (simp add: authenticate_def find_account_normal)
  obtain tr where upd: "update_columns c k (\<lambda>b. b\<lparr>acc_last_login := Some (now c)\<rparr>) s =
      Inr (s\<lparr>accounts := put_row k (a\<lparr>acc_last_login := Some (now c)\<rparr>) (accounts s), audit_log := tr\<rparr>)"
    using update_columns_total [OF row] by blast
  define t where "t = put_row k (a\<lparr>acc_last_login := Some (now c)\<rparr>) (accounts s)"
  have t: "get_row t k = Some (a\<lparr>acc_last_login := Some (now c)\<rparr>)" using row by (simp add: t_def get_put_row)
  obtain s2 where s2: "(if acc_mfa_enabled a then verify_mfa_code lib c k otp (s\<lparr>accounts := t, audit_log := tr\<rparr>)
      else (True, s\<lparr>accounts := t, audit_log := tr\<rparr>)) = (True, s2)" and acc: "accounts s2 = t"
    using factor [OF t, of tr] by (cases "acc_mfa_enabled a") auto
  obtain s3 where "record_successful_login c k ip s2 = Inr s3"
    by (rule successful_login_total [of s2 k c ip]) (simp_all add: acc t)
  with found free auth upd s2 show ?thesis by (simp add: login_def t_def [symmetric])
qed

section \<open>Concrete inputs\<close>

definition sample_account :: "bool \<Rightarrow> account" where
  "sample_account mfa =
     \<lparr>acc_email = ''a@x'', acc_first_name = ''A'', acc_middle_name = [], acc_last_name = ''B'', acc_phone = [],
      acc_is_active = True, acc_is_staff = False, acc_is_superuser = False, acc_mfa_enabled = mfa, acc_mfa_secret = ''s'',
      acc_must_change_password = False, acc_password = ''h'', acc_last_login = None, acc_last_login_ip = None,
      acc_failed_login_attempts = 2, acc_locked_until = None\<rparr>"

definition sample_senate :: role where
  "sample_senate = \<lparr>rl_code = ''senate'', rl_name = ''Senate'', rl_group = Some 1, rl_is_system = True\<rparr>"

definition sample_assignment :: user_role where
  "sample_assignment = \<lparr>ur_user = 1, ur_role = 1, ur_granted_by = None, ur_granted_at = 0, ur_revoked_by = None,
     ur_revoked_at = None, ur_reason = []\<rparr>"

definition sample_backup :: backup_code where
  "sample_backup = \<lparr>bc_user = 1, bc_code_hash = ''k'', bc_created_at = 0, bc_used_at = None\<rparr>"

definition sample_accounts_db :: "bool \<Rightarrow> accounts_db" where
  "sample_accounts_db mfa =
     library_db.extend (sample_library_db Loan_Active 0)
       \<lparr>accounts = [(1, sample_account mfa)], backup_codes = [(1, sample_backup)], roles = [(1, sample_senate)],
        user_roles = [(1, sample_assignment)], auth_groups = [(1, ''senate'')], group_members = [(1, 1)],
        group_permissions = [(1, ''examinations.approve_result'')]\<rparr>"

lemma sample_accounts_tables [simp]:
  "accounts (sample_accounts_db mfa) = [(1, sample_account mfa)]" "backup_codes (sample_accounts_db mfa) = [(1, sample_backup)]"
  "roles (sample_accounts_db mfa) = [(1, sample_senate)]" "user_roles (sample_accounts_db mfa) = [(1, sample_assignment)]"
  "auth_groups (sample_accounts_db mfa) = [(1, ''senate'')]" "group_members (sample_accounts_db mfa) = [(1, 1)]"
  "group_permissions (sample_accounts_db mfa) = [(1, ''examinations.approve_result'')]"
  by (simp_all add: sample_accounts_db_def library_db.defs)

text \<open>The password is the hash, no one-time code is ever valid.\<close>

definition sample_auth :: auth_lib where
  "sample_auth = \<lparr>check_password = (\<lambda>p h. p = h), make_password = (\<lambda>salt p. p), totp_verify = (\<lambda>_ _ _. False),
     provisioning_uri = (\<lambda>_ _. []), valid_email = (\<lambda>_. True), valid_password = (\<lambda>_ _. True)\<rparr>"

lemma sample_accounts_keyed: "accounts_keyed (sample_accounts_db mfa)"
  by (simp add: accounts_keyed_def wf_table_def unique_on_def get_row_def)

lemma sample_role_row: "role_row (sample_accounts_db mfa) r g code \<longleftrightarrow> r = 1 \<and> g = 1 \<and> code = ''senate''"
  by (auto simp: role_row_def get_row_def sample_senate_def split: if_splits)

lemma sample_active: "has_active_role u r (sample_accounts_db mfa) \<longleftrightarrow> u = 1 \<and> r = 1"
  by (auto simp: has_active_role_def exists_row_def sample_assignment_def)

lemma sample_accounts_inv: "accounts_inv [''examinations.approve_result''] (sample_accounts_db mfa)"
proof -
  have "''examinations.approve_result'' \<in> permissions_for ''senate''" by (simp add: holders_iff deciding_offices)
  then show ?thesis
    unfolding accounts_inv_def access_inv_def sample_role_row sample_active
    by (auto simp: sample_accounts_keyed wf_table_def unique_on_def get_row_def sample_senate_def split: if_splits)
qed

lemma permissions_follow_roles_witness:
  "\<exists>s. accounts_step [''examinations.approve_result''] (sample_accounts_db False) s \<and>
     user_has_perm 1 s ''examinations.approve_result'' \<and> \<not> user_has_perm 1 s ''examinations.publish_result''"
proof -
  let ?s = "sample_accounts_db False" and ?av = "[''examinations.approve_result'']"
  obtain tr where "record_logout sample_ctx 1 ?s = Inr (?s\<lparr>audit_log := tr\<rparr>)"
    unfolding record_logout_def using user_action_total by blast
  then have step: "accounts_step ?av ?s (?s\<lparr>audit_log := tr\<rparr>)" by (rule accounts_step.SignOut)
  have row: "get_row (accounts (?s\<lparr>audit_log := tr\<rparr>)) 1 = Some (sample_account False)" by (simp add: get_row_singleton)
  have codes: "role_codes 1 (?s\<lparr>audit_log := tr\<rparr>) = [''senate'']"
    using sample_active [of 1 1 False]
    by (simp add: role_codes_def active_roles_def filter_rows_def has_active_role_def sample_senate_def)
  have "''examinations.approve_result'' \<in> permissions_for ''senate''" by (simp add: holders_iff deciding_offices)
  then have "user_has_perm 1 (?s\<lparr>audit_log := tr\<rparr>) ''examinations.approve_result''"
    and "\<not> user_has_perm 1 (?s\<lparr>audit_log := tr\<rparr>) ''examinations.publish_result''"
    using permissions_follow_roles [OF r_into_rtranclp [of "accounts_step ?av", OF step] sample_accounts_inv row]
    unfolding codes by (simp_all add: sample_account_def)
  with step show ?thesis by blast
qed

lemma login_granted_witness:
  "\<exists>s'. login sample_auth sample_ctx '' A@x '' ''h'' ''k'' 5 15 None (sample_accounts_db True) = (LoggedIn 1, s') \<and>
     unused_codes 1 s' + 1 = unused_codes 1 (sample_accounts_db True)"
proof -
  let ?s = "sample_accounts_db True" and ?run = "login sample_auth sample_ctx '' A@x '' ''h'' ''k'' 5 15 None (sample_accounts_db True)"
  have email: "normal_email '' A@x '' = ''a@x''" by code_simp
  have found: "find_account (normal_email '' A@x '') ?s = Some (1, sample_account True)"
    unfolding email by (simp add: find_account_def first_row_def same_email_def sample_account_def)
  have open_lock: "\<not> is_locked_out sample_ctx (sample_account True)" by (simp add: is_locked_out_def sample_account_def)
  have "strip ''k'' = ''k''" by code_simp
  then have factor: "\<exists>s2. verify_mfa_code sample_auth sample_ctx 1 ''k'' (?s\<lparr>accounts := t, audit_log := tr\<rparr>) = (True, s2) \<and> accounts s2 = t"
    if "get_row t 1 = Some ((sample_account True)\<lparr>acc_last_login := Some (now sample_ctx)\<rparr>)" for t tr
    using that by (simp add: verify_mfa_code_def sample_auth_def unused_match_def first_row_def sample_backup_def)
  obtain s' where run: "?run = (LoggedIn 1, s')"
    using login_succeeds [OF sample_accounts_keyed found open_lock _ _ factor, where password = "''h''" and m = 5 and l = 15 and ip = None]
    by (auto simp: sample_auth_def sample_account_def)
  from login_granted [OF sample_accounts_keyed run] found run show ?thesis
    by (auto simp: sample_account_def sample_auth_def)
qed

lemma guesses_bounded_witness:
  "\<exists>rs s'. login_run sample_auth 5 15 [\<lparr>at_ctx = sample_ctx, at_email = ''a@x'', at_password = ''no'', at_otp = [], at_ip = None\<rparr>]
     (sample_accounts_db True) = (rs, s') \<and> evaluated rs \<le> 3"
proof -
  let ?s = "sample_accounts_db True"
  let ?x = "\<lparr>at_ctx = sample_ctx, at_email = ''a@x'', at_password = ''no'', at_otp = [], at_ip = None\<rparr>"
  have email: "normal_email ''a@x'' = ''a@x''" by code_simp
  have found: "find_account ''a@x'' ?s = Some (1, sample_account True)"
    by (simp add: find_account_def first_row_def same_email_def sample_account_def)
  obtain rs s' where run: "login_run sample_auth 5 15 [?x] ?s = (rs, s')" by (rule prod.exhaust)
  obtain r s1 where r: "login sample_auth sample_ctx ''a@x'' ''no'' [] 5 15 None ?s = (r, s1)" by (rule prod.exhaust)
  have "r \<noteq> LoggedIn 1"
    using r sample_accounts_keyed
  proof (cases rule: login_cases)
    case (Failed r0 sm)
    then show ?thesis by (auto simp: login_failed_def split: sum.splits)
  next
    case (In k a tr s2 s3)
    with found show ?thesis by (auto simp: email sample_auth_def sample_account_def)
  qed simp
  with r run have "LoggedIn 1 \<notin> set rs" by auto
  with guesses_bounded [OF sample_accounts_keyed run found, of 1000] email
  have "evaluated rs \<le> 3" by (simp add: sample_account_def sample_ctx_def)
  with run show ?thesis by blast
qed

end
