(* ===== verification/Access_Control.thy ===== *)
theory Access_Control
  imports Account_Security
begin

text \<open>
  Who may do what: the permission class (\<open>core/permissions.py\<close>), the scoping of lists
  (\<open>accounts/mixins.py\<close>) and the views of the modules that depend on them. A view is a function
  of the account that is signed in; \<open>None\<close> is a request without one.
\<close>

section \<open>The permission class\<close>

text \<open>
  A view declares nothing, \<open>None\<close> (any account that is signed in), or permissions; by HTTP method
  or for all methods.
\<close>

datatype requirement = Undeclared | SignedIn | Holding "string list"

record view_access =
  va_by_method :: "(string \<times> requirement) list option"
  va_required :: requirement

definition SAFE_METHODS :: "string list" where
  "SAFE_METHODS = [''GET'', ''HEAD'', ''OPTIONS'']"

definition required_for :: "view_access \<Rightarrow> string \<Rightarrow> requirement" where
  "required_for va meth =
     (case va_by_method va of
        None \<Rightarrow> va_required va
      | Some m \<Rightarrow>
          (case map_of m meth of
             Some r \<Rightarrow> r
           | None \<Rightarrow>
               (case (if meth \<in> set SAFE_METHODS then map_of m ''SAFE'' else None) of
                  Some r \<Rightarrow> r
                | None \<Rightarrow> (case map_of m ''*'' of Some r \<Rightarrow> r | None \<Rightarrow> Undeclared))))"

definition authenticated_and_active :: "nat option \<Rightarrow> 'a accounts_db_scheme \<Rightarrow> bool" where
  "authenticated_and_active user s =
     (case user of
        None \<Rightarrow> False
      | Some u \<Rightarrow> (case get_row (accounts s) u of None \<Rightarrow> False | Some a \<Rightarrow> acc_is_active a))"

definition module_permission :: "view_access \<Rightarrow> string \<Rightarrow> nat option \<Rightarrow> 'a accounts_db_scheme \<Rightarrow> bool" where
  "module_permission va meth user s \<longleftrightarrow>
     authenticated_and_active user s \<and>
     (case required_for va meth of
        Undeclared \<Rightarrow> False
      | SignedIn \<Rightarrow> True
      | Holding ps \<Rightarrow> list_all (user_has_perm (the user) s) ps)"

definition by_method :: "(string \<times> requirement) list \<Rightarrow> view_access" where
  "by_method m = \<lparr>va_by_method = Some m, va_required = Undeclared\<rparr>"

definition holding :: "string \<Rightarrow> view_access" where
  "holding p = \<lparr>va_by_method = None, va_required = Holding [p]\<rparr>"

definition permission_denied :: exn where
  "permission_denied = DomainError ''permission_denied'' 403"

section \<open>Scoped lists\<close>

text \<open>
  The rule of the first role, in the order of the codes, that has one decides; roles in
  \<open>unscoped\<close> and superusers see everything, everybody else nothing.
\<close>

type_synonym 'r scope_rules = "(string \<times> (nat \<Rightarrow> 'r \<Rightarrow> bool)) list"

definition scoped_rows ::
  "string list \<Rightarrow> 'r scope_rules \<Rightarrow> nat option \<Rightarrow> 'a accounts_db_scheme \<Rightarrow> 'r table \<Rightarrow> 'r table" where
  "scoped_rows unscoped rules user s rows =
     (case user of
        None \<Rightarrow> []
      | Some u \<Rightarrow>
          if is_superuser u s \<or> has_role u unscoped s then rows
          else (case find (\<lambda>code. map_of rules code \<noteq> None) (role_codes u s) of
                  None \<Rightarrow> []
                | Some code \<Rightarrow> filter_rows (the (map_of rules code)) rows))"

lemma scoped_rows_subset: "set (scoped_rows unscoped rules user s rows) \<subseteq> set rows"
  by (auto simp: scoped_rows_def filter_rows_def split: option.splits)

lemma scoped_rows_single:
  assumes "\<not> is_superuser u s" and "role_codes u s = [code]" and "code \<notin> set unscoped"
  shows "scoped_rows unscoped rules (Some u) s rows = (case map_of rules code of None \<Rightarrow> [] | Some P \<Rightarrow> filter_rows P rows)"
  using assms by (auto simp: scoped_rows_def has_role_def split: option.splits)

lemma scoped_rows_none:
  assumes "\<not> is_superuser u s" and "list_all (\<lambda>code. code \<notin> set unscoped \<and> map_of rules code = None) (role_codes u s)"
  shows "scoped_rows unscoped rules (Some u) s rows = []"
proof -
  have "find (\<lambda>code. map_of rules code \<noteq> None) (role_codes u s) = None"
    using assms(2) by (auto simp: find_None_iff list_all_iff)
  moreover have "\<not> has_role u unscoped s" using assms(2) by (auto simp: has_role_def list_ex_iff list_all_iff)
  ultimately show ?thesis using assms(1) by (simp add: scoped_rows_def)
qed

section \<open>Whose row it is\<close>

definition own_student :: "'a accounts_db_scheme \<Rightarrow> nat \<Rightarrow> nat \<Rightarrow> bool" where
  "own_student s u k = (case get_row (students s) k of None \<Rightarrow> False | Some st \<Rightarrow> st_user st = Some u)"

definition own_registration :: "'a accounts_db_scheme \<Rightarrow> nat \<Rightarrow> nat \<Rightarrow> bool" where
  "own_registration s u k = (case get_row (course_registrations s) k of None \<Rightarrow> False | Some r \<Rightarrow> own_student s u (cr_student r))"

definition own_invoice :: "'a accounts_db_scheme \<Rightarrow> nat \<Rightarrow> nat \<Rightarrow> bool" where
  "own_invoice s u k = (case get_row (invoices s) k of None \<Rightarrow> False | Some i \<Rightarrow> own_student s u (inv_student i))"

definition own_payment :: "'a accounts_db_scheme \<Rightarrow> nat \<Rightarrow> nat \<Rightarrow> bool" where
  "own_payment s u k = (case get_row (payments s) k of None \<Rightarrow> False | Some p \<Rightarrow> own_invoice s u (pay_invoice p))"

definition staff_profile_of :: "nat \<Rightarrow> 'a accounts_db_scheme \<Rightarrow> (nat \<times> staff_profile) option" where
  "staff_profile_of u s = first_row (\<lambda>_ p. sp_user p = u) (staff_profiles s)"

definition student_profile_of :: "nat \<Rightarrow> 'a accounts_db_scheme \<Rightarrow> (nat \<times> student) option" where
  "student_profile_of u s = first_row (\<lambda>_ st. st_user st = Some u) (students s)"

definition department_of :: "nat \<Rightarrow> 'a accounts_db_scheme \<Rightarrow> nat option" where
  "department_of u s = (case staff_profile_of u s of None \<Rightarrow> None | Some (_, p) \<Rightarrow> sp_department p)"

definition course_in :: "'a accounts_db_scheme \<Rightarrow> nat option \<Rightarrow> nat \<Rightarrow> bool" where
  "course_in s dept k =
     (case (dept, get_row (courses s) k) of (Some d, Some x) \<Rightarrow> crs_department x = d | _ \<Rightarrow> False)"

definition registration_in :: "'a accounts_db_scheme \<Rightarrow> nat option \<Rightarrow> nat \<Rightarrow> bool" where
  "registration_in s dept k =
     (case get_row (course_registrations s) k of None \<Rightarrow> False | Some r \<Rightarrow> course_in s dept (cr_course r))"

section \<open>The lists of the views\<close>

definition student_rows :: "nat option \<Rightarrow> 'a accounts_db_scheme \<Rightarrow> student table" where
  "student_rows user s =
     (let u = the user;
          in_department = (\<lambda>_ st. case (department_of u s, get_row (programmes s) (st_programme st)) of
                             (Some d, Some p) \<Rightarrow> prog_department p = d | _ \<Rightarrow> False);
          active = (\<lambda>_ st. st_status st = St_Active)
      in scoped_rows [''registrar'', ''ict_admin'', ''management'', ''examinations'', ''finance'', ''hr'']
           [(''student'', \<lambda>_ st. st_user st = Some u), (''lecturer'', in_department), (''hod'', in_department),
            (''library'', active), (''hostel'', active)]
           user s (filter_rows (\<lambda>_ st. st_deleted_at st = None) (students s)))"

definition registration_rows :: "nat option \<Rightarrow> 'a accounts_db_scheme \<Rightarrow> course_registration table" where
  "registration_rows user s =
     (let u = the user; in_department = (\<lambda>_ r. course_in s (department_of u s) (cr_course r))
      in scoped_rows [''registrar'', ''ict_admin'', ''management'']
           [(''student'', \<lambda>_ r. own_student s u (cr_student r)), (''lecturer'', in_department), (''hod'', in_department)]
           user s (course_registrations s))"

definition MONEY_UNSCOPED :: "string list" where
  "MONEY_UNSCOPED = [''registrar'', ''ict_admin'', ''management'', ''finance'']"

definition invoice_rows :: "nat option \<Rightarrow> 'a accounts_db_scheme \<Rightarrow> invoice table" where
  "invoice_rows user s =
     scoped_rows MONEY_UNSCOPED [(''student'', \<lambda>_ i. own_student s (the user) (inv_student i))] user s (invoices s)"

definition payment_rows :: "nat option \<Rightarrow> 'a accounts_db_scheme \<Rightarrow> payment table" where
  "payment_rows user s =
     scoped_rows MONEY_UNSCOPED [(''student'', \<lambda>_ p. own_invoice s (the user) (pay_invoice p))] user s (payments s)"

definition refund_rows :: "nat option \<Rightarrow> 'a accounts_db_scheme \<Rightarrow> refund table" where
  "refund_rows user s =
     scoped_rows MONEY_UNSCOPED [(''student'', \<lambda>_ r. own_payment s (the user) (rf_payment r))] user s (refunds s)"

definition mark_rows :: "nat option \<Rightarrow> 'a accounts_db_scheme \<Rightarrow> mark table" where
  "mark_rows user s =
     (let u = the user; in_department = (\<lambda>_ m. registration_in s (department_of u s) (mark_registration m))
      in scoped_rows [''registrar'', ''ict_admin'', ''management'', ''examinations'']
           [(''student'', \<lambda>_ m. own_registration s u (mark_registration m)), (''lecturer'', in_department),
            (''hod'', in_department), (''senate'', \<lambda>_ _. True)]
           user s (marks s))"

definition appeal_rows :: "nat option \<Rightarrow> 'a accounts_db_scheme \<Rightarrow> grade_appeal table" where
  "appeal_rows user s =
     scoped_rows [''registrar'', ''ict_admin'', ''management'', ''examinations'', ''hod'']
       [(''student'', \<lambda>_ g. own_registration s (the user) (ga_registration g))] user s (grade_appeals s)"

definition session_rows :: "nat option \<Rightarrow> 'a accounts_db_scheme \<Rightarrow> session_record table" where
  "session_rows user s =
     (let u = the user;
          entry = (\<lambda>r. get_row (timetable_entries s) (att_timetable_entry r));
          own_class = (\<lambda>_ r. case entry r of None \<Rightarrow> False | Some e \<Rightarrow>
             (case te_lecturer e of None \<Rightarrow> False | Some p \<Rightarrow> map_option sp_user (get_row (staff_profiles s) p) = Some u));
          in_department = (\<lambda>_ r. case entry r of None \<Rightarrow> False | Some e \<Rightarrow> course_in s (department_of u s) (te_course e))
      in scoped_rows [''registrar'', ''ict_admin'', ''management'']
           [(''student'', \<lambda>_ r. own_registration s u (att_registration r)), (''lecturer'', own_class),
            (''hod'', in_department)]
           user s (session_records s))"


definition allocation_rows :: "nat \<Rightarrow> 'a accounts_db_scheme \<Rightarrow> allocation table" where
  "allocation_rows u s =
     (if is_superuser u s \<or> has_role u [''hostel'', ''ict_admin'', ''management''] s then allocations s
      else case student_profile_of u s of
             None \<Rightarrow> []
           | Some (p, _) \<Rightarrow> filter_rows (\<lambda>_ a. al_student a = p) (allocations s))"

section \<open>Actions\<close>

text \<open>
  A request passes the permission class of its view and then the checks of the action. An action on
  one row finds it in the list of the view, so a row that is not in the list is not found.
\<close>

definition guarded :: "bool \<Rightarrow> exn + 'x \<Rightarrow> exn + 'x" where
  "guarded allowed m = (if allowed then m else Inl permission_denied)"

definition on_listed :: "'r table \<Rightarrow> nat \<Rightarrow> exn + 'x \<Rightarrow> exn + 'x" where
  "on_listed rows k m = (if get_row rows k = None then Inl DoesNotExist else m)"

definition registration_access :: view_access where
  "registration_access = by_method [(''GET'', Holding [''enrollment.view_courseregistration'']),
     (''POST'', Holding [''enrollment.add_courseregistration''])]"

text \<open>\<open>CourseRegistrationViewSet\<close>; the serializer resolves the student among the rows that are not deleted.\<close>

definition register_view ::
  "ctx \<Rightarrow> hold_source_provider bucket \<Rightarrow> nat \<Rightarrow> nat \<Rightarrow> nat \<Rightarrow> nat option \<Rightarrow> string \<Rightarrow> 'a accounts_db_scheme
    \<Rightarrow> exn + nat \<times> 'a accounts_db_scheme" where
  "register_view c providers u student course semester override_reason s =
     guarded (module_permission registration_access ''POST'' (Some u) s)
       (case get_row (students s) student of
          None \<Rightarrow> Inl ValidationError
        | Some st \<Rightarrow>
            if st_deleted_at st \<noteq> None then Inl ValidationError
            else register_course c providers student course semester (session_user u s) override_reason s)"

definition drop_view :: "ctx \<Rightarrow> nat \<Rightarrow> nat \<Rightarrow> string \<Rightarrow> 'a accounts_db_scheme \<Rightarrow> exn + nat \<times> 'a accounts_db_scheme" where
  "drop_view c u k reason s =
     guarded (module_permission registration_access ''POST'' (Some u) s)
       (on_listed (registration_rows (Some u) s) k (drop_course c k reason s))"

definition refund_access :: view_access where
  "refund_access = by_method [(''GET'', Holding [''finance.view_refund'']), (''POST'', Holding [''finance.add_refund''])]"

text \<open>\<open>RefundViewSet\<close>: the lengths are the ones of its serializers.\<close>

definition request_refund_view ::
  "ctx \<Rightarrow> nat \<Rightarrow> nat \<Rightarrow> rat \<Rightarrow> string \<Rightarrow> 'a accounts_db_scheme \<Rightarrow> exn + nat \<times> 'a accounts_db_scheme" where
  "request_refund_view c u payment amount reason s =
     guarded (module_permission refund_access ''POST'' (Some u) s)
       (if length (strip reason) < 5 \<or> 2000 < length (strip reason) then Inl ValidationError
        else request_refund c payment amount (strip reason) (session_user u s) s)"

definition decide_refund_view ::
  "ctx \<Rightarrow> nat \<Rightarrow> nat \<Rightarrow> bool \<Rightarrow> string \<Rightarrow> 'a accounts_db_scheme \<Rightarrow> exn + 'a accounts_db_scheme" where
  "decide_refund_view c u k approve remark s =
     guarded (authenticated_and_active (Some u) s \<and> user_has_perm u s ''finance.approve_refund'')
       (if length (strip remark) < 5 \<or> 2000 < length (strip remark) then Inl ValidationError
        else on_listed (refund_rows (Some u) s) k
          (case session_user u s of None \<Rightarrow> Inl permission_denied | Some a \<Rightarrow> decide_refund c k approve a (strip remark) s))"

definition mark_refund_paid_view :: "ctx \<Rightarrow> nat \<Rightarrow> nat \<Rightarrow> 'a accounts_db_scheme \<Rightarrow> exn + 'a accounts_db_scheme" where
  "mark_refund_paid_view c u k s =
     guarded (authenticated_and_active (Some u) s \<and> user_has_perm u s ''finance.approve_refund'')
       (on_listed (refund_rows (Some u) s) k (mark_refund_paid c k s))"

text \<open>\<open>MarkViewSet\<close>.\<close>

definition mark_action :: "string \<Rightarrow> nat \<Rightarrow> exn + 'x \<Rightarrow> 'a accounts_db_scheme \<Rightarrow> exn + 'x" where
  "mark_action p u m s =
     guarded (module_permission (holding ''examinations.view_mark'') ''POST'' (Some u) s \<and> user_has_perm u s p) m"

definition record_mark_view ::
  "ctx \<Rightarrow> nat \<Rightarrow> nat \<Rightarrow> nat \<Rightarrow> rat \<Rightarrow> 'a accounts_db_scheme \<Rightarrow> exn + nat \<times> 'a accounts_db_scheme" where
  "record_mark_view c u registration assessment score s =
     mark_action ''examinations.add_mark'' u (record_mark c registration assessment score (session_user u s) s) s"

definition moderate_mark_view ::
  "ctx \<Rightarrow> nat \<Rightarrow> nat \<Rightarrow> rat \<Rightarrow> string \<Rightarrow> 'a accounts_db_scheme \<Rightarrow> exn + 'a accounts_db_scheme" where
  "moderate_mark_view c u k score remark s =
     mark_action ''examinations.moderate_result'' u
       (if length (strip remark) < 5 \<or> 2000 < length (strip remark) then Inl ValidationError
        else on_listed (mark_rows (Some u) s) k (moderate_mark c k score (strip remark) (session_user u s) s)) s"

definition flag_irregularity_view :: "ctx \<Rightarrow> nat \<Rightarrow> nat \<Rightarrow> string \<Rightarrow> 'a accounts_db_scheme \<Rightarrow> exn + 'a accounts_db_scheme" where
  "flag_irregularity_view c u k remark s =
     mark_action ''examinations.flag_irregularity'' u
       (if length (strip remark) < 5 \<or> 2000 < length (strip remark) then Inl ValidationError
        else on_listed (mark_rows (Some u) s) k (flag_irregularity c k (strip remark) s)) s"

definition clear_irregularity_view :: "ctx \<Rightarrow> nat \<Rightarrow> nat \<Rightarrow> 'a accounts_db_scheme \<Rightarrow> exn + 'a accounts_db_scheme" where
  "clear_irregularity_view c u k s =
     mark_action ''examinations.flag_irregularity'' u (on_listed (mark_rows (Some u) s) k (clear_irregularity c k [] s)) s"

text \<open>\<open>GradeAppealViewSet\<close>.\<close>

definition appeal_access :: view_access where
  "appeal_access = by_method [(''GET'', Holding [''examinations.view_gradeappeal'']),
     (''POST'', Holding [''examinations.add_gradeappeal''])]"

definition submit_appeal_view ::
  "ctx \<Rightarrow> nat \<Rightarrow> nat \<Rightarrow> nat option \<Rightarrow> string \<Rightarrow> 'a accounts_db_scheme \<Rightarrow> exn + nat \<times> 'a accounts_db_scheme" where
  "submit_appeal_view c u registration assessment reason s =
     guarded (module_permission appeal_access ''POST'' (Some u) s)
       (if length (strip reason) < 5 \<or> 2000 < length (strip reason) then Inl ValidationError
        else submit_appeal c registration assessment (strip reason) (session_user u s) s)"

definition decide_appeal_view ::
  "ctx \<Rightarrow> nat \<Rightarrow> nat \<Rightarrow> string \<Rightarrow> string \<Rightarrow> 'a accounts_db_scheme \<Rightarrow> exn + 'a accounts_db_scheme" where
  "decide_appeal_view c u k decision remark s =
     guarded (authenticated_and_active (Some u) s \<and> user_has_perm u s ''examinations.decide_gradeappeal'')
       (if decision \<notin> {''upheld'', ''rejected''} \<or> length (strip remark) < 5 \<or> 2000 < length (strip remark)
        then Inl ValidationError
        else on_listed (appeal_rows (Some u) s) k (decide_appeal c k decision (strip remark) (session_user u s) s))"

text \<open>\<open>ResultApprovalViewSet\<close>; its list is not scoped.\<close>

definition approval_access :: view_access where
  "approval_access = by_method [(''GET'', Holding [''examinations.view_mark'']), (''POST'', Holding [''examinations.publish_result''])]"

definition submit_approval_view ::
  "ctx \<Rightarrow> nat \<Rightarrow> nat \<Rightarrow> nat option \<Rightarrow> 'a accounts_db_scheme \<Rightarrow> exn + nat \<times> 'a accounts_db_scheme" where
  "submit_approval_view c u semester programme s =
     guarded (module_permission approval_access ''POST'' (Some u) s) (submit_for_approval c semester programme s)"

definition approve_view :: "ctx \<Rightarrow> nat \<Rightarrow> nat \<Rightarrow> string \<Rightarrow> 'a accounts_db_scheme \<Rightarrow> exn + 'a accounts_db_scheme" where
  "approve_view c u k remark s =
     guarded (authenticated_and_active (Some u) s \<and> user_has_perm u s ''examinations.approve_result'')
       (if 2000 < length (strip remark) then Inl ValidationError
        else approve_results c k (session_user u s) (strip remark) s)"

definition reject_view :: "ctx \<Rightarrow> nat \<Rightarrow> nat \<Rightarrow> string \<Rightarrow> 'a accounts_db_scheme \<Rightarrow> exn + 'a accounts_db_scheme" where
  "reject_view c u k remark s =
     guarded (authenticated_and_active (Some u) s \<and> user_has_perm u s ''examinations.approve_result'')
       (if length (strip remark) < 5 \<or> 2000 < length (strip remark) then Inl ValidationError
        else reject_results c k (strip remark) s)"

definition publish_view :: "ctx \<Rightarrow> nat \<Rightarrow> nat \<Rightarrow> 'a accounts_db_scheme \<Rightarrow> exn + 'a accounts_db_scheme" where
  "publish_view c u k s =
     guarded (module_permission approval_access ''POST'' (Some u) s \<and> user_has_perm u s ''examinations.publish_result'')
       (publish_results c k (session_user u s) s)"

section \<open>Properties\<close>

lemmas list_view_defs = student_rows_def registration_rows_def invoice_rows_def payment_rows_def refund_rows_def
  mark_rows_def appeal_rows_def session_rows_def MONEY_UNSCOPED_def


lemma guarded_Inr: "guarded allowed m = Inr x \<longleftrightarrow> allowed \<and> m = Inr x"
  by (simp add: guarded_def)

lemma perm_needs_role:
  assumes "accounts_inv av s" and "user_has_perm u s p" and "\<not> is_superuser u s" and "holders p = [code]"
  shows "code \<in> set (role_codes u s)"
proof -
  from assms(2) obtain a where a: "get_row (accounts s) u = Some a" by (auto simp: user_has_perm_def split: option.splits)
  with assms(3) have "\<not> acc_is_superuser a" by (simp add: is_superuser_def)
  with assms(1,2) perm_iff [OF _ a, of "set av" p] have "\<exists>x \<in> set (role_codes u s). p \<in> permissions_for x"
    by (auto simp: accounts_inv_def)
  then show ?thesis by (auto simp: holders_iff assms(4))
qed

lemma approval_permission:
  "module_permission approval_access ''POST'' (Some u) s \<Longrightarrow> user_has_perm u s ''examinations.publish_result''"
  by (simp add: module_permission_def approval_access_def by_method_def required_for_def)

text \<open>
  C34. Results take two offices. However accounts and roles were managed before, only members of the
  Senate approve or reject results, only members of the examinations office submit and publish
  them, and only the bursar decides refunds - whoever is not a superuser.
\<close>

theorem results_need_two_offices:
  assumes "(accounts_step av)\<^sup>*\<^sup>* s0 s" and "accounts_inv av s0" and "\<not> is_superuser u s"
  shows "(''senate'' \<in> set (role_codes u s) \<or> (\<exists>e. approve_view c u k remark s = Inl e) \<and> (\<exists>e. reject_view c u k remark s = Inl e)) \<and>
    (''examinations'' \<in> set (role_codes u s) \<or>
     (\<exists>e. submit_approval_view c u semester programme s = Inl e) \<and> (\<exists>e. publish_view c u k s = Inl e)) \<and>
    (''finance'' \<in> set (role_codes u s) \<or>
     (\<exists>e. decide_refund_view c u k approve remark s = Inl e) \<and> (\<exists>e. mark_refund_paid_view c u k s = Inl e))"
proof -
  from assms(1,2) have inv: "accounts_inv av s" by (rule accounts_steps_inv)
  have "''senate'' \<in> set (role_codes u s)" if "user_has_perm u s ''examinations.approve_result''"
    using perm_needs_role [OF inv that assms(3)] deciding_offices(1) by simp
  moreover have "''examinations'' \<in> set (role_codes u s)" if "user_has_perm u s ''examinations.publish_result''"
    using perm_needs_role [OF inv that assms(3)] deciding_offices(2) by simp
  moreover have "''finance'' \<in> set (role_codes u s)" if "user_has_perm u s ''finance.approve_refund''"
    using perm_needs_role [OF inv that assms(3)] deciding_offices(3) by simp
  ultimately show ?thesis
    by (auto simp: approve_view_def reject_view_def submit_approval_view_def publish_view_def decide_refund_view_def
        mark_refund_paid_view_def guarded_def dest: approval_permission)
qed

section \<open>What the views let through\<close>

text \<open>
  A student finds the marks of an unpublished semester in the list of marks, although the result
  itself is held back: the list does not ask for the approval, nor for unpaid fees.
\<close>

lemma marks_before_publication:
  assumes "\<not> is_superuser u s" and "role_codes u s = [''student'']" and "(k, m) \<in> set (marks s)"
    and "own_registration s u (mark_registration m)"
  shows "(k, m) \<in> set (mark_rows (Some u) (s\<lparr>result_approvals := []\<rparr>))"
proof -
  let ?s = "s\<lparr>result_approvals := []\<rparr>"
  have "role_codes u ?s = [''student'']" "\<not> is_superuser u ?s"
    using assms(1,2) by (simp_all add: role_codes_def active_roles_def has_active_role_def is_superuser_def)
  moreover have "own_registration ?s u (mark_registration m)"
    using assms(4) by (simp add: own_registration_def own_student_def cong: option.case_cong)
  ultimately show ?thesis using assms(3) by (simp add: mark_rows_def Let_def scoped_rows_single filter_rows_def)
qed

text \<open>
  The actions that create a row take its owner from the request: who may register, ask for a
  refund or appeal may do it for any student, and who may enter marks for any course.
\<close>

lemma acting_for_others:
  "module_permission registration_access ''POST'' (Some u) s \<Longrightarrow> get_row (students s) student = Some st \<Longrightarrow>
     st_deleted_at st = None \<Longrightarrow>
     register_view c providers u student course semester reason s =
       register_course c providers student course semester (session_user u s) reason s"
  "module_permission refund_access ''POST'' (Some u) s \<Longrightarrow> 5 \<le> length (strip reason) \<Longrightarrow> length (strip reason) \<le> 2000 \<Longrightarrow>
     request_refund_view c u payment amount reason s = request_refund c payment amount (strip reason) (session_user u s) s"
  "module_permission appeal_access ''POST'' (Some u) s \<Longrightarrow> 5 \<le> length (strip reason) \<Longrightarrow> length (strip reason) \<le> 2000 \<Longrightarrow>
     submit_appeal_view c u registration assessment reason s =
       submit_appeal c registration assessment (strip reason) (session_user u s) s"
  "module_permission (holding ''examinations.view_mark'') ''POST'' (Some u) s \<Longrightarrow> user_has_perm u s ''examinations.add_mark'' \<Longrightarrow>
     record_mark_view c u registration assessment_id score s =
       record_mark c registration assessment_id score (session_user u s) s"
  by (simp_all add: register_view_def request_refund_view_def submit_appeal_view_def record_mark_view_def mark_action_def
      guarded_def)

section \<open>Concrete inputs\<close>



lemma results_need_two_offices_witness:
  "\<exists>s e. accounts_step [''examinations.approve_result''] (sample_accounts_db False) s \<and>
     publish_view sample_ctx 1 1 s = Inl e"
proof -
  let ?s = "sample_accounts_db False" and ?av = "[''examinations.approve_result'']"
  obtain tr where "record_logout sample_ctx 1 ?s = Inr (?s\<lparr>audit_log := tr\<rparr>)"
    unfolding record_logout_def using user_action_total by blast
  then have step: "accounts_step ?av ?s (?s\<lparr>audit_log := tr\<rparr>)" by (rule accounts_step.SignOut)
  have super: "\<not> is_superuser 1 (?s\<lparr>audit_log := tr\<rparr>)" by (simp add: is_superuser_def get_row_singleton sample_account_def)
  have "role_codes 1 (?s\<lparr>audit_log := tr\<rparr>) = [''senate'']"
    using sample_active [of 1 1 False]
    by (simp add: role_codes_def active_roles_def filter_rows_def has_active_role_def sample_senate_def)
  with results_need_two_offices [OF r_into_rtranclp [of "accounts_step ?av", OF step] sample_accounts_inv super,
      where c = sample_ctx and k = 1] step show ?thesis by auto
qed

end
