(* ===== verification/Human_Resources.thy ===== *)
theory Human_Resources
  imports Access_Control
begin

text \<open>
  Human resources: contracts, leave requests and appraisals (\<open>hr/models.py\<close>, \<open>hr/services.py\<close>,
  and of \<open>hr/views.py\<close> the checks and scopes of the actions).
\<close>

section \<open>Models\<close>

datatype contract_type = Ct_Permanent | Ct_Fixed_Term | Ct_Probation | Ct_Part_Time

fun contract_type_text :: "contract_type \<Rightarrow> string" where
  "contract_type_text Ct_Permanent = ''permanent''"
| "contract_type_text Ct_Fixed_Term = ''fixed_term''"
| "contract_type_text Ct_Probation = ''probation''"
| "contract_type_text Ct_Part_Time = ''part_time''"

record contract =
  ct_staff :: nat
  ct_contract_type :: contract_type
  ct_position :: string
  ct_start_date :: int
  ct_end_date :: "int option"
  ct_basic_salary :: rat
  ct_currency :: string
  ct_is_active :: bool
  ct_notes :: string

datatype leave_type = Lv_Annual | Lv_Sick | Lv_Maternity | Lv_Paternity | Lv_Study | Lv_Unpaid

datatype leave_status = Leave_Submitted | Leave_Endorsed | Leave_Approved | Leave_Rejected

fun leave_status_text :: "leave_status \<Rightarrow> string" where
  "leave_status_text Leave_Submitted = ''submitted''"
| "leave_status_text Leave_Endorsed = ''endorsed''"
| "leave_status_text Leave_Approved = ''approved''"
| "leave_status_text Leave_Rejected = ''rejected''"

record leave_request =
  lv_staff :: nat
  lv_leave_type :: leave_type
  lv_start_date :: int
  lv_end_date :: int
  lv_reason :: string
  lv_status :: leave_status
  lv_endorsed_by :: "nat option"
  lv_endorsed_at :: "int option"
  lv_decided_by :: "nat option"
  lv_decision_notes :: string
  lv_decided_at :: "int option"

record appraisal =
  apr_staff :: nat
  apr_academic_year :: nat
  apr_reviewer :: "nat option"
  apr_rating :: int
  apr_comments :: string
  apr_promotion_recommended :: bool

record hr_db = accounts_db +
  contracts :: "contract table"
  leave_requests :: "leave_request table"
  appraisals :: "appraisal table"

abbreviation put_contracts :: "contract table \<Rightarrow> 'a hr_db_scheme \<Rightarrow> 'a hr_db_scheme" where
  "put_contracts t s \<equiv> s\<lparr>contracts := t\<rparr>"

abbreviation put_leaves :: "leave_request table \<Rightarrow> 'a hr_db_scheme \<Rightarrow> 'a hr_db_scheme" where
  "put_leaves t s \<equiv> s\<lparr>leave_requests := t\<rparr>"

abbreviation put_appraisals :: "appraisal table \<Rightarrow> 'a hr_db_scheme \<Rightarrow> 'a hr_db_scheme" where
  "put_appraisals t s \<equiv> s\<lparr>appraisals := t\<rparr>"

definition contract_meta :: model_meta where
  "contract_meta = \<lparr>mm_label = ''hr.contract'', mm_verbose = ''contract'', mm_sensitive = True\<rparr>"

definition contract_audit :: "contract \<Rightarrow> (string \<times> pyval) list" where
  "contract_audit r =
     [(''contract_type'', VStr (contract_type_text (ct_contract_type r))), (''basic_salary'', VDec (ct_basic_salary r)),
      (''is_active'', VBool (ct_is_active r))]"

definition leave_meta :: model_meta where
  "leave_meta = \<lparr>mm_label = ''hr.leaverequest'', mm_verbose = ''leave request'', mm_sensitive = True\<rparr>"

definition leave_audit :: "leave_request \<Rightarrow> (string \<times> pyval) list" where
  "leave_audit r = [(''status'', VStr (leave_status_text (lv_status r)))]"

definition appraisal_meta :: model_meta where
  "appraisal_meta = \<lparr>mm_label = ''hr.appraisal'', mm_verbose = ''appraisal'', mm_sensitive = True\<rparr>"

definition appraisal_audit :: "appraisal \<Rightarrow> (string \<times> pyval) list" where
  "appraisal_audit r =
     [(''rating'', VInt (apr_rating r)), (''promotion_recommended'', VBool (apr_promotion_recommended r))]"

definition contract_clean :: "contract \<Rightarrow> exn + unit" where
  "contract_clean r =
     (if ct_contract_type r \<noteq> Ct_Permanent \<and> ct_end_date r = None then Inl ValidationError
      else (case ct_end_date r of
              None \<Rightarrow> Inr ()
            | Some e \<Rightarrow> if e \<le> ct_start_date r then Inl ValidationError else Inr ()))"

definition contract_fields :: "contract \<Rightarrow> 'a hr_db_scheme \<Rightarrow> bool" where
  "contract_fields r s \<longleftrightarrow>
     get_row (staff_profiles s) (ct_staff r) \<noteq> None \<and> ct_position r \<noteq> [] \<and> length (ct_position r) \<le> 100 \<and>
     money_amount_field (ct_basic_salary r) \<and> currency_field (ct_currency r)"

definition contract_full_clean :: "contract \<Rightarrow> 'a hr_db_scheme \<Rightarrow> exn + unit" where
  "contract_full_clean r s = bindE (ensure (contract_fields r s) ValidationError) (\<lambda>_. contract_clean r)"

definition leave_clean :: "leave_request \<Rightarrow> exn + unit" where
  "leave_clean r = (if lv_end_date r < lv_start_date r then Inl ValidationError else Inr ())"

definition leave_full_clean :: "leave_request \<Rightarrow> 'a hr_db_scheme \<Rightarrow> exn + unit" where
  "leave_full_clean r s =
     bindE (ensure (get_row (staff_profiles s) (lv_staff r) \<noteq> None \<and> lv_reason r \<noteq> []) ValidationError)
       (\<lambda>_. leave_clean r)"

definition appraisal_clean :: "appraisal \<Rightarrow> exn + unit" where
  "appraisal_clean r = ensure (1 \<le> apr_rating r \<and> apr_rating r \<le> 5) ValidationError"

definition appraisal_full_clean :: "nat option \<Rightarrow> appraisal \<Rightarrow> 'a hr_db_scheme \<Rightarrow> exn + unit" where
  "appraisal_full_clean pk r s =
     bindE (ensure (get_row (staff_profiles s) (apr_staff r) \<noteq> None \<and> get_row (academic_years s) (apr_academic_year r) \<noteq> None \<and>
                    0 \<le> apr_rating r \<and> apr_rating r \<le> 32767) ValidationError) (\<lambda>_.
     bindE (appraisal_clean r) (\<lambda>_.
       ensure (\<not> exists_row (\<lambda>k b. Some k \<noteq> pk \<and> apr_staff b = apr_staff r \<and> apr_academic_year b = apr_academic_year r)
                 (appraisals s)) ValidationError))"

section \<open>Contracts\<close>

definition create_contract ::
  "ctx \<Rightarrow> nat \<Rightarrow> contract_type \<Rightarrow> string \<Rightarrow> int \<Rightarrow> rat \<Rightarrow> int option \<Rightarrow> string option \<Rightarrow> 'a hr_db_scheme
    \<Rightarrow> exn + nat \<times> 'a hr_db_scheme" where
  "create_contract c staff ctype position start salary end_date currency s =
     (let r = \<lparr>ct_staff = staff, ct_contract_type = ctype, ct_position = position, ct_start_date = start,
               ct_end_date = end_date, ct_basic_salary = salary,
               ct_currency = (case currency of None \<Rightarrow> base_currency c s | Some t \<Rightarrow> if t = [] then base_currency c s else t),
               ct_is_active = True, ct_notes = []\<rparr>
      in bindE (contract_full_clean r s) (\<lambda>_.
           insert_audited c contract_meta contract_audit contracts put_contracts r ''Contract created'' s))"

definition with_contract :: "nat \<Rightarrow> (contract \<Rightarrow> exn + 'x) \<Rightarrow> 'a hr_db_scheme \<Rightarrow> exn + 'x" where
  "with_contract k f s = (case get_row (contracts s) k of None \<Rightarrow> Inl DoesNotExist | Some r \<Rightarrow> f r)"

definition end_contract :: "ctx \<Rightarrow> nat \<Rightarrow> int \<Rightarrow> 'a hr_db_scheme \<Rightarrow> exn + 'a hr_db_scheme" where
  "end_contract c k end_date s =
     with_contract k (\<lambda>r.
       let r' = r\<lparr>ct_end_date := Some end_date, ct_is_active := False\<rparr> in
       bindE (contract_full_clean r' s) (\<lambda>_.
         update_audited c contract_meta contract_audit contracts put_contracts k r r' ''Contract ended'' s)) s"

text \<open>
  \<open>ContractViewSet\<close> has no \<open>perform_update\<close>: a PATCH saves what the serializer accepts, which checks
  the fields one by one and never calls \<open>clean\<close>.
\<close>

record contract_changes =
  cc_staff :: "nat option"
  cc_contract_type :: "contract_type option"
  cc_position :: "string option"
  cc_start_date :: "int option"
  cc_end_date :: "int option option"
  cc_basic_salary :: "rat option"
  cc_currency :: "string option"
  cc_is_active :: "bool option"
  cc_notes :: "string option"

definition changed_contract :: "contract_changes \<Rightarrow> contract \<Rightarrow> contract" where
  "changed_contract ch r =
     r\<lparr>ct_staff := or_keep (cc_staff ch) (ct_staff r), ct_contract_type := or_keep (cc_contract_type ch) (ct_contract_type r),
       ct_position := or_keep (cc_position ch) (ct_position r), ct_start_date := or_keep (cc_start_date ch) (ct_start_date r),
       ct_end_date := or_keep (cc_end_date ch) (ct_end_date r),
       ct_basic_salary := or_keep (cc_basic_salary ch) (ct_basic_salary r),
       ct_currency := or_keep (cc_currency ch) (ct_currency r), ct_is_active := or_keep (cc_is_active ch) (ct_is_active r),
       ct_notes := or_keep (cc_notes ch) (ct_notes r)\<rparr>"

definition contract_access :: view_access where
  "contract_access = by_method [(''GET'', Holding [''hr.view_contract'']), (''POST'', Holding [''hr.add_contract'']),
     (''PUT'', Holding [''hr.change_contract'']), (''PATCH'', Holding [''hr.change_contract''])]"

text \<open>The serializers find a member of staff among the profiles that are not deleted.\<close>

definition live_staff :: "nat \<Rightarrow> 'a hr_db_scheme \<Rightarrow> bool" where
  "live_staff p s = (case get_row (staff_profiles s) p of None \<Rightarrow> False | Some r \<Rightarrow> sp_deleted_at r = None)"

definition patch_contract :: "ctx \<Rightarrow> nat \<Rightarrow> nat \<Rightarrow> contract_changes \<Rightarrow> 'a hr_db_scheme \<Rightarrow> exn + 'a hr_db_scheme" where
  "patch_contract c u k ch s =
     guarded (module_permission contract_access ''PATCH'' (Some u) s)
       (with_contract k (\<lambda>r.
          bindE (ensure (contract_fields (changed_contract ch r) s \<and>
                         (case cc_staff ch of None \<Rightarrow> True | Some p \<Rightarrow> live_staff p s)) ValidationError) (\<lambda>_.
            update_audited c contract_meta contract_audit contracts put_contracts k r (changed_contract ch r) [] s)) s)"

definition end_contract_view :: "ctx \<Rightarrow> nat \<Rightarrow> nat \<Rightarrow> int \<Rightarrow> 'a hr_db_scheme \<Rightarrow> exn + 'a hr_db_scheme" where
  "end_contract_view c u k end_date s =
     guarded (module_permission contract_access ''POST'' (Some u) s \<and> user_has_perm u s ''hr.change_contract'')
       (end_contract c k end_date s)"

section \<open>Leave\<close>

definition InvalidLeaveTransition :: exn where "InvalidLeaveTransition = DomainError ''invalid_leave_transition'' 409"

definition submit_leave_request ::
  "ctx \<Rightarrow> nat \<Rightarrow> leave_type \<Rightarrow> int \<Rightarrow> int \<Rightarrow> string \<Rightarrow> 'a hr_db_scheme \<Rightarrow> exn + nat \<times> 'a hr_db_scheme" where
  "submit_leave_request c staff ltype start end_date reason s =
     (if \<not> nonblank reason then Inl ReasonRequired
      else let r = \<lparr>lv_staff = staff, lv_leave_type = ltype, lv_start_date = start, lv_end_date = end_date, lv_reason = reason,
                    lv_status = Leave_Submitted, lv_endorsed_by = None, lv_endorsed_at = None, lv_decided_by = None,
                    lv_decision_notes = [], lv_decided_at = None\<rparr>
           in bindE (leave_full_clean r s) (\<lambda>_.
                insert_audited c leave_meta leave_audit leave_requests put_leaves r ''Leave requested'' s))"

definition with_leave :: "nat \<Rightarrow> (leave_request \<Rightarrow> exn + 'x) \<Rightarrow> 'a hr_db_scheme \<Rightarrow> exn + 'x" where
  "with_leave k f s = (case get_row (leave_requests s) k of None \<Rightarrow> Inl DoesNotExist | Some r \<Rightarrow> f r)"

definition save_leave :: "ctx \<Rightarrow> nat \<Rightarrow> leave_request \<Rightarrow> leave_request \<Rightarrow> string \<Rightarrow> 'a hr_db_scheme \<Rightarrow> exn + 'a hr_db_scheme" where
  "save_leave c k old r reason s =
     bindE (leave_full_clean r s) (\<lambda>_. update_audited c leave_meta leave_audit leave_requests put_leaves k old r reason s)"

definition endorse_leave_request :: "ctx \<Rightarrow> nat \<Rightarrow> user option \<Rightarrow> 'a hr_db_scheme \<Rightarrow> exn + 'a hr_db_scheme" where
  "endorse_leave_request c k actor s =
     with_leave k (\<lambda>r.
       if lv_status r \<noteq> Leave_Submitted then Inl InvalidLeaveTransition
       else save_leave c k r (r\<lparr>lv_status := Leave_Endorsed, lv_endorsed_by := actor_fk actor, lv_endorsed_at := Some (now c)\<rparr>)
              ''Endorsed by supervisor'' s) s"

definition decide_leave_request ::
  "ctx \<Rightarrow> nat \<Rightarrow> bool \<Rightarrow> user option \<Rightarrow> string \<Rightarrow> 'a hr_db_scheme \<Rightarrow> exn + 'a hr_db_scheme" where
  "decide_leave_request c k approve actor remark s =
     with_leave k (\<lambda>r.
       if \<not> nonblank remark then Inl ReasonRequired
       else if lv_status r \<noteq> Leave_Endorsed then Inl InvalidLeaveTransition
       else let st = (if approve then Leave_Approved else Leave_Rejected) in
            save_leave c k r (r\<lparr>lv_status := st, lv_decided_by := actor_fk actor, lv_decision_notes := remark,
                                lv_decided_at := Some (now c)\<rparr>)
              (''Leave '' @ leave_status_text st @ '': '' @ remark) s) s"

section \<open>Appraisals and payroll\<close>

definition record_appraisal ::
  "ctx \<Rightarrow> nat \<Rightarrow> nat \<Rightarrow> int \<Rightarrow> user option \<Rightarrow> string \<Rightarrow> bool \<Rightarrow> 'a hr_db_scheme \<Rightarrow> exn + nat \<times> 'a hr_db_scheme" where
  "record_appraisal c staff year rating reviewer comments promotion s =
     (let r = \<lparr>apr_staff = staff, apr_academic_year = year, apr_reviewer = actor_fk reviewer, apr_rating = rating,
               apr_comments = comments, apr_promotion_recommended = promotion\<rparr>
      in bindE (appraisal_full_clean None r s) (\<lambda>_.
           insert_audited c appraisal_meta appraisal_audit appraisals put_appraisals r ''Appraisal recorded'' s))"

definition update_appraisal ::
  "ctx \<Rightarrow> nat \<Rightarrow> int option \<Rightarrow> string option \<Rightarrow> bool option \<Rightarrow> 'a hr_db_scheme \<Rightarrow> exn + 'a hr_db_scheme" where
  "update_appraisal c k rating comments promotion s =
     (case get_row (appraisals s) k of
        None \<Rightarrow> Inl DoesNotExist
      | Some r \<Rightarrow>
          let r' = r\<lparr>apr_rating := or_keep rating (apr_rating r), apr_comments := or_keep comments (apr_comments r),
                     apr_promotion_recommended := or_keep promotion (apr_promotion_recommended r)\<rparr>
          in bindE (appraisal_full_clean (Some k) r' s) (\<lambda>_.
               update_audited c appraisal_meta appraisal_audit appraisals put_appraisals k r r' ''Appraisal updated'' s))"

text \<open>The row of the payroll: staff, staff number, name, position, type, salary, currency; latest start first.\<close>

record payroll_row =
  pr_staff_id :: nat
  pr_staff_number :: string
  pr_staff_name :: string
  pr_position :: string
  pr_contract_type :: string
  pr_basic_salary :: rat
  pr_currency :: string

definition payroll_row_of :: "'a hr_db_scheme \<Rightarrow> contract \<Rightarrow> payroll_row" where
  "payroll_row_of s r =
     (let profile = get_row (staff_profiles s) (ct_staff r);
          person = (case profile of None \<Rightarrow> None | Some p \<Rightarrow> get_row (accounts s) (sp_user p))
      in \<lparr>pr_staff_id = ct_staff r, pr_staff_number = (case profile of None \<Rightarrow> [] | Some p \<Rightarrow> sp_staff_number p),
          pr_staff_name = (case person of None \<Rightarrow> [] | Some a \<Rightarrow> account_full_name a), pr_position = ct_position r,
          pr_contract_type = contract_type_text (ct_contract_type r), pr_basic_salary = ct_basic_salary r,
          pr_currency = ct_currency r\<rparr>)"

definition payroll_export :: "'a hr_db_scheme \<Rightarrow> payroll_row list" where
  "payroll_export s =
     map (payroll_row_of s) (sort_key (\<lambda>r. - ct_start_date r) (map snd (filter_rows (\<lambda>_ r. ct_is_active r) (contracts s))))"

section \<open>Views\<close>

definition HR_UNSCOPED :: "string list" where
  "HR_UNSCOPED = [''hr'', ''ict_admin'', ''management'']"

text \<open>What a user sees of the rows that belong to a member of staff.\<close>

definition staff_scoped :: "('r \<Rightarrow> nat) \<Rightarrow> nat \<Rightarrow> 'a accounts_db_scheme \<Rightarrow> 'r table \<Rightarrow> 'r table" where
  "staff_scoped staff_of u s rows =
     (if is_superuser u s \<or> has_role u HR_UNSCOPED s then rows
      else if has_role u [''hod''] s
           then (case department_of u s of
                   None \<Rightarrow> []
                 | Some d \<Rightarrow> filter_rows (\<lambda>_ r. case get_row (staff_profiles s) (staff_of r) of
                                None \<Rightarrow> False | Some p \<Rightarrow> sp_department p = Some d) rows)
      else case staff_profile_of u s of
             None \<Rightarrow> []
           | Some (p, _) \<Rightarrow> filter_rows (\<lambda>_ r. staff_of r = p) rows)"

definition leave_rows :: "nat \<Rightarrow> 'a hr_db_scheme \<Rightarrow> leave_request table" where
  "leave_rows u s = staff_scoped lv_staff u s (leave_requests s)"

definition appraisal_rows :: "nat \<Rightarrow> 'a hr_db_scheme \<Rightarrow> appraisal table" where
  "appraisal_rows u s = staff_scoped apr_staff u s (appraisals s)"

definition submit_leave_view ::
  "ctx \<Rightarrow> nat \<Rightarrow> leave_type \<Rightarrow> int \<Rightarrow> int \<Rightarrow> string \<Rightarrow> 'a hr_db_scheme \<Rightarrow> exn + nat \<times> 'a hr_db_scheme" where
  "submit_leave_view c u ltype start end_date reason s =
     guarded (authenticated_and_active (Some u) s)
       (case staff_profile_of u s of
          None \<Rightarrow> Inl permission_denied
        | Some (p, _) \<Rightarrow>
            if length (strip reason) < 5 \<or> 2000 < length (strip reason) then Inl ValidationError
            else submit_leave_request c p ltype start end_date (strip reason) s)"

definition endorse_leave_view :: "ctx \<Rightarrow> nat \<Rightarrow> nat \<Rightarrow> 'a hr_db_scheme \<Rightarrow> exn + 'a hr_db_scheme" where
  "endorse_leave_view c u k s =
     guarded (authenticated_and_active (Some u) s \<and> has_role u [''hod''] s)
       (on_listed (leave_rows u s) k (endorse_leave_request c k (session_user u s) s))"

definition decide_leave_view :: "ctx \<Rightarrow> nat \<Rightarrow> nat \<Rightarrow> bool \<Rightarrow> string \<Rightarrow> 'a hr_db_scheme \<Rightarrow> exn + 'a hr_db_scheme" where
  "decide_leave_view c u k approve remark s =
     guarded (authenticated_and_active (Some u) s \<and> user_has_perm u s ''hr.approve_leaverequest'')
       (if length (strip remark) < 5 \<or> 2000 < length (strip remark) then Inl ValidationError
        else on_listed (leave_rows u s) k (decide_leave_request c k approve (session_user u s) (strip remark) s))"

definition appraisal_access :: view_access where
  "appraisal_access = by_method [(''GET'', Holding [''hr.view_appraisal'']), (''POST'', Holding [''hr.add_appraisal'']),
     (''PUT'', Holding [''hr.change_appraisal'']), (''PATCH'', Holding [''hr.change_appraisal''])]"

definition record_appraisal_view ::
  "ctx \<Rightarrow> nat \<Rightarrow> nat \<Rightarrow> nat \<Rightarrow> int \<Rightarrow> string \<Rightarrow> bool \<Rightarrow> 'a hr_db_scheme \<Rightarrow> exn + nat \<times> 'a hr_db_scheme" where
  "record_appraisal_view c u staff year rating comments promotion s =
     guarded (module_permission appraisal_access ''POST'' (Some u) s)
       (if \<not> live_staff staff s then Inl ValidationError
        else record_appraisal c staff year rating (session_user u s) comments promotion s)"

definition update_appraisal_view ::
  "ctx \<Rightarrow> nat \<Rightarrow> nat \<Rightarrow> int option \<Rightarrow> string option \<Rightarrow> bool option \<Rightarrow> 'a hr_db_scheme \<Rightarrow> exn + 'a hr_db_scheme" where
  "update_appraisal_view c u k rating comments promotion s =
     guarded (module_permission appraisal_access ''PATCH'' (Some u) s)
       (on_listed (appraisal_rows u s) k (update_appraisal c k rating comments promotion s))"

definition payroll_view :: "nat \<Rightarrow> 'a hr_db_scheme \<Rightarrow> exn + payroll_row list" where
  "payroll_view u s =
     guarded (module_permission (holding ''hr.export_payroll'') ''GET'' (Some u) s) (Inr (payroll_export s))"

section \<open>What the operations write\<close>

definition leave_moves :: "leave_request option \<Rightarrow> leave_request \<Rightarrow> bool" where
  "leave_moves old r \<longleftrightarrow>
     (case old of
        None \<Rightarrow> lv_status r = Leave_Submitted \<and> lv_endorsed_at r = None \<and> lv_decided_at r = None \<and> nonblank (lv_reason r) \<and>
          lv_start_date r \<le> lv_end_date r
      | Some q \<Rightarrow>
          lv_status q = Leave_Submitted \<and>
            (\<exists>by_user t. r = q\<lparr>lv_status := Leave_Endorsed, lv_endorsed_by := by_user, lv_endorsed_at := Some t\<rparr>) \<or>
          lv_status q = Leave_Endorsed \<and>
            (\<exists>st by_user remark t. st \<in> {Leave_Approved, Leave_Rejected} \<and> nonblank remark \<and>
               r = q\<lparr>lv_status := st, lv_decided_by := by_user, lv_decision_notes := remark, lv_decided_at := Some t\<rparr>))"

definition appraisal_key :: "appraisal \<Rightarrow> (nat \<times> nat) option" where
  "appraisal_key r = Some (apr_staff r, apr_academic_year r)"

inductive hr_effect :: "'a hr_db_scheme \<Rightarrow> 'a hr_db_scheme \<Rightarrow> bool" where
  Contract: "wrote k r (contracts s) t \<Longrightarrow> hr_effect s (s\<lparr>contracts := t, audit_log := tr\<rparr>)"
| Leave: "wrote k r (leave_requests s) t \<Longrightarrow> leave_moves (get_row (leave_requests s) k) r \<Longrightarrow>
    hr_effect s (s\<lparr>leave_requests := t, audit_log := tr\<rparr>)"
| Appraisal: "wrote k r (appraisals s) t \<Longrightarrow> key_free appraisal_key k r (appraisals s) \<Longrightarrow> 1 \<le> apr_rating r \<Longrightarrow>
    apr_rating r \<le> 5 \<Longrightarrow> hr_effect s (s\<lparr>appraisals := t, audit_log := tr\<rparr>)"

lemma create_contract_effect: "create_contract c staff ctype position start salary e cur s = Inr (k, s') \<Longrightarrow> hr_effect s s'"
  unfolding create_contract_def Let_def by (elim bindE_InrE insert_audited_wrote) (simp add: hr_effect.Contract)

lemma end_contract_effect: "end_contract c k e s = Inr s' \<Longrightarrow> hr_effect s s'"
  unfolding end_contract_def with_contract_def Let_def
  by (auto split: option.splits elim!: bindE_InrE update_audited_wrote intro: hr_effect.Contract)

lemma patch_contract_effect: "patch_contract c u k ch s = Inr s' \<Longrightarrow> hr_effect s s'"
  unfolding patch_contract_def guarded_Inr with_contract_def
  by (auto split: option.splits elim!: bindE_InrE update_audited_wrote intro: hr_effect.Contract)

lemma submit_leave_effect:
  assumes "submit_leave_request c staff ltype start e reason s = Inr (k, s')"
  shows "hr_effect s s'"
proof -
  define r where "r = \<lparr>lv_staff = staff, lv_leave_type = ltype, lv_start_date = start, lv_end_date = e, lv_reason = reason,
    lv_status = Leave_Submitted, lv_endorsed_by = None, lv_endorsed_at = None, lv_decided_by = None,
    lv_decision_notes = [], lv_decided_at = None\<rparr>"
  from assms have reason: "nonblank reason" and clean: "leave_full_clean r s = Inr ()"
    and ins: "insert_audited c leave_meta leave_audit leave_requests put_leaves r ''Leave requested'' s = Inr (k, s')"
    unfolding submit_leave_request_def Let_def r_def by (auto split: if_splits elim!: bindE_InrE)
  from clean have "start \<le> e" by (auto simp: leave_full_clean_def leave_clean_def r_def split: if_splits elim!: bindE_InrE)
  with reason have "leave_moves None r" by (simp add: leave_moves_def r_def)
  with ins show ?thesis by (elim insert_audited_wrote) (simp add: hr_effect.Leave)
qed

lemma save_leave_effect:
  assumes "with_leave k f s = Inr s'"
    and "\<And>q. f q = Inr s' \<Longrightarrow> \<exists>r reason. save_leave c k q r reason s = Inr s' \<and> leave_moves (Some q) r"
  shows "hr_effect s s'"
proof -
  from assms(1) obtain q where q: "get_row (leave_requests s) k = Some q" and f: "f q = Inr s'"
    by (auto simp: with_leave_def split: option.splits)
  from assms(2) [OF f] obtain r reason where save: "save_leave c k q r reason s = Inr s'" and r: "leave_moves (Some q) r" by blast
  from save have "update_audited c leave_meta leave_audit leave_requests put_leaves k q r reason s = Inr s'"
    unfolding save_leave_def by (auto elim!: bindE_InrE)
  from this q obtain t tr where "s' = s\<lparr>leave_requests := t, audit_log := tr\<rparr>" and "wrote k r (leave_requests s) t"
    by (rule update_audited_wrote)
  with r q show ?thesis by (simp add: hr_effect.Leave)
qed

lemma endorse_leave_effect: "endorse_leave_request c k actor s = Inr s' \<Longrightarrow> hr_effect s s'"
  unfolding endorse_leave_request_def
  by (erule save_leave_effect [where c = c]) (auto split: if_splits simp: leave_moves_def)

lemma decide_leave_effect: "decide_leave_request c k approve actor remark s = Inr s' \<Longrightarrow> hr_effect s s'"
  unfolding decide_leave_request_def Let_def
  by (erule save_leave_effect [where c = c]) (force split: if_splits simp: leave_moves_def)

lemma appraisal_full_clean_Inr:
  assumes "appraisal_full_clean pk r s = Inr ()"
  shows "1 \<le> apr_rating r" and "apr_rating r \<le> 5"
    and "\<not> exists_row (\<lambda>k b. Some k \<noteq> pk \<and> apr_staff b = apr_staff r \<and> apr_academic_year b = apr_academic_year r) (appraisals s)"
  using assms by (auto simp: appraisal_full_clean_def appraisal_clean_def ensure_eq_Inr elim!: bindE_InrE)

lemma record_appraisal_effect:
  assumes "record_appraisal c staff year rating reviewer comments promotion s = Inr (k, s')"
  shows "hr_effect s s'"
proof -
  define r where "r = \<lparr>apr_staff = staff, apr_academic_year = year, apr_reviewer = actor_fk reviewer, apr_rating = rating,
    apr_comments = comments, apr_promotion_recommended = promotion\<rparr>"
  from assms have clean: "appraisal_full_clean None r s = Inr ()"
    and ins: "insert_audited c appraisal_meta appraisal_audit appraisals put_appraisals r ''Appraisal recorded'' s = Inr (k, s')"
    unfolding record_appraisal_def Let_def r_def by (auto elim!: bindE_InrE)
  note ok = appraisal_full_clean_Inr [OF clean]
  have "key_free appraisal_key (fresh_pk (appraisals s)) r (appraisals s)"
    using key_free_fresh [of appraisal_key r "appraisals s"] ok(3) by (simp add: appraisal_key_def eq_commute)
  with ins ok show ?thesis by (elim insert_audited_wrote) (simp add: hr_effect.Appraisal)
qed

lemma update_appraisal_effect:
  assumes "update_appraisal c k rating comments promotion s = Inr s'"
  shows "hr_effect s s'"
proof -
  from assms obtain q where q: "get_row (appraisals s) k = Some q" by (auto simp: update_appraisal_def split: option.splits)
  define r where "r = q\<lparr>apr_rating := or_keep rating (apr_rating q), apr_comments := or_keep comments (apr_comments q),
    apr_promotion_recommended := or_keep promotion (apr_promotion_recommended q)\<rparr>"
  from assms q have clean: "appraisal_full_clean (Some k) r s = Inr ()"
    and upd: "update_audited c appraisal_meta appraisal_audit appraisals put_appraisals k q r ''Appraisal updated'' s = Inr s'"
    unfolding update_appraisal_def Let_def r_def by (auto elim!: bindE_InrE)
  note ok = appraisal_full_clean_Inr [OF clean]
  have free: "key_free appraisal_key k r (appraisals s)"
    using key_free_other [of k appraisal_key r "appraisals s"] ok(3) by (simp add: appraisal_key_def eq_commute)
  from upd q obtain t tr where "s' = s\<lparr>appraisals := t, audit_log := tr\<rparr>" and "wrote k r (appraisals s) t"
    by (rule update_audited_wrote)
  with free ok show ?thesis by (simp add: hr_effect.Appraisal)
qed

section \<open>Steps and invariant\<close>

definition leave_ok :: "leave_request \<Rightarrow> bool" where
  "leave_ok r \<longleftrightarrow> lv_start_date r \<le> lv_end_date r \<and> nonblank (lv_reason r) \<and>
     (lv_endorsed_at r = None \<longleftrightarrow> lv_status r = Leave_Submitted) \<and>
     (lv_decided_at r = None \<longleftrightarrow> lv_status r \<in> {Leave_Submitted, Leave_Endorsed}) \<and>
     (lv_decided_at r = None \<or> nonblank (lv_decision_notes r))"

definition hr_tables_ok :: "'a hr_db_scheme \<Rightarrow> bool" where
  "hr_tables_ok s \<longleftrightarrow> wf_table (contracts s) \<and> wf_table (leave_requests s) \<and> wf_table (appraisals s) \<and>
     unique_on appraisal_key (appraisals s) \<and>
     (\<forall>k r. get_row (leave_requests s) k = Some r \<longrightarrow> leave_ok r) \<and>
     (\<forall>k r. get_row (appraisals s) k = Some r \<longrightarrow> 1 \<le> apr_rating r \<and> apr_rating r \<le> 5)"

definition hr_inv :: "string list \<Rightarrow> 'a hr_db_scheme \<Rightarrow> bool" where
  "hr_inv av s \<longleftrightarrow> accounts_inv av s \<and> hr_tables_ok s"

inductive hr_step :: "string list \<Rightarrow> 'a hr_db_scheme \<Rightarrow> 'a hr_db_scheme \<Rightarrow> bool" for av where
  NewContract: "create_contract c staff ctype position start salary e cur s = Inr (k, s') \<Longrightarrow> hr_step av s s'"
| EndContract: "end_contract c k e s = Inr s' \<Longrightarrow> hr_step av s s'"
| EditContract: "patch_contract c u k ch s = Inr s' \<Longrightarrow> hr_step av s s'"
| Ask: "submit_leave_request c staff ltype start e reason s = Inr (k, s') \<Longrightarrow> hr_step av s s'"
| Endorse: "endorse_leave_request c k actor s = Inr s' \<Longrightarrow> hr_step av s s'"
| Decide: "decide_leave_request c k approve actor remark s = Inr s' \<Longrightarrow> hr_step av s s'"
| Appraise: "record_appraisal c staff year rating reviewer comments promotion s = Inr (k, s') \<Longrightarrow> hr_step av s s'"
| Reappraise: "update_appraisal c k new_rating new_comments new_promotion s = Inr s' \<Longrightarrow> hr_step av s s'"
| Accounts: "accounts_step av s s' \<Longrightarrow> hr_step av s s'"

lemma account_effect_more: "account_effect s s' \<Longrightarrow> accounts_db.more s' = accounts_db.more s"
  by (induction rule: account_effect.induct) simp_all

lemma seed_roles_more: "accounts_db.more (seed_roles av prune s) = accounts_db.more s"
proof -
  have one: "accounts_db.more (seed_role av prune d s) = accounts_db.more s" for d and s :: "'a accounts_db_scheme"
    by (simp add: seed_role_def group_for_def Let_def split: prod.splits option.splits)
  have "accounts_db.more (fold (seed_role av prune) ds s) = accounts_db.more s" for ds
    by (induction ds arbitrary: s) (simp_all add: one)
  then show ?thesis by (simp add: seed_roles_def)
qed

lemma accounts_step_more:
  assumes "accounts_step av s s'"
  shows "accounts_db.more s' = accounts_db.more s"
  using assms
proof (induction rule: accounts_step.induct)
  case (SignIn lib c typed password otp m l ip s res s')
  then show ?case by (auto intro: login_effect account_effect_more)
next
  case (Library s s')
  then have "library_db.more s' = library_db.more s" by (intro library_step_more)
  then show ?case by (cases s; cases s') simp
next
  case (Grant c u code by_user reason s k s')
  then show ?case by (elim grant_role_Inr) simp_all
next
  case (Revoke c u code by_user reason s s')
  then show ?case unfolding revoke_role_def
    by (auto split: option.splits if_splits elim!: record_actionE)
qed (auto simp: resync_groups_def seed_roles_more intro: account_effect_more create_account_effect update_account_effect
  change_password_effect record_logout_effect start_mfa_effect confirm_mfa_effect disable_mfa_effect)

lemma hr_step_effect:
  assumes "hr_step av s s'"
  shows "hr_effect s s' \<or> accounts_step av s s'"
  using assms
  by (induction rule: hr_step.induct)
    (auto intro: create_contract_effect end_contract_effect patch_contract_effect submit_leave_effect endorse_leave_effect
      decide_leave_effect record_appraisal_effect update_appraisal_effect)

lemma accounts_frame_hr:
  assumes "accounts_step av s s'"
  shows "contracts s' = contracts s" "leave_requests s' = leave_requests s" "appraisals s' = appraisals s"
  using accounts_step_more [OF assms] by (cases s; cases s'; simp)+

lemma hr_effect_accounts: "hr_effect s s' \<Longrightarrow> accounts_inv av s \<Longrightarrow> accounts_inv av s'"
  by (induction rule: hr_effect.induct)
    (auto simp: accounts_inv_def tables_same_def access_same_def intro: keyed_same access_inv_same)

lemma leave_moves_ok: "leave_moves old r \<Longrightarrow> (\<And>q. old = Some q \<Longrightarrow> leave_ok q) \<Longrightarrow> leave_ok r"
  by (auto simp: leave_moves_def leave_ok_def split: option.splits)

lemma hr_effect_tables:
  assumes "hr_effect s s'" and "hr_tables_ok s"
  shows "hr_tables_ok s'"
  using assms
proof (induction rule: hr_effect.induct)
  case (Contract k r s t tr)
  then show ?case by (auto simp: hr_tables_ok_def intro: wf_wroteI)
next
  case (Leave k r s t tr)
  then have "leave_ok r" by (intro leave_moves_ok [OF Leave(2)]) (auto simp: hr_tables_ok_def)
  with Leave show ?case by (auto simp: hr_tables_ok_def get_row_wrote intro: wf_wroteI)
next
  case (Appraisal k r s t tr)
  then show ?case by (auto simp: hr_tables_ok_def get_row_wrote intro: wf_wroteI unique_on_wrote)
qed

lemma hr_step_inv: "hr_step av s s' \<Longrightarrow> hr_inv av s \<Longrightarrow> hr_inv av s'"
  using hr_step_effect [of av s s'] accounts_step_inv [of av s s'] accounts_frame_hr [of av s s']
  by (auto simp: hr_inv_def intro: hr_effect_accounts hr_effect_tables) (simp add: hr_tables_ok_def)

lemma hr_steps_inv: "(hr_step av)\<^sup>*\<^sup>* s s' \<Longrightarrow> hr_inv av s \<Longrightarrow> hr_inv av s'"
  by (induction rule: rtranclp_induct) (auto intro: hr_step_inv)

text \<open>A request moves from submitted to endorsed to a decision.\<close>

fun leave_transitions :: "leave_status \<Rightarrow> leave_status list" where
  "leave_transitions Leave_Submitted = [Leave_Endorsed]"
| "leave_transitions Leave_Endorsed = [Leave_Approved, Leave_Rejected]"
| "leave_transitions _ = []"

fun leave_rank :: "leave_status \<Rightarrow> nat" where
  "leave_rank Leave_Submitted = 0"
| "leave_rank Leave_Endorsed = 1"
| "leave_rank _ = 2"

definition leave_status_of :: "'a hr_db_scheme \<Rightarrow> nat \<Rightarrow> leave_status option" where
  "leave_status_of s k = map_option lv_status (get_row (leave_requests s) k)"

lemma leave_row_step:
  assumes "hr_step av s s'" and "get_row (leave_requests s) k = Some q"
  shows "\<exists>r. get_row (leave_requests s') k = Some r \<and> (r = q \<or> leave_moves (Some q) r)"
  using hr_step_effect [OF assms(1)]
proof
  assume "hr_effect s s'"
  then show ?thesis using assms(2) by (induction rule: hr_effect.induct) (auto simp: get_row_wrote)
next
  assume "accounts_step av s s'"
  then show ?thesis using assms(2) accounts_frame_hr [of av s s'] by simp
qed

interpretation leave_machine: forward_status_machine leave_status_of leave_transitions "hr_step av" leave_rank for av
proof
  fix s s' :: "'a hr_db_scheme" and k x
  assume "hr_step av s s'" and "leave_status_of s k = Some x"
  then obtain q r where "lv_status q = x" and "get_row (leave_requests s') k = Some r" and "r = q \<or> leave_moves (Some q) r"
    using leave_row_step by (fastforce simp: leave_status_of_def)
  then show "\<exists>y. leave_status_of s' k = Some y \<and> (y = x \<or> y \<in> set (leave_transitions x))"
    by (auto simp: leave_status_of_def leave_moves_def)
next
  fix x y assume "y \<in> set (leave_transitions x)"
  then show "leave_rank x < leave_rank y" by (cases x) auto
qed

lemma decided_leave_stays:
  assumes "(hr_step av)\<^sup>*\<^sup>* s s'" and "get_row (leave_requests s) k = Some r" and "leave_transitions (lv_status r) = []"
  shows "get_row (leave_requests s') k = Some r"
  using assms(1)
proof (induction rule: rtranclp_induct)
  case (step s1 s2)
  from leave_row_step [OF step(2,3)] assms(3) show ?case by (auto simp: leave_moves_def)
qed (rule assms(2))

section \<open>Properties\<close>

text \<open>
  C30. Leave is decided in two steps. After any sequence of operations of the department and of the
  accounts, a leave request that ends before it starts or has no reason does not exist; it was
  endorsed unless it is still submitted, and carries a decision with its remark exactly when it
  was approved or rejected. What is decided stays as it is, and no request returns to a state it
  left.
\<close>

theorem leave_decided_once:
  assumes "(hr_step av)\<^sup>*\<^sup>* s0 s" and "hr_inv av s0" and "get_row (leave_requests s) k = Some r"
    and "(hr_step av)\<^sup>*\<^sup>* s s'"
  shows "lv_start_date r \<le> lv_end_date r \<and> nonblank (lv_reason r) \<and>
    (lv_endorsed_at r \<noteq> None \<or> lv_status r = Leave_Submitted \<and> lv_decided_at r = None) \<and>
    (lv_decided_at r = None \<and> lv_status r \<in> {Leave_Submitted, Leave_Endorsed} \<or>
     lv_decided_at r \<noteq> None \<and> nonblank (lv_decision_notes r) \<and> lv_status r \<in> {Leave_Approved, Leave_Rejected} \<and>
       get_row (leave_requests s') k = Some r) \<and>
    (\<exists>r'. get_row (leave_requests s') k = Some r' \<and>
       (lv_status r' = lv_status r \<or> leave_rank (lv_status r) < leave_rank (lv_status r')))"
proof -
  from hr_steps_inv [OF assms(1,2)] assms(3) have ok: "leave_ok r" by (auto simp: hr_inv_def hr_tables_ok_def)
  have final: "get_row (leave_requests s') k = Some r" if "lv_status r \<in> {Leave_Approved, Leave_Rejected}"
    using decided_leave_stays [OF assms(4,3)] that by auto
  have "leave_status_of s k = Some (lv_status r)" using assms(3) by (simp add: leave_status_of_def)
  with leave_machine.status_steps [OF assms(4)] obtain y where y: "leave_status_of s' k = Some y" by blast
  with leave_machine.rank_steps [OF assms(4) \<open>leave_status_of s k = _\<close> y]
  have "\<exists>r'. get_row (leave_requests s') k = Some r' \<and>
      (lv_status r' = lv_status r \<or> leave_rank (lv_status r) < leave_rank (lv_status r'))"
    by (auto simp: leave_status_of_def)
  then show ?thesis using ok final by (cases "lv_status r") (auto simp: leave_ok_def)
qed

text \<open>
  C29. Leave takes two offices. In every state reached by the operations of the department and of the
  accounts, a user who is not a superuser endorses a request through the view only as a head of
  department, of the requester's department unless a further role is unscoped; decides one only as
  a member of the HR office, and only after it was endorsed.
\<close>

theorem leave_needs_two_offices:
  assumes "(hr_step av)\<^sup>*\<^sup>* s0 s" and "hr_inv av s0" and "\<not> is_superuser u s"
  shows "(case endorse_leave_view c u k s of Inl _ \<Rightarrow> True
    | Inr s' \<Rightarrow> ''hod'' \<in> set (role_codes u s) \<and>
        (has_role u HR_UNSCOPED s \<or>
         (\<exists>r p d. get_row (leave_requests s) k = Some r \<and> get_row (staff_profiles s) (lv_staff r) = Some p \<and>
            sp_department p = Some d \<and> department_of u s = Some d))) \<and>
    (case decide_leave_view c u k approve remark s of Inl _ \<Rightarrow> True
    | Inr s' \<Rightarrow> ''hr'' \<in> set (role_codes u s) \<and>
        (\<exists>r. get_row (leave_requests s) k = Some r \<and> lv_status r = Leave_Endorsed \<and> lv_endorsed_at r \<noteq> None))"
proof (rule conjI)
  have inv: "hr_inv av s" by (rule hr_steps_inv [OF assms(1,2)])
  show "case endorse_leave_view c u k s of Inl _ \<Rightarrow> True
    | Inr s' \<Rightarrow> ''hod'' \<in> set (role_codes u s) \<and>
        (has_role u HR_UNSCOPED s \<or>
         (\<exists>r p d. get_row (leave_requests s) k = Some r \<and> get_row (staff_profiles s) (lv_staff r) = Some p \<and>
            sp_department p = Some d \<and> department_of u s = Some d))"
  proof (cases "endorse_leave_view c u k s")
    case (Inr s')
    then have hod: "has_role u [''hod''] s" and row: "get_row (leave_rows u s) k \<noteq> None"
      by (auto simp: endorse_leave_view_def guarded_Inr on_listed_def split: if_splits)
    from hod have "''hod'' \<in> set (role_codes u s)" by (simp add: has_role_def list_ex_iff)
    moreover have "\<exists>r p d. get_row (leave_requests s) k = Some r \<and> get_row (staff_profiles s) (lv_staff r) = Some p \<and>
            sp_department p = Some d \<and> department_of u s = Some d" if scoped: "\<not> has_role u HR_UNSCOPED s"
    proof -
      have "wf_table (leave_requests s)" using inv by (simp add: hr_inv_def hr_tables_ok_def)
      moreover from row scoped hod assms(3) obtain d r where d: "department_of u s = Some d"
        and mem: "(k, r) \<in> set (filter_rows (\<lambda>_ r. case get_row (staff_profiles s) (lv_staff r) of
                                None \<Rightarrow> False | Some p \<Rightarrow> sp_department p = Some d) (leave_requests s))"
        unfolding leave_rows_def staff_scoped_def
        by (cases "department_of u s") (auto simp: get_row_def dest: map_of_SomeD)
      ultimately show ?thesis
        by (auto simp: filter_rows_def in_set_get_row split: option.splits)
    qed
    ultimately show ?thesis using Inr by auto
  qed simp
  show "case decide_leave_view c u k approve remark s of Inl _ \<Rightarrow> True
    | Inr s' \<Rightarrow> ''hr'' \<in> set (role_codes u s) \<and>
        (\<exists>r. get_row (leave_requests s) k = Some r \<and> lv_status r = Leave_Endorsed \<and> lv_endorsed_at r \<noteq> None)"
  proof (cases "decide_leave_view c u k approve remark s")
    case (Inr s')
    then have perm: "user_has_perm u s ''hr.approve_leaverequest''"
      and run: "decide_leave_request c k approve (session_user u s) (strip remark) s = Inr s'"
      by (auto simp: decide_leave_view_def guarded_Inr on_listed_def split: if_splits)
    have "''hr'' \<in> set (role_codes u s)"
      using perm_needs_role [OF _ perm assms(3) deciding_offices(4)] inv by (auto simp: hr_inv_def)
    moreover from run obtain r where r: "get_row (leave_requests s) k = Some r" "lv_status r = Leave_Endorsed"
      by (auto simp: decide_leave_request_def with_leave_def split: option.splits if_splits)
    moreover from r inv have "lv_endorsed_at r \<noteq> None" by (auto simp: hr_inv_def hr_tables_ok_def leave_ok_def)
    ultimately show ?thesis using Inr by simp
  qed simp
qed

section \<open>What the views let through\<close>

text \<open>
  A PATCH may end a contract before it starts: nothing checks the new end date, and as the end
  date is not an audited field, nothing records it.
\<close>

definition no_contract_changes :: contract_changes where
  "no_contract_changes = \<lparr>cc_staff = None, cc_contract_type = None, cc_position = None, cc_start_date = None,
     cc_end_date = None, cc_basic_salary = None, cc_currency = None, cc_is_active = None, cc_notes = None\<rparr>"

lemma patched_end_date_unchecked:
  assumes "module_permission contract_access ''PATCH'' (Some u) s" and "get_row (contracts s) k = Some r"
    and "contract_fields r s"
  shows "patch_contract c u k (no_contract_changes\<lparr>cc_end_date := Some (Some e)\<rparr>) s =
    Inr (s\<lparr>contracts := put_row k (r\<lparr>ct_end_date := Some e\<rparr>) (contracts s)\<rparr>)"
proof -
  have ch: "changed_contract (no_contract_changes\<lparr>cc_end_date := Some (Some e)\<rparr>) r = r\<lparr>ct_end_date := Some e\<rparr>"
    by (simp add: changed_contract_def no_contract_changes_def or_keep_def)
  have "contract_fields (r\<lparr>ct_end_date := Some e\<rparr>) s" using assms(3) by (simp add: contract_fields_def)
  moreover have "update_audited c contract_meta contract_audit contracts put_contracts k r (r\<lparr>ct_end_date := Some e\<rparr>) [] s =
      Inr (s\<lparr>contracts := put_row k (r\<lparr>ct_end_date := Some e\<rparr>) (contracts s)\<rparr>)"
    by (simp add: update_audited_def audit_save_def contract_audit_def)
  moreover have "cc_staff (no_contract_changes\<lparr>cc_end_date := Some (Some e)\<rparr>) = None"
    by (simp add: no_contract_changes_def)
  ultimately show ?thesis
    using assms(1,2) unfolding patch_contract_def with_contract_def by (simp add: ch guarded_def ensure_def)
qed

text \<open>A head of department endorses his own request: it is a request of his department.\<close>

lemma own_leave_endorsed:
  assumes "authenticated_and_active (Some u) s" and "has_role u [''hod''] s" and "staff_profile_of u s = Some (p, pr)"
    and "sp_department pr = Some d" and "wf_table (staff_profiles s)" and "wf_table (leave_requests s)"
    and "get_row (leave_requests s) k = Some r" and "lv_staff r = p"
  shows "endorse_leave_view c u k s = endorse_leave_request c k (session_user u s) s"
proof -
  have "get_row (staff_profiles s) p = Some pr"
    using assms(3,5) unfolding staff_profile_of_def by (blast dest: first_row_get)
  then have "(k, r) \<in> set (leave_rows u s)"
    using assms(2-4,7,8) by (auto simp: leave_rows_def staff_scoped_def department_of_def filter_rows_def get_row_def dest: map_of_SomeD)
  moreover have "wf_table (leave_rows u s)"
    using assms(6) by (simp add: leave_rows_def staff_scoped_def wf_filter_rows wf_table_def [of "[]"] split: option.splits)
  ultimately have "get_row (leave_rows u s) k = Some r" by (simp add: in_set_get_row)
  with assms(1,2) show ?thesis by (simp add: endorse_leave_view_def guarded_def on_listed_def)
qed

text \<open>Who may add an appraisal appraises any member of staff, of his department or not.\<close>

lemma appraise_anyone:
  "module_permission appraisal_access ''POST'' (Some u) s \<Longrightarrow> live_staff staff s \<Longrightarrow>
     record_appraisal_view c u staff year rating comments promotion s =
       record_appraisal c staff year rating (session_user u s) comments promotion s"
  by (simp add: record_appraisal_view_def guarded_def)

section \<open>Concrete inputs\<close>

definition sample_staff :: staff_profile where
  "sample_staff = \<lparr>sp_user = 1, sp_staff_number = ''S1'', sp_department = Some 1, sp_staff_category = [], sp_rank = [],
     sp_date_of_hire = None, sp_contract_end_date = None, sp_is_active = True, sp_deleted_at = None\<rparr>"

definition sample_leave :: "leave_status \<Rightarrow> leave_request" where
  "sample_leave st = \<lparr>lv_staff = 1, lv_leave_type = Lv_Annual, lv_start_date = 10, lv_end_date = 12, lv_reason = ''rest'',
     lv_status = st, lv_endorsed_by = None, lv_endorsed_at = (if st = Leave_Submitted then None else Some 1),
     lv_decided_by = None, lv_decision_notes = [], lv_decided_at = None\<rparr>"

definition sample_hr_db :: "leave_request table \<Rightarrow> hr_db" where
  "sample_hr_db rows = accounts_db.extend ((sample_accounts_db False)\<lparr>staff_profiles := [(1, sample_staff)], audit_log := []\<rparr>)
     \<lparr>contracts = [], leave_requests = rows, appraisals = []\<rparr>"

lemma sample_hr_tables [simp]:
  "contracts (sample_hr_db rows) = []" "leave_requests (sample_hr_db rows) = rows" "appraisals (sample_hr_db rows) = []"
  "staff_profiles (sample_hr_db rows) = [(1, sample_staff)]" "audit_log (sample_hr_db rows) = []"
  "accounts (sample_hr_db rows) = [(1, sample_account False)]" "backup_codes (sample_hr_db rows) = [(1, sample_backup)]"
  "roles (sample_hr_db rows) = [(1, sample_senate)]" "user_roles (sample_hr_db rows) = [(1, sample_assignment)]"
  "auth_groups (sample_hr_db rows) = [(1, ''senate'')]" "group_members (sample_hr_db rows) = [(1, 1)]"
  "group_permissions (sample_hr_db rows) = [(1, ''examinations.approve_result'')]"
  by (simp_all add: sample_hr_db_def accounts_db.defs)

lemma accounts_inv_tables:
  assumes "accounts s' = accounts s" "backup_codes s' = backup_codes s" "roles s' = roles s" "user_roles s' = user_roles s"
    "auth_groups s' = auth_groups s" "group_members s' = group_members s" "group_permissions s' = group_permissions s"
  shows "accounts_inv av s' = accounts_inv av s"
  by (simp add: accounts_inv_def accounts_keyed_def access_inv_def role_row_def has_active_role_def assms)

lemma sample_hr_inv:
  assumes "\<And>k r. get_row rows k = Some r \<Longrightarrow> leave_ok r" and "wf_table rows"
  shows "hr_inv [''examinations.approve_result''] (sample_hr_db rows)"
proof -
  have "accounts_inv [''examinations.approve_result''] (sample_hr_db rows)"
    using sample_accounts_inv [of False] by (subst accounts_inv_tables [of _ "sample_accounts_db False"]) simp_all
  then show ?thesis using assms by (simp add: hr_inv_def hr_tables_ok_def wf_table_def unique_on_def get_row_def)
qed

lemma sample_hr_role: "role_codes 1 (sample_hr_db rows) = [''senate'']" "\<not> is_superuser 1 (sample_hr_db rows)"
proof -
  have "has_active_role 1 1 (sample_hr_db rows)" using sample_active [of 1 1 False] by (simp add: has_active_role_def)
  then show "role_codes 1 (sample_hr_db rows) = [''senate'']"
    by (simp add: role_codes_def active_roles_def filter_rows_def sample_senate_def)
qed (simp add: is_superuser_def get_row_singleton sample_account_def)

lemma leave_decided_once_witness:
  "\<exists>s r. hr_step [''examinations.approve_result''] (sample_hr_db []) s \<and> get_row (leave_requests s) 1 = Some r \<and>
     lv_decided_at r = None \<and> nonblank (lv_reason r)"
proof -
  let ?s = "sample_hr_db []" and ?r = "sample_leave Leave_Submitted"
  have reason: "nonblank ''rest''" by code_simp
  have "leave_full_clean ?r ?s = Inr ()"
    by (simp add: leave_full_clean_def leave_clean_def sample_leave_def get_row_singleton ensure_def)
  moreover obtain e where "insert_audited sample_ctx leave_meta leave_audit leave_requests put_leaves ?r ''Leave requested'' ?s =
      Inr (1, ?s\<lparr>leave_requests := [(1, ?r)], audit_log := [e]\<rparr>)"
    using first_sensitive_insert [of leave_meta sample_ctx put_leaves ?r leave_requests ?s leave_audit "''Leave requested''"]
    by (auto simp: leave_meta_def sample_ctx_def add_row_def fresh_pk_def)
  ultimately have "submit_leave_request sample_ctx 1 Lv_Annual 10 12 ''rest'' ?s =
      Inr (1, ?s\<lparr>leave_requests := [(1, ?r)], audit_log := [e]\<rparr>)"
    using reason by (simp add: submit_leave_request_def sample_leave_def)
  then have step: "hr_step [''examinations.approve_result''] ?s (?s\<lparr>leave_requests := [(1, ?r)], audit_log := [e]\<rparr>)"
    by (rule hr_step.Ask)
  have "get_row (leave_requests (?s\<lparr>leave_requests := [(1, ?r)], audit_log := [e]\<rparr>)) 1 = Some ?r"
    by (simp add: get_row_singleton)
  from leave_decided_once [OF r_into_rtranclp [of "hr_step [''examinations.approve_result'']", OF step] sample_hr_inv this rtranclp.rtrancl_refl]
  have "lv_decided_at ?r = None \<and> nonblank (lv_reason ?r)" by (simp add: get_row_def wf_table_def sample_leave_def)
  with step \<open>get_row _ 1 = Some ?r\<close> show ?thesis by blast
qed

lemma leave_needs_two_offices_witness:
  "\<exists>e e'. get_row (leave_requests (sample_hr_db [(1, sample_leave Leave_Endorsed)])) 1 = Some (sample_leave Leave_Endorsed) \<and>
     endorse_leave_view sample_ctx 1 1 (sample_hr_db [(1, sample_leave Leave_Endorsed)]) = Inl e \<and>
     decide_leave_view sample_ctx 1 1 True ''agreed'' (sample_hr_db [(1, sample_leave Leave_Endorsed)]) = Inl e'"
proof -
  let ?s = "sample_hr_db [(1, sample_leave Leave_Endorsed)]"
  have "nonblank ''rest''" by code_simp
  then have "hr_inv [''examinations.approve_result''] ?s"
    by (intro sample_hr_inv) (auto simp: get_row_def leave_ok_def sample_leave_def wf_table_def split: if_splits)
  from leave_needs_two_offices [OF rtranclp.rtrancl_refl this sample_hr_role(2), where c = sample_ctx and k = 1 and approve = True
      and remark = "''agreed''"]
  have "\<exists>e. endorse_leave_view sample_ctx 1 1 ?s = Inl e" and "\<exists>e. decide_leave_view sample_ctx 1 1 True ''agreed'' ?s = Inl e"
    by (auto simp: sample_hr_role simp del: One_nat_def split: sum.splits)
  then show ?thesis by (simp add: get_row_singleton)
qed

end
