(* ===== verification/Counters.thy ===== *)
theory Counters
  imports Human_Resources
begin

text \<open>
  The counters behind the numbers of the university. Student IDs, references, invoices, receipts
  and serials of documents are all allocated from the rows of \<open>core/models.py\<close>
  \<open>IdSequence\<close>. The lemmas show, module by module, that no operation ever lowers a counter:
  each one either leaves the table of the counters alone or allocates the next value of one.
\<close>

section \<open>Counters that only grow\<close>

definition counters_le :: "(string \<times> nat) list \<Rightarrow> (string \<times> nat) list \<Rightarrow> bool" where
  "counters_le q q' \<longleftrightarrow>
     (\<forall>sc. case map_of q sc of None \<Rightarrow> True | Some v \<Rightarrow> (\<exists>v'. map_of q' sc = Some v' \<and> v \<le> v'))"

abbreviation counters_grow :: "'a core_db_scheme \<Rightarrow> 'a core_db_scheme \<Rightarrow> bool" where
  "counters_grow s s' \<equiv> counters_le (id_sequences s) (id_sequences s')"

lemma counters_growD: "counters_grow s s' \<Longrightarrow> peek sc s \<le> peek sc s'"
  unfolding counters_le_def by (drule spec [of _ sc]) (auto simp: peek_def split: option.splits)

lemma counters_le_refl [simp]: "counters_le q q"
  by (simp add: counters_le_def split: option.split)

lemma counters_le_trans: "counters_le q q1 \<Longrightarrow> counters_le q1 q2 \<Longrightarrow> counters_le q q2"
  unfolding counters_le_def by (force split: option.splits)

lemma allocate_counters [simp]: "counters_grow s (snd (allocate sc s))"
  by (auto simp: counters_le_def allocate_def Let_def update_conv split: option.splits)

section \<open>The four generators of numbers\<close>

lemma student_id_counters: "generate_student_id p y s = Inr (i, s') \<Longrightarrow> counters_grow s s'"
  by (auto simp: generate_student_id_def bindE_eq_Inr Let_def split_beta)

lemma reference_counters: "generate_reference_number y s = (r, s') \<Longrightarrow> counters_grow s s'"
  by (auto simp: generate_reference_number_def Let_def split_beta)

lemma invoice_number_counters: "generate_invoice_number y s = (r, s') \<Longrightarrow> counters_grow s s'"
  by (auto simp: generate_invoice_number_def Let_def split_beta)

lemma receipt_number_counters: "generate_receipt_number y s = (r, s') \<Longrightarrow> counters_grow s s'"
  by (auto simp: generate_receipt_number_def Let_def split_beta)

section \<open>Registry\<close>

lemma create_student_counters:
  assumes "create_student c p y fn lname g actor sid reason extra s = Inr (k, s')"
  shows "counters_grow s s'"
proof -
  from assms obtain i s1 where ids: "(if sid = None \<or> sid = Some []
        then bindE (academic_year_name y s) (\<lambda>name. generate_student_id p name s) else Inr (the sid, s)) = Inr (i, s1)"
    and "\<exists>st. enroll_row c st actor reason s1 = Inr (k, s')"
    unfolding create_student_def by (auto elim!: bindE_InrE)
  then have "id_sequences s' = id_sequences s1" by (auto elim!: enroll_row_Inr)
  moreover from ids have "counters_grow s s1"
    by (auto split: if_splits elim!: bindE_InrE intro: student_id_counters)
  ultimately show ?thesis by simp
qed

lemma registry_step_counters: "registry_step s s' \<Longrightarrow> counters_grow s s'"
proof (induction rule: registry_step.induct)
  case (Create c p y fn lname g actor sid reason extra s k s')
  then show ?case by (rule create_student_counters)
next
  case (Change c k new reason actor eff ref s s')
  then show ?case by (cases rule: change_status_Inr) (auto elim!: write_status_Inr)
next
  case (Patch c k data reason s s')
  then show ?case by (elim patch_student_Inr) simp
qed

section \<open>Admissions and enrolment\<close>

lemma save_application_counters: "save_application c k a a' reason s = Inr s' \<Longrightarrow> id_sequences s' = id_sequences s"
  by (erule save_application_Inr) simp

lemma update_application_counters: "update_application c k data s = Inr s' \<Longrightarrow> id_sequences s' = id_sequences s"
  unfolding update_application_def by (auto elim!: bindE_InrE audit_saveE split: if_splits)

lemma insert_application_counters: "insert_application c a reason s = Inr (k, s') \<Longrightarrow> id_sequences s' = id_sequences s"
  unfolding insert_application_def Let_def by (auto elim!: bindE_InrE audit_saveE split: if_splits)

lemma create_application_counters:
  assumes "create_application c p y fn lname g src au eb extra s = Inr (k, s')"
  shows "counters_grow s s'"
  using assms unfolding create_application_def Let_def
  by (auto split: prod.splits elim!: bindE_InrE dest!: insert_application_counters reference_counters)

lemma convert_counters: "convert_to_student c k actor s = Inr (sk, s') \<Longrightarrow> counters_grow s s'"
  by (erule convert_to_student_Inr)
    (drule create_student_counters, drule save_application_counters, simp)

lemma admissions_step_counters: "admissions_step s s' \<Longrightarrow> counters_grow s s'"
proof (induction rule: admissions_step.induct)
  case (Settle s pk f c state)
  show ?case
    by (simp add: settle_fee_payment_def set_fee_paid_def Let_def split: payment_state.split option.split)
next
  case (Review c k reviewer score criteria comments s s')
  then show ?case unfolding record_review_def Let_def
    by (elim bindE_InrE) (drule save_application_counters, simp add: upsert_review_def Let_def split: option.splits)
next
  case (Convert c k actor s sk s')
  then show ?case by (rule convert_counters)
next
  case (Registry s s')
  then show ?case by (rule registry_step_counters)
qed (auto simp: create_application_request_def Let_def submit_application_def withdraw_application_def
      decide_application_def accept_offer_def decline_offer_def attach_application_document_def store_fee_intent_def
      split: if_splits elim!: bindE_InrE
      dest!: save_application_counters update_application_counters
      intro: create_application_counters)

lemma enrollment_step_counters: "enrollment_step s s' \<Longrightarrow> counters_grow s s'"
proof (induction rule: enrollment_step.induct)
  case (Register c providers student course semester_id actor override_reason s k s')
  then show ?case by (elim register_course_Inr save_registration_Inr) simp
next
  case (Drop c k reason s k' s')
  then show ?case
    by (auto simp: drop_course_def split: option.splits if_splits elim!: bindE_InrE save_registration_Inr)
next
  case (Complete c k u reason s k' s')
  then show ?case
    by (auto simp: record_prior_completion_def split: option.splits if_splits elim!: save_registration_Inr)
qed (rule admissions_step_counters)

section \<open>Hostel and finance\<close>

lemma hostel_step_counters: "hostel_step s s' \<Longrightarrow> counters_grow s s'"
proof (induction rule: hostel_step.induct)
  case (Enrollment s s')
  then show ?case by (rule enrollment_step_counters)
qed (auto elim!: create_room_Inr update_room_Inr allocate_room_Inr vacate_allocation_Inr)

lemma generate_invoice_counters:
  assumes "generate_invoice c student semester due actor s = Inr (k, s')"
  shows "counters_grow s s'"
  using assms unfolding generate_invoice_def Let_def
  by (auto split: prod.splits if_splits elim!: bindE_InrE insert_audited_Inr dest!: invoice_number_counters)

lemma refresh_counters: "refresh_invoice_status c k s = Inr s' \<Longrightarrow> id_sequences s' = id_sequences s"
  unfolding refresh_invoice_status_def Let_def
  by (auto split: option.splits if_splits elim!: bindE_InrE update_audited_Inr)

lemma confirm_payment_counters:
  assumes "confirm_payment c k p paid_at s = Inr s'"
  shows "counters_grow s s'"
  using assms unfolding confirm_payment_def Let_def
  by (auto split: prod.splits option.splits elim!: bindE_InrE save_payment_Inr dest!: refresh_counters receipt_number_counters)

lemma save_payment_counters: "save_payment c k p p' reason s = Inr s' \<Longrightarrow> id_sequences s' = id_sequences s"
  by (erule save_payment_Inr) simp

lemma insert_payment_counters: "insert_payment c p reason s = Inr (k, s') \<Longrightarrow> id_sequences s' = id_sequences s"
  by (erule insert_payment_Inr) simp

lemma record_manual_payment_counters:
  assumes "record_manual_payment c invoice_id meth amount reference actor remark s = Inr (k, s')"
  shows "counters_grow s s'"
  using assms
  by (rule record_manual_payment_Inr)
    (metis confirm_payment_counters insert_payment_counters counters_le_refl)

lemma settle_mobile_payment_counters: "settle_mobile_payment c k p result s = Inr s' \<Longrightarrow> counters_grow s s'"
  by (auto simp: settle_mobile_payment_def Let_def split: payment_state.splits
      dest: confirm_payment_counters save_payment_counters)

lemma finance_step_counters: "finance_step s s' \<Longrightarrow> counters_grow s s'"
proof (induction rule: finance_step.induct)
  case (Invoice c student semester due actor s k s')
  then show ?case by (rule generate_invoice_counters)
next
  case (Manual c invoice_id meth amount reference actor remark s k s')
  then show ?case by (rule record_manual_payment_counters)
next
  case (Confirm c k s s')
  then show ?case by (auto simp: confirm_manual_payment_def split: option.splits if_splits intro: confirm_payment_counters)
next
  case (Reject c k reason s s')
  then show ?case
    by (auto simp: reject_manual_payment_def Let_def split: option.splits if_splits dest: save_payment_counters)
next
  case (Mobile s j i c requested intent k s')
  then show ?case by (auto simp: store_mobile_payment_def Let_def dest: insert_payment_counters)
next
  case (Poll s k p c result s')
  then show ?case using settle_mobile_payment_counters by blast
next
  case (Webhook c event s m s')
  then show ?case
    by (auto simp: handle_payment_webhook_def split: if_splits option.splits elim!: bindE_InrE intro: confirm_payment_counters)
next
  case (Hostel s s')
  then show ?case by (rule hostel_step_counters)
qed (auto simp: create_fee_structure_def update_fee_structure_def create_scholarship_def update_scholarship_def
      request_refund_def decide_refund_def mark_refund_paid_def Let_def
      split: if_splits option.splits elim!: bindE_InrE insert_audited_Inr update_audited_Inr)

section \<open>Teaching, examinations and the library\<close>

lemma timetabling_step_counters: "timetabling_step s s' \<Longrightarrow> counters_grow s s'"
proof (induction rule: timetabling_step.induct)
  case (NewEntry c course semester day start_time end_time room lecturer s k s')
  then show ?case by (rule create_entry_Inr) simp
next
  case (EditEntry c k day_opt start_opt end_opt room_opt lecturer_opt s s')
  then show ?case by (rule update_entry_Inr) simp
next
  case (NewExam c course semester d start_time end_time room ids s k s')
  then show ?case by (rule create_exam_entry_Inr) simp
next
  case (EditExam c k date_opt start_opt end_opt room_opt ids s s')
  then show ?case by (rule update_exam_entry_Inr) simp
next
  case (Publish c semester actor s n s')
  then show ?case
    using publish_entries_succeeds [of c actor "filter_rows (\<lambda>_ e. te_semester e = semester \<and> \<not> te_is_published e) (timetable_entries s)" s]
    by (auto simp: publish_timetable_def Let_def)
next
  case (PublishExams c semester actor s n s')
  then show ?case
    using publish_exams_succeeds [of c actor "filter_rows (\<lambda>_ e. ex_semester e = semester \<and> \<not> ex_is_published e) (exam_timetables s)" s]
    by (auto simp: publish_exam_timetable_def Let_def)
next
  case (Finance s s')
  then show ?case by (rule finance_step_counters)
qed (auto simp: create_tt_room_def update_tt_room_def Let_def split: option.splits
      elim!: bindE_InrE insert_audited_Inr update_audited_Inr)

lemma attendance_step_counters: "attendance_step s s' \<Longrightarrow> counters_grow s s'"
proof (induction rule: attendance_step.induct)
  case (Session c entry d ms actor s ks s')
  then show ?case by (auto dest!: record_session_frame)
next
  case (Waiver c registration actor reason s k s')
  then show ?case by (rule grant_waiver_Inr) auto
next
  case (Timetabling s s')
  then show ?case by (rule timetabling_step_counters)
qed

lemma exam_step_counters: "exam_step s s' \<Longrightarrow> counters_grow s s'"
proof (induction rule: exam_step.induct)
  case (Attendance s s')
  then show ?case by (rule attendance_step_counters)
next
  case (Record c g k score actor s j s')
  then show ?case unfolding record_mark_def Let_def save_mark_def
    by (auto split: option.splits elim!: bindE_InrE insert_audited_Inr update_audited_Inr)
next
  case (Submit c semester programme s k s')
  then show ?case unfolding submit_for_approval_def Let_def save_approval_def
    by (auto split: option.splits if_splits elim!: bindE_InrE insert_audited_Inr update_audited_Inr)
qed (auto simp: create_assessment_def update_assessment_def moderate_mark_def flag_irregularity_def clear_irregularity_def
  with_mark_def save_mark_def approve_results_def reject_results_def publish_results_def with_approval_def
  save_approval_def submit_appeal_def decide_appeal_def Let_def split: option.splits if_splits
  elim!: bindE_InrE insert_audited_Inr update_audited_Inr)

lemma library_step_counters: "library_step s s' \<Longrightarrow> counters_grow s s'"
proof (induction rule: library_step.induct)
  case (Exam s s')
  then show ?case by (rule exam_step_counters)
qed (auto simp: create_library_item_def update_library_item_def checkout_item_def return_item_def mark_lost_def waive_fine_def
  with_loan_def save_loan_def Let_def split: option.splits if_splits prod.splits elim!: bindE_InrE insert_audited_Inr update_audited_Inr)

section \<open>Accounts and human resources\<close>

lemma account_effect_counters: "account_effect s s' \<Longrightarrow> id_sequences s' = id_sequences s"
  by (induction rule: account_effect.induct) simp_all

lemma seed_roles_counters: "id_sequences (seed_roles av prune s) = id_sequences s"
proof -
  have one: "id_sequences (seed_role av prune d s) = id_sequences s" for d and s :: "'a accounts_db_scheme"
    by (simp add: seed_role_def group_for_def Let_def split: prod.splits option.splits)
  have "id_sequences (fold (seed_role av prune) ds s) = id_sequences s" for ds
    by (induction ds arbitrary: s) (simp_all add: one)
  then show ?thesis by (simp add: seed_roles_def)
qed

lemma accounts_step_counters: "accounts_step av s s' \<Longrightarrow> counters_grow s s'"
proof (induction rule: accounts_step.induct)
  case (SignIn lib c typed password otp m l ip s res s')
  then have "account_effect s s'" by (rule login_effect)
  then show ?case by (simp add: account_effect_counters)
next
  case (Library s s')
  then show ?case by (rule library_step_counters)
next
  case (Grant c u code by_user reason s k s')
  then show ?case by (elim grant_role_Inr) simp_all
next
  case (Revoke c u code by_user reason s s')
  then show ?case unfolding revoke_role_def
    by (auto split: option.splits if_splits elim!: record_actionE)
qed (auto simp: resync_groups_def seed_roles_counters dest!: account_effect_counters create_account_effect update_account_effect
  change_password_effect record_logout_effect start_mfa_effect confirm_mfa_effect disable_mfa_effect)

lemma hr_effect_counters: "hr_effect s s' \<Longrightarrow> id_sequences s' = id_sequences s"
  by (induction rule: hr_effect.induct) simp_all

lemma hr_step_counters: "hr_step av s s' \<Longrightarrow> counters_grow s s'"
  by (drule hr_step_effect) (auto simp: hr_effect_counters intro: accounts_step_counters)

end
