(* ===== verification/Documents.thy ===== *)
theory Documents
  imports Counters
begin

text \<open>
  Documents and certification: transcript requests, issued documents, their serial numbers and
  their public verification, graduation clearance (\<open>documents/models.py\<close>, \<open>services.py\<close>,
  \<open>id_generation.py\<close> and the checks and scopes of \<open>views.py\<close>).
\<close>

section \<open>Models\<close>

datatype transcript_request_status = Tq_Requested | Tq_Rejected | Tq_Issued

fun transcript_request_status_text :: "transcript_request_status \<Rightarrow> string" where
  "transcript_request_status_text Tq_Requested = ''requested''"
| "transcript_request_status_text Tq_Rejected = ''rejected''"
| "transcript_request_status_text Tq_Issued = ''issued''"

record transcript_request =
  tq_student :: nat
  tq_reason :: string
  tq_status :: transcript_request_status
  tq_decided_by :: "nat option"
  tq_decision_notes :: string
  tq_decided_at :: "int option"

datatype document_type = Doc_Transcript | Doc_Certificate

fun document_type_text :: "document_type \<Rightarrow> string" where
  "document_type_text Doc_Transcript = ''transcript''"
| "document_type_text Doc_Certificate = ''certificate''"

record issued_document =
  isd_student :: nat
  isd_document_type :: document_type
  isd_transcript_request :: "nat option"
  isd_serial_number :: string
  isd_issued_by :: "nat option"
  isd_issued_at :: int
  isd_is_revoked :: bool
  isd_revoked_reason :: string
  isd_revoked_at :: "int option"
  isd_override_reason :: string

definition is_valid :: "issued_document \<Rightarrow> bool" where
  "is_valid d = (\<not> isd_is_revoked d)"

record documents_db = hr_db +
  transcript_requests :: "transcript_request table"
  issued_documents :: "issued_document table"

abbreviation put_requests :: "transcript_request table \<Rightarrow> 'a documents_db_scheme \<Rightarrow> 'a documents_db_scheme" where
  "put_requests t s \<equiv> s\<lparr>transcript_requests := t\<rparr>"

abbreviation put_documents :: "issued_document table \<Rightarrow> 'a documents_db_scheme \<Rightarrow> 'a documents_db_scheme" where
  "put_documents t s \<equiv> s\<lparr>issued_documents := t\<rparr>"

definition transcript_request_meta :: model_meta where
  "transcript_request_meta =
     \<lparr>mm_label = ''documents.transcriptrequest'', mm_verbose = ''transcript request'', mm_sensitive = False\<rparr>"

definition transcript_request_audit :: "transcript_request \<Rightarrow> (string \<times> pyval) list" where
  "transcript_request_audit r = [(''status'', VStr (transcript_request_status_text (tq_status r)))]"

definition issued_document_meta :: model_meta where
  "issued_document_meta = \<lparr>mm_label = ''documents.issueddocument'', mm_verbose = ''issued document'', mm_sensitive = True\<rparr>"

definition issued_document_audit :: "issued_document \<Rightarrow> (string \<times> pyval) list" where
  "issued_document_audit d = [(''is_revoked'', VBool (isd_is_revoked d))]"

definition transcript_request_full_clean :: "transcript_request \<Rightarrow> 'a documents_db_scheme \<Rightarrow> exn + unit" where
  "transcript_request_full_clean r s = ensure (get_row (students s) (tq_student r) \<noteq> None) ValidationError"

definition issued_document_full_clean :: "nat option \<Rightarrow> issued_document \<Rightarrow> 'a documents_db_scheme \<Rightarrow> exn + unit" where
  "issued_document_full_clean pk d s =
     ensure (get_row (students s) (isd_student d) \<noteq> None \<and> opt_ref (isd_transcript_request d) (transcript_requests s) \<and>
       isd_serial_number d \<noteq> [] \<and> length (isd_serial_number d) \<le> 40 \<and>
       \<not> exists_row (\<lambda>k b. Some k \<noteq> pk \<and> isd_serial_number b = isd_serial_number d) (issued_documents s)) ValidationError"

section \<open>Serial numbers\<close>

fun serial_prefix :: "document_type \<Rightarrow> string" where
  "serial_prefix Doc_Transcript = ''TRX''"
| "serial_prefix Doc_Certificate = ''CERT''"

definition serial_scope :: "document_type \<Rightarrow> string \<Rightarrow> string" where
  "serial_scope t year = ''document_serial:'' @ document_type_text t @ '':'' @ year"

definition serial_text :: "document_type \<Rightarrow> string \<Rightarrow> nat \<Rightarrow> string" where
  "serial_text t year n = serial_prefix t @ ''/'' @ year @ ''/'' @ pad0 5 (str_nat n)"

definition generate_serial_number :: "document_type \<Rightarrow> string \<Rightarrow> 'a core_db_scheme \<Rightarrow> string \<times> 'a core_db_scheme" where
  "generate_serial_number t year s =
     (let (n, s') = allocate (serial_scope t year) s in (serial_text t year n, s'))"

section \<open>Services\<close>

definition InvalidTranscriptRequestTransition :: exn where
  "InvalidTranscriptRequestTransition = DomainError ''invalid_transcript_request_transition'' 409"

definition AlreadyIssued :: exn where "AlreadyIssued = DomainError ''already_issued'' 409"

definition request_transcript :: "ctx \<Rightarrow> nat \<Rightarrow> string \<Rightarrow> 'a documents_db_scheme \<Rightarrow> exn + nat \<times> 'a documents_db_scheme" where
  "request_transcript c student reason s =
     (let r = \<lparr>tq_student = student, tq_reason = reason, tq_status = Tq_Requested, tq_decided_by = None,
               tq_decision_notes = [], tq_decided_at = None\<rparr>
      in bindE (transcript_request_full_clean r s) (\<lambda>_.
           insert_audited c transcript_request_meta transcript_request_audit transcript_requests put_requests r
             ''Transcript requested'' s))"

definition local_year :: "ctx \<Rightarrow> string" where
  "local_year c = str_nat (nat (fst (ord_to_ymd (today c))))"

definition issue_reason :: "string \<Rightarrow> string" where
  "issue_reason override_reason =
     ''Document issued'' @ (if override_reason = [] then [] else '' (override: '' @ override_reason @ '')'')"

definition issue_document ::
  "ctx \<Rightarrow> nat \<Rightarrow> document_type \<Rightarrow> user option \<Rightarrow> nat option \<Rightarrow> string \<Rightarrow> 'a documents_db_scheme
    \<Rightarrow> exn + nat \<times> 'a documents_db_scheme" where
  "issue_document c student t actor request override_reason s =
     (let (serial, s1) = generate_serial_number t (local_year c) s;
          d = \<lparr>isd_student = student, isd_document_type = t, isd_transcript_request = request, isd_serial_number = serial,
               isd_issued_by = actor_fk actor, isd_issued_at = now c, isd_is_revoked = False, isd_revoked_reason = [],
               isd_revoked_at = None, isd_override_reason = override_reason\<rparr>
      in bindE (issued_document_full_clean None d s1) (\<lambda>_.
           insert_audited c issued_document_meta issued_document_audit issued_documents put_documents d
             (issue_reason override_reason) s1))"

definition save_request ::
  "ctx \<Rightarrow> nat \<Rightarrow> transcript_request \<Rightarrow> transcript_request \<Rightarrow> string \<Rightarrow> 'a documents_db_scheme \<Rightarrow> exn + 'a documents_db_scheme" where
  "save_request c k old r reason s =
     bindE (transcript_request_full_clean r s) (\<lambda>_.
       update_audited c transcript_request_meta transcript_request_audit transcript_requests put_requests k old r reason s)"

definition decide_transcript_request ::
  "ctx \<Rightarrow> nat \<Rightarrow> bool \<Rightarrow> user option \<Rightarrow> string \<Rightarrow> 'a documents_db_scheme \<Rightarrow> exn + 'a documents_db_scheme" where
  "decide_transcript_request c k approve actor remark s =
     (case get_row (transcript_requests s) k of
        None \<Rightarrow> Inl DoesNotExist
      | Some r \<Rightarrow>
          if \<not> nonblank remark then Inl ReasonRequired
          else if tq_status r \<noteq> Tq_Requested then Inl InvalidTranscriptRequestTransition
          else let decided = r\<lparr>tq_decided_by := actor_fk actor, tq_decision_notes := remark, tq_decided_at := Some (now c)\<rparr> in
               if approve
               then bindE (save_request c k r (decided\<lparr>tq_status := Tq_Issued\<rparr>) (''Approved and issued: '' @ remark) s) (\<lambda>s1.
                    bindE (issue_document c (tq_student r) Doc_Transcript actor (Some k) [] s1) (\<lambda>(_, s2). Inr s2))
               else save_request c k r (decided\<lparr>tq_status := Tq_Rejected\<rparr>) (''Rejected: '' @ remark) s)"

definition issue_certificate ::
  "ctx \<Rightarrow> hold_source_provider bucket \<Rightarrow> nat \<Rightarrow> user option \<Rightarrow> string \<Rightarrow> 'a documents_db_scheme
    \<Rightarrow> exn + nat \<times> 'a documents_db_scheme" where
  "issue_certificate c providers student actor override_reason s =
     (let blocking = blocking_holds providers student;
          can_override = nonblank override_reason \<and>
            (case actor of None \<Rightarrow> False | Some u \<Rightarrow> has_perm u ''documents.override_clearance'')
      in if blocking \<noteq> [] \<and> \<not> can_override then Inl BlockedByHold
         else issue_document c student Doc_Certificate actor None (if blocking \<noteq> [] then override_reason else []) s)"

definition revoke_document :: "ctx \<Rightarrow> nat \<Rightarrow> string \<Rightarrow> 'a documents_db_scheme \<Rightarrow> exn + 'a documents_db_scheme" where
  "revoke_document c k reason s =
     (case get_row (issued_documents s) k of
        None \<Rightarrow> Inl DoesNotExist
      | Some d \<Rightarrow>
          if \<not> nonblank reason then Inl ReasonRequired
          else if isd_is_revoked d then Inl AlreadyIssued
          else let d' = d\<lparr>isd_is_revoked := True, isd_revoked_reason := reason, isd_revoked_at := Some (now c)\<rparr>
               in bindE (issued_document_full_clean (Some k) d' s) (\<lambda>_.
                    update_audited c issued_document_meta issued_document_audit issued_documents put_documents k d d'
                      (''Revoked: '' @ reason) s))"

record verification_result =
  vr_serial_number :: string
  vr_document_type :: string
  vr_student_name :: string
  vr_issued_at :: int
  vr_is_valid :: bool

definition verification_of :: "'a documents_db_scheme \<Rightarrow> issued_document \<Rightarrow> verification_result" where
  "verification_of s d =
     \<lparr>vr_serial_number = isd_serial_number d, vr_document_type = document_type_text (isd_document_type d),
      vr_student_name = (case get_row (students s) (isd_student d) of None \<Rightarrow> [] | Some st \<Rightarrow> student_full_name st),
      vr_issued_at = isd_issued_at d, vr_is_valid = is_valid d\<rparr>"

definition verify_document :: "string \<Rightarrow> 'a documents_db_scheme \<Rightarrow> verification_result option" where
  "verify_document serial s =
     (case first_row (\<lambda>_ d. isd_serial_number d = serial) (issued_documents s) of
        None \<Rightarrow> None
      | Some (_, d) \<Rightarrow> Some (verification_of s d))"

definition graduation_clearance_status :: "hold_source_provider bucket \<Rightarrow> nat \<Rightarrow> bool \<times> hold list" where
  "graduation_clearance_status providers student =
     (let holds = collect_holds providers student in (\<not> list_ex hold_blocking holds, holds))"

section \<open>Views\<close>

definition DOCUMENTS_UNSCOPED :: "string list" where
  "DOCUMENTS_UNSCOPED = [''registrar'', ''ict_admin'', ''management'']"

definition student_scoped :: "('r \<Rightarrow> nat) \<Rightarrow> nat \<Rightarrow> 'a accounts_db_scheme \<Rightarrow> 'r table \<Rightarrow> 'r table" where
  "student_scoped student_of u s rows =
     (if is_superuser u s \<or> has_role u DOCUMENTS_UNSCOPED s then rows
      else case student_profile_of u s of
             None \<Rightarrow> []
           | Some (p, _) \<Rightarrow> filter_rows (\<lambda>_ r. student_of r = p) rows)"

definition transcript_request_rows :: "nat \<Rightarrow> 'a documents_db_scheme \<Rightarrow> transcript_request table" where
  "transcript_request_rows u s = student_scoped tq_student u s (transcript_requests s)"

definition issued_document_rows :: "nat \<Rightarrow> 'a documents_db_scheme \<Rightarrow> issued_document table" where
  "issued_document_rows u s = student_scoped isd_student u s (issued_documents s)"

definition submit_request_view ::
  "ctx \<Rightarrow> nat \<Rightarrow> nat option \<Rightarrow> string \<Rightarrow> 'a documents_db_scheme \<Rightarrow> exn + nat \<times> 'a documents_db_scheme" where
  "submit_request_view c u on_behalf_of reason s =
     guarded (authenticated_and_active (Some u) s)
       (if 2000 < length (strip reason) then Inl ValidationError
        else case on_behalf_of of
               Some student \<Rightarrow>
                 guarded (user_has_perm u s ''documents.add_transcriptrequest'') (request_transcript c student (strip reason) s)
             | None \<Rightarrow> (case student_profile_of u s of
                   None \<Rightarrow> Inl permission_denied
                 | Some (p, _) \<Rightarrow> request_transcript c p (strip reason) s))"

definition decide_request_view :: "ctx \<Rightarrow> nat \<Rightarrow> nat \<Rightarrow> bool \<Rightarrow> string \<Rightarrow> 'a documents_db_scheme \<Rightarrow> exn + 'a documents_db_scheme" where
  "decide_request_view c u k approve remark s =
     guarded (authenticated_and_active (Some u) s \<and> user_has_perm u s ''documents.change_transcriptrequest'')
       (if length (strip remark) < 5 \<or> 2000 < length (strip remark) then Inl ValidationError
        else on_listed (transcript_request_rows u s) k
               (decide_transcript_request c k approve (session_user u s) (strip remark) s))"

definition issue_certificate_view ::
  "ctx \<Rightarrow> hold_source_provider bucket \<Rightarrow> nat \<Rightarrow> nat \<Rightarrow> string \<Rightarrow> 'a documents_db_scheme
    \<Rightarrow> exn + nat \<times> 'a documents_db_scheme" where
  "issue_certificate_view c providers u student override_reason s =
     guarded (authenticated_and_active (Some u) s \<and> user_has_perm u s ''documents.issue_certificate'')
       (if 2000 < length (strip override_reason) then Inl ValidationError
        else issue_certificate c providers student (session_user u s) (strip override_reason) s)"

definition revoke_document_view :: "ctx \<Rightarrow> nat \<Rightarrow> nat \<Rightarrow> string \<Rightarrow> 'a documents_db_scheme \<Rightarrow> exn + 'a documents_db_scheme" where
  "revoke_document_view c u k reason s =
     guarded (authenticated_and_active (Some u) s \<and> user_has_perm u s ''documents.revoke_document'')
       (if length (strip reason) < 5 \<or> 2000 < length (strip reason) then Inl ValidationError
        else on_listed (issued_document_rows u s) k (revoke_document c k (strip reason) s))"

definition clearance_view ::
  "hold_source_provider bucket \<Rightarrow> nat \<Rightarrow> nat \<Rightarrow> 'a documents_db_scheme \<Rightarrow> exn + bool \<times> hold list" where
  "clearance_view providers u student s =
     guarded (authenticated_and_active (Some u) s \<and>
              (map_option fst (student_profile_of u s) = Some student \<or> has_role u DOCUMENTS_UNSCOPED s))
       (Inr (graduation_clearance_status providers student))"

section \<open>What the operations write\<close>

lemma serial_number_eq:
  "generate_serial_number t y s =
     (serial_text t y (Suc (peek (serial_scope t y) s)), s\<lparr>id_sequences := id_sequences (snd (allocate (serial_scope t y) s))\<rparr>)"
  by (subst generate_serial_number_def, subst allocate_eq) simp

lemma issue_document_Inr:
  assumes "issue_document c student t actor request reason s = Inr (k, s')"
  obtains d tr where "k = fresh_pk (issued_documents s)"
    and "d = \<lparr>isd_student = student, isd_document_type = t, isd_transcript_request = request,
           isd_serial_number = serial_text t (local_year c) (Suc (peek (serial_scope t (local_year c)) s)),
           isd_issued_by = actor_fk actor, isd_issued_at = now c, isd_is_revoked = False, isd_revoked_reason = [],
           isd_revoked_at = None, isd_override_reason = reason\<rparr>"
    and "issued_document_full_clean None d s = Inr ()"
    and "s' = s\<lparr>id_sequences := id_sequences (snd (allocate (serial_scope t (local_year c)) s)),
           issued_documents := add_row d (issued_documents s), audit_log := tr\<rparr>"
proof -
  define d where "d = \<lparr>isd_student = student, isd_document_type = t, isd_transcript_request = request,
    isd_serial_number = serial_text t (local_year c) (Suc (peek (serial_scope t (local_year c)) s)),
    isd_issued_by = actor_fk actor, isd_issued_at = now c, isd_is_revoked = False, isd_revoked_reason = [],
    isd_revoked_at = None, isd_override_reason = reason\<rparr>"
  define s1 where "s1 = s\<lparr>id_sequences := id_sequences (snd (allocate (serial_scope t (local_year c)) s))\<rparr>"
  from assms have clean: "issued_document_full_clean None d s1 = Inr ()"
    and ins: "insert_audited c issued_document_meta issued_document_audit issued_documents put_documents d (issue_reason reason) s1 = Inr (k, s')"
    unfolding issue_document_def serial_number_eq Let_def d_def s1_def by (auto elim!: bindE_InrE)
  from clean have "issued_document_full_clean None d s = Inr ()" by (simp add: issued_document_full_clean_def s1_def)
  moreover from ins obtain tr where "k = fresh_pk (issued_documents s)"
    and "s' = s1\<lparr>issued_documents := add_row d (issued_documents s), audit_log := tr\<rparr>"
    by (rule insert_audited_Inr) (simp add: s1_def)
  ultimately show thesis using that [OF _ d_def] by (simp add: s1_def)
qed

lemma issued_clean_Inr:
  assumes "issued_document_full_clean None d s = Inr ()"
  shows "key_free (\<lambda>b. Some (isd_serial_number b)) (fresh_pk (issued_documents s)) d (issued_documents s)"
    and "get_row (students s) (isd_student d) \<noteq> None"
  using assms key_free_fresh [of "\<lambda>b. Some (isd_serial_number b)" d "issued_documents s"]
  by (simp_all add: issued_document_full_clean_def ensure_eq_Inr)

text \<open>
  The effects: a request is made or rejected, a document is issued - with the request it answers,
  or as a certificate -, a document is revoked.
\<close>

inductive documents_effect :: "'a documents_db_scheme \<Rightarrow> 'a documents_db_scheme \<Rightarrow> bool" where
  Request: "tq_status r = Tq_Requested \<Longrightarrow>
    documents_effect s (s\<lparr>transcript_requests := add_row r (transcript_requests s), audit_log := tr\<rparr>)"
| Reject: "get_row (transcript_requests s) k = Some q \<Longrightarrow> tq_status q = Tq_Requested \<Longrightarrow> tq_status r = Tq_Rejected \<Longrightarrow>
    documents_effect s (s\<lparr>transcript_requests := put_row k r (transcript_requests s), audit_log := tr\<rparr>)"
| Issue: "isd_serial_number d = serial_text (isd_document_type d) y (Suc (peek (serial_scope (isd_document_type d) y) s)) \<Longrightarrow>
    CHR ''/'' \<notin> set y \<Longrightarrow>
    key_free (\<lambda>b. Some (isd_serial_number b)) (fresh_pk (issued_documents s)) d (issued_documents s) \<Longrightarrow>
    is_valid d \<and> isd_revoked_at d = None \<Longrightarrow>
    isd_document_type d = Doc_Certificate \<and> isd_transcript_request d = None \<and> rq = transcript_requests s \<or>
      isd_document_type d = Doc_Transcript \<and>
      (\<exists>k q r. isd_transcript_request d = Some k \<and> get_row (transcript_requests s) k = Some q \<and> tq_status q = Tq_Requested \<and>
         tq_student q = isd_student d \<and> tq_student r = isd_student d \<and> tq_status r = Tq_Issued \<and>
         rq = put_row k r (transcript_requests s)) \<Longrightarrow>
    documents_effect s (s\<lparr>id_sequences := id_sequences (snd (allocate (serial_scope (isd_document_type d) y) s)),
      transcript_requests := rq, issued_documents := add_row d (issued_documents s), audit_log := tr\<rparr>)"
| Revoke: "get_row (issued_documents s) k = Some d \<Longrightarrow> is_valid d \<Longrightarrow> nonblank reason \<Longrightarrow>
    documents_effect s (s\<lparr>issued_documents := put_row k (d\<lparr>isd_is_revoked := True, isd_revoked_reason := reason,
      isd_revoked_at := Some t\<rparr>) (issued_documents s), audit_log := tr\<rparr>)"

lemma local_year_no_slash: "CHR ''/'' \<notin> set (local_year c)"
  using str_nat_all_digits [of "nat (fst (ord_to_ymd (today c)))"] by (auto simp: local_year_def is_digit_def)

lemma request_transcript_effect: "request_transcript c student reason s = Inr (k, s') \<Longrightarrow> documents_effect s s'"
  unfolding request_transcript_def Let_def
  by (elim bindE_InrE insert_audited_Inr) (simp add: documents_effect.Request)

lemma revoke_document_effect: "revoke_document c k reason s = Inr s' \<Longrightarrow> documents_effect s s'"
  unfolding revoke_document_def Let_def
  by (auto split: option.splits if_splits elim!: bindE_InrE update_audited_Inr simp: is_valid_def intro!: documents_effect.Revoke)

lemma issue_certificate_effect:
  assumes "issue_certificate c providers student actor reason s = Inr (k, s')"
  shows "documents_effect s s'"
proof -
  from assms obtain ov where "issue_document c student Doc_Certificate actor None ov s = Inr (k, s')"
    unfolding issue_certificate_def Let_def by (auto split: if_splits)
  then show ?thesis
  proof (rule issue_document_Inr)
    fix d tr
    let ?y = "local_year c"
    assume d: "d = \<lparr>isd_student = student, isd_document_type = Doc_Certificate, isd_transcript_request = None,
           isd_serial_number = serial_text Doc_Certificate ?y (Suc (peek (serial_scope Doc_Certificate ?y) s)),
           isd_issued_by = actor_fk actor, isd_issued_at = now c, isd_is_revoked = False, isd_revoked_reason = [],
           isd_revoked_at = None, isd_override_reason = ov\<rparr>"
      and clean: "issued_document_full_clean None d s = Inr ()"
      and s': "s' = s\<lparr>id_sequences := id_sequences (snd (allocate (serial_scope Doc_Certificate ?y) s)),
           issued_documents := add_row d (issued_documents s), audit_log := tr\<rparr>"
    have "documents_effect s (s\<lparr>id_sequences := id_sequences (snd (allocate (serial_scope (isd_document_type d) ?y) s)),
      transcript_requests := transcript_requests s, issued_documents := add_row d (issued_documents s), audit_log := tr\<rparr>)"
      using issued_clean_Inr(1) [OF clean] local_year_no_slash
      by (intro documents_effect.Issue) (simp_all add: d is_valid_def)
    then show ?thesis by (simp add: s' d)
  qed
qed

lemma save_request_Inr:
  assumes "save_request c k old r reason s = Inr s'"
  obtains tr where "s' = s\<lparr>transcript_requests := put_row k r (transcript_requests s), audit_log := tr\<rparr>"
  using assms unfolding save_request_def by (auto elim!: bindE_InrE update_audited_Inr)

lemma decide_transcript_effect:
  assumes "decide_transcript_request c k approve actor remark s = Inr s'"
  shows "documents_effect s s'"
proof -
  from assms obtain q where q: "get_row (transcript_requests s) k = Some q" "tq_status q = Tq_Requested"
    by (auto simp: decide_transcript_request_def split: option.splits if_splits)
  define r where "r st = q\<lparr>tq_decided_by := actor_fk actor, tq_decision_notes := remark, tq_decided_at := Some (now c),
    tq_status := st\<rparr>" for st
  show ?thesis
  proof (cases approve)
    case False
    with assms q have "save_request c k q (r Tq_Rejected) (''Rejected: '' @ remark) s = Inr s'"
      by (auto simp: decide_transcript_request_def r_def Let_def split: if_splits)
    then obtain tr where "s' = s\<lparr>transcript_requests := put_row k (r Tq_Rejected) (transcript_requests s), audit_log := tr\<rparr>"
      by (rule save_request_Inr)
    then show ?thesis using documents_effect.Reject [OF q, of "r Tq_Rejected"] by (simp add: r_def)
  next
    case True
    with assms q obtain s1 j where s1: "save_request c k q (r Tq_Issued) (''Approved and issued: '' @ remark) s = Inr s1"
      and issue: "issue_document c (tq_student q) Doc_Transcript actor (Some k) [] s1 = Inr (j, s')"
      by (auto simp: decide_transcript_request_def r_def Let_def split: if_splits elim!: bindE_InrE)
    from s1 obtain tr1 where s1: "s1 = s\<lparr>transcript_requests := put_row k (r Tq_Issued) (transcript_requests s), audit_log := tr1\<rparr>"
      by (rule save_request_Inr)
    have same: "peek sc s1 = peek sc s" "id_sequences (snd (allocate sc s1)) = id_sequences (snd (allocate sc s))" for sc
      by (simp_all add: s1 peek_def allocate_def Let_def)
    let ?y = "local_year c"
    from issue show ?thesis
    proof (rule issue_document_Inr)
      fix d tr
      assume d: "d = \<lparr>isd_student = tq_student q, isd_document_type = Doc_Transcript, isd_transcript_request = Some k,
           isd_serial_number = serial_text Doc_Transcript ?y (Suc (peek (serial_scope Doc_Transcript ?y) s1)),
           isd_issued_by = actor_fk actor, isd_issued_at = now c, isd_is_revoked = False, isd_revoked_reason = [],
           isd_revoked_at = None, isd_override_reason = []\<rparr>"
        and clean: "issued_document_full_clean None d s1 = Inr ()"
        and s': "s' = s1\<lparr>id_sequences := id_sequences (snd (allocate (serial_scope Doc_Transcript ?y) s1)),
           issued_documents := add_row d (issued_documents s1), audit_log := tr\<rparr>"
      have dt: "isd_document_type d = Doc_Transcript" by (simp add: d)
      have "\<exists>k' q' r'. isd_transcript_request d = Some k' \<and> get_row (transcript_requests s) k' = Some q' \<and> tq_status q' = Tq_Requested \<and>
          tq_student q' = isd_student d \<and> tq_student r' = isd_student d \<and> tq_status r' = Tq_Issued \<and>
          put_row k (r Tq_Issued) (transcript_requests s) = put_row k' r' (transcript_requests s)"
        by (intro exI [of _ k] exI [of _ q] exI [of _ "r Tq_Issued"]) (use q in \<open>simp add: d r_def\<close>)
      then have "documents_effect s (s\<lparr>id_sequences := id_sequences (snd (allocate (serial_scope (isd_document_type d) ?y) s)),
        transcript_requests := put_row k (r Tq_Issued) (transcript_requests s),
        issued_documents := add_row d (issued_documents s), audit_log := tr\<rparr>)"
        using issued_clean_Inr(1) [OF clean] local_year_no_slash q
        by (intro documents_effect.Issue) (simp_all add: d is_valid_def same, simp_all add: s1)
      moreover have "s' = s\<lparr>id_sequences := id_sequences (snd (allocate (serial_scope (isd_document_type d) ?y) s)),
        transcript_requests := put_row k (r Tq_Issued) (transcript_requests s),
        issued_documents := add_row d (issued_documents s), audit_log := tr\<rparr>"
        unfolding s' same dt unfolding s1 by (cases s) simp
      ultimately show ?thesis by simp
    qed
  qed
qed

section \<open>Steps and invariant\<close>

definition serial_issued :: "'a documents_db_scheme \<Rightarrow> issued_document \<Rightarrow> bool" where
  "serial_issued s d \<longleftrightarrow> (\<exists>y n. isd_serial_number d = serial_text (isd_document_type d) y n \<and> CHR ''/'' \<notin> set y \<and> 0 < n \<and>
     n \<le> peek (serial_scope (isd_document_type d) y) s)"

definition answers_request :: "'a documents_db_scheme \<Rightarrow> issued_document \<Rightarrow> bool" where
  "answers_request s d \<longleftrightarrow>
     (case isd_transcript_request d of
        None \<Rightarrow> isd_document_type d = Doc_Certificate
      | Some k \<Rightarrow> isd_document_type d = Doc_Transcript \<and>
          (\<exists>r. get_row (transcript_requests s) k = Some r \<and> tq_status r = Tq_Issued \<and> tq_student r = isd_student d))"

definition revocation_ok :: "issued_document \<Rightarrow> bool" where
  "revocation_ok d \<longleftrightarrow> (is_valid d \<longleftrightarrow> isd_revoked_at d = None) \<and> (is_valid d \<or> nonblank (isd_revoked_reason d))"

definition documents_inv :: "'a documents_db_scheme \<Rightarrow> bool" where
  "documents_inv s \<longleftrightarrow> wf_table (transcript_requests s) \<and> wf_table (issued_documents s) \<and>
     unique_on (\<lambda>d. Some (isd_serial_number d)) (issued_documents s) \<and> unique_on isd_transcript_request (issued_documents s) \<and>
     (\<forall>k d. get_row (issued_documents s) k = Some d \<longrightarrow> serial_issued s d \<and> answers_request s d \<and> revocation_ok d) \<and>
     (\<forall>k r. get_row (transcript_requests s) k = Some r \<longrightarrow> tq_status r = Tq_Issued \<longrightarrow>
        (\<exists>j d. get_row (issued_documents s) j = Some d \<and> isd_transcript_request d = Some k))"

text \<open>
  The other modules allocate numbers from the same counters. That they never lower one is
  \<open>hr_step_counters\<close>.
\<close>

inductive documents_step :: "string list \<Rightarrow> 'a documents_db_scheme \<Rightarrow> 'a documents_db_scheme \<Rightarrow> bool" for av where
  Ask: "request_transcript c student reason s = Inr (k, s') \<Longrightarrow> documents_step av s s'"
| Decide: "decide_transcript_request c k approve actor remark s = Inr s' \<Longrightarrow> documents_step av s s'"
| Certify: "issue_certificate c providers student actor reason s = Inr (k, s') \<Longrightarrow> documents_step av s s'"
| Withdraw: "revoke_document c k reason s = Inr s' \<Longrightarrow> documents_step av s s'"
| Other: "hr_step av s s' \<Longrightarrow> documents_step av s s'"

lemma hr_step_more:
  assumes "hr_step av s s'"
  shows "hr_db.more s' = hr_db.more s"
  using hr_step_effect [OF assms]
proof
  assume "hr_effect s s'"
  then show ?thesis by (induction rule: hr_effect.induct) simp_all
next
  assume "accounts_step av s s'"
  then have "accounts_db.more s' = accounts_db.more s" using accounts_step_more by blast
  then show ?thesis by (cases s; cases s') simp
qed

lemma documents_step_effect:
  assumes "documents_step av s s'"
  shows "documents_effect s s' \<or> hr_step av s s'"
  using assms
  by (induction rule: documents_step.induct)
    (simp_all add: request_transcript_effect decide_transcript_effect issue_certificate_effect revoke_document_effect)

lemma documents_step_cases:
  assumes "documents_step av s s'"
  obtains (Effect) "documents_effect s s'"
  | (Other) "transcript_requests s' = transcript_requests s" "issued_documents s' = issued_documents s"
      "\<And>sc. peek sc s \<le> peek sc s'"
  using documents_step_effect [OF assms]
proof
  assume other: "hr_step av s s'"
  then have "hr_db.more s' = hr_db.more s" using hr_step_more [of av s s'] by simp
  then have "transcript_requests s' = transcript_requests s \<and> issued_documents s' = issued_documents s"
    by (cases s; cases s') simp
  with counters_growD [OF hr_step_counters [OF other]] show thesis by (intro that(2)) simp_all
qed (rule that(1))

lemma serial_issued_mono:
  assumes "serial_issued s d" and same: "isd_serial_number d' = isd_serial_number d" "isd_document_type d' = isd_document_type d"
    and mono: "\<And>sc. peek sc s \<le> peek sc s'"
  shows "serial_issued s' d'"
proof -
  from assms(1) obtain y n where "isd_serial_number d = serial_text (isd_document_type d) y n" "CHR ''/'' \<notin> set y" "0 < n"
    and n: "n \<le> peek (serial_scope (isd_document_type d) y) s" unfolding serial_issued_def by blast
  moreover from n mono have "n \<le> peek (serial_scope (isd_document_type d) y) s'" by (rule le_trans)
  ultimately show ?thesis unfolding serial_issued_def same by blast
qed

lemma documents_step_counters: "documents_effect s s' \<Longrightarrow> peek sc s \<le> peek sc s'"
proof (induction rule: documents_effect.induct)
  case (Issue d y s rq tr)
  let ?sc = "serial_scope (isd_document_type d) y"
  have "peek sc (s\<lparr>id_sequences := id_sequences (snd (allocate ?sc s)), transcript_requests := rq,
      issued_documents := add_row d (issued_documents s), audit_log := tr\<rparr>) = peek sc (snd (allocate ?sc s))"
    by (simp add: peek_def)
  then show ?case by (simp add: peek_allocate)
qed (simp_all add: peek_def)

lemma answers_request_kept:
  assumes "answers_request s d" and "isd_transcript_request d' = isd_transcript_request d"
    and "isd_document_type d' = isd_document_type d" and "isd_student d' = isd_student d"
    and "\<And>k r. get_row (transcript_requests s) k = Some r \<Longrightarrow> tq_status r = Tq_Issued \<Longrightarrow>
      get_row (transcript_requests s') k = Some r"
  shows "answers_request s' d'"
  using assms(1-4) unfolding answers_request_def by (auto split: option.splits dest: assms(5))

lemma documents_inv_doc:
  "documents_inv s \<Longrightarrow> get_row (issued_documents s) k = Some d \<Longrightarrow> serial_issued s d \<and> answers_request s d \<and> revocation_ok d"
  by (simp add: documents_inv_def)

lemma documents_inv_answered:
  "documents_inv s \<Longrightarrow> get_row (transcript_requests s) k = Some r \<Longrightarrow> tq_status r = Tq_Issued \<Longrightarrow>
     \<exists>j d. get_row (issued_documents s) j = Some d \<and> isd_transcript_request d = Some k"
  by (simp add: documents_inv_def)

lemma documents_inv_requests:
  assumes inv: "documents_inv s" and docs: "issued_documents s' = issued_documents s" and wf: "wf_table (transcript_requests s')"
    and mono: "\<And>sc. peek sc s \<le> peek sc s'"
    and same: "\<And>k r. tq_status r = Tq_Issued \<Longrightarrow>
      get_row (transcript_requests s') k = Some r \<longleftrightarrow> get_row (transcript_requests s) k = Some r"
  shows "documents_inv s'"
proof -
  have "serial_issued s' d \<and> answers_request s' d \<and> revocation_ok d" if "get_row (issued_documents s) k = Some d" for k d
    using documents_inv_doc [OF inv that] mono same by (auto intro: serial_issued_mono answers_request_kept [of s d])
  moreover have "\<exists>j d. get_row (issued_documents s) j = Some d \<and> isd_transcript_request d = Some k"
    if "get_row (transcript_requests s') k = Some r" "tq_status r = Tq_Issued" for k r
    using documents_inv_answered [OF inv] that same by blast
  ultimately show ?thesis using inv wf by (simp add: documents_inv_def docs)
qed

lemma unique_on_revoked:
  assumes "unique_on f t" and "get_row t k = Some d" and "f d' = f d"
  shows "unique_on f (put_row k d' t)"
  using assms by (intro unique_on_wrote [OF wrote_put] key_free_same) simp_all

lemma documents_inv_effect:
  assumes "documents_effect s s'" and "documents_inv s"
  shows "documents_inv s'"
  using assms
proof (induction rule: documents_effect.induct)
  case (Request r s tr)
  then show ?case
    by (intro documents_inv_requests [OF Request(2)]) (auto simp: documents_inv_def get_add_row peek_def)
next
  case (Reject s k q r tr)
  then show ?case
    by (intro documents_inv_requests [OF Reject(4)]) (auto simp: documents_inv_def get_put_row peek_def)
next
  case (Revoke s k d reason tr t)
  let ?d = "d\<lparr>isd_is_revoked := True, isd_revoked_reason := reason, isd_revoked_at := Some t\<rparr>"
  let ?s = "s\<lparr>issued_documents := put_row k ?d (issued_documents s), audit_log := tr\<rparr>"
  note old = documents_inv_doc [OF Revoke(4)]
  have "serial_issued ?s e \<and> answers_request ?s e \<and> revocation_ok e" if "get_row (issued_documents ?s) j = Some e" for j e
  proof (cases "j = k")
    case True
    then have e: "e = ?d" using that Revoke(1) by (simp add: get_put_row)
    have "serial_issued ?s ?d" by (rule serial_issued_mono [of s d]) (use old [OF Revoke(1)] in \<open>simp_all add: peek_def\<close>)
    moreover have "answers_request ?s ?d" by (rule answers_request_kept [of s d]) (use old [OF Revoke(1)] in simp_all)
    ultimately show ?thesis using Revoke(3) by (simp add: e revocation_ok_def is_valid_def)
  next
    case False
    then have "get_row (issued_documents s) j = Some e" using that Revoke(1) by (simp add: get_put_row)
    from old [OF this] show ?thesis
      by (auto simp: peek_def intro: serial_issued_mono [of s e] answers_request_kept [of s e])
  qed
  moreover have "\<exists>j e. get_row (put_row k ?d (issued_documents s)) j = Some e \<and> isd_transcript_request e = Some i"
    if "get_row (transcript_requests s) i = Some r" "tq_status r = Tq_Issued" for i r
  proof -
    from documents_inv_answered [OF Revoke(4) that] obtain j e
      where "get_row (issued_documents s) j = Some e" "isd_transcript_request e = Some i" by blast
    then show ?thesis using Revoke(1) by (intro exI [of _ j] exI [of _ "if j = k then ?d else e"]) (auto simp: get_put_row)
  qed
  moreover have "unique_on (\<lambda>d. Some (isd_serial_number d)) (put_row k ?d (issued_documents s))"
    and "unique_on isd_transcript_request (put_row k ?d (issued_documents s))"
    using Revoke(4) by (auto simp: documents_inv_def intro!: unique_on_revoked [OF _ Revoke(1)])
  ultimately show ?case using Revoke(4) by (simp add: documents_inv_def)
next
  case (Issue d y s rq tr)
  let ?sc = "serial_scope (isd_document_type d) y"
  let ?s = "s\<lparr>id_sequences := id_sequences (snd (allocate ?sc s)), transcript_requests := rq,
      issued_documents := add_row d (issued_documents s), audit_log := tr\<rparr>"
  note inv = Issue(6)
  note old = documents_inv_doc [OF inv]
  have peek: "peek sc ?s = peek sc (snd (allocate ?sc s))" for sc by (simp add: peek_def)
  have kept: "get_row rq k = Some r" if "get_row (transcript_requests s) k = Some r" "tq_status r = Tq_Issued" for k r
    using that Issue(5) by (auto simp: get_put_row)
  have new: "serial_issued ?s d \<and> answers_request ?s d \<and> revocation_ok d"
  proof -
    have "serial_issued ?s d" unfolding serial_issued_def peek using Issue(1,2)
      by (intro exI [of _ y] exI [of _ "Suc (peek ?sc s)"]) (simp add: peek_allocate)
    moreover have "answers_request ?s d" using Issue(5) by (auto simp: answers_request_def get_put_row)
    ultimately show ?thesis using Issue(4) by (simp add: revocation_ok_def)
  qed
  have docs: "serial_issued ?s e \<and> answers_request ?s e \<and> revocation_ok e" if "get_row (issued_documents ?s) j = Some e" for j e
  proof (cases "j = fresh_pk (issued_documents s)")
    case False
    then have e: "get_row (issued_documents s) j = Some e" using that by (simp add: get_add_row)
    have "serial_issued ?s e"
      by (rule serial_issued_mono [of s e]) (use old [OF e] in \<open>simp_all add: peek peek_allocate\<close>)
    moreover have "answers_request ?s e"
      by (rule answers_request_kept [of s e]) (use old [OF e] kept in simp_all)
    ultimately show ?thesis using old [OF e] by simp
  qed (use that new in \<open>simp add: get_add_row\<close>)
  have free: "key_free isd_transcript_request (fresh_pk (issued_documents s)) d (issued_documents s)"
    unfolding key_free_def
  proof (intro allI impI)
    fix j b assume b: "get_row (issued_documents s) j = Some b" "isd_transcript_request d \<noteq> None"
    then obtain k q where k: "isd_transcript_request d = Some k" "get_row (transcript_requests s) k = Some q" "tq_status q = Tq_Requested"
      using Issue(5) by auto
    with old [OF b(1)] show "isd_transcript_request b \<noteq> isd_transcript_request d" by (auto simp: answers_request_def)
  qed
  have "\<exists>j e. get_row (add_row d (issued_documents s)) j = Some e \<and> isd_transcript_request e = Some k"
    if row: "get_row rq k = Some r" "tq_status r = Tq_Issued" for k r
  proof (cases "isd_transcript_request d = Some k")
    case True
    then show ?thesis by (intro exI [of _ "fresh_pk (issued_documents s)"] exI [of _ d]) (simp add: get_add_row)
  next
    case False
    then have "get_row (transcript_requests s) k = Some r" using Issue(5) row by (auto simp: get_put_row split: if_splits)
    from documents_inv_answered [OF inv this row(2)] obtain j e
      where "get_row (issued_documents s) j = Some e" "isd_transcript_request e = Some k" by blast
    then show ?thesis by (intro exI [of _ j] exI [of _ e]) (auto simp: get_add_row)
  qed
  moreover have "wf_table rq" using Issue(5) inv by (auto simp: documents_inv_def)
  moreover have "unique_on (\<lambda>d. Some (isd_serial_number d)) (add_row d (issued_documents s))"
    by (rule unique_on_wrote [OF wrote_add Issue(3)]) (use inv in \<open>simp add: documents_inv_def\<close>)
  moreover have "unique_on isd_transcript_request (add_row d (issued_documents s))"
    by (rule unique_on_wrote [OF wrote_add free]) (use inv in \<open>simp add: documents_inv_def\<close>)
  ultimately show ?case using inv docs by (simp add: documents_inv_def)
qed

lemma documents_step_inv:
  assumes "documents_step av s s'" and "documents_inv s"
  shows "documents_inv s'"
  using assms(1)
proof (cases rule: documents_step_cases)
  case Effect
  then show ?thesis using assms(2) by (rule documents_inv_effect)
next
  case Other
  then show ?thesis using assms(2) by (intro documents_inv_requests [OF assms(2)]) (simp_all add: documents_inv_def)
qed

lemma documents_steps_inv: "(documents_step av)\<^sup>*\<^sup>* s s' \<Longrightarrow> documents_inv s \<Longrightarrow> documents_inv s'"
  by (induction rule: rtranclp_induct) (auto intro: documents_step_inv)

lemma documents_step_mono: "documents_step av s s' \<Longrightarrow> peek sc s \<le> peek sc s'"
  by (erule documents_step_cases) (auto intro: documents_step_counters)

text \<open>What was issued stays issued; what was revoked stays revoked.\<close>

definition same_document :: "issued_document \<Rightarrow> issued_document \<Rightarrow> bool" where
  "same_document d d' \<longleftrightarrow>
     (is_valid d' \<and> d' = d \<or> \<not> is_valid d' \<and>
        d' = d\<lparr>isd_is_revoked := True, isd_revoked_reason := isd_revoked_reason d', isd_revoked_at := isd_revoked_at d'\<rparr>) \<and>
     (is_valid d \<or> d' = d)"

lemma documents_step_keeps:
  assumes "documents_step av s s'" and "get_row (issued_documents s) k = Some d"
  shows "\<exists>d'. get_row (issued_documents s') k = Some d' \<and> same_document d d'"
  using assms(1)
proof (cases rule: documents_step_cases)
  case Effect
  then show ?thesis using assms(2)
    by (induction rule: documents_effect.induct) (auto simp: get_add_row get_put_row same_document_def is_valid_def)
qed (use assms(2) in \<open>auto simp: same_document_def is_valid_def\<close>)

lemma documents_steps_keep:
  assumes "(documents_step av)\<^sup>*\<^sup>* s s'" and "get_row (issued_documents s) k = Some d"
  shows "\<exists>d'. get_row (issued_documents s') k = Some d' \<and> same_document d d'"
  using assms(1)
proof (induction rule: rtranclp_induct)
  case base
  then show ?case using assms(2) by (auto simp: same_document_def is_valid_def)
next
  case (step s1 s2)
  then obtain d1 d2 where "same_document d d1" and 2: "get_row (issued_documents s2) k = Some d2" "same_document d1 d2"
    using documents_step_keeps by blast
  then have "same_document d d2" by (cases d; cases d1; cases d2) (auto simp: same_document_def is_valid_def)
  with 2 show ?case by blast
qed

section \<open>Serial numbers are not reused\<close>

text \<open>A serial number tells the type, the year and the number of the document.\<close>

lemma serial_text_inj:
  assumes "serial_text t y m = serial_text t' y' n" and "CHR ''/'' \<notin> set y" "CHR ''/'' \<notin> set y'" and "0 < m" "0 < n"
  shows "t = t' \<and> y = y' \<and> m = n"
proof -
  have eq: "serial_prefix t @ CHR ''/'' # (y @ CHR ''/'' # pad0 5 (str_nat m)) =
      serial_prefix t' @ CHR ''/'' # (y' @ CHR ''/'' # pad0 5 (str_nat n))"
    using assms(1) by (simp add: serial_text_def)
  have "CHR ''/'' \<notin> set (serial_prefix x)" for x by (cases x) simp_all
  from split_first_slash [OF eq this this] have "serial_prefix t = serial_prefix t'"
    and rest: "y @ CHR ''/'' # pad0 5 (str_nat m) = y' @ CHR ''/'' # pad0 5 (str_nat n)" by simp_all
  then have "t = t'" by (cases t; cases t') simp_all
  with split_first_slash [OF rest assms(2,3)] assms(4,5) show ?thesis by (simp add: pad0_inj)
qed

lemma next_serial_fresh:
  assumes "documents_inv s" and "get_row (issued_documents s) k = Some d"
  shows "isd_serial_number d \<noteq> fst (generate_serial_number t (local_year c) s)"
proof
  assume eq: "isd_serial_number d = fst (generate_serial_number t (local_year c) s)"
  from documents_inv_doc [OF assms] obtain y n where d: "isd_serial_number d = serial_text (isd_document_type d) y n"
    "CHR ''/'' \<notin> set y" "0 < n" "n \<le> peek (serial_scope (isd_document_type d) y) s" unfolding serial_issued_def by blast
  from eq have "serial_text (isd_document_type d) y n = serial_text t (local_year c) (Suc (peek (serial_scope t (local_year c)) s))"
    by (simp add: d(1) serial_number_eq)
  from serial_text_inj [OF this d(2) local_year_no_slash d(3)] d(4) show False by auto
qed

lemma verify_issued:
  assumes "documents_inv s" and "get_row (issued_documents s) k = Some d"
  shows "verify_document (isd_serial_number d) s = Some (verification_of s d)"
proof -
  have wf: "wf_table (issued_documents s)" and uniq: "unique_on (\<lambda>d. Some (isd_serial_number d)) (issued_documents s)"
    using assms(1) by (simp_all add: documents_inv_def)
  have "first_row (\<lambda>_ b. isd_serial_number b = isd_serial_number d) (issued_documents s) \<noteq> None"
    using get_row_in_set [OF assms(2)] by (auto simp: first_row_None exists_row_iff)
  then obtain j b where first: "first_row (\<lambda>_ b. isd_serial_number b = isd_serial_number d) (issued_documents s) = Some (j, b)"
    by auto
  then have "isd_serial_number b = isd_serial_number d" using first_row_Some by fastforce
  moreover from wf first have "get_row (issued_documents s) j = Some b" by (rule first_row_get)
  ultimately have "j = k" using unique_onD [OF uniq _ assms(2)] by simp
  with \<open>get_row _ j = Some b\<close> assms(2) have "b = d" by simp
  with first show ?thesis by (simp add: verify_document_def)
qed

section \<open>Properties\<close>

text \<open>
  C27. Verification tells the truth, for ever. After any operations, whatever serial number an issued
  document carries, the public page finds that document under it - its type and the time of
  issue - and calls it valid at most until it is revoked; no serial number issued later, of
  whatever type and year, is the same.
\<close>

theorem verification_truthful:
  assumes "(documents_step av)\<^sup>*\<^sup>* s0 s" and "documents_inv s0" and "get_row (issued_documents s) k = Some d"
    and "(documents_step av)\<^sup>*\<^sup>* s s'"
  shows "verify_document (isd_serial_number d) s = Some (verification_of s d) \<and>
    (\<exists>v. verify_document (isd_serial_number d) s' = Some v \<and> vr_serial_number v = isd_serial_number d \<and>
      vr_document_type v = document_type_text (isd_document_type d) \<and> vr_issued_at v = isd_issued_at d \<and>
      vr_is_valid v \<in> {False, is_valid d}) \<and>
    isd_serial_number d \<noteq> fst (generate_serial_number t (local_year c) s')"
proof -
  have inv0: "documents_inv s" by (rule documents_steps_inv [OF assms(1,2)])
  have inv: "documents_inv s'" by (rule documents_steps_inv [OF assms(4) inv0])
  from documents_steps_keep [OF assms(4,3)] obtain d' where d': "get_row (issued_documents s') k = Some d'" "same_document d d'" by blast
  have same: "isd_serial_number d' = isd_serial_number d" "isd_document_type d' = isd_document_type d"
    "isd_issued_at d' = isd_issued_at d" "is_valid d' \<in> {False, is_valid d}"
    using d'(2) by (cases d; cases d'; auto simp: same_document_def is_valid_def)+
  from verify_issued [OF inv0 assms(3)] verify_issued [OF inv d'(1)] next_serial_fresh [OF inv d'(1), of t c] same show ?thesis
    by (auto simp: verification_of_def)
qed

text \<open>
  C26. A certificate needs clearance. A certificate is issued only when no provider reports a
  blocking hold - so no fees are owed -, or to an actor who gave a reason and may override
  the clearance, and then the reason is on the document; it is a new, valid document of that
  student, and the public page confirms it.
\<close>

theorem certificate_needs_clearance:
  "case issue_certificate c (hold_providers balances s) student actor reason s of Inl _ \<Rightarrow> True
   | Inr (k, s') \<Rightarrow> \<exists>d. get_row (issued_documents s) k = None \<and> get_row (issued_documents s') k = Some d \<and>
       isd_student d = student \<and> get_row (students s) student \<noteq> None \<and>
       isd_document_type d = Doc_Certificate \<and> is_valid d \<and> isd_issued_by d = actor_fk actor \<and>
       \<not> exists_row (\<lambda>_ b. isd_serial_number b = isd_serial_number d) (issued_documents s) \<and>
       (isd_override_reason d = [] \<and> fst (graduation_clearance_status (hold_providers balances s) student) \<and>
          fee_balance_for_student student s \<le> 0 \<or>
        isd_override_reason d = reason \<and> nonblank reason \<and>
          \<not> fst (graduation_clearance_status (hold_providers balances s) student) \<and>
          (\<exists>u. actor = Some u \<and> has_perm u ''documents.override_clearance''))"
proof (cases "issue_certificate c (hold_providers balances s) student actor reason s")
  case (Inr p)
  obtain k s' where p: "p = (k, s')" by (cases p)
  let ?blocking = "blocking_holds (hold_providers balances s) student"
  have clear: "fst (graduation_clearance_status (hold_providers balances s) student) \<longleftrightarrow> ?blocking = []"
    by (auto simp: graduation_clearance_status_def blocking_holds_def Let_def list_ex_iff filter_empty_conv)
  have fees: "fee_balance_for_student student s \<le> 0" if "?blocking = []"
    using that unpaid_blocks [of student s balances] by (cases "0 < fee_balance_for_student student s") auto
  define ov where "ov = (if ?blocking \<noteq> [] then reason else [])"
  from Inr p have issue: "issue_document c student Doc_Certificate actor None ov s = Inr (k, s')"
    and allowed: "?blocking = [] \<or> nonblank reason \<and> (\<exists>u. actor = Some u \<and> has_perm u ''documents.override_clearance'')"
    unfolding issue_certificate_def Let_def ov_def by (auto split: if_splits option.splits)
  from issue show ?thesis
  proof (rule issue_document_Inr)
    fix d tr
    assume k: "k = fresh_pk (issued_documents s)"
      and d: "d = \<lparr>isd_student = student, isd_document_type = Doc_Certificate, isd_transcript_request = None,
           isd_serial_number = serial_text Doc_Certificate (local_year c) (Suc (peek (serial_scope Doc_Certificate (local_year c)) s)),
           isd_issued_by = actor_fk actor, isd_issued_at = now c, isd_is_revoked = False, isd_revoked_reason = [],
           isd_revoked_at = None, isd_override_reason = ov\<rparr>"
      and clean: "issued_document_full_clean None d s = Inr ()"
      and s': "s' = s\<lparr>id_sequences := id_sequences (snd (allocate (serial_scope Doc_Certificate (local_year c)) s)),
           issued_documents := add_row d (issued_documents s), audit_log := tr\<rparr>"
    from clean have "\<not> exists_row (\<lambda>_ b. isd_serial_number b = isd_serial_number d) (issued_documents s)"
      and "get_row (students s) student \<noteq> None"
      by (simp_all add: issued_document_full_clean_def ensure_eq_Inr d)
    moreover have "get_row (issued_documents s') k = Some d" by (simp add: s' k get_add_row)
    moreover have "isd_student d = student" "isd_document_type d = Doc_Certificate" "is_valid d" "isd_issued_by d = actor_fk actor"
      "isd_override_reason d = ov" by (simp_all add: d is_valid_def)
    ultimately show ?thesis using allowed fees unfolding Inr p by (auto simp: clear ov_def k)
  qed
qed simp

text \<open>
  C28. One transcript for each request that was granted. In every reachable state a request that was
  issued has exactly one transcript, of its own student, and a request that is open or was
  rejected has none; a document that answers no request is a certificate.
\<close>

theorem transcripts_match_requests:
  assumes "(documents_step av)\<^sup>*\<^sup>* s0 s" and "documents_inv s0"
  shows "(case get_row (transcript_requests s) k of
      None \<Rightarrow> \<not> (\<exists>j d. get_row (issued_documents s) j = Some d \<and> isd_transcript_request d = Some k)
    | Some r \<Rightarrow>
        if tq_status r = Tq_Issued
        then \<exists>!j. \<exists>d. get_row (issued_documents s) j = Some d \<and> isd_transcript_request d = Some k \<and>
          isd_document_type d = Doc_Transcript \<and> isd_student d = tq_student r
        else \<not> (\<exists>j d. get_row (issued_documents s) j = Some d \<and> isd_transcript_request d = Some k)) \<and>
    (case get_row (issued_documents s) j of
      None \<Rightarrow> True
    | Some d \<Rightarrow> (isd_document_type d = Doc_Certificate) = (isd_transcript_request d = None) \<and>
        is_valid d = (isd_revoked_at d = None))"
proof -
  have inv: "documents_inv s" by (rule documents_steps_inv [OF assms])
  note doc = documents_inv_doc [OF inv]
  have answers: "\<exists>r. get_row (transcript_requests s) k = Some r \<and> tq_status r = Tq_Issued \<and> tq_student r = isd_student d \<and>
      isd_document_type d = Doc_Transcript"
    if "get_row (issued_documents s) i = Some d" "isd_transcript_request d = Some k" for i d
    using doc [OF that(1)] that(2) by (simp add: answers_request_def)
  have one: "i = j" if "get_row (issued_documents s) i = Some d" "isd_transcript_request d = Some k"
    "get_row (issued_documents s) j = Some e" "isd_transcript_request e = Some k" for i j d e
    using inv that unfolding documents_inv_def by (blast dest: unique_onD)
  have granted: "\<exists>!j. \<exists>d. get_row (issued_documents s) j = Some d \<and> isd_transcript_request d = Some k \<and>
      isd_document_type d = Doc_Transcript \<and> isd_student d = tq_student r"
    if "get_row (transcript_requests s) k = Some r" "tq_status r = Tq_Issued" for r
  proof -
    from documents_inv_answered [OF inv that] obtain i d
      where i: "get_row (issued_documents s) i = Some d" "isd_transcript_request d = Some k" by blast
    with answers [OF i] that(1) have "isd_document_type d = Doc_Transcript" "isd_student d = tq_student r" by auto
    with i one show ?thesis by (intro ex1I [of _ i]) blast+
  qed
  have "case get_row (issued_documents s) j of None \<Rightarrow> True
    | Some d \<Rightarrow> (isd_document_type d = Doc_Certificate) = (isd_transcript_request d = None) \<and> is_valid d = (isd_revoked_at d = None)"
    using doc [of j] by (auto simp: answers_request_def revocation_ok_def split: option.splits)
  moreover have "case get_row (transcript_requests s) k of
      None \<Rightarrow> \<not> (\<exists>j d. get_row (issued_documents s) j = Some d \<and> isd_transcript_request d = Some k)
    | Some r \<Rightarrow>
        if tq_status r = Tq_Issued
        then \<exists>!j. \<exists>d. get_row (issued_documents s) j = Some d \<and> isd_transcript_request d = Some k \<and>
          isd_document_type d = Doc_Transcript \<and> isd_student d = tq_student r
        else \<not> (\<exists>j d. get_row (issued_documents s) j = Some d \<and> isd_transcript_request d = Some k)"
    using granted answers by (fastforce split: option.splits)
  ultimately show ?thesis by blast
qed

section \<open>What the services let through\<close>

text \<open>
  A certificate is said to be issued once, on graduation; the service reads neither the status of
  the student nor the certificates that exist.
\<close>

lemma certificate_whenever_clear:
  "blocking_holds providers student = [] \<Longrightarrow>
     issue_certificate c providers student actor reason s = issue_document c student Doc_Certificate actor None [] s"
  by (simp add: issue_certificate_def)

text \<open>A superuser without a role may not see a clearance: the view asks for roles only.\<close>

lemma superuser_sees_no_clearance:
  "role_codes u s = [] \<Longrightarrow> student_profile_of u s = None \<Longrightarrow> clearance_view providers u student s = Inl permission_denied"
  by (simp add: clearance_view_def guarded_def has_role_def)

section \<open>Concrete inputs\<close>

definition sample_documents_db :: documents_db where
  "sample_documents_db = hr_db.extend ((sample_hr_db [])\<lparr>id_sequences := []\<rparr>) \<lparr>transcript_requests = [], issued_documents = []\<rparr>"

lemma sample_documents_tables [simp]:
  "transcript_requests sample_documents_db = []" "issued_documents sample_documents_db = []"
  "students sample_documents_db = [(1, sample_student)]" "audit_log sample_documents_db = []"
  "id_sequences sample_documents_db = []"
  by (simp_all add: sample_documents_db_def hr_db.defs)
    (simp add: sample_hr_db_def accounts_db.defs sample_accounts_db_def library_db.defs)

lemma sample_documents_inv: "documents_inv sample_documents_db"
  by (simp add: documents_inv_def wf_table_def unique_on_def get_row_def)

definition sample_certificate :: issued_document where
  "sample_certificate = \<lparr>isd_student = 1, isd_document_type = Doc_Certificate, isd_transcript_request = None,
     isd_serial_number = serial_text Doc_Certificate (local_year sample_ctx) 1,
     isd_issued_by = None, isd_issued_at = now sample_ctx, isd_is_revoked = False, isd_revoked_reason = [],
     isd_revoked_at = None, isd_override_reason = []\<rparr>"

lemma sample_issue:
  obtains s where "documents_step av sample_documents_db s" and "get_row (issued_documents s) 1 = Some sample_certificate"
proof -
  let ?sc = "serial_scope Doc_Certificate (local_year sample_ctx)"
  have len: "length (isd_serial_number sample_certificate) \<le> 40" "isd_serial_number sample_certificate \<noteq> []"
    unfolding sample_certificate_def by code_simp+
  define s1 where "s1 = sample_documents_db\<lparr>id_sequences := id_sequences (snd (allocate ?sc sample_documents_db))\<rparr>"
  have "issued_document_full_clean None sample_certificate s1 = Inr ()"
    using len by (simp add: issued_document_full_clean_def s1_def ensure_def opt_ref_def exists_row_def)
      (simp add: sample_certificate_def get_row_singleton)
  moreover obtain e where "insert_audited sample_ctx issued_document_meta issued_document_audit issued_documents put_documents
      sample_certificate (issue_reason []) s1 = Inr (1, s1\<lparr>issued_documents := [(1, sample_certificate)], audit_log := [e]\<rparr>)"
    using first_sensitive_insert [of issued_document_meta sample_ctx put_documents sample_certificate issued_documents s1]
    by (auto simp: issued_document_meta_def sample_ctx_def add_row_def fresh_pk_def s1_def)
  ultimately have "issue_certificate sample_ctx [] 1 None [] sample_documents_db =
      Inr (1, s1\<lparr>issued_documents := [(1, sample_certificate)], audit_log := [e]\<rparr>)"
    by (simp add: issue_certificate_def blocking_holds_def issue_document_def serial_number_eq s1_def [symmetric]
        sample_certificate_def peek_def actor_fk_def)
  then have "documents_step av sample_documents_db (s1\<lparr>issued_documents := [(1, sample_certificate)], audit_log := [e]\<rparr>)"
    by (rule documents_step.Certify)
  then show thesis by (rule that) (simp add: get_row_singleton)
qed

lemma verification_truthful_witness:
  "\<exists>s v. documents_step [] sample_documents_db s \<and>
     verify_document (isd_serial_number sample_certificate) s = Some v \<and> vr_document_type v = ''certificate'' \<and> vr_is_valid v"
proof -
  obtain s where step: "documents_step [] sample_documents_db s" and row: "get_row (issued_documents s) 1 = Some sample_certificate"
    by (rule sample_issue)
  from verification_truthful [OF r_into_rtranclp [of "documents_step []", OF step] sample_documents_inv row rtranclp.rtrancl_refl]
  show ?thesis using step by (auto simp: verification_of_def sample_certificate_def is_valid_def)
qed

lemma transcripts_match_requests_witness:
  "\<exists>s. documents_step [] sample_documents_db s \<and> get_row (issued_documents s) 1 = Some sample_certificate \<and>
     (isd_document_type sample_certificate = Doc_Certificate) = (isd_transcript_request sample_certificate = None)"
proof -
  obtain s where step: "documents_step [] sample_documents_db s" and row: "get_row (issued_documents s) 1 = Some sample_certificate"
    by (rule sample_issue)
  from transcripts_match_requests [OF r_into_rtranclp [of "documents_step []", OF step] sample_documents_inv, of 1 1] row step
  show ?thesis by auto
qed

end
