(* ===== verification/Community.thy ===== *)
theory Community
  imports Documents
begin

text \<open>
  Alumni (\<open>alumni/models.py\<close>, \<open>services.py\<close>, \<open>views.py\<close>) and announcements
  (\<open>communications/models.py\<close>, \<open>services.py\<close>, \<open>views.py\<close>) with the notification port of \<open>core\<close>.
\<close>

section \<open>Alumni\<close>

datatype employment_status = Emp_Employed | Emp_Self_Employed | Emp_Further_Study | Emp_Unemployed | Emp_Unknown

fun employment_status_text :: "employment_status \<Rightarrow> string" where
  "employment_status_text Emp_Employed = ''employed''"
| "employment_status_text Emp_Self_Employed = ''self_employed''"
| "employment_status_text Emp_Further_Study = ''further_study''"
| "employment_status_text Emp_Unemployed = ''unemployed''"
| "employment_status_text Emp_Unknown = ''unknown''"

record alumni_profile =
  alm_student :: nat
  alm_phone :: string
  alm_email :: string
  alm_current_employer :: string
  alm_current_position :: string
  alm_employment_status :: employment_status
  alm_is_contactable :: bool
  alm_notes :: string
  alm_created_at :: int

record alumni_event =
  ale_title :: string
  ale_description :: string
  ale_event_date :: int
  ale_location :: string

datatype audience_type = Aud_All_Students | Aud_Programme | Aud_Alumni

fun audience_type_text :: "audience_type \<Rightarrow> string" where
  "audience_type_text Aud_All_Students = ''all_students''"
| "audience_type_text Aud_Programme = ''programme''"
| "audience_type_text Aud_Alumni = ''alumni''"

record announcement =
  ann_title :: string
  ann_body :: string
  ann_audience_type :: audience_type
  ann_programme :: "nat option"
  ann_created_by :: "nat option"
  ann_sent_at :: int
  ann_recipient_count :: nat
  ann_sms_sent_count :: nat
  ann_email_sent_count :: nat

record community_db = documents_db +
  alumni_profiles :: "alumni_profile table"
  alumni_events :: "alumni_event table"
  announcements :: "announcement table"

abbreviation put_alumni :: "alumni_profile table \<Rightarrow> 'a community_db_scheme \<Rightarrow> 'a community_db_scheme" where
  "put_alumni t s \<equiv> s\<lparr>alumni_profiles := t\<rparr>"

abbreviation put_events :: "alumni_event table \<Rightarrow> 'a community_db_scheme \<Rightarrow> 'a community_db_scheme" where
  "put_events t s \<equiv> s\<lparr>alumni_events := t\<rparr>"

abbreviation put_announcements :: "announcement table \<Rightarrow> 'a community_db_scheme \<Rightarrow> 'a community_db_scheme" where
  "put_announcements t s \<equiv> s\<lparr>announcements := t\<rparr>"

definition alumni_meta :: model_meta where
  "alumni_meta = \<lparr>mm_label = ''alumni.alumniprofile'', mm_verbose = ''alumni profile'', mm_sensitive = False\<rparr>"

definition alumni_audit :: "alumni_profile \<Rightarrow> (string \<times> pyval) list" where
  "alumni_audit a = [(''employment_status'', VStr (employment_status_text (alm_employment_status a))),
     (''is_contactable'', VBool (alm_is_contactable a))]"

definition event_meta :: model_meta where
  "event_meta = \<lparr>mm_label = ''alumni.alumnievent'', mm_verbose = ''alumni event'', mm_sensitive = False\<rparr>"

definition event_audit :: "alumni_event \<Rightarrow> (string \<times> pyval) list" where
  "event_audit e = [(''title'', VStr (ale_title e)), (''event_date'', VText (iso_date (ale_event_date e)))]"

text \<open>The field checks; whether a text is an email address is asked of \<open>valid_email\<close> (Django's validator).\<close>

definition alumni_full_clean ::
  "(string \<Rightarrow> bool) \<Rightarrow> nat option \<Rightarrow> alumni_profile \<Rightarrow> 'a community_db_scheme \<Rightarrow> exn + unit" where
  "alumni_full_clean valid_mail pk a s =
     ensure (get_row (students s) (alm_student a) \<noteq> None \<and> length (alm_phone a) \<le> 32 \<and>
       (alm_email a = [] \<or> valid_mail (alm_email a) \<and> length (alm_email a) \<le> 254) \<and>
       length (alm_current_employer a) \<le> 200 \<and> length (alm_current_position a) \<le> 200 \<and>
       \<not> exists_row (\<lambda>k b. Some k \<noteq> pk \<and> alm_student b = alm_student a) (alumni_profiles s)) ValidationError"

definition event_full_clean :: "alumni_event \<Rightarrow> exn + unit" where
  "event_full_clean e =
     ensure (ale_title e \<noteq> [] \<and> length (ale_title e) \<le> 200 \<and> length (ale_location e) \<le> 200) ValidationError"

definition NotYetGraduated :: exn where "NotYetGraduated = DomainError ''not_yet_graduated'' 400"

text \<open>
  The keyword arguments: a profile whose \<open>student\<close> is overwritten, an update of the given
  fields. \<open>created_at\<close> is the time of the insertion.
\<close>

definition create_alumni_profile ::
  "(string \<Rightarrow> bool) \<Rightarrow> ctx \<Rightarrow> nat \<Rightarrow> alumni_profile \<Rightarrow> 'a community_db_scheme \<Rightarrow> exn + nat \<times> 'a community_db_scheme" where
  "create_alumni_profile valid_mail c student given s =
     bindE (is_graduated student s) (\<lambda>graduated.
       if \<not> graduated then Inl NotYetGraduated
       else let a = given\<lparr>alm_student := student, alm_created_at := now c\<rparr> in
            bindE (alumni_full_clean valid_mail None a s) (\<lambda>_.
              insert_audited c alumni_meta alumni_audit alumni_profiles put_alumni a ''Alumni profile created'' s))"

definition update_alumni_profile ::
  "(string \<Rightarrow> bool) \<Rightarrow> ctx \<Rightarrow> nat \<Rightarrow> (alumni_profile \<Rightarrow> alumni_profile) \<Rightarrow> 'a community_db_scheme
    \<Rightarrow> exn + 'a community_db_scheme" where
  "update_alumni_profile valid_mail c k change s =
     (case get_row (alumni_profiles s) k of
        None \<Rightarrow> Inl DoesNotExist
      | Some a \<Rightarrow>
          bindE (alumni_full_clean valid_mail (Some k) (change a) s) (\<lambda>_.
            update_audited c alumni_meta alumni_audit alumni_profiles put_alumni k a (change a) ''Alumni profile updated'' s))"

definition create_alumni_event :: "ctx \<Rightarrow> alumni_event \<Rightarrow> 'a community_db_scheme \<Rightarrow> exn + nat \<times> 'a community_db_scheme" where
  "create_alumni_event c e s =
     bindE (event_full_clean e) (\<lambda>_.
       insert_audited c event_meta event_audit alumni_events put_events e ''Alumni event scheduled'' s)"

definition update_alumni_event ::
  "ctx \<Rightarrow> nat \<Rightarrow> (alumni_event \<Rightarrow> alumni_event) \<Rightarrow> 'a community_db_scheme \<Rightarrow> exn + 'a community_db_scheme" where
  "update_alumni_event c k change s =
     (case get_row (alumni_events s) k of
        None \<Rightarrow> Inl DoesNotExist
      | Some e \<Rightarrow>
          bindE (event_full_clean (change e)) (\<lambda>_.
            update_audited c event_meta event_audit alumni_events put_events k e (change e) ''Alumni event updated'' s))"

text \<open>
  The query keeps the order of the model, the newest profile first; profiles of the same instant,
  which the database may give in any order, stay in the order of their keys here.
\<close>

definition newest_first :: "alumni_profile table \<Rightarrow> alumni_profile table" where
  "newest_first t = sort_key (\<lambda>(k, a). - alm_created_at a) t"

definition active_alumni_contacts :: "'a community_db_scheme \<Rightarrow> (nat \<times> string \<times> string) list" where
  "active_alumni_contacts s =
     map (\<lambda>(k, a). (k, alm_phone a, alm_email a))
       (newest_first (filter_rows (\<lambda>_ a. alm_is_contactable a) (alumni_profiles s)))"

definition alumni_access :: view_access where
  "alumni_access = by_method [(''GET'', Holding [''alumni.view_alumniprofile'']), (''POST'', Holding [''alumni.add_alumniprofile'']),
     (''PUT'', Holding [''alumni.change_alumniprofile'']), (''PATCH'', Holding [''alumni.change_alumniprofile''])]"

definition create_alumni_view ::
  "(string \<Rightarrow> bool) \<Rightarrow> ctx \<Rightarrow> nat \<Rightarrow> nat \<Rightarrow> alumni_profile \<Rightarrow> 'a community_db_scheme \<Rightarrow> exn + nat \<times> 'a community_db_scheme" where
  "create_alumni_view valid_mail c u student given s =
     guarded (module_permission alumni_access ''POST'' (Some u) s)
       (case get_row (students s) student of
          None \<Rightarrow> Inl ValidationError
        | Some st \<Rightarrow> if st_deleted_at st \<noteq> None then Inl ValidationError
                     else create_alumni_profile valid_mail c student given s)"

definition update_alumni_view ::
  "(string \<Rightarrow> bool) \<Rightarrow> ctx \<Rightarrow> nat \<Rightarrow> nat \<Rightarrow> (alumni_profile \<Rightarrow> alumni_profile) \<Rightarrow> 'a community_db_scheme
    \<Rightarrow> exn + 'a community_db_scheme" where
  "update_alumni_view valid_mail c u k change s =
     guarded (module_permission alumni_access ''PATCH'' (Some u) s)
       (update_alumni_profile valid_mail c k
          (\<lambda>a. (change a)\<lparr>alm_student := alm_student a, alm_created_at := alm_created_at a\<rparr>) s)"

section \<open>The notification port\<close>

text \<open>
  A provider sends one message; it returns, or it raises (\<open>False\<close>), and keeps a state of its own.
  What it returns, a receipt, is read by nobody. \<open>recording_provider\<close> is the provider that keeps
  what it sent.
\<close>

record 'p notification_provider =
  np_send_sms :: "string \<Rightarrow> string \<Rightarrow> 'p \<Rightarrow> bool \<times> 'p"
  np_send_email :: "string \<Rightarrow> string \<Rightarrow> string \<Rightarrow> 'p \<Rightarrow> bool \<times> 'p"

datatype sent_message = SentSms string string | SentEmail string string string

definition recording_provider :: "sent_message list notification_provider" where
  "recording_provider = \<lparr>np_send_sms = (\<lambda>recipient body p. (True, p @ [SentSms recipient body])),
     np_send_email = (\<lambda>recipient subject body p. (True, p @ [SentEmail recipient subject body]))\<rparr>"

section \<open>Announcements\<close>

definition BroadcastNotPermitted :: exn where "BroadcastNotPermitted = DomainError ''broadcast_not_permitted'' 400"
definition OutsideOwnDepartment :: exn where "OutsideOwnDepartment = DomainError ''outside_own_department'' 400"
definition ProgrammeRequired :: exn where "ProgrammeRequired = DomainError ''programme_required'' 400"

definition announcement_meta :: model_meta where
  "announcement_meta = \<lparr>mm_label = ''communications.announcement'', mm_verbose = ''announcement'', mm_sensitive = True\<rparr>"

definition announcement_audit :: "announcement \<Rightarrow> (string \<times> pyval) list" where
  "announcement_audit a = [(''title'', VStr (ann_title a)), (''audience_type'', VStr (audience_type_text (ann_audience_type a))),
     (''recipient_count'', VInt (int (ann_recipient_count a)))]"

definition announcement_clean :: "announcement \<Rightarrow> exn + unit" where
  "announcement_clean a =
     ensure ((ann_audience_type a = Aud_Programme) = (ann_programme a \<noteq> None)) ValidationError"

definition announcement_full_clean :: "announcement \<Rightarrow> 'a community_db_scheme \<Rightarrow> exn + unit" where
  "announcement_full_clean a s =
     bindE (ensure (ann_title a \<noteq> [] \<and> length (ann_title a) \<le> 200 \<and> ann_body a \<noteq> [] \<and>
                    opt_ref (ann_programme a) (programmes s)) ValidationError) (\<lambda>_. announcement_clean a)"

text \<open>
  One contact: the text message, then the email; whatever raises is logged and ends the attempts
  for this contact, the counters keep what was counted.
\<close>

definition notify_contact ::
  "'p notification_provider \<Rightarrow> string \<Rightarrow> string \<Rightarrow> nat \<times> string \<times> string \<Rightarrow> nat \<times> nat \<times> 'p \<Rightarrow> nat \<times> nat \<times> 'p" where
  "notify_contact provider title body contact st =
     (let (_, phone, email) = contact; (sms, mails, p) = st;
          (ok, p1) = (if phone = [] then (True, p) else np_send_sms provider phone body p);
          sms1 = (if phone \<noteq> [] \<and> ok then sms + 1 else sms)
      in if \<not> ok then (sms1, mails, p1)
         else let (ok2, p2) = (if email = [] then (True, p1) else np_send_email provider email title body p1)
              in (sms1, if email \<noteq> [] \<and> ok2 then mails + 1 else mails, p2))"

definition announcement_contacts ::
  "audience_type \<Rightarrow> nat option \<Rightarrow> nat option \<Rightarrow> 'a community_db_scheme \<Rightarrow> exn + (nat \<times> string \<times> string) list" where
  "announcement_contacts audience programme actor s =
     (let may_broadcast = (case actor of None \<Rightarrow> False | Some u \<Rightarrow> user_has_perm u s ''communications.broadcast_all'') in
      case audience of
        Aud_All_Students \<Rightarrow> if may_broadcast then Inr (active_student_contacts None s) else Inl BroadcastNotPermitted
      | Aud_Alumni \<Rightarrow> if may_broadcast then Inr (active_alumni_contacts s) else Inl BroadcastNotPermitted
      | Aud_Programme \<Rightarrow>
          (case programme of
             None \<Rightarrow> Inl ProgrammeRequired
           | Some k \<Rightarrow>
               bindE (case actor of
                        None \<Rightarrow> Inr ()
                      | Some u \<Rightarrow>
                          if has_role u [''hod''] s \<and> \<not> has_role u [''registrar'', ''management'', ''ict_admin''] s
                          then bindE (department_id_for_programme k s) (\<lambda>d.
                                 if department_of u s \<noteq> Some d then Inl OutsideOwnDepartment else Inr ())
                          else Inr ())
                 (\<lambda>_. Inr (active_student_contacts (Some k) s))))"

text \<open>
  The messages are sent before the announcement is checked and saved: what the provider did is not
  rolled back with the transaction.
\<close>

definition send_announcement ::
  "ctx \<Rightarrow> 'p notification_provider \<Rightarrow> string \<Rightarrow> string \<Rightarrow> audience_type \<Rightarrow> nat option \<Rightarrow> nat option \<Rightarrow> 'p
    \<Rightarrow> 'a community_db_scheme \<Rightarrow> (exn + nat \<times> 'a community_db_scheme) \<times> 'p" where
  "send_announcement c provider title body audience programme actor p s =
     (case announcement_contacts audience programme actor s of
        Inl e \<Rightarrow> (Inl e, p)
      | Inr contacts \<Rightarrow>
          let (sms, mails, p') = fold (notify_contact provider title body) contacts (0, 0, p);
              a = \<lparr>ann_title = title, ann_body = body, ann_audience_type = audience, ann_programme = programme,
                   ann_created_by = actor, ann_sent_at = now c, ann_recipient_count = length contacts,
                   ann_sms_sent_count = sms, ann_email_sent_count = mails\<rparr>
          in (bindE (announcement_full_clean a s) (\<lambda>_.
                insert_audited c announcement_meta announcement_audit announcements put_announcements a
                  (''Sent to '' @ str_nat (length contacts) @ '' recipient(s)'') s), p'))"

definition COMMUNICATIONS_UNSCOPED :: "string list" where
  "COMMUNICATIONS_UNSCOPED = [''registrar'', ''hod'', ''ict_admin'', ''management'']"

definition announcement_rows :: "nat \<Rightarrow> 'a community_db_scheme \<Rightarrow> announcement table" where
  "announcement_rows u s =
     (if is_superuser u s \<or> has_role u COMMUNICATIONS_UNSCOPED s then announcements s
      else case student_profile_of u s of
             Some (_, st) \<Rightarrow> filter_rows (\<lambda>_ a. ann_audience_type a = Aud_All_Students \<or> ann_programme a = Some (st_programme st))
                               (announcements s)
           | None \<Rightarrow> filter_rows (\<lambda>_ a. ann_audience_type a = Aud_All_Students) (announcements s))"

definition send_view ::
  "ctx \<Rightarrow> 'p notification_provider \<Rightarrow> nat \<Rightarrow> string \<Rightarrow> string \<Rightarrow> audience_type \<Rightarrow> nat option \<Rightarrow> 'p
    \<Rightarrow> 'a community_db_scheme \<Rightarrow> (exn + nat \<times> 'a community_db_scheme) \<times> 'p" where
  "send_view c provider u title body audience programme p s =
     (if \<not> (authenticated_and_active (Some u) s \<and> user_has_perm u s ''communications.send_announcement'') then (Inl permission_denied, p)
      else if strip title = [] \<or> 200 < length (strip title) \<or> strip body = [] \<or> 5000 < length (strip body) then (Inl ValidationError, p)
      else send_announcement c provider (strip title) (strip body) audience programme (Some u) p s)"

section \<open>What is sent\<close>

text \<open>
  A provider that raises for some addresses and sends to the others; the messages a contact gets
  from it.
\<close>

definition failing_provider :: "(string \<Rightarrow> bool) \<Rightarrow> sent_message list notification_provider" where
  "failing_provider bad =
     \<lparr>np_send_sms = (\<lambda>recipient body p. if bad recipient then (False, p) else (True, p @ [SentSms recipient body])),
      np_send_email = (\<lambda>recipient subject body p.
        if bad recipient then (False, p) else (True, p @ [SentEmail recipient subject body]))\<rparr>"

lemma recording_never_fails: "recording_provider = failing_provider (\<lambda>_. False)"
  by (simp add: recording_provider_def failing_provider_def)

definition messages_for :: "(string \<Rightarrow> bool) \<Rightarrow> string \<Rightarrow> string \<Rightarrow> nat \<times> string \<times> string \<Rightarrow> sent_message list" where
  "messages_for bad title body contact =
     (let (_, phone, email) = contact in
      if phone \<noteq> [] \<and> bad phone then []
      else (if phone = [] then [] else [SentSms phone body]) @
           (if email = [] \<or> bad email then [] else [SentEmail email title body]))"

fun is_sms :: "sent_message \<Rightarrow> bool" where
  "is_sms (SentSms _ _) = True"
| "is_sms (SentEmail _ _ _) = False"

definition tally :: "sent_message list \<Rightarrow> nat \<times> nat \<times> sent_message list \<Rightarrow> nat \<times> nat \<times> sent_message list" where
  "tally ms st = (let (a, b, p) = st in (a + length (filter is_sms ms), b + length (filter (\<lambda>m. \<not> is_sms m) ms), p @ ms))"

lemma tally_append: "tally ns (tally ms st) = tally (ms @ ns) st"
  by (simp add: tally_def split: prod.splits)

lemma notify_contact_tally:
  "notify_contact (failing_provider bad) title body contact st = tally (messages_for bad title body contact) st"
  by (cases contact; cases st)
    (auto simp: notify_contact_def failing_provider_def messages_for_def tally_def Let_def)

lemma notify_contacts_tally:
  "fold (notify_contact (failing_provider bad) title body) contacts st =
     tally (concat (map (messages_for bad title body) contacts)) st"
proof (induction contacts arbitrary: st)
  case Nil
  then show ?case by (simp add: tally_def split: prod.splits)
next
  case (Cons x xs)
  then show ?case by (simp add: notify_contact_tally tally_append)
qed

section \<open>Properties\<close>

text \<open>
  The two lists of contacts: every row of the query once, students by last and first name,
  alumni by the age of their profile, the newest first.
\<close>

lemma by_name_ordered:
  "mset (by_name t) = mset t \<and> sorted (map (\<lambda>(k, st). (st_last_name st, st_first_name st)) (by_name t))"
  by (simp add: by_name_def)

lemma newest_first_ordered:
  "mset (newest_first t) = mset t \<and> sorted (map (\<lambda>(k, a). - alm_created_at a) (newest_first t))"
  by (simp add: newest_first_def)

text \<open>
  C31. An announcement reaches its audience, once per address. Whoever sends it may: to all
  students and to the alumni only with the permission to broadcast, to a programme - a head of
  department with no wider role - only of the own department. Whatever addresses the provider
  fails on, every other address of every contact is tried - students in the order of their last and first
  names, alumni the newest profile first -, except the email address of
  a contact whose telephone failed, and the stored announcement counts exactly the messages that
  went out and the contacts there were.
\<close>

theorem announcement_delivered:
  "case send_announcement c (failing_provider bad) title body audience programme actor p s of
     (Inl e, p') \<Rightarrow>
       announcement_contacts audience programme actor s = Inl e \<and> p' = p \<or>
       (\<exists>contacts. announcement_contacts audience programme actor s = Inr contacts \<and>
          p' = p @ concat (map (messages_for bad title body) contacts))
   | (Inr (k, s'), p') \<Rightarrow> \<exists>contacts sent a. p' = p @ sent \<and>
       sent = concat (map (messages_for bad title body) contacts) \<and>
       get_row (announcements s) k = None \<and> get_row (announcements s') k = Some a \<and>
       ann_title a = title \<and> ann_body a = body \<and> ann_audience_type a = audience \<and> ann_programme a = programme \<and>
       ann_recipient_count a = length contacts \<and> ann_sms_sent_count a = length (filter is_sms sent) \<and>
       ann_email_sent_count a = length (filter (\<lambda>m. \<not> is_sms m) sent) \<and>
       (case audience of
          Aud_Programme \<Rightarrow> \<exists>g. programme = Some g \<and> contacts = active_student_contacts (Some g) s \<and>
            (case actor of None \<Rightarrow> True
             | Some u \<Rightarrow> if has_role u [''hod''] s \<and> \<not> has_role u [''registrar'', ''management'', ''ict_admin''] s
                 then map_option Inr (department_of u s) = Some (department_id_for_programme g s) else True)
        | Aud_All_Students \<Rightarrow> contacts = active_student_contacts None s \<and>
            (\<exists>u. actor = Some u \<and> user_has_perm u s ''communications.broadcast_all'')
        | Aud_Alumni \<Rightarrow> contacts = active_alumni_contacts s \<and>
            (\<exists>u. actor = Some u \<and> user_has_perm u s ''communications.broadcast_all''))"
proof (cases "announcement_contacts audience programme actor s")
  case (Inl e)
  then show ?thesis by (simp add: send_announcement_def)
next
  case (Inr contacts)
  define sent where "sent = concat (map (messages_for bad title body) contacts)"
  define a where "a = \<lparr>ann_title = title, ann_body = body, ann_audience_type = audience, ann_programme = programme,
    ann_created_by = actor, ann_sent_at = now c, ann_recipient_count = length contacts,
    ann_sms_sent_count = length (filter is_sms sent), ann_email_sent_count = length (filter (\<lambda>m. \<not> is_sms m) sent)\<rparr>"
  have run: "send_announcement c (failing_provider bad) title body audience programme actor p s =
      (bindE (announcement_full_clean a s) (\<lambda>_.
         insert_audited c announcement_meta announcement_audit announcements put_announcements a
           (''Sent to '' @ str_nat (length contacts) @ '' recipient(s)'') s), p @ sent)"
    by (simp add: send_announcement_def Inr notify_contacts_tally tally_def a_def sent_def Let_def)
  have audience: "case audience of
          Aud_Programme \<Rightarrow> \<exists>g. programme = Some g \<and> contacts = active_student_contacts (Some g) s \<and>
            (case actor of None \<Rightarrow> True
             | Some u \<Rightarrow> if has_role u [''hod''] s \<and> \<not> has_role u [''registrar'', ''management'', ''ict_admin''] s
                 then map_option Inr (department_of u s) = Some (department_id_for_programme g s) else True)
        | Aud_All_Students \<Rightarrow> contacts = active_student_contacts None s \<and>
            (\<exists>u. actor = Some u \<and> user_has_perm u s ''communications.broadcast_all'')
        | Aud_Alumni \<Rightarrow> contacts = active_alumni_contacts s \<and>
            (\<exists>u. actor = Some u \<and> user_has_perm u s ''communications.broadcast_all'')"
    using Inr unfolding announcement_contacts_def Let_def
    by (cases audience) (auto split: option.splits if_splits elim!: bindE_InrE)
  show ?thesis
  proof (cases "fst (send_announcement c (failing_provider bad) title body audience programme actor p s)")
    case (Inl e)
    then have "send_announcement c (failing_provider bad) title body audience programme actor p s = (Inl e, p @ sent)"
      unfolding run by simp
    then show ?thesis using Inr by (simp add: sent_def)
  next
    case (Inr x)
    obtain k s' where x: "x = (k, s')" by (cases x)
    have res: "send_announcement c (failing_provider bad) title body audience programme actor p s = (Inr (k, s'), p @ sent)"
      using Inr unfolding run x by simp
    from Inr have "insert_audited c announcement_meta announcement_audit announcements put_announcements a
        (''Sent to '' @ str_nat (length contacts) @ '' recipient(s)'') s = Inr (k, s')"
      unfolding run x by (auto elim!: bindE_InrE)
    then have row: "get_row (announcements s) k = None" "get_row (announcements s') k = Some a"
      by (auto elim!: insert_audited_Inr simp: get_add_row)
    have "ann_title a = title \<and> ann_body a = body \<and> ann_audience_type a = audience \<and> ann_programme a = programme \<and>
       ann_recipient_count a = length contacts \<and> ann_sms_sent_count a = length (filter is_sms sent) \<and>
       ann_email_sent_count a = length (filter (\<lambda>m. \<not> is_sms m) sent)" by (simp add: a_def)
    with row audience show ?thesis unfolding res
      by (simp only: prod.case sum.case) (intro exI [of _ contacts] exI [of _ sent] exI [of _ a], simp only: sent_def simp_thms)
  qed
qed

section \<open>What the services let through\<close>

text \<open>
  The audience and the programme are compared after the messages went out: a broadcast that names a
  programme is refused when everybody has it already.
\<close>

lemma sent_then_refused:
  assumes "user_has_perm u s ''communications.broadcast_all''"
  shows "send_announcement c recording_provider title body Aud_All_Students (Some g) (Some u) p s =
    (Inl ValidationError, p @ concat (map (messages_for (\<lambda>_. False) title body) (active_student_contacts None s)))"
  using assms unfolding recording_never_fails
  by (simp add: send_announcement_def announcement_contacts_def notify_contacts_tally tally_def announcement_full_clean_def
      announcement_clean_def ensure_def)

text \<open>A profile exists for graduates only, one for each.\<close>

lemma alumni_profile_of_graduate:
  assumes "create_alumni_profile valid_mail c student given s = Inr (k, s')"
  shows "\<exists>a. is_graduated student s = Inr True \<and> get_row (alumni_profiles s') k = Some a \<and> alm_student a = student \<and>
    \<not> exists_row (\<lambda>_ b. alm_student b = student) (alumni_profiles s)"
proof -
  define a where "a = given\<lparr>alm_student := student, alm_created_at := now c\<rparr>"
  from assms have grad: "is_graduated student s = Inr True" and clean: "alumni_full_clean valid_mail None a s = Inr ()"
    and ins: "insert_audited c alumni_meta alumni_audit alumni_profiles put_alumni a ''Alumni profile created'' s = Inr (k, s')"
    unfolding create_alumni_profile_def a_def by (auto simp: Let_def split: if_splits elim!: bindE_InrE)
  have "\<not> exists_row (\<lambda>_ b. alm_student b = student) (alumni_profiles s)"
    using clean by (simp add: alumni_full_clean_def ensure_eq_Inr a_def)
  moreover have "get_row (alumni_profiles s') k = Some a" using ins by (auto elim!: insert_audited_Inr simp: get_add_row)
  moreover have "alm_student a = student" by (simp add: a_def)
  ultimately show ?thesis using grad by blast
qed

end
