(* ===== verification/Reporting.thy ===== *)
theory Reporting
  imports Community
begin

text \<open>
  Reports over the other modules: the dashboard and its widgets, the catalogue of reports and
  their export as CSV or as a worksheet (\<open>reporting/models.py\<close>, \<open>services.py\<close>, \<open>views.py\<close>, and
  \<open>student_register\<close> of \<open>registry/services.py\<close>).
\<close>

section \<open>The dashboard\<close>

record dashboard_widget =
  dw_key :: string
  dw_label :: string
  dw_is_enabled :: bool
  dw_sort_order :: nat

record reporting_db = community_db +
  dashboard_widgets :: "dashboard_widget table"

text \<open>What \<open>DashboardWidgetViewSet\<close> saves: the checks of the fields, a unique key. Nothing is audited.\<close>

definition widget_valid :: "nat option \<Rightarrow> dashboard_widget \<Rightarrow> 'a reporting_db_scheme \<Rightarrow> bool" where
  "widget_valid pk w s \<longleftrightarrow> dw_key w \<noteq> [] \<and> length (dw_key w) \<le> 50 \<and> dw_label w \<noteq> [] \<and> length (dw_label w) \<le> 100 \<and>
     dw_sort_order w \<le> 32767 \<and> \<not> exists_row (\<lambda>k b. Some k \<noteq> pk \<and> dw_key b = dw_key w) (dashboard_widgets s)"

definition widget_access :: view_access where
  "widget_access = by_method [(''SAFE'', Holding [''reporting.view_dashboardwidget'']),
     (''POST'', Holding [''reporting.add_dashboardwidget'']), (''PUT'', Holding [''reporting.change_dashboardwidget'']),
     (''PATCH'', Holding [''reporting.change_dashboardwidget'']), (''DELETE'', Holding [''reporting.delete_dashboardwidget''])]"

definition create_widget :: "nat \<Rightarrow> dashboard_widget \<Rightarrow> 'a reporting_db_scheme \<Rightarrow> exn + nat \<times> 'a reporting_db_scheme" where
  "create_widget u w s =
     guarded (module_permission widget_access ''POST'' (Some u) s)
       (if widget_valid None w s
        then Inr (fresh_pk (dashboard_widgets s), s\<lparr>dashboard_widgets := add_row w (dashboard_widgets s)\<rparr>)
        else Inl ValidationError)"

definition update_widget ::
  "nat \<Rightarrow> nat \<Rightarrow> (dashboard_widget \<Rightarrow> dashboard_widget) \<Rightarrow> 'a reporting_db_scheme \<Rightarrow> exn + 'a reporting_db_scheme" where
  "update_widget u k change s =
     guarded (module_permission widget_access ''PATCH'' (Some u) s)
       (case get_row (dashboard_widgets s) k of
          None \<Rightarrow> Inl DoesNotExist
        | Some w \<Rightarrow> if widget_valid (Some k) (change w) s
                    then Inr (s\<lparr>dashboard_widgets := put_row k (change w) (dashboard_widgets s)\<rparr>) else Inl ValidationError)"

definition delete_widget :: "nat \<Rightarrow> nat \<Rightarrow> 'a reporting_db_scheme \<Rightarrow> exn + 'a reporting_db_scheme" where
  "delete_widget u k s =
     guarded (module_permission widget_access ''DELETE'' (Some u) s)
       (if get_row (dashboard_widgets s) k = None then Inl DoesNotExist
        else Inr (s\<lparr>dashboard_widgets := filter_rows (\<lambda>j _. j \<noteq> k) (dashboard_widgets s)\<rparr>))"

datatype widget_data = EnrollmentData enrollment_report | RevenueData revenue_report | RatioData "nat \<times> nat \<times> rat option"

definition computed_widget :: "string \<Rightarrow> 'a reporting_db_scheme \<Rightarrow> widget_data option" where
  "computed_widget key s =
     (if key = ''enrollment'' then Some (EnrollmentData (enrollment_counts None s))
      else if key = ''revenue'' then Some (RevenueData (revenue_summary None s))
      else if key = ''ratios'' then Some (RatioData (staff_student_ratio s))
      else None)"

definition dashboard_data :: "'a reporting_db_scheme \<Rightarrow> (string \<times> string \<times> widget_data) list" where
  "dashboard_data s =
     List.map_filter (\<lambda>w. map_option (\<lambda>d. (dw_key w, dw_label w, d)) (computed_widget (dw_key w) s))
       (sort_key dw_sort_order (sort_key dw_key (map snd (filter_rows (\<lambda>_ w. dw_is_enabled w) (dashboard_widgets s)))))"

section \<open>Reports\<close>

text \<open>A row of a report: its keys and values, in order.\<close>

type_synonym report_row = "(string \<times> pyval) list"

definition UnknownReport :: exn where "UnknownReport = DomainError ''unknown_report'' 404"
definition MissingReportParameter :: exn where "MissingReportParameter = DomainError ''missing_report_parameter'' 400"

definition as_int :: "(string \<times> string) list \<Rightarrow> string \<Rightarrow> exn + int option" where
  "as_int params name =
     (case map_of params name of
        None \<Rightarrow> Inr None
      | Some v \<Rightarrow> if v = [] then Inr None else bindE (py_int (VStr v)) (\<lambda>i. Inr (Some i)))"

definition student_register :: "int option \<Rightarrow> 'a registry_db_scheme \<Rightarrow> report_row list" where
  "student_register year s =
     map (\<lambda>(_, st).
         [(''student_number'', VStr (st_student_id st)), (''name'', VStr (student_full_name st)),
          (''gender'', VStr (st_gender st)), (''has_disability'', VBool (st_has_disability st)),
          (''state_of_origin'', VStr (st_state_of_origin st)),
          (''programme'', VStr (case get_row (programmes s) (st_programme st) of None \<Rightarrow> [] | Some p \<Rightarrow> prog_name p)),
          (''level'', VInt (int (st_current_level st)))])
       (sort_key (\<lambda>(_, st). st_programme st) (sort_key (\<lambda>(_, st). st_last_name st)
         (filter (\<lambda>(_, st). case year of None \<Rightarrow> True | Some y \<Rightarrow> int (st_entry_academic_year st) = y) (active_students None s))))"

definition enrollment_rows :: "(string \<times> string) list \<Rightarrow> 'a reporting_db_scheme \<Rightarrow> exn + report_row list" where
  "enrollment_rows params s = bindE (as_int params ''academic_year'') (\<lambda>year. Inr (student_register year s))"

definition defaulter_cells :: "defaulter_row \<Rightarrow> report_row" where
  "defaulter_cells r =
     [(''invoice_id'', VInt (int (df_invoice_id r))), (''invoice_number'', VStr (df_invoice_number r)),
      (''student_id'', VInt (int (df_student_id r))), (''student_number'', VStr (df_student_number r)),
      (''student_name'', VStr (df_student_name r)), (''semester_id'', VInt (int (df_semester_id r))),
      (''balance'', VStr (str_decimal (df_balance r))), (''currency'', VStr (df_currency r)),
      (''due_date'', VText (iso_date (df_due_date r))), (''days_overdue'', VInt (df_days_overdue r))]"

definition defaulters_rows :: "ctx \<Rightarrow> (string \<times> string) list \<Rightarrow> 'a reporting_db_scheme \<Rightarrow> exn + report_row list" where
  "defaulters_rows c params s =
     bindE (as_int params ''semester'') (\<lambda>semester. Inr (map defaulter_cells
       (case semester of
          None \<Rightarrow> defaulter_report c None s
        | Some i \<Rightarrow> if i < 0 then [] else defaulter_report c (Some (nat i)) s)))"

text \<open>
  The pass rate of a course. The percentage that the code adds, a rounded floating-point quotient of the
  two counts, is left out.
\<close>

record pass_rate =
  psr_passed :: nat
  psr_failed :: nat
  psr_incomplete :: nat
  psr_rows :: "report_row list"

definition pass_rate_row :: "course_report \<Rightarrow> report_row" where
  "pass_rate_row r =
     [(''registration_id'', VInt (int (rep_registration r))),
      (''percent'', case rep_percent r of None \<Rightarrow> VNone | Some p \<Rightarrow> VDec p),
      (''letter'', case rep_letter r of None \<Rightarrow> VNone | Some t \<Rightarrow> VStr t),
      (''is_pass'', case rep_is_pass r of None \<Rightarrow> VNone | Some b \<Rightarrow> VBool b)]"

fun tally_results :: "course_report list \<Rightarrow> pass_rate \<Rightarrow> pass_rate" where
  "tally_results [] t = t"
| "tally_results (r # rs) t =
     (let t1 = (case rep_is_pass r of
                  None \<Rightarrow> t\<lparr>psr_incomplete := psr_incomplete t + 1\<rparr>
                | Some True \<Rightarrow> t\<lparr>psr_passed := psr_passed t + 1\<rparr>
                | Some False \<Rightarrow> t\<lparr>psr_failed := psr_failed t + 1\<rparr>)
      in tally_results rs (t1\<lparr>psr_rows := psr_rows t1 @ [pass_rate_row r]\<rparr>))"

definition pass_rate_report :: "int \<Rightarrow> int \<Rightarrow> 'a reporting_db_scheme \<Rightarrow> pass_rate" where
  "pass_rate_report course semester s =
     tally_results (map (\<lambda>k. course_result k s)
         (if course < 0 \<or> semester < 0 then [] else active_registration_ids (nat course) (nat semester) s))
       \<lparr>psr_passed = 0, psr_failed = 0, psr_incomplete = 0, psr_rows = []\<rparr>"

definition pass_rate_rows :: "(string \<times> string) list \<Rightarrow> 'a reporting_db_scheme \<Rightarrow> exn + report_row list" where
  "pass_rate_rows params s =
     bindE (as_int params ''course'') (\<lambda>course. bindE (as_int params ''semester'') (\<lambda>semester.
       case (course, semester) of
         (Some x, Some y) \<Rightarrow> Inr (psr_rows (pass_rate_report x y s))
       | _ \<Rightarrow> Inl MissingReportParameter))"

definition report_rows :: "ctx \<Rightarrow> string \<Rightarrow> (string \<times> string) list \<Rightarrow> 'a reporting_db_scheme \<Rightarrow> exn + report_row list" where
  "report_rows c key params s =
     (if key = ''student_register'' then enrollment_rows params s
      else if key = ''defaulters'' then defaulters_rows c params s
      else if key = ''pass_rate'' then pass_rate_rows params s
      else Inl UnknownReport)"

section \<open>Export\<close>

fun cell_text :: "pyval \<Rightarrow> string" where
  "cell_text VNone = []"
| "cell_text (VStr t) = t"
| "cell_text (VInt i) = str_int i"
| "cell_text (VBool b) = (if b then ''True'' else ''False'')"
| "cell_text (VDec q) = str_decimal q"
| "cell_text (VText t) = t"

text \<open>
  \<open>csv.DictWriter\<close> with the dialect of Excel: a field with a comma, a quote or a line break is
  quoted, quotes in it are doubled; a row that is one empty field is written as a pair of quotes.
  The values are looked up by the keys of the first row, a further key is an error.
\<close>

definition CR :: char where "CR = CHR 0x0D"
definition LF :: char where "LF = CHR 0x0A"
definition QT :: char where "QT = CHR 0x22"

definition needs_quotes :: "string \<Rightarrow> bool" where
  "needs_quotes t = list_ex (\<lambda>ch. ch = CHR '','' \<or> ch = QT \<or> ch = CR \<or> ch = LF) t"

definition double_quotes :: "string \<Rightarrow> string" where
  "double_quotes t = concat (map (\<lambda>ch. if ch = QT then [QT, QT] else [ch]) t)"

definition csv_field :: "bool \<Rightarrow> string \<Rightarrow> string" where
  "csv_field alone t = (if needs_quotes t \<or> alone \<and> t = [] then QT # double_quotes t @ [QT] else t)"

fun csv_join :: "bool \<Rightarrow> string list \<Rightarrow> string" where
  "csv_join alone [] = []"
| "csv_join alone [t] = csv_field alone t"
| "csv_join alone (t # ts) = csv_field False t @ CHR '','' # csv_join False ts"

definition csv_line :: "string list \<Rightarrow> string" where
  "csv_line ts = csv_join True ts @ [CR, LF]"

definition dict_line :: "string list \<Rightarrow> report_row \<Rightarrow> exn + string" where
  "dict_line keys row =
     (if list_all (\<lambda>(k, _). k \<in> set keys) row
      then Inr (csv_line (map (\<lambda>k. case map_of row k of None \<Rightarrow> [] | Some v \<Rightarrow> cell_text v) keys)) else Inl ValueError)"

fun dict_lines :: "string list \<Rightarrow> report_row list \<Rightarrow> exn + string" where
  "dict_lines keys [] = Inr []"
| "dict_lines keys (r # rs) = bindE (dict_line keys r) (\<lambda>t. bindE (dict_lines keys rs) (\<lambda>ts. Inr (t @ ts)))"

definition rows_to_csv :: "report_row list \<Rightarrow> exn + string" where
  "rows_to_csv rows =
     (case rows of
        [] \<Rightarrow> Inr []
      | r # _ \<Rightarrow> let keys = map fst r in bindE (dict_lines keys rows) (\<lambda>t. Inr (csv_line keys @ t)))"

text \<open>The cells of the worksheet; writing the workbook is a call of a library.\<close>

definition rows_to_xlsx :: "report_row list \<Rightarrow> string list list" where
  "rows_to_xlsx rows = (case rows of [] \<Rightarrow> [] | r # _ \<Rightarrow> map fst r # map (map (cell_text \<circ> snd)) rows)"

datatype export_content = CsvText string | WorkSheet "string list list"

definition export_view ::
  "ctx \<Rightarrow> nat \<Rightarrow> string \<Rightarrow> (string \<times> string) list \<Rightarrow> 'a reporting_db_scheme \<Rightarrow> exn + export_content" where
  "export_view c u key params s =
     guarded (module_permission (holding ''reporting.export_statutoryreport'') ''GET'' (Some u) s)
       (let fmt = (case map_of params ''export_format'' of None \<Rightarrow> ''csv'' | Some t \<Rightarrow> t) in
        if fmt \<notin> {''csv'', ''xlsx''} then Inl (DomainError ''invalid_format'' 400)
        else bindE (report_rows c key (filter (\<lambda>(k, _). k \<noteq> ''export_format'') params) s) (\<lambda>rows.
          if fmt = ''csv'' then bindE (rows_to_csv rows) (\<lambda>t. Inr (CsvText t))
          else Inr (WorkSheet (rows_to_xlsx rows))))"

definition dashboard_view :: "nat \<Rightarrow> 'a reporting_db_scheme \<Rightarrow> exn + (string \<times> string \<times> widget_data) list" where
  "dashboard_view u s =
     guarded (module_permission (holding ''reporting.view_dashboard'') ''GET'' (Some u) s) (Inr (dashboard_data s))"

definition pass_rate_view :: "nat \<Rightarrow> int \<Rightarrow> int \<Rightarrow> 'a reporting_db_scheme \<Rightarrow> exn + pass_rate" where
  "pass_rate_view u course semester s =
     guarded (module_permission (holding ''reporting.view_dashboard'') ''GET'' (Some u) s) (Inr (pass_rate_report course semester s))"

section \<open>A reader of CSV\<close>

text \<open>
  The reference: what a reader of the dialect makes of a text. The state says where in a field it
  stands; the field and the row read so far are kept.
\<close>

datatype csv_state = AtStart | InPlain | InQuotes | QuoteSeen

fun read_csv :: "csv_state \<Rightarrow> string \<Rightarrow> string list \<Rightarrow> string \<Rightarrow> string list list" where
  "read_csv st f r [] = (if st = AtStart \<and> r = [] then [] else [r @ [f]])"
| "read_csv InQuotes f r (ch # cs) =
     (if ch = QT then read_csv QuoteSeen f r cs else read_csv InQuotes (f @ [ch]) r cs)"
| "read_csv st f r (ch # cs) =
     (if ch = CHR '','' then read_csv AtStart [] (r @ [f]) cs
      else if ch = CR then read_csv st f r cs
      else if ch = LF then (r @ [f]) # read_csv AtStart [] [] cs
      else if ch = QT \<and> st = AtStart then read_csv InQuotes f r cs
      else if ch = QT \<and> st = QuoteSeen then read_csv InQuotes (f @ [QT]) r cs
      else read_csv (if st = AtStart then InPlain else st) (f @ [ch]) r cs)"

lemma char_neq [simp]: "CR \<noteq> LF" "LF \<noteq> CR" "CR \<noteq> QT" "QT \<noteq> CR" "LF \<noteq> QT" "QT \<noteq> LF" "CR \<noteq> CHR '',''" "LF \<noteq> CHR '',''"
  "QT \<noteq> CHR '',''" "CHR '','' \<noteq> CR" "CHR '','' \<noteq> LF" "CHR '','' \<noteq> QT"
  by (simp_all add: CR_def LF_def QT_def)

lemma read_quoted: "read_csv InQuotes f r (double_quotes t @ QT # cs) = read_csv QuoteSeen (f @ t) r cs"
proof (induction t arbitrary: f)
  case Nil
  then show ?case by (simp add: double_quotes_def)
next
  case (Cons x xs)
  have step: "read_csv InQuotes f r ((if x = QT then [QT, QT] else [x]) @ rest) = read_csv InQuotes (f @ [x]) r rest" for rest
    by simp
  have "double_quotes (x # xs) @ QT # cs = (if x = QT then [QT, QT] else [x]) @ double_quotes xs @ QT # cs"
    by (simp add: double_quotes_def)
  then show ?case by (simp only: step Cons.IH) simp
qed

lemma read_plain_more:
  "list_all (\<lambda>ch. ch \<notin> {CHR '','', QT, CR, LF}) t \<Longrightarrow> read_csv InPlain f r (t @ cs) = read_csv InPlain (f @ t) r cs"
  by (induction t arbitrary: f) simp_all

lemma read_field:
  obtains st where "st \<noteq> InQuotes" and "\<And>cs. read_csv AtStart [] r (csv_field alone t @ cs) = read_csv st t r cs"
proof (cases "needs_quotes t \<or> alone \<and> t = []")
  case True
  then show thesis by (intro that [of QuoteSeen]) (simp_all add: csv_field_def read_quoted)
next
  case False
  then have plain: "list_all (\<lambda>ch. ch \<notin> {CHR '','', QT, CR, LF}) t" and field: "csv_field alone t = t"
    by (auto simp: needs_quotes_def list_ex_iff list_all_iff csv_field_def)
  show thesis
  proof (cases t)
    case Nil
    then show thesis using field by (intro that [of AtStart]) simp_all
  next
    case (Cons x xs)
    have "read_csv AtStart [] r ((x # xs) @ cs) = read_csv InPlain (x # xs) r cs" for cs
      using plain read_plain_more [of xs "[x]" r cs] unfolding Cons by simp
    then show thesis using field Cons by (intro that [of InPlain]) simp_all
  qed
qed

lemma read_comma: "st \<noteq> InQuotes \<Longrightarrow> read_csv st f r (CHR '','' # cs) = read_csv AtStart [] (r @ [f]) cs"
  by (cases st) simp_all

lemma read_break: "st \<noteq> InQuotes \<Longrightarrow> read_csv st f r (CR # LF # cs) = (r @ [f]) # read_csv AtStart [] [] cs"
  by (cases st) simp_all

lemma read_fields: "ts \<noteq> [] \<Longrightarrow> read_csv AtStart [] r (csv_join alone ts @ CR # LF # cs) = (r @ ts) # read_csv AtStart [] [] cs"
proof (induction alone ts arbitrary: r rule: csv_join.induct)
  case (2 alone t)
  obtain st where "st \<noteq> InQuotes" and "read_csv AtStart [] r (csv_field alone t @ CR # LF # cs) = read_csv st t r (CR # LF # cs)"
    using read_field [of r alone t] by metis
  then show ?case by (simp add: read_break)
next
  case (3 alone t u us)
  obtain st where "st \<noteq> InQuotes"
    and "read_csv AtStart [] r (csv_field False t @ CHR '','' # csv_join False (u # us) @ CR # LF # cs) =
      read_csv st t r (CHR '','' # csv_join False (u # us) @ CR # LF # cs)"
    using read_field [of r False t] by metis
  then show ?case using 3 by (simp add: read_comma)
qed simp

lemma read_line: "ts \<noteq> [] \<Longrightarrow> read_csv AtStart [] [] (csv_line ts @ cs) = ts # read_csv AtStart [] [] cs"
  using read_fields [of ts "[]" True cs] by (simp add: csv_line_def)

section \<open>What is written is read back\<close>

definition uniform :: "string list \<Rightarrow> report_row list \<Rightarrow> bool" where
  "uniform keys rows \<longleftrightarrow> list_all (\<lambda>r. map fst r = keys) rows"

lemma dict_line_uniform:
  assumes "map fst row = keys" and "distinct keys"
  shows "dict_line keys row = Inr (csv_line (map (cell_text \<circ> snd) row))"
proof -
  have "list_all (\<lambda>(k, _). k \<in> set keys) row" using assms(1) by (force simp: list_all_iff)
  moreover have "map (\<lambda>k. case map_of row k of None \<Rightarrow> [] | Some v \<Rightarrow> cell_text v) keys = map (cell_text \<circ> snd) row"
    unfolding assms(1) [symmetric] using assms by (auto intro!: map_cong)
  ultimately show ?thesis unfolding dict_line_def by simp
qed

lemma read_dict_lines:
  assumes "uniform keys rows" and "distinct keys" and "keys \<noteq> []"
  shows "\<exists>t. dict_lines keys rows = Inr t \<and> read_csv AtStart [] [] t = map (map (cell_text \<circ> snd)) rows"
  using assms(1)
proof (induction rows)
  case Nil
  then show ?case by simp
next
  case (Cons r rs)
  then have r: "map fst r = keys" and rs: "uniform keys rs" by (simp_all add: uniform_def)
  from Cons.IH [OF rs] obtain t where t: "dict_lines keys rs = Inr t"
    "read_csv AtStart [] [] t = map (map (cell_text \<circ> snd)) rs" by blast
  have "map (cell_text \<circ> snd) r \<noteq> []" using r assms(3) by auto
  with t show ?case by (simp add: dict_line_uniform [OF r assms(2)] read_line)
qed

lemma rows_to_csv_read:
  assumes "uniform keys rows" and "distinct keys" and "keys \<noteq> []"
  shows "\<exists>t. rows_to_csv rows = Inr t \<and> read_csv AtStart [] [] t = rows_to_xlsx rows"
proof (cases rows)
  case Nil
  then show ?thesis by (simp add: rows_to_csv_def rows_to_xlsx_def)
next
  case (Cons r rs)
  then have r: "map fst r = keys" using assms(1) by (simp add: uniform_def)
  from read_dict_lines [OF assms] obtain t where t: "dict_lines keys rows = Inr t"
    "read_csv AtStart [] [] t = map (map (cell_text \<circ> snd)) rows" by blast
  then have "rows_to_csv rows = Inr (csv_line keys @ t)" using r Cons by (simp add: rows_to_csv_def Let_def)
  moreover have "read_csv AtStart [] [] (csv_line keys @ t) = rows_to_xlsx rows"
    using t(2) r Cons assms(3) by (simp add: read_line rows_to_xlsx_def)
  ultimately show ?thesis by blast
qed

lemma tally_results_rows:
  "tally_results rs t = \<lparr>psr_passed = psr_passed t + length (filter (\<lambda>r. rep_is_pass r = Some True) rs),
     psr_failed = psr_failed t + length (filter (\<lambda>r. rep_is_pass r = Some False) rs),
     psr_incomplete = psr_incomplete t + length (filter (\<lambda>r. rep_is_pass r = None) rs),
     psr_rows = psr_rows t @ map pass_rate_row rs\<rparr>"
proof (induction rs t rule: tally_results.induct)
  case (1 t)
  then show ?case by simp
next
  case (2 r rs t)
  then show ?case by (simp add: Let_def split: option.splits bool.splits)
qed

lemma report_rows_uniform:
  assumes "report_rows c key params s = Inr rows"
  obtains keys where "uniform keys rows" and "distinct keys" and "keys \<noteq> []"
proof -
  let ?register = "[''student_number'', ''name'', ''gender'', ''has_disability'', ''state_of_origin'', ''programme'', ''level'']"
  let ?defaulters = "[''invoice_id'', ''invoice_number'', ''student_id'', ''student_number'', ''student_name'', ''semester_id'',
    ''balance'', ''currency'', ''due_date'', ''days_overdue'']"
  let ?pass = "[''registration_id'', ''percent'', ''letter'', ''is_pass'']"
  have "uniform ?register (student_register y s)" for y
    by (auto simp: uniform_def student_register_def list_all_iff)
  moreover have "uniform ?defaulters (map defaulter_cells rs)" for rs
    by (auto simp: uniform_def defaulter_cells_def list_all_iff)
  moreover have "uniform ?pass (psr_rows (pass_rate_report x y s))" for x y
    by (auto simp: uniform_def pass_rate_report_def tally_results_rows pass_rate_row_def list_all_iff)
  ultimately have "uniform ?register rows \<or> uniform ?defaulters rows \<or> uniform ?pass rows"
    using assms unfolding report_rows_def enrollment_rows_def defaulters_rows_def pass_rate_rows_def
    by (auto split: if_splits option.splits elim!: bindE_InrE)
  moreover have "distinct ?register \<and> distinct ?defaulters \<and> distinct ?pass" by code_simp
  ultimately show thesis using that by blast
qed

text \<open>The counts of the pass rate add up to the registrations of the course.\<close>

lemma pass_rate_adds_up:
  assumes "0 \<le> course" and "0 \<le> semester"
  shows "psr_passed (pass_rate_report course semester s) + psr_failed (pass_rate_report course semester s) +
    psr_incomplete (pass_rate_report course semester s) = length (active_registration_ids (nat course) (nat semester) s)"
proof -
  have count: "length (filter (\<lambda>r. rep_is_pass r = Some True) rs) + length (filter (\<lambda>r. rep_is_pass r = Some False) rs) +
      length (filter (\<lambda>r. rep_is_pass r = None) rs) = length rs" for rs :: "course_report list"
  proof (induction rs)
    case (Cons a rs)
    then show ?case by (cases "rep_is_pass a") auto
  qed simp
  define rs where "rs = map (\<lambda>k. course_result k s) (active_registration_ids (nat course) (nat semester) s)"
  have "pass_rate_report course semester s = tally_results rs \<lparr>psr_passed = 0, psr_failed = 0, psr_incomplete = 0, psr_rows = []\<rparr>"
    using assms unfolding pass_rate_report_def rs_def by simp
  moreover have "length rs = length (active_registration_ids (nat course) (nat semester) s)" by (simp add: rs_def)
  ultimately show ?thesis using count [of rs] by (simp add: tally_results_rows)
qed

section \<open>Properties\<close>

text \<open>
  C32. An exported report loses nothing. Whatever names, comments, quotes and line breaks its cells
  hold, every report of the catalogue can be written as CSV, and reading the text gives back row
  by row and cell by cell the worksheet that the other format writes.
\<close>

theorem report_csv_roundtrip:
  "case report_rows c key params s of Inl _ \<Rightarrow> True
   | Inr rows \<Rightarrow> \<exists>text. rows_to_csv rows = Inr text \<and> read_csv AtStart [] [] text = rows_to_xlsx rows"
proof (cases "report_rows c key params s")
  case (Inr rows)
  then obtain keys where "uniform keys rows" and "distinct keys" and "keys \<noteq> []" by (rule report_rows_uniform)
  from rows_to_csv_read [OF this] Inr show ?thesis by simp
qed simp

section \<open>What the views let through\<close>

text \<open>A parameter that is not a number is no answer of the API but an error of the server.\<close>

lemma report_parameter_unchecked: "report_rows c ''defaulters'' [(''semester'', ''all'')] s = Inl ValueError"
proof -
  have "py_int (VStr ''all'') = Inl ValueError" by code_simp
  then show ?thesis by (simp add: report_rows_def defaulters_rows_def as_int_def del: py_int.simps)
qed

end
