(* ===== verification/Spec2Isabelle.thy ===== *)
theory Spec2Isabelle
  imports Reporting
begin

text \<open>
  A model of the back end of UniACMIS, the university information system under
  \<open>src/backend\<close>, and of the rules its modules keep.

  \<^bold>\<open>The program.\<close> The back end is a Django project of modules (\<open>src/backend/apps\<close>). A module has
  tables (\<open>models.py\<close>), services that change them (\<open>services.py\<close>), views that call the services
  and in a few places save a row themselves (\<open>views.py\<close>), and sometimes a handler for operations
  that a client queued while it was offline (\<open>sync.py\<close>).
  All of them write to one hash-chained audit trail (\<open>audit\<close>), ask the providers of holds
  whether a student is blocked (\<open>core/services/holds.py\<close>), and number their documents from the
  sequences of \<open>core/models.py\<close>.

  \<^bold>\<open>State.\<close> The database is one record that every module extends: \<open>core_db\<close>, \<open>sync_db\<close>,
  \<open>academics_db\<close>, \<open>curriculum_db\<close>, \<open>registry_db\<close>, \<open>admissions_db\<close>, \<open>enrollment_db\<close>,
  \<open>hostel_db\<close>, \<open>finance_db\<close>, \<open>timetabling_db\<close>, \<open>attendance_db\<close>, \<open>exam_db\<close>, \<open>library_db\<close>, \<open>accounts_db\<close>, \<open>hr_db\<close>, \<open>documents_db\<close>, \<open>community_db\<close>, \<open>reporting_db\<close>. A table is an association list from primary keys to rows;
  \<open>fresh_pk\<close> is the key of the next row. An operation takes the request context (\<open>ctx\<close>: the
  time, the acting user, the client's address, whether the audit table can be written) and the
  database and returns
  either an exception of the datatype \<open>exn\<close>, which stands for the rollback of
  \<open>transaction.atomic\<close>, or the result with the new database. \<open>full_clean\<close> and the constraints of
  the tables are part of every save.

  \<^bold>\<open>Theories and the code they model.\<close>
  \<^item> \<open>Prelude\<close>: exceptions as a sum, tables, texts. \<open>Py_Decimal\<close>: \<open>decimal\<close> with 28 digits and
    the two rounding modes. \<open>Platform\<close>: request context, exceptions, sequences
    (\<open>core/context.py\<close>, \<open>core/exceptions.py\<close>, \<open>core/models.py\<close>). \<open>Json_Text\<close>, \<open>Sha256\<close>: the
    serialisation and the digest of the audit trail.
  \<^item> \<open>Audit_Trail\<close> (\<open>audit\<close>): writing, sealing and verifying entries, the append-only table,
    \<open>AuditedModel.save\<close>. The lemmas say what the chain detects and what it does not; the address of
    the client is hashed as the header gave it and stored as the column normalises it
    (\<open>ip_column\<close> of the context), which breaks the chain unless the two agree.
  \<^item> \<open>Sync_Engine\<close> (\<open>core/sync\<close>): one operation, batches, conflicts. Its locale \<open>sync_registry\<close> is
    the contract of the handlers; this theory interprets it on the handlers of the modules.
  \<^item> \<open>Money\<close> (\<open>core/fields.py\<close>), \<open>Holds\<close> (\<open>core/services\<close>, with the locale \<open>hold_provider\<close>),
    \<open>Payments\<close> (\<open>core/providers/payments.py\<close>), \<open>State_Machines\<close> (a locale for status columns that
    move forward only), \<open>Persistence\<close> (saves of audited rows), \<open>Payload\<close> (numbers in payloads).
  \<^item> \<open>Academics\<close>, \<open>Grading\<close> (\<open>academics\<close>): calendar, configuration, grading scales, averages,
    degree classes. \<open>Curriculum\<close>: courses and the acyclic prerequisites. \<open>Id_Generation\<close>: templates
    of student and application numbers.
  \<^item> \<open>Registry\<close>, \<open>Merit_List\<close>, \<open>Admissions\<close>, \<open>Enrollment\<close>, \<open>Hostel\<close>, \<open>Finance\<close> (definitions) and
    \<open>Finance_Ledger\<close> (its lemmas): the modules of the same names. The steps of the registry
    contain the edit of a record through the view (\<open>patch_student\<close>), so a run of the hostel
    (\<open>hostel_run\<close>) keeps the set of the students whose gender was edited.
  \<^item> \<open>Calendar_Dates\<close>: ordinals, ISO texts and weeks of dates. \<open>Timetabling\<close> (\<open>timetabling\<close>): rooms,
    classes and exams, with the locale \<open>booking\<close> for resources that are used once at a time;
    \<open>Attendance\<close> (\<open>attendance\<close>): registers, percentages, eligibility, waivers.
  \<^item> \<open>Examinations\<close> (\<open>examinations\<close>, definitions) and \<open>Exam_Results\<close> (its lemmas): marks, the results
    of courses and semesters, approvals, appeals. \<open>Table_Writes\<close>: what all saves of one row have
    in common. \<open>Library\<close> (\<open>library\<close>): the catalogue, loans and fines.
  \<^item> \<open>Role_Policy\<close> (\<open>accounts/roles.py\<close>): what each role may do. \<open>Accounts\<close> (the rest of
    \<open>accounts\<close>) and \<open>Account_Security\<close> (its lemmas): roles, groups, sign-in, the second factor;
    a user has the permissions of its roles. \<open>Access_Control\<close>: the permission class, the scoped
    lists and the actions of the views that depend on them. \<open>Human_Resources\<close> (\<open>hr\<close>): contracts,
    leave requests with their two approvals, appraisals and the payroll rows. \<open>Counters\<close>: no
    operation of any of these modules lowers a counter of \<open>core/models.py\<close>. \<open>Documents\<close> (\<open>documents\<close>): transcript
    requests, certificates, their serial numbers and the public verification. \<open>Community\<close>
    (\<open>alumni\<close>, \<open>communications\<close>): profiles of graduates, announcements and their delivery.
    \<open>Reporting\<close> (\<open>reporting\<close>): the dashboard, the reports and their export.
  \<^item> This theory: the table of sync handlers and the properties of the whole.

  \<^bold>\<open>What the lemmas show.\<close> For every module with tables there is a step relation of all its
  operations and of the modules below it, and an invariant kept by every step (unique keys,
  statuses that move forward, sums that agree). Further lemmas describe what a successful
  operation found and wrote, and compare computations in decimal arithmetic with exact ones.
  Each locale is interpreted on the definitions of the module that provides it.

  \<^bold>\<open>Bounds.\<close> No definition uses fuel: loops are structural recursions over tables or lists, the
  walk along the prerequisites and the texts of numbers have termination measures. Amounts are
  rationals; the bounds of the columns are the ones of the models (18 digits, two places).

  \<^bold>\<open>Not modelled.\<close> The REST layer (routing, pagination, rendering; of the views only those whose
  permission checks and scopes matter or which save a row the invariants speak of themselves),
  the admin site, migrations and the commands that load demo data, rendering of PDF files, delivery of mail and SMS, password hashing, one-time codes
  and tokens (parameters of the model). These are glue over Django and other packages. Operations
  run one at a time, as under the row locks the services take; concurrent interleavings
  inside one transaction are not modelled. The generic DELETE of the REST views is left out: the deletion of a student, which only a superuser may, and of the
  rows whose \<open>delete\<close> permission a role holds (rooms, timetable entries and exams, staff profiles,
  sponsors, rows of the curriculum). No service deletes a row of these tables. The gateways behind
  the notification port and the percentage of the pass rate, which is computed in floating
  point, are left out; the text of an error is not stored with a failed sync operation here.
  Texts are ordered by code points, whatever the collation of the database; the text of an
  amount is the one of its column, with two places.
\<close>

section \<open>The sync handlers of the back end\<close>

text \<open>
  The handlers that the start-up of the modules registers, in the order of the installed
  modules. A registration replaces the handler of the same entity.
\<close>

definition production_handlers :: "ctx \<Rightarrow> 'a library_db_scheme sync_handler list" where
  "production_handlers c = fold register_handler [StudentCreateHandler c, SessionRecordHandler c, MarkHandler c,
     LoanCheckoutHandler c, ManualPaymentHandler c] []"

lemma production_handlers_eq: "production_handlers c = [StudentCreateHandler c, SessionRecordHandler c, MarkHandler c,
     LoanCheckoutHandler c, ManualPaymentHandler c]"
  by (simp add: production_handlers_def register_handler_def StudentCreateHandler_def SessionRecordHandler_def MarkHandler_def
    LoanCheckoutHandler_def ManualPaymentHandler_def)

lemma student_create_ledger:
  assumes "student_create_apply c op u s = Inr (r, s')"
  shows "sync_operations s' = sync_operations s \<and> sync_conflicts s' = sync_conflicts s"
  using assms by (intro registry_step_ledger student_create_apply_step)

lemmas handler_defs = StudentCreateHandler_def SessionRecordHandler_def MarkHandler_def
    LoanCheckoutHandler_def ManualPaymentHandler_def

text \<open>Two lists of handlers that agree but for their code answer a look-up alike.\<close>

definition handler_interface :: "'s sync_handler \<Rightarrow> string \<times> string list \<times> string" where
  "handler_interface h = (sh_entity h, sh_actions h, sh_required_permission h)"

lemma same_interfaces:
  assumes "map handler_interface hs = map handler_interface hs'" and "get_handler e hs = Some h"
  shows "\<exists>h'. get_handler e hs' = Some h' \<and> handler_interface h' = handler_interface h"
  using assms
proof (induction hs arbitrary: hs')
  case Nil
  then show ?case by (simp add: get_handler_def)
next
  case (Cons a hs)
  then obtain b bs where hs': "hs' = b # bs" and ab: "handler_interface a = handler_interface b"
    and rest: "map handler_interface hs = map handler_interface bs" by auto
  from ab have "sh_entity a = sh_entity b" by (simp add: handler_interface_def)
  with Cons.IH [OF rest] Cons.prems(2) ab show ?case by (auto simp: hs' get_handler_def split: if_splits)
qed

lemma production_interfaces:
  "map handler_interface (production_handlers c) = map handler_interface (production_handlers c')"
  by (simp add: production_handlers_eq handler_interface_def handler_defs)

lemma production_apply:
  "sh_apply (StudentCreateHandler c) = student_create_apply c"
  "sh_apply (SessionRecordHandler c) = session_record_apply c"
  "sh_apply (MarkHandler c) = mark_apply c"
  "sh_apply (LoanCheckoutHandler c) = loan_apply c"
  "sh_apply (ManualPaymentHandler c) = manual_payment_apply c"
  by (simp_all add: handler_defs)

interpretation production: sync_registry production_handlers
proof
  fix h :: "'a library_db_scheme sync_handler" and c op u and s s' :: "'a library_db_scheme" and r
  assume h: "h \<in> set (production_handlers c)" and run: "sh_apply h op u s = Inr (r, s')"
  from h consider "h = StudentCreateHandler c" | "h = SessionRecordHandler c" | "h = MarkHandler c"
    | "h = LoanCheckoutHandler c" | "h = ManualPaymentHandler c"
    unfolding production_handlers_eq by fastforce
  then show "sync_operations s' = sync_operations s \<and> sync_conflicts s' = sync_conflicts s"
    using run by cases (simp only: production_apply, erule student_create_ledger session_record_ledger mark_apply_ledger
        loan_apply_ledger manual_payment_ledger)+
next
  fix e c c' and h :: "'a library_db_scheme sync_handler"
  assume "get_handler e (production_handlers c) = Some h"
  from same_interfaces [OF production_interfaces this, of c']
  show "\<exists>h'. get_handler e (production_handlers c') = Some h' \<and> sh_actions h' = sh_actions h \<and>
      sh_required_permission h' = sh_required_permission h"
    by (auto simp: handler_interface_def)
qed

section \<open>Properties across components\<close>

text \<open>
  C10. Sending a batch again is safe. Whatever has happened in a batch, replaying it later, or
  resuming it after an interruption behind any of its operations, has the effect of sending
  the missing operations only: the operations that were sent before are reported as
  duplicates or rejected, and change nothing.
\<close>

theorem batch_resumed:
  "snd (apply_batch c' (production_handlers c') (xs @ ys) actor (snd (apply_batch c (production_handlers c) xs actor s))) =
     snd (apply_batch c' (production_handlers c') ys actor (snd (apply_batch c (production_handlers c) xs actor s))) \<and>
   oc_status ` set (fst (apply_batch c' (production_handlers c') xs actor
       (snd (apply_batch c (production_handlers c) xs actor s)))) \<subseteq> {SyncDuplicate, SyncRejected}"
  using production.batch_resume production.replay_outcomes by blast

end
